(* ===== verification/Utf8.thy ===== *)
theory Utf8
  imports Prelude
begin

text \<open>
  UTF-8 validation as the Rust standard library does it: \<open>std::str::from_utf8\<close> (with
  \<open>valid_up_to\<close> and \<open>error_len\<close> of its error) and \<open>String::from_utf8_lossy\<close>.
\<close>

definition byte :: "char \<Rightarrow> nat" where "byte c = of_char c"

definition cont_byte :: "char \<Rightarrow> bool" where
  "cont_byte c \<longleftrightarrow> 128 \<le> byte c \<and> byte c \<le> 191"

text \<open>Width of a sequence by its first byte; 0 for a byte that starts none.\<close>

definition utf8_width :: "char \<Rightarrow> nat" where
  "utf8_width c =
     (let k = byte c in
      if k < 128 then 1
      else if 194 \<le> k \<and> k \<le> 223 then 2
      else if 224 \<le> k \<and> k \<le> 239 then 3
      else if 240 \<le> k \<and> k \<le> 244 then 4
      else 0)"

text \<open>The range of the second byte of a three or four byte sequence.\<close>

definition second_ok :: "char \<Rightarrow> char \<Rightarrow> bool" where
  "second_ok c d \<longleftrightarrow>
     (let k = byte c; j = byte d in
      if k = 224 then 160 \<le> j \<and> j \<le> 191
      else if k = 237 then 128 \<le> j \<and> j \<le> 159
      else if k = 240 then 144 \<le> j \<and> j \<le> 191
      else if k = 244 then 128 \<le> j \<and> j \<le> 143
      else 128 \<le> j \<and> j \<le> 191)"

text \<open>
  The first sequence of a non-empty input: a scalar value with the number of bytes after the
  first, an ill-formed sequence with the number of bytes after the first to skip
  (\<open>error_len - 1\<close>), or a sequence cut off by the end of the input.
\<close>

datatype utf8_item = Scalar nat | Ill_formed nat | Cut_off

fun utf8_first :: "char \<Rightarrow> bytes \<Rightarrow> utf8_item" where
  "utf8_first c rest =
     (if utf8_width c = 1 then Scalar 0
      else if utf8_width c = 2 then
        (case rest of [] \<Rightarrow> Cut_off | d # _ \<Rightarrow> if cont_byte d then Scalar 1 else Ill_formed 0)
      else if utf8_width c = 3 then
        (case rest of
           [] \<Rightarrow> Cut_off
         | [d] \<Rightarrow> if second_ok c d then Cut_off else Ill_formed 0
         | d # e # _ \<Rightarrow>
             if \<not> second_ok c d then Ill_formed 0
             else if cont_byte e then Scalar 2 else Ill_formed 1)
      else if utf8_width c = 4 then
        (case rest of
           [] \<Rightarrow> Cut_off
         | [d] \<Rightarrow> if second_ok c d then Cut_off else Ill_formed 0
         | [d, e] \<Rightarrow>
             if \<not> second_ok c d then Ill_formed 0
             else if cont_byte e then Cut_off else Ill_formed 1
         | d # e # f # _ \<Rightarrow>
             if \<not> second_ok c d then Ill_formed 0
             else if \<not> cont_byte e then Ill_formed 1
             else if cont_byte f then Scalar 3 else Ill_formed 2)
      else Ill_formed 0)"

declare utf8_first.simps [simp del]

datatype utf8_result =
    Utf8_Ok
  | Utf8_Err (valid_up_to: nat) (error_len: "nat option")

fun from_utf8_at :: "nat \<Rightarrow> bytes \<Rightarrow> utf8_result" where
  "from_utf8_at k [] = Utf8_Ok"
| "from_utf8_at k (c # cs) =
     (case utf8_first c cs of
        Scalar n \<Rightarrow> from_utf8_at (k + n + 1) (drop n cs)
      | Ill_formed n \<Rightarrow> Utf8_Err k (Some (n + 1))
      | Cut_off \<Rightarrow> Utf8_Err k None)"

definition from_utf8 :: "bytes \<Rightarrow> utf8_result" where
  "from_utf8 bs = from_utf8_at 0 bs"

definition utf8_ok :: "bytes \<Rightarrow> bool" where
  "utf8_ok bs \<longleftrightarrow> from_utf8 bs = Utf8_Ok"

text \<open>U+FFFD, the replacement character.\<close>

definition replacement :: bytes where
  "replacement = [CHR 0xEF, CHR 0xBF, CHR 0xBD]"

fun from_utf8_lossy :: "bytes \<Rightarrow> str" where
  "from_utf8_lossy [] = []"
| "from_utf8_lossy (c # cs) =
     (case utf8_first c cs of
        Scalar n \<Rightarrow> c # take n cs @ from_utf8_lossy (drop n cs)
      | Ill_formed n \<Rightarrow> replacement @ from_utf8_lossy (drop n cs)
      | Cut_off \<Rightarrow> replacement)"

section \<open>Facts about the validation\<close>

lemma from_utf8_at_ok_shift: "from_utf8_at k bs = Utf8_Ok \<longleftrightarrow> from_utf8_at j bs = Utf8_Ok"
proof (induction k bs arbitrary: j rule: from_utf8_at.induct)
  case (1 k)
  then show ?case by simp
next
  case (2 k c cs)
  show ?case
  proof (cases "utf8_first c cs")
    case (Scalar n)
    with 2 [of n "j + n + 1"] show ?thesis by simp
  qed simp_all
qed

lemma utf8_ok_Nil [simp]: "utf8_ok []"
  by (simp add: utf8_ok_def from_utf8_def)

lemma utf8_ok_Cons:
  "utf8_ok (c # cs) \<longleftrightarrow> (\<exists>n. utf8_first c cs = Scalar n \<and> utf8_ok (drop n cs))"
  using from_utf8_at_ok_shift [of "_ + 1" _ 0]
  by (auto simp: utf8_ok_def from_utf8_def split: utf8_item.splits)

lemma from_utf8_lossy_ok: "utf8_ok bs \<Longrightarrow> from_utf8_lossy bs = bs"
  by (induction bs rule: from_utf8_lossy.induct) (auto simp: utf8_ok_Cons)

text \<open>Any run of ASCII is valid.\<close>

definition ascii :: "bytes \<Rightarrow> bool" where
  "ascii bs \<longleftrightarrow> (\<forall>c \<in> set bs. byte c < 128)"

lemma ascii_utf8_ok: "ascii bs \<Longrightarrow> utf8_ok bs"
  by (induction bs) (auto simp: utf8_ok_Cons ascii_def utf8_first.simps utf8_width_def)

lemma utf8_first_append:
  "utf8_first c cs = Scalar n \<Longrightarrow> utf8_first c (cs @ ds) = Scalar n \<and> n \<le> length cs"
  by (auto simp: utf8_first.simps split: list.splits if_splits)

lemma utf8_ok_append: "utf8_ok as \<Longrightarrow> utf8_ok (as @ bs) \<longleftrightarrow> utf8_ok bs"
proof (induction as rule: from_utf8_lossy.induct)
  case 1
  then show ?case by simp
next
  case (2 c cs)
  then obtain n where n: "utf8_first c cs = Scalar n" and ok: "utf8_ok (drop n cs)"
    by (auto simp: utf8_ok_Cons)
  from utf8_first_append [OF n, of bs]
  have a: "utf8_first c (cs @ bs) = Scalar n" and le: "n \<le> length cs" by auto
  from "2.IH"(1) [OF n ok] a le show ?case by (simp add: utf8_ok_Cons)
qed

lemma utf8_ok_replacement [simp]: "utf8_ok replacement"
  by (simp add: replacement_def utf8_ok_Cons utf8_first.simps utf8_width_def second_ok_def
      cont_byte_def byte_def)

lemma from_utf8_lossy_valid: "utf8_ok (from_utf8_lossy bs)"
proof (induction bs rule: from_utf8_lossy.induct)
  case 1
  then show ?case by simp
next
  case (2 c cs)
  show ?case
  proof (cases "utf8_first c cs")
    case (Scalar n)
    have item: "utf8_first c (take n cs) = Scalar n" and le: "n \<le> length cs"
      using Scalar by (auto simp: utf8_first.simps split: list.splits if_splits)
    then have "utf8_ok (c # take n cs)" by (simp add: utf8_ok_Cons)
    with 2(1) [OF Scalar] Scalar show ?thesis
      using utf8_ok_append [of "c # take n cs"] by simp
  next
    case (Ill_formed n)
    with 2(2) [OF Ill_formed] show ?thesis by (simp add: utf8_ok_append)
  next
    case Cut_off
    then show ?thesis by simp
  qed
qed

lemma from_utf8_lossy_length: "length (from_utf8_lossy bs) \<le> 3 * length bs"
proof (induction bs rule: from_utf8_lossy.induct)
  case 1
  then show ?case by simp
next
  case (2 c cs)
  show ?case
  proof (cases "utf8_first c cs")
    case (Scalar n)
    with 2(1) [OF Scalar] show ?thesis by simp
  next
    case (Ill_formed n)
    with 2(2) [OF Ill_formed] show ?thesis by (simp add: replacement_def)
  next
    case Cut_off
    then show ?thesis by (simp add: replacement_def)
  qed
qed

section \<open>Prefixes of valid text\<close>

lemma utf8_first_prefix:
  "utf8_first c (cs @ ds) = Scalar n \<Longrightarrow>
     utf8_first c cs = Scalar n \<and> n \<le> length cs \<or> utf8_first c cs = Cut_off \<and> length cs \<le> 2"
  by (cases cs; cases "tl cs"; cases "tl (tl cs)") (auto simp: utf8_first.simps split: if_splits list.splits)

text \<open>A prefix of valid text is valid up to a cut-off character of at most three bytes.\<close>

lemma from_utf8_at_prefix:
  "utf8_ok (as @ bs) \<Longrightarrow> from_utf8_at k as = Utf8_Ok \<or>
     (\<exists>v. from_utf8_at k as = Utf8_Err (k + v) None \<and> v \<le> length as \<and> length as \<le> v + 3 \<and> utf8_ok (take v as))"
proof (induction k as rule: from_utf8_at.induct)
  case (1 k)
  then show ?case by simp
next
  case (2 k c cs)
  then obtain n where n: "utf8_first c (cs @ bs) = Scalar n" and ok: "utf8_ok (drop n (cs @ bs))"
    by (auto simp: utf8_ok_Cons)
  from utf8_first_prefix [OF n] show ?case
  proof
    assume s: "utf8_first c cs = Scalar n \<and> n \<le> length cs"
    with ok have "utf8_ok (drop n cs @ bs)" by simp
    with "2.IH" [of n] s consider "from_utf8_at (k + n + 1) (drop n cs) = Utf8_Ok"
      | v where "from_utf8_at (k + n + 1) (drop n cs) = Utf8_Err (k + n + 1 + v) None"
          "v \<le> length cs - n" "length cs - n \<le> v + 3" "utf8_ok (take v (drop n cs))" by auto
    then show ?case
    proof cases
      case 1
      with s show ?thesis by simp
    next
      case (2 v)
      have "utf8_first c (take (n + v) cs) = Scalar n"
        using s by (auto simp: utf8_first.simps take_Cons split: list.splits if_splits nat.splits)
      moreover have "drop n (take (n + v) cs) = take v (drop n cs)" by (simp add: take_drop add.commute)
      ultimately have "utf8_ok (take (n + v + 1) (c # cs))" using 2 by (simp add: utf8_ok_Cons)
      with 2 s show ?thesis by (intro disjI2 exI [of _ "n + v + 1"]) auto
    qed
  next
    assume "utf8_first c cs = Cut_off \<and> length cs \<le> 2"
    then show ?case by (intro disjI2 exI [of _ 0]) auto
  qed
qed

lemma from_utf8_prefix:
  "utf8_ok (as @ bs) \<Longrightarrow> from_utf8 as = Utf8_Ok \<or>
     (\<exists>v. from_utf8 as = Utf8_Err v None \<and> v \<le> length as \<and> length as \<le> v + 3 \<and> utf8_ok (take v as))"
  using from_utf8_at_prefix [of as bs 0] by (simp add: from_utf8_def)

end
