(* ===== verification/Json.thy ===== *)
theory Json
  imports Utf8 "HOL-Library.Word"
begin

text \<open>
  JSON values as the code holds them (\<open>serde_json::Value\<close>): a number is an unsigned 64-bit
  integer, a negative signed one or an IEEE double (its bit pattern); an object is a
  \<open>BTreeMap\<close>, that is, its entries in the byte order of their keys, without duplicates.
  Reading and writing JSON text and the other functions of foreign crates the filters call are
  the fields of \<open>externals\<close>, a parameter of every definition that uses them.
\<close>

type_synonym u64 = "64 word"

datatype jnum = PosInt u64 | NegInt u64 | Float u64

datatype json =
    JNull
  | JBool bool
  | JNumber jnum
  | JString str
  | JArray "json list"
  | JObject "(str \<times> json) list"

type_synonym jmap = "(str \<times> json) list"

section \<open>Foreign functions\<close>

text \<open>
  \<open>from_slice\<close> and \<open>to_text\<close> are \<open>serde_json::from_slice\<close>/\<open>from_str\<close> and
  \<open>to_string\<close>/\<open>to_vec\<close>, \<open>num_text\<close> is \<open>Number::to_string\<close>; \<open>header_text\<close> is
  \<open>HeaderValue::to_str\<close>, \<open>is_success\<close> is \<open>StatusCode::is_success\<close> (of the \<open>http\<close> crate) and
  \<open>contains_control_chars\<close> the check of \<open>praxis_filter\<close>.
\<close>

record externals =
  from_slice :: "bytes \<Rightarrow> str + json"
  to_text :: "json \<Rightarrow> str + str"
  num_text :: "jnum \<Rightarrow> str"
  header_text :: "bytes \<Rightarrow> str option"
  is_success :: "nat \<Rightarrow> bool"
  contains_control_chars :: "str \<Rightarrow> bool"

text \<open>\<open>serde_json::to_string(v).unwrap_or_default()\<close>.\<close>

definition text_or_default :: "externals \<Rightarrow> json \<Rightarrow> str" where
  "text_or_default ext v = (case to_text ext v of Inl _ \<Rightarrow> [] | Inr s \<Rightarrow> s)"

text \<open>Foreign functions that know nothing, to instantiate the parameter in examples.\<close>

definition null_ext :: externals where
  "null_ext =
     \<lparr>from_slice = (\<lambda>_. Inl []), to_text = (\<lambda>_. Inr []), num_text = (\<lambda>_. []),
      header_text = Some, is_success = (\<lambda>s. 200 \<le> s \<and> s < 300),
      contains_control_chars = list_ex (\<lambda>c. byte c < 32)\<rparr>"

section \<open>Objects\<close>

fun str_lt :: "str \<Rightarrow> str \<Rightarrow> bool" where
  "str_lt _ [] = False"
| "str_lt [] (_ # _) = True"
| "str_lt (x # xs) (y # ys) = (byte x < byte y \<or> (x = y \<and> str_lt xs ys))"

fun obj_insert :: "str \<Rightarrow> json \<Rightarrow> jmap \<Rightarrow> jmap" where
  "obj_insert k v [] = [(k, v)]"
| "obj_insert k v ((k', v') # kvs) =
     (if k = k' then (k, v) # kvs
      else if str_lt k k' then (k, v) # (k', v') # kvs
      else (k', v') # obj_insert k v kvs)"

text \<open>The \<open>json!\<close> macro on an object literal inserts the entries one by one.\<close>

definition jobj :: "(str \<times> json) list \<Rightarrow> json" where
  "jobj kvs = JObject (fold (\<lambda>(k, v) m. obj_insert k v m) kvs [])"

definition obj_remove :: "str \<Rightarrow> jmap \<Rightarrow> jmap" where
  "obj_remove k m = filter (\<lambda>(k', _). k' \<noteq> k) m"

definition contains_key :: "jmap \<Rightarrow> str \<Rightarrow> bool" where
  "contains_key m k \<longleftrightarrow> map_of m k \<noteq> None"

fun jget :: "json \<Rightarrow> str \<Rightarrow> json option" where
  "jget (JObject m) k = map_of m k"
| "jget _ k = None"

section \<open>Accessors\<close>

fun as_str :: "json \<Rightarrow> str option" where
  "as_str (JString s) = Some s"
| "as_str _ = None"

fun as_bool :: "json \<Rightarrow> bool option" where
  "as_bool (JBool b) = Some b"
| "as_bool _ = None"

fun as_array :: "json \<Rightarrow> json list option" where
  "as_array (JArray xs) = Some xs"
| "as_array _ = None"

fun as_object :: "json \<Rightarrow> jmap option" where
  "as_object (JObject m) = Some m"
| "as_object _ = None"

fun as_u64 :: "json \<Rightarrow> u64 option" where
  "as_u64 (JNumber (PosInt n)) = Some n"
| "as_u64 _ = None"

definition is_null :: "json \<Rightarrow> bool" where "is_null v \<longleftrightarrow> v = JNull"
definition is_object :: "json \<Rightarrow> bool" where "is_object v \<longleftrightarrow> as_object v \<noteq> None"

text \<open>The chains \<open>v.get(k).and_then(Value::as_str)\<close> and their kin.\<close>

definition get_str :: "json \<Rightarrow> str \<Rightarrow> str option" where
  "get_str v k = Option.bind (jget v k) as_str"

definition get_bool :: "json \<Rightarrow> str \<Rightarrow> bool option" where
  "get_bool v k = Option.bind (jget v k) as_bool"

definition get_u64 :: "json \<Rightarrow> str \<Rightarrow> u64 option" where
  "get_u64 v k = Option.bind (jget v k) as_u64"

definition get_array :: "json \<Rightarrow> str \<Rightarrow> json list option" where
  "get_array v k = Option.bind (jget v k) as_array"

definition unwrap_or :: "'a \<Rightarrow> 'a option \<Rightarrow> 'a" where
  "unwrap_or d x = (case x of None \<Rightarrow> d | Some y \<Rightarrow> y)"

definition first_of :: "'a list \<Rightarrow> 'a option" where
  "first_of xs = (case xs of [] \<Rightarrow> None | x # _ \<Rightarrow> Some x)"

lemma unwrap_or_simps [simp]: "unwrap_or d None = d" "unwrap_or d (Some x) = x"
  by (simp_all add: unwrap_or_def)

lemma first_of_simps [simp]: "first_of [] = None" "first_of (x # xs) = Some x"
  by (simp_all add: first_of_def)

definition copy_field :: "jmap \<Rightarrow> str \<Rightarrow> jmap \<Rightarrow> jmap" where
  "copy_field source key target =
     (case map_of source key of None \<Rightarrow> target | Some v \<Rightarrow> obj_insert key v target)"

text \<open>\<open>obj.get("type").and_then(Value::as_str)\<close>.\<close>

definition get_type :: "jmap \<Rightarrow> str option" where
  "get_type obj = Option.bind (map_of obj ''type'') as_str"

text \<open>The doubles \<open>1.0\<close> and \<open>0.0\<close>.\<close>

definition f64_one :: jnum where "f64_one = Float 0x3FF0000000000000"
definition f64_zero :: jnum where "f64_zero = Float 0"

section \<open>Facts about objects\<close>

lemma map_of_obj_insert [simp]: "map_of (obj_insert k v m) = (map_of m)(k \<mapsto> v)"
  by (induction m rule: obj_insert.induct) (auto simp: fun_eq_iff)

lemma map_of_obj_remove [simp]: "map_of (obj_remove k m) = (map_of m)(k := None)"
  by (induction m) (auto simp: obj_remove_def fun_eq_iff)

lemma map_of_fold_insert:
  "map_of (fold (\<lambda>(k, v) m. obj_insert k v m) kvs m) = map_of m ++ map_of (rev kvs)"
  by (induction kvs arbitrary: m) (auto simp: map_add_def fun_eq_iff split: option.splits)

lemma jget_jobj: "jget (jobj kvs) k = map_of (rev kvs) k"
  by (simp add: jobj_def map_of_fold_insert)

lemma str_lt_irrefl [simp]: "\<not> str_lt s s"
  by (induction s) auto

lemma byte_eq_iff: "byte c = byte d \<longleftrightarrow> c = d"
  by (simp add: byte_def)

lemma str_lt_trans: "str_lt s t \<Longrightarrow> str_lt t u \<Longrightarrow> str_lt s u"
proof (induction s t arbitrary: u rule: str_lt.induct)
  case (2 y ys)
  then show ?case by (cases u) auto
next
  case (3 x xs y ys)
  then show ?case by (cases u) auto
qed simp

lemma str_lt_linear: "s = t \<or> str_lt s t \<or> str_lt t s"
proof (induction s t rule: str_lt.induct)
  case (1 s)
  then show ?case by (cases s) auto
next
  case (3 x xs y ys)
  then show ?case using byte_eq_iff [of x y] by auto
qed simp

text \<open>The invariant of a \<open>BTreeMap\<close>: strictly increasing keys.\<close>

fun keys_sorted :: "jmap \<Rightarrow> bool" where
  "keys_sorted [] = True"
| "keys_sorted ((k, _) # kvs) = ((\<forall>k' \<in> fst ` set kvs. str_lt k k') \<and> keys_sorted kvs)"

lemma fst_set_obj_insert: "fst ` set (obj_insert k v m) = insert k (fst ` set m)"
  by (induction k v m rule: obj_insert.induct) auto

lemma keys_sorted_insert: "keys_sorted m \<Longrightarrow> keys_sorted (obj_insert k v m)"
proof (induction k v m rule: obj_insert.induct)
  case (2 k v k' v' kvs)
  then show ?case
    using str_lt_linear [of k k'] by (auto simp: fst_set_obj_insert dest: str_lt_trans)
qed simp

lemma keys_sorted_fold:
  "keys_sorted m \<Longrightarrow> keys_sorted (fold (\<lambda>(k, v) m. obj_insert k v m) kvs m)"
  by (induction kvs arbitrary: m) (auto simp: keys_sorted_insert)

text \<open>Well-formed values: every object in a value is a \<open>BTreeMap\<close>.\<close>

fun json_wf :: "json \<Rightarrow> bool" where
  "json_wf (JArray xs) = list_all json_wf xs"
| "json_wf (JObject m) = (keys_sorted m \<and> list_all (\<lambda>kv. json_wf (snd kv)) m)"
| "json_wf _ = True"

lemma json_wf_get: "json_wf v \<Longrightarrow> jget v k = Some w \<Longrightarrow> json_wf w"
  by (cases v) (fastforce simp: list_all_iff dest: map_of_SomeD)+

lemma list_all_obj_insert:
  "list_all (\<lambda>kv. P (snd kv)) m \<Longrightarrow> P v \<Longrightarrow> list_all (\<lambda>kv. P (snd kv)) (obj_insert k v m)"
  by (induction k v m rule: obj_insert.induct) auto

lemma json_wf_insert: "json_wf (JObject m) \<Longrightarrow> json_wf v \<Longrightarrow> json_wf (JObject (obj_insert k v m))"
  by (simp add: keys_sorted_insert list_all_obj_insert)

lemma json_wf_fold:
  "json_wf (JObject m) \<Longrightarrow> list_all (\<lambda>kv. json_wf (snd kv)) kvs \<Longrightarrow>
     json_wf (JObject (fold (\<lambda>(k, v) m. obj_insert k v m) kvs m))"
proof (induction kvs arbitrary: m)
  case Nil
  then show ?case by simp
next
  case (Cons kv kvs)
  then show ?case
    using json_wf_insert [of m "snd kv" "fst kv"] by (simp add: case_prod_unfold)
qed

lemma json_wf_jobj: "list_all (\<lambda>kv. json_wf (snd kv)) kvs \<Longrightarrow> json_wf (jobj kvs)"
  unfolding jobj_def by (rule json_wf_fold) simp_all

lemmas get_defs = get_str_def get_bool_def get_u64_def get_array_def

end
