(* ===== verification/Filter_Ctx.thy ===== *)
theory Filter_Ctx
  imports Json
begin

text \<open>
  What the filters share of a request: its method and path, the durable metadata map, the response header, the
  headers to add or remove and the body mode. The fields are those of
  \<open>HttpFilterContext\<close> that the modelled filters read or write; \<open>set_metadata\<close> and the
  operations of a header map are insertion, lookup and removal, as the code uses them.
\<close>

record response_head =
  status :: nat
  resp_headers :: "str \<rightharpoonup> bytes"

datatype body_mode = Stream | StreamBuffer "nat option"

record filter_ctx =
  req_method :: str
  req_path :: str
  filter_metadata :: "str \<rightharpoonup> str"
  request_headers :: "str \<rightharpoonup> bytes"
  extra_request_headers :: "(str \<times> str) list"
  request_headers_to_remove :: "str list"
  response_header :: "response_head option"
  response_headers_modified :: bool
  response_body_mode :: body_mode
  cluster :: "str option"
  filter_results :: "str \<rightharpoonup> (str \<rightharpoonup> str)"

record rejection =
  rej_status :: nat
  rej_headers :: "(str \<times> str) list"
  rej_body :: bytes

datatype filter_action = Continue | Release | Reject rejection

type_synonym filter_error = str

text \<open>A context nothing has been written to, to instantiate the model in examples.\<close>

definition empty_ctx :: filter_ctx where
  "empty_ctx =
     \<lparr>req_method = ''POST'', req_path = ''/'', filter_metadata = Map.empty, request_headers = Map.empty, extra_request_headers = [],
      request_headers_to_remove = [], response_header = None, response_headers_modified = False,
      response_body_mode = Stream, cluster = None, filter_results = Map.empty\<rparr>"

definition get_metadata :: "filter_ctx \<Rightarrow> str \<Rightarrow> str option" where
  "get_metadata ctx k = filter_metadata ctx k"

definition set_metadata :: "str \<Rightarrow> str \<Rightarrow> filter_ctx \<Rightarrow> filter_ctx" where
  "set_metadata k v ctx = ctx\<lparr>filter_metadata := (filter_metadata ctx)(k \<mapsto> v)\<rparr>"

definition remove_metadata :: "str \<Rightarrow> filter_ctx \<Rightarrow> filter_ctx" where
  "remove_metadata k ctx = ctx\<lparr>filter_metadata := (filter_metadata ctx)(k := None)\<rparr>"

definition remove_all_metadata :: "str list \<Rightarrow> filter_ctx \<Rightarrow> filter_ctx" where
  "remove_all_metadata ks ctx = fold remove_metadata ks ctx"

definition bool_text :: "bool \<Rightarrow> str" where
  "bool_text b = (if b then ''true'' else ''false'')"

lemma get_set_metadata [simp]:
  "get_metadata (set_metadata k v ctx) j = (if j = k then Some v else get_metadata ctx j)"
  by (simp add: get_metadata_def set_metadata_def)

lemma get_remove_metadata [simp]:
  "get_metadata (remove_metadata k ctx) j = (if j = k then None else get_metadata ctx j)"
  by (simp add: get_metadata_def remove_metadata_def)

lemma get_remove_all_metadata [simp]:
  "get_metadata (remove_all_metadata ks ctx) j = (if j \<in> set ks then None else get_metadata ctx j)"
  by (induction ks arbitrary: ctx) (auto simp: remove_all_metadata_def)

lemma bool_text_eq_true [simp]: "bool_text b = ''true'' \<longleftrightarrow> b"
  by (simp add: bool_text_def)

section \<open>Content types\<close>

definition ascii_space :: "char \<Rightarrow> bool" where
  "ascii_space c \<longleftrightarrow> (9 \<le> byte c \<and> byte c \<le> 13) \<or> byte c = 32"

text \<open>\<open>str::trim\<close> on the ASCII text of a header value.\<close>

definition trim :: "str \<Rightarrow> str" where
  "trim s = rev (dropWhile ascii_space (rev (dropWhile ascii_space s)))"

definition ascii_lower :: "char \<Rightarrow> char" where
  "ascii_lower c = (if 65 \<le> byte c \<and> byte c \<le> 90 then char_of (byte c + 32) else c)"

definition eq_ignore_ascii_case :: "str \<Rightarrow> str \<Rightarrow> bool" where
  "eq_ignore_ascii_case s t \<longleftrightarrow> map ascii_lower s = map ascii_lower t"

definition is_event_stream_content_type :: "str \<Rightarrow> bool" where
  "is_event_stream_content_type ct =
     (case first_of (split_char (CHR '';'') ct) of
        None \<Rightarrow> False
      | Some media \<Rightarrow> eq_ignore_ascii_case (trim media) ''text/event-stream'')"

end
