(* ===== verification/Classifier.thy ===== *)
theory Classifier
  imports Filter_Ctx
begin

text \<open>
  The request classifier all format filters share (\<open>apis/src/classifier/mod.rs\<close>): which AI API
  a request belongs to, by its method and path or by its body, and the facts of the body that
  routing needs.
\<close>

section \<open>Formats\<close>

datatype ai_request_format =
  Responses | Anthropic_messages | Chat_completions | Unknown_json | Invalid_json | Non_json

fun format_as_str :: "ai_request_format \<Rightarrow> str" where
  "format_as_str Responses = ''openai_responses''"
| "format_as_str Anthropic_messages = ''anthropic_messages''"
| "format_as_str Chat_completions = ''openai_chat_completions''"
| "format_as_str Unknown_json = ''unknown''"
| "format_as_str Invalid_json = ''invalid_json''"
| "format_as_str Non_json = ''non_json''"

record classified_request =
  c_background :: "bool option"
  c_format :: ai_request_format
  has_conversation :: bool
  has_previous_response_id :: bool
  has_prompt_id :: bool
  has_tools :: bool
  c_max_output_tokens :: "u64 option"
  c_max_tokens :: "u64 option"
  c_model :: "str option"
  c_store :: "bool option"
  c_stream :: "bool option"

definition empty_result :: "ai_request_format \<Rightarrow> classified_request" where
  "empty_result format =
     \<lparr>c_background = None, c_format = format, has_conversation = False, has_previous_response_id = False,
      has_prompt_id = False, has_tools = False, c_max_output_tokens = None, c_max_tokens = None,
      c_model = None, c_store = None, c_stream = None\<rparr>"

section \<open>Paths\<close>

definition normalize_trailing_slash :: "str \<Rightarrow> str" where
  "normalize_trailing_slash path =
     (case strip_suffix ''/'' path of Some p \<Rightarrow> if p \<noteq> [] then p else path | None \<Rightarrow> path)"

definition path_segments :: "str \<Rightarrow> str list" where
  "path_segments path = split_char (CHR ''/'') path"

definition is_responses_path :: "str \<Rightarrow> str \<Rightarrow> bool" where
  "is_responses_path method path =
     (case path_segments (normalize_trailing_slash path) of
        [a, b, c, d] \<Rightarrow>
          a = [] \<and> b = ''v1'' \<and> c = ''responses'' \<and>
          (method = ''POST'' \<and> (d = ''input_tokens'' \<or> d = ''compact'') \<or>
           (method = ''GET'' \<or> method = ''DELETE'') \<and> d \<noteq> [])
      | [a, b, c, d, e] \<Rightarrow>
          a = [] \<and> b = ''v1'' \<and> c = ''responses'' \<and> d \<noteq> [] \<and>
          (method = ''GET'' \<and> e = ''input_items'' \<or> method = ''POST'' \<and> e = ''cancel'')
      | _ \<Rightarrow> False)"

definition is_responses_create :: "str \<Rightarrow> str \<Rightarrow> bool" where
  "is_responses_create method path \<longleftrightarrow>
     method = ''POST'' \<and> normalize_trailing_slash path = ''/v1/responses''"

section \<open>Bodies\<close>

definition has_anthropic_signals :: "jmap \<Rightarrow> bool" where
  "has_anthropic_signals obj \<longleftrightarrow>
     contains_key obj ''system'' \<or>
     (case map_of obj ''messages'' of
        Some (JArray messages) \<Rightarrow>
          list_ex (\<lambda>msg. case jget msg ''content'' of
              Some (JArray blocks) \<Rightarrow> list_ex (\<lambda>b. jget b ''type'' \<noteq> None) blocks
            | _ \<Rightarrow> False) messages
      | _ \<Rightarrow> False)"

definition classify_format :: "jmap \<Rightarrow> ai_request_format" where
  "classify_format obj =
     (if contains_key obj ''input'' \<or>
         (case map_of obj ''prompt'' of None \<Rightarrow> False | Some v \<Rightarrow> is_object v) \<or>
         contains_key obj ''previous_response_id'' \<or> contains_key obj ''conversation''
      then Responses
      else if contains_key obj ''messages'' then
        (if contains_key obj ''max_tokens'' \<and> has_anthropic_signals obj
         then Anthropic_messages else Chat_completions)
      else Unknown_json)"

definition extract_string :: "externals \<Rightarrow> jmap \<Rightarrow> str \<Rightarrow> str option" where
  "extract_string ext obj key =
     Option.bind (map_of obj key) (\<lambda>v. case v of
        JString s \<Rightarrow> Some s | JNumber n \<Rightarrow> Some (num_text ext n) | JBool b \<Rightarrow> Some (bool_text b)
      | _ \<Rightarrow> None)"

definition non_null :: "json option \<Rightarrow> bool" where
  "non_null v = (case v of None \<Rightarrow> False | Some w \<Rightarrow> \<not> is_null w)"

definition classify_request_body :: "externals \<Rightarrow> bytes \<Rightarrow> classified_request" where
  "classify_request_body ext body =
     (if body = [] then empty_result Non_json
      else
        (case from_slice ext body of
           Inl _ \<Rightarrow> empty_result Invalid_json
         | Inr value \<Rightarrow>
             (case as_object value of
                None \<Rightarrow> empty_result Invalid_json
              | Some obj \<Rightarrow>
                  \<lparr>c_background = Option.bind (map_of obj ''background'') as_bool,
                   c_format = classify_format obj,
                   has_conversation = non_null (map_of obj ''conversation''),
                   has_previous_response_id = non_null (map_of obj ''previous_response_id''),
                   has_prompt_id =
                     non_null (Option.bind (Option.bind (map_of obj ''prompt'') as_object) (\<lambda>p. map_of p ''id'')),
                   has_tools =
                     (case Option.bind (map_of obj ''tools'') as_array of None \<Rightarrow> False | Some a \<Rightarrow> a \<noteq> []),
                   c_max_output_tokens = Option.bind (map_of obj ''max_output_tokens'') as_u64,
                   c_max_tokens = Option.bind (map_of obj ''max_tokens'') as_u64,
                   c_model = extract_string ext obj ''model'',
                   c_store = Option.bind (map_of obj ''store'') as_bool,
                   c_stream = Option.bind (map_of obj ''stream'') as_bool\<rparr>)))"

end
