(* ===== verification/Praxis.thy ===== *)
theory Praxis
  imports Filter_Ctx
begin

text \<open>
  What the filters use of \<open>praxis_filter\<close>, a crate of another repository: the
  enumerations and records the filters match on, and its functions as the fields of a
  parameter.
\<close>

datatype on_invalid_behavior = Invalid_continue | Invalid_reject | Invalid_error

datatype batch_policy = Batch_reject

record json_rpc_config =
  batch_policy_of :: batch_policy
  header_id :: "str option"
  header_kind :: "str option"
  header_method :: "str option"
  rpc_max_body_bytes :: nat
  rpc_on_invalid :: on_invalid_behavior

datatype json_rpc_id_kind = Id_integer | Id_number | Id_string | Id_null | Id_missing

text \<open>\<open>rpc_kind\<close> is \<open>kind.as_str()\<close>, \<open>rpc_notification\<close> tells whether the kind is \<open>Notification\<close>.\<close>

record json_rpc_envelope =
  rpc_method :: "str option"
  rpc_kind :: str
  rpc_notification :: bool
  rpc_id :: "str option"
  rpc_id_kind :: json_rpc_id_kind

record parsed_json_rpc =
  parsed_value :: json
  parsed_method :: str
  parsed_envelope :: json_rpc_envelope

text \<open>
  \<open>parse_json_rpc_body\<close> gives the message, nothing while the body is incomplete, or the action
  (or error) to answer with; \<open>parse_json_rpc_value\<close> reads a JSON value; \<open>result_set\<close> is \<open>FilterResultSet::set\<close>; the two checks are those
  of the configuration validation; \<open>is_safe_promoted_value\<close> tells whether a text may go into a
  header; \<open>max_dynamic_value_len\<close> is \<open>MAX_DYNAMIC_VALUE_LEN\<close>.
\<close>

record praxis =
  max_dynamic_value_len :: nat
  parse_json_rpc_body ::
    "bytes option \<Rightarrow> bool \<Rightarrow> json_rpc_config \<Rightarrow> on_invalid_behavior
      \<Rightarrow> (filter_error + filter_action) + parsed_json_rpc option"
  parse_json_rpc_value :: "json \<Rightarrow> json_rpc_config \<Rightarrow> filter_error + json_rpc_envelope option"
  result_set :: "str \<Rightarrow> str \<Rightarrow> (str \<rightharpoonup> str) \<Rightarrow> filter_error + (str \<rightharpoonup> str)"
  check_header_name :: "str \<Rightarrow> str \<Rightarrow> str option \<Rightarrow> filter_error + unit"
  check_max_body_bytes :: "str \<Rightarrow> nat \<Rightarrow> filter_error + unit"
  is_safe_promoted_value :: "str \<Rightarrow> bool"

text \<open>A permissive instance, for examples.\<close>

definition open_px :: praxis where
  "open_px =
     \<lparr>max_dynamic_value_len = 256,
      parse_json_rpc_body = (\<lambda>_ _ _ _. Inr None),
      parse_json_rpc_value = (\<lambda>_ _. Inr None),
      result_set = (\<lambda>k v m. Inr (m(k \<mapsto> v))),
      check_header_name = (\<lambda>_ _ _. Inr ()), check_max_body_bytes = (\<lambda>_ _. Inr ()),
      is_safe_promoted_value = (\<lambda>_. True)\<rparr>"

text \<open>The configuration both filters give to the shared parser.\<close>

definition build_json_rpc_config :: "nat \<Rightarrow> json_rpc_config" where
  "build_json_rpc_config max_body_bytes =
     \<lparr>batch_policy_of = Batch_reject, header_id = None, header_kind = None, header_method = None,
      rpc_max_body_bytes = max_body_bytes, rpc_on_invalid = Invalid_continue\<rparr>"

definition push_header :: "str \<Rightarrow> str \<Rightarrow> filter_ctx \<Rightarrow> filter_ctx" where
  "push_header name v ctx = ctx\<lparr>extra_request_headers := extra_request_headers ctx @ [(name, v)]\<rparr>"

text \<open>\<open>filter_results.entry(filter).or_default()\<close> and a fallible \<open>set\<close> on it.\<close>

definition results_entry :: "str \<Rightarrow> filter_ctx \<Rightarrow> filter_ctx" where
  "results_entry name ctx =
     (case filter_results ctx name of
        None \<Rightarrow> ctx\<lparr>filter_results := (filter_results ctx)(name \<mapsto> Map.empty)\<rparr> | Some _ \<Rightarrow> ctx)"

definition set_result ::
  "praxis \<Rightarrow> str \<Rightarrow> str \<Rightarrow> str \<Rightarrow> filter_ctx \<Rightarrow> filter_ctx \<times> (filter_error + unit)" where
  "set_result px name k v ctx =
     (case result_set px k v (unwrap_or Map.empty (filter_results ctx name)) of
        Inl e \<Rightarrow> (ctx, Inl e)
      | Inr m \<Rightarrow> (ctx\<lparr>filter_results := (filter_results ctx)(name \<mapsto> m)\<rparr>, Inr ()))"

text \<open>A step of \<open>run_steps\<close> that sets a result when there is a value.\<close>

definition result_when ::
  "praxis \<Rightarrow> str \<Rightarrow> str \<Rightarrow> str option \<Rightarrow> filter_ctx \<Rightarrow> filter_ctx \<times> (filter_error + unit)" where
  "result_when px name k v ctx =
     (case v of None \<Rightarrow> (ctx, Inr ()) | Some x \<Rightarrow> set_result px name k x ctx)"

definition flag_true :: "bool \<Rightarrow> str option" where
  "flag_true b = (if b then Some ''true'' else None)"

text \<open>Steps on the context that may fail; the first error stops the sequence.\<close>

fun run_steps ::
  "('c \<Rightarrow> 'c \<times> ('e + unit)) list \<Rightarrow> 'c \<Rightarrow> 'c \<times> ('e + unit)" where
  "run_steps [] c = (c, Inr ())"
| "run_steps (f # fs) c = (case f c of (c', Inl e) \<Rightarrow> (c', Inl e) | (c', Inr _) \<Rightarrow> run_steps fs c')"

definition when_some :: "'a option \<Rightarrow> ('a \<Rightarrow> 'c \<Rightarrow> 'c) \<Rightarrow> 'c \<Rightarrow> 'c" where
  "when_some x f c = (case x of None \<Rightarrow> c | Some y \<Rightarrow> f y c)"

definition apply_if :: "bool \<Rightarrow> ('c \<Rightarrow> 'c) \<Rightarrow> 'c \<Rightarrow> 'c" where
  "apply_if b f c = (if b then f c else c)"

lemma when_some_simps [simp]: "when_some None f c = c" "when_some (Some y) f c = f y c"
  by (simp_all add: when_some_def)

section \<open>Metadata is left alone\<close>

lemma apply_if_metadata [simp]:
  "get_metadata (apply_if b (set_metadata k v) ctx) j = (if b \<and> j = k then Some v else get_metadata ctx j)"
  by (simp add: apply_if_def)

lemma push_header_metadata [simp]: "get_metadata (push_header h v ctx) j = get_metadata ctx j"
  by (simp add: push_header_def get_metadata_def)

lemma results_entry_metadata [simp]: "get_metadata (results_entry name ctx) j = get_metadata ctx j"
  by (simp add: results_entry_def get_metadata_def split: option.split)

lemma set_result_metadata [simp]: "get_metadata (fst (set_result px name k v ctx)) j = get_metadata ctx j"
  by (simp add: set_result_def get_metadata_def split: sum.split)

lemma result_when_metadata [simp]: "get_metadata (fst (result_when px name k v ctx)) j = get_metadata ctx j"
  by (simp add: result_when_def split: option.split)

text \<open>Whatever each step leaves alone, the sequence leaves alone.\<close>

lemma run_steps_keeps:
  assumes "\<And>f c. f \<in> set fs \<Longrightarrow> P (fst (f c)) = P c"
  shows "P (fst (run_steps fs ctx)) = P ctx"
  using assms
proof (induction fs arbitrary: ctx)
  case (Cons f fs)
  from Cons.prems [of f ctx] Cons.IH [of "fst (f ctx)"] Cons.prems show ?case
    by (cases "f ctx") (auto split: sum.split)
qed simp

definition request_line :: "filter_ctx \<Rightarrow> str \<times> str" where
  "request_line ctx = (req_method ctx, req_path ctx)"

lemma request_line_kept [simp]:
  "request_line (set_metadata k v ctx) = request_line ctx"
  "request_line (remove_metadata k ctx) = request_line ctx"
  "request_line (push_header h v ctx) = request_line ctx"
  "request_line (results_entry name ctx) = request_line ctx"
  "request_line (fst (set_result px name k v ctx)) = request_line ctx"
  "request_line (fst (result_when px name k w ctx)) = request_line ctx"
  by (simp_all add: request_line_def set_metadata_def remove_metadata_def push_header_def results_entry_def
      set_result_def result_when_def split: option.split sum.split)

lemma when_some_kept: "(\<And>x c. P (f x c) = P c) \<Longrightarrow> P (when_some v f ctx) = P ctx"
  by (cases v) simp_all

lemma apply_if_kept: "(\<And>c. P (f c) = P c) \<Longrightarrow> P (apply_if b f ctx) = P ctx"
  by (simp add: apply_if_def)

lemma when_some_metadata:
  "get_metadata (when_some v (\<lambda>x. set_metadata k (f x)) ctx) j =
     (if v \<noteq> None \<and> j = k then map_option f v else get_metadata ctx j)"
  by (cases v) auto

lemma when_some_model:
  "j \<noteq> k \<Longrightarrow> get_metadata (when_some v (\<lambda>m x. if P m then set_metadata k m x else x) ctx) j = get_metadata ctx j"
  by (cases v) auto

end
