(* ===== verification/Responses_Format.thy ===== *)
theory Responses_Format
  imports Classifier Praxis
begin

text \<open>
  The Responses API format filter (\<open>apis/src/openai/responses/mod.rs\<close>, \<open>config.rs\<close>,
  \<open>error.rs\<close>): it classifies the request and promotes what it found to metadata, request headers
  and filter results, without touching the body.
\<close>

section \<open>Errors\<close>

definition responses_error_body :: "externals \<Rightarrow> str \<Rightarrow> str \<Rightarrow> bytes" where
  "responses_error_body ext code message =
     text_or_default ext (jobj
       [(''error'', jobj [(''message'', JString message), (''type'', JString code),
                          (''param'', JNull), (''code'', JString code)])])"

definition responses_error_sse_body :: "externals \<Rightarrow> str \<Rightarrow> str \<Rightarrow> bytes" where
  "responses_error_sse_body ext code message =
     (let json = jobj
        [(''type'', JString ''error''), (''sequence_number'', JNumber (PosInt 0)),
         (''error'', jobj [(''type'', JString code), (''code'', JString code),
                          (''message'', JString message), (''param'', JNull)])]
      in ''event: error'' @ [LF] @ ''data: '' @ text_or_default ext json @ [LF, LF])"

definition responses_error_rejection :: "externals \<Rightarrow> nat \<Rightarrow> str \<Rightarrow> str \<Rightarrow> bool \<Rightarrow> rejection" where
  "responses_error_rejection ext st code message streaming =
     (if streaming then
        \<lparr>rej_status = st, rej_headers = [(''content-type'', ''text/event-stream'')],
         rej_body = responses_error_sse_body ext code message\<rparr>
      else
        \<lparr>rej_status = st, rej_headers = [(''content-type'', ''application/json'')],
         rej_body = responses_error_body ext code message\<rparr>)"

section \<open>Configuration\<close>

record responses_format_headers =
  rf_format :: "str option"
  rf_model :: "str option"
  rf_stream :: "str option"
  rf_mode :: "str option"

definition default_responses_format_headers :: responses_format_headers where
  "default_responses_format_headers =
     \<lparr>rf_format = Some ''x-praxis-ai-format'', rf_model = Some ''x-praxis-ai-model'',
      rf_stream = Some ''x-praxis-ai-stream'', rf_mode = Some ''x-praxis-responses-mode''\<rparr>"

record responses_format_config =
  rf_on_invalid :: on_invalid_behavior
  rf_max_body_bytes :: nat
  rf_headers :: responses_format_headers

definition responses_format_build_config ::
  "praxis \<Rightarrow> responses_format_config \<Rightarrow> filter_error + responses_format_config" where
  "responses_format_build_config px cfg =
     and_then (check_max_body_bytes px ''openai_responses_format'' (rf_max_body_bytes cfg)) (\<lambda>_.
     and_then (check_header_name px ''openai_responses_format'' ''format'' (rf_format (rf_headers cfg))) (\<lambda>_.
     and_then (check_header_name px ''openai_responses_format'' ''model'' (rf_model (rf_headers cfg))) (\<lambda>_.
     and_then (check_header_name px ''openai_responses_format'' ''stream'' (rf_stream (rf_headers cfg))) (\<lambda>_.
     and_then (check_header_name px ''openai_responses_format'' ''mode'' (rf_mode (rf_headers cfg))) (\<lambda>_.
       Inr cfg)))))"

section \<open>Promotion\<close>

definition MAX_PROMOTED_VALUE_LEN :: nat where "MAX_PROMOTED_VALUE_LEN = 256"

definition rf_handle_invalid_format ::
  "externals \<Rightarrow> ai_request_format \<Rightarrow> responses_format_config \<Rightarrow> filter_action option" where
  "rf_handle_invalid_format ext format config =
     (case rf_on_invalid config of
        Invalid_continue \<Rightarrow> None
      | _ \<Rightarrow>
          map_option
            (\<lambda>message. Reject (responses_error_rejection ext 400 ''invalid_request_error'' message False))
            (case format of
               Invalid_json \<Rightarrow> Some ''invalid JSON body''
             | Non_json \<Rightarrow> Some ''request body is not JSON''
             | Unknown_json \<Rightarrow> Some ''unrecognized AI API format''
             | _ \<Rightarrow> None))"

definition compute_mode :: "classified_request \<Rightarrow> str option" where
  "compute_mode c =
     (if c_format c \<noteq> Responses then None
      else
        (let stateful = has_previous_response_id c \<or> has_tools c \<or> unwrap_or True (c_store c) \<or>
                        c_background c = Some True \<or> has_conversation c \<or> has_prompt_id c
         in Some (if stateful then ''stateful'' else ''stateless'')))"

definition write_optional_metadata :: "praxis \<Rightarrow> classified_request \<Rightarrow> filter_ctx \<Rightarrow> filter_ctx" where
  "write_optional_metadata px c ctx =
     (let ctx1 = when_some (c_model c) (\<lambda>m x. if is_safe_promoted_value px m
                   then set_metadata ''openai_responses_format.model'' m x else x) ctx;
          ctx2 = when_some (c_stream c) (\<lambda>b. set_metadata ''openai_responses_format.stream'' (bool_text b)) ctx1;
          ctx3 = when_some (c_store c) (\<lambda>b. set_metadata ''openai_responses_format.store'' (bool_text b)) ctx2;
          ctx4 = when_some (c_background c)
                   (\<lambda>b. set_metadata ''openai_responses_format.background'' (bool_text b)) ctx3
      in when_some (c_max_output_tokens c)
           (\<lambda>n. set_metadata ''openai_responses_format.max_output_tokens'' (show_nat (unat n))) ctx4)"

definition write_boolean_metadata :: "classified_request \<Rightarrow> filter_ctx \<Rightarrow> filter_ctx" where
  "write_boolean_metadata c ctx =
     (let ctx1 = apply_if (has_previous_response_id c)
                   (set_metadata ''openai_responses_format.has_previous_response_id'' ''true'') ctx;
          ctx2 = apply_if (has_conversation c) (set_metadata ''openai_responses_format.has_conversation'' ''true'') ctx1;
          ctx3 = apply_if (has_tools c) (set_metadata ''openai_responses_format.has_tools'' ''true'') ctx2
      in apply_if (has_prompt_id c) (set_metadata ''openai_responses_format.has_prompt_id'' ''true'') ctx3)"

definition rf_write_metadata ::
  "praxis \<Rightarrow> classified_request \<Rightarrow> str option \<Rightarrow> filter_ctx \<Rightarrow> filter_ctx" where
  "rf_write_metadata px c mode ctx =
     (let ctx1 = set_metadata ''openai_responses_format.format'' (format_as_str (c_format c)) ctx;
          ctx2 = write_optional_metadata px c ctx1;
          ctx3 = write_boolean_metadata c ctx2
      in when_some mode (set_metadata ''openai_responses_format.mode'') ctx3)"

definition rf_promote_headers ::
  "praxis \<Rightarrow> classified_request \<Rightarrow> responses_format_config \<Rightarrow> str option \<Rightarrow> filter_ctx \<Rightarrow> filter_ctx" where
  "rf_promote_headers px c config mode ctx =
     (let h = rf_headers config;
          ctx1 = when_some (rf_format h) (\<lambda>name. push_header name (format_as_str (c_format c))) ctx;
          ctx2 = when_some (rf_model h) (\<lambda>name. when_some (c_model c) (\<lambda>m x.
                   if is_safe_promoted_value px m \<and> length m \<le> MAX_PROMOTED_VALUE_LEN
                   then push_header name m x else x)) ctx1;
          ctx3 = when_some (rf_stream h) (\<lambda>name. when_some (c_stream c) (\<lambda>b. push_header name (bool_text b))) ctx2
      in when_some (rf_mode h) (\<lambda>name. when_some mode (push_header name)) ctx3)"

definition safe_model :: "praxis \<Rightarrow> classified_request \<Rightarrow> str option" where
  "safe_model px c =
     (case c_model c of
        None \<Rightarrow> None
      | Some m \<Rightarrow> if is_safe_promoted_value px m \<and> length m \<le> MAX_PROMOTED_VALUE_LEN then Some m else None)"

definition promote_optional_results ::
  "praxis \<Rightarrow> classified_request \<Rightarrow> (filter_ctx \<Rightarrow> filter_ctx \<times> (filter_error + unit)) list" where
  "promote_optional_results px c =
     [result_when px ''openai_responses_format'' ''model'' (safe_model px c),
      result_when px ''openai_responses_format'' ''stream'' (map_option bool_text (c_stream c)),
      result_when px ''openai_responses_format'' ''store'' (map_option bool_text (c_store c)),
      result_when px ''openai_responses_format'' ''background'' (map_option bool_text (c_background c)),
      result_when px ''openai_responses_format'' ''max_output_tokens''
        (map_option (\<lambda>n. show_nat (unat n)) (c_max_output_tokens c))]"

definition promote_boolean_results ::
  "praxis \<Rightarrow> classified_request \<Rightarrow> (filter_ctx \<Rightarrow> filter_ctx \<times> (filter_error + unit)) list" where
  "promote_boolean_results px c =
     [result_when px ''openai_responses_format'' ''has_previous_response_id'' (flag_true (has_previous_response_id c)),
      result_when px ''openai_responses_format'' ''has_conversation'' (flag_true (has_conversation c)),
      result_when px ''openai_responses_format'' ''has_tools'' (flag_true (has_tools c)),
      result_when px ''openai_responses_format'' ''has_prompt_id'' (flag_true (has_prompt_id c))]"

definition rf_promote_filter_results ::
  "praxis \<Rightarrow> classified_request \<Rightarrow> str option \<Rightarrow> filter_ctx \<Rightarrow> filter_ctx \<times> (filter_error + unit)" where
  "rf_promote_filter_results px c mode ctx =
     run_steps
       (set_result px ''openai_responses_format'' ''format'' (format_as_str (c_format c))
        # promote_optional_results px c @ promote_boolean_results px c @
        [result_when px ''openai_responses_format'' ''mode'' mode])
       (results_entry ''openai_responses_format'' ctx)"

section \<open>The handler\<close>

definition rf_on_request_body ::
  "externals \<Rightarrow> praxis \<Rightarrow> responses_format_config \<Rightarrow> filter_ctx \<Rightarrow> bytes option \<Rightarrow> bool
    \<Rightarrow> filter_ctx \<times> (filter_error + filter_action)" where
  "rf_on_request_body ext px config ctx body end_of_stream =
     (if \<not> end_of_stream then (ctx, Inr Continue)
      else
        (let bs = unwrap_or [] body;
             classified = (if is_responses_path (req_method ctx) (req_path ctx) then empty_result Responses
                           else classify_request_body ext bs)
         in case rf_handle_invalid_format ext (c_format classified) config of
              Some action \<Rightarrow> (ctx, Inr action)
            | None \<Rightarrow>
                (let mode = compute_mode classified;
                     ctx1 = rf_write_metadata px classified mode ctx;
                     ctx2 = rf_promote_headers px classified config mode ctx1
                 in case rf_promote_filter_results px classified mode ctx2 of
                      (ctx3, Inl e) \<Rightarrow> (ctx3, Inl e)
                    | (ctx3, Inr _) \<Rightarrow> (ctx3, Inr Release))))"

section \<open>What it leaves in the metadata\<close>

lemma rf_results_metadata [simp]:
  "get_metadata (fst (rf_promote_filter_results px c mode ctx)) j = get_metadata ctx j"
  unfolding rf_promote_filter_results_def
  by (subst run_steps_keeps [where P = "\<lambda>c. get_metadata c j"]) (auto simp: promote_optional_results_def promote_boolean_results_def)

lemma rf_headers_metadata [simp]:
  "get_metadata (rf_promote_headers px c config mode ctx) j = get_metadata ctx j"
  by (simp add: rf_promote_headers_def Let_def when_some_def split: option.split)

end
