(* ===== verification/Responses_Validate.thy ===== *)
theory Responses_Validate
  imports Responses_Format
begin

text \<open>
  The Responses API validation filter (\<open>apis/src/openai/responses/validate\<close>): it checks the
  parameter combinations the proxy depends on, gives the request its identifiers and the defaults
  of the specification, and turns backend errors into Responses API errors. The two identifiers
  come from the host's generator and are arguments, as is the time in seconds.
\<close>

section \<open>Rules\<close>

definition classifier_bool :: "filter_ctx \<Rightarrow> str \<Rightarrow> bool option" where
  "classifier_bool ctx key = map_option (\<lambda>v. v = ''true'') (get_metadata ctx key)"

definition validate_stream_background :: "filter_ctx \<Rightarrow> str + unit" where
  "validate_stream_background ctx =
     (if classifier_bool ctx ''openai_responses_format.stream'' = Some True \<and>
         classifier_bool ctx ''openai_responses_format.background'' = Some True
      then Inl ''stream and background cannot both be true'' else Inr ())"

definition validate_background_store :: "filter_ctx \<Rightarrow> str + unit" where
  "validate_background_store ctx =
     (if classifier_bool ctx ''openai_responses_format.background'' = Some True \<and>
         classifier_bool ctx ''openai_responses_format.store'' = Some False
      then Inl ''background responses require store to be true'' else Inr ())"

definition validate_request :: "filter_ctx \<Rightarrow> str + unit" where
  "validate_request ctx =
     and_then (validate_stream_background ctx) (\<lambda>_. and_then (validate_background_store ctx) (\<lambda>_. Inr ()))"

section \<open>Requests\<close>

definition meta_is :: "filter_ctx \<Rightarrow> str \<Rightarrow> str \<Rightarrow> bool" where
  "meta_is ctx k v \<longleftrightarrow> get_metadata ctx k = Some v"

definition reject_invalid :: "externals \<Rightarrow> str \<Rightarrow> bool \<Rightarrow> filter_action" where
  "reject_invalid ext message streaming =
     Reject (responses_error_rejection ext 400 ''invalid_request_error'' message streaming)"

definition parse_and_validate :: "externals \<Rightarrow> filter_ctx \<Rightarrow> bytes option \<Rightarrow> filter_action + json" where
  "parse_and_validate ext ctx body =
     (let streaming = meta_is ctx ''openai_responses_format.stream'' ''true''
      in case body of
           None \<Rightarrow> Inl (reject_invalid ext ''request body is required'' streaming)
         | Some chunk \<Rightarrow>
             (case from_slice ext chunk of
                Inl e \<Rightarrow> Inl (reject_invalid ext (''invalid request body: '' @ e) streaming)
              | Inr parsed \<Rightarrow>
                  (case validate_request ctx of
                     Inl e \<Rightarrow> Inl (reject_invalid ext e streaming)
                   | Inr _ \<Rightarrow> Inr parsed)))"

definition is_bodyless_responses_request :: "str \<Rightarrow> str \<Rightarrow> bool" where
  "is_bodyless_responses_request method path =
     (if method = ''GET'' \<or> method = ''DELETE'' then True
      else if method = ''POST'' then
        (case path_segments (unwrap_or path (strip_suffix ''/'' path)) of
           [a, b, c, _, e] \<Rightarrow> a = [] \<and> b = ''v1'' \<and> c = ''responses'' \<and> e = ''cancel''
         | _ \<Rightarrow> False)
      else False)"

definition extract_conversation_id :: "json \<Rightarrow> str option" where
  "extract_conversation_id body =
     Option.bind (jget body ''conversation'')
       (\<lambda>c. case as_str c of Some s \<Rightarrow> Some s | None \<Rightarrow> get_str c ''id'')"

definition resolve_conversation_id :: "str \<Rightarrow> json \<Rightarrow> str" where
  "resolve_conversation_id generated body =
     (case extract_conversation_id body of Some cid \<Rightarrow> cid | None \<Rightarrow> ''conv_'' @ generated)"

definition enrich_context :: "str \<Rightarrow> str \<Rightarrow> filter_ctx \<Rightarrow> filter_ctx" where
  "enrich_context response_id conversation_id ctx =
     (let ctx1 = set_metadata ''responses.response_id'' response_id ctx;
          ctx2 = set_metadata ''responses.conversation_id'' conversation_id ctx1;
          store = (\<not> meta_is ctx2 ''openai_responses_format.store'' ''false'');
          ctx3 = set_metadata ''responses.store'' (bool_text store) ctx2;
          background = meta_is ctx3 ''openai_responses_format.background'' ''true'';
          ctx4 = set_metadata ''responses.background'' (bool_text background) ctx3;
          stream = meta_is ctx4 ''openai_responses_format.stream'' ''true''
      in set_metadata ''responses.stream'' (bool_text stream) ctx4)"

definition rv_on_request_body ::
  "externals \<Rightarrow> str \<Rightarrow> str \<Rightarrow> filter_ctx \<Rightarrow> bytes option \<Rightarrow> bool \<Rightarrow> filter_ctx \<times> filter_action" where
  "rv_on_request_body ext generated_response generated_conversation ctx body end_of_stream =
     (if \<not> end_of_stream then (ctx, Continue)
      else if \<not> meta_is ctx ''openai_responses_format.format'' ''openai_responses'' then (ctx, Release)
      else if is_bodyless_responses_request (req_method ctx) (req_path ctx) then (ctx, Release)
      else
        (case parse_and_validate ext ctx body of
           Inl action \<Rightarrow> (ctx, action)
         | Inr parsed \<Rightarrow>
             (enrich_context (''resp_'' @ generated_response)
                (resolve_conversation_id generated_conversation parsed) ctx, Release)))"

section \<open>Backend errors\<close>

record backend_error =
  be_code :: str
  be_type :: str
  be_message :: str

definition default_error_type :: "nat \<Rightarrow> str" where
  "default_error_type st =
     (if st = 404 then ''not_found'' else if st = 429 then ''too_many_requests''
      else if 400 \<le> st \<and> st \<le> 499 then ''invalid_request'' else ''server_error'')"

definition normalize_error_code :: "json \<Rightarrow> str option" where
  "normalize_error_code v =
     (case as_str v of Some s \<Rightarrow> Some s | None \<Rightarrow> map_option (\<lambda>n. show_nat (unat n)) (as_u64 v))"

definition backend_error_from_error_object :: "json \<Rightarrow> nat \<Rightarrow> backend_error" where
  "backend_error_from_error_object error st =
     \<lparr>be_code = unwrap_or (show_nat st) (Option.bind (jget error ''code'') normalize_error_code),
      be_type = unwrap_or (default_error_type st) (get_str error ''type''),
      be_message = unwrap_or ''unknown error'' (get_str error ''message'')\<rparr>"

definition backend_error_from_message :: "nat \<Rightarrow> str \<Rightarrow> backend_error" where
  "backend_error_from_message st message =
     \<lparr>be_code = show_nat st, be_type = default_error_type st, be_message = message\<rparr>"

definition fallback_backend_error :: "nat \<Rightarrow> backend_error" where
  "fallback_backend_error st =
     \<lparr>be_code = show_nat st, be_type = default_error_type st,
      be_message = ''upstream error (HTTP '' @ show_nat st @ '')''\<rparr>"

definition extract_backend_error :: "externals \<Rightarrow> str \<Rightarrow> nat \<Rightarrow> backend_error" where
  "extract_backend_error ext body st =
     (case from_slice ext body of
        Inl _ \<Rightarrow> fallback_backend_error st
      | Inr json \<Rightarrow>
          (case jget json ''error'' of
             Some error \<Rightarrow> backend_error_from_error_object error st
           | None \<Rightarrow>
               (case get_str json ''message'' of
                  Some msg \<Rightarrow> backend_error_from_message st msg
                | None \<Rightarrow>
                    (case get_str json ''detail'' of
                       Some detail \<Rightarrow> backend_error_from_message st detail
                     | None \<Rightarrow> fallback_backend_error st))))"

definition error_payload :: "backend_error \<Rightarrow> json" where
  "error_payload error = jobj
     [(''type'', JString (be_type error)), (''code'', JString (be_code error)),
      (''message'', JString (be_message error)), (''param'', JNull)]"

definition error_response_object :: "nat \<Rightarrow> str \<Rightarrow> str \<Rightarrow> bool \<Rightarrow> bool \<Rightarrow> json" where
  "error_response_object created_at response_id model store background = jobj
     [(''id'', JString response_id), (''object'', JString ''response''),
      (''created_at'', JNumber (PosInt (of_nat created_at))), (''completed_at'', JNull),
      (''status'', JString ''in_progress''), (''incomplete_details'', JNull), (''model'', JString model),
      (''previous_response_id'', JNull), (''instructions'', JNull), (''output'', JArray []),
      (''error'', JNull), (''tools'', JArray []), (''tool_choice'', JString ''auto''),
      (''truncation'', JString ''disabled''), (''parallel_tool_calls'', JBool True),
      (''text'', jobj [(''format'', jobj [(''type'', JString ''text'')])]),
      (''top_p'', JNumber f64_one), (''presence_penalty'', JNumber f64_zero),
      (''frequency_penalty'', JNumber f64_zero), (''top_logprobs'', JNumber (PosInt 0)),
      (''temperature'', JNumber f64_one), (''reasoning'', JNull), (''usage'', JNull),
      (''max_output_tokens'', JNull), (''max_tool_calls'', JNull), (''store'', JBool store),
      (''background'', JBool background), (''service_tier'', JString ''default''), (''metadata'', jobj []),
      (''safety_identifier'', JNull), (''prompt_cache_key'', JNull)]"

definition sse_event_text :: "externals \<Rightarrow> str \<Rightarrow> json \<Rightarrow> bytes" where
  "sse_event_text ext name v = ''event: '' @ name @ [LF] @ ''data: '' @ text_or_default ext v @ [LF, LF]"

definition build_sse_error_body ::
  "externals \<Rightarrow> nat \<Rightarrow> str \<Rightarrow> str \<Rightarrow> bool \<Rightarrow> bool \<Rightarrow> backend_error \<Rightarrow> bytes" where
  "build_sse_error_body ext now_secs response_id model store background err =
     (let response_obj = error_response_object now_secs response_id model store background;
          created = jobj [(''type'', JString ''response.created''), (''response'', response_obj),
                          (''sequence_number'', JNumber (PosInt 0))];
          in_progress = jobj [(''type'', JString ''response.in_progress''), (''response'', response_obj),
                              (''sequence_number'', JNumber (PosInt 1))];
          error = jobj [(''type'', JString ''error''), (''error'', error_payload err),
                        (''sequence_number'', JNumber (PosInt 2))]
      in sse_event_text ext ''response.created'' created @
         sse_event_text ext ''response.in_progress'' in_progress @ sse_event_text ext ''error'' error)"

definition build_json_error_body :: "externals \<Rightarrow> backend_error \<Rightarrow> bytes" where
  "build_json_error_body ext err = text_or_default ext (jobj [(''error'', error_payload err)])"

section \<open>Responses\<close>

definition should_reformat_error :: "externals \<Rightarrow> filter_ctx \<Rightarrow> bool" where
  "should_reformat_error ext ctx =
     (case response_header ctx of
        None \<Rightarrow> False
      | Some resp \<Rightarrow>
          (let is_error = (\<not> is_success ext (status resp));
               already_sse = (case Option.bind (resp_headers resp ''content-type'') (header_text ext) of
                                None \<Rightarrow> False | Some ct \<Rightarrow> starts_with ct ''text/event-stream'')
           in is_error \<and> \<not> already_sse))"

definition apply_error_response_headers :: "bool \<Rightarrow> filter_ctx \<Rightarrow> filter_ctx" where
  "apply_error_response_headers is_streaming ctx =
     (case response_header ctx of
        None \<Rightarrow> ctx
      | Some resp \<Rightarrow>
          (let h = (resp_headers resp)(''content-length'' := None, ''content-encoding'' := None,
                     ''content-range'' := None, ''etag'' := None);
               resp' = (if is_streaming
                        then resp\<lparr>status := 200, resp_headers := h(''content-type'' \<mapsto> ''text/event-stream'')\<rparr>
                        else resp\<lparr>resp_headers := h(''content-type'' \<mapsto> ''application/json'')\<rparr>)
           in ctx\<lparr>response_header := Some resp', response_headers_modified := True\<rparr>))"

text \<open>\<open>max_json_body_bytes\<close> is \<open>MAX_JSON_BODY_BYTES\<close> of \<open>praxis_filter\<close>.\<close>

definition detect_and_prepare_error_reformat :: "externals \<Rightarrow> nat \<Rightarrow> filter_ctx \<Rightarrow> filter_ctx \<times> filter_action" where
  "detect_and_prepare_error_reformat ext max_json_body_bytes ctx =
     (if \<not> meta_is ctx ''openai_responses_format.format'' ''openai_responses'' then (ctx, Continue)
      else if \<not> should_reformat_error ext ctx then (ctx, Continue)
      else
        (let st = (case response_header ctx of None \<Rightarrow> 500 | Some r \<Rightarrow> status r);
             is_streaming = meta_is ctx ''responses.stream'' ''true'';
             ctx1 = set_metadata ''responses._reformat_error'' (show_nat st) ctx;
             ctx2 = ctx1\<lparr>response_body_mode := StreamBuffer (Some max_json_body_bytes)\<rparr>
         in (apply_error_response_headers is_streaming ctx2, Continue)))"

definition rv_on_response :: "externals \<Rightarrow> nat \<Rightarrow> filter_ctx \<Rightarrow> filter_ctx \<times> filter_action" where
  "rv_on_response ext max_json_body_bytes ctx = detect_and_prepare_error_reformat ext max_json_body_bytes ctx"

definition reformat_error_body ::
  "externals \<Rightarrow> nat \<Rightarrow> filter_ctx \<Rightarrow> bytes option \<Rightarrow> bool \<Rightarrow> bytes option \<times> filter_action" where
  "reformat_error_body ext now_secs ctx body end_of_stream =
     (case get_metadata ctx ''responses._reformat_error'' of
        None \<Rightarrow> (body, Continue)
      | Some status_str \<Rightarrow>
          if \<not> end_of_stream then (body, Continue)
          else
            (let original_status = unwrap_or 500 (parse_uint 16 status_str);
                 is_streaming = meta_is ctx ''responses.stream'' ''true'';
                 backend_body = (case body of None \<Rightarrow> [] | Some b \<Rightarrow> if utf8_ok b then b else []);
                 backend_error = extract_backend_error ext backend_body original_status;
                 replacement =
                   (if is_streaming then
                      (let response_id = unwrap_or ''resp_unknown'' (get_metadata ctx ''responses.response_id'');
                           model = unwrap_or ''unknown'' (get_metadata ctx ''openai_responses_format.model'');
                           store = (\<not> meta_is ctx ''responses.store'' ''false'');
                           background = meta_is ctx ''responses.background'' ''true''
                       in build_sse_error_body ext now_secs response_id model store background backend_error)
                    else build_json_error_body ext backend_error)
             in (Some replacement, Continue)))"

definition rv_on_response_body ::
  "externals \<Rightarrow> nat \<Rightarrow> filter_ctx \<Rightarrow> bytes option \<Rightarrow> bool \<Rightarrow> bytes option \<times> filter_action" where
  "rv_on_response_body ext now_secs ctx body end_of_stream = reformat_error_body ext now_secs ctx body end_of_stream"

end
