(* ===== verification/Chunked.thy ===== *)
theory Chunked
  imports Prelude
begin

text \<open>
  The contract of an incremental scanner: it is fed a byte stream in chunks, each call gives
  the items completed by the chunk and the state carried to the next, or an error. The law is
  that the chunk boundaries do not matter. The SSE frame parser of the Responses API and the
  SSE scanner of the A2A filter both provide it.
\<close>

text \<open>One call after another; \<open>addp\<close> adds the items found before to a later error.\<close>

definition feed_then ::
  "('i list \<Rightarrow> 'e \<Rightarrow> 'e) \<Rightarrow> ('s \<Rightarrow> 'e + 'i list \<times> 's) \<Rightarrow> 'e + 'i list \<times> 's
    \<Rightarrow> 'e + 'i list \<times> 's" where
  "feed_then addp g r =
     (case r of
        Inl e \<Rightarrow> Inl e
      | Inr (is, s) \<Rightarrow>
          (case g s of
             Inl e \<Rightarrow> Inl (addp is e)
           | Inr (js, t) \<Rightarrow> Inr (is @ js, t)))"

lemma feed_then_Inl [simp]: "feed_then addp g (Inl e) = Inl e"
  by (simp add: feed_then_def)

lemma feed_then_Inr_iff:
  "feed_then addp g r = Inr (ks, t) \<longleftrightarrow>
     (\<exists>is s js. r = Inr (is, s) \<and> g s = Inr (js, t) \<and> ks = is @ js)"
  by (auto simp: feed_then_def split: sum.splits prod.splits)

fun feed_all ::
  "('i list \<Rightarrow> 'e \<Rightarrow> 'e) \<Rightarrow> ('s \<Rightarrow> 'b list \<Rightarrow> 'e + 'i list \<times> 's) \<Rightarrow> 's \<Rightarrow> 'b list list
    \<Rightarrow> 'e + 'i list \<times> 's" where
  "feed_all addp feed s [] = Inr ([], s)"
| "feed_all addp feed s (c # cs) = feed_then addp (\<lambda>t. feed_all addp feed t cs) (feed s c)"

text \<open>
  The law for non-empty chunks. \<open>ok\<close> is the state invariant between calls.
\<close>

locale chunked_scanner =
  fixes feed :: "'s \<Rightarrow> 'b list \<Rightarrow> 'e + 'i list \<times> 's"
    and addp :: "'i list \<Rightarrow> 'e \<Rightarrow> 'e"
    and ok :: "'s \<Rightarrow> bool"
  assumes feed_append: "ok s \<Longrightarrow> as \<noteq> [] \<Longrightarrow> bs \<noteq> [] \<Longrightarrow>
      feed s (as @ bs) = feed_then addp (\<lambda>t. feed t bs) (feed s as)"
    and feed_ok: "ok s \<Longrightarrow> feed s as = Inr (is, t) \<Longrightarrow> ok t"
    and addp_Nil: "addp [] e = e"
    and addp_append: "addp is (addp js e) = addp (is @ js) e"
begin

lemma feed_then_assoc:
  "feed_then addp g (feed_then addp f r) = feed_then addp (\<lambda>s. feed_then addp g (f s)) r"
  by (auto simp: feed_then_def addp_append split: sum.splits prod.splits)

lemma feed_then_cong:
  assumes "\<And>is t. r = Inr (is, t) \<Longrightarrow> f t = g t"
  shows "feed_then addp f r = feed_then addp g r"
  using assms by (auto simp: feed_then_def split: sum.splits)

lemma feed_then_return [simp]: "feed_then addp (\<lambda>t. Inr ([], t)) r = r"
  by (auto simp: feed_then_def split: sum.splits)

text \<open>Feeding the chunks one by one is feeding the whole stream.\<close>

lemma feed_all_concat:
  assumes "ok s" and "cs \<noteq> []" and "[] \<notin> set cs"
  shows "feed_all addp feed s cs = feed s (concat cs)"
  using assms
proof (induction cs arbitrary: s)
  case Nil
  then show ?case by simp
next
  case (Cons c cs)
  show ?case
  proof (cases "cs = []")
    case True
    then show ?thesis by simp
  next
    case False
    with Cons.prems have ne: "c \<noteq> []" "concat cs \<noteq> []" by (cases cs; auto)+
    have "feed_all addp feed s (c # cs) = feed_then addp (\<lambda>t. feed t (concat cs)) (feed s c)"
      using Cons.IH False Cons.prems
      by (simp, intro feed_then_cong) (auto dest: feed_ok)
    also have "\<dots> = feed s (c @ concat cs)"
      using Cons.prems ne by (simp add: feed_append)
    finally show ?thesis by simp
  qed
qed

text \<open>Two ways to cut the same stream give the same items, state and error.\<close>

lemma chunking_irrelevant:
  assumes "ok s" and "concat cs = concat ds" and "cs \<noteq> []" and "ds \<noteq> []"
    and "[] \<notin> set cs" and "[] \<notin> set ds"
  shows "feed_all addp feed s cs = feed_all addp feed s ds"
  using assms by (simp add: feed_all_concat)

lemma feed_all_ok: "ok s \<Longrightarrow> feed_all addp feed s cs = Inr (is, t) \<Longrightarrow> ok t"
  by (induction cs arbitrary: s "is") (auto simp: feed_then_Inr_iff dest: feed_ok)

end

text \<open>A scanner for which an empty chunk changes nothing either.\<close>

locale chunked_scanner_nil = chunked_scanner +
  assumes feed_Nil: "ok s \<Longrightarrow> feed s [] = Inr ([], s)"
begin

lemma feed_append_any:
  assumes "ok s"
  shows "feed s (as @ bs) = feed_then addp (\<lambda>t. feed t bs) (feed s as)"
proof (cases "as = [] \<or> bs = []")
  case True
  then show ?thesis
  proof
    assume "as = []"
    with assms show ?thesis
      by (auto simp: feed_Nil feed_then_def addp_Nil split: sum.splits)
  next
    assume bs: "bs = []"
    have "feed_then addp (\<lambda>t. feed t []) (feed s as) = feed_then addp (\<lambda>t. Inr ([], t)) (feed s as)"
      by (rule feed_then_cong) (use assms feed_ok feed_Nil in blast)
    with bs show ?thesis by simp
  qed
next
  case False
  with assms show ?thesis by (simp add: feed_append)
qed

lemma feed_all_concat_any: "ok s \<Longrightarrow> feed_all addp feed s cs = feed s (concat cs)"
proof (induction cs arbitrary: s)
  case Nil
  then show ?case by (simp add: feed_Nil)
next
  case (Cons c cs)
  have "feed_then addp (\<lambda>t. feed_all addp feed t cs) (feed s c)
      = feed_then addp (\<lambda>t. feed t (concat cs)) (feed s c)"
    using Cons by (intro feed_then_cong) (auto dest: feed_ok)
  with Cons.prems show ?case by (simp add: feed_append_any)
qed

lemma chunking_irrelevant_any:
  "ok s \<Longrightarrow> concat cs = concat ds \<Longrightarrow> feed_all addp feed s cs = feed_all addp feed s ds"
  by (simp add: feed_all_concat_any)

end

end
