(* ===== verification/Sse_Frame.thy ===== *)
theory Sse_Frame
  imports Utf8 Chunked
begin

text \<open>
  The byte-level SSE frame parser, \<open>apis/src/openai/sse/frame.rs\<close>: its state, the line
  processing, the chunk loop with the buffer and event limits, and the entry points. The facts
  are the state invariant (\<open>scratch_bytes\<close> is the number of bytes retained, and never more
  than the limit after a successful call), independence of the chunk boundaries, and the
  refinement of a line-based reading of the SSE format.
\<close>

section \<open>State\<close>

record sse_frame =
  frame_event_type :: "str option"
  frame_data :: bytes

record frame_parser =
  line_buf :: bytes
  cur_event_type :: "str option"
  data_buf :: bytes
  has_data :: bool
  prev_cr :: bool
  scratch_bytes :: nat
  max_buffer_bytes :: nat

text \<open>\<open>Duration\<close> is a number of nanoseconds.\<close>

datatype sse_parse_error =
    BufferOverflow (buffered_bytes_of: nat) (limit_of: nat)
  | MalformedJson str str
  | MissingEventType str str
  | EventTypeMismatch str str
  | EventLimitExceeded nat nat
  | Timeout nat nat
  | MissingTerminalEvent
  | EventAfterTerminal str

text \<open>The text of an error; how a duration is shown is \<open>duration_text\<close>.\<close>

definition sse_error_text :: "(nat \<Rightarrow> str) \<Rightarrow> sse_parse_error \<Rightarrow> str" where
  "sse_error_text duration_text e =
     (case e of
        BufferOverflow buffered limit \<Rightarrow>
          ''SSE buffer overflow: '' @ show_nat buffered @ '' bytes exceeds '' @ show_nat limit @ '' byte limit''
      | MalformedJson event_type err \<Rightarrow> ''malformed JSON in SSE event '' @ quoted event_type @ '': '' @ err
      | MissingEventType field event_type \<Rightarrow>
          ''missing string SSE event type field '' @ quoted field @ '' near '' @ quoted event_type
      | EventTypeMismatch sse_event_type data_event_type \<Rightarrow>
          ''SSE event type '' @ quoted sse_event_type @ '' does not match JSON payload type '' @ quoted data_event_type
      | EventLimitExceeded count limit \<Rightarrow>
          ''SSE event limit exceeded: '' @ show_nat count @ '' events exceeds '' @ show_nat limit @ '' limit''
      | Timeout elapsed limit \<Rightarrow>
          ''SSE stream timeout: '' @ duration_text elapsed @ '' exceeds '' @ duration_text limit @ '' limit''
      | MissingTerminalEvent \<Rightarrow> ''SSE stream ended without terminal event''
      | EventAfterTerminal event_type \<Rightarrow>
          ''SSE event '' @ quoted event_type @ '' arrived after terminal event'')"

definition new_parser :: "nat \<Rightarrow> frame_parser" where
  "new_parser max_bytes =
     \<lparr>line_buf = [], cur_event_type = None, data_buf = [], has_data = False,
      prev_cr = False, scratch_bytes = 0, max_buffer_bytes = max_bytes\<rparr>"

section \<open>Operations\<close>

definition buffered_bytes :: "frame_parser \<Rightarrow> nat" where
  "buffered_bytes p =
     saturating_add (saturating_add (length (line_buf p)) (length (data_buf p)))
       (case cur_event_type p of None \<Rightarrow> 0 | Some e \<Rightarrow> length e)"

definition check_buffer_limit :: "frame_parser \<Rightarrow> sse_parse_error + unit" where
  "check_buffer_limit p =
     (if scratch_bytes p > max_buffer_bytes p
      then Inl (BufferOverflow (scratch_bytes p) (max_buffer_bytes p))
      else Inr ())"

definition check_event_limit :: "(nat \<times> nat) option \<Rightarrow> nat \<Rightarrow> sse_parse_error + unit" where
  "check_event_limit event_limit parsed_in_chunk =
     (case event_limit of
        None \<Rightarrow> Inr ()
      | Some (current_events, max_events) \<Rightarrow>
          (let count = saturating_add (saturating_add current_events parsed_in_chunk) 1
           in if count > max_events then Inl (EventLimitExceeded count max_events) else Inr ()))"

text \<open>One complete line, in \<open>line_buf\<close>: a blank line may emit a frame.\<close>

definition process_line :: "frame_parser \<Rightarrow> frame_parser \<times> sse_frame option" where
  "process_line p =
     (if line_buf p = [] then
        (let frame = (if has_data p
                      then Some \<lparr>frame_event_type = cur_event_type p, frame_data = data_buf p\<rparr>
                      else None);
             p1 = (if has_data p then p\<lparr>data_buf := [], has_data := False\<rparr> else p)
         in (p1\<lparr>cur_event_type := None\<rparr>, frame))
      else if get_at (line_buf p) 0 = Some (CHR '':'') then (p, None)
      else
        (case position (\<lambda>b. b = CHR '':'') (line_buf p) of
           None \<Rightarrow> (p, None)
         | Some colon_pos \<Rightarrow>
             (let field = take colon_pos (line_buf p);
                  value_start = (if get_at (line_buf p) (colon_pos + 1) = Some SP
                                 then colon_pos + 2 else colon_pos + 1);
                  value = drop value_start (line_buf p)
              in if field = ''data'' then
                   (p\<lparr>data_buf := data_buf p @ (if has_data p then [LF] else []) @ value,
                      has_data := True\<rparr>, None)
                 else if field = ''event'' then
                   (p\<lparr>cur_event_type := Some (from_utf8_lossy value)\<rparr>, None)
                 else (p, None))))"

text \<open>
  The byte loop. \<open>n\<close> is \<open>counted_in_chunk\<close>, the last argument the chunk from the current
  index on. A line feed after a carriage return in the same chunk is skipped; a carriage
  return that ends the chunk sets \<open>prev_cr\<close>.
\<close>

definition skip_lf :: "char \<Rightarrow> bytes \<Rightarrow> bytes" where
  "skip_lf b rest = (if b = CR \<and> get_at rest 0 = Some LF then tl rest else rest)"

lemma length_skip_lf [slice_len]: "length (skip_lf b rest) \<le> length rest"
  by (simp add: skip_lf_def)

function parse_loop ::
  "(sse_frame \<Rightarrow> bool) \<Rightarrow> (nat \<times> nat) option \<Rightarrow> frame_parser \<Rightarrow> nat \<Rightarrow> sse_frame list \<Rightarrow> bytes
    \<Rightarrow> frame_parser \<times> (sse_parse_error + sse_frame list \<times> nat)" where
  "parse_loop count_frame event_limit p n frames [] =
     (p\<lparr>scratch_bytes := buffered_bytes p\<rparr>, Inr (frames, n))"
| "parse_loop count_frame event_limit p n frames (b # rest) =
     (if b = LF \<or> b = CR then
        (let (p1, frame) = process_line p;
             counted = (case frame of None \<Rightarrow> False | Some f \<Rightarrow> count_frame f)
         in case (if counted then check_event_limit event_limit n else Inr ()) of
              Inl e \<Rightarrow> (p1, Inl e)
            | Inr _ \<Rightarrow>
                (let n' = (if counted then saturating_add n 1 else n);
                     frames' = (case frame of None \<Rightarrow> frames | Some f \<Rightarrow> frames @ [f]);
                     p2 = p1\<lparr>line_buf := []\<rparr>;
                     p3 = p2\<lparr>scratch_bytes := buffered_bytes p2\<rparr>;
                     p4 = (if b = CR \<and> rest = [] then p3\<lparr>prev_cr := True\<rparr> else p3)
                 in case check_buffer_limit p4 of
                      Inl e \<Rightarrow> (p4, Inl e)
                    | Inr _ \<Rightarrow> parse_loop count_frame event_limit p4 n' frames' (skip_lf b rest)))
      else
        (let p1 = p\<lparr>line_buf := line_buf p @ [b],
                    scratch_bytes := saturating_add (scratch_bytes p) 1\<rparr>
         in case check_buffer_limit p1 of
              Inl e \<Rightarrow> (p1, Inl e)
            | Inr _ \<Rightarrow> parse_loop count_frame event_limit p1 n frames rest))"
  by pat_completeness auto
termination
  by (relation "measure (\<lambda>(_, _, _, _, _, bs). length bs)")
     (auto simp: less_Suc_eq_le slice_len)

definition parse_chunk_inner ::
  "frame_parser \<Rightarrow> bytes \<Rightarrow> (nat \<times> nat) option \<Rightarrow> (sse_frame \<Rightarrow> bool)
    \<Rightarrow> frame_parser \<times> (sse_parse_error + sse_frame list)" where
  "parse_chunk_inner p chunk event_limit count_frame =
     (if chunk = [] then (p\<lparr>scratch_bytes := buffered_bytes p\<rparr>, Inr [])
      else
        (let chunk' = (if prev_cr p \<and> get_at chunk 0 = Some LF then tl chunk else chunk);
             (p', r) = parse_loop count_frame event_limit (p\<lparr>prev_cr := False\<rparr>) 0 [] chunk'
         in (p', map_sum id fst r)))"

definition parse_chunk_frames ::
  "frame_parser \<Rightarrow> bytes \<Rightarrow> frame_parser \<times> (sse_parse_error + sse_frame list)" where
  "parse_chunk_frames p chunk = parse_chunk_inner p chunk None (\<lambda>_. True)"

definition parse_chunk_with_counted_event_limit ::
  "frame_parser \<Rightarrow> bytes \<Rightarrow> nat \<Rightarrow> nat \<Rightarrow> (sse_frame \<Rightarrow> bool)
    \<Rightarrow> frame_parser \<times> (sse_parse_error + sse_frame list)" where
  "parse_chunk_with_counted_event_limit p chunk current_events max_events count_frame =
     parse_chunk_inner p chunk (Some (current_events, max_events)) count_frame"

definition parse_chunk_with_event_limit ::
  "frame_parser \<Rightarrow> bytes \<Rightarrow> nat \<Rightarrow> nat \<Rightarrow> frame_parser \<times> (sse_parse_error + sse_frame list)" where
  "parse_chunk_with_event_limit p chunk current_events max_events =
     parse_chunk_with_counted_event_limit p chunk current_events max_events (\<lambda>_. True)"

section \<open>One byte at a time\<close>

text \<open>
  The body of the loop for one byte; \<open>at_end\<close> says that the chunk ends with it. The loop is
  this step iterated, which is the form the proofs use.
\<close>

definition byte_step ::
  "(sse_frame \<Rightarrow> bool) \<Rightarrow> (nat \<times> nat) option \<Rightarrow> frame_parser \<Rightarrow> nat \<Rightarrow> char \<Rightarrow> bool
    \<Rightarrow> sse_parse_error + (frame_parser \<times> nat \<times> sse_frame list)" where
  "byte_step count_frame event_limit p n b at_end =
     (if b = LF \<or> b = CR then
        (let (p1, frame) = process_line p;
             counted = (case frame of None \<Rightarrow> False | Some f \<Rightarrow> count_frame f);
             p2 = p1\<lparr>line_buf := []\<rparr>;
             p3 = p2\<lparr>scratch_bytes := buffered_bytes p2\<rparr>;
             p4 = (if b = CR \<and> at_end then p3\<lparr>prev_cr := True\<rparr> else p3)
         in and_then (if counted then check_event_limit event_limit n else Inr ()) (\<lambda>_.
            and_then (check_buffer_limit p4) (\<lambda>_.
              Inr (p4, (if counted then saturating_add n 1 else n),
                   (case frame of None \<Rightarrow> [] | Some f \<Rightarrow> [f])))))
      else
        (let p1 = p\<lparr>line_buf := line_buf p @ [b],
                    scratch_bytes := saturating_add (scratch_bytes p) 1\<rparr>
         in and_then (check_buffer_limit p1) (\<lambda>_. Inr (p1, n, []))))"

text \<open>The value a caller of a failing operation sees: the state is only used after success.\<close>

definition outcome :: "'p \<times> ('e + 'a) \<Rightarrow> 'e + 'a \<times> 'p" where
  "outcome r = (case snd r of Inl e \<Rightarrow> Inl e | Inr a \<Rightarrow> Inr (a, fst r))"

lemma outcome_simps [simp]:
  "outcome (p, Inl e) = Inl e" "outcome (p, Inr a) = Inr (a, p)"
  by (simp_all add: outcome_def)

lemma skip_lf_other: "b \<noteq> CR \<Longrightarrow> skip_lf b rest = rest"
  by (simp add: skip_lf_def)

lemma skip_lf_append: "rest \<noteq> [] \<Longrightarrow> skip_lf b (rest @ bs) = skip_lf b rest @ bs"
  by (cases rest) (auto simp: skip_lf_def get_at_def)

lemma parse_loop_Cons:
  "outcome (parse_loop cf lim p n fs (b # rest)) =
     and_then (byte_step cf lim p n b (rest = [])) (\<lambda>(p', n', gs).
       outcome (parse_loop cf lim p' n' (fs @ gs) (skip_lf b rest)))"
proof (cases "b = LF \<or> b = CR")
  case True
  then show ?thesis
    by (simp add: byte_step_def Let_def split: sum.split prod.split option.split)
next
  case False
  then show ?thesis
    by (simp add: byte_step_def Let_def skip_lf_other split: sum.split)
qed

lemma parse_loop_Nil:
  "outcome (parse_loop cf lim p n fs []) = Inr ((fs, n), p\<lparr>scratch_bytes := buffered_bytes p\<rparr>)"
  by simp

lemmas parse_loop_outcome = parse_loop_Nil parse_loop_Cons

declare parse_loop.simps [simp del]

section \<open>The state invariant\<close>

definition parser_ok :: "frame_parser \<Rightarrow> bool" where
  "parser_ok p \<longleftrightarrow>
     scratch_bytes p = buffered_bytes p \<and> scratch_bytes p \<le> max_buffer_bytes p \<and>
     (\<not> has_data p \<longrightarrow> data_buf p = [])"

lemma parser_ok_new: "parser_ok (new_parser m)"
  by (simp add: parser_ok_def new_parser_def buffered_bytes_def saturating_add_def)

lemma process_line_frame:
  "process_line p = (p1, f) \<Longrightarrow>
     max_buffer_bytes p1 = max_buffer_bytes p \<and> prev_cr p1 = prev_cr p \<and>
     ((\<not> has_data p \<longrightarrow> data_buf p = []) \<longrightarrow> (\<not> has_data p1 \<longrightarrow> data_buf p1 = []))"
  by (auto simp: process_line_def Let_def split: if_splits option.splits)

lemma buffered_bytes_push:
  "scratch_bytes p = buffered_bytes p \<Longrightarrow>
     saturating_add (scratch_bytes p) 1 = buffered_bytes (p\<lparr>line_buf := line_buf p @ [b]\<rparr>)"
  by (auto simp: buffered_bytes_def saturating_add_def split: option.splits)

lemma buffered_bytes_update [simp]:
  "buffered_bytes (p\<lparr>scratch_bytes := k\<rparr>) = buffered_bytes p"
  "buffered_bytes (p\<lparr>prev_cr := c\<rparr>) = buffered_bytes p"
  by (simp_all add: buffered_bytes_def)

lemma byte_step_ok:
  assumes "byte_step cf lim p n b at_end = Inr (p', n', gs)" and "parser_ok p" and "\<not> prev_cr p"
  shows "parser_ok p' \<and> prev_cr p' = (b = CR \<and> at_end) \<and> max_buffer_bytes p' = max_buffer_bytes p"
proof (cases "b = LF \<or> b = CR")
  case True
  obtain p1 f where pl: "process_line p = (p1, f)" by (cases "process_line p")
  from process_line_frame [OF pl] assms True pl show ?thesis
    by (auto simp: byte_step_def Let_def and_then_Inr_iff check_buffer_limit_def parser_ok_def
        split: if_splits)
next
  case False
  with assms buffered_bytes_push [of p b] show ?thesis
    by (auto simp: byte_step_def Let_def and_then_Inr_iff check_buffer_limit_def parser_ok_def
        split: if_splits)
qed

lemma parser_ok_idle:
  "parser_ok p \<Longrightarrow> p\<lparr>scratch_bytes := buffered_bytes p\<rparr> = p"
  by (simp add: parser_ok_def)

lemma parser_ok_prev_cr [simp]: "parser_ok (p\<lparr>prev_cr := c\<rparr>) \<longleftrightarrow> parser_ok p"
  by (simp add: parser_ok_def)

lemma parse_loop_ok:
  assumes "outcome (parse_loop cf lim p n fs bs) = Inr (r, p')" and "parser_ok p" and "\<not> prev_cr p"
  shows "parser_ok p' \<and> max_buffer_bytes p' = max_buffer_bytes p"
  using assms
proof (induction bs arbitrary: p n fs rule: measure_induct_rule [where f = length])
  case (less bs)
  show ?case
  proof (cases bs)
    case Nil
    with less.prems show ?thesis by (auto simp: parse_loop_outcome parser_ok_idle)
  next
    case (Cons b rest)
    with less.prems(1) obtain q m gs where
      q: "byte_step cf lim p n b (rest = []) = Inr (q, m, gs)" and
      l: "outcome (parse_loop cf lim q m (fs @ gs) (skip_lf b rest)) = Inr (r, p')"
      by (auto simp: parse_loop_outcome and_then_Inr_iff)
    note q_ok = byte_step_ok [OF q less.prems(2,3)]
    show ?thesis
    proof (cases "rest = []")
      case True
      with l q_ok show ?thesis by (auto simp: skip_lf_def get_at_def parse_loop_outcome parser_ok_idle)
    next
      case False
      with less.IH [OF _ l] q_ok Cons length_skip_lf [of b rest] show ?thesis by auto
    qed
  qed
qed

section \<open>Chunk boundaries\<close>

text \<open>
  A byte that ends the chunk against the same byte with more to come: only \<open>prev_cr\<close> differs.
\<close>

lemma byte_step_at_end:
  assumes "\<not> prev_cr p"
  shows "and_then (byte_step cf lim p n b True) (\<lambda>(p', m, gs). Inr (p'\<lparr>prev_cr := False\<rparr>, m, gs))
       = byte_step cf lim p n b False"
proof -
  obtain p1 f where pl: "process_line p = (p1, f)" by (cases "process_line p")
  have "\<not> prev_cr p1" using process_line_frame [OF pl] assms by simp
  with assms pl show ?thesis
    by (auto simp: byte_step_def Let_def check_buffer_limit_def check_event_limit_def
        split: option.splits prod.splits)
qed

text \<open>The chunk that follows a call whose state is \<open>p\<close>, as \<open>parse_chunk_inner\<close> enters it.\<close>

definition resume :: "frame_parser \<Rightarrow> bytes \<Rightarrow> bytes" where
  "resume p bs = (if prev_cr p then skip_lf CR bs else bs)"

lemma parse_loop_append:
  assumes "parser_ok p" and "\<not> prev_cr p" and "bs \<noteq> []"
  shows "outcome (parse_loop cf lim p n fs (as @ bs)) =
    and_then (outcome (parse_loop cf lim p n fs as)) (\<lambda>((fs', n'), p').
      outcome (parse_loop cf lim (p'\<lparr>prev_cr := False\<rparr>) n' fs' (resume p' bs)))"
  using assms(1,2)
proof (induction as arbitrary: p n fs rule: measure_induct_rule [where f = length])
  case (less as)
  show ?case
  proof (cases as)
    case Nil
    from less.prems have "p\<lparr>prev_cr := False\<rparr> = p" by simp
    then have "parse_loop cf lim (p\<lparr>prev_cr := False\<rparr>) n fs bs = parse_loop cf lim p n fs bs"
      by (simp only:)
    with Nil less.prems show ?thesis
      by (simp add: parse_loop_outcome parser_ok_idle resume_def)
  next
    case (Cons b rest)
    show ?thesis
    proof (cases "rest = []")
      case False
      have step: "outcome (parse_loop cf lim q m gs (skip_lf b rest @ bs)) =
          and_then (outcome (parse_loop cf lim q m gs (skip_lf b rest))) (\<lambda>((fs', n'), p').
            outcome (parse_loop cf lim (p'\<lparr>prev_cr := False\<rparr>) n' fs' (resume p' bs)))"
        if "byte_step cf lim p n b False = Inr (q, m, hs)" for q m gs hs
        using less.IH [of "skip_lf b rest" q m gs] byte_step_ok [OF that less.prems] Cons
          length_skip_lf [of b rest] by simp
      show ?thesis
        using Cons False step
        by (cases "byte_step cf lim p n b False")
           (auto simp: parse_loop_Cons skip_lf_append and_then_assoc)
    next
      case True
      have nil: "skip_lf b [] = []" by (simp add: skip_lf_def get_at_def)
      show ?thesis
      proof (cases "byte_step cf lim p n b True")
        case (Inl e)
        with byte_step_at_end [OF less.prems(2), of cf lim n b] have
          "byte_step cf lim p n b False = Inl e" by simp
        with Inl Cons True assms(3) show ?thesis by (simp add: parse_loop_Cons)
      next
        case (Inr r)
        obtain q m gs where r: "r = (q, m, gs)" by (cases r) auto
        with Inr have q: "byte_step cf lim p n b True = Inr (q, m, gs)" by simp
        from q byte_step_at_end [OF less.prems(2), of cf lim n b] have
          q': "byte_step cf lim p n b False = Inr (q\<lparr>prev_cr := False\<rparr>, m, gs)" by simp
        from byte_step_ok [OF q less.prems] have
          ok: "parser_ok q" "prev_cr q \<longleftrightarrow> b = CR" by auto
        have "resume q bs = skip_lf b bs"
          using ok by (simp add: resume_def skip_lf_other)
        with q q' ok Cons True assms(3) nil show ?thesis
          by (simp add: parse_loop_Cons parse_loop_Nil parser_ok_idle)
      qed
    qed
  qed
qed

text \<open>The event budget counts on from call to call.\<close>

definition count_on :: "(nat \<times> nat) option \<Rightarrow> nat \<Rightarrow> (nat \<times> nat) option" where
  "count_on lim k = map_option (\<lambda>(c, m). (c + k, m)) lim"

lemma check_event_limit_count_on:
  "check_event_limit (count_on lim k) n = check_event_limit lim (saturating_add k n)"
  by (cases lim) (auto simp: check_event_limit_def count_on_def saturating_add_def Let_def)

lemma byte_step_count_on:
  "byte_step cf lim p (saturating_add k n) b e =
     and_then (byte_step cf (count_on lim k) p n b e) (\<lambda>(p', m, gs). Inr (p', saturating_add k m, gs))"
  by (cases "check_event_limit lim (saturating_add k n)")
     (simp_all add: byte_step_def Let_def check_event_limit_count_on and_then_assoc
        saturating_add_Suc check_buffer_limit_def split: prod.split option.split)

lemma parse_loop_count_on:
  "outcome (parse_loop cf lim p (saturating_add k n) (hs @ fs) bs) =
     and_then (outcome (parse_loop cf (count_on lim k) p n fs bs)) (\<lambda>((gs, m), p').
       Inr ((hs @ gs, saturating_add k m), p'))"
proof (induction bs arbitrary: p n fs rule: measure_induct_rule [where f = length])
  case (less bs)
  show ?case
  proof (cases bs)
    case Nil
    then show ?thesis by (simp add: parse_loop_Nil)
  next
    case (Cons b rest)
    have "length (skip_lf b rest) < length bs"
      using Cons length_skip_lf [of b rest] by simp
    from less.IH [OF this] Cons show ?thesis
      by (cases "byte_step cf (count_on lim k) p n b (rest = [])")
         (auto simp: parse_loop_Cons byte_step_count_on)
  qed
qed

lemma byte_step_counts:
  "byte_step cf lim p n b e = Inr (p', m, gs) \<Longrightarrow> n \<le> usize_max \<Longrightarrow>
     m = min usize_max (n + length (filter cf gs))"
  by (auto simp: byte_step_def Let_def and_then_Inr_iff saturating_add_def
      split: if_splits prod.splits option.splits)

lemma parse_loop_counts:
  assumes "outcome (parse_loop cf lim p n fs bs) = Inr ((gs, m), p')" and "n \<le> usize_max"
  shows "\<exists>hs. gs = fs @ hs \<and> m = min usize_max (n + length (filter cf hs))"
  using assms
proof (induction bs arbitrary: p n fs rule: measure_induct_rule [where f = length])
  case (less bs)
  show ?case
  proof (cases bs)
    case Nil
    with less.prems show ?thesis by (simp add: parse_loop_Nil)
  next
    case (Cons b rest)
    with less.prems(1) obtain q k xs where
      q: "byte_step cf lim p n b (rest = []) = Inr (q, k, xs)" and
      l: "outcome (parse_loop cf lim q k (fs @ xs) (skip_lf b rest)) = Inr ((gs, m), p')"
      by (auto simp: parse_loop_Cons and_then_Inr_iff)
    note k = byte_step_counts [OF q less.prems(2)]
    have "length (skip_lf b rest) < length bs"
      using Cons length_skip_lf [of b rest] by simp
    from less.IH [OF this l] k obtain hs where
      "gs = (fs @ xs) @ hs" "m = min usize_max (k + length (filter cf hs))" by auto
    with k show ?thesis by (intro exI [of _ "xs @ hs"]) auto
  qed
qed

section \<open>The scanner interface\<close>

text \<open>
  A call with its result as the next state or the error. The second form carries the number of
  counted events a caller passes to the next call, as \<open>ResponsesSseParser\<close> does.
\<close>

definition feed_frames ::
  "frame_parser \<Rightarrow> bytes \<Rightarrow> sse_parse_error + sse_frame list \<times> frame_parser" where
  "feed_frames p chunk = outcome (parse_chunk_frames p chunk)"

definition feed_counted ::
  "(sse_frame \<Rightarrow> bool) \<Rightarrow> nat \<Rightarrow> frame_parser \<times> nat \<Rightarrow> bytes
    \<Rightarrow> sse_parse_error + sse_frame list \<times> frame_parser \<times> nat" where
  "feed_counted cf mx s chunk =
     and_then (outcome (parse_chunk_with_counted_event_limit (fst s) chunk (snd s) mx cf))
       (\<lambda>(fs, p). Inr (fs, p, snd s + length (filter cf fs)))"

lemma outcome_map_fst:
  "outcome (p, map_sum id fst r) = and_then (outcome (p, r)) (\<lambda>((fs, n), q). Inr (fs, q))"
  by (cases r) auto

lemma parse_chunk_inner_outcome:
  "chunk \<noteq> [] \<Longrightarrow> outcome (parse_chunk_inner p chunk lim cf) =
     and_then (outcome (parse_loop cf lim (p\<lparr>prev_cr := False\<rparr>) 0 [] (resume p chunk)))
       (\<lambda>((fs, n), q). Inr (fs, q))"
  by (auto simp: parse_chunk_inner_def Let_def resume_def skip_lf_def outcome_map_fst
      split: prod.split)

lemma parse_chunk_inner_Nil:
  "parser_ok p \<Longrightarrow> parse_chunk_inner p [] lim cf = (p, Inr [])"
  by (simp add: parse_chunk_inner_def parser_ok_idle)

lemma parse_chunk_inner_ok:
  assumes "outcome (parse_chunk_inner p chunk lim cf) = Inr (fs, q)" and "parser_ok p"
  shows "parser_ok q \<and> max_buffer_bytes q = max_buffer_bytes p"
proof (cases "chunk = []")
  case True
  with assms show ?thesis by (simp add: parse_chunk_inner_Nil)
next
  case False
  with assms(1) obtain n where
    "outcome (parse_loop cf lim (p\<lparr>prev_cr := False\<rparr>) 0 [] (resume p chunk)) = Inr ((fs, n), q)"
    by (auto simp: parse_chunk_inner_outcome and_then_Inr_iff)
  from parse_loop_ok [OF this] assms(2) show ?thesis by simp
qed

lemma parse_chunk_inner_append:
  assumes "parser_ok p" and "as \<noteq> []" and "bs \<noteq> []"
  shows "outcome (parse_chunk_inner p (as @ bs) lim cf) =
    and_then (outcome (parse_chunk_inner p as lim cf)) (\<lambda>(fs, q).
      and_then (outcome (parse_chunk_inner q bs (count_on lim (length (filter cf fs))) cf))
        (\<lambda>(gs, r). Inr (fs @ gs, r)))"
proof -
  let ?p = "p\<lparr>prev_cr := False\<rparr>"
  have split: "resume p (as @ bs) = resume p as @ bs"
    using assms by (simp add: resume_def skip_lf_append)
  have second: "outcome (parse_loop cf lim q n fs (resume q' bs)) =
      and_then (outcome (parse_loop cf (count_on lim (length (filter cf fs))) q 0 [] (resume q' bs)))
        (\<lambda>((gs, m), r). Inr ((fs @ gs, saturating_add n m), r))"
    if "outcome (parse_loop cf lim ?p 0 [] (resume p as)) = Inr ((fs, n), q')" for q n fs q'
  proof -
    from parse_loop_counts [OF that] have n: "n = saturating_add (length (filter cf fs)) 0"
      by (simp add: saturating_add_def)
    have absorb: "saturating_add (saturating_add k 0) m = saturating_add k m" for k m
      by (auto simp: saturating_add_def)
    show ?thesis
      using parse_loop_count_on [of cf lim q "length (filter cf fs)" 0 fs "[]" "resume q' bs"]
      by (simp add: n absorb)
  qed
  have "outcome (parse_chunk_inner p (as @ bs) lim cf) =
      and_then (outcome (parse_loop cf lim ?p 0 [] (resume p as)))
        (\<lambda>((fs, n), q). and_then (outcome (parse_loop cf lim (q\<lparr>prev_cr := False\<rparr>) n fs (resume q bs)))
          (\<lambda>((gs, m), r). Inr (gs, r)))"
    using assms parse_loop_append [of ?p bs cf lim 0 "[]" "resume p as"]
    by (simp add: parse_chunk_inner_outcome split and_then_assoc split_def)
  also have "\<dots> = and_then (outcome (parse_chunk_inner p as lim cf)) (\<lambda>(fs, q).
      and_then (outcome (parse_chunk_inner q bs (count_on lim (length (filter cf fs))) cf))
        (\<lambda>(gs, r). Inr (fs @ gs, r)))"
    using assms second
    by (cases "outcome (parse_loop cf lim ?p 0 [] (resume p as))")
       (auto simp: parse_chunk_inner_outcome and_then_assoc split_def)
  finally show ?thesis .
qed

interpretation frames: chunked_scanner_nil feed_frames "\<lambda>_ e. e" parser_ok
proof
  fix p :: frame_parser and as bs :: bytes assume "parser_ok p" "as \<noteq> []" "bs \<noteq> []"
  from parse_chunk_inner_append [OF this, of None "\<lambda>_. True"]
  show "feed_frames p (as @ bs) =
      feed_then (\<lambda>_ e. e) (\<lambda>t. feed_frames t bs) (feed_frames p as)"
    by (cases "outcome (parse_chunk_inner p as None (\<lambda>_. True))")
       (auto simp: feed_frames_def parse_chunk_frames_def feed_then_def count_on_def
         and_then_eq_case split: sum.split)
qed (auto simp: feed_frames_def parse_chunk_frames_def parse_chunk_inner_Nil
      dest: parse_chunk_inner_ok)

interpretation counted:
  chunked_scanner_nil "feed_counted cf mx" "\<lambda>_ e. e" "\<lambda>s. parser_ok (fst s)" for cf mx
proof
  fix s :: "frame_parser \<times> nat" and as bs :: bytes assume "parser_ok (fst s)" "as \<noteq> []" "bs \<noteq> []"
  from parse_chunk_inner_append [OF this, of "Some (snd s, mx)" cf]
  show "feed_counted cf mx s (as @ bs) =
      feed_then (\<lambda>_ e. e) (\<lambda>t. feed_counted cf mx t bs) (feed_counted cf mx s as)"
    by (cases "outcome (parse_chunk_inner (fst s) as (Some (snd s, mx)) cf)")
       (auto simp: feed_counted_def parse_chunk_with_counted_event_limit_def feed_then_def
         count_on_def and_then_eq_case add.assoc split: sum.split)
qed (auto simp: feed_counted_def parse_chunk_with_counted_event_limit_def parse_chunk_inner_Nil
      and_then_Inr_iff dest: parse_chunk_inner_ok)

section \<open>Errors\<close>

text \<open>The kind of an error, and how it is read back from four letters of its text.\<close>

definition error_kind :: "sse_parse_error \<Rightarrow> nat" where
  "error_kind e =
     (case e of
        BufferOverflow _ _ \<Rightarrow> 0 | MalformedJson _ _ \<Rightarrow> 1 | MissingEventType _ _ \<Rightarrow> 2 | EventTypeMismatch _ _ \<Rightarrow> 3
      | EventLimitExceeded _ _ \<Rightarrow> 4 | Timeout _ _ \<Rightarrow> 5 | MissingTerminalEvent \<Rightarrow> 6 | EventAfterTerminal _ \<Rightarrow> 7)"

definition text_kind :: "str \<Rightarrow> nat" where
  "text_kind t =
     (if t ! 1 = CHR ''a'' then 1 else if t ! 1 = CHR ''i'' then 2
      else if t ! 4 = CHR ''b'' then 0
      else if t ! 4 = CHR ''s'' then (if t ! 11 = CHR ''t'' then 5 else 6)
      else if t ! 10 = CHR ''t'' then 3 else if t ! 10 = CHR ''l'' then 4 else 7)"

lemma text_tells_kind: "text_kind (sse_error_text dur e) = error_kind e"
  by (cases e; simp only: sse_error_text_def sse_parse_error.case error_kind_def text_kind_def;
      simp add: nth_Cons' del: show_nat.simps)

end
