(* ===== verification/Responses_Event.thy ===== *)
theory Responses_Event
  imports Sse_Frame Json
begin

text \<open>
  The typed events of a Responses API stream, \<open>apis/src/openai/sse/responses/event.rs\<close>: the
  event enum, the reading of an SSE frame as an event, the type names and their aliases. The
  facts are the agreement of the type names with the payload and the frame, and which type
  names end a stream.
\<close>

datatype responses_event =
    ResponseCreated json
  | ResponseQueued json
  | ResponseInProgress json
  | ResponseCompleted json
  | ResponseIncomplete json
  | ResponseFailed json
  | OutputItemAdded json
  | OutputItemDone json
  | ContentPartAdded json
  | ContentPartDone json
  | OutputTextDelta json
  | OutputTextDone json
  | OutputTextAnnotationAdded json
  | FunctionCallArgumentsDelta json
  | FunctionCallArgumentsDone json
  | RefusalDelta json
  | RefusalDone json
  | ReasoningDelta json
  | ReasoningDone json
  | ReasoningSummaryTextDelta json
  | ReasoningSummaryTextDone json
  | ReasoningSummaryPartAdded json
  | ReasoningSummaryPartDone json
  | ErrorEvent json
  | UnknownEvent str json

definition canonical_event_type :: "str \<Rightarrow> str" where
  "canonical_event_type t =
     (if t = ''response.reasoning_text.delta'' then ''response.reasoning.delta''
      else if t = ''response.reasoning_text.done'' then ''response.reasoning.done''
      else t)"

definition from_event_type :: "str \<Rightarrow> json \<Rightarrow> responses_event" where
  "from_event_type t data =
     (if t = ''response.created'' then ResponseCreated data
      else if t = ''response.queued'' then ResponseQueued data
      else if t = ''response.in_progress'' then ResponseInProgress data
      else if t = ''response.completed'' then ResponseCompleted data
      else if t = ''response.incomplete'' then ResponseIncomplete data
      else if t = ''response.failed'' then ResponseFailed data
      else if t = ''response.output_item.added'' then OutputItemAdded data
      else if t = ''response.output_item.done'' then OutputItemDone data
      else if t = ''response.content_part.added'' then ContentPartAdded data
      else if t = ''response.content_part.done'' then ContentPartDone data
      else if t = ''response.output_text.delta'' then OutputTextDelta data
      else if t = ''response.output_text.done'' then OutputTextDone data
      else if t = ''response.output_text.annotation.added'' then OutputTextAnnotationAdded data
      else if t = ''response.function_call_arguments.delta'' then FunctionCallArgumentsDelta data
      else if t = ''response.function_call_arguments.done'' then FunctionCallArgumentsDone data
      else if t = ''response.refusal.delta'' then RefusalDelta data
      else if t = ''response.refusal.done'' then RefusalDone data
      else if t = ''response.reasoning.delta'' \<or> t = ''response.reasoning_text.delta'' then ReasoningDelta data
      else if t = ''response.reasoning.done'' \<or> t = ''response.reasoning_text.done'' then ReasoningDone data
      else if t = ''response.reasoning_summary_text.delta'' then ReasoningSummaryTextDelta data
      else if t = ''response.reasoning_summary_text.done'' then ReasoningSummaryTextDone data
      else if t = ''response.reasoning_summary_part.added'' then ReasoningSummaryPartAdded data
      else if t = ''response.reasoning_summary_part.done'' then ReasoningSummaryPartDone data
      else if t = ''error'' then ErrorEvent data
      else UnknownEvent t data)"

fun event_type :: "responses_event \<Rightarrow> str" where
  "event_type (ResponseCreated _) = ''response.created''"
| "event_type (ResponseQueued _) = ''response.queued''"
| "event_type (ResponseInProgress _) = ''response.in_progress''"
| "event_type (ResponseCompleted _) = ''response.completed''"
| "event_type (ResponseIncomplete _) = ''response.incomplete''"
| "event_type (ResponseFailed _) = ''response.failed''"
| "event_type (OutputItemAdded _) = ''response.output_item.added''"
| "event_type (OutputItemDone _) = ''response.output_item.done''"
| "event_type (ContentPartAdded _) = ''response.content_part.added''"
| "event_type (ContentPartDone _) = ''response.content_part.done''"
| "event_type (OutputTextDelta _) = ''response.output_text.delta''"
| "event_type (OutputTextDone _) = ''response.output_text.done''"
| "event_type (OutputTextAnnotationAdded _) = ''response.output_text.annotation.added''"
| "event_type (FunctionCallArgumentsDelta _) = ''response.function_call_arguments.delta''"
| "event_type (FunctionCallArgumentsDone _) = ''response.function_call_arguments.done''"
| "event_type (RefusalDelta _) = ''response.refusal.delta''"
| "event_type (RefusalDone _) = ''response.refusal.done''"
| "event_type (ReasoningDelta _) = ''response.reasoning.delta''"
| "event_type (ReasoningDone _) = ''response.reasoning.done''"
| "event_type (ReasoningSummaryTextDelta _) = ''response.reasoning_summary_text.delta''"
| "event_type (ReasoningSummaryTextDone _) = ''response.reasoning_summary_text.done''"
| "event_type (ReasoningSummaryPartAdded _) = ''response.reasoning_summary_part.added''"
| "event_type (ReasoningSummaryPartDone _) = ''response.reasoning_summary_part.done''"
| "event_type (ErrorEvent _) = ''error''"
| "event_type (UnknownEvent t _) = t"

fun is_terminal :: "responses_event \<Rightarrow> bool" where
  "is_terminal (ResponseCompleted _) = True"
| "is_terminal (ResponseIncomplete _) = True"
| "is_terminal (ResponseFailed _) = True"
| "is_terminal (ErrorEvent _) = True"
| "is_terminal _ = False"

fun is_error_event :: "responses_event \<Rightarrow> bool" where
  "is_error_event (ErrorEvent _) = True"
| "is_error_event _ = False"

text \<open>\<open>ResponsesEvent::from_frame\<close>.\<close>

definition from_frame :: "externals \<Rightarrow> sse_frame \<Rightarrow> sse_parse_error + responses_event" where
  "from_frame ext frame =
     (case from_slice ext (frame_data frame) of
        Inl err \<Rightarrow> Inl (MalformedJson (unwrap_or [] (frame_event_type frame)) err)
      | Inr data \<Rightarrow>
          (case get_str data ''type'' of
             None \<Rightarrow> Inl (MissingEventType ''data.type'' (unwrap_or [] (frame_event_type frame)))
           | Some data_type \<Rightarrow>
               (case frame_event_type frame of
                  Some t \<Rightarrow>
                    (if canonical_event_type t \<noteq> canonical_event_type data_type
                     then Inl (EventTypeMismatch t data_type)
                     else Inr (from_event_type data_type data))
                | None \<Rightarrow> Inr (from_event_type data_type data))))"

text \<open>The payload an event carries.\<close>

fun event_payload :: "responses_event \<Rightarrow> json" where
  "event_payload (ResponseCreated v) = v"
| "event_payload (ResponseQueued v) = v"
| "event_payload (ResponseInProgress v) = v"
| "event_payload (ResponseCompleted v) = v"
| "event_payload (ResponseIncomplete v) = v"
| "event_payload (ResponseFailed v) = v"
| "event_payload (OutputItemAdded v) = v"
| "event_payload (OutputItemDone v) = v"
| "event_payload (ContentPartAdded v) = v"
| "event_payload (ContentPartDone v) = v"
| "event_payload (OutputTextDelta v) = v"
| "event_payload (OutputTextDone v) = v"
| "event_payload (OutputTextAnnotationAdded v) = v"
| "event_payload (FunctionCallArgumentsDelta v) = v"
| "event_payload (FunctionCallArgumentsDone v) = v"
| "event_payload (RefusalDelta v) = v"
| "event_payload (RefusalDone v) = v"
| "event_payload (ReasoningDelta v) = v"
| "event_payload (ReasoningDone v) = v"
| "event_payload (ReasoningSummaryTextDelta v) = v"
| "event_payload (ReasoningSummaryTextDone v) = v"
| "event_payload (ReasoningSummaryPartAdded v) = v"
| "event_payload (ReasoningSummaryPartDone v) = v"
| "event_payload (ErrorEvent v) = v"
| "event_payload (UnknownEvent _ v) = v"

section \<open>Type names\<close>

lemma event_type_from_event_type: "event_type (from_event_type t v) = canonical_event_type t"
  by (simp add: from_event_type_def canonical_event_type_def)

lemma event_payload_from_event_type: "event_payload (from_event_type t v) = v"
  by (simp add: from_event_type_def)

lemma canonical_idem [simp]:
  "canonical_event_type (canonical_event_type t) = canonical_event_type t"
  by (simp add: canonical_event_type_def)

definition terminal_types :: "str set" where
  "terminal_types = {''response.completed'', ''response.incomplete'', ''response.failed'', ''error''}"

lemma is_terminal_from_event_type: "is_terminal (from_event_type t v) \<longleftrightarrow> t \<in> terminal_types"
  by (simp add: from_event_type_def terminal_types_def)

lemma is_error_from_event_type: "is_error_event (from_event_type t v) \<longleftrightarrow> t = ''error''"
  by (simp add: from_event_type_def)

lemma is_error_terminal: "is_error_event e \<Longrightarrow> is_terminal e"
  by (cases e) auto

lemma from_frame_Inr:
  "from_frame ext f = Inr e \<longleftrightarrow>
     (\<exists>v t. from_slice ext (frame_data f) = Inr v \<and> get_str v ''type'' = Some t \<and>
        (\<forall>u. frame_event_type f = Some u \<longrightarrow> canonical_event_type u = canonical_event_type t) \<and>
        e = from_event_type t v)"
  by (auto simp: from_frame_def split: sum.splits option.splits)

end
