(* ===== verification/Sse_Lines.thy ===== *)
theory Sse_Lines
  imports Sse_Frame
begin

text \<open>
  What the frame parser promises, said on whole streams: the line endings are normalised, the
  stream is cut into lines, and the lines are read field by field. The parser of
  \<^theory_text>\<open>Sse_Frame\<close> refines this reading for every way to cut the stream into chunks.
\<close>

section \<open>The line reading\<close>

fun norm_eol :: "bytes \<Rightarrow> bytes" where
  "norm_eol [] = []"
| "norm_eol (c # cs) =
     (if c = CR then LF # (case cs of [] \<Rightarrow> [] | d # ds \<Rightarrow> if d = LF then norm_eol ds else norm_eol cs)
      else c # norm_eol cs)"

definition complete_lines :: "bytes \<Rightarrow> bytes list" where
  "complete_lines s = butlast (split_char LF s)"

datatype sse_field = Data_field bytes | Event_field bytes | Other_field

definition sse_field :: "bytes \<Rightarrow> sse_field" where
  "sse_field line =
     (case split_once '':'' line of
        None \<Rightarrow> Other_field
      | Some (name, rest) \<Rightarrow>
          (let v = (case rest of c # cs \<Rightarrow> if c = SP then cs else rest | [] \<Rightarrow> [])
           in if name = ''data'' then Data_field v
              else if name = ''event'' then Event_field v
              else Other_field))"

fun dispatch :: "str option \<Rightarrow> bytes list \<Rightarrow> bytes list \<Rightarrow> sse_frame list" where
  "dispatch ev ds [] = []"
| "dispatch ev ds (l # ls) =
     (if l = [] then
        (if ds = [] then [] else [\<lparr>frame_event_type = ev, frame_data = str_join [LF] ds\<rparr>])
        @ dispatch None [] ls
      else
        (case sse_field l of
           Data_field v \<Rightarrow> dispatch ev (ds @ [v]) ls
         | Event_field v \<Rightarrow> dispatch (Some (from_utf8_lossy v)) ds ls
         | Other_field \<Rightarrow> dispatch ev ds ls))"

definition stream_frames :: "bytes \<Rightarrow> sse_frame list" where
  "stream_frames s = dispatch None [] (complete_lines (norm_eol s))"

section \<open>Lines\<close>

lemma norm_eol_break: "b = LF \<or> b = CR \<Longrightarrow> norm_eol (b # rest) = LF # norm_eol (skip_lf b rest)"
  by (cases rest) (auto simp: skip_lf_def get_at_def)

lemma norm_eol_other: "b \<noteq> LF \<Longrightarrow> b \<noteq> CR \<Longrightarrow> norm_eol (b # rest) = b # norm_eol rest"
  by simp

lemma norm_eol_id: "CR \<notin> set s \<Longrightarrow> norm_eol s = s"
  by (induction s) auto

lemma split_char_plain: "d \<notin> set l \<Longrightarrow> split_char d l = [l]"
  by (induction l) auto

lemma split_char_break: "d \<notin> set l \<Longrightarrow> split_char d (l @ d # r) = l # split_char d r"
  by (induction l) auto

lemma complete_lines_plain: "LF \<notin> set l \<Longrightarrow> complete_lines l = []"
  by (simp add: complete_lines_def split_char_plain)

lemma complete_lines_break: "LF \<notin> set l \<Longrightarrow> complete_lines (l @ LF # r) = l # complete_lines r"
  by (simp add: complete_lines_def split_char_break)

lemma split_once_position:
  "split_once [c] s = map_option (\<lambda>i. (take i s, drop (Suc i) s)) (position (\<lambda>b. b = c) s)"
  by (induction s) (auto simp: option.map_comp comp_def map_option_case split: option.splits)

section \<open>One line\<close>

definition reads_as :: "frame_parser \<Rightarrow> str option \<Rightarrow> bytes list \<Rightarrow> bool" where
  "reads_as p ev ds \<longleftrightarrow>
     cur_event_type p = ev \<and> has_data p = (ds \<noteq> []) \<and> data_buf p = str_join [LF] ds"

lemma reads_as_frame [simp]:
  "reads_as (p\<lparr>line_buf := l\<rparr>) ev ds = reads_as p ev ds"
  "reads_as (p\<lparr>scratch_bytes := k\<rparr>) ev ds = reads_as p ev ds"
  "reads_as (p\<lparr>prev_cr := c\<rparr>) ev ds = reads_as p ev ds"
  by (simp_all add: reads_as_def)

lemma colon_value:
  "drop (if get_at l (i + 1) = Some SP then i + 2 else i + 1) l =
     (case drop (Suc i) l of c # cs \<Rightarrow> if c = SP then cs else c # cs | [] \<Rightarrow> [])"
proof (cases "Suc i < length l")
  case True
  then have "drop (Suc i) l = l ! Suc i # drop (Suc (Suc i)) l"
    by (rule Cons_nth_drop_Suc [symmetric])
  with True show ?thesis by (simp add: get_at_def)
next
  case False
  then show ?thesis by (simp add: get_at_def)
qed

lemma process_line_reads:
  assumes "reads_as p ev ds" and "process_line p = (q, f)"
  shows "\<exists>ev' ds'. reads_as q ev' ds' \<and>
    (\<forall>ls. dispatch ev ds (line_buf p # ls) =
       (case f of None \<Rightarrow> [] | Some g \<Rightarrow> [g]) @ dispatch ev' ds' ls)"
proof (cases "line_buf p = []")
  case True
  have "reads_as q None []"
    using assms True by (auto simp: process_line_def reads_as_def split: if_splits)
  moreover have "\<forall>ls. dispatch ev ds (line_buf p # ls) =
       (case f of None \<Rightarrow> [] | Some g \<Rightarrow> [g]) @ dispatch None [] ls"
    using assms True by (auto simp: process_line_def reads_as_def split: if_splits)
  ultimately show ?thesis by blast
next
  case False
  let ?pos = "position (\<lambda>b. b = CHR '':'') (line_buf p)"
  show ?thesis
  proof (cases ?pos)
    case None
    with False assms show ?thesis
      by (auto simp: process_line_def sse_field_def split_once_position split: if_splits)
  next
    case (Some i)
    define v where "v = drop (if get_at (line_buf p) (i + 1) = Some SP then i + 2 else i + 1) (line_buf p)"
    have v_eq: "v = (case drop (Suc i) (line_buf p) of c # cs \<Rightarrow> if c = SP then cs else c # cs | [] \<Rightarrow> [])"
      unfolding v_def by (rule colon_value)
    have i0: "get_at (line_buf p) 0 = Some (CHR '':'') \<Longrightarrow> i = 0"
      using Some position_Some_iff [of "\<lambda>b. b = CHR '':''" "line_buf p" i]
      by (auto simp: get_at_def split: if_splits)
    have fld: "sse_field (line_buf p) =
        (if take i (line_buf p) = ''data'' then Data_field v
         else if take i (line_buf p) = ''event'' then Event_field v else Other_field)"
      using Some v_eq by (simp add: sse_field_def split_once_position Let_def split: list.split)
    have pl: "(q, f) =
        (if take i (line_buf p) = ''data'' then
           (p\<lparr>data_buf := data_buf p @ (if has_data p then [LF] else []) @ v, has_data := True\<rparr>, None)
         else if take i (line_buf p) = ''event'' then
           (p\<lparr>cur_event_type := Some (from_utf8_lossy v)\<rparr>, None)
         else (p, None))"
      unfolding assms(2) [symmetric] process_line_def v_def using False Some i0
      by (cases "get_at (line_buf p) 0 = Some (CHR '':'')") (simp_all add: Let_def)
    consider (data) "take i (line_buf p) = ''data''" | (event) "take i (line_buf p) = ''event''"
      | (other) "take i (line_buf p) \<noteq> ''data''" "take i (line_buf p) \<noteq> ''event''" by blast
    then show ?thesis
    proof cases
      case data
      with pl assms(1) have "reads_as q ev (ds @ [v])"
        by (auto simp: reads_as_def str_join_snoc)
      with data pl fld False show ?thesis by (intro exI [of _ ev] exI [of _ "ds @ [v]"]) simp
    next
      case event
      with pl assms(1) have "reads_as q (Some (from_utf8_lossy v)) ds"
        by (auto simp: reads_as_def)
      with event pl fld False show ?thesis
        by (intro exI [of _ "Some (from_utf8_lossy v)"] exI [of _ ds]) simp
    next
      case other
      with pl assms(1) fld False show ?thesis by (intro exI [of _ ev] exI [of _ ds]) simp
    qed
  qed
qed

section \<open>The loop\<close>

lemma byte_step_break:
  assumes "byte_step cf lim p n b e = Inr (q, m, gs)" and "b = LF \<or> b = CR"
    and "process_line p = (p1, f)"
  shows "q = p1\<lparr>line_buf := [], scratch_bytes := buffered_bytes (p1\<lparr>line_buf := []\<rparr>),
              prev_cr := (if b = CR \<and> e then True else prev_cr p1)\<rparr>
       \<and> gs = (case f of None \<Rightarrow> [] | Some g \<Rightarrow> [g])"
  using assms by (auto simp: byte_step_def Let_def and_then_Inr_iff split: if_splits)

lemma byte_step_other:
  assumes "byte_step cf lim p n b e = Inr (q, m, gs)" and "b \<noteq> LF" and "b \<noteq> CR"
  shows "q = p\<lparr>line_buf := line_buf p @ [b], scratch_bytes := saturating_add (scratch_bytes p) 1\<rparr>
       \<and> gs = []"
  using assms by (auto simp: byte_step_def Let_def and_then_Inr_iff)

lemma parse_loop_dispatch:
  assumes "outcome (parse_loop cf lim p n fs bs) = Inr ((gs, m), q)" and "reads_as p ev ds"
    and "LF \<notin> set (line_buf p)"
  shows "gs = fs @ dispatch ev ds (complete_lines (line_buf p @ norm_eol bs))"
  using assms
proof (induction bs arbitrary: p n fs ev ds rule: measure_induct_rule [where f = length])
  case (less bs)
  show ?case
  proof (cases bs)
    case Nil
    with less.prems show ?thesis by (simp add: parse_loop_Nil complete_lines_plain)
  next
    case (Cons b rest)
    with less.prems(1) obtain p2 k hs where
      step: "byte_step cf lim p n b (rest = []) = Inr (p2, k, hs)" and
      loop: "outcome (parse_loop cf lim p2 k (fs @ hs) (skip_lf b rest)) = Inr ((gs, m), q)"
      by (auto simp: parse_loop_Cons and_then_Inr_iff)
    have shorter: "length (skip_lf b rest) < length bs"
      using Cons length_skip_lf [of b rest] by simp
    show ?thesis
    proof (cases "b = LF \<or> b = CR")
      case True
      obtain p1 f where pl: "process_line p = (p1, f)" by (cases "process_line p")
      obtain ev' ds' where r: "reads_as p1 ev' ds'" and
        d: "\<And>ls. dispatch ev ds (line_buf p # ls) = hs @ dispatch ev' ds' ls"
        using process_line_reads [OF less.prems(2) pl] byte_step_break [OF step True pl] by auto
      from byte_step_break [OF step True pl] r have "reads_as p2 ev' ds'" and "line_buf p2 = []"
        by auto
      with less.IH [OF shorter loop] have
        "gs = (fs @ hs) @ dispatch ev' ds' (complete_lines (norm_eol (skip_lf b rest)))" by simp
      with less.prems(3) Cons True show ?thesis
        by (simp add: norm_eol_break complete_lines_break d del: dispatch.simps(2) norm_eol.simps(2))
    next
      case False
      then have "b \<noteq> LF" "b \<noteq> CR" by auto
      with byte_step_other [OF step] less.prems less.IH [OF shorter loop, of ev ds] Cons
      show ?thesis by (simp add: skip_lf_other)
    qed
  qed
qed

lemma parse_chunk_inner_dispatch:
  assumes "outcome (parse_chunk_inner (new_parser m) s lim cf) = Inr (fs, q)"
  shows "fs = stream_frames s"
proof (cases "s = []")
  case True
  with assms show ?thesis
    by (simp add: parse_chunk_inner_Nil parser_ok_new stream_frames_def complete_lines_def)
next
  case False
  have "resume (new_parser m) s = s" by (simp add: resume_def new_parser_def)
  with assms False obtain n where
    "outcome (parse_loop cf lim (new_parser m\<lparr>prev_cr := False\<rparr>) 0 [] s) = Inr ((fs, n), q)"
    by (auto simp: parse_chunk_inner_outcome and_then_Inr_iff)
  moreover have "reads_as (new_parser m\<lparr>prev_cr := False\<rparr>) None []"
    by (simp add: reads_as_def new_parser_def)
  ultimately have "fs = [] @ dispatch None [] (complete_lines (line_buf (new_parser m\<lparr>prev_cr := False\<rparr>) @ norm_eol s))"
    by (rule parse_loop_dispatch) (simp add: new_parser_def)
  then show ?thesis by (simp add: stream_frames_def new_parser_def)
qed

section \<open>Enough buffer\<close>

text \<open>
  A bound on what the parser can hold: every byte of the stream accounts for at most three
  bytes (an ill-formed byte of an \<open>event:\<close> value becomes the three bytes of U+FFFD).
\<close>

definition weight :: "frame_parser \<Rightarrow> nat" where
  "weight p = 3 * length (line_buf p) + length (data_buf p) +
     (case cur_event_type p of None \<Rightarrow> 0 | Some e \<Rightarrow> length e)"

lemma buffered_le_weight: "buffered_bytes p \<le> weight p"
  by (auto simp: buffered_bytes_def weight_def saturating_add_def split: option.splits)

lemma process_line_weight:
  assumes "process_line p = (q, f)"
  shows "weight (q\<lparr>line_buf := []\<rparr>) \<le> weight p"
proof -
  have lossy: "length (from_utf8_lossy (drop k l)) \<le> 3 * length l + x" for k x and l :: bytes
    using from_utf8_lossy_length [of "drop k l"] by simp
  have one: "l \<noteq> [] \<Longrightarrow> Suc (length l - Suc k) \<le> 3 * length l" for k and l :: bytes
    by (cases l) auto
  note lossy_0 = lossy [where x = 0, simplified]
  have pos: "0 < length (line_buf p)" if "position (\<lambda>b. b = CHR '':'') (line_buf p) = Some i" for i
    using that position_Some_iff [of "\<lambda>b. b = CHR '':''" "line_buf p" i] by auto
  show ?thesis
    using assms pos
    by (auto simp: process_line_def weight_def Let_def lossy lossy_0 one split: if_splits option.splits)
qed

lemma byte_step_break_None:
  assumes "b = LF \<or> b = CR" and "process_line p = (p1, f)"
    and "buffered_bytes (p1\<lparr>line_buf := []\<rparr>) \<le> max_buffer_bytes p1"
  shows "\<exists>m c. byte_step cf None p n b e =
    Inr (p1\<lparr>line_buf := [], scratch_bytes := buffered_bytes (p1\<lparr>line_buf := []\<rparr>), prev_cr := c\<rparr>,
         m, case f of None \<Rightarrow> [] | Some g \<Rightarrow> [g])"
proof (cases "b = CR \<and> e")
  case True
  with assms show ?thesis
    by (auto simp: byte_step_def check_event_limit_def check_buffer_limit_def Let_def
        intro!: exI [of _ True])
next
  case False
  then have "byte_step cf None p n b e =
    Inr (p1\<lparr>line_buf := [], scratch_bytes := buffered_bytes (p1\<lparr>line_buf := []\<rparr>)\<rparr>,
         if (case f of None \<Rightarrow> False | Some x \<Rightarrow> cf x) then saturating_add n 1 else n,
         case f of None \<Rightarrow> [] | Some g \<Rightarrow> [g])"
    using assms by (auto simp: byte_step_def check_event_limit_def check_buffer_limit_def Let_def)
  then show ?thesis by (cases p1) force
qed

lemma byte_step_weight:
  assumes "scratch_bytes p = buffered_bytes p" and "weight p + 3 \<le> max_buffer_bytes p"
  shows "\<exists>q m gs. byte_step cf None p n b e = Inr (q, m, gs) \<and> weight q \<le> weight p + 3 \<and>
    max_buffer_bytes q = max_buffer_bytes p \<and> scratch_bytes q = buffered_bytes q"
proof (cases "b = LF \<or> b = CR")
  case True
  obtain p1 f where pl: "process_line p = (p1, f)" by (cases "process_line p")
  let ?p2 = "p1\<lparr>line_buf := []\<rparr>"
  have w: "weight ?p2 \<le> weight p" and m: "max_buffer_bytes p1 = max_buffer_bytes p"
    using process_line_weight [OF pl] process_line_frame [OF pl] by auto
  have "buffered_bytes ?p2 \<le> max_buffer_bytes p1"
    using w m assms(2) buffered_le_weight [of ?p2] by simp
  from byte_step_break_None [OF True pl this] obtain k c where
    "byte_step cf None p n b e = Inr (?p2\<lparr>scratch_bytes := buffered_bytes ?p2, prev_cr := c\<rparr>,
       k, case f of None \<Rightarrow> [] | Some g \<Rightarrow> [g])" by blast
  moreover have "weight (?p2\<lparr>scratch_bytes := j, prev_cr := c\<rparr>) = weight ?p2" for j
    by (simp add: weight_def)
  ultimately show ?thesis using w m by simp
next
  case False
  have "buffered_bytes (p\<lparr>line_buf := line_buf p @ [b]\<rparr>) \<le> weight p + 3"
    using buffered_le_weight [of "p\<lparr>line_buf := line_buf p @ [b]\<rparr>"] by (simp add: weight_def)
  with assms False buffered_bytes_push [of p b] show ?thesis
    by (auto simp: byte_step_def Let_def check_buffer_limit_def weight_def)
qed

lemma parse_loop_succeeds:
  assumes "scratch_bytes p = buffered_bytes p" and "weight p + 3 * length bs \<le> max_buffer_bytes p"
  shows "\<exists>r. outcome (parse_loop cf None p n fs bs) = Inr r"
  using assms
proof (induction bs arbitrary: p n fs rule: measure_induct_rule [where f = length])
  case (less bs)
  show ?case
  proof (cases bs)
    case Nil
    then show ?thesis by (simp add: parse_loop_Nil)
  next
    case (Cons b rest)
    have len: "length (skip_lf b rest) \<le> length rest" by (rule length_skip_lf)
    from byte_step_weight [OF less.prems(1), of cf n b "rest = []"] less.prems(2) Cons
    obtain q m gs where q: "byte_step cf None p n b (rest = []) = Inr (q, m, gs)"
      "weight q \<le> weight p + 3" "max_buffer_bytes q = max_buffer_bytes p"
      "scratch_bytes q = buffered_bytes q" by auto
    have "weight q + 3 * length (skip_lf b rest) \<le> max_buffer_bytes q"
      using q less.prems(2) Cons len by simp
    from less.IH [OF _ q(4) this, of m "fs @ gs"] q(1) Cons len show ?thesis
      by (auto simp: parse_loop_Cons)
  qed
qed

lemma feed_frames_succeeds:
  assumes "3 * length s \<le> m"
  shows "\<exists>r. feed_frames (new_parser m) s = Inr r"
proof (cases "s = []")
  case True
  then show ?thesis by (simp add: frames.feed_Nil parser_ok_new)
next
  case False
  let ?p = "new_parser m\<lparr>prev_cr := False\<rparr>"
  have "\<exists>r. outcome (parse_loop (\<lambda>_. True) None ?p 0 [] s) = Inr r"
    using assms
    by (intro parse_loop_succeeds)
       (simp_all add: new_parser_def buffered_bytes_def saturating_add_def weight_def)
  with False show ?thesis
    by (auto simp: feed_frames_def parse_chunk_frames_def parse_chunk_inner_outcome resume_def new_parser_def)
qed

section \<open>The event budget\<close>

lemma byte_step_budget:
  assumes "byte_step cf (Some (cur, mx)) p n b e = Inr (q, m, gs)" and "mx < usize_max"
    and "cur + n \<le> mx"
  shows "m = n + length (filter cf gs) \<and> cur + m \<le> mx"
  using assms
  by (auto simp: byte_step_def Let_def and_then_Inr_iff saturating_add_def check_event_limit_def
      split: if_splits prod.splits option.splits)

lemma parse_loop_budget:
  assumes "outcome (parse_loop cf (Some (cur, mx)) p n fs bs) = Inr ((gs, m), q)"
    and "mx < usize_max" and "cur + n \<le> mx"
  shows "cur + m \<le> mx"
  using assms(1,3)
proof (induction bs arbitrary: p n fs rule: measure_induct_rule [where f = length])
  case (less bs)
  show ?case
  proof (cases bs)
    case Nil
    with less.prems show ?thesis by (simp add: parse_loop_Nil)
  next
    case (Cons b rest)
    with less.prems(1) obtain r k xs where
      step: "byte_step cf (Some (cur, mx)) p n b (rest = []) = Inr (r, k, xs)" and
      loop: "outcome (parse_loop cf (Some (cur, mx)) r k (fs @ xs) (skip_lf b rest)) = Inr ((gs, m), q)"
      by (auto simp: parse_loop_Cons and_then_Inr_iff)
    from byte_step_budget [OF step assms(2) less.prems(2)] have "cur + k \<le> mx" by simp
    with less.IH [OF _ loop] Cons length_skip_lf [of b rest] show ?thesis by simp
  qed
qed

lemma feed_counted_budget:
  assumes "feed_counted cf mx (p, cur) chunk = Inr (fs, q, cur')"
    and "mx < usize_max" and "cur \<le> mx"
  shows "cur' = cur + length (filter cf fs) \<and> cur' \<le> mx"
proof (cases "chunk = []")
  case True
  with assms show ?thesis
    by (auto simp: feed_counted_def parse_chunk_with_counted_event_limit_def
        parse_chunk_inner_def and_then_Inr_iff)
next
  case False
  from assms(1) have cur': "cur' = cur + length (filter cf fs)"
    by (auto simp: feed_counted_def and_then_Inr_iff)
  from assms(1) False obtain n where
    l: "outcome (parse_loop cf (Some (cur, mx)) (p\<lparr>prev_cr := False\<rparr>) 0 [] (resume p chunk))
        = Inr ((fs, n), q)"
    by (auto simp: feed_counted_def parse_chunk_with_counted_event_limit_def
        parse_chunk_inner_outcome and_then_Inr_iff)
  from parse_loop_budget [OF l assms(2)] assms(3) have "cur + n \<le> mx" by simp
  moreover from parse_loop_counts [OF l] have "n = min usize_max (length (filter cf fs))" by simp
  ultimately show ?thesis using cur' assms(2) by (auto simp: min_def split: if_splits)
qed

section \<open>Properties\<close>

text \<open>
  C1. Chunk boundaries never matter: feeding a stream chunk by chunk (empty chunks included)
  gives exactly the frames, the final state or the error of feeding it in one piece.
\<close>

theorem frame_chunking:
  "feed_all (\<lambda>_ e. e) feed_frames (new_parser m) cs = feed_frames (new_parser m) (concat cs)"
  by (rule frames.feed_all_concat_any [OF parser_ok_new])

text \<open>
  C2. The frame parser refines the line reading of SSE: with a buffer of three bytes for every
  byte of the stream it accepts the stream, however it is cut, and the frames are those of the
  normalised lines.
\<close>

theorem frames_refine_lines:
  assumes "3 * length (concat cs) \<le> m"
  shows "\<exists>q. feed_all (\<lambda>_ e. e) feed_frames (new_parser m) cs = Inr (stream_frames (concat cs), q)"
proof -
  from feed_frames_succeeds [OF assms] obtain fs q where
    q: "feed_frames (new_parser m) (concat cs) = Inr (fs, q)" by auto
  then have "fs = stream_frames (concat cs)"
    unfolding feed_frames_def parse_chunk_frames_def by (rule parse_chunk_inner_dispatch)
  with q show ?thesis
    using frames.feed_all_concat_any [OF parser_ok_new] by simp
qed

lemma frames_refine_lines_witness:
  "\<exists>q. feed_all (\<lambda>_ e. e) feed_frames (new_parser 60) [''event: a'' @ [CR], LF # ''data:b'', [LF, CR]]
     = Inr ([\<lparr>frame_event_type = Some ''a'', frame_data = ''b''\<rparr>], q)"
proof -
  have "stream_frames (concat [''event: a'' @ [CR], LF # ''data:b'', [LF, CR]]) =
      [\<lparr>frame_event_type = Some ''a'', frame_data = ''b''\<rparr>]" by code_simp
  with frames_refine_lines [of "[''event: a'' @ [CR], LF # ''data:b'', [LF, CR]]" 60]
  show ?thesis by simp
qed

text \<open>
  Memory is bounded: after every accepted chunk, however large the stream, the line, data
  and event type retained by the parser together fit the configured limit.
\<close>

theorem retained_bytes_bounded:
  assumes "feed_all (\<lambda>_ e. e) feed_frames (new_parser m) cs = Inr (fs, q)" and "m < usize_max"
  shows "length (line_buf q) + length (data_buf q) +
     (case cur_event_type q of None \<Rightarrow> 0 | Some e \<Rightarrow> length e) \<le> m"
proof -
  from assms(1) have "feed_frames (new_parser m) (concat cs) = Inr (fs, q)"
    using frames.feed_all_concat_any [OF parser_ok_new] by simp
  then have "parser_ok q \<and> max_buffer_bytes q = m"
    unfolding feed_frames_def parse_chunk_frames_def
    by (drule_tac parse_chunk_inner_ok [OF _ parser_ok_new]) (simp add: new_parser_def)
  with assms(2) show ?thesis
    by (auto simp: parser_ok_def buffered_bytes_def saturating_add_def split: option.splits)
qed

lemma retained_bytes_bounded_witness:
  "\<exists>fs q. feed_all (\<lambda>_ e. e) feed_frames (new_parser 30) [''data: a''] = Inr (fs, q) \<and>
     length (line_buf q) + length (data_buf q) +
       (case cur_event_type q of None \<Rightarrow> 0 | Some e \<Rightarrow> length e) \<le> 30"
proof -
  from feed_frames_succeeds [of "concat [''data: a'']" 30] obtain fs q where
    "feed_frames (new_parser 30) (concat [''data: a'']) = Inr (fs, q)" by auto
  then have q: "feed_all (\<lambda>_ e. e) feed_frames (new_parser 30) [''data: a''] = Inr (fs, q)"
    using frames.feed_all_concat_any [OF parser_ok_new] by metis
  from retained_bytes_bounded [OF q] q show ?thesis by (auto simp: usize_max_def)
qed

end
