(* ===== verification/Responses_Parser.thy ===== *)
theory Responses_Parser
  imports Responses_Event Sse_Lines
begin

text \<open>
  The Responses API stream parser, \<open>apis/src/openai/sse/responses/parser.rs\<close>: frames become
  typed events under an event budget and a timeout, and nothing but a stream-level error is
  accepted after the stream has ended. Instants are numbers of nanoseconds, passed in where the
  code reads the clock.
\<close>

section \<open>State\<close>

datatype completion_state = Open | TerminalLifecycle | StreamError

text \<open>The order in which a state may be replaced by a stronger one.\<close>

instantiation completion_state :: linorder
begin

fun strength :: "completion_state \<Rightarrow> nat" where
  "strength Open = 0"
| "strength TerminalLifecycle = 1"
| "strength StreamError = 2"

definition less_eq_completion_state :: "completion_state \<Rightarrow> completion_state \<Rightarrow> bool" where
  "less_eq_completion_state s t \<longleftrightarrow> strength s \<le> strength t"

definition less_completion_state :: "completion_state \<Rightarrow> completion_state \<Rightarrow> bool" where
  "less_completion_state s t \<longleftrightarrow> strength s < strength t"

instance
proof
  fix s t :: completion_state
  assume "s \<le> t" and "t \<le> s"
  then show "s = t" by (cases s; cases t) (auto simp: less_eq_completion_state_def)
qed (auto simp: less_eq_completion_state_def less_completion_state_def)

end

record responses_parser =
  completion_state :: completion_state
  frame_parser_of :: frame_parser
  event_count :: nat
  max_events :: nat
  timeout :: nat
  started_at :: "nat option"
  completed_at :: "nat option"

record sse_parser_config =
  cfg_max_buffer_bytes :: nat
  cfg_max_events :: nat
  cfg_timeout :: nat

definition default_sse_parser_config :: sse_parser_config where
  "default_sse_parser_config =
     \<lparr>cfg_max_buffer_bytes = 10485760, cfg_max_events = 100000, cfg_timeout = 300 * 1000000000\<rparr>"

definition new_responses_parser :: "sse_parser_config \<Rightarrow> responses_parser" where
  "new_responses_parser config =
     \<lparr>completion_state = Open, frame_parser_of = new_parser (cfg_max_buffer_bytes config),
      event_count = 0, max_events = cfg_max_events config, timeout = cfg_timeout config,
      started_at = None, completed_at = None\<rparr>"

section \<open>Operations\<close>

definition is_done_sentinel :: "sse_frame \<Rightarrow> bool" where
  "is_done_sentinel frame \<longleftrightarrow> frame_data frame = ''[DONE]''"

text \<open>\<open>Instant::duration_since\<close> is zero for an earlier instant, as subtraction on \<open>nat\<close>.\<close>

definition check_timeout :: "responses_parser \<Rightarrow> nat \<Rightarrow> sse_parse_error + unit" where
  "check_timeout p now =
     (case started_at p of
        None \<Rightarrow> Inr ()
      | Some t \<Rightarrow>
          (let elapsed = now - t
           in if elapsed > timeout p then Inl (Timeout elapsed (timeout p)) else Inr ()))"

definition mark_complete :: "completion_state \<Rightarrow> nat \<Rightarrow> responses_parser \<Rightarrow> responses_parser" where
  "mark_complete st now p =
     p\<lparr>completion_state := st,
       completed_at := (if completed_at p = None then Some now else completed_at p)\<rparr>"

definition record_completion ::
  "responses_event \<Rightarrow> nat \<Rightarrow> responses_parser \<Rightarrow> sse_parse_error + responses_parser" where
  "record_completion event now p =
     (if is_error_event event then
        (if completion_state p = StreamError then Inl (EventAfterTerminal (event_type event))
         else Inr (mark_complete StreamError now p))
      else if completion_state p \<noteq> Open then Inl (EventAfterTerminal (event_type event))
      else if is_terminal event then Inr (mark_complete TerminalLifecycle now p)
      else Inr p)"

text \<open>The loop over the frames of a chunk; the state is what an error leaves behind.\<close>

fun process_frames ::
  "externals \<Rightarrow> nat \<Rightarrow> responses_parser \<Rightarrow> responses_event list \<Rightarrow> sse_frame list
    \<Rightarrow> responses_parser \<times> (sse_parse_error + responses_event list)" where
  "process_frames ext now p events [] = (p, Inr events)"
| "process_frames ext now p events (f # fs) =
     (if is_done_sentinel f then process_frames ext now p events fs
      else
        (let p1 = p\<lparr>event_count := event_count p + 1\<rparr>
         in case from_frame ext f of
              Inl e \<Rightarrow> (p1, Inl e)
            | Inr event \<Rightarrow>
                (case record_completion event now p1 of
                   Inl e \<Rightarrow> (p1, Inl e)
                 | Inr p2 \<Rightarrow> process_frames ext now p2 (events @ [event]) fs)))"

definition responses_parse_chunk ::
  "externals \<Rightarrow> nat \<Rightarrow> responses_parser \<Rightarrow> bytes
    \<Rightarrow> responses_parser \<times> (sse_parse_error + responses_event list)" where
  "responses_parse_chunk ext now p chunk =
     (let p1 = p\<lparr>started_at := (case started_at p of None \<Rightarrow> Some now | Some t \<Rightarrow> Some t)\<rparr>
      in case check_timeout p1 now of
           Inl e \<Rightarrow> (p1, Inl e)
         | Inr _ \<Rightarrow>
             (case parse_chunk_with_counted_event_limit (frame_parser_of p1) chunk (event_count p1)
                     (max_events p1) (\<lambda>f. \<not> is_done_sentinel f) of
                (q, Inl e) \<Rightarrow> (p1\<lparr>frame_parser_of := q\<rparr>, Inl e)
              | (q, Inr frames) \<Rightarrow> process_frames ext now (p1\<lparr>frame_parser_of := q\<rparr>) [] frames))"

text \<open>The final check; \<open>now\<close> is read only when no terminal event was seen.\<close>

definition validate_complete :: "nat \<Rightarrow> responses_parser \<Rightarrow> sse_parse_error + unit" where
  "validate_complete now p =
     and_then (check_timeout p (case completed_at p of Some t \<Rightarrow> t | None \<Rightarrow> now)) (\<lambda>_.
       case completion_state p of
         Open \<Rightarrow> Inl MissingTerminalEvent
       | _ \<Rightarrow> Inr ())"

section \<open>The frames of a chunk\<close>

text \<open>What the parser accepts between two completion states.\<close>

definition lifecycle_end :: "responses_event \<Rightarrow> bool" where
  "lifecycle_end e \<longleftrightarrow> is_terminal e \<and> \<not> is_error_event e"

fun closes :: "completion_state \<Rightarrow> responses_event list \<Rightarrow> completion_state \<Rightarrow> bool" where
  "closes st [] st' = (st = st')"
| "closes st (e # es) st' =
     (if is_error_event e then st \<noteq> StreamError \<and> closes StreamError es st'
      else st = Open \<and> closes (if is_terminal e then TerminalLifecycle else Open) es st')"

lemma closes_append: "closes st (es @ fs) st' \<longleftrightarrow> (\<exists>m. closes st es m \<and> closes m fs st')"
  by (induction st es st' rule: closes.induct) auto

lemma closes_StreamError: "closes StreamError es st \<longleftrightarrow> es = [] \<and> st = StreamError"
  by (cases es) auto

lemma closes_TerminalLifecycle:
  "closes TerminalLifecycle es st \<longleftrightarrow>
     es = [] \<and> st = TerminalLifecycle \<or> (\<exists>e. es = [e] \<and> is_error_event e \<and> st = StreamError)"
  by (cases es) (auto simp: closes_StreamError)

lemma record_completion_closes:
  assumes "record_completion e now p = Inr q"
  shows "closes (completion_state p) [e] (completion_state q)"
    and "event_count q = event_count p" and "frame_parser_of q = frame_parser_of p"
    and "max_events q = max_events p" and "started_at q = started_at p" and "timeout q = timeout p"
  using assms by (auto simp: record_completion_def mark_complete_def split: if_splits)

lemma process_frames_run:
  assumes "outcome (process_frames ext now p es fs) = Inr (es', q)"
  shows "\<exists>new. es' = es @ new \<and> closes (completion_state p) new (completion_state q) \<and>
    list_all2 (\<lambda>f e. from_frame ext f = Inr e) (filter (\<lambda>f. \<not> is_done_sentinel f) fs) new \<and>
    event_count q = event_count p + length new \<and> frame_parser_of q = frame_parser_of p \<and>
    max_events q = max_events p \<and> started_at q = started_at p \<and> timeout q = timeout p"
  using assms
proof (induction fs arbitrary: p es)
  case Nil
  then show ?case by simp
next
  case (Cons f fs)
  show ?case
  proof (cases "is_done_sentinel f")
    case True
    with Cons show ?thesis by simp
  next
    case False
    with Cons.prems obtain e p2 where
      e: "from_frame ext f = Inr e" and
      r: "record_completion e now (p\<lparr>event_count := event_count p + 1\<rparr>) = Inr p2" and
      rest: "outcome (process_frames ext now p2 (es @ [e]) fs) = Inr (es', q)"
      by (auto simp: Let_def split: sum.splits)
    note rc = record_completion_closes [OF r]
    from Cons.IH [OF rest] obtain new where
      "es' = (es @ [e]) @ new" "closes (completion_state p2) new (completion_state q)"
      "list_all2 (\<lambda>f e. from_frame ext f = Inr e) (filter (\<lambda>f. \<not> is_done_sentinel f) fs) new"
      "event_count q = event_count p2 + length new" "frame_parser_of q = frame_parser_of p2"
      "max_events q = max_events p2" "started_at q = started_at p2" "timeout q = timeout p2"
      by blast
    with rc e False closes_append [of "completion_state p" "[e]" new "completion_state q"]
    show ?thesis by (intro exI [of _ "e # new"]) auto
  qed
qed

lemma process_frames_append:
  "outcome (process_frames ext now p es (fs @ gs)) =
     and_then (outcome (process_frames ext now p es fs)) (\<lambda>(es', q).
       outcome (process_frames ext now q es' gs))"
proof (induction fs arbitrary: p es)
  case Nil
  then show ?case by simp
next
  case (Cons f fs)
  then show ?case by (auto simp: Let_def split: sum.split)
qed

lemma process_frames_events:
  "outcome (process_frames ext now p es fs) =
     and_then (outcome (process_frames ext now p [] fs)) (\<lambda>(new, q). Inr (es @ new, q))"
proof (induction fs arbitrary: p es)
  case Nil
  then show ?case by simp
next
  case (Cons f fs)
  have step: "outcome (process_frames ext now q (es @ [e]) fs) =
      and_then (outcome (process_frames ext now q [e] fs)) (\<lambda>(new, r). Inr (es @ new, r))" for q e
    unfolding Cons.IH [of q "es @ [e]"] Cons.IH [of q "[e]"]
    by (cases "outcome (process_frames ext now q [] fs)") auto
  show ?case
  proof (cases "is_done_sentinel f")
    case True
    then show ?thesis using Cons.IH [of p es] by (simp only: process_frames.simps if_True)
  next
    case False
    then show ?thesis by (simp add: Let_def step split: sum.split)
  qed
qed

section \<open>One chunk\<close>

definition responses_feed ::
  "externals \<Rightarrow> nat \<Rightarrow> responses_parser \<Rightarrow> bytes
    \<Rightarrow> sse_parse_error + responses_event list \<times> responses_parser" where
  "responses_feed ext now p chunk = outcome (responses_parse_chunk ext now p chunk)"

definition begun :: "nat \<Rightarrow> responses_parser \<Rightarrow> responses_parser" where
  "begun now p = p\<lparr>started_at := (case started_at p of None \<Rightarrow> Some now | Some t \<Rightarrow> Some t)\<rparr>"

lemma responses_feed_eq:
  "responses_feed ext now p chunk =
     and_then (check_timeout (begun now p) now) (\<lambda>_.
     and_then (feed_counted (\<lambda>f. \<not> is_done_sentinel f) (max_events p)
         (frame_parser_of p, event_count p) chunk) (\<lambda>(frames, q, _).
       outcome (process_frames ext now (begun now p\<lparr>frame_parser_of := q\<rparr>) [] frames)))"
  by (auto simp: responses_feed_def responses_parse_chunk_def begun_def Let_def feed_counted_def
      split: sum.split prod.split option.split)

lemma responses_feed_run:
  assumes "responses_feed ext now p chunk = Inr (es, q)"
  shows "\<exists>frames. feed_counted (\<lambda>f. \<not> is_done_sentinel f) (max_events p)
       (frame_parser_of p, event_count p) chunk = Inr (frames, frame_parser_of q, event_count q) \<and>
    closes (completion_state p) es (completion_state q) \<and>
    list_all2 (\<lambda>f e. from_frame ext f = Inr e) (filter (\<lambda>f. \<not> is_done_sentinel f) frames) es \<and>
    event_count q = event_count p + length es \<and> max_events q = max_events p"
proof -
  from assms obtain frames fp c where
    fc: "feed_counted (\<lambda>f. \<not> is_done_sentinel f) (max_events p) (frame_parser_of p, event_count p) chunk
       = Inr (frames, fp, c)" and
    pf: "outcome (process_frames ext now (begun now p\<lparr>frame_parser_of := fp\<rparr>) [] frames) = Inr (es, q)"
    by (auto simp: responses_feed_eq and_then_Inr_iff)
  from process_frames_run [OF pf] have run:
    "closes (completion_state p) es (completion_state q)"
    "list_all2 (\<lambda>f e. from_frame ext f = Inr e) (filter (\<lambda>f. \<not> is_done_sentinel f) frames) es"
    "event_count q = event_count p + length es" "frame_parser_of q = fp" "max_events q = max_events p"
    by (auto simp: begun_def)
  moreover have "c = event_count q"
    using fc run(2,3) by (auto simp: feed_counted_def and_then_Inr_iff dest: list_all2_lengthD)
  ultimately show ?thesis using fc by blast
qed

section \<open>A whole stream\<close>

text \<open>The chunks of a response with the instants they arrive at.\<close>

fun responses_stream ::
  "externals \<Rightarrow> responses_parser \<Rightarrow> (nat \<times> bytes) list
    \<Rightarrow> sse_parse_error + responses_event list \<times> responses_parser" where
  "responses_stream ext p [] = Inr ([], p)"
| "responses_stream ext p ((now, chunk) # cs) =
     feed_then (\<lambda>_ e. e) (\<lambda>q. responses_stream ext q cs) (responses_feed ext now p chunk)"

lemma responses_stream_run:
  assumes "responses_stream ext p cs = Inr (es, q)" 
  shows "\<exists>frames. feed_all (\<lambda>_ e. e) (feed_counted (\<lambda>f. \<not> is_done_sentinel f) (max_events p))
       (frame_parser_of p, event_count p) (map snd cs) = Inr (frames, frame_parser_of q, event_count q) \<and>
    closes (completion_state p) es (completion_state q) \<and>
    list_all2 (\<lambda>f e. from_frame ext f = Inr e) (filter (\<lambda>f. \<not> is_done_sentinel f) frames) es \<and>
    event_count q = event_count p + length es \<and> max_events q = max_events p"
  using assms
proof (induction cs arbitrary: p es)
  case Nil
  then show ?case by simp
next
  case (Cons c cs)
  obtain now chunk where c: "c = (now, chunk)" by (cases c)
  with Cons.prems obtain es1 p1 es2 where
    f: "responses_feed ext now p chunk = Inr (es1, p1)" and
    r: "responses_stream ext p1 cs = Inr (es2, q)" and es: "es = es1 @ es2"
    by (auto simp: feed_then_Inr_iff)
  from responses_feed_run [OF f] Cons.IH [OF r] c es show ?case
    by (fastforce simp: feed_then_def closes_append intro: list_all2_appendI)
qed

lemma new_parser_stream:
  assumes "responses_stream ext (new_responses_parser cfg) cs = Inr (es, q)"
  shows "list_all2 (\<lambda>f e. from_frame ext f = Inr e)
      (filter (\<lambda>f. \<not> is_done_sentinel f) (stream_frames (concat (map snd cs)))) es"
    and "closes Open es (completion_state q)" and "event_count q = length es"
    and "feed_counted (\<lambda>f. \<not> is_done_sentinel f) (cfg_max_events cfg)
      (new_parser (cfg_max_buffer_bytes cfg), 0) (concat (map snd cs))
      = Inr (stream_frames (concat (map snd cs)), frame_parser_of q, length es)"
proof -
  let ?cf = "\<lambda>f. \<not> is_done_sentinel f" and ?s = "(new_parser (cfg_max_buffer_bytes cfg), 0)"
  from responses_stream_run [OF assms] obtain frames where
    fa: "feed_all (\<lambda>_ e. e) (feed_counted ?cf (cfg_max_events cfg)) ?s (map snd cs)
       = Inr (frames, frame_parser_of q, event_count q)" and
    run: "closes Open es (completion_state q)" "event_count q = length es"
      "list_all2 (\<lambda>f e. from_frame ext f = Inr e) (filter ?cf frames) es"
    by (auto simp: new_responses_parser_def)
  from fa have fc: "feed_counted ?cf (cfg_max_events cfg) ?s (concat (map snd cs))
      = Inr (frames, frame_parser_of q, event_count q)"
    using counted.feed_all_concat_any [of ?s] parser_ok_new by simp
  then have "frames = stream_frames (concat (map snd cs))"
    by (auto simp: feed_counted_def parse_chunk_with_counted_event_limit_def and_then_Inr_iff
        dest: parse_chunk_inner_dispatch)
  with run fc show "list_all2 (\<lambda>f e. from_frame ext f = Inr e)
      (filter ?cf (stream_frames (concat (map snd cs)))) es"
    and "closes Open es (completion_state q)" and "event_count q = length es"
    and "feed_counted ?cf (cfg_max_events cfg) ?s (concat (map snd cs))
      = Inr (stream_frames (concat (map snd cs)), frame_parser_of q, length es)"
    by simp_all
qed

lemma closes_Open_cases:
  "closes Open es st \<longleftrightarrow>
     (\<exists>pre. (\<forall>e \<in> set pre. \<not> is_terminal e) \<and>
       (es = pre \<and> st = Open \<or>
        (\<exists>e. es = pre @ [e] \<and> lifecycle_end e \<and> st = TerminalLifecycle) \<or>
        (\<exists>e. es = pre @ [e] \<and> is_error_event e \<and> st = StreamError) \<or>
        (\<exists>e f. es = pre @ [e, f] \<and> lifecycle_end e \<and> is_error_event f \<and> st = StreamError)))"
  (is "_ \<longleftrightarrow> (\<exists>pre. ?P es pre)")
proof (induction es)
  case Nil
  then show ?case by auto
next
  case (Cons e es)
  consider "is_error_event e" | "\<not> is_error_event e" "is_terminal e" | "\<not> is_terminal e"
    using is_error_terminal by blast
  then show ?case
  proof cases
    case 1
    then have "?P (e # es) pre \<longleftrightarrow> pre = [] \<and> es = [] \<and> st = StreamError" for pre
      using is_error_terminal [of e] by (cases pre) (auto simp: lifecycle_end_def)
    with 1 show ?thesis by (auto simp: closes_StreamError)
  next
    case 2
    then have "?P (e # es) pre \<longleftrightarrow> pre = [] \<and> closes TerminalLifecycle es st" for pre
      by (cases pre) (auto simp: lifecycle_end_def closes_TerminalLifecycle)
    with 2 show ?thesis by auto
  next
    case 3
    then have ne: "\<not> is_error_event e" using is_error_terminal by blast
    have "?P (e # es) pre \<longleftrightarrow> (\<exists>pre'. pre = e # pre' \<and> ?P es pre')" for pre
      using 3 ne by (cases pre) (auto simp: lifecycle_end_def)
    with 3 ne Cons.IH show ?thesis by auto
  qed
qed

lemma closes_Open_terminal: "closes Open es st \<Longrightarrow> (\<exists>e \<in> set es. is_terminal e) \<longleftrightarrow> st \<noteq> Open"
  by (auto simp: closes_Open_cases lifecycle_end_def dest: is_error_terminal)

section \<open>Two chunks at one instant\<close>

lemma record_completion_frame_parser:
  "record_completion e now (p\<lparr>frame_parser_of := x\<rparr>) =
     and_then (record_completion e now p) (\<lambda>q. Inr (q\<lparr>frame_parser_of := x\<rparr>))"
  by (simp add: record_completion_def mark_complete_def)

lemma process_frames_frame_parser:
  "outcome (process_frames ext now (p\<lparr>frame_parser_of := x\<rparr>) es fs) =
     and_then (outcome (process_frames ext now p es fs)) (\<lambda>(es', q). Inr (es', q\<lparr>frame_parser_of := x\<rparr>))"
proof (induction fs arbitrary: p es)
  case Nil
  then show ?case by simp
next
  case (Cons f fs)
  have swap: "p\<lparr>frame_parser_of := x, event_count := k\<rparr> = p\<lparr>event_count := k, frame_parser_of := x\<rparr>" for k
    by simp
  show ?case
  proof (cases "from_frame ext f")
    case (Inl e)
    with Cons.IH [of p es] show ?thesis by (simp add: Let_def)
  next
    case (Inr e)
    with Cons.IH [of p es] Cons.IH show ?thesis
      by (cases "record_completion e now (p\<lparr>event_count := event_count p + 1\<rparr>)")
         (simp_all add: Let_def swap record_completion_frame_parser
            del: responses_parser.update_convs responses_parser.fold_congs)
  qed
qed

lemma check_timeout_cong:
  "started_at q = started_at p \<Longrightarrow> timeout q = timeout p \<Longrightarrow> check_timeout q now = check_timeout p now"
  by (simp add: check_timeout_def Let_def split: option.split)

lemma begun_idle: "started_at p = Some t \<Longrightarrow> begun now p = p"
  by (simp add: begun_def)

lemma responses_feed_state:
  assumes "responses_feed ext now p chunk = Inr (es, q)"
  shows "check_timeout (begun now p) now = Inr ()" and "begun now q = q"
    and "check_timeout q now = Inr ()"
proof -
  from assms obtain frames fp where
    t: "check_timeout (begun now p) now = Inr ()" and
    pf: "outcome (process_frames ext now (begun now p\<lparr>frame_parser_of := fp\<rparr>) [] frames) = Inr (es, q)"
    by (auto simp: responses_feed_eq and_then_Inr_iff)
  show "check_timeout (begun now p) now = Inr ()" by (rule t)
  from process_frames_run [OF pf] have s: "started_at q = started_at (begun now p)"
    "timeout q = timeout (begun now p)" by auto
  from check_timeout_cong [OF s] t show "check_timeout q now = Inr ()" by simp
  from s(1) have "\<exists>u. started_at q = Some u" by (simp add: begun_def split: option.splits)
  then show "begun now q = q" by (auto simp: begun_idle)
qed

lemma responses_feed_append:
  assumes "parser_ok (frame_parser_of p)"
  shows "responses_feed ext now p (as @ bs) = Inr (es, q) \<longleftrightarrow>
    (\<exists>es1 p1 es2. responses_feed ext now p as = Inr (es1, p1) \<and>
       responses_feed ext now p1 bs = Inr (es2, q) \<and> es = es1 @ es2)"
proof -
  let ?cf = "\<lambda>f. \<not> is_done_sentinel f" and ?mx = "max_events p"
  let ?s = "(frame_parser_of p, event_count p)"
  show ?thesis
  proof (cases "check_timeout (begun now p) now")
    case (Inl e)
    then show ?thesis by (simp add: responses_feed_eq)
  next
    case t: (Inr u)
    show ?thesis
    proof (cases "feed_counted ?cf ?mx ?s as")
      case (Inl e)
      with t assms show ?thesis
        by (simp add: responses_feed_eq counted.feed_append_any)
    next
      case (Inr r)
      obtain fs fp c where r: "feed_counted ?cf ?mx ?s as = Inr (fs, fp, c)"
        using Inr by (cases r) auto
      let ?b = "begun now p"
      have pf: "outcome (process_frames ext now (?b\<lparr>frame_parser_of := x\<rparr>) [] (fs @ gs)) =
          and_then (outcome (process_frames ext now (?b\<lparr>frame_parser_of := fp\<rparr>) [] fs)) (\<lambda>(es1, p1).
          and_then (outcome (process_frames ext now (p1\<lparr>frame_parser_of := x\<rparr>) [] gs)) (\<lambda>(es2, q).
            Inr (es1 @ es2, q)))" for x gs
        unfolding process_frames_append process_frames_frame_parser [where p = ?b]
        by (cases "outcome (process_frames ext now ?b [] fs)")
           (auto intro: process_frames_events)
      show ?thesis
      proof (cases "outcome (process_frames ext now (?b\<lparr>frame_parser_of := fp\<rparr>) [] fs)")
        case (Inl e)
        with t r assms pf show ?thesis
          by (auto simp: responses_feed_eq counted.feed_append_any feed_then_def and_then_Inr_iff
              split: sum.splits)
      next
        case (Inr s)
        then obtain es1 p1 where
          s: "outcome (process_frames ext now (?b\<lparr>frame_parser_of := fp\<rparr>) [] fs) = Inr (es1, p1)"
          by (cases s) auto
        with t r have one: "responses_feed ext now p as = Inr (es1, p1)"
          by (simp add: responses_feed_eq)
        from responses_feed_run [OF one] r have
          st: "fp = frame_parser_of p1" "c = event_count p1" "max_events p1 = ?mx" by auto
        from responses_feed_state [OF one] have
          b1: "begun now p1 = p1" "check_timeout p1 now = Inr ()" by auto
        show ?thesis
          using t r one st b1 assms s pf
          by (auto simp: responses_feed_eq [of ext now p "as @ bs"] responses_feed_eq [of ext now p1]
              counted.feed_append_any feed_then_def and_then_Inr_iff split: sum.splits)
      qed
    qed
  qed
qed

section \<open>Properties\<close>

text \<open>
  A codec for the witnesses: a non-empty text is read as the object whose type it names.
\<close>

definition type_codec :: externals where
  "type_codec =
     \<lparr>from_slice = (\<lambda>s. if s = [] then Inl ''EOF'' else Inr (jobj [(''type'', JString s)])),
      to_text = (\<lambda>v. Inr (unwrap_or [] (get_str v ''type''))),
      num_text = (\<lambda>n. []), header_text = Some, is_success = (\<lambda>n. 200 \<le> n \<and> n < 300),
      contains_control_chars = list_ex (\<lambda>c. byte c < 32)\<rparr>"

definition demo_stream :: "(nat \<times> bytes) list" where
  "demo_stream =
     [(0, ''data: response.created'' @ [CR]), (1, [LF, LF] @ ''data: response.completed'' @ [LF]),
      (2, [LF] @ ''data: [DONE]'' @ [LF, LF])]"

definition demo_config :: sse_parser_config where
  "demo_config = \<lparr>cfg_max_buffer_bytes = 100, cfg_max_events = 3, cfg_timeout = 5\<rparr>"

lemma demo_run:
  "\<exists>q. responses_stream type_codec (new_responses_parser demo_config) demo_stream =
     Inr ([ResponseCreated (jobj [(''type'', JString ''response.created'')]),
           ResponseCompleted (jobj [(''type'', JString ''response.completed'')])], q) \<and>
     completion_state q = TerminalLifecycle \<and>
     check_timeout q (case completed_at q of Some t \<Rightarrow> t | None \<Rightarrow> 9) = Inr ()"
proof -
  have "map_sum id (\<lambda>(es, q). (es, completion_state q,
        check_timeout q (case completed_at q of Some t \<Rightarrow> t | None \<Rightarrow> 9)))
      (responses_stream type_codec (new_responses_parser demo_config) demo_stream) =
      Inr ([ResponseCreated (jobj [(''type'', JString ''response.created'')]),
            ResponseCompleted (jobj [(''type'', JString ''response.completed'')])],
           TerminalLifecycle, Inr ())" by code_simp
  from map_sum_InrD [OF this] show ?thesis by auto
qed

text \<open>
  C32. The typed parser is faithful to the wire: the events of an accepted stream are, in order,
  the readings of the frames of the whole stream that are not the \<open>[DONE]\<close> sentinel, whatever
  the chunk boundaries and arrival times.
\<close>

theorem responses_events_of_stream:
  assumes "responses_stream ext (new_responses_parser cfg) cs = Inr (es, q)"
  shows "list_all2 (\<lambda>f e. from_frame ext f = Inr e)
    (filter (\<lambda>f. \<not> is_done_sentinel f) (stream_frames (concat (map snd cs)))) es"
  using new_parser_stream(1) [OF assms] .

lemma responses_events_of_stream_witness:
  "\<exists>es q. responses_stream type_codec (new_responses_parser demo_config) demo_stream = Inr (es, q) \<and>
     length es = 2 \<and> list_all2 (\<lambda>f e. from_frame type_codec f = Inr e)
       (filter (\<lambda>f. \<not> is_done_sentinel f) (stream_frames (concat (map snd demo_stream)))) es"
  using demo_run responses_events_of_stream [of type_codec demo_config demo_stream] by fastforce

text \<open>
  Fail-closed termination: in an accepted stream nothing follows the end of the response
  but at most one stream-level error, and nothing follows that error; the completion state says
  which of the endings was seen.
\<close>

theorem responses_terminal_discipline:
  assumes "responses_stream ext (new_responses_parser cfg) cs = Inr (es, q)"
  shows "\<exists>pre. (\<forall>e \<in> set pre. \<not> is_terminal e) \<and>
    (es = pre \<and> completion_state q = Open \<or>
     (\<exists>e. es = pre @ [e] \<and> lifecycle_end e \<and> completion_state q = TerminalLifecycle) \<or>
     (\<exists>e. es = pre @ [e] \<and> is_error_event e \<and> completion_state q = StreamError) \<or>
     (\<exists>e f. es = pre @ [e, f] \<and> lifecycle_end e \<and> is_error_event f \<and> completion_state q = StreamError))"
  using new_parser_stream(2) [OF assms] by (simp add: closes_Open_cases)

lemma responses_terminal_discipline_witness:
  "\<exists>es q pre. responses_stream type_codec (new_responses_parser demo_config) demo_stream = Inr (es, q) \<and>
     completion_state q = TerminalLifecycle \<and> (\<exists>e. es = pre @ [e] \<and> lifecycle_end e)"
proof -
  from demo_run obtain es q where
    q: "responses_stream type_codec (new_responses_parser demo_config) demo_stream = Inr (es, q)"
    "completion_state q = TerminalLifecycle" by blast
  from responses_terminal_discipline [OF q(1)] q show ?thesis by auto
qed

text \<open>
  Completion check: after an accepted stream, \<open>validate_complete\<close> passes exactly when the
  timeout is kept and a terminal or error event was among the events; without one, it reports a
  missing terminal event.
\<close>

theorem validate_complete_iff_terminal:
  assumes "responses_stream ext (new_responses_parser cfg) cs = Inr (es, q)"
    and "check_timeout q (case completed_at q of Some t \<Rightarrow> t | None \<Rightarrow> now) = Inr ()"
  shows "validate_complete now q =
    (if \<exists>e \<in> set es. is_terminal e then Inr () else Inl MissingTerminalEvent)"
  using assms(2) closes_Open_terminal [OF new_parser_stream(2) [OF assms(1)]]
  by (auto simp: validate_complete_def split: completion_state.splits)

lemma validate_complete_iff_terminal_witness:
  "\<exists>es q. responses_stream type_codec (new_responses_parser demo_config) demo_stream = Inr (es, q) \<and>
     validate_complete 9 q = Inr ()"
  using demo_run validate_complete_iff_terminal [of type_codec demo_config demo_stream]
  by fastforce

text \<open>
  The event budget holds over the whole stream: an accepted stream never yields more than
  \<open>max_events\<close> events, sentinels not counted, and the counter is their number.
\<close>

theorem responses_event_budget:
  assumes "responses_stream ext (new_responses_parser cfg) cs = Inr (es, q)"
    and "cfg_max_events cfg < usize_max"
  shows "length es \<le> cfg_max_events cfg \<and> event_count q = length es"
  using feed_counted_budget [OF new_parser_stream(4) [OF assms(1)] assms(2)]
    new_parser_stream(3) [OF assms(1)] by simp

lemma responses_event_budget_witness:
  "\<exists>es q. responses_stream type_codec (new_responses_parser demo_config) demo_stream = Inr (es, q) \<and>
     length es \<le> 3 \<and> event_count q = length es"
proof -
  from demo_run obtain es q where
    q: "responses_stream type_codec (new_responses_parser demo_config) demo_stream = Inr (es, q)"
    by blast
  from responses_event_budget [OF q] q show ?thesis by (auto simp: demo_config_def usize_max_def)
qed

text \<open>
  Splitting a chunk changes nothing a caller can use: two pieces that arrive at the same
  instant are accepted exactly when the whole is, with the same events and the same state.
\<close>

theorem responses_chunking:
  assumes "responses_stream ext (new_responses_parser cfg) cs = Inr (es0, p)"
  shows "responses_feed ext now p (as @ bs) = Inr (es, q) \<longleftrightarrow>
    (\<exists>es1 p1 es2. responses_feed ext now p as = Inr (es1, p1) \<and>
       responses_feed ext now p1 bs = Inr (es2, q) \<and> es = es1 @ es2)"
proof -
  have "parser_ok (frame_parser_of p)"
    using counted.feed_ok [OF _ new_parser_stream(4) [OF assms]] parser_ok_new by simp
  then show ?thesis by (rule responses_feed_append)
qed

lemma responses_chunking_witness:
  "\<exists>q. responses_feed type_codec 0 (new_responses_parser demo_config)
       (''data: error'' @ [LF] @ [LF]) = Inr ([ErrorEvent (jobj [(''type'', JString ''error'')])], q)"
proof -
  let ?p = "new_responses_parser demo_config" and ?e = "ErrorEvent (jobj [(''type'', JString ''error'')])"
  have "map_sum id (\<lambda>(es1, p1). (es1, map_sum id fst (responses_feed type_codec 0 p1 [LF])))
      (responses_feed type_codec 0 ?p (''data: error'' @ [LF])) = Inr ([], Inr [?e])"
    by code_simp
  from map_sum_InrD [OF this] obtain p1 where
    one: "responses_feed type_codec 0 ?p (''data: error'' @ [LF]) = Inr ([], p1)" and
    two: "map_sum id fst (responses_feed type_codec 0 p1 [LF]) = Inr [?e]" by auto
  from map_sum_InrD [OF two] one show ?thesis
    using responses_chunking [of type_codec demo_config "[]" "[]" "new_responses_parser demo_config" 0
        "''data: error'' @ [LF]" "[LF]"] by auto
qed

text \<open>
  The type of an event is never guessed: an accepted frame holds JSON whose string \<open>type\<close>
  names the event up to the documented alias, agrees with the \<open>event:\<close> field when there is one,
  and decides whether the event ends the stream; the payload is passed on unchanged.
\<close>

theorem from_frame_types_agree:
  assumes "from_frame ext f = Inr e"
  shows "\<exists>t. from_slice ext (frame_data f) = Inr (event_payload e) \<and>
    get_str (event_payload e) ''type'' = Some t \<and> event_type e = canonical_event_type t \<and>
    (\<forall>u. frame_event_type f = Some u \<longrightarrow> canonical_event_type u = event_type e) \<and>
    (is_terminal e \<longleftrightarrow> t \<in> terminal_types) \<and> (is_error_event e \<longleftrightarrow> t = ''error'')"
  using assms
  by (auto simp: from_frame_Inr event_type_from_event_type event_payload_from_event_type
      is_terminal_from_event_type is_error_from_event_type)

lemma from_frame_types_agree_witness:
  "\<exists>e t. from_frame type_codec \<lparr>frame_event_type = Some ''response.reasoning.delta'',
        frame_data = ''response.reasoning_text.delta''\<rparr> = Inr e \<and>
     get_str (event_payload e) ''type'' = Some t \<and> event_type e = canonical_event_type t"
proof -
  have "from_frame type_codec \<lparr>frame_event_type = Some ''response.reasoning.delta'',
        frame_data = ''response.reasoning_text.delta''\<rparr> =
      Inr (ReasoningDelta (jobj [(''type'', JString ''response.reasoning_text.delta'')]))"
    by code_simp
  from this from_frame_types_agree [OF this] show ?thesis by blast
qed

end
