(* ===== verification/Responses_Accept.thy ===== *)
theory Responses_Accept
  imports Responses_Parser
begin

text \<open>
  The other direction of the stream parser: what it accepts. Every stream whose frames are events
  in an allowed order, within the budgets and in time, is accepted with exactly these events, for
  every way to cut it into chunks.
\<close>

section \<open>The event budget does not bind\<close>

lemma byte_step_limit:
  assumes "byte_step cf None p n b e = Inr (q, m, gs)" and "cur + m \<le> mx" and "mx < usize_max"
  shows "byte_step cf (Some (cur, mx)) p n b e = Inr (q, m, gs)"
  using assms
  by (auto simp: byte_step_def Let_def and_then_Inr_iff check_event_limit_def saturating_add_def
      split: if_splits prod.splits option.splits)

lemma parse_loop_limit:
  assumes "outcome (parse_loop cf None p n fs bs) = Inr ((gs, m), q)"
    and "n \<le> usize_max" and "cur + m \<le> mx" and "mx < usize_max"
  shows "outcome (parse_loop cf (Some (cur, mx)) p n fs bs) = Inr ((gs, m), q)"
  using assms(1,2)
proof (induction bs arbitrary: p n fs rule: measure_induct_rule [where f = length])
  case (less bs)
  show ?case
  proof (cases bs)
    case Nil
    with less.prems show ?thesis by (simp add: parse_loop_Nil)
  next
    case (Cons b rest)
    with less.prems(1) obtain r k xs where
      step: "byte_step cf None p n b (rest = []) = Inr (r, k, xs)" and
      loop: "outcome (parse_loop cf None r k (fs @ xs) (skip_lf b rest)) = Inr ((gs, m), q)"
      by (auto simp: parse_loop_Cons and_then_Inr_iff)
    have k: "k \<le> usize_max" using byte_step_counts [OF step less.prems(2)] by simp
    with parse_loop_counts [OF loop] have "k \<le> m" by auto
    with assms(3) have "cur + k \<le> mx" by simp
    from byte_step_limit [OF step this assms(4)] less.IH [OF _ loop k] Cons length_skip_lf [of b rest]
    show ?thesis by (simp add: parse_loop_Cons)
  qed
qed

lemma feed_counted_accepts:
  assumes "3 * length s \<le> m" and "length (filter cf (stream_frames s)) \<le> mx" and "mx < usize_max"
  shows "\<exists>q. feed_counted cf mx (new_parser m, 0) s = Inr (stream_frames s, q)"
proof (cases "s = []")
  case True
  then show ?thesis
    by (simp add: feed_counted_def parse_chunk_with_counted_event_limit_def parse_chunk_inner_Nil
        parser_ok_new stream_frames_def complete_lines_def)
next
  case False
  let ?p = "new_parser m\<lparr>prev_cr := False\<rparr>"
  have res: "resume (new_parser m) s = s" by (simp add: resume_def new_parser_def)
  have "\<exists>r. outcome (parse_loop cf None ?p 0 [] s) = Inr r"
    using assms(1) by (intro parse_loop_succeeds)
       (simp_all add: new_parser_def buffered_bytes_def saturating_add_def weight_def)
  then obtain fs n q where l: "outcome (parse_loop cf None ?p 0 [] s) = Inr ((fs, n), q)" by auto
  with False res have "outcome (parse_chunk_inner (new_parser m) s None cf) = Inr (fs, q)"
    by (simp add: parse_chunk_inner_outcome)
  then have fs: "fs = stream_frames s" by (rule parse_chunk_inner_dispatch)
  with parse_loop_counts [OF l] assms(2) have "0 + n \<le> mx" by simp
  from parse_loop_limit [OF l _ this assms(3)] False res fs show ?thesis
    by (simp add: feed_counted_def parse_chunk_with_counted_event_limit_def parse_chunk_inner_outcome)
qed

section \<open>Events in an allowed order\<close>

lemma record_completion_accepts:
  assumes "closes (completion_state p) (e # es) st"
  shows "\<exists>q. record_completion e now p = Inr q \<and> closes (completion_state q) es st \<and>
    started_at q = started_at p \<and> timeout q = timeout p \<and> max_events q = max_events p \<and>
    event_count q = event_count p \<and> frame_parser_of q = frame_parser_of p"
  using assms by (auto simp: record_completion_def mark_complete_def split: if_splits)

lemma process_frames_accepts:
  assumes "list_all2 (\<lambda>f e. from_frame ext f = Inr e) (filter (\<lambda>f. \<not> is_done_sentinel f) fs) es"
    and "closes (completion_state p) (es @ rest) st"
  shows "\<exists>q. outcome (process_frames ext now p acc fs) = Inr (acc @ es, q) \<and> closes (completion_state q) rest st \<and>
    started_at q = started_at p \<and> timeout q = timeout p \<and> max_events q = max_events p \<and>
    event_count q = event_count p + length es \<and> frame_parser_of q = frame_parser_of p"
  using assms
proof (induction fs arbitrary: p acc es)
  case Nil
  then show ?case by simp
next
  case (Cons f fs)
  show ?case
  proof (cases "is_done_sentinel f")
    case True
    with Cons show ?thesis by simp
  next
    case False
    with Cons.prems(1) obtain e es' where es: "es = e # es'" "from_frame ext f = Inr e"
      "list_all2 (\<lambda>f e. from_frame ext f = Inr e) (filter (\<lambda>f. \<not> is_done_sentinel f) fs) es'"
      by (auto simp: list_all2_Cons1)
    let ?p = "p\<lparr>event_count := event_count p + 1\<rparr>"
    from Cons.prems(2) es(1) have "closes (completion_state ?p) (e # es' @ rest) st" by simp
    from record_completion_accepts [OF this, of now] obtain q where
      q: "record_completion e now ?p = Inr q" "closes (completion_state q) (es' @ rest) st"
      "started_at q = started_at p" "timeout q = timeout p" "max_events q = max_events p"
      "event_count q = event_count p + 1" "frame_parser_of q = frame_parser_of p" by auto
    from Cons.IH [OF es(3) q(2), of "acc @ [e]"] False es q show ?thesis by (auto simp: Let_def)
  qed
qed

section \<open>Whole streams\<close>

definition in_time :: "nat \<Rightarrow> responses_parser \<Rightarrow> (nat \<times> bytes) list \<Rightarrow> bool" where
  "in_time tstart p cs \<longleftrightarrow> (\<forall>(now, _) \<in> set cs. now - tstart \<le> timeout p)"

lemma stream_accepts:
  assumes "feed_all (\<lambda>_ e. e) (feed_counted (\<lambda>f. \<not> is_done_sentinel f) (max_events p))
      (frame_parser_of p, event_count p) (map snd cs) = Inr (frames, s)"
    and "list_all2 (\<lambda>f e. from_frame ext f = Inr e) (filter (\<lambda>f. \<not> is_done_sentinel f) frames) es"
    and "closes (completion_state p) es st" and "in_time tstart p cs"
    and "cs \<noteq> [] \<Longrightarrow> started_at (begun (fst (hd cs)) p) = Some tstart"
  shows "\<exists>q. responses_stream ext p cs = Inr (es, q) \<and> completion_state q = st"
  using assms
proof (induction cs arbitrary: p frames es)
  case Nil
  then show ?case by simp
next
  case (Cons c cs)
  let ?cf = "\<lambda>f. \<not> is_done_sentinel f"
  obtain now chunk where c: "c = (now, chunk)" by (cases c)
  with Cons.prems(1) obtain fs1 fp k fs2 where
    one: "feed_counted ?cf (max_events p) (frame_parser_of p, event_count p) chunk = Inr (fs1, fp, k)" and
    more: "feed_all (\<lambda>_ e. e) (feed_counted ?cf (max_events p)) (fp, k) (map snd cs) = Inr (fs2, s)" and
    frames: "frames = fs1 @ fs2"
    by (auto simp: feed_then_Inr_iff)
  from Cons.prems(2) frames obtain es1 es2 where es: "es = es1 @ es2"
    "list_all2 (\<lambda>f e. from_frame ext f = Inr e) (filter ?cf fs1) es1"
    "list_all2 (\<lambda>f e. from_frame ext f = Inr e) (filter ?cf fs2) es2"
    by (auto simp: list_all2_append1)
  let ?b = "begun now p\<lparr>frame_parser_of := fp\<rparr>"
  have st: "started_at (begun now p) = Some tstart" using Cons.prems(5) c by simp
  have "check_timeout (begun now p) now = Inr ()"
    using st Cons.prems(4) c by (simp add: check_timeout_def in_time_def begun_def)
  moreover from Cons.prems(3) es(1) have "closes (completion_state ?b) (es1 @ es2) st" by (simp add: begun_def)
  from process_frames_accepts [OF es(2) this, of now "[]"] obtain q where
    q: "outcome (process_frames ext now ?b [] fs1) = Inr (es1, q)" "closes (completion_state q) es2 st"
      "started_at q = Some tstart" "timeout q = timeout p" "max_events q = max_events p"
      "event_count q = event_count p + length es1" "frame_parser_of q = fp"
    using st by (auto simp: begun_def)
  ultimately have feed: "responses_feed ext now p chunk = Inr (es1, q)"
    using one by (simp add: responses_feed_eq)
  have "k = event_count q"
    using one q(6) list_all2_lengthD [OF es(2)] by (auto simp: feed_counted_def and_then_Inr_iff)
  with more q(5,7) have rest: "feed_all (\<lambda>_ e. e) (feed_counted ?cf (max_events q))
      (frame_parser_of q, event_count q) (map snd cs) = Inr (fs2, s)" by simp
  have time: "in_time tstart q cs" using Cons.prems(4) q(4) by (simp add: in_time_def)
  from Cons.IH [OF rest es(3) q(2) time] q(3) feed c es(1) show ?case
    by (auto simp: feed_then_def begun_def)
qed

lemma new_parser_accepts:
  assumes "3 * length (concat (map snd cs)) \<le> cfg_max_buffer_bytes cfg"
    and "list_all2 (\<lambda>f e. from_frame ext f = Inr e)
      (filter (\<lambda>f. \<not> is_done_sentinel f) (stream_frames (concat (map snd cs)))) es"
    and "closes Open es st" and "length es \<le> cfg_max_events cfg" and "cfg_max_events cfg < usize_max"
    and "\<forall>(now, _) \<in> set cs. now - fst (hd cs) \<le> cfg_timeout cfg"
  shows "\<exists>q. responses_stream ext (new_responses_parser cfg) cs = Inr (es, q) \<and> completion_state q = st"
proof -
  let ?cf = "\<lambda>f. \<not> is_done_sentinel f" and ?p = "new_responses_parser cfg"
  from list_all2_lengthD [OF assms(2)] assms(4) have
    "length (filter ?cf (stream_frames (concat (map snd cs)))) \<le> cfg_max_events cfg" by simp
  from feed_counted_accepts [OF assms(1) this assms(5)] obtain s where
    "feed_all (\<lambda>_ e. e) (feed_counted ?cf (max_events ?p)) (frame_parser_of ?p, event_count ?p) (map snd cs) =
      Inr (stream_frames (concat (map snd cs)), s)"
    using counted.feed_all_concat_any [of "(new_parser (cfg_max_buffer_bytes cfg), 0)"] parser_ok_new
    by (auto simp: new_responses_parser_def)
  then show ?thesis
    by (rule stream_accepts [where tstart = "fst (hd cs)"])
      (use assms in \<open>auto simp: new_responses_parser_def in_time_def begun_def\<close>)
qed

text \<open>
  No well-formed response is refused: when the frames of a stream, the sentinel aside, are
  events in an order the completion rules allow, their number is within the event budget, the
  buffer is three times as large as the stream (a byte is never counted more often) and every chunk
  comes in time, the parser accepts the stream in any chunks with exactly these events.
\<close>

theorem responses_accepts_well_formed:
  assumes "3 * length (concat (map snd cs)) \<le> cfg_max_buffer_bytes cfg"
    and "list_all2 (\<lambda>f e. from_frame ext f = Inr e)
      (filter (\<lambda>f. \<not> is_done_sentinel f) (stream_frames (concat (map snd cs)))) es"
    and "closes Open es st" and "length es \<le> cfg_max_events cfg" and "cfg_max_events cfg < usize_max"
    and "\<forall>(now, _) \<in> set cs. now - fst (hd cs) \<le> cfg_timeout cfg"
  shows "\<exists>q. responses_stream ext (new_responses_parser cfg) cs = Inr (es, q) \<and> completion_state q = st"
  by (rule new_parser_accepts [OF assms])

lemma responses_accepts_well_formed_witness:
  "\<exists>q. responses_stream type_codec (new_responses_parser (demo_config\<lparr>cfg_max_buffer_bytes := 300\<rparr>)) demo_stream =
     Inr ([ResponseCreated (jobj [(''type'', JString ''response.created'')]),
           ResponseCompleted (jobj [(''type'', JString ''response.completed'')])], q) \<and>
     completion_state q = TerminalLifecycle"
proof (rule responses_accepts_well_formed)
  let ?es = "[ResponseCreated (jobj [(''type'', JString ''response.created'')]),
           ResponseCompleted (jobj [(''type'', JString ''response.completed'')])]"
  show "3 * length (concat (map snd demo_stream)) \<le> cfg_max_buffer_bytes (demo_config\<lparr>cfg_max_buffer_bytes := 300\<rparr>)"
    by code_simp
  show "list_all2 (\<lambda>f e. from_frame type_codec f = Inr e)
      (filter (\<lambda>f. \<not> is_done_sentinel f) (stream_frames (concat (map snd demo_stream)))) ?es" by code_simp
  show "closes Open ?es TerminalLifecycle" by code_simp
  show "length ?es \<le> cfg_max_events (demo_config\<lparr>cfg_max_buffer_bytes := 300\<rparr>)" by code_simp
  show "cfg_max_events (demo_config\<lparr>cfg_max_buffer_bytes := 300\<rparr>) < usize_max" by code_simp
  show "\<forall>(now, _) \<in> set demo_stream. now - fst (hd demo_stream)
      \<le> cfg_timeout (demo_config\<lparr>cfg_max_buffer_bytes := 300\<rparr>)" by code_simp
qed

end
