(* ===== verification/Sse_Render.thy ===== *)
theory Sse_Render
  imports Sse_Lines Json
begin

text \<open>
  Server-sent events as the filters write them, and what a reader gets back: the frame reading
  of \<^theory_text>\<open>Sse_Lines\<close> recovers the events from the text. The writers of the Anthropic and of
  the Responses filters are instances.
\<close>

definition render_event :: "str \<Rightarrow> str \<Rightarrow> bytes" where
  "render_event name payload = ''event: '' @ name @ [LF] @ ''data: '' @ payload @ [LF, LF]"

definition one_line :: "str \<Rightarrow> bool" where
  "one_line s \<longleftrightarrow> CR \<notin> set s \<and> LF \<notin> set s"

lemma sse_field_event: "sse_field (''event: '' @ name) = Event_field name"
  by (simp add: sse_field_def Let_def)

lemma sse_field_data: "sse_field (''data: '' @ payload) = Data_field payload"
  by (simp add: sse_field_def Let_def)

lemma complete_lines_render:
  assumes "one_line name" and "one_line payload"
  shows "complete_lines (render_event name payload @ r) =
    (''event: '' @ name) # (''data: '' @ payload) # [] # complete_lines r"
proof -
  have e: "LF \<notin> set (''event: '' @ name)" and d: "LF \<notin> set (''data: '' @ payload)"
    using assms by (auto simp: one_line_def)
  have "complete_lines ([] @ LF # r) = [] # complete_lines r" by (rule complete_lines_break) simp
  with complete_lines_break [OF d, of "LF # r"]
  have "complete_lines ((''data: '' @ payload) @ LF # LF # r) = (''data: '' @ payload) # [] # complete_lines r"
    by simp
  with complete_lines_break [OF e, of "(''data: '' @ payload) @ LF # LF # r"] show ?thesis
    by (simp add: render_event_def)
qed

lemma dispatch_render:
  assumes "one_line name" and "one_line payload"
  shows "dispatch None [] (complete_lines (render_event name payload @ r)) =
    \<lparr>frame_event_type = Some (from_utf8_lossy name), frame_data = payload\<rparr> # dispatch None [] (complete_lines r)"
  unfolding complete_lines_render [OF assms]
  using sse_field_event [of name] sse_field_data [of payload] by simp

lemma stream_frames_render:
  assumes "\<forall>(name, payload) \<in> set es. one_line name \<and> one_line payload"
  shows "stream_frames (concat (map (\<lambda>(name, payload). render_event name payload) es)) =
    map (\<lambda>(name, payload). \<lparr>frame_event_type = Some (from_utf8_lossy name), frame_data = payload\<rparr>) es"
proof -
  let ?text = "\<lambda>es. concat (map (\<lambda>(name, payload). render_event name payload) es)"
  have "CR \<notin> set (?text es)" using assms by (auto simp: render_event_def one_line_def)
  then have "stream_frames (?text es) = dispatch None [] (complete_lines (?text es))"
    by (simp add: stream_frames_def norm_eol_id)
  also have "\<dots> = map (\<lambda>(name, payload). \<lparr>frame_event_type = Some (from_utf8_lossy name), frame_data = payload\<rparr>) es"
    using assms
  proof (induction es)
    case Nil
    then show ?case by (simp add: complete_lines_def)
  next
    case (Cons e es)
    then show ?case by (cases e) (simp add: dispatch_render)
  qed
  finally show ?thesis .
qed

text \<open>
  What \<open>serde_json\<close> documents of compact output, for one value: the text has no line breaks, is
  JSON (so not the word that ends a stream) and is read back as the value.
\<close>

definition reads_back :: "externals \<Rightarrow> json \<Rightarrow> bool" where
  "reads_back ext v \<longleftrightarrow>
     (case to_text ext v of Inl _ \<Rightarrow> False | Inr s \<Rightarrow> one_line s \<and> s \<noteq> ''[DONE]'' \<and> from_slice ext s = Inr v)"

lemma reads_back_iff:
  "reads_back ext v \<longleftrightarrow> (\<exists>s. to_text ext v = Inr s) \<and> one_line (text_or_default ext v) \<and>
     text_or_default ext v \<noteq> ''[DONE]'' \<and> from_slice ext (text_or_default ext v) = Inr v"
  by (auto simp: reads_back_def text_or_default_def split: sum.split)

lemma stream_frames_events:
  assumes "\<forall>(name, v) \<in> set es. one_line name \<and> utf8_ok name \<and> reads_back ext v"
  shows "stream_frames (concat (map (\<lambda>(name, v). render_event name (text_or_default ext v)) es)) =
    map (\<lambda>(name, v). \<lparr>frame_event_type = Some name, frame_data = text_or_default ext v\<rparr>) es"
proof -
  have "map (\<lambda>(name, v). render_event name (text_or_default ext v)) es =
      map (\<lambda>(name, payload). render_event name payload) (map (\<lambda>(name, v). (name, text_or_default ext v)) es)"
    by (simp add: case_prod_unfold comp_def)
  moreover have "\<forall>(name, payload) \<in> set (map (\<lambda>(name, v). (name, text_or_default ext v)) es).
      one_line name \<and> one_line payload"
    using assms by (auto simp: reads_back_iff)
  ultimately show ?thesis
    using stream_frames_render [of "map (\<lambda>(name, v). (name, text_or_default ext v)) es"] assms
    by (auto simp: case_prod_unfold comp_def from_utf8_lossy_ok)
qed

end
