(* ===== verification/Responses_Pipeline.thy ===== *)
theory Responses_Pipeline
  imports Responses_Validate Responses_Accept Sse_Render
begin

text \<open>
  The Responses API request path end to end: the format filter followed by the validation filter,
  and the error stream of the validation filter as a client reads it.
\<close>

section \<open>What the format filter writes\<close>

definition format_key :: "str \<Rightarrow> str" where
  "format_key k = ''openai_responses_format.'' @ k"

definition unclassified :: "filter_ctx \<Rightarrow> bool" where
  "unclassified ctx \<longleftrightarrow> (\<forall>k. get_metadata ctx (format_key k) = None)"

lemma unclassified_keys:
  assumes "unclassified ctx"
  shows "get_metadata ctx ''openai_responses_format.stream'' = None"
    "get_metadata ctx ''openai_responses_format.store'' = None"
    "get_metadata ctx ''openai_responses_format.background'' = None"
    "get_metadata ctx ''openai_responses_format.mode'' = None"
  using assms [unfolded unclassified_def, rule_format, of "''stream''"]
    assms [unfolded unclassified_def, rule_format, of "''store''"]
    assms [unfolded unclassified_def, rule_format, of "''background''"]
    assms [unfolded unclassified_def, rule_format, of "''mode''"]
  by (simp_all add: format_key_def)

lemmas written_defs =
  rf_write_metadata_def write_optional_metadata_def write_boolean_metadata_def Let_def
  when_some_metadata when_some_model

lemma written_metadata:
  assumes "unclassified ctx"
  shows "get_metadata (rf_write_metadata px c mode ctx) ''openai_responses_format.format'' =
      Some (format_as_str (c_format c))"
    "get_metadata (rf_write_metadata px c mode ctx) ''openai_responses_format.stream'' = map_option bool_text (c_stream c)"
    "get_metadata (rf_write_metadata px c mode ctx) ''openai_responses_format.store'' = map_option bool_text (c_store c)"
    "get_metadata (rf_write_metadata px c mode ctx) ''openai_responses_format.background'' =
      map_option bool_text (c_background c)"
    "get_metadata (rf_write_metadata px c mode ctx) ''openai_responses_format.mode'' = mode"
  by (simp_all add: written_defs unclassified_keys [OF assms] option.map_ident)

lemma rf_handler_metadata:
  assumes "rf_on_request_body ext px config ctx body True = (ctx', Inr Release)"
  shows "\<exists>c. c = (if is_responses_path (req_method ctx) (req_path ctx) then empty_result Responses
                  else classify_request_body ext (unwrap_or [] body)) \<and>
    get_metadata ctx' j = get_metadata (rf_write_metadata px c (compute_mode c) ctx) j"
proof -
  define c where "c = (if is_responses_path (req_method ctx) (req_path ctx) then empty_result Responses
                  else classify_request_body ext (unwrap_or [] body))"
  have "rf_handle_invalid_format ext (c_format c) config = None"
    using assms by (auto simp: rf_on_request_body_def Let_def c_def [symmetric] rf_handle_invalid_format_def
        split: option.splits on_invalid_behavior.splits)
  with assms have "ctx' = fst (rf_promote_filter_results px c (compute_mode c)
      (rf_promote_headers px c config (compute_mode c) (rf_write_metadata px c (compute_mode c) ctx)))"
    by (auto simp: rf_on_request_body_def Let_def c_def [symmetric] split: prod.splits sum.splits)
  then show ?thesis unfolding c_def [symmetric] by simp
qed

lemma steps_request:
  "request_line (rf_write_metadata px c mode ctx) = request_line ctx"
  "request_line (rf_promote_headers px c config mode ctx) = request_line ctx"
  "request_line (fst (rf_promote_filter_results px c mode ctx)) = request_line ctx"
proof -
  show "request_line (rf_write_metadata px c mode ctx) = request_line ctx"
    by (simp add: rf_write_metadata_def write_optional_metadata_def write_boolean_metadata_def Let_def
        when_some_kept apply_if_kept)
  show "request_line (rf_promote_headers px c config mode ctx) = request_line ctx"
    by (simp add: rf_promote_headers_def Let_def when_some_kept)
  show "request_line (fst (rf_promote_filter_results px c mode ctx)) = request_line ctx"
    unfolding rf_promote_filter_results_def
    by (subst run_steps_keeps) (auto simp: promote_optional_results_def promote_boolean_results_def)
qed

lemma handler_request:
  assumes "rf_on_request_body ext px config ctx body eos = (ctx', r)"
  shows "request_line ctx' = request_line ctx"
proof -
  have "request_line (fst (rf_on_request_body ext px config ctx body eos)) = request_line ctx"
    by (auto simp: rf_on_request_body_def Let_def steps_request split: option.split prod.split sum.split)
      (metis fst_conv steps_request)+
  with assms show ?thesis by simp
qed

section \<open>Format and validation together\<close>

text \<open>The value of a Boolean field of the body; other types count as absent.\<close>

definition field_bool :: "jmap \<Rightarrow> str \<Rightarrow> bool option" where
  "field_bool obj k = Option.bind (map_of obj k) as_bool"

lemma classify_object:
  assumes "body \<noteq> []" and "from_slice ext body = Inr (JObject obj)"
  shows "c_format (classify_request_body ext body) = classify_format obj"
    "c_stream (classify_request_body ext body) = field_bool obj ''stream''"
    "c_store (classify_request_body ext body) = field_bool obj ''store''"
    "c_background (classify_request_body ext body) = field_bool obj ''background''"
  using assms by (simp_all add: classify_request_body_def field_bool_def)

lemma bool_text_eq_false [simp]: "bool_text b = ''false'' \<longleftrightarrow> \<not> b"
  by (simp add: bool_text_def)

lemma meta_is_bool:
  "get_metadata ctx k = map_option bool_text v \<Longrightarrow> meta_is ctx k ''true'' \<longleftrightarrow> v = Some True"
  "get_metadata ctx k = map_option bool_text v \<Longrightarrow> meta_is ctx k ''false'' \<longleftrightarrow> v = Some False"
  "get_metadata ctx k = map_option bool_text v \<Longrightarrow> classifier_bool ctx k = v"
  by (cases v; simp add: meta_is_def classifier_bool_def)+

lemma validate_request_iff:
  assumes "get_metadata ctx ''openai_responses_format.stream'' = map_option bool_text st"
    and "get_metadata ctx ''openai_responses_format.background'' = map_option bool_text bg"
    and "get_metadata ctx ''openai_responses_format.store'' = map_option bool_text store"
  shows "validate_request ctx = Inr () \<longleftrightarrow> \<not> (bg = Some True \<and> (st = Some True \<or> store = Some False))"
  using meta_is_bool(3) [OF assms(1)] meta_is_bool(3) [OF assms(2)] meta_is_bool(3) [OF assms(3)]
  by (auto simp: validate_request_def validate_stream_background_def validate_background_store_def)

text \<open>Both filters cut the same slash off a path, except that of the root.\<close>

lemma normalize_strip:
  "normalize_trailing_slash p = unwrap_or p (strip_suffix ''/'' p) \<or> p = ''/''"
  by (cases "strip_suffix ''/'' p") (auto simp: normalize_trailing_slash_def dest: strip_suffix_Some_iff [THEN iffD1])

lemma create_path:
  assumes "is_responses_create m p"
  shows "\<not> is_responses_path m p" and "\<not> is_bodyless_responses_request m p"
proof -
  have n: "normalize_trailing_slash p = ''/v1/responses''" and m: "m = ''POST''"
    using assms by (simp_all add: is_responses_create_def)
  have segs: "path_segments ''/v1/responses'' = [[], ''v1'', ''responses'']" by code_simp
  show "\<not> is_responses_path m p" by (simp add: is_responses_path_def n segs)
  have "p \<noteq> ''/''" using n by (auto simp: normalize_trailing_slash_def strip_suffix_def split: if_splits)
  with n normalize_strip [of p] have "unwrap_or p (strip_suffix ''/'' p) = ''/v1/responses''" by simp
  then show "\<not> is_bodyless_responses_request m p"
    by (simp add: is_bodyless_responses_request_def segs m)
qed

lemma enriched:
  assumes "get_metadata ctx ''openai_responses_format.stream'' = map_option bool_text st"
    and "get_metadata ctx ''openai_responses_format.background'' = map_option bool_text bg"
    and "get_metadata ctx ''openai_responses_format.store'' = map_option bool_text store"
  shows "get_metadata (enrich_context r c ctx) ''responses.stream'' = Some (bool_text (st = Some True))"
    "get_metadata (enrich_context r c ctx) ''responses.background'' = Some (bool_text (bg = Some True))"
    "get_metadata (enrich_context r c ctx) ''responses.store'' = Some (bool_text (store \<noteq> Some False))"
    "get_metadata (enrich_context r c ctx) ''responses.response_id'' = Some r"
    "get_metadata (enrich_context r c ctx) ''responses.conversation_id'' = Some c"
  using meta_is_bool(1) [OF assms(1)] meta_is_bool(1) [OF assms(2)] meta_is_bool(2) [OF assms(3)]
  by (simp_all add: enrich_context_def Let_def meta_is_def)

text \<open>
  C9. The two filters together enforce the parameter rules of the Responses API: a create
  request whose JSON body is a Responses request is answered with 400 and an
  \<open>invalid_request_error\<close> exactly when \<open>background\<close> is asked for together with \<open>stream\<close> or with
  \<open>store: false\<close>; otherwise it goes on with the defaults of the specification (\<open>store\<close> on,
  \<open>stream\<close> and \<open>background\<close> off), the conversation of the body or a new one, and a new response id.
\<close>

theorem responses_create_rules:
  assumes "unclassified ctx" and "is_responses_create (req_method ctx) (req_path ctx)"
    and "body \<noteq> []" and "from_slice ext body = Inr (JObject obj)" and "classify_format obj = Responses"
    and "rf_on_request_body ext px config ctx (Some body) True = (ctx1, Inr Release)"
  shows "case rv_on_request_body ext g1 g2 ctx1 (Some body) True of (ctx2, action) \<Rightarrow>
    if field_bool obj ''background'' = Some True \<and>
       (field_bool obj ''stream'' = Some True \<or> field_bool obj ''store'' = Some False)
    then ctx2 = ctx1 \<and> (\<exists>msg. action = Reject (responses_error_rejection ext 400
           ''invalid_request_error'' msg (field_bool obj ''stream'' = Some True)))
    else action = Release \<and>
      get_metadata ctx2 ''responses.stream'' = Some (bool_text (field_bool obj ''stream'' = Some True)) \<and>
      get_metadata ctx2 ''responses.background'' = Some (bool_text (field_bool obj ''background'' = Some True)) \<and>
      get_metadata ctx2 ''responses.store'' = Some (bool_text (field_bool obj ''store'' \<noteq> Some False)) \<and>
      get_metadata ctx2 ''responses.response_id'' = Some (''resp_'' @ g1) \<and>
      get_metadata ctx2 ''responses.conversation_id'' =
        Some (unwrap_or (''conv_'' @ g2) (extract_conversation_id (JObject obj)))"
proof -
  have line: "\<not> is_responses_path (req_method ctx) (req_path ctx)"
    "\<not> is_bodyless_responses_request (req_method ctx) (req_path ctx)"
    using create_path [OF assms(2)] by simp_all
  have "request_line ctx1 = request_line ctx" by (rule handler_request [OF assms(6)])
  with line(2) have here: "\<not> is_bodyless_responses_request (req_method ctx1) (req_path ctx1)"
    by (simp add: request_line_def)
  have m: "get_metadata ctx1 k = get_metadata (rf_write_metadata px (classify_request_body ext body)
      (compute_mode (classify_request_body ext body)) ctx) k" for k
    using rf_handler_metadata [OF assms(6), of k] line(1) by simp
  note w = m [of "''openai_responses_format.format''"] m [of "''openai_responses_format.stream''"]
    m [of "''openai_responses_format.store''"] m [of "''openai_responses_format.background''"]
  note keys = w [unfolded written_metadata [OF assms(1)] classify_object [OF assms(3,4)] assms(5)]
  have fmt: "meta_is ctx1 ''openai_responses_format.format'' ''openai_responses''"
    using keys(1) by (simp add: meta_is_def)
  have rules: "validate_request ctx1 = Inr () \<longleftrightarrow> \<not> (field_bool obj ''background'' = Some True \<and>
      (field_bool obj ''stream'' = Some True \<or> field_bool obj ''store'' = Some False))"
    using keys(2,4,3) by (rule validate_request_iff)
  have streaming: "meta_is ctx1 ''openai_responses_format.stream'' ''true'' \<longleftrightarrow> field_bool obj ''stream'' = Some True"
    using keys(2) by (rule meta_is_bool)
  show ?thesis
  proof (cases "validate_request ctx1")
    case (Inl e)
    with rules have bad: "field_bool obj ''background'' = Some True \<and>
      (field_bool obj ''stream'' = Some True \<or> field_bool obj ''store'' = Some False)" by auto
    from Inl fmt here streaming assms(4) have "rv_on_request_body ext g1 g2 ctx1 (Some body) True =
        (ctx1, reject_invalid ext e (field_bool obj ''stream'' = Some True))"
      by (simp add: rv_on_request_body_def parse_and_validate_def)
    with bad show ?thesis by (auto simp: reject_invalid_def)
  next
    case (Inr u)
    with rules have good: "\<not> (field_bool obj ''background'' = Some True \<and>
      (field_bool obj ''stream'' = Some True \<or> field_bool obj ''store'' = Some False))" by simp
    from Inr fmt here assms(4) have "rv_on_request_body ext g1 g2 ctx1 (Some body) True =
        (enrich_context (''resp_'' @ g1) (resolve_conversation_id g2 (JObject obj)) ctx1, Release)"
      by (simp add: rv_on_request_body_def parse_and_validate_def)
    moreover have "resolve_conversation_id g2 (JObject obj) =
        unwrap_or (''conv_'' @ g2) (extract_conversation_id (JObject obj))"
      by (simp add: resolve_conversation_id_def split: option.split)
    ultimately show ?thesis
      using good enriched [OF keys(2,4,3)] by (simp split: if_split)
  qed
qed

definition create_ctx :: filter_ctx where
  "create_ctx = empty_ctx\<lparr>req_path := ''/v1/responses/''\<rparr>"

definition create_body :: jmap where
  "create_body = [(''background'', JBool True), (''input'', JString ''Hi'')]"

definition create_ext :: externals where
  "create_ext = null_ext\<lparr>from_slice := (\<lambda>_. Inr (JObject create_body))\<rparr>"

definition default_format_config :: responses_format_config where
  "default_format_config =
     \<lparr>rf_on_invalid = Invalid_continue, rf_max_body_bytes = 100, rf_headers = default_responses_format_headers\<rparr>"

lemma responses_create_rules_witness:
  "\<exists>ctx1 ctx2. rf_on_request_body create_ext open_px default_format_config create_ctx (Some ''{}'') True =
      (ctx1, Inr Release) \<and>
    rv_on_request_body create_ext ''1'' ''2'' ctx1 (Some ''{}'') True = (ctx2, Release) \<and>
    get_metadata ctx2 ''responses.background'' = Some ''true'' \<and>
    get_metadata ctx2 ''responses.store'' = Some ''true''"
proof -
  have "snd (rf_on_request_body create_ext open_px default_format_config create_ctx (Some ''{}'') True) = Inr Release"
    by code_simp
  then obtain ctx1 where
    one: "rf_on_request_body create_ext open_px default_format_config create_ctx (Some ''{}'') True = (ctx1, Inr Release)"
    by (metis prod.collapse)
  have un: "unclassified create_ctx"
    by (simp add: unclassified_def create_ctx_def empty_ctx_def get_metadata_def)
  have create: "is_responses_create (req_method create_ctx) (req_path create_ctx)"
    and fmt: "classify_format create_body = Responses"
    and fields: "field_bool create_body ''background'' = Some True" "field_bool create_body ''stream'' = None"
      "field_bool create_body ''store'' = None" by code_simp+
  have slice: "from_slice create_ext ''{}'' = Inr (JObject create_body)" by (simp add: create_ext_def)
  obtain ctx2 a where two: "rv_on_request_body create_ext ''1'' ''2'' ctx1 (Some ''{}'') True = (ctx2, a)" by fastforce
  from responses_create_rules [OF un create _ slice fmt one, of "''1''" "''2''"] one two show ?thesis
    by (simp add: fields bool_text_def)
qed

section \<open>Endpoints known by their path\<close>

lemma segments_path: "path_segments p = segs \<Longrightarrow> p = str_join ''/'' segs"
  using str_join_split_char [of "CHR ''/''" p] by (simp add: path_segments_def)

lemma bodyless_iff:
  assumes "is_responses_path m p"
  shows "is_bodyless_responses_request m p \<longleftrightarrow>
    \<not> (m = ''POST'' \<and> normalize_trailing_slash p \<in> {''/v1/responses/input_tokens'', ''/v1/responses/compact''})"
proof -
  have lit: "path_segments ''/v1/responses/input_tokens'' = [[], ''v1'', ''responses'', ''input_tokens'']"
    "path_segments ''/v1/responses/compact'' = [[], ''v1'', ''responses'', ''compact'']"
    "path_segments (normalize_trailing_slash ''/'') = [[], []]" by code_simp+
  have "p \<noteq> ''/''" using assms lit(3) by (auto simp: is_responses_path_def)
  with normalize_strip [of p] have n: "unwrap_or p (strip_suffix ''/'' p) = normalize_trailing_slash p" by simp
  show ?thesis
  proof (cases "m = ''POST''")
    case False
    with assms show ?thesis
      by (auto simp: is_responses_path_def is_bodyless_responses_request_def split: list.splits)
  next
    case True
    from assms True consider (four) d where
        "path_segments (normalize_trailing_slash p) = [[], ''v1'', ''responses'', d]"
        "d = ''input_tokens'' \<or> d = ''compact''"
      | (cancel) d where "path_segments (normalize_trailing_slash p) = [[], ''v1'', ''responses'', d, ''cancel'']"
      unfolding is_responses_path_def by (auto split: list.splits)
    then show ?thesis
    proof cases
      case four
      from segments_path [OF four(1)] four True n show ?thesis
        by (auto simp: is_bodyless_responses_request_def)
    next
      case cancel
      with lit have "normalize_trailing_slash p \<notin> {''/v1/responses/input_tokens'', ''/v1/responses/compact''}"
        by auto
      with cancel True n show ?thesis by (simp add: is_bodyless_responses_request_def)
    qed
  qed
qed

text \<open>
  Responses endpoints with an id in the path never depend on the body: such a request is
  classified as a stateful Responses request whatever it carries, and the validation filter lets
  it through unchanged, except for the two POST endpoints that have a body of their own
  (\<open>input_tokens\<close> and \<open>compact\<close>).
\<close>

theorem responses_path_endpoints:
  assumes "unclassified ctx" and "is_responses_path (req_method ctx) (req_path ctx)"
    and "rf_on_request_body ext px config ctx body True = (ctx1, Inr Release)"
  shows "get_metadata ctx1 ''openai_responses_format.format'' = Some ''openai_responses'' \<and>
    get_metadata ctx1 ''openai_responses_format.mode'' = Some ''stateful'' \<and>
    (req_method ctx = ''POST'' \<and>
       normalize_trailing_slash (req_path ctx) \<in> {''/v1/responses/input_tokens'', ''/v1/responses/compact''} \<or>
     rv_on_request_body ext g1 g2 ctx1 body True = (ctx1, Release))"
proof -
  have "request_line ctx1 = request_line ctx" by (rule handler_request [OF assms(3)])
  then have line: "req_method ctx1 = req_method ctx" "req_path ctx1 = req_path ctx" by (simp_all add: request_line_def)
  have m: "get_metadata ctx1 k = get_metadata (rf_write_metadata px (empty_result Responses)
      (compute_mode (empty_result Responses)) ctx) k" for k
    using rf_handler_metadata [OF assms(3), of k] assms(2) by simp
  have mode: "compute_mode (empty_result Responses) = Some ''stateful''" by code_simp
  have keys: "get_metadata ctx1 ''openai_responses_format.format'' = Some ''openai_responses''"
    "get_metadata ctx1 ''openai_responses_format.mode'' = Some ''stateful''"
    using m written_metadata [OF assms(1)] mode by (simp_all add: empty_result_def)
  with bodyless_iff [OF assms(2)] line show ?thesis
    by (auto simp: rv_on_request_body_def meta_is_def)
qed

definition lookup_ctx :: filter_ctx where
  "lookup_ctx = empty_ctx\<lparr>req_method := ''GET'', req_path := ''/v1/responses/r1''\<rparr>"

lemma responses_path_endpoints_witness:
  "\<exists>ctx1. rf_on_request_body null_ext open_px default_format_config lookup_ctx None True = (ctx1, Inr Release) \<and>
     rv_on_request_body null_ext ''1'' ''2'' ctx1 None True = (ctx1, Release)"
proof -
  have "snd (rf_on_request_body null_ext open_px default_format_config lookup_ctx None True) = Inr Release"
    by code_simp
  then obtain ctx1 where
    one: "rf_on_request_body null_ext open_px default_format_config lookup_ctx None True = (ctx1, Inr Release)"
    by (metis prod.collapse)
  have "unclassified lookup_ctx"
    by (simp add: unclassified_def lookup_ctx_def empty_ctx_def get_metadata_def)
  moreover have "is_responses_path (req_method lookup_ctx) (req_path lookup_ctx)" by code_simp
  moreover have "req_method lookup_ctx \<noteq> ''POST''" by (simp add: lookup_ctx_def)
  ultimately show ?thesis using responses_path_endpoints [OF _ _ one, of "''1''" "''2''"] one by blast
qed

section \<open>The error stream\<close>

text \<open>The three events of a reformatted error.\<close>

definition error_events :: "nat \<Rightarrow> str \<Rightarrow> str \<Rightarrow> bool \<Rightarrow> bool \<Rightarrow> backend_error \<Rightarrow> (str \<times> json) list" where
  "error_events now_secs response_id model store background err =
     (let r = error_response_object now_secs response_id model store background
      in [(''response.created'', jobj [(''type'', JString ''response.created''), (''response'', r),
             (''sequence_number'', JNumber (PosInt 0))]),
          (''response.in_progress'', jobj [(''type'', JString ''response.in_progress''), (''response'', r),
             (''sequence_number'', JNumber (PosInt 1))]),
          (''error'', jobj [(''type'', JString ''error''), (''error'', error_payload err),
             (''sequence_number'', JNumber (PosInt 2))])])"

lemma sse_error_body_events:
  "build_sse_error_body ext now rid model store bg err =
     concat (map (\<lambda>(name, v). render_event name (text_or_default ext v)) (error_events now rid model store bg err))"
  by (simp add: build_sse_error_body_def error_events_def sse_event_text_def render_event_def Let_def)

definition context_error_events :: "nat \<Rightarrow> filter_ctx \<Rightarrow> backend_error \<Rightarrow> (str \<times> json) list" where
  "context_error_events now ctx err =
     error_events now (unwrap_or ''resp_unknown'' (get_metadata ctx ''responses.response_id''))
       (unwrap_or ''unknown'' (get_metadata ctx ''openai_responses_format.model''))
       (\<not> meta_is ctx ''responses.store'' ''false'') (meta_is ctx ''responses.background'' ''true'') err"

lemma error_event_types:
  "error_events now rid model store bg err = [(n1, v1), (n2, v2), (n3, v3)] \<Longrightarrow>
     n1 = ''response.created'' \<and> n2 = ''response.in_progress'' \<and> n3 = ''error'' \<and>
     get_str v1 ''type'' = Some n1 \<and> get_str v2 ''type'' = Some n2 \<and> get_str v3 ''type'' = Some n3"
  by (auto simp: error_events_def Let_def get_str_def jget_jobj)

lemma error_names: "(n, v) \<in> set (error_events now rid model store bg err) \<Longrightarrow> one_line n \<and> utf8_ok n"
proof -
  have "\<forall>n \<in> {''response.created'', ''response.in_progress'', ''error''}. one_line n \<and> utf8_ok n" by code_simp
  then show "(n, v) \<in> set (error_events now rid model store bg err) \<Longrightarrow> one_line n \<and> utf8_ok n"
    by (auto simp: error_events_def Let_def)
qed

lemma from_frame_event:
  assumes "reads_back ext v" and "get_str v ''type'' = Some n"
  shows "from_frame ext \<lparr>frame_event_type = Some n, frame_data = text_or_default ext v\<rparr> = Inr (from_event_type n v)"
  using assms by (simp add: from_frame_def reads_back_iff)

lemma error_frames:
  assumes "\<forall>v \<in> snd ` set (error_events now rid model store bg err). reads_back ext v"
  shows "filter (\<lambda>f. \<not> is_done_sentinel f) (stream_frames (concat (map (\<lambda>(name, v).
      render_event name (text_or_default ext v)) (error_events now rid model store bg err)))) =
    map (\<lambda>(name, v). \<lparr>frame_event_type = Some name, frame_data = text_or_default ext v\<rparr>)
      (error_events now rid model store bg err)"
proof -
  have "\<forall>(name, v) \<in> set (error_events now rid model store bg err). one_line name \<and> utf8_ok name \<and> reads_back ext v"
    using assms error_names by fastforce
  from stream_frames_events [OF this] show ?thesis
    using assms by (auto simp: is_done_sentinel_def reads_back_iff filter_id_conv)
qed

lemma error_run:
  assumes "\<forall>v \<in> snd ` set (error_events now rid model store bg err). reads_back ext v"
  shows "\<exists>created progress v. list_all2 (\<lambda>f e. from_frame ext f = Inr e)
      (map (\<lambda>(name, v). \<lparr>frame_event_type = Some name, frame_data = text_or_default ext v\<rparr>)
        (error_events now rid model store bg err)) [ResponseCreated created, ResponseInProgress progress, ErrorEvent v] \<and>
    jget v ''error'' = Some (error_payload err)"
proof -
  obtain v1 v2 v3 where vs: "error_events now rid model store bg err =
      [(''response.created'', v1), (''response.in_progress'', v2), (''error'', v3)]"
    "jget v3 ''error'' = Some (error_payload err)"
    by (auto simp: error_events_def Let_def jget_jobj)
  note ty = error_event_types [OF vs(1)]
  have "from_frame ext \<lparr>frame_event_type = Some ''response.created'', frame_data = text_or_default ext v1\<rparr> =
      Inr (ResponseCreated v1)"
    using from_frame_event [of ext v1 "''response.created''"] assms vs(1) ty by (simp add: from_event_type_def)
  moreover have "from_frame ext \<lparr>frame_event_type = Some ''response.in_progress'', frame_data = text_or_default ext v2\<rparr> =
      Inr (ResponseInProgress v2)"
    using from_frame_event [of ext v2 "''response.in_progress''"] assms vs(1) ty by (simp add: from_event_type_def)
  moreover have "from_frame ext \<lparr>frame_event_type = Some ''error'', frame_data = text_or_default ext v3\<rparr> =
      Inr (ErrorEvent v3)"
    using from_frame_event [of ext v3 "''error''"] assms vs(1) ty by (simp add: from_event_type_def)
  ultimately show ?thesis using vs by auto
qed

text \<open>
  C10. A backend error becomes a complete Responses stream: for a streaming request, the body put
  in place of the error, cut into any chunks and read by the Responses stream parser, is exactly a
  created event, an in-progress event and an error event with the code and message extracted from
  the backend, and the stream counts as ended with an error. The codec is assumed to read back the
  three values it wrote, on one line, and the parser to have budget and time for the body.
\<close>

theorem error_stream_reads_back:
  assumes "get_metadata ctx ''responses._reformat_error'' = Some st" and "meta_is ctx ''responses.stream'' ''true''"
    and "err = extract_backend_error ext (case body of None \<Rightarrow> [] | Some b \<Rightarrow> if utf8_ok b then b else [])
           (unwrap_or 500 (parse_uint 16 st))"
    and "\<forall>v \<in> snd ` set (context_error_events now ctx err). reads_back ext v"
    and "rv_on_response_body ext now ctx body True = (Some (concat (map snd cs)), action)"
    and "3 * length (concat (map snd cs)) \<le> cfg_max_buffer_bytes cfg"
    and "3 \<le> cfg_max_events cfg" and "cfg_max_events cfg < usize_max"
    and "\<forall>(t, _) \<in> set cs. t - fst (hd cs) \<le> cfg_timeout cfg"
  shows "\<exists>created progress v q. responses_stream ext (new_responses_parser cfg) cs =
      Inr ([ResponseCreated created, ResponseInProgress progress, ErrorEvent v], q) \<and>
    jget v ''error'' = Some (error_payload err) \<and> completion_state q = StreamError"
proof -
  let ?evs = "context_error_events now ctx err"
  have "concat (map snd cs) = concat (map (\<lambda>(name, v). render_event name (text_or_default ext v)) ?evs)"
    using assms(1,2,3,5) by (simp add: rv_on_response_body_def reformat_error_body_def Let_def
        sse_error_body_events context_error_events_def)
  with error_frames [OF assms(4) [unfolded context_error_events_def]] have frames:
    "filter (\<lambda>f. \<not> is_done_sentinel f) (stream_frames (concat (map snd cs))) =
      map (\<lambda>(name, v). \<lparr>frame_event_type = Some name, frame_data = text_or_default ext v\<rparr>) ?evs"
    by (simp add: context_error_events_def)
  from error_run [OF assms(4) [unfolded context_error_events_def]] frames
  obtain created progress v where
    run: "list_all2 (\<lambda>f e. from_frame ext f = Inr e)
      (filter (\<lambda>f. \<not> is_done_sentinel f) (stream_frames (concat (map snd cs))))
      [ResponseCreated created, ResponseInProgress progress, ErrorEvent v]" and
    v: "jget v ''error'' = Some (error_payload err)"
    by (auto simp: context_error_events_def)
  have "closes Open [ResponseCreated created, ResponseInProgress progress, ErrorEvent v] StreamError"
    by simp
  from new_parser_accepts [OF assms(6) run this _ assms(8,9)] assms(7) v show ?thesis by auto
qed

definition failed_ctx :: filter_ctx where
  "failed_ctx = set_metadata ''responses._reformat_error'' ''503'' (set_metadata ''responses.stream'' ''true'' empty_ctx)"

definition failed_events :: "(str \<times> json) list" where
  "failed_events = context_error_events 5 failed_ctx (fallback_backend_error 503)"

definition failed_ext :: externals where
  "failed_ext = null_ext\<lparr>to_text := (\<lambda>v. Inr (unwrap_or [] (get_str v ''type''))),
     from_slice := (\<lambda>s. case map_of failed_events s of None \<Rightarrow> Inl [] | Some v \<Rightarrow> Inr v)\<rparr>"

definition failed_body :: bytes where
  "failed_body = concat (map (\<lambda>n. render_event n n) [''response.created'', ''response.in_progress'', ''error''])"

lemma error_stream_reads_back_witness:
  "\<exists>es q. responses_stream failed_ext (new_responses_parser \<lparr>cfg_max_buffer_bytes = 1000, cfg_max_events = 3, cfg_timeout = 5\<rparr>)
      [(0, take 50 failed_body), (1, drop 50 failed_body)] = Inr (es, q) \<and>
    length es = 3 \<and> completion_state q = StreamError"
proof -
  let ?cs = "[(0 :: nat, take 50 failed_body), (1, drop 50 failed_body)]"
  let ?cfg = "\<lparr>cfg_max_buffer_bytes = 1000, cfg_max_events = 3, cfg_timeout = 5\<rparr>"
  have st: "get_metadata failed_ctx ''responses._reformat_error'' = Some ''503''"
    and str: "meta_is failed_ctx ''responses.stream'' ''true''"
    by (simp_all add: failed_ctx_def meta_is_def)
  have err: "fallback_backend_error 503 = extract_backend_error failed_ext
      (case None of None \<Rightarrow> [] | Some b \<Rightarrow> if utf8_ok b then b else []) (unwrap_or 500 (parse_uint 16 ''503''))"
    by code_simp
  have "\<forall>v \<in> snd ` set failed_events. reads_back failed_ext v" by code_simp
  then have codec: "\<forall>v \<in> snd ` set (context_error_events 5 failed_ctx (fallback_backend_error 503)). reads_back failed_ext v"
    by (simp add: failed_events_def)
  have "rv_on_response_body failed_ext 5 failed_ctx None True = (Some failed_body, Continue)" by code_simp
  then have out: "rv_on_response_body failed_ext 5 failed_ctx None True = (Some (concat (map snd ?cs)), Continue)" by simp
  have "length failed_body \<le> 200" by code_simp
  then have "3 * length (concat (map snd ?cs)) \<le> cfg_max_buffer_bytes ?cfg" by simp
  from error_stream_reads_back [OF st str err codec out this] show ?thesis
    by (fastforce simp: usize_max_def)
qed

end
