(* ===== verification/Hex.thy ===== *)
theory Hex
  imports Utf8
begin

text \<open>
  Hexadecimal text of byte strings, as two filters keep raw bytes in their string metadata:
  the writer (\<open>format!("{b:02x}")\<close> per byte, the same in both), the lenient reader of the
  Anthropic stream filter and the strict one of the A2A filter, and the round trips.
\<close>

definition encode_hex_bytes :: "bytes \<Rightarrow> str" where
  "encode_hex_bytes bs = concat (map (\<lambda>b. show_hex 2 (byte b)) bs)"

definition hex_nibble :: "char \<Rightarrow> nat option" where
  "hex_nibble c =
     (if 48 \<le> byte c \<and> byte c \<le> 57 then Some (byte c - 48)
      else if 97 \<le> byte c \<and> byte c \<le> 102 then Some (byte c - 97 + 10)
      else None)"

text \<open>Lenient: pairs with a bad digit are skipped, an odd last character is ignored.\<close>

fun decode_hex_bytes :: "str \<Rightarrow> bytes" where
  "decode_hex_bytes (a # b # s) =
     (case (hex_nibble a, hex_nibble b) of
        (Some hi, Some lo) \<Rightarrow> char_of (16 * hi + lo) # decode_hex_bytes s
      | _ \<Rightarrow> decode_hex_bytes s)"
| "decode_hex_bytes _ = []"

text \<open>Strict: any bad digit, or an odd length, is a failure.\<close>

fun decode_pairs :: "str \<Rightarrow> bytes option" where
  "decode_pairs [] = Some []"
| "decode_pairs [a] = None"
| "decode_pairs (a # b # s) =
     Option.bind (hex_nibble a) (\<lambda>hi. Option.bind (hex_nibble b) (\<lambda>lo.
       map_option (\<lambda>bs. char_of (16 * hi + lo) # bs) (decode_pairs s)))"

definition decode_hex :: "str \<Rightarrow> bytes option" where
  "decode_hex hex = (if length hex mod 2 \<noteq> 0 then None else decode_pairs hex)"

section \<open>Round trips\<close>

lemma byte_less: "byte c < 256"
  by (simp add: byte_def)

lemma byte_char_of [simp]: "n < 256 \<Longrightarrow> byte (char_of n) = n"
  by (simp add: byte_def)

lemma char_of_byte [simp]: "char_of (byte c) = c"
  by (simp add: byte_def)

lemma hex_nibble_hex_char [simp]: "d < 16 \<Longrightarrow> hex_nibble (hex_char d) = Some d"
  by (simp add: hex_nibble_def hex_char_def)

lemma show_hex_byte: "n < 256 \<Longrightarrow> show_hex 2 n = [hex_char (n div 16), hex_char (n mod 16)]"
proof -
  have "CHR ''0'' = char_of (48 :: nat)" by code_simp
  then show "n < 256 \<Longrightarrow> ?thesis" by (auto simp: show_hex.simps hex_char_def)
qed

lemma byte_div [simp]: "byte b div 16 < 16"
  using byte_less [of b] by simp

lemma encode_Nil [simp]: "encode_hex_bytes [] = []"
  by (simp add: encode_hex_bytes_def)

lemma encode_Cons:
  "encode_hex_bytes (b # bs) = hex_char (byte b div 16) # hex_char (byte b mod 16) # encode_hex_bytes bs"
  using byte_less [of b] by (simp add: encode_hex_bytes_def show_hex_byte)

lemma encode_append: "encode_hex_bytes (as @ bs) = encode_hex_bytes as @ encode_hex_bytes bs"
  by (simp add: encode_hex_bytes_def)

lemma length_encode: "length (encode_hex_bytes bs) = 2 * length bs"
  by (induction bs) (simp_all add: encode_Cons)

lemma encode_eq_Nil [simp]: "encode_hex_bytes bs = [] \<longleftrightarrow> bs = []"
  using length_encode [of bs] by auto

lemma decode_encode [simp]: "decode_hex_bytes (encode_hex_bytes bs) = bs"
  by (induction bs) (simp_all add: encode_Cons)

lemma decode_pairs_encode [simp]: "decode_pairs (encode_hex_bytes bs) = Some bs"
  by (induction bs) (simp_all add: encode_Cons)

lemma decode_hex_encode [simp]: "decode_hex (encode_hex_bytes bs) = Some bs"
  by (simp add: decode_hex_def length_encode)

text \<open>What the strict reader accepts, the lenient one reads the same way.\<close>

lemma decode_hex_lenient: "decode_hex s = Some bs \<Longrightarrow> decode_hex_bytes s = bs"
proof -
  assume "decode_hex s = Some bs"
  then have "decode_pairs s = Some bs" by (auto simp: decode_hex_def split: if_splits)
  then show ?thesis
    by (induction s arbitrary: bs rule: decode_pairs.induct) (auto simp: bind_eq_Some_conv)
qed

end
