(* ===== verification/Anthropic_Stream.thy ===== *)
theory Anthropic_Stream
  imports Filter_Ctx Hex Sse_Lines
begin

text \<open>
  The filter that turns an OpenAI Chat Completions event stream into Anthropic Messages events,
  \<open>apis/src/anthropic/stream_events/mod.rs\<close>. Its state lives in the metadata map of the
  request: the incomplete UTF-8 tail (in hexadecimal), the incomplete event text, the open
  content block and its index, the finish reason and the token count. Events are collected as
  pairs of type and JSON data, and written as SSE text when a chunk is done.
\<close>

section \<open>Metadata keys\<close>

definition LINE_BUFFER_KEY :: str where "LINE_BUFFER_KEY = ''anthropic_stream.line_buffer''"
definition STREAM_STATE_KEY :: str where "STREAM_STATE_KEY = ''anthropic_stream.state''"
definition STREAM_STATE_STARTED :: str where "STREAM_STATE_STARTED = ''started''"
definition OPENAI_DONE_SENTINEL :: str where "OPENAI_DONE_SENTINEL = ''[DONE]''"
definition TEXT_BLOCK_OPEN_KEY :: str where "TEXT_BLOCK_OPEN_KEY = ''anthropic_stream.text_block_open''"
definition TOOL_BLOCK_OPEN_KEY :: str where "TOOL_BLOCK_OPEN_KEY = ''anthropic_stream.tool_block_open''"
definition FINISH_REASON_KEY :: str where "FINISH_REASON_KEY = ''anthropic_stream.finish_reason''"
definition OUTPUT_TOKENS_KEY :: str where "OUTPUT_TOKENS_KEY = ''anthropic_stream.output_tokens''"
definition BLOCK_INDEX_KEY :: str where "BLOCK_INDEX_KEY = ''anthropic_stream.block_index''"
definition UTF8_BUFFER_KEY :: str where "UTF8_BUFFER_KEY = ''anthropic_stream.utf8_buffer''"
definition ARMED_KEY :: str where "ARMED_KEY = ''anthropic_stream.armed''"

lemmas stream_keys = LINE_BUFFER_KEY_def STREAM_STATE_KEY_def TEXT_BLOCK_OPEN_KEY_def
  TOOL_BLOCK_OPEN_KEY_def FINISH_REASON_KEY_def OUTPUT_TOKENS_KEY_def BLOCK_INDEX_KEY_def
  UTF8_BUFFER_KEY_def ARMED_KEY_def

section \<open>Helpers\<close>

definition meta_true :: "filter_ctx \<Rightarrow> str \<Rightarrow> bool" where
  "meta_true ctx k \<longleftrightarrow> get_metadata ctx k = Some ''true''"

definition is_text_block_open :: "filter_ctx \<Rightarrow> bool" where
  "is_text_block_open ctx \<longleftrightarrow> meta_true ctx TEXT_BLOCK_OPEN_KEY"

definition is_tool_block_open :: "filter_ctx \<Rightarrow> bool" where
  "is_tool_block_open ctx \<longleftrightarrow> meta_true ctx TOOL_BLOCK_OPEN_KEY"

definition get_block_index :: "filter_ctx \<Rightarrow> nat" where
  "get_block_index ctx = unwrap_or 0 (Option.bind (get_metadata ctx BLOCK_INDEX_KEY) (parse_uint 32))"

text \<open>The addition on \<open>u32\<close> panics when it overflows.\<close>

definition increment_block_index :: "filter_ctx \<Rightarrow> filter_ctx option" where
  "increment_block_index ctx =
     (let current = get_block_index ctx
      in if current + 1 < 2 ^ 32
         then Some (set_metadata BLOCK_INDEX_KEY (show_nat (current + 1)) ctx) else None)"

type_synonym out_event = "str \<times> json"
type_synonym emit_state = "filter_ctx \<times> out_event list"

definition emit_event :: "str \<Rightarrow> json \<Rightarrow> out_event list \<Rightarrow> out_event list" where
  "emit_event event_type data output = output @ [(event_type, data)]"

definition event_bytes :: "externals \<Rightarrow> out_event \<Rightarrow> bytes" where
  "event_bytes ext e =
     ''event: '' @ fst e @ [LF] @ ''data: '' @ text_or_default ext (snd e) @ [LF, LF]"

definition output_bytes :: "externals \<Rightarrow> out_event list \<Rightarrow> bytes" where
  "output_bytes ext output = concat (map (event_bytes ext) output)"

definition normalize_line_endings :: "str \<Rightarrow> str" where
  "normalize_line_endings s = replace_all [CR] [LF] (replace_all [CR, LF] [LF] s)"

definition jnat :: "nat \<Rightarrow> json" where "jnat n = JNumber (PosInt (of_nat n))"

section \<open>Content blocks\<close>

definition block_stop :: "nat \<Rightarrow> json" where
  "block_stop idx = jobj [(''type'', JString ''content_block_stop''), (''index'', jnat idx)]"

definition close_text_block_if_open :: "emit_state \<Rightarrow> emit_state option" where
  "close_text_block_if_open = (\<lambda>(ctx, output).
     if \<not> is_text_block_open ctx then Some (ctx, output)
     else
       (let output' = emit_event ''content_block_stop'' (block_stop (get_block_index ctx)) output
        in map_option (\<lambda>ctx'. (set_metadata TEXT_BLOCK_OPEN_KEY ''false'' ctx', output'))
             (increment_block_index ctx)))"

definition close_tool_block_if_open :: "emit_state \<Rightarrow> emit_state option" where
  "close_tool_block_if_open = (\<lambda>(ctx, output).
     if \<not> is_tool_block_open ctx then Some (ctx, output)
     else
       (let output' = emit_event ''content_block_stop'' (block_stop (get_block_index ctx)) output
        in map_option (\<lambda>ctx'. (set_metadata TOOL_BLOCK_OPEN_KEY ''false'' ctx', output'))
             (increment_block_index ctx)))"

definition emit_text_delta :: "str \<Rightarrow> emit_state \<Rightarrow> emit_state" where
  "emit_text_delta content = (\<lambda>(ctx, output).
     let (ctx1, output1) =
           (if \<not> is_text_block_open ctx then
              (set_metadata TEXT_BLOCK_OPEN_KEY ''true'' ctx,
               emit_event ''content_block_start''
                 (jobj [(''type'', JString ''content_block_start''),
                        (''index'', jnat (get_block_index ctx)),
                        (''content_block'', jobj [(''type'', JString ''text''), (''text'', JString [])])])
                 output)
            else (ctx, output))
     in (ctx1,
         emit_event ''content_block_delta''
           (jobj [(''type'', JString ''content_block_delta''),
                  (''index'', jnat (get_block_index ctx1)),
                  (''delta'', jobj [(''type'', JString ''text_delta''), (''text'', JString content)])])
           output1))"

definition emit_tool_block_start :: "json \<Rightarrow> str \<Rightarrow> emit_state \<Rightarrow> emit_state" where
  "emit_tool_block_start tc tid = (\<lambda>(ctx, output).
     let name = unwrap_or [] (Option.bind (jget tc ''function'') (\<lambda>f. get_str f ''name''))
     in (set_metadata TOOL_BLOCK_OPEN_KEY ''true'' ctx,
         emit_event ''content_block_start''
           (jobj [(''type'', JString ''content_block_start''),
                  (''index'', jnat (get_block_index ctx)),
                  (''content_block'',
                     jobj [(''type'', JString ''tool_use''), (''id'', JString tid),
                           (''name'', JString name), (''input'', jobj [])])])
           output))"

definition emit_tool_arguments_delta :: "json \<Rightarrow> emit_state \<Rightarrow> emit_state" where
  "emit_tool_arguments_delta tc = (\<lambda>(ctx, output).
     case Option.bind (jget tc ''function'') (\<lambda>f. get_str f ''arguments'') of
       None \<Rightarrow> (ctx, output)
     | Some args \<Rightarrow>
         if args = [] then (ctx, output)
         else
           (ctx,
            emit_event ''content_block_delta''
              (jobj [(''type'', JString ''content_block_delta''),
                     (''index'', jnat (get_block_index ctx)),
                     (''delta'', jobj [(''type'', JString ''input_json_delta''),
                                       (''partial_json'', JString args)])])
              output))"

definition transform_tool_delta :: "json \<Rightarrow> emit_state \<Rightarrow> emit_state option" where
  "transform_tool_delta tc s =
     map_option (emit_tool_arguments_delta tc)
       (case get_str tc ''id'' of
          None \<Rightarrow> Some s
        | Some tid \<Rightarrow> map_option (emit_tool_block_start tc tid) (close_tool_block_if_open s))"

definition transform_delta :: "json \<Rightarrow> emit_state \<Rightarrow> emit_state option" where
  "transform_delta delta s =
     (let s1 = (case get_str delta ''content'' of None \<Rightarrow> s | Some content \<Rightarrow> emit_text_delta content s)
      in case get_array delta ''tool_calls'' of
           None \<Rightarrow> Some s1
         | Some tool_calls \<Rightarrow>
             Option.bind (close_text_block_if_open s1) (fold_opt transform_tool_delta tool_calls))"

section \<open>Stream start and end\<close>

definition message_start_usage :: json where
  "message_start_usage =
     jobj [(''cache_creation'', JNull), (''cache_creation_input_tokens'', JNull),
           (''cache_read_input_tokens'', JNull), (''inference_geo'', JNull),
           (''input_tokens'', jnat 0), (''output_tokens'', jnat 0),
           (''server_tool_use'', JNull), (''service_tier'', JNull)]"

definition message_delta_usage :: "nat \<Rightarrow> json" where
  "message_delta_usage output_tokens =
     jobj [(''cache_creation_input_tokens'', JNull), (''cache_read_input_tokens'', JNull),
           (''input_tokens'', JNull), (''output_tokens'', jnat output_tokens),
           (''server_tool_use'', JNull)]"

definition map_stop_reason :: "str \<Rightarrow> str" where
  "map_stop_reason reason =
     (if reason = ''tool_calls'' then ''tool_use''
      else if reason = ''length'' then ''max_tokens''
      else ''end_turn'')"

text \<open>The low 64 bits of the clock in nanoseconds.\<close>

definition generate_timestamp_id :: "nat \<Rightarrow> nat" where
  "generate_timestamp_id nanos = nanos mod 2 ^ 64"

definition emit_message_start :: "nat \<Rightarrow> json \<Rightarrow> emit_state \<Rightarrow> emit_state" where
  "emit_message_start nanos chunk = (\<lambda>(ctx, output).
     let model = unwrap_or [] (get_str chunk ''model'')
     in (set_metadata STREAM_STATE_KEY STREAM_STATE_STARTED ctx,
         emit_event ''message_start''
           (jobj [(''type'', JString ''message_start''),
                  (''message'',
                     jobj [(''id'', JString (''msg_'' @ show_hex 16 (generate_timestamp_id nanos))),
                           (''type'', JString ''message''), (''role'', JString ''assistant''),
                           (''model'', JString model), (''content'', JArray []),
                           (''stop_reason'', JNull), (''stop_sequence'', JNull),
                           (''stop_details'', JNull), (''usage'', message_start_usage),
                           (''container'', JNull)])])
           output))"

definition extract_first_choice :: "json \<Rightarrow> json option" where
  "extract_first_choice chunk = Option.bind (get_array chunk ''choices'') first_of"

definition emit_final_block_stop :: "emit_state \<Rightarrow> emit_state option" where
  "emit_final_block_stop s =
     Option.bind (if is_text_block_open (fst s) then close_text_block_if_open s else Some s)
       (\<lambda>s1. if is_tool_block_open (fst s1) then close_tool_block_if_open s1 else Some s1)"

definition emit_message_delta :: "emit_state \<Rightarrow> emit_state" where
  "emit_message_delta = (\<lambda>(ctx, output).
     let stop_reason = (case get_metadata ctx FINISH_REASON_KEY of
                          None \<Rightarrow> ''end_turn'' | Some v \<Rightarrow> map_stop_reason v);
         output_tokens = unwrap_or 0 (Option.bind (get_metadata ctx OUTPUT_TOKENS_KEY) (parse_uint 64))
     in (ctx,
         emit_event ''message_delta''
           (jobj [(''type'', JString ''message_delta''),
                  (''delta'',
                     jobj [(''container'', JNull), (''stop_details'', JNull),
                           (''stop_reason'', JString stop_reason), (''stop_sequence'', JNull)]),
                  (''usage'', message_delta_usage output_tokens)])
           output))"

definition emit_done :: "emit_state \<Rightarrow> emit_state option" where
  "emit_done s =
     map_option (\<lambda>s1. let (ctx, output) = emit_message_delta s1
                      in (ctx, emit_event ''message_stop'' (jobj [(''type'', JString ''message_stop'')]) output))
       (emit_final_block_stop s)"

definition transform_chunk :: "nat \<Rightarrow> json \<Rightarrow> emit_state \<Rightarrow> emit_state option" where
  "transform_chunk nanos chunk s =
     (let started = (get_metadata (fst s) STREAM_STATE_KEY = Some STREAM_STATE_STARTED);
          s1 = (if started then s else emit_message_start nanos chunk s);
          s2 = (case extract_first_choice chunk of
                  None \<Rightarrow> Some s1
                | Some choice \<Rightarrow>
                    map_option
                      (\<lambda>(ctx, output).
                         ((case get_str choice ''finish_reason'' of
                             None \<Rightarrow> ctx | Some reason \<Rightarrow> set_metadata FINISH_REASON_KEY reason ctx),
                          output))
                      (case jget choice ''delta'' of
                         None \<Rightarrow> Some s1 | Some delta \<Rightarrow> transform_delta delta s1))
      in map_option
           (\<lambda>(ctx, output).
              ((case Option.bind (jget chunk ''usage'') (\<lambda>u. get_u64 u ''completion_tokens'') of
                  None \<Rightarrow> ctx
                | Some ot \<Rightarrow> set_metadata OUTPUT_TOKENS_KEY (show_nat (unat ot)) ctx),
               output))
           s2)"

section \<open>Event blocks and chunks\<close>

definition data_of_line :: "str \<Rightarrow> str option" where
  "data_of_line line =
     map_option (\<lambda>d. unwrap_or d (strip_prefix [SP] d)) (strip_prefix ''data:'' line)"

definition process_line_data :: "externals \<Rightarrow> nat \<Rightarrow> str \<Rightarrow> emit_state \<Rightarrow> emit_state option" where
  "process_line_data ext nanos line s =
     (case data_of_line line of
        None \<Rightarrow> Some s
      | Some data \<Rightarrow>
          if data = OPENAI_DONE_SENTINEL then emit_done s
          else (case from_slice ext data of Inl _ \<Rightarrow> Some s | Inr chunk \<Rightarrow> transform_chunk nanos chunk s))"

definition process_event_block :: "externals \<Rightarrow> nat \<Rightarrow> str \<Rightarrow> emit_state \<Rightarrow> emit_state option" where
  "process_event_block ext nanos block s = fold_opt (process_line_data ext nanos) (str_lines block) s"

text \<open>The loop over the blocks that end in an empty line; the rest is returned.\<close>

function process_blocks ::
  "externals \<Rightarrow> nat \<Rightarrow> str \<Rightarrow> emit_state \<Rightarrow> (str \<times> emit_state) option" where
  "process_blocks ext nanos remaining s =
     (case split_once [LF, LF] remaining of
        None \<Rightarrow> Some (remaining, s)
      | Some (event_block, rest) \<Rightarrow>
          (case process_event_block ext nanos event_block s of
             None \<Rightarrow> None
           | Some s' \<Rightarrow> process_blocks ext nanos rest s'))"
  by pat_completeness auto
termination
  by (relation "measure (\<lambda>(_, _, r, _). length r)") (auto dest: split_once_shorter)

declare process_blocks.simps [simp del]

definition store_line_buffer :: "filter_ctx \<Rightarrow> str \<Rightarrow> nat \<Rightarrow> filter_ctx \<times> (filter_error + unit)" where
  "store_line_buffer ctx buffer max_partial_event_bytes =
     (if buffer = [] then (remove_metadata LINE_BUFFER_KEY ctx, Inr ())
      else if length buffer > max_partial_event_bytes then
        (remove_metadata LINE_BUFFER_KEY ctx,
         Inl (''anthropic_stream_events: incomplete SSE event exceeds '' @
              show_nat max_partial_event_bytes @ '' bytes''))
      else (set_metadata LINE_BUFFER_KEY buffer ctx, Inr ()))"

definition process_sse_chunk ::
  "externals \<Rightarrow> nat \<Rightarrow> filter_ctx \<Rightarrow> str \<Rightarrow> bool \<Rightarrow> nat
    \<Rightarrow> (filter_ctx \<times> (filter_error + bytes)) option" where
  "process_sse_chunk ext nanos ctx chunk_str end_of_stream max_partial_event_bytes =
     (let combined = unwrap_or [] (get_metadata ctx LINE_BUFFER_KEY) @ chunk_str;
          defer_trailing_cr = (\<not> end_of_stream \<and> ends_with combined [CR] \<and> \<not> ends_with combined [CR, CR]);
          (to_normalize, pending_cr) =
            (if defer_trailing_cr then
               (case strip_suffix [CR] combined of
                  Some without \<Rightarrow> (without, True) | None \<Rightarrow> (combined, False))
             else (combined, False))
      in map_option
           (\<lambda>(remaining, ctx1, output).
              let to_buffer = (if pending_cr then remaining @ [CR] else remaining);
                  (ctx2, r) = store_line_buffer ctx1 to_buffer max_partial_event_bytes
              in (ctx2, map_sum id (\<lambda>_. output_bytes ext output) r))
           (process_blocks ext nanos (normalize_line_endings to_normalize) (ctx, [])))"

section \<open>UTF-8 reassembly\<close>

definition combine_pending_utf8 :: "filter_ctx \<Rightarrow> bytes \<Rightarrow> filter_ctx \<times> bytes" where
  "combine_pending_utf8 ctx bs =
     (case get_metadata ctx UTF8_BUFFER_KEY of
        Some hex \<Rightarrow> (remove_metadata UTF8_BUFFER_KEY ctx, decode_hex_bytes hex @ bs)
      | None \<Rightarrow> (ctx, bs))"

definition valid_utf8_prefix_len :: "filter_ctx \<Rightarrow> bytes \<Rightarrow> bool \<Rightarrow> filter_ctx \<times> nat option" where
  "valid_utf8_prefix_len ctx combined end_of_stream =
     (case from_utf8 combined of
        Utf8_Ok \<Rightarrow> (ctx, Some (length combined))
      | Utf8_Err valid None \<Rightarrow>
          if end_of_stream then (ctx, None)
          else
            (let tail = drop valid combined
             in if length tail > 3 then (ctx, None)
                else (set_metadata UTF8_BUFFER_KEY (encode_hex_bytes tail) ctx, Some valid))
      | Utf8_Err _ (Some _) \<Rightarrow> (ctx, None))"

definition passthrough_with_line_buffer :: "filter_ctx \<Rightarrow> bytes \<Rightarrow> filter_ctx \<times> bytes" where
  "passthrough_with_line_buffer ctx bs =
     (case get_metadata ctx LINE_BUFFER_KEY of
        None \<Rightarrow> (ctx, bs)
      | Some buffer \<Rightarrow> (remove_metadata LINE_BUFFER_KEY ctx, buffer @ bs))"

definition decode_and_process_chunk ::
  "externals \<Rightarrow> nat \<Rightarrow> filter_ctx \<Rightarrow> bytes \<Rightarrow> bool \<Rightarrow> nat
    \<Rightarrow> (filter_ctx \<times> (filter_error + bytes option)) option" where
  "decode_and_process_chunk ext nanos ctx bs end_of_stream max_partial_event_bytes =
     (let (ctx1, combined) = combine_pending_utf8 ctx bs;
          (ctx2, prefix_len) = valid_utf8_prefix_len ctx1 combined end_of_stream
      in case prefix_len of
           None \<Rightarrow>
             (let (ctx3, out) = passthrough_with_line_buffer ctx2 combined in Some (ctx3, Inr (Some out)))
         | Some prefix_end \<Rightarrow>
             (let chunk_str = take prefix_end combined
              in if chunk_str = [] \<and> \<not> end_of_stream then Some (ctx2, Inr None)
                 else map_option (\<lambda>(ctx3, r). (ctx3, map_sum id Some r))
                        (process_sse_chunk ext nanos ctx2 chunk_str end_of_stream max_partial_event_bytes)))"

section \<open>The filter\<close>

definition is_armed :: "filter_ctx \<Rightarrow> bool" where
  "is_armed ctx \<longleftrightarrow> meta_true ctx ARMED_KEY"

definition is_streaming_request :: "filter_ctx \<Rightarrow> bool" where
  "is_streaming_request ctx \<longleftrightarrow>
     meta_true ctx ''anthropic_messages_format.stream'' \<or>
     meta_true ctx ''anthropic_to_openai.streaming''"

definition response_is_sse :: "externals \<Rightarrow> filter_ctx \<Rightarrow> bool" where
  "response_is_sse ext ctx =
     (case Option.bind (Option.bind (response_header ctx) (\<lambda>r. resp_headers r ''content-type''))
             (header_text ext) of
        None \<Rightarrow> False | Some ct \<Rightarrow> is_event_stream_content_type ct)"

definition should_arm :: "externals \<Rightarrow> filter_ctx \<Rightarrow> bool" where
  "should_arm ext ctx =
     (if \<not> is_streaming_request ctx then False
      else if \<not> response_is_sse ext ctx then False
      else (case response_header ctx of None \<Rightarrow> True | Some r \<Rightarrow> is_success ext (status r)))"

definition on_response :: "externals \<Rightarrow> filter_ctx \<Rightarrow> filter_ctx \<times> filter_action" where
  "on_response ext ctx =
     (if \<not> should_arm ext ctx then (ctx, Continue)
      else
        (let ctx1 = set_metadata ARMED_KEY ''true'' ctx
         in ((case response_header ctx1 of
                None \<Rightarrow> ctx1
              | Some resp \<Rightarrow>
                  ctx1\<lparr>response_header :=
                         Some (resp\<lparr>resp_headers :=
                           (resp_headers resp)(''content-length'' := None,
                              ''content-type'' \<mapsto> ''text/event-stream'')\<rparr>),
                       response_headers_modified := True\<rparr>),
             Continue)))"

text \<open>\<open>on_response_body\<close>: the new context, the new body, and the action or the error.\<close>

definition on_response_body ::
  "externals \<Rightarrow> nat \<Rightarrow> nat \<Rightarrow> filter_ctx \<Rightarrow> bytes option \<Rightarrow> bool
    \<Rightarrow> (filter_ctx \<times> bytes option \<times> (filter_error + filter_action)) option" where
  "on_response_body ext nanos max_partial_event_bytes ctx body end_of_stream =
     (if \<not> is_armed ctx then Some (ctx, body, Inr Continue)
      else
        (case body of
           None \<Rightarrow>
             (if end_of_stream then
                map_option
                  (\<lambda>(ctx1, r). case r of
                     Inl e \<Rightarrow> (ctx1, None, Inl e)
                   | Inr out \<Rightarrow> (ctx1, (if unwrap_or [] out \<noteq> [] then Some (unwrap_or [] out) else None),
                                Inr Continue))
                  (decode_and_process_chunk ext nanos ctx [] True max_partial_event_bytes)
              else Some (ctx, None, Inr Continue))
         | Some bs \<Rightarrow>
             map_option
               (\<lambda>(ctx1, r). case r of
                  Inl e \<Rightarrow> (ctx1, Some bs, Inl e)
                | Inr None \<Rightarrow> (ctx1, Some [], Inr Continue)
                | Inr (Some out) \<Rightarrow> (ctx1, Some out, Inr Continue))
               (decode_and_process_chunk ext nanos ctx bs end_of_stream max_partial_event_bytes)))"

section \<open>Configuration\<close>

definition validate_max_partial_event_bytes :: "nat \<Rightarrow> nat \<Rightarrow> filter_error + unit" where
  "validate_max_partial_event_bytes max_json_body_bytes v =
     (if v = 0 then Inl ''anthropic_stream_events: 'max_partial_event_bytes' must be greater than 0''
      else if v > max_json_body_bytes then
        Inl (''anthropic_stream_events: max_partial_event_bytes ('' @ show_nat v @
             '') exceeds maximum ('' @ show_nat max_json_body_bytes @ '')'')
      else Inr ())"

definition stream_events_build_config :: "nat \<Rightarrow> nat \<Rightarrow> filter_error + nat" where
  "stream_events_build_config max_json_body_bytes max_partial_event_bytes =
     and_then (validate_max_partial_event_bytes max_json_body_bytes max_partial_event_bytes)
       (\<lambda>_. Inr max_partial_event_bytes)"

end
