(* ===== verification/Messages_Format.thy ===== *)
theory Messages_Format
  imports Classifier Praxis Anthropic_Stream
begin

text \<open>
  The Anthropic front filters: the format classifier (\<open>apis/src/anthropic/messages_format\<close>), the
  envelope check (\<open>apis/src/anthropic/validate\<close>) and the version header for native backends
  (\<open>apis/src/anthropic/protocol\<close>).
\<close>

section \<open>Format classifier\<close>

record messages_format_headers =
  mf_format :: "str option"
  mf_model :: "str option"
  mf_stream :: "str option"

definition default_messages_format_headers :: messages_format_headers where
  "default_messages_format_headers =
     \<lparr>mf_format = Some ''x-praxis-ai-format'', mf_model = Some ''x-praxis-ai-model'',
      mf_stream = Some ''x-praxis-ai-stream''\<rparr>"

record messages_format_config =
  mf_on_invalid :: on_invalid_behavior
  mf_max_body_bytes :: nat
  mf_headers :: messages_format_headers

definition messages_format_build_config ::
  "praxis \<Rightarrow> messages_format_config \<Rightarrow> filter_error + messages_format_config" where
  "messages_format_build_config px cfg =
     and_then (check_max_body_bytes px ''anthropic_messages_format'' (mf_max_body_bytes cfg)) (\<lambda>_.
     and_then (check_header_name px ''anthropic_messages_format'' ''format'' (mf_format (mf_headers cfg))) (\<lambda>_.
     and_then (check_header_name px ''anthropic_messages_format'' ''model'' (mf_model (mf_headers cfg))) (\<lambda>_.
     and_then (check_header_name px ''anthropic_messages_format'' ''stream'' (mf_stream (mf_headers cfg))) (\<lambda>_.
       Inr cfg))))"

definition MF_MAX_PROMOTED_VALUE_LEN :: nat where "MF_MAX_PROMOTED_VALUE_LEN = 256"

definition ANTHROPIC_VERSION_HEADER :: str where "ANTHROPIC_VERSION_HEADER = ''anthropic-version''"

definition is_anthropic_messages_path :: "str \<Rightarrow> bool" where
  "is_anthropic_messages_path path \<longleftrightarrow> unwrap_or path (strip_suffix ''/'' path) = ''/v1/messages''"

text \<open>The messages hold no character that JSON escapes, so the template is the JSON text.\<close>

definition mf_handle_invalid_format :: "ai_request_format \<Rightarrow> messages_format_config \<Rightarrow> filter_action option" where
  "mf_handle_invalid_format format config =
     (case mf_on_invalid config of
        Invalid_continue \<Rightarrow> None
      | _ \<Rightarrow>
          map_option
            (\<lambda>message. Reject
               \<lparr>rej_status = 400, rej_headers = [(''content-type'', ''application/json'')],
                rej_body = ''{\"error\":{\"message\":\"'' @ message @ ''\",\"type\":\"invalid_request_error\"}}''\<rparr>)
            (case format of
               Invalid_json \<Rightarrow> Some ''invalid JSON body''
             | Non_json \<Rightarrow> Some ''request body is not JSON''
             | Unknown_json \<Rightarrow> Some ''unrecognized AI API format''
             | _ \<Rightarrow> None))"

definition mf_write_metadata :: "praxis \<Rightarrow> classified_request \<Rightarrow> filter_ctx \<Rightarrow> filter_ctx" where
  "mf_write_metadata px c ctx =
     (let ctx1 = set_metadata ''anthropic_messages_format.format'' (format_as_str (c_format c)) ctx;
          ctx2 = when_some (c_model c) (\<lambda>m x. if is_safe_promoted_value px m
                   then set_metadata ''anthropic_messages_format.model'' m x else x) ctx1;
          ctx3 = when_some (c_stream c) (\<lambda>b. set_metadata ''anthropic_messages_format.stream'' (bool_text b)) ctx2;
          ctx4 = when_some (c_max_tokens c)
                   (\<lambda>n. set_metadata ''anthropic_messages_format.max_tokens'' (show_nat (unat n))) ctx3
      in apply_if (has_tools c) (set_metadata ''anthropic_messages_format.has_tools'' ''true'') ctx4)"

definition mf_promote_headers ::
  "praxis \<Rightarrow> classified_request \<Rightarrow> messages_format_config \<Rightarrow> filter_ctx \<Rightarrow> filter_ctx" where
  "mf_promote_headers px c config ctx =
     (let h = mf_headers config;
          ctx1 = when_some (mf_format h) (\<lambda>name. push_header name (format_as_str (c_format c))) ctx;
          ctx2 = when_some (mf_model h) (\<lambda>name. when_some (c_model c) (\<lambda>m x.
                   if is_safe_promoted_value px m \<and> length m \<le> MF_MAX_PROMOTED_VALUE_LEN
                   then push_header name m x else x)) ctx1
      in when_some (mf_stream h) (\<lambda>name. when_some (c_stream c) (\<lambda>b. push_header name (bool_text b))) ctx2)"

definition mf_promote_filter_results ::
  "praxis \<Rightarrow> classified_request \<Rightarrow> filter_ctx \<Rightarrow> filter_ctx \<times> (filter_error + unit)" where
  "mf_promote_filter_results px c ctx =
     run_steps
       [set_result px ''anthropic_messages_format'' ''format'' (format_as_str (c_format c)),
        result_when px ''anthropic_messages_format'' ''model''
          (case c_model c of
             None \<Rightarrow> None
           | Some m \<Rightarrow> if is_safe_promoted_value px m \<and> length m \<le> MF_MAX_PROMOTED_VALUE_LEN then Some m else None),
        result_when px ''anthropic_messages_format'' ''stream'' (map_option bool_text (c_stream c)),
        result_when px ''anthropic_messages_format'' ''max_tokens''
          (map_option (\<lambda>n. show_nat (unat n)) (c_max_tokens c)),
        result_when px ''anthropic_messages_format'' ''has_tools'' (flag_true (has_tools c))]
       (results_entry ''anthropic_messages_format'' ctx)"

text \<open>The classification, boosted by the header and the path.\<close>

definition mf_classified :: "externals \<Rightarrow> filter_ctx \<Rightarrow> bytes \<Rightarrow> classified_request" where
  "mf_classified ext ctx bs =
     (let classified = classify_request_body ext bs;
          has_anthropic_header = (request_headers ctx ANTHROPIC_VERSION_HEADER \<noteq> None);
          is_messages_path = is_anthropic_messages_path (req_path ctx)
      in if c_format classified = Chat_completions \<and> (has_anthropic_header \<or> is_messages_path)
         then classified\<lparr>c_format := Anthropic_messages\<rparr> else classified)"

definition mf_on_request_body ::
  "externals \<Rightarrow> praxis \<Rightarrow> messages_format_config \<Rightarrow> filter_ctx \<Rightarrow> bytes option \<Rightarrow> bool
    \<Rightarrow> filter_ctx \<times> (filter_error + filter_action)" where
  "mf_on_request_body ext px config ctx body end_of_stream =
     (if \<not> end_of_stream then (ctx, Inr Continue)
      else
        (let classified = mf_classified ext ctx (unwrap_or [] body)
         in case mf_handle_invalid_format (c_format classified) config of
              Some action \<Rightarrow> (ctx, Inr action)
            | None \<Rightarrow>
                (let ctx1 = mf_write_metadata px classified ctx;
                     ctx2 = mf_promote_headers px classified config ctx1
                 in case mf_promote_filter_results px classified ctx2 of
                      (ctx3, Inl e) \<Rightarrow> (ctx3, Inl e)
                    | (ctx3, Inr _) \<Rightarrow> (ctx3, Inr Release))))"

section \<open>Envelope check\<close>

definition anthropic_validate_build_config :: "praxis \<Rightarrow> nat \<Rightarrow> filter_error + nat" where
  "anthropic_validate_build_config px max_body_bytes =
     and_then (check_max_body_bytes px ''anthropic_validate'' max_body_bytes) (\<lambda>_. Inr max_body_bytes)"

definition anthropic_reject :: "externals \<Rightarrow> str \<Rightarrow> rejection" where
  "anthropic_reject ext message =
     \<lparr>rej_status = 400, rej_headers = [(''content-type'', ''application/json'')],
      rej_body = text_or_default ext (jobj [(''error'', jobj [(''message'', JString message),
                   (''type'', JString ''invalid_request_error'')])])\<rparr>"

definition anthropic_validate_request :: "externals \<Rightarrow> bytes \<Rightarrow> rejection option" where
  "anthropic_validate_request ext body =
     (case from_slice ext body of
        Inl _ \<Rightarrow> Some (anthropic_reject ext ''request body is not valid JSON'')
      | Inr value \<Rightarrow>
          if \<not> is_object value then Some (anthropic_reject ext ''request body is not a JSON object'') else None)"

definition anthropic_validate_on_request_body ::
  "externals \<Rightarrow> bytes option \<Rightarrow> bool \<Rightarrow> filter_action" where
  "anthropic_validate_on_request_body ext body end_of_stream =
     (if \<not> end_of_stream then Continue
      else
        (case body of
           None \<Rightarrow> Reject (anthropic_reject ext ''request body is required'')
         | Some bs \<Rightarrow>
             if bs = [] then Reject (anthropic_reject ext ''request body is required'')
             else (case anthropic_validate_request ext bs of
                     Some rejection \<Rightarrow> Reject rejection
                   | None \<Rightarrow> Continue)))"

section \<open>Version header\<close>

text \<open>\<open>header_value\<close> is \<open>HeaderValue::from_str\<close> with its error as text.\<close>

definition protocol_build_config :: "(str \<Rightarrow> str + unit) \<Rightarrow> str \<Rightarrow> filter_error + str" where
  "protocol_build_config header_value default_version =
     (if default_version = [] then Inl ''anthropic_messages_protocol: 'default_version' must not be empty''
      else
        (case header_value default_version of
           Inl e \<Rightarrow> Inl (''anthropic_messages_protocol: 'default_version' must be a valid header value: '' @ e)
         | Inr _ \<Rightarrow> Inr default_version))"

definition protocol_on_request :: "str \<Rightarrow> filter_ctx \<Rightarrow> filter_ctx \<times> filter_action" where
  "protocol_on_request default_version ctx =
     (let has_version = (request_headers ctx ANTHROPIC_VERSION_HEADER \<noteq> None)
      in (if \<not> has_version then push_header ANTHROPIC_VERSION_HEADER default_version ctx else ctx, Continue))"

section \<open>What the classifier leaves behind\<close>

lemma mf_results_metadata [simp]:
  "get_metadata (fst (mf_promote_filter_results px c ctx)) j = get_metadata ctx j"
  unfolding mf_promote_filter_results_def
  by (subst run_steps_keeps [where P = "\<lambda>c. get_metadata c j"]) auto

lemma mf_headers_metadata [simp]:
  "get_metadata (mf_promote_headers px c config ctx) j = get_metadata ctx j"
  by (simp add: mf_promote_headers_def Let_def when_some_def split: option.split)

lemma mf_metadata:
  assumes "mf_on_request_body ext px config ctx body True = (ctx', Inr Release)"
  shows "get_metadata ctx' ''anthropic_messages_format.format'' =
      Some (format_as_str (c_format (mf_classified ext ctx (unwrap_or [] body))))"
    and "get_metadata ctx' ''anthropic_messages_format.stream'' =
      (case c_stream (classify_request_body ext (unwrap_or [] body)) of
         Some b \<Rightarrow> Some (bool_text b) | None \<Rightarrow> get_metadata ctx ''anthropic_messages_format.stream'')"
proof -
  define c where "c = mf_classified ext ctx (unwrap_or [] body)"
  have "mf_handle_invalid_format (c_format c) config = None"
    using assms by (auto simp: mf_on_request_body_def Let_def c_def [symmetric]
        mf_handle_invalid_format_def split: option.splits on_invalid_behavior.splits)
  with assms have "ctx' = fst (mf_promote_filter_results px c (mf_promote_headers px c config (mf_write_metadata px c ctx)))"
    by (auto simp: mf_on_request_body_def Let_def c_def [symmetric] split: prod.splits sum.splits)
  then have m: "get_metadata ctx' k = get_metadata (mf_write_metadata px c ctx) k" for k by simp
  have s: "c_stream (classify_request_body ext (unwrap_or [] body)) = c_stream c"
    by (simp add: c_def mf_classified_def Let_def)
  show "get_metadata ctx' ''anthropic_messages_format.format'' =
      Some (format_as_str (c_format (mf_classified ext ctx (unwrap_or [] body))))"
    unfolding m c_def [symmetric]
    by (simp add: mf_write_metadata_def Let_def when_some_metadata when_some_model split: option.split)
  show "get_metadata ctx' ''anthropic_messages_format.stream'' =
      (case c_stream (classify_request_body ext (unwrap_or [] body)) of
         Some b \<Rightarrow> Some (bool_text b) | None \<Rightarrow> get_metadata ctx ''anthropic_messages_format.stream'')"
    unfolding m s
    by (simp add: mf_write_metadata_def Let_def when_some_metadata when_some_model split: option.split)
qed

section \<open>Properties\<close>

text \<open>
  A streaming Messages request is translated as a stream: when the classifier let a body with
  \<open>stream: true\<close> pass and the upstream answers successfully with an event stream, the stream filter
  is armed and the content length of the upstream is dropped.
\<close>

theorem messages_stream_arms:
  assumes "mf_on_request_body ext px config ctx (Some body) True = (ctx1, Inr Release)"
    and "from_slice ext body = Inr (JObject obj)" and "map_of obj ''stream'' = Some (JBool True)" and "body \<noteq> []"
    and "ctx2 = ctx1\<lparr>response_header := Some r\<rparr>" and "is_success ext (status r)" and "response_is_sse ext ctx2"
  shows "is_armed (fst (on_response ext ctx2)) \<and>
    map_option (\<lambda>h. resp_headers h ''content-length'') (response_header (fst (on_response ext ctx2))) = Some None"
proof -
  have "c_stream (classify_request_body ext body) = Some True"
    using assms(2,3,4) by (simp add: classify_request_body_def)
  with mf_metadata(2) [OF assms(1)] have "get_metadata ctx2 ''anthropic_messages_format.stream'' = Some ''true''"
    by (simp add: assms(5) get_metadata_def bool_text_def)
  then show ?thesis
    using assms(5,6,7) by (simp add: on_response_def should_arm_def is_streaming_request_def meta_true_def
        is_armed_def get_metadata_def set_metadata_def)
qed

definition stream_messages_ext :: externals where
  "stream_messages_ext = null_ext\<lparr>from_slice := (\<lambda>_. Inr (JObject [(''stream'', JBool True)]))\<rparr>"

lemma messages_stream_arms_witness:
  "\<exists>ctx1. mf_on_request_body stream_messages_ext open_px \<lparr>mf_on_invalid = Invalid_continue, mf_max_body_bytes = 9,
       mf_headers = default_messages_format_headers\<rparr> empty_ctx (Some ''{}'') True = (ctx1, Inr Release) \<and>
     is_armed (fst (on_response stream_messages_ext (ctx1\<lparr>response_header :=
       Some \<lparr>status = 200, resp_headers = [''content-type'' \<mapsto> ''text/event-stream'']\<rparr>\<rparr>)))"
proof -
  let ?cfg = "\<lparr>mf_on_invalid = Invalid_continue, mf_max_body_bytes = 9, mf_headers = default_messages_format_headers\<rparr>"
  let ?r = "\<lparr>status = 200, resp_headers = [''content-type'' \<mapsto> ''text/event-stream'']\<rparr>"
  have "snd (mf_on_request_body stream_messages_ext open_px ?cfg empty_ctx (Some ''{}'') True) = Inr Release" by code_simp
  then obtain ctx1 where
    one: "mf_on_request_body stream_messages_ext open_px ?cfg empty_ctx (Some ''{}'') True = (ctx1, Inr Release)"
    by (metis prod.collapse)
  have "is_event_stream_content_type ''text/event-stream''" by code_simp
  then have "response_is_sse stream_messages_ext (ctx1\<lparr>response_header := Some ?r\<rparr>)"
    by (simp add: response_is_sse_def stream_messages_ext_def null_ext_def)
  with messages_stream_arms [OF one, of "[(''stream'', JBool True)]" _ ?r] one show ?thesis
    by (simp add: stream_messages_ext_def null_ext_def)
qed

text \<open>
  A known false positive: a Chat Completions request with \<open>max_tokens\<close> whose message content is
  an array of typed parts, as OpenAI's API has it too, is classified as an Anthropic Messages request,
  whatever the parts are, and the flag alone of a \<open>system\<close> key, null or not, does the same.
\<close>

theorem typed_parts_classified_as_anthropic:
  assumes "classify_format obj \<noteq> Responses"
    and "map_of obj ''max_tokens'' \<noteq> None" and "map_of obj ''messages'' = Some (JArray messages)"
    and "jget part ''type'' \<noteq> None" and "JArray (part # parts) \<in> {c. \<exists>m \<in> set messages. jget m ''content'' = Some c} \<or>
      map_of obj ''system'' = Some JNull"
  shows "classify_format obj = Anthropic_messages"
proof -
  have "has_anthropic_signals obj"
    using assms(3,4,5) by (force simp: has_anthropic_signals_def contains_key_def list_ex_iff)
  with assms(1,2,3) show ?thesis by (auto simp: classify_format_def contains_key_def split: if_splits)
qed

lemma typed_parts_classified_as_anthropic_witness:
  "let part = jobj [(''type'', JString ''text''), (''text'', JString ''Hi'')];
       message = jobj [(''role'', JString ''user''), (''content'', JArray [part])]
   in classify_format [(''max_tokens'', JNumber (PosInt 5)), (''messages'', JArray [message]),
        (''model'', JString ''gpt-4o'')] = Anthropic_messages"
proof -
  let ?part = "jobj [(''type'', JString ''text''), (''text'', JString ''Hi'')]"
  let ?message = "jobj [(''role'', JString ''user''), (''content'', JArray [?part])]"
  let ?obj = "[(''max_tokens'', JNumber (PosInt 5)), (''messages'', JArray [?message]), (''model'', JString ''gpt-4o'')]"
  have "classify_format ?obj \<noteq> Responses" by code_simp
  moreover have "jget ?message ''content'' = Some (JArray [?part])" "jget ?part ''type'' \<noteq> None" by code_simp+
  ultimately show ?thesis
    using typed_parts_classified_as_anthropic [of ?obj "[?message]" ?part "[]"] by (simp add: Let_def)
qed

text \<open>
  Every backend request carries an API version: after the protocol filter, either the caller's
  header is there and nothing was added for it, or the configured default was added once; the
  default of an accepted configuration is a non-empty header value.
\<close>

theorem protocol_version_present:
  assumes "protocol_build_config header_value cfg = Inr v"
  shows "(case request_headers ctx ''anthropic-version'' of
      Some _ \<Rightarrow> fst (protocol_on_request v ctx) = ctx
    | None \<Rightarrow> extra_request_headers (fst (protocol_on_request v ctx)) =
        extra_request_headers ctx @ [(''anthropic-version'', v)]) \<and> v \<noteq> [] \<and> header_value v = Inr ()"
  using assms by (auto simp: protocol_build_config_def protocol_on_request_def ANTHROPIC_VERSION_HEADER_def
      push_header_def split: if_splits sum.splits option.split)

lemma protocol_version_present_witness:
  "extra_request_headers (fst (protocol_on_request ''2023-06-01'' empty_ctx)) = [(''anthropic-version'', ''2023-06-01'')]"
proof -
  have "protocol_build_config (\<lambda>_. Inr ()) ''2023-06-01'' = Inr ''2023-06-01''" by (simp add: protocol_build_config_def)
  from protocol_version_present [OF this, of empty_ctx] show ?thesis by (simp add: empty_ctx_def)
qed

end
