(* ===== verification/Anthropic_Protocol.thy ===== *)
theory Anthropic_Protocol
  imports Anthropic_Stream
begin

text \<open>
  What the Anthropic client sees: the events of a translated stream follow the Messages
  protocol (one \<open>message_start\<close>, content blocks one at a time with consecutive indices, one
  \<open>message_delta\<close> and \<open>message_stop\<close>), provided the upstream never goes back from a tool call
  to text and names a call before it sends its arguments; and what happens when it does not.
\<close>

section \<open>The state in the metadata\<close>

lemma stream_keys_distinct [simp]:
  "LINE_BUFFER_KEY \<noteq> STREAM_STATE_KEY" "LINE_BUFFER_KEY \<noteq> TEXT_BLOCK_OPEN_KEY" "LINE_BUFFER_KEY \<noteq> TOOL_BLOCK_OPEN_KEY" "LINE_BUFFER_KEY \<noteq> FINISH_REASON_KEY" "LINE_BUFFER_KEY \<noteq> OUTPUT_TOKENS_KEY" "LINE_BUFFER_KEY \<noteq> BLOCK_INDEX_KEY" "LINE_BUFFER_KEY \<noteq> UTF8_BUFFER_KEY" "LINE_BUFFER_KEY \<noteq> ARMED_KEY"
  "STREAM_STATE_KEY \<noteq> LINE_BUFFER_KEY" "STREAM_STATE_KEY \<noteq> TEXT_BLOCK_OPEN_KEY" "STREAM_STATE_KEY \<noteq> TOOL_BLOCK_OPEN_KEY" "STREAM_STATE_KEY \<noteq> FINISH_REASON_KEY" "STREAM_STATE_KEY \<noteq> OUTPUT_TOKENS_KEY" "STREAM_STATE_KEY \<noteq> BLOCK_INDEX_KEY" "STREAM_STATE_KEY \<noteq> UTF8_BUFFER_KEY" "STREAM_STATE_KEY \<noteq> ARMED_KEY"
  "TEXT_BLOCK_OPEN_KEY \<noteq> LINE_BUFFER_KEY" "TEXT_BLOCK_OPEN_KEY \<noteq> STREAM_STATE_KEY" "TEXT_BLOCK_OPEN_KEY \<noteq> TOOL_BLOCK_OPEN_KEY" "TEXT_BLOCK_OPEN_KEY \<noteq> FINISH_REASON_KEY" "TEXT_BLOCK_OPEN_KEY \<noteq> OUTPUT_TOKENS_KEY" "TEXT_BLOCK_OPEN_KEY \<noteq> BLOCK_INDEX_KEY" "TEXT_BLOCK_OPEN_KEY \<noteq> UTF8_BUFFER_KEY" "TEXT_BLOCK_OPEN_KEY \<noteq> ARMED_KEY"
  "TOOL_BLOCK_OPEN_KEY \<noteq> LINE_BUFFER_KEY" "TOOL_BLOCK_OPEN_KEY \<noteq> STREAM_STATE_KEY" "TOOL_BLOCK_OPEN_KEY \<noteq> TEXT_BLOCK_OPEN_KEY" "TOOL_BLOCK_OPEN_KEY \<noteq> FINISH_REASON_KEY" "TOOL_BLOCK_OPEN_KEY \<noteq> OUTPUT_TOKENS_KEY" "TOOL_BLOCK_OPEN_KEY \<noteq> BLOCK_INDEX_KEY" "TOOL_BLOCK_OPEN_KEY \<noteq> UTF8_BUFFER_KEY" "TOOL_BLOCK_OPEN_KEY \<noteq> ARMED_KEY"
  "FINISH_REASON_KEY \<noteq> LINE_BUFFER_KEY" "FINISH_REASON_KEY \<noteq> STREAM_STATE_KEY" "FINISH_REASON_KEY \<noteq> TEXT_BLOCK_OPEN_KEY" "FINISH_REASON_KEY \<noteq> TOOL_BLOCK_OPEN_KEY" "FINISH_REASON_KEY \<noteq> OUTPUT_TOKENS_KEY" "FINISH_REASON_KEY \<noteq> BLOCK_INDEX_KEY" "FINISH_REASON_KEY \<noteq> UTF8_BUFFER_KEY" "FINISH_REASON_KEY \<noteq> ARMED_KEY"
  "OUTPUT_TOKENS_KEY \<noteq> LINE_BUFFER_KEY" "OUTPUT_TOKENS_KEY \<noteq> STREAM_STATE_KEY" "OUTPUT_TOKENS_KEY \<noteq> TEXT_BLOCK_OPEN_KEY" "OUTPUT_TOKENS_KEY \<noteq> TOOL_BLOCK_OPEN_KEY" "OUTPUT_TOKENS_KEY \<noteq> FINISH_REASON_KEY" "OUTPUT_TOKENS_KEY \<noteq> BLOCK_INDEX_KEY" "OUTPUT_TOKENS_KEY \<noteq> UTF8_BUFFER_KEY" "OUTPUT_TOKENS_KEY \<noteq> ARMED_KEY"
  "BLOCK_INDEX_KEY \<noteq> LINE_BUFFER_KEY" "BLOCK_INDEX_KEY \<noteq> STREAM_STATE_KEY" "BLOCK_INDEX_KEY \<noteq> TEXT_BLOCK_OPEN_KEY" "BLOCK_INDEX_KEY \<noteq> TOOL_BLOCK_OPEN_KEY" "BLOCK_INDEX_KEY \<noteq> FINISH_REASON_KEY" "BLOCK_INDEX_KEY \<noteq> OUTPUT_TOKENS_KEY" "BLOCK_INDEX_KEY \<noteq> UTF8_BUFFER_KEY" "BLOCK_INDEX_KEY \<noteq> ARMED_KEY"
  "UTF8_BUFFER_KEY \<noteq> LINE_BUFFER_KEY" "UTF8_BUFFER_KEY \<noteq> STREAM_STATE_KEY" "UTF8_BUFFER_KEY \<noteq> TEXT_BLOCK_OPEN_KEY" "UTF8_BUFFER_KEY \<noteq> TOOL_BLOCK_OPEN_KEY" "UTF8_BUFFER_KEY \<noteq> FINISH_REASON_KEY" "UTF8_BUFFER_KEY \<noteq> OUTPUT_TOKENS_KEY" "UTF8_BUFFER_KEY \<noteq> BLOCK_INDEX_KEY" "UTF8_BUFFER_KEY \<noteq> ARMED_KEY"
  "ARMED_KEY \<noteq> LINE_BUFFER_KEY" "ARMED_KEY \<noteq> STREAM_STATE_KEY" "ARMED_KEY \<noteq> TEXT_BLOCK_OPEN_KEY" "ARMED_KEY \<noteq> TOOL_BLOCK_OPEN_KEY" "ARMED_KEY \<noteq> FINISH_REASON_KEY" "ARMED_KEY \<noteq> OUTPUT_TOKENS_KEY" "ARMED_KEY \<noteq> BLOCK_INDEX_KEY" "ARMED_KEY \<noteq> UTF8_BUFFER_KEY"
  by (simp_all add: stream_keys)

definition is_started :: "filter_ctx \<Rightarrow> bool" where
  "is_started ctx \<longleftrightarrow> get_metadata ctx STREAM_STATE_KEY = Some STREAM_STATE_STARTED"

lemma block_view_set [simp]:
  "is_text_block_open (set_metadata k v ctx) =
     (if k = TEXT_BLOCK_OPEN_KEY then v = ''true'' else is_text_block_open ctx)"
  "is_tool_block_open (set_metadata k v ctx) =
     (if k = TOOL_BLOCK_OPEN_KEY then v = ''true'' else is_tool_block_open ctx)"
  "is_started (set_metadata k v ctx) =
     (if k = STREAM_STATE_KEY then v = STREAM_STATE_STARTED else is_started ctx)"
  by (auto simp: is_text_block_open_def is_tool_block_open_def is_started_def meta_true_def)

lemma block_index_set [simp]:
  "k \<noteq> BLOCK_INDEX_KEY \<Longrightarrow> get_block_index (set_metadata k v ctx) = get_block_index ctx"
  "n < 2 ^ 32 \<Longrightarrow> get_block_index (set_metadata BLOCK_INDEX_KEY (show_nat n) ctx) = n"
  by (auto simp: get_block_index_def parse_uint_show_nat)

lemma get_block_index_bound: "get_block_index ctx < 2 ^ 32"
  by (auto simp: get_block_index_def dest: parse_uint_bound split: Option.bind_splits option.splits
      simp: unwrap_or_def)

lemma increment_block_index_Some:
  "increment_block_index ctx = Some ctx' \<Longrightarrow>
     get_block_index ctx' = get_block_index ctx + 1 \<and>
     is_text_block_open ctx' = is_text_block_open ctx \<and>
     is_tool_block_open ctx' = is_tool_block_open ctx \<and> is_started ctx' = is_started ctx"
  by (auto simp: increment_block_index_def Let_def split: if_splits)

section \<open>The protocol\<close>

datatype proto_event =
  MsgStart | BlockStart nat | BlockDelta nat | BlockStop nat | MsgDelta | MsgStop | OtherEvent

definition event_index :: "json \<Rightarrow> nat" where
  "event_index d = unwrap_or 0 (map_option unat (get_u64 d ''index''))"

definition proto_of :: "out_event \<Rightarrow> proto_event" where
  "proto_of e =
     (let t = fst e; i = event_index (snd e) in
      if t = ''message_start'' then MsgStart
      else if t = ''content_block_start'' then BlockStart i
      else if t = ''content_block_delta'' then BlockDelta i
      else if t = ''content_block_stop'' then BlockStop i
      else if t = ''message_delta'' then MsgDelta
      else if t = ''message_stop'' then MsgStop
      else OtherEvent)"

text \<open>Before the message, inside it (open block, next index), after \<open>message_delta\<close>, after it.\<close>

datatype proto_state = Before | Inside "nat option" nat | Closing | Finished

fun proto_step :: "proto_event \<Rightarrow> proto_state \<Rightarrow> proto_state option" where
  "proto_step MsgStart Before = Some (Inside None 0)"
| "proto_step (BlockStart i) (Inside None n) = (if i = n then Some (Inside (Some i) n) else None)"
| "proto_step (BlockDelta i) (Inside (Some j) n) = (if i = j then Some (Inside (Some j) n) else None)"
| "proto_step (BlockStop i) (Inside (Some j) n) = (if i = j then Some (Inside None (n + 1)) else None)"
| "proto_step MsgDelta (Inside None n) = Some Closing"
| "proto_step MsgStop Closing = Some Finished"
| "proto_step _ _ = None"

abbreviation proto_run :: "proto_state \<Rightarrow> out_event list \<Rightarrow> proto_state option" where
  "proto_run p out \<equiv> fold_opt proto_step (map proto_of out) p"

definition proto_view :: "filter_ctx \<Rightarrow> proto_state" where
  "proto_view ctx =
     (if is_started ctx
      then Inside (if is_text_block_open ctx \<or> is_tool_block_open ctx
                   then Some (get_block_index ctx) else None) (get_block_index ctx)
      else Before)"

definition stream_inv :: "filter_ctx \<Rightarrow> bool" where
  "stream_inv ctx \<longleftrightarrow>
     \<not> (is_text_block_open ctx \<and> is_tool_block_open ctx) \<and>
     (\<not> is_started ctx \<longrightarrow>
        \<not> is_text_block_open ctx \<and> \<not> is_tool_block_open ctx \<and> get_block_index ctx = 0)"

text \<open>A step that appends protocol-conforming events and keeps the invariant.\<close>

definition conforms :: "emit_state \<Rightarrow> emit_state \<Rightarrow> bool" where
  "conforms s t \<longleftrightarrow>
     (\<exists>new. snd t = snd s @ new \<and> proto_run (proto_view (fst s)) new = Some (proto_view (fst t))) \<and>
     stream_inv (fst t)"

lemma conforms_refl: "stream_inv (fst s) \<Longrightarrow> conforms s s"
  by (auto simp: conforms_def)

lemma conforms_trans: "conforms s t \<Longrightarrow> conforms t u \<Longrightarrow> conforms s u"
  by (fastforce simp: conforms_def fold_opt_append)

lemma event_index_jobj [simp]:
  "n < 2 ^ 32 \<Longrightarrow> event_index (jobj [(''type'', x), (''index'', jnat n)]) = n"
  "n < 2 ^ 32 \<Longrightarrow> event_index (jobj [(''type'', x), (''index'', jnat n), (''content_block'', y)]) = n"
  "n < 2 ^ 32 \<Longrightarrow> event_index (jobj [(''type'', x), (''index'', jnat n), (''delta'', y)]) = n"
  by (simp_all add: event_index_def get_u64_def jget_jobj jnat_def unsigned_of_nat take_bit_nat_eq_self)

lemmas emit_defs = emit_event_def block_stop_def proto_of_def Let_def

section \<open>The operations follow the protocol\<close>

lemma close_text_conforms:
  assumes "close_text_block_if_open s = Some t" and "stream_inv (fst s)" and "is_started (fst s)"
  shows "conforms s t \<and> \<not> is_text_block_open (fst t) \<and>
    is_tool_block_open (fst t) = is_tool_block_open (fst s) \<and> is_started (fst t)"
  using assms get_block_index_bound [of "fst s"]
  by (cases s)
     (auto simp: close_text_block_if_open_def conforms_def emit_defs proto_view_def stream_inv_def
       dest!: increment_block_index_Some split: if_splits)

lemma close_tool_conforms:
  assumes "close_tool_block_if_open s = Some t" and "stream_inv (fst s)" and "is_started (fst s)"
  shows "conforms s t \<and> \<not> is_tool_block_open (fst t) \<and>
    is_text_block_open (fst t) = is_text_block_open (fst s) \<and> is_started (fst t)"
  using assms get_block_index_bound [of "fst s"]
  by (cases s)
     (auto simp: close_tool_block_if_open_def conforms_def emit_defs proto_view_def stream_inv_def
       dest!: increment_block_index_Some split: if_splits)

lemma emit_text_conforms:
  assumes "stream_inv (fst s)" and "is_started (fst s)" and "\<not> is_tool_block_open (fst s)"
  shows "conforms s (emit_text_delta c s) \<and> \<not> is_tool_block_open (fst (emit_text_delta c s)) \<and>
    is_started (fst (emit_text_delta c s))"
  using assms get_block_index_bound [of "fst s"]
  by (cases s)
     (auto simp: emit_text_delta_def conforms_def emit_defs proto_view_def stream_inv_def)

lemma emit_tool_start_conforms:
  assumes "stream_inv (fst s)" and "is_started (fst s)"
    and "\<not> is_tool_block_open (fst s)" and "\<not> is_text_block_open (fst s)"
  shows "conforms s (emit_tool_block_start tc i s) \<and> is_tool_block_open (fst (emit_tool_block_start tc i s)) \<and>
    \<not> is_text_block_open (fst (emit_tool_block_start tc i s)) \<and>
    is_started (fst (emit_tool_block_start tc i s))"
  using assms get_block_index_bound [of "fst s"]
  by (cases s)
     (auto simp: emit_tool_block_start_def conforms_def emit_defs proto_view_def stream_inv_def)

definition tool_args :: "json \<Rightarrow> str" where
  "tool_args tc = unwrap_or [] (Option.bind (jget tc ''function'') (\<lambda>f. get_str f ''arguments''))"

lemma emit_tool_arguments_conforms:
  assumes "stream_inv (fst s)" and "is_started (fst s)" and "tool_args tc \<noteq> [] \<longrightarrow> is_tool_block_open (fst s)"
  shows "conforms s (emit_tool_arguments_delta tc s)" and "fst (emit_tool_arguments_delta tc s) = fst s"
  using assms get_block_index_bound [of "fst s"]
  by (cases s; auto simp: emit_tool_arguments_delta_def conforms_def emit_defs proto_view_def
      tool_args_def split: option.splits)+

section \<open>Upstream order\<close>

text \<open>Arguments of a tool call come after the delta that names the call.\<close>

fun calls_ok :: "bool \<Rightarrow> json list \<Rightarrow> bool" where
  "calls_ok tool_open [] = True"
| "calls_ok tool_open (tc # tcs) =
     ((get_str tc ''id'' = None \<and> tool_args tc \<noteq> [] \<longrightarrow> tool_open) \<and>
      calls_ok (tool_open \<or> get_str tc ''id'' \<noteq> None) tcs)"

lemma transform_tool_delta_conforms:
  assumes "transform_tool_delta tc s = Some t" and "stream_inv (fst s)" and "is_started (fst s)"
    and "\<not> is_text_block_open (fst s)" and "calls_ok (is_tool_block_open (fst s)) [tc]"
  shows "conforms s t \<and> is_started (fst t) \<and> \<not> is_text_block_open (fst t) \<and>
    is_tool_block_open (fst t) = (is_tool_block_open (fst s) \<or> get_str tc ''id'' \<noteq> None)"
proof (cases "get_str tc ''id''")
  case None
  with assms emit_tool_arguments_conforms [of s tc] show ?thesis
    by (auto simp: transform_tool_delta_def)
next
  case (Some i)
  with assms(1) obtain u where u: "close_tool_block_if_open s = Some u" and
    t: "t = emit_tool_arguments_delta tc (emit_tool_block_start tc i u)"
    by (auto simp: transform_tool_delta_def)
  let ?v = "emit_tool_block_start tc i u"
  from close_tool_conforms [OF u assms(2,3)] assms(4) have
    su: "conforms s u" "\<not> is_tool_block_open (fst u)" "\<not> is_text_block_open (fst u)" "is_started (fst u)"
    by auto
  then have "stream_inv (fst u)" by (simp add: conforms_def)
  note uv = emit_tool_start_conforms [OF this su(4,2,3), of tc i]
  then have "stream_inv (fst ?v)" by (simp add: conforms_def)
  from emit_tool_arguments_conforms [OF this, of tc] uv have
    "conforms ?v t" "fst t = fst ?v" by (auto simp: t)
  with su uv Some show ?thesis by (auto intro: conforms_trans)
qed

lemma fold_tool_deltas_conforms:
  assumes "fold_opt transform_tool_delta tcs s = Some t" and "stream_inv (fst s)" and "is_started (fst s)"
    and "\<not> is_text_block_open (fst s)" and "calls_ok (is_tool_block_open (fst s)) tcs"
  shows "conforms s t \<and> is_started (fst t) \<and> \<not> is_text_block_open (fst t) \<and>
    is_tool_block_open (fst t) =
      (is_tool_block_open (fst s) \<or> (\<exists>tc \<in> set tcs. get_str tc ''id'' \<noteq> None))"
  using assms
proof (induction tcs arbitrary: s)
  case Nil
  then show ?case by (simp add: conforms_refl)
next
  case (Cons tc tcs)
  from Cons.prems(1) obtain u where u: "transform_tool_delta tc s = Some u" and
    f: "fold_opt transform_tool_delta tcs u = Some t"
    by (auto simp: bind_eq_Some_conv)
  from transform_tool_delta_conforms [OF u] Cons.prems have
    su: "conforms s u" "is_started (fst u)" "\<not> is_text_block_open (fst u)"
      "is_tool_block_open (fst u) = (is_tool_block_open (fst s) \<or> get_str tc ''id'' \<noteq> None)" by auto
  then have "stream_inv (fst u)" by (simp add: conforms_def)
  from Cons.IH [OF f this] su Cons.prems(5) show ?case
    by (auto intro: conforms_trans)
qed

section \<open>Chunks\<close>

definition chunk_delta :: "json \<Rightarrow> json option" where
  "chunk_delta chunk = Option.bind (extract_first_choice chunk) (\<lambda>c. jget c ''delta'')"

definition delta_text :: "json \<Rightarrow> str option" where
  "delta_text chunk = Option.bind (chunk_delta chunk) (\<lambda>d. get_str d ''content'')"

definition delta_calls :: "json \<Rightarrow> json list" where
  "delta_calls chunk = unwrap_or [] (Option.bind (chunk_delta chunk) (\<lambda>d. get_array d ''tool_calls''))"

definition names_call :: "json \<Rightarrow> bool" where
  "names_call chunk \<longleftrightarrow> (\<exists>tc \<in> set (delta_calls chunk). get_str tc ''id'' \<noteq> None)"

text \<open>No text once a tool call has begun; \<open>tool_open\<close> says that one has.\<close>

fun in_order :: "bool \<Rightarrow> json list \<Rightarrow> bool" where
  "in_order tool_open [] = True"
| "in_order tool_open (c # cs) =
     ((delta_text c \<noteq> None \<longrightarrow> \<not> tool_open) \<and> calls_ok tool_open (delta_calls c) \<and>
      in_order (tool_open \<or> names_call c) cs)"

text \<open>What a chunk records besides its events: the finish reason and the token count.\<close>

definition chunk_start :: "nat \<Rightarrow> json \<Rightarrow> emit_state \<Rightarrow> emit_state" where
  "chunk_start n c s = (if is_started (fst s) then s else emit_message_start n c s)"

definition annotate :: "json \<Rightarrow> filter_ctx \<Rightarrow> filter_ctx" where
  "annotate c ctx =
     (let ctx1 = (case Option.bind (extract_first_choice c) (\<lambda>x. get_str x ''finish_reason'') of
                    None \<Rightarrow> ctx | Some reason \<Rightarrow> set_metadata FINISH_REASON_KEY reason ctx)
      in case Option.bind (jget c ''usage'') (\<lambda>u. get_u64 u ''completion_tokens'') of
           None \<Rightarrow> ctx1
         | Some ot \<Rightarrow> set_metadata OUTPUT_TOKENS_KEY (show_nat (unat ot)) ctx1)"

lemma transform_chunk_eq:
  "transform_chunk n c s =
     map_option (\<lambda>u. (annotate c (fst u), snd u))
       (case chunk_delta c of None \<Rightarrow> Some (chunk_start n c s)
        | Some d \<Rightarrow> transform_delta d (chunk_start n c s))"
proof -
  have pull: "map_option (\<lambda>(ctx, output). (h ctx, output)) x = map_option (\<lambda>u. (h (fst u), snd u)) x"
    for h :: "filter_ctx \<Rightarrow> filter_ctx" and x :: "emit_state option"
    by (simp add: case_prod_unfold)
  show ?thesis
  proof (cases "extract_first_choice c")
    case None
    show ?thesis
      unfolding transform_chunk_def pull Let_def chunk_delta_def annotate_def None bind.bind_lzero option.case(1)
      by (simp add: chunk_start_def is_started_def)
  next
    case (Some a)
    show ?thesis
      unfolding transform_chunk_def pull Let_def chunk_delta_def annotate_def Some option.case(2) bind.bind_lunit
      by (cases "get_str a ''finish_reason''"; cases "jget a ''delta''")
        (simp_all add: chunk_start_def is_started_def option.map_comp comp_def cong: option.case_cong)
  qed
qed

lemma annotate_view [simp]:
  "proto_view (annotate c ctx) = proto_view ctx" "stream_inv (annotate c ctx) = stream_inv ctx"
  "is_started (annotate c ctx) = is_started ctx"
  "is_tool_block_open (annotate c ctx) = is_tool_block_open ctx"
  "get_block_index (annotate c ctx) = get_block_index ctx"
  by (simp_all add: annotate_def Let_def proto_view_def stream_inv_def split: option.split)

lemma transform_delta_conforms:
  assumes "transform_delta d s = Some t" and "stream_inv (fst s)" and "is_started (fst s)"
    and "get_str d ''content'' \<noteq> None \<longrightarrow> \<not> is_tool_block_open (fst s)"
    and "calls_ok (is_tool_block_open (fst s)) (unwrap_or [] (get_array d ''tool_calls''))"
  shows "conforms s t \<and> is_started (fst t) \<and> is_tool_block_open (fst t) =
    (is_tool_block_open (fst s) \<or>
     (\<exists>tc \<in> set (unwrap_or [] (get_array d ''tool_calls'')). get_str tc ''id'' \<noteq> None))"
proof -
  define s1 where "s1 = (case get_str d ''content'' of None \<Rightarrow> s | Some c \<Rightarrow> emit_text_delta c s)"
  have s1: "conforms s s1" "is_started (fst s1)"
    "is_tool_block_open (fst s1) = is_tool_block_open (fst s)"
    using assms(2-4) emit_text_conforms [of s] conforms_refl [of s]
    by (auto simp: s1_def split: option.split)
  then have inv1: "stream_inv (fst s1)" by (simp add: conforms_def)
  show ?thesis
  proof (cases "get_array d ''tool_calls''")
    case None
    with assms(1) s1 show ?thesis by (simp add: transform_delta_def flip: s1_def)
  next
    case (Some tcs)
    with assms(1) obtain u where
      u: "close_text_block_if_open s1 = Some u" and f: "fold_opt transform_tool_delta tcs u = Some t"
      by (auto simp: transform_delta_def bind_eq_Some_conv simp flip: s1_def)
    from close_text_conforms [OF u inv1 s1(2)] have
      su: "conforms s1 u" "\<not> is_text_block_open (fst u)"
        "is_tool_block_open (fst u) = is_tool_block_open (fst s1)" "is_started (fst u)" by auto
    then have "stream_inv (fst u)" by (simp add: conforms_def)
    from fold_tool_deltas_conforms [OF f this su(4,2)] su s1 assms(5) Some show ?thesis
      by (auto intro: conforms_trans)
  qed
qed

lemma emit_message_start_conforms:
  assumes "stream_inv (fst s)" and "\<not> is_started (fst s)"
  shows "conforms s (emit_message_start n c s) \<and> is_started (fst (emit_message_start n c s)) \<and>
    is_tool_block_open (fst (emit_message_start n c s)) = is_tool_block_open (fst s)"
  using assms
  by (cases s) (auto simp: emit_message_start_def conforms_def emit_defs proto_view_def stream_inv_def)

lemma transform_chunk_conforms:
  assumes "transform_chunk n c s = Some t" and "stream_inv (fst s)"
    and "in_order (is_tool_block_open (fst s)) [c]"
  shows "conforms s t \<and> is_started (fst t) \<and>
    is_tool_block_open (fst t) = (is_tool_block_open (fst s) \<or> names_call c)"
proof -
  define s1 where "s1 = chunk_start n c s"
  have s1: "conforms s s1" "is_started (fst s1)"
    "is_tool_block_open (fst s1) = is_tool_block_open (fst s)"
    using assms(2) emit_message_start_conforms [of s n c] conforms_refl [of s]
    by (auto simp: s1_def chunk_start_def)
  then have inv1: "stream_inv (fst s1)" by (simp add: conforms_def)
  obtain u where u: "(case chunk_delta c of None \<Rightarrow> Some s1 | Some d \<Rightarrow> transform_delta d s1) = Some u" and
    t: "t = (annotate c (fst u), snd u)"
    using assms(1) unfolding transform_chunk_eq s1_def [symmetric] map_option_eq_Some by blast
  have "conforms s1 u \<and> is_started (fst u) \<and>
    is_tool_block_open (fst u) = (is_tool_block_open (fst s1) \<or> names_call c)"
  proof (cases "chunk_delta c")
    case None
    with u s1 inv1 show ?thesis by (auto simp: names_call_def delta_calls_def conforms_refl)
  next
    case (Some d)
    with u have td: "transform_delta d s1 = Some u" by simp
    have "unwrap_or [] (get_array d ''tool_calls'') = delta_calls c"
      "get_str d ''content'' = delta_text c"
      using Some by (simp_all add: delta_calls_def delta_text_def)
    with transform_delta_conforms [OF td inv1 s1(2)] assms(3) s1(3) show ?thesis
      by (auto simp: names_call_def)
  qed
  with s1 t show ?thesis by (auto simp: conforms_def fold_opt_append)
qed

lemma fold_chunks_conforms:
  assumes "fold_opt (transform_chunk n) cs s = Some t" and "stream_inv (fst s)"
    and "in_order (is_tool_block_open (fst s)) cs"
  shows "conforms s t \<and> (cs \<noteq> [] \<longrightarrow> is_started (fst t))"
  using assms
proof (induction cs arbitrary: s)
  case Nil
  then show ?case by (simp add: conforms_refl)
next
  case (Cons c cs)
  from Cons.prems(1) obtain u where u: "transform_chunk n c s = Some u" and
    f: "fold_opt (transform_chunk n) cs u = Some t"
    by (auto simp: bind_eq_Some_conv)
  from transform_chunk_conforms [OF u] Cons.prems have
    su: "conforms s u" "is_started (fst u)"
      "is_tool_block_open (fst u) = (is_tool_block_open (fst s) \<or> names_call c)" by auto
  then have "stream_inv (fst u)" by (simp add: conforms_def)
  from Cons.IH [OF f this] su Cons.prems(3) f show ?case
    by (cases cs) (auto intro: conforms_trans)
qed

lemma emit_done_finishes:
  assumes "emit_done s = Some t" and "stream_inv (fst s)" and "is_started (fst s)"
  shows "\<exists>new. snd t = snd s @ new \<and> proto_run (proto_view (fst s)) new = Some Finished"
proof -
  from assms(1) obtain u where u: "emit_final_block_stop s = Some u" and
    t: "t = (let (ctx, output) = emit_message_delta u
             in (ctx, emit_event ''message_stop'' (jobj [(''type'', JString ''message_stop'')]) output))"
    by (auto simp: emit_done_def)
  have "conforms s u \<and> is_started (fst u) \<and> \<not> is_text_block_open (fst u) \<and> \<not> is_tool_block_open (fst u)"
  proof (cases "is_text_block_open (fst s)")
    case True
    with assms(2) have "\<not> is_tool_block_open (fst s)" by (auto simp: stream_inv_def)
    with u True close_text_conforms [OF _ assms(2,3)] show ?thesis
      by (auto simp: emit_final_block_stop_def bind_eq_Some_conv split: if_splits)
  next
    case False
    with u close_tool_conforms [OF _ assms(2,3)] assms(2,3) show ?thesis
      by (auto simp: emit_final_block_stop_def conforms_refl split: if_splits)
  qed
  then obtain new where new: "snd u = snd s @ new"
    "proto_run (proto_view (fst s)) new = Some (Inside None (get_block_index (fst u)))"
    by (auto simp: conforms_def proto_view_def)
  then show ?thesis
    by (cases u) (auto simp: t emit_message_delta_def emit_defs fold_opt_append)
qed

section \<open>No panic\<close>

text \<open>Every chunk closes at most one text block and one tool block for each call it names.\<close>

definition stream_work :: "json list \<Rightarrow> nat" where
  "stream_work cs = sum_list (map (\<lambda>c. 1 + length (delta_calls c)) cs)"

lemma close_text_index:
  assumes "get_block_index (fst s) + 1 < 2 ^ 32"
  shows "\<exists>t. close_text_block_if_open s = Some t \<and> get_block_index (fst t) \<le> get_block_index (fst s) + 1"
  using assms
  by (cases s) (auto simp: close_text_block_if_open_def increment_block_index_def Let_def)

lemma close_tool_index:
  assumes "get_block_index (fst s) + 1 < 2 ^ 32"
  shows "\<exists>t. close_tool_block_if_open s = Some t \<and> get_block_index (fst t) \<le> get_block_index (fst s) + 1"
  using assms
  by (cases s) (auto simp: close_tool_block_if_open_def increment_block_index_def Let_def)

lemma emit_index [simp]:
  "get_block_index (fst (emit_text_delta c s)) = get_block_index (fst s)"
  "get_block_index (fst (emit_tool_block_start tc i s)) = get_block_index (fst s)"
  "get_block_index (fst (emit_tool_arguments_delta tc s)) = get_block_index (fst s)"
  "get_block_index (fst (emit_message_start n tc s)) = get_block_index (fst s)"
  by (auto simp: emit_text_delta_def emit_tool_block_start_def emit_tool_arguments_delta_def
      emit_message_start_def Let_def split: prod.split option.split)

lemma transform_tool_delta_index:
  assumes "get_block_index (fst s) + 1 < 2 ^ 32"
  shows "\<exists>t. transform_tool_delta tc s = Some t \<and> get_block_index (fst t) \<le> get_block_index (fst s) + 1"
proof -
  from close_tool_index [OF assms] obtain u where
    "close_tool_block_if_open s = Some u" "get_block_index (fst u) \<le> get_block_index (fst s) + 1" by blast
  then show ?thesis
    by (cases "get_str tc ''id''") (simp_all add: transform_tool_delta_def del: split_paired_Ex)
qed

lemma fold_tool_deltas_index:
  assumes "get_block_index (fst s) + length tcs < 2 ^ 32"
  shows "\<exists>t. fold_opt transform_tool_delta tcs s = Some t \<and>
    get_block_index (fst t) \<le> get_block_index (fst s) + length tcs"
  using assms
proof (induction tcs arbitrary: s)
  case Nil
  then show ?case by simp
next
  case (Cons tc tcs)
  from transform_tool_delta_index [of s tc] Cons.prems obtain u where
    u: "transform_tool_delta tc s = Some u" "get_block_index (fst u) \<le> get_block_index (fst s) + 1" by auto
  with Cons.IH [of u] Cons.prems show ?case by (fastforce)
qed

lemma transform_delta_index:
  assumes "get_block_index (fst s) + 1 + length (unwrap_or [] (get_array d ''tool_calls'')) < 2 ^ 32"
  shows "\<exists>t. transform_delta d s = Some t \<and> get_block_index (fst t) \<le>
    get_block_index (fst s) + 1 + length (unwrap_or [] (get_array d ''tool_calls''))"
proof (cases "get_array d ''tool_calls''")
  case None
  then show ?thesis by (auto simp: transform_delta_def split: option.split)
next
  case (Some tcs)
  define s1 where "s1 = (case get_str d ''content'' of None \<Rightarrow> s | Some c \<Rightarrow> emit_text_delta c s)"
  have i1: "get_block_index (fst s1) = get_block_index (fst s)"
    by (simp add: s1_def split: option.split)
  with close_text_index [of s1] assms obtain u where
    u: "close_text_block_if_open s1 = Some u" "get_block_index (fst u) \<le> get_block_index (fst s) + 1" by auto
  with fold_tool_deltas_index [of u tcs] Some assms show ?thesis
    by (fastforce simp: transform_delta_def simp flip: s1_def)
qed

lemma transform_chunk_index:
  assumes "get_block_index (fst s) + stream_work [c] < 2 ^ 32"
  shows "\<exists>t. transform_chunk n c s = Some t \<and>
    get_block_index (fst t) \<le> get_block_index (fst s) + stream_work [c]"
proof -
  define s1 where "s1 = chunk_start n c s"
  have i1: "get_block_index (fst s1) = get_block_index (fst s)" by (simp add: s1_def chunk_start_def)
  have "\<exists>u. (case chunk_delta c of None \<Rightarrow> Some s1 | Some d \<Rightarrow> transform_delta d s1) = Some u \<and>
      get_block_index (fst u) \<le> get_block_index (fst s) + stream_work [c]"
  proof (cases "chunk_delta c")
    case None
    with i1 show ?thesis by (simp del: split_paired_Ex)
  next
    case (Some d)
    with transform_delta_index [of s1 d] assms i1 show ?thesis
      by (simp add: stream_work_def delta_calls_def del: split_paired_Ex)
  qed
  then obtain u where
    "(case chunk_delta c of None \<Rightarrow> Some s1 | Some d \<Rightarrow> transform_delta d s1) = Some u"
    "get_block_index (fst u) \<le> get_block_index (fst s) + stream_work [c]" by blast
  then show ?thesis
    unfolding transform_chunk_eq s1_def [symmetric] by (simp del: split_paired_Ex)
qed

lemma fold_chunks_index:
  assumes "get_block_index (fst s) + stream_work cs < 2 ^ 32"
  shows "\<exists>t. fold_opt (transform_chunk n) cs s = Some t \<and>
    get_block_index (fst t) \<le> get_block_index (fst s) + stream_work cs"
  using assms
proof (induction cs arbitrary: s)
  case Nil
  then show ?case by (simp add: stream_work_def)
next
  case (Cons c cs)
  from transform_chunk_index [of s c n] Cons.prems obtain u where
    u: "transform_chunk n c s = Some u" "get_block_index (fst u) \<le> get_block_index (fst s) + stream_work [c]"
    by (auto simp: stream_work_def)
  with Cons.IH [of u] Cons.prems show ?case by (fastforce simp: stream_work_def)
qed

lemma emit_done_index:
  assumes "get_block_index (fst s) + 2 < 2 ^ 32"
  shows "\<exists>t. emit_done s = Some t"
proof -
  obtain u where u: "(if is_text_block_open (fst s) then close_text_block_if_open s else Some s) = Some u"
    and iu: "get_block_index (fst u) \<le> get_block_index (fst s) + 1"
    using close_text_index [of s] assms by (cases "is_text_block_open (fst s)") auto
  obtain v where "(if is_tool_block_open (fst u) then close_tool_block_if_open u else Some u) = Some v"
    using close_tool_index [of u] assms iu by (cases "is_tool_block_open (fst u)") auto
  with u show ?thesis by (simp add: emit_done_def emit_final_block_stop_def)
qed

section \<open>Properties\<close>

definition new_message :: "filter_ctx \<Rightarrow> bool" where
  "new_message ctx \<longleftrightarrow>
     \<not> is_started ctx \<and> \<not> is_text_block_open ctx \<and> \<not> is_tool_block_open ctx \<and> get_block_index ctx = 0"

lemma new_message_inv: "new_message ctx \<Longrightarrow> stream_inv ctx \<and> proto_view ctx = Before"
  by (simp add: new_message_def stream_inv_def proto_view_def)

text \<open>
  C3. The client sees a well-formed Messages stream: from a request that has sent nothing yet,
  any non-empty sequence of upstream chunks that keeps the order of tool calls, closed by \<open>[DONE]\<close>, is
  translated without a panic into one \<open>message_start\<close>, content blocks that open and close one at a
  time with consecutive indices, one \<open>message_delta\<close> and one \<open>message_stop\<close>. To keep the order means
  two things: no text follows a tool call, and arguments of a tool call come only after (or in) a delta that
  names a call by its id. The chunks and their tool call deltas together are fewer than
  \<open>2 ^ 32 - 2\<close>.
\<close>

theorem anthropic_stream_protocol:
  assumes "new_message ctx" and "cs \<noteq> []" and "in_order False cs" and "stream_work cs + 2 < 2 ^ 32"
  shows "\<exists>ctx' out. Option.bind (fold_opt (transform_chunk n) cs (ctx, [])) emit_done = Some (ctx', out) \<and>
    proto_run Before out = Some Finished"
proof -
  have 0: "get_block_index ctx = 0" "\<not> is_tool_block_open ctx"
    using assms(1) by (simp_all add: new_message_def)
  with fold_chunks_index [of "(ctx, [])" cs n] assms(4) obtain t where
    t: "fold_opt (transform_chunk n) cs (ctx, []) = Some t" "get_block_index (fst t) \<le> stream_work cs"
    by auto
  with emit_done_index [of t] assms(4) obtain u where u: "emit_done t = Some u" by auto
  from fold_chunks_conforms [OF t(1)] new_message_inv [OF assms(1)] assms(2,3) 0 have
    c: "conforms (ctx, []) t" "is_started (fst t)" by auto
  with emit_done_finishes [OF u] new_message_inv [OF assms(1)] have
    "proto_run Before (snd u) = Some Finished"
    by (fastforce simp: conforms_def fold_opt_append)
  with t u show ?thesis by (cases u) simp
qed

definition text_chunk :: "str \<Rightarrow> json" where
  "text_chunk s = jobj [(''choices'', JArray [jobj [(''delta'', jobj [(''content'', JString s)])]])]"

definition call_chunk :: "str \<Rightarrow> json" where
  "call_chunk s = jobj [(''choices'', JArray [jobj [(''delta'',
     jobj [(''tool_calls'', JArray [jobj [(''id'', JString s)]])])]])]"

lemma anthropic_stream_protocol_witness:
  "\<exists>ctx' out. Option.bind (fold_opt (transform_chunk 7) [text_chunk ''Hi'', call_chunk ''c1'', call_chunk ''c2'']
      (empty_ctx, [])) emit_done = Some (ctx', out) \<and> proto_run Before out = Some Finished"
proof (rule anthropic_stream_protocol)
  show "new_message empty_ctx" by code_simp
  show "in_order False [text_chunk ''Hi'', call_chunk ''c1'', call_chunk ''c2'']" by code_simp
  show "stream_work [text_chunk ''Hi'', call_chunk ''c1'', call_chunk ''c2''] + 2 < 2 ^ 32" by code_simp
qed simp

text \<open>
  Both conditions on the order are needed. When text follows a tool call, the open tool block is
  not closed and the text block is started at its index; when arguments come without a call, a delta is
  sent with no block open. The protocol allows neither.
\<close>

theorem anthropic_text_after_tool_call:
  "map_option (\<lambda>s. (map proto_of (snd s), proto_run Before (snd s)))
     (fold_opt (transform_chunk n) [call_chunk ''c1'', text_chunk ''Hi''] (empty_ctx, [])) =
   Some ([MsgStart, BlockStart 0, BlockStart 0, BlockDelta 0], None)"
  by code_simp

definition arguments_chunk :: "str \<Rightarrow> json" where
  "arguments_chunk s = jobj [(''choices'', JArray [jobj [(''delta'',
     jobj [(''tool_calls'', JArray [jobj [(''function'', jobj [(''arguments'', JString s)])]])])]])]"

theorem anthropic_arguments_without_call:
  "map_option (\<lambda>s. (map proto_of (snd s), proto_run Before (snd s)))
     (fold_opt (transform_chunk n) [arguments_chunk ''{}''] (empty_ctx, [])) =
   Some ([MsgStart, BlockDelta 0], None)"
  by code_simp

end
