(* ===== verification/Anthropic_Chunking.thy ===== *)
theory Anthropic_Chunking
  imports Anthropic_Protocol
begin

text \<open>
  Where the upstream cuts its stream does not matter to the Anthropic stream filter: the bytes
  it emits over all calls are those of the whole stream read at once. Three buffers take part:
  the UTF-8 tail, the held back carriage return and the incomplete event.
\<close>

section \<open>Line endings\<close>

lemma strip_crlf:
  "strip_prefix [CR, LF] (c # cs) =
     (if c = CR then (case cs of [] \<Rightarrow> None | d # ds \<Rightarrow> if d = LF then Some ds else None) else None)"
  by (cases cs) simp_all

lemma strip_one: "strip_prefix [d] (c # cs) = (if c = d then Some cs else None)"
  by (cases cs) simp_all

lemma replace_one_Cons:
  "replace_all [d] r (c # cs) = (if c = d then r @ replace_all [d] r cs else c # replace_all [d] r cs)"
  by (simp add: strip_one)

lemma normalize_eq: "normalize_line_endings s = norm_eol s"
  unfolding normalize_line_endings_def
proof (induction s rule: norm_eol.induct)
  case 1
  then show ?case by simp
next
  case (2 c cs)
  show ?case
  proof (cases "c = CR")
    case False
    with 2 show ?thesis by (simp add: strip_crlf replace_one_Cons del: replace_all.simps(2))
        (simp add: strip_crlf replace_one_Cons)
  next
    case True
    show ?thesis
    proof (cases cs)
      case Nil
      with True show ?thesis by (simp add: strip_crlf strip_one)
    next
      case (Cons d ds)
      with 2 True show ?thesis
        by (cases "d = LF") (simp_all add: strip_crlf replace_one_Cons)
    qed
  qed
qed

lemma norm_eol_no_cr: "CR \<notin> set (norm_eol s)"
  by (induction s rule: norm_eol.induct) (auto split: list.split)

lemma length_norm_eol: "length (norm_eol s) \<le> length s"
proof (induction s rule: measure_induct_rule [where f = length])
  case (less s)
  show ?case
  proof (cases s)
    case Nil
    then show ?thesis by simp
  next
    case (Cons b rest)
    with less.IH [of rest] less.IH [of "skip_lf b rest"] length_skip_lf [of b rest] show ?thesis
      by (cases "b = LF \<or> b = CR") (auto simp: norm_eol_break norm_eol_other simp del: norm_eol.simps)
  qed
qed

lemma norm_eol_prefix: "CR \<notin> set r \<Longrightarrow> norm_eol (r @ z) = r @ norm_eol z"
  by (induction r) auto

lemma norm_eol_append:
  "\<not> (x \<noteq> [] \<and> last x = CR \<and> z \<noteq> [] \<and> hd z = LF) \<Longrightarrow> norm_eol (x @ z) = norm_eol x @ norm_eol z"
proof (induction x rule: norm_eol.induct)
  case 1
  then show ?case by simp
next
  case (2 c cs)
  show ?case
  proof (cases cs)
    case Nil
    with 2 show ?thesis by (cases z) auto
  next
    case (Cons d ds)
    with 2 show ?thesis by (cases "ds = []") auto
  qed
qed

lemma norm_eol_crlf: "x \<noteq> [] \<Longrightarrow> last x = CR \<Longrightarrow> norm_eol (x @ LF # z) = norm_eol x @ norm_eol z"
proof (induction x rule: norm_eol.induct)
  case 1
  then show ?case by simp
next
  case (2 c cs)
  show ?case
  proof (cases cs)
    case Nil
    with 2 show ?thesis by auto
  next
    case (Cons d ds)
    with 2 show ?thesis by (cases "ds = []") auto
  qed
qed

section \<open>Blocks\<close>

lemma strip_prefix_more_None:
  "strip_prefix d u = None \<Longrightarrow> length d \<le> length u \<Longrightarrow> strip_prefix d (u @ y) = None"
  by (induction d u rule: strip_prefix.induct) (auto split: if_splits)

lemma split_once_more:
  "split_once d x = Some (a, b) \<Longrightarrow> split_once d (x @ y) = Some (a, b @ y)"
proof (induction d x arbitrary: a b rule: split_once.induct)
  case (1 d)
  then show ?case by (cases y) (auto split: if_splits)
next
  case (2 d c cs)
  show ?case
  proof (cases "strip_prefix d (c # cs)")
    case None
    with 2(2) obtain a' where a': "split_once d cs = Some (a', b)" "a = c # a'" by auto
    with 2(1) [OF None] have IH: "split_once d (cs @ y) = Some (a', b @ y)" by simp
    have "strip_prefix d ((c # cs) @ y) = None"
      using None split_once_append [OF a'(1)] by (intro strip_prefix_more_None) auto
    with IH a' show ?thesis by simp
  next
    case (Some r)
    with 2(2) have "a = []" "b = r" by auto
    moreover from Some have "strip_prefix d (c # cs @ y) = Some (r @ y)"
      by (simp add: strip_prefix_Some_iff flip: append_Cons)
    ultimately show ?thesis by simp
  qed
qed

lemma process_blocks_append:
  "process_blocks ext n (x @ y) s =
     Option.bind (process_blocks ext n x s) (\<lambda>(r, t). process_blocks ext n (r @ y) t)"
proof (induction ext n x s rule: process_blocks.induct)
  case (1 ext n x s)
  show ?case
  proof (cases "split_once [LF, LF] x")
    case None
    then show ?thesis by (subst (2) process_blocks.simps) simp
  next
    case (Some ab)
    obtain a b where ab: "ab = (a, b)" by (cases ab)
    with Some split_once_more have "split_once [LF, LF] (x @ y) = Some (a, b @ y)" by auto
    then have "process_blocks ext n (x @ y) s =
        (case process_event_block ext n a s of None \<Rightarrow> None | Some s' \<Rightarrow> process_blocks ext n (b @ y) s')"
      by (subst process_blocks.simps) simp
    moreover have "process_blocks ext n x s =
        (case process_event_block ext n a s of None \<Rightarrow> None | Some s' \<Rightarrow> process_blocks ext n b s')"
      using Some ab by (subst process_blocks.simps) simp
    ultimately show ?thesis
      using "1.IH" [OF Some ab [symmetric]] by (simp split: option.split)
  qed
qed

lemma process_blocks_cont:
  "process_blocks ext n x s = Some (r, t) \<Longrightarrow> process_blocks ext n (x @ y) s = process_blocks ext n (r @ y) t"
  by (subst process_blocks_append) simp

lemma process_blocks_dead:
  "process_blocks ext n x s = None \<Longrightarrow> process_blocks ext n (x @ y) s = None"
  by (subst process_blocks_append) simp

text \<open>What is left has no blank line and is an end of the text.\<close>

lemma process_blocks_rest:
  "process_blocks ext n x s = Some (r, t) \<Longrightarrow> split_once [LF, LF] r = None \<and> (\<exists>p. x = p @ r)"
proof (induction ext n x s arbitrary: r t rule: process_blocks.induct)
  case (1 ext n x s)
  show ?case
  proof (cases "split_once [LF, LF] x")
    case None
    with "1.prems" show ?thesis by (subst (asm) process_blocks.simps) auto
  next
    case (Some ab)
    obtain a b where ab: "ab = (a, b)" by (cases ab)
    with Some "1.prems" obtain s' where s': "process_event_block ext n a s = Some s'"
      "process_blocks ext n b s' = Some (r, t)"
      by (subst (asm) process_blocks.simps) (auto split: option.splits)
    from "1.IH" [OF Some ab [symmetric] s'] split_once_append [OF Some [unfolded ab]]
    show ?thesis by auto
  qed
qed

lemma split_once_found: "split_once [LF, LF] (p @ [LF, LF] @ q) \<noteq> None"
  by (induction p) (auto split: option.split)

lemma rest_after_blank_line:
  assumes "process_blocks ext n (x @ [LF, LF]) s = Some (r, t)"
  shows "r = [] \<or> r = [LF]"
proof -
  from process_blocks_rest [OF assms] obtain p where
    none: "split_once [LF, LF] r = None" and p: "x @ [LF, LF] = p @ r" by auto
  show ?thesis
  proof (cases "length r \<le> 1")
    case True
    then have "r = [] \<or> (\<exists>c. r = [c])" by (cases r) auto
    with p show ?thesis
      by (metis append_butlast_last_id append_is_Nil_conv last_appendR last.simps list.distinct(1))
  next
    case False
    then have "length p \<le> length x" using arg_cong [OF p, of length] by auto
    then obtain z where "r = z @ [LF, LF]" using p by (auto simp: append_eq_append_conv2)
    with split_once_found [of z "[]"] none show ?thesis by simp
  qed
qed

section \<open>Leading line feeds\<close>

abbreviation trim_lf :: "str \<Rightarrow> str" where "trim_lf \<equiv> dropWhile (\<lambda>c. c = LF)"

definition same_rest :: "(str \<times> emit_state) option \<Rightarrow> (str \<times> emit_state) option \<Rightarrow> bool" where
  "same_rest x y \<longleftrightarrow> rel_option (\<lambda>(r, s) (r', s'). trim_lf r = trim_lf r' \<and> s = s') x y"

lemma same_rest_refl [simp]: "same_rest x x"
  by (cases x) (auto simp: same_rest_def)

lemma same_rest_trans: "same_rest x y \<Longrightarrow> same_rest y z \<Longrightarrow> same_rest x z"
  by (cases x; cases y; cases z) (auto simp: same_rest_def)

lemma same_rest_sym: "same_rest x y \<Longrightarrow> same_rest y x"
  by (cases x; cases y) (auto simp: same_rest_def)

lemma process_line_data_blank [simp]: "process_line_data ext n [] s = Some s"
  by (simp add: process_line_data_def data_of_line_def)

lemma str_lines_LF: "str_lines (LF # a) = [] # str_lines a"
  by (simp add: str_lines_def Let_def strip_cr_def strip_suffix_def)

lemma process_blocks_LF: "same_rest (process_blocks ext n (LF # x) s) (process_blocks ext n x s)"
proof (induction x arbitrary: s rule: measure_induct_rule [where f = length])
  case (less x)
  show ?case
  proof (cases "\<exists>y. x = LF # y")
    case True
    then obtain y where y: "x = LF # y" by auto
    have "process_blocks ext n (LF # LF # y) s = process_blocks ext n y s"
      by (subst process_blocks.simps) (simp add: process_event_block_def str_lines_def)
    with less.IH [of y s] y show ?thesis by (auto intro: same_rest_sym)
  next
    case False
    then have sp: "split_once [LF, LF] (LF # x) = map_option (\<lambda>(a, b). (LF # a, b)) (split_once [LF, LF] x)"
      by (cases x) auto
    show ?thesis
    proof (cases "split_once [LF, LF] x")
      case None
      then have "process_blocks ext n x s = Some (x, s)" "process_blocks ext n (LF # x) s = Some (LF # x, s)"
        using sp by (subst process_blocks.simps; simp)+
      then show ?thesis by (simp add: same_rest_def)
    next
      case (Some ab)
      then obtain a b where ab: "split_once [LF, LF] x = Some (a, b)" by (cases ab) auto
      have "process_event_block ext n (LF # a) s = process_event_block ext n a s"
        by (simp add: process_event_block_def str_lines_LF)
      then have "process_blocks ext n (LF # x) s = process_blocks ext n x s"
        using ab sp by (subst (1 2) process_blocks.simps) simp
      then show ?thesis by simp
    qed
  qed
qed

lemma process_blocks_trim: "same_rest (process_blocks ext n (trim_lf x) s) (process_blocks ext n x s)"
proof (induction x)
  case Nil
  then show ?case by simp
next
  case (Cons c x)
  then show ?case
    using same_rest_sym [OF process_blocks_LF [of ext n x s]] by (auto intro: same_rest_trans)
qed

lemma process_blocks_same:
  "trim_lf x = trim_lf y \<Longrightarrow> same_rest (process_blocks ext n x s) (process_blocks ext n y s)"
  using process_blocks_trim [of ext n x s] process_blocks_trim [of ext n y s]
  by (auto intro: same_rest_trans same_rest_sym)

lemma trim_lf_append: "trim_lf x = trim_lf y \<Longrightarrow> trim_lf (x @ z) = trim_lf (y @ z)"
proof -
  assume eq: "trim_lf x = trim_lf y"
  have "trim_lf (u @ z) = (if trim_lf u = [] then trim_lf z else trim_lf u @ z)" for u
    by (induction u) auto
  then show ?thesis by (simp only: eq)
qed

section \<open>The buffers do not touch the translation\<close>

definition forget :: "filter_ctx \<Rightarrow> filter_ctx" where
  "forget ctx = remove_metadata LINE_BUFFER_KEY (remove_metadata UTF8_BUFFER_KEY ctx)"

definition lift :: "out_event list \<Rightarrow> emit_state \<Rightarrow> emit_state" where
  "lift pre s = (forget (fst s), pre @ snd s)"

lemma get_forget [simp]:
  "get_metadata (forget ctx) k = (if k = LINE_BUFFER_KEY \<or> k = UTF8_BUFFER_KEY then None else get_metadata ctx k)"
  by (simp add: forget_def)

lemma forget_set [simp]:
  "k \<noteq> LINE_BUFFER_KEY \<Longrightarrow> k \<noteq> UTF8_BUFFER_KEY \<Longrightarrow> forget (set_metadata k v ctx) = set_metadata k v (forget ctx)"
  "forget (set_metadata LINE_BUFFER_KEY v ctx) = forget ctx"
  "forget (set_metadata UTF8_BUFFER_KEY v ctx) = forget ctx"
  "forget (remove_metadata LINE_BUFFER_KEY ctx) = forget ctx"
  "forget (remove_metadata UTF8_BUFFER_KEY ctx) = forget ctx"
  by (auto simp: forget_def set_metadata_def remove_metadata_def fun_eq_iff)

lemma forget_forget [simp]: "forget (forget ctx) = forget ctx"
  by (auto simp: forget_def remove_metadata_def fun_eq_iff)

lemma view_forget [simp]:
  "is_text_block_open (forget ctx) = is_text_block_open ctx"
  "is_tool_block_open (forget ctx) = is_tool_block_open ctx"
  "get_block_index (forget ctx) = get_block_index ctx"
  by (simp_all add: is_text_block_open_def is_tool_block_open_def meta_true_def get_block_index_def)

lemma increment_forget [simp]:
  "increment_block_index (forget ctx) = map_option forget (increment_block_index ctx)"
  by (simp add: increment_block_index_def Let_def)

lemma lift_emit [simp]:
  "close_text_block_if_open (lift pre s) = map_option (lift pre) (close_text_block_if_open s)"
  "close_tool_block_if_open (lift pre s) = map_option (lift pre) (close_tool_block_if_open s)"
  "emit_text_delta c (lift pre s) = lift pre (emit_text_delta c s)"
  "emit_tool_block_start tc i (lift pre s) = lift pre (emit_tool_block_start tc i s)"
  "emit_tool_arguments_delta tc (lift pre s) = lift pre (emit_tool_arguments_delta tc s)"
  "emit_message_start n tc (lift pre s) = lift pre (emit_message_start n tc s)"
  "emit_message_delta (lift pre s) = lift pre (emit_message_delta s)"
  by (cases s; simp add: close_text_block_if_open_def close_tool_block_if_open_def emit_text_delta_def
      emit_tool_block_start_def emit_tool_arguments_delta_def emit_message_start_def emit_message_delta_def
      lift_def emit_event_def Let_def option.map_comp comp_def split: option.split)+

lemma fst_lift [simp]: "fst (lift pre s) = forget (fst s)"
  by (simp add: lift_def)

lemma transform_tool_delta_lift [simp]:
  "transform_tool_delta tc (lift pre s) = map_option (lift pre) (transform_tool_delta tc s)"
  by (simp add: transform_tool_delta_def option.map_comp comp_def split: option.split)

lemma fold_opt_lift:
  assumes "\<And>x s. x \<in> set xs \<Longrightarrow> f x (lift pre s) = map_option (lift pre) (f x s)"
  shows "fold_opt f xs (lift pre s) = map_option (lift pre) (fold_opt f xs s)"
  using assms
proof (induction xs arbitrary: s)
  case Nil
  then show ?case by simp
next
  case (Cons x xs)
  then show ?case by (cases "f x s") auto
qed

lemma transform_delta_lift [simp]:
  "transform_delta d (lift pre s) = map_option (lift pre) (transform_delta d s)"
proof -
  define s1 where "s1 = (case get_str d ''content'' of None \<Rightarrow> s | Some c \<Rightarrow> emit_text_delta c s)"
  have "(case get_str d ''content'' of None \<Rightarrow> lift pre s | Some c \<Rightarrow> emit_text_delta c (lift pre s)) = lift pre s1"
    by (simp add: s1_def split: option.split)
  then show ?thesis
    unfolding transform_delta_def Let_def s1_def [symmetric]
    by (cases "get_array d ''tool_calls''"; cases "close_text_block_if_open s1")
      (simp_all add: fold_opt_lift)
qed

lemma chunk_start_lift [simp]: "chunk_start n c (lift pre s) = lift pre (chunk_start n c s)"
  by (simp add: chunk_start_def is_started_def)

lemma annotate_forget [simp]: "annotate c (forget ctx) = forget (annotate c ctx)"
  by (simp add: annotate_def Let_def split: option.split)

lemma transform_chunk_lift [simp]:
  "transform_chunk n c (lift pre s) = map_option (lift pre) (transform_chunk n c s)"
proof -
  have "(annotate c (fst (lift pre u)), snd (lift pre u)) = lift pre (annotate c (fst u), snd u)" for u
    by (simp add: lift_def)
  then show ?thesis
    by (cases "chunk_delta c") (simp_all add: transform_chunk_eq option.map_comp comp_def)
qed

lemma emit_done_lift [simp]: "emit_done (lift pre s) = map_option (lift pre) (emit_done s)"
proof -
  have 1: "emit_final_block_stop (lift pre s) = map_option (lift pre) (emit_final_block_stop s)"
  proof (cases "is_text_block_open (fst s)")
    case True
    then show ?thesis
      by (cases "close_text_block_if_open s") (auto simp: emit_final_block_stop_def)
  next
    case False
    then show ?thesis by (simp add: emit_final_block_stop_def)
  qed
  have 2: "(let (ctx, output) = lift pre u in (ctx, emit_event e d output)) =
      lift pre (let (ctx, output) = u in (ctx, emit_event e d output))" for u e d
    by (cases u) (simp add: lift_def emit_event_def)
  show ?thesis
    unfolding emit_done_def 1 option.map_comp comp_def lift_emit(7) 2 ..
qed

lemma process_line_data_lift:
  "process_line_data ext n l (lift pre s) = map_option (lift pre) (process_line_data ext n l s)"
  by (simp add: process_line_data_def split: option.split sum.split)

lemma process_event_block_lift:
  "process_event_block ext n b (lift pre s) = map_option (lift pre) (process_event_block ext n b s)"
  unfolding process_event_block_def by (rule fold_opt_lift) (rule process_line_data_lift)

lemma process_blocks_lift:
  "process_blocks ext n x (lift pre s) = map_option (map_prod id (lift pre)) (process_blocks ext n x s)"
proof (induction ext n x s rule: process_blocks.induct)
  case (1 ext n x s)
  show ?case
  proof (cases "split_once [LF, LF] x")
    case None
    then show ?thesis by (subst (1 2) process_blocks.simps) simp
  next
    case (Some ab)
    obtain a b where ab: "ab = (a, b)" by (cases ab)
    show ?thesis
    proof (cases "process_event_block ext n a s")
      case None
      then show ?thesis using Some ab
        by (subst (1 2) process_blocks.simps) (simp add: process_event_block_lift)
    next
      case (Some s')
      with "1.IH" [OF \<open>split_once [LF, LF] x = Some ab\<close> ab [symmetric] Some]
        \<open>split_once [LF, LF] x = Some ab\<close> ab show ?thesis
        by (subst (1 2) process_blocks.simps) (simp add: process_event_block_lift id_def)
    qed
  qed
qed

section \<open>Keys the translation leaves alone\<close>

definition stream_key :: "str \<Rightarrow> bool" where
  "stream_key k \<longleftrightarrow> starts_with k ''anthropic_stream.''"

lemma stream_key_keys [simp]:
  "stream_key LINE_BUFFER_KEY" "stream_key STREAM_STATE_KEY" "stream_key TEXT_BLOCK_OPEN_KEY"
  "stream_key TOOL_BLOCK_OPEN_KEY" "stream_key FINISH_REASON_KEY" "stream_key OUTPUT_TOKENS_KEY"
  "stream_key BLOCK_INDEX_KEY" "stream_key UTF8_BUFFER_KEY" "stream_key ARMED_KEY"
  by (simp_all add: stream_key_def starts_with_def stream_keys)

text \<open>The flag that arms the filter, the bytes put aside, and every key of another filter.\<close>

definition kept :: "filter_ctx \<Rightarrow> str option \<times> str option \<times> (str \<rightharpoonup> str)" where
  "kept ctx = (get_metadata ctx ARMED_KEY, get_metadata ctx UTF8_BUFFER_KEY,
     (\<lambda>k. if stream_key k then None else get_metadata ctx k))"

lemma kept_set [simp]:
  "stream_key k \<Longrightarrow> k \<noteq> ARMED_KEY \<Longrightarrow> k \<noteq> UTF8_BUFFER_KEY \<Longrightarrow> kept (set_metadata k v ctx) = kept ctx"
  "stream_key k \<Longrightarrow> k \<noteq> ARMED_KEY \<Longrightarrow> k \<noteq> UTF8_BUFFER_KEY \<Longrightarrow> kept (remove_metadata k ctx) = kept ctx"
  by (auto simp: kept_def)

lemma kept_emit [simp]:
  "kept (fst (emit_text_delta c s)) = kept (fst s)"
  "kept (fst (emit_tool_block_start tc i s)) = kept (fst s)"
  "kept (fst (emit_tool_arguments_delta tc s)) = kept (fst s)"
  "kept (fst (emit_message_start n tc s)) = kept (fst s)"
  "kept (fst (emit_message_delta s)) = kept (fst s)"
  "kept (annotate tc ctx) = kept ctx"
  by (auto simp: emit_text_delta_def emit_tool_block_start_def emit_tool_arguments_delta_def
      emit_message_start_def emit_message_delta_def annotate_def Let_def split: prod.split option.split)

lemma map_option_SomeE: "map_option f x = Some t \<Longrightarrow> (\<And>z. x = Some z \<Longrightarrow> t = f z \<Longrightarrow> P) \<Longrightarrow> P"
  by (cases x) auto

lemma kept_close:
  "close_text_block_if_open s = Some t \<Longrightarrow> kept (fst t) = kept (fst s)"
  "close_tool_block_if_open s = Some t \<Longrightarrow> kept (fst t) = kept (fst s)"
  by (auto simp: close_text_block_if_open_def close_tool_block_if_open_def increment_block_index_def Let_def
      split: prod.splits if_splits)

lemma kept_tool_delta:
  assumes "transform_tool_delta tc s = Some t"
  shows "kept (fst t) = kept (fst s)"
proof (cases "get_str tc ''id''")
  case None
  with assms show ?thesis by (auto simp: transform_tool_delta_def)
next
  case (Some i)
  with assms have "map_option (emit_tool_arguments_delta tc)
      (map_option (emit_tool_block_start tc i) (close_tool_block_if_open s)) = Some t"
    by (simp add: transform_tool_delta_def)
  then show ?thesis by (elim map_option_SomeE) (simp add: kept_close)
qed

lemma kept_fold:
  assumes "\<And>x u v. f x u = Some v \<Longrightarrow> kept (fst v) = kept (fst u)" and "fold_opt f xs s = Some t"
  shows "kept (fst t) = kept (fst s)"
  by (rule fold_opt_invariant [where P = "\<lambda>u. kept (fst u) = kept (fst s)", OF _ assms(2)])
    (use assms(1) in auto)

lemma kept_delta:
  assumes "transform_delta d s = Some t"
  shows "kept (fst t) = kept (fst s)"
proof -
  define s1 where "s1 = (case get_str d ''content'' of None \<Rightarrow> s | Some c \<Rightarrow> emit_text_delta c s)"
  have s1: "kept (fst s1) = kept (fst s)" by (simp add: s1_def split: option.split)
  show ?thesis
  proof (cases "get_array d ''tool_calls''")
    case None
    with assms s1 show ?thesis unfolding transform_delta_def Let_def s1_def [symmetric] by simp
  next
    case (Some tcs)
    with assms have "Option.bind (close_text_block_if_open s1) (fold_opt transform_tool_delta tcs) = Some t"
      unfolding transform_delta_def Let_def s1_def [symmetric] by simp
    then obtain u where u: "close_text_block_if_open s1 = Some u" "fold_opt transform_tool_delta tcs u = Some t"
      unfolding bind_eq_Some_conv by blast
    with kept_fold [OF kept_tool_delta u(2)] kept_close(1) s1 show ?thesis by simp
  qed
qed

lemma kept_chunk:
  assumes "transform_chunk n c s = Some t"
  shows "kept (fst t) = kept (fst s)"
proof -
  have s1: "kept (fst (chunk_start n c s)) = kept (fst s)" by (simp add: chunk_start_def)
  from assms show ?thesis unfolding transform_chunk_eq
  proof (elim map_option_SomeE)
    fix z assume z: "(case chunk_delta c of None \<Rightarrow> Some (chunk_start n c s)
       | Some d \<Rightarrow> transform_delta d (chunk_start n c s)) = Some z" "t = (annotate c (fst z), snd z)"
    with s1 have "kept (fst z) = kept (fst s)"
      by (cases "chunk_delta c") (simp_all add: kept_delta)
    with z(2) show ?thesis by simp
  qed
qed

lemma kept_done:
  assumes "emit_done s = Some t"
  shows "kept (fst t) = kept (fst s)"
  using assms unfolding emit_done_def
proof (elim map_option_SomeE)
  fix z assume z: "emit_final_block_stop s = Some z" "t = (let (ctx, output) = emit_message_delta z
      in (ctx, emit_event ''message_stop'' (jobj [(''type'', JString ''message_stop'')]) output))"
  from z(1) obtain u where "(if is_text_block_open (fst s) then close_text_block_if_open s else Some s) = Some u"
    "(if is_tool_block_open (fst u) then close_tool_block_if_open u else Some u) = Some z"
    unfolding emit_final_block_stop_def bind_eq_Some_conv by blast
  then have "kept (fst z) = kept (fst s)"
    by (metis kept_close option.inject)
  moreover have "fst t = fst (emit_message_delta z)" unfolding z(2) by (simp add: case_prod_unfold Let_def)
  ultimately show ?thesis by simp
qed

lemma kept_line: "process_line_data ext n l s = Some t \<Longrightarrow> kept (fst t) = kept (fst s)"
  unfolding process_line_data_def
  by (cases "data_of_line l"; cases "from_slice ext (the (data_of_line l))")
    (auto dest: kept_done kept_chunk split: if_splits)

lemma kept_blocks: "process_blocks ext n x s = Some (r, t) \<Longrightarrow> kept (fst t) = kept (fst s)"
proof (induction ext n x s arbitrary: r t rule: process_blocks.induct)
  case (1 ext n x s)
  show ?case
  proof (cases "split_once [LF, LF] x")
    case None
    with "1.prems" show ?thesis by (subst (asm) process_blocks.simps) simp
  next
    case (Some ab)
    obtain a b where ab: "ab = (a, b)" by (cases ab)
    with Some "1.prems" obtain s' where s': "process_event_block ext n a s = Some s'"
      "process_blocks ext n b s' = Some (r, t)"
      by (subst (asm) process_blocks.simps) (auto split: option.splits)
    have "kept (fst s') = kept (fst s)"
      by (rule kept_fold [OF _ s'(1) [unfolded process_event_block_def]]) (rule kept_line)
    with "1.IH" [OF Some ab [symmetric] s'] show ?thesis by simp
  qed
qed

lemma kept_sse_chunk:
  assumes "process_sse_chunk ext n ctx c e mx = Some (ctx', x)"
  shows "kept ctx' = kept ctx"
proof -
  obtain z where "map_option (\<lambda>(remaining, ctx1, output).
              let to_buffer = (if snd z then remaining @ [CR] else remaining);
                  (ctx2, r) = store_line_buffer ctx1 to_buffer mx
              in (ctx2, map_sum id (\<lambda>_. output_bytes ext output) r))
           (process_blocks ext n (normalize_line_endings (fst z)) (ctx, [])) = Some (ctx', x)"
    using assms unfolding process_sse_chunk_def Let_def case_prod_unfold by blast
  then show ?thesis
  proof (elim map_option_SomeE)
    fix w assume w: "process_blocks ext n (normalize_line_endings (fst z)) (ctx, []) = Some w"
      "(ctx', x) = (case w of (remaining, ctx1, output) \<Rightarrow>
              let to_buffer = (if snd z then remaining @ [CR] else remaining);
                  (ctx2, r) = store_line_buffer ctx1 to_buffer mx
              in (ctx2, map_sum id (\<lambda>_. output_bytes ext output) r))"
    obtain r u where ru: "w = (r, u)" by (cases w)
    have "kept (fst (store_line_buffer ctx1 b mx)) = kept ctx1" for ctx1 b
      by (simp add: store_line_buffer_def)
    with w(2) ru have "kept ctx' = kept (fst u)"
      by (auto simp: Let_def case_prod_unfold)
    with kept_blocks w(1) ru show ?thesis by fastforce
  qed
qed

section \<open>One chunk of text\<close>

lemma process_blocks_from:
  "process_blocks ext n x (ctx, []) = Some (r, u) \<Longrightarrow>
     process_blocks ext n x (forget ctx, E) = Some (r, forget (fst u), E @ snd u)"
  "process_blocks ext n x (ctx, []) = None \<Longrightarrow> process_blocks ext n x (forget ctx, E) = None"
  using process_blocks_lift [of ext n x E "(ctx, [])"] by (simp_all add: lift_def)

text \<open>
  After the text \<open>T\<close> was processed: what is buffered is the rest \<open>R\<close> of the text and perhaps the
  carriage return \<open>p\<close>, and the events so far are those of the text without \<open>p\<close>.
\<close>

definition tracks ::
  "externals \<Rightarrow> nat \<Rightarrow> emit_state \<Rightarrow> str \<Rightarrow> str \<Rightarrow> str \<Rightarrow> filter_ctx \<Rightarrow> out_event list \<Rightarrow> bool" where
  "tracks ext n s0 T p R ctx E \<longleftrightarrow>
     (\<exists>T' R0. T = T' @ p \<and> (p = [] \<or> p = [CR]) \<and> CR \<notin> set R \<and>
        unwrap_or [] (get_metadata ctx LINE_BUFFER_KEY) = R @ p \<and> length R + length p \<le> length T \<and>
        (p = [] \<and> T \<noteq> [] \<and> last T = CR \<longrightarrow> trim_lf R = []) \<and>
        process_blocks ext n (norm_eol T') s0 = Some (R0, forget ctx, E) \<and> trim_lf R0 = trim_lf R)"

lemma tracks_step:
  assumes "tracks ext n s0 T p R ctx E" and "p @ c = Z @ q"
    and "process_blocks ext n (norm_eol T'') s0 = whole" and "T @ c = T'' @ q"
  shows "same_rest whole (process_blocks ext n (R @ norm_eol Z) (forget ctx, E))"
proof -
  from assms(1) obtain T' R0 where T: "T = T' @ p" "p = [] \<or> p = [CR]" and
    cr: "p = [] \<and> T \<noteq> [] \<and> last T = CR \<longrightarrow> trim_lf R = []" and
    pb: "process_blocks ext n (norm_eol T') s0 = Some (R0, forget ctx, E)" "trim_lf R0 = trim_lf R"
    unfolding tracks_def by blast
  from T(1) assms(2,4) have T'': "T'' = T' @ Z" by (metis append_assoc append_same_eq)
  show ?thesis
  proof (cases "T' \<noteq> [] \<and> last T' = CR \<and> Z \<noteq> [] \<and> hd Z = LF")
    case False
    then have "norm_eol T'' = norm_eol T' @ norm_eol Z" unfolding T'' by (rule norm_eol_append)
    then have "whole = process_blocks ext n (R0 @ norm_eol Z) (forget ctx, E)"
      using assms(3) process_blocks_cont [OF pb(1)] by simp
    then show ?thesis using process_blocks_same [OF trim_lf_append [OF pb(2)]] by simp
  next
    case True
    then obtain Z1 where Z: "Z = LF # Z1" by (cases Z) auto
    with T(2) assms(2) have "p = []" by auto
    with T(1) True cr have lf: "trim_lf R = []" by simp
    have "norm_eol T'' = norm_eol T' @ norm_eol Z1" unfolding T'' Z using True by (intro norm_eol_crlf) auto
    then have "whole = process_blocks ext n (R0 @ norm_eol Z1) (forget ctx, E)"
      using assms(3) process_blocks_cont [OF pb(1)] by simp
    moreover have "trim_lf (R0 @ norm_eol Z1) = trim_lf (R @ norm_eol Z)"
    proof -
      have "trim_lf (u @ z) = (if trim_lf u = [] then trim_lf z else trim_lf u @ z)" for u z
        by (induction u) auto
      from this [of R0 "norm_eol Z1"] this [of R "norm_eol Z"] lf pb(2) Z show ?thesis by simp
    qed
    ultimately show ?thesis using process_blocks_same by metis
  qed
qed

lemma rest_no_cr:
  assumes "process_blocks ext n (R @ norm_eol Z) s = Some (r, u)" and "CR \<notin> set R"
  shows "CR \<notin> set r \<and> length r \<le> length R + length Z"
proof -
  have len: "length (norm_eol Z) \<le> length Z" by (rule length_norm_eol)
  from process_blocks_rest [OF assms(1)] obtain p where p: "R @ norm_eol Z = p @ r" by auto
  have "set r \<subseteq> set (R @ norm_eol Z)" unfolding p by auto
  moreover have "length r \<le> length (R @ norm_eol Z)" unfolding p by simp
  ultimately show ?thesis using assms(2) norm_eol_no_cr [of Z] len by auto
qed

lemma rest_at_cr:
  assumes "process_blocks ext n (R @ norm_eol Z) s = Some (r, u)" and "CR \<notin> set R"
    and "\<exists>V. R @ Z = V @ [CR, CR]"
  shows "trim_lf r = []"
proof -
  from assms(3) obtain V where V: "R @ Z = V @ [CR, CR]" by auto
  have "\<not> length V < length R"
  proof
    assume l: "length V < length R"
    have "(R @ Z) ! length V = CR" unfolding V by simp
    with l have "R ! length V = CR" by (simp add: nth_append)
    with l assms(2) show False using nth_mem by metis
  qed
  then obtain Y where "Z = Y @ [CR, CR]" using V by (auto simp: append_eq_append_conv2)
  moreover have "norm_eol [CR, CR] = [LF, LF]" by simp
  ultimately have "norm_eol Z = norm_eol Y @ [LF, LF]"
    using norm_eol_append [of Y "[CR, CR]"] by simp
  with assms(1) rest_after_blank_line [of ext n "R @ norm_eol Y" s r u] show ?thesis by auto
qed

lemma store_line_buffer_fits:
  assumes "length b \<le> mx"
  shows "\<exists>ctx'. store_line_buffer ctx b mx = (ctx', Inr ()) \<and> forget ctx' = forget ctx \<and>
    unwrap_or [] (get_metadata ctx' LINE_BUFFER_KEY) = b"
  using assms by (auto simp: store_line_buffer_def)

lemma ends_with_iff: "ends_with s p \<longleftrightarrow> (\<exists>r. s = r @ p)"
  by (simp add: ends_with_def flip: strip_suffix_Some_iff)

lemma process_sse_chunk_eq:
  assumes "unwrap_or [] (get_metadata ctx LINE_BUFFER_KEY) = B"
    and "B @ c = W @ q" and "q = (if \<not> e \<and> ends_with (B @ c) [CR] \<and> \<not> ends_with (B @ c) [CR, CR] then [CR] else [])"
  shows "process_sse_chunk ext n ctx c e mx =
    map_option (\<lambda>(r, u). let (ctx2, x) = store_line_buffer (fst u) (r @ q) mx
                          in (ctx2, map_sum id (\<lambda>_. output_bytes ext (snd u)) x))
      (process_blocks ext n (norm_eol W) (ctx, []))"
proof (cases "\<not> e \<and> ends_with (B @ c) [CR] \<and> \<not> ends_with (B @ c) [CR, CR]")
  case True
  with assms(2,3) have q: "q = [CR]" "strip_suffix [CR] (B @ c) = Some W"
    by (simp_all add: strip_suffix_Some_iff)
  from True assms(1) show ?thesis
    by (simp add: process_sse_chunk_def Let_def normalize_eq case_prod_unfold q)
next
  case False
  with assms(2,3) have q: "q = []" "W = B @ c" by (simp_all split: if_splits)
  from False assms(1) show ?thesis
    by (auto simp: process_sse_chunk_def Let_def normalize_eq case_prod_unfold q)
qed

text \<open>What a call keeps back of its text: a carriage return at the end that no other precedes.\<close>

definition held :: "str \<Rightarrow> str" where
  "held b = (if ends_with b [CR] \<and> \<not> ends_with b [CR, CR] then [CR] else [])"

lemma held_cut:
  assumes "CR \<notin> set R"
  obtains Z where "p @ c = Z @ held ((R @ p) @ c)"
proof (cases "held ((R @ p) @ c) = []")
  case False
  then have q: "held ((R @ p) @ c) = [CR]" "ends_with (R @ p @ c) [CR]" by (auto simp: held_def split: if_splits)
  then obtain r where r: "R @ p @ c = r @ [CR]" by (auto simp: ends_with_iff)
  have "p @ c \<noteq> []"
  proof
    assume "p @ c = []"
    with r have "CR \<in> set R" by simp
    with assms show False ..
  qed
  then have "p @ c = butlast (p @ c) @ [last (p @ c)]" by simp
  moreover have "last (p @ c) = CR" using r \<open>p @ c \<noteq> []\<close> by (metis last_appendR last_snoc)
  ultimately show ?thesis using that q(1) by metis
qed (use that in simp)

lemma norm_eol_extend: "\<exists>w. norm_eol (P @ z) = norm_eol P @ w"
proof (cases "P \<noteq> [] \<and> last P = CR \<and> z \<noteq> [] \<and> hd z = LF")
  case True
  then obtain z1 where "z = LF # z1" by (cases z) auto
  with True norm_eol_crlf [of P z1] show ?thesis by auto
next
  case False
  from norm_eol_append [OF this] show ?thesis by blast
qed

lemma dead_extend: "process_blocks ext n (norm_eol P) s = None \<Longrightarrow> process_blocks ext n (norm_eol (P @ z)) s = None"
  using norm_eol_extend [of P z] process_blocks_dead by metis

text \<open>A text that ends in a carriage return of which nothing is held back leaves no rest.\<close>

lemma nothing_held:
  assumes q: "held ((R @ p) @ c) = []" and R: "CR \<notin> set R" and p: "p = [] \<or> p = [CR]"
    and Z: "p @ c = Z" and ne: "T @ c \<noteq> []" "last (T @ c) = CR"
    and before: "p = [] \<and> T \<noteq> [] \<and> last T = CR \<longrightarrow> trim_lf R = []"
    and blocks: "process_blocks ext n (R @ norm_eol Z) s = Some (r, u)"
  shows "trim_lf r = []"
proof (cases "c = []")
  case True
  have "\<not> ends_with (R @ [CR]) [CR, CR]"
  proof
    assume "ends_with (R @ [CR]) [CR, CR]"
    then obtain V where "R @ [CR] = (V @ [CR]) @ [CR]" by (auto simp: ends_with_iff)
    then have "R = V @ [CR]" by (simp only: append_same_eq)
    with R show False by simp
  qed
  moreover have "ends_with (R @ [CR]) [CR]" by (auto simp: ends_with_iff)
  ultimately have "p = []" using q True p by (auto simp: held_def)
  with before ne True Z have "trim_lf R = []" "Z = []" by auto
  moreover from process_blocks_rest [OF blocks] \<open>Z = []\<close> obtain z where "R = z @ r" by auto
  ultimately show ?thesis by (auto simp: dropWhile_eq_Nil_conv)
next
  case False
  with ne obtain c0 where "c = c0 @ [CR]" by (cases c rule: rev_cases) auto
  then have "ends_with ((R @ p) @ c) [CR]" by (auto simp: ends_with_iff)
  with q have "ends_with ((R @ p) @ c) [CR, CR]" by (auto simp: held_def split: if_splits)
  then have "\<exists>V. R @ Z = V @ [CR, CR]" using Z by (auto simp: ends_with_iff)
  with rest_at_cr [OF blocks R] show ?thesis by blast
qed

lemma chunk_tracks:
  assumes "tracks ext n s0 T p R ctx E" and "length (T @ c) \<le> mx"
  shows "(process_sse_chunk ext n ctx c False mx = None \<and>
            (\<forall>y. process_blocks ext n (norm_eol (T @ c @ y)) s0 = None)) \<or>
    (\<exists>ctx' new p' R'. process_sse_chunk ext n ctx c False mx = Some (ctx', Inr (output_bytes ext new)) \<and>
       tracks ext n s0 (T @ c) p' R' ctx' (E @ new))"
proof -
  define q where "q = held ((R @ p) @ c)"
  from assms(1) obtain T' R0 where T: "T = T' @ p" "p = [] \<or> p = [CR]" "CR \<notin> set R"
    "unwrap_or [] (get_metadata ctx LINE_BUFFER_KEY) = R @ p" "length R + length p \<le> length T"
    "p = [] \<and> T \<noteq> [] \<and> last T = CR \<longrightarrow> trim_lf R = []"
    unfolding tracks_def by blast
  from held_cut [OF T(3), of p c] obtain Z where Z: "p @ c = Z @ q" unfolding q_def .
  have T'': "T @ c = (T' @ Z) @ q" using T(1) Z by simp
  have "(R @ p) @ c = (R @ Z) @ q" using Z by simp
  then have eq: "process_sse_chunk ext n ctx c False mx =
      map_option (\<lambda>(r, u). let (ctx2, x) = store_line_buffer (fst u) (r @ q) mx
                            in (ctx2, map_sum id (\<lambda>_. output_bytes ext (snd u)) x))
        (process_blocks ext n (R @ norm_eol Z) (ctx, []))"
    unfolding norm_eol_prefix [OF T(3), symmetric]
    by (rule process_sse_chunk_eq [OF T(4)]) (simp add: q_def held_def)
  have same: "same_rest (process_blocks ext n (norm_eol (T' @ Z)) s0) (process_blocks ext n (R @ norm_eol Z) (forget ctx, E))"
    by (rule tracks_step [OF assms(1) Z refl T''])
  show ?thesis
  proof (cases "process_blocks ext n (R @ norm_eol Z) (ctx, [])")
    case None
    with process_blocks_from(2) same have "process_blocks ext n (norm_eol (T' @ Z)) s0 = None"
      by (auto simp: same_rest_def)
    from dead_extend [OF this, of "q @ y" for y] T'' have "process_blocks ext n (norm_eol (T @ c @ y)) s0 = None" for y
      by (metis append_assoc)
    with None eq show ?thesis by simp
  next
    case (Some ru)
    obtain r u where ru: "ru = (r, u)" by (cases ru)
    note blocks = Some [unfolded ru]
    from rest_no_cr [OF blocks T(3)] have r: "CR \<notin> set r" "length r \<le> length R + length Z" by blast+
    have len: "length (r @ q) \<le> length (T @ c)"
      using r(2) T(5) arg_cong [OF Z, of length] by simp
    with assms(2) obtain ctx' where
      st: "store_line_buffer (fst u) (r @ q) mx = (ctx', Inr ())" "forget ctx' = forget (fst u)"
        "unwrap_or [] (get_metadata ctx' LINE_BUFFER_KEY) = r @ q"
      using store_line_buffer_fits [of "r @ q" mx "fst u"] by auto
    from process_blocks_from(1) [OF blocks, of E] st(2)
    have "process_blocks ext n (R @ norm_eol Z) (forget ctx, E) = Some (r, forget ctx', E @ snd u)" by simp
    with same obtain R1 where
      R1: "process_blocks ext n (norm_eol (T' @ Z)) s0 = Some (R1, forget ctx', E @ snd u)" "trim_lf R1 = trim_lf r"
      by (auto simp: same_rest_def option_rel_Some2)
    have at_cr: "trim_lf r = []" if "q = []" "T @ c \<noteq> []" "last (T @ c) = CR"
    proof (rule nothing_held [OF _ T(3,2) _ that(2,3) T(6) blocks])
      from that(1) show "held ((R @ p) @ c) = []" unfolding q_def .
      from Z that(1) show "p @ c = Z" by simp
    qed
    have q: "q = [] \<or> q = [CR]" by (simp add: q_def held_def)
    have "tracks ext n s0 (T @ c) q r ctx' (E @ snd u)"
      unfolding tracks_def
      by (rule exI [of _ "T' @ Z"], rule exI [of _ R1])
        (use T'' R1 r st(3) len at_cr q in auto)
    moreover have "process_sse_chunk ext n ctx c False mx = Some (ctx', Inr (output_bytes ext (snd u)))"
      using eq blocks st(1) by simp
    ultimately show ?thesis by blast
  qed
qed

lemma last_chunk_tracks:
  assumes "tracks ext n s0 T p R ctx E" and "length (T @ c) \<le> mx"
  shows "map_option snd (process_sse_chunk ext n ctx c True mx) = map_option Inr
     (case process_blocks ext n (norm_eol (T @ c)) s0 of None \<Rightarrow> None
      | Some (_, u) \<Rightarrow> Some (output_bytes ext (drop (length E) (snd u)))) \<and>
    (\<forall>r u. process_blocks ext n (norm_eol (T @ c)) s0 = Some (r, u) \<longrightarrow> (\<exists>new. snd u = E @ new))"
proof -
  from assms(1) have T: "CR \<notin> set R" "unwrap_or [] (get_metadata ctx LINE_BUFFER_KEY) = R @ p"
    "length R + length p \<le> length T" unfolding tracks_def by blast+
  have eq: "process_sse_chunk ext n ctx c True mx =
      map_option (\<lambda>(r, u). let (ctx2, x) = store_line_buffer (fst u) (r @ []) mx
                            in (ctx2, map_sum id (\<lambda>_. output_bytes ext (snd u)) x))
        (process_blocks ext n (R @ norm_eol (p @ c)) (ctx, []))"
    using process_sse_chunk_eq [OF T(2), of c "R @ p @ c" "[]" True ext n mx] T(1) by (simp add: norm_eol_prefix)
  have same: "same_rest (process_blocks ext n (norm_eol (T @ c)) s0) (process_blocks ext n (R @ norm_eol (p @ c)) (forget ctx, E))"
    by (rule tracks_step [OF assms(1), of c "p @ c" "[]"]) simp_all
  show ?thesis
  proof (cases "process_blocks ext n (R @ norm_eol (p @ c)) (ctx, [])")
    case None
    with process_blocks_from(2) same eq show ?thesis by (auto simp: same_rest_def)
  next
    case (Some ru)
    obtain r u where ru: "ru = (r, u)" by (cases ru)
    from rest_no_cr [of ext n R "p @ c"] Some ru T(1) have "length r \<le> length R + length (p @ c)" by blast
    with T(3) assms(2) have "length r \<le> mx" by simp
    with store_line_buffer_fits obtain ctx' where "store_line_buffer (fst u) r mx = (ctx', Inr ())" by blast
    moreover from process_blocks_from(1) [of ext n "R @ norm_eol (p @ c)" ctx r u E] Some ru same obtain R1 where
      "process_blocks ext n (norm_eol (T @ c)) s0 = Some (R1, forget (fst u), E @ snd u)"
      by (auto simp: same_rest_def option_rel_Some2)
    ultimately show ?thesis using eq Some ru by simp
  qed
qed

end
