(* ===== verification/Anthropic_Body.thy ===== *)
theory Anthropic_Body
  imports Anthropic_Chunking
begin

text \<open>
  The chunking result for the body handler of the Anthropic stream filter: the calls for the
  chunks of a UTF-8 stream, characters cut anywhere, emit together the translation of the whole
  stream. The end to end properties of the filter rest on it.
\<close>

section \<open>Bytes\<close>

lemma tracks_cong:
  "forget ctx' = forget ctx \<Longrightarrow> get_metadata ctx' LINE_BUFFER_KEY = get_metadata ctx LINE_BUFFER_KEY \<Longrightarrow>
     tracks ext n s0 T p R ctx' E = tracks ext n s0 T p R ctx E"
  by (simp add: tracks_def)

text \<open>The text seen is followed by the UTF-8 tail \<open>u\<close>.\<close>

definition pending_tail :: "filter_ctx \<Rightarrow> bytes" where
  "pending_tail ctx = unwrap_or [] (map_option decode_hex_bytes (get_metadata ctx UTF8_BUFFER_KEY))"

definition body_tracks ::
  "externals \<Rightarrow> nat \<Rightarrow> emit_state \<Rightarrow> bytes \<Rightarrow> filter_ctx \<Rightarrow> out_event list \<Rightarrow> bool" where
  "body_tracks ext n s0 bs ctx E \<longleftrightarrow>
     (\<exists>T p R. bs = T @ pending_tail ctx \<and> utf8_ok T \<and> is_armed ctx \<and> tracks ext n s0 T p R ctx E)"

lemma armed_kept: "kept ctx' = kept ctx \<Longrightarrow> is_armed ctx' = is_armed ctx \<and> pending_tail ctx' = pending_tail ctx"
  by (simp add: kept_def is_armed_def meta_true_def pending_tail_def)

text \<open>What the first steps of a call change: only the tail.\<close>

definition same_text :: "filter_ctx \<Rightarrow> filter_ctx \<Rightarrow> bool" where
  "same_text ctx' ctx \<longleftrightarrow>
     forget ctx' = forget ctx \<and> get_metadata ctx' LINE_BUFFER_KEY = get_metadata ctx LINE_BUFFER_KEY \<and>
     is_armed ctx' = is_armed ctx"

lemma same_text_simps [simp]:
  "same_text ctx ctx"
  "same_text (set_metadata UTF8_BUFFER_KEY v ctx) ctx"
  "same_text (remove_metadata UTF8_BUFFER_KEY ctx) ctx"
  by (simp_all add: same_text_def is_armed_def meta_true_def)

lemma combine_pending:
  "\<exists>ctx1. combine_pending_utf8 ctx bs = (ctx1, pending_tail ctx @ bs) \<and> same_text ctx1 ctx \<and> pending_tail ctx1 = [] \<and>
    get_metadata ctx1 UTF8_BUFFER_KEY = None"
  by (cases "get_metadata ctx UTF8_BUFFER_KEY") (auto simp: combine_pending_utf8_def pending_tail_def)

text \<open>The valid prefix \<open>c\<close> of the bytes at hand; the rest becomes the tail.\<close>

lemma valid_prefix:
  assumes "utf8_ok (x @ y)" and "get_metadata ctx UTF8_BUFFER_KEY = None"
  shows "\<exists>ctx' c. valid_utf8_prefix_len ctx x False = (ctx', Some (length c)) \<and> x = c @ pending_tail ctx' \<and>
    utf8_ok c \<and> same_text ctx' ctx"
  using from_utf8_prefix [OF assms(1)]
proof
  assume "from_utf8 x = Utf8_Ok"
  then show ?thesis
    using assms(2) by (intro exI [of _ ctx] exI [of _ x])
      (simp add: valid_utf8_prefix_len_def utf8_ok_def pending_tail_def)
next
  assume "\<exists>v. from_utf8 x = Utf8_Err v None \<and> v \<le> length x \<and> length x \<le> v + 3 \<and> utf8_ok (take v x)"
  then obtain v where v: "from_utf8 x = Utf8_Err v None" "v \<le> length x" "length x \<le> v + 3" "utf8_ok (take v x)"
    by blast
  then show ?thesis
    by (intro exI [of _ "set_metadata UTF8_BUFFER_KEY (encode_hex_bytes (drop v x)) ctx"]
        exI [of _ "take v x"])
      (simp add: valid_utf8_prefix_len_def Let_def pending_tail_def)
qed

lemma valid_whole: "utf8_ok x \<Longrightarrow> valid_utf8_prefix_len ctx x eos = (ctx, Some (length x))"
  by (simp add: valid_utf8_prefix_len_def utf8_ok_def)

lemma decode_chunk:
  assumes "utf8_ok (T @ pending_tail ctx @ x @ y)" and "utf8_ok T"
  shows "\<exists>ctx2 c. decode_and_process_chunk ext n ctx x False mx =
      (if c = [] then Some (ctx2, Inr None)
       else map_option (\<lambda>(ctx3, r). (ctx3, map_sum id Some r)) (process_sse_chunk ext n ctx2 c False mx)) \<and>
    pending_tail ctx @ x = c @ pending_tail ctx2 \<and> utf8_ok c \<and> same_text ctx2 ctx"
proof -
  obtain ctx1 where c1: "combine_pending_utf8 ctx x = (ctx1, pending_tail ctx @ x)" "same_text ctx1 ctx"
    "get_metadata ctx1 UTF8_BUFFER_KEY = None"
    using combine_pending [of ctx x] by blast
  have "utf8_ok ((pending_tail ctx @ x) @ y)" using assms utf8_ok_append [OF assms(2)] by simp
  from valid_prefix [OF this c1(3)] obtain ctx2 c where
    c2: "valid_utf8_prefix_len ctx1 (pending_tail ctx @ x) False = (ctx2, Some (length c))"
      "pending_tail ctx @ x = c @ pending_tail ctx2" "utf8_ok c" "same_text ctx2 ctx1" by blast
  have "decode_and_process_chunk ext n ctx x False mx =
      (if c = [] then Some (ctx2, Inr None)
       else map_option (\<lambda>(ctx3, r). (ctx3, map_sum id Some r)) (process_sse_chunk ext n ctx2 c False mx))"
    using c1(1) c2(1) unfolding c2(2) by (simp add: decode_and_process_chunk_def)
  moreover have "same_text ctx2 ctx" using c1(2) c2(4) by (simp add: same_text_def)
  ultimately show ?thesis using c2 by blast
qed

lemma body_step:
  assumes "body_tracks ext n s0 bs ctx E" and "utf8_ok (bs @ x @ y)" and "length (bs @ x) \<le> mx"
  shows "(on_response_body ext n mx ctx (Some x) False = None \<and>
      (\<forall>z. process_blocks ext n (norm_eol (bs @ x @ z)) s0 = None)) \<or>
    (\<exists>ctx' new. on_response_body ext n mx ctx (Some x) False =
        Some (ctx', Some (output_bytes ext new), Inr Continue) \<and> body_tracks ext n s0 (bs @ x) ctx' (E @ new))"
proof -
  from assms(1) obtain T p R where bs: "bs = T @ pending_tail ctx" "utf8_ok T" and armed: "is_armed ctx"
    and tr: "tracks ext n s0 T p R ctx E"
    unfolding body_tracks_def by blast
  from assms(2) bs(1) have "utf8_ok (T @ pending_tail ctx @ x @ y)" by simp
  from decode_chunk [OF this bs(2), of ext n mx] obtain ctx2 c where
    dec: "decode_and_process_chunk ext n ctx x False mx =
      (if c = [] then Some (ctx2, Inr None)
       else map_option (\<lambda>(ctx3, r). (ctx3, map_sum id Some r)) (process_sse_chunk ext n ctx2 c False mx))"
    and c: "pending_tail ctx @ x = c @ pending_tail ctx2" "utf8_ok c" "same_text ctx2 ctx" by blast
  have tr2: "tracks ext n s0 T p R ctx2 E" using tr tracks_cong [of ctx2 ctx] c(3) unfolding same_text_def by blast
  have all: "bs @ x = (T @ c) @ pending_tail ctx2" using bs c(1) by simp
  have ok: "utf8_ok (T @ c)" using bs(2) c(2) by (simp add: utf8_ok_append)
  have armed2: "is_armed ctx2" using armed c(3) by (simp add: same_text_def)
  show ?thesis
  proof (cases "c = []")
    case True
    with dec armed have "on_response_body ext n mx ctx (Some x) False =
        Some (ctx2, Some (output_bytes ext []), Inr Continue)"
      by (simp add: on_response_body_def output_bytes_def)
    moreover have "body_tracks ext n s0 (bs @ x) ctx2 (E @ [])"
      unfolding body_tracks_def using all True bs(2) tr2 armed2 by auto
    ultimately show ?thesis by blast
  next
    case False
    have fits: "length (T @ c) \<le> mx" using assms(3) arg_cong [OF all, of length] by simp
    from chunk_tracks [OF tr2 fits] show ?thesis
    proof (elim disjE exE conjE)
      assume none: "process_sse_chunk ext n ctx2 c False mx = None"
        and dead: "\<forall>y. process_blocks ext n (norm_eol (T @ c @ y)) s0 = None"
      have "process_blocks ext n (norm_eol (bs @ x @ z)) s0 = None" for z
      proof -
        have "bs @ x @ z = T @ c @ pending_tail ctx2 @ z" using all by (metis append_assoc)
        then show ?thesis using dead [rule_format, of "pending_tail ctx2 @ z"] by presburger
      qed
      with none dec armed False show ?thesis by (simp add: on_response_body_def)
    next
      fix ctx3 new p' R'
      assume sse: "process_sse_chunk ext n ctx2 c False mx = Some (ctx3, Inr (output_bytes ext new))"
        and tr3: "tracks ext n s0 (T @ c) p' R' ctx3 (E @ new)"
      from armed_kept [OF kept_sse_chunk [OF sse]] have "body_tracks ext n s0 (bs @ x) ctx3 (E @ new)"
        unfolding body_tracks_def using all ok armed2 tr3 by auto
      moreover have "on_response_body ext n mx ctx (Some x) False =
          Some (ctx3, Some (output_bytes ext new), Inr Continue)"
        using dec sse armed False by (simp add: on_response_body_def)
      ultimately show ?thesis by blast
    qed
  qed
qed

lemma body_last:
  assumes "body_tracks ext n s0 bs ctx E" and "utf8_ok (bs @ x)" and "length (bs @ x) \<le> mx"
  shows "map_option snd (on_response_body ext n mx ctx (Some x) True) =
      map_option (\<lambda>(_, u). (Some (output_bytes ext (drop (length E) (snd u))), Inr Continue))
        (process_blocks ext n (norm_eol (bs @ x)) s0) \<and>
    (\<forall>r u. process_blocks ext n (norm_eol (bs @ x)) s0 = Some (r, u) \<longrightarrow> (\<exists>new. snd u = E @ new))"
proof -
  from assms(1) obtain T p R where bs: "bs = T @ pending_tail ctx" "utf8_ok T" and armed: "is_armed ctx"
    and tr: "tracks ext n s0 T p R ctx E"
    unfolding body_tracks_def by blast
  obtain ctx1 where c1: "combine_pending_utf8 ctx x = (ctx1, pending_tail ctx @ x)" "same_text ctx1 ctx"
    using combine_pending [of ctx x] by blast
  have ok: "utf8_ok (pending_tail ctx @ x)" using assms(2) bs utf8_ok_append [OF bs(2)] by simp
  have tr1: "tracks ext n s0 T p R ctx1 E" using tr tracks_cong [of ctx1 ctx] c1(2) unfolding same_text_def by blast
  have dec: "decode_and_process_chunk ext n ctx x True mx =
      map_option (\<lambda>(ctx3, r). (ctx3, map_sum id Some r)) (process_sse_chunk ext n ctx1 (pending_tail ctx @ x) True mx)"
    using c1(1) valid_whole [OF ok, of ctx1 True]
    by (simp add: decode_and_process_chunk_def)
  have all: "T @ pending_tail ctx @ x = bs @ x" using bs(1) by simp
  from last_chunk_tracks [OF tr1, of "pending_tail ctx @ x" mx] assms(3) have
    l: "map_option snd (process_sse_chunk ext n ctx1 (pending_tail ctx @ x) True mx) = map_option Inr
     (case process_blocks ext n (norm_eol (bs @ x)) s0 of None \<Rightarrow> None
      | Some (_, u) \<Rightarrow> Some (output_bytes ext (drop (length E) (snd u))))" and
    new: "\<forall>r u. process_blocks ext n (norm_eol (bs @ x)) s0 = Some (r, u) \<longrightarrow> (\<exists>new. snd u = E @ new)"
    unfolding all by (simp_all add: bs(1))
  have "map_option snd (on_response_body ext n mx ctx (Some x) True) =
      map_option (\<lambda>r. (Some (case r of Inl _ \<Rightarrow> x | Inr out \<Rightarrow> out),
          (case r of Inl e \<Rightarrow> Inl e | Inr _ \<Rightarrow> Inr Continue)))
        (map_option snd (process_sse_chunk ext n ctx1 (pending_tail ctx @ x) True mx))"
    using armed dec by (auto simp: on_response_body_def option.map_comp comp_def case_prod_unfold
        intro!: option.map_cong split: sum.split)
  then show ?thesis using new unfolding l by (auto split: option.split)
qed

section \<open>All calls\<close>

text \<open>The calls for the chunks of a body, with what they emit; an error ends them.\<close>

fun body_calls ::
  "externals \<Rightarrow> nat \<Rightarrow> nat \<Rightarrow> (bytes \<times> bool) list \<Rightarrow> filter_ctx \<Rightarrow> (filter_ctx \<times> (filter_error + bytes)) option" where
  "body_calls ext n mx [] ctx = Some (ctx, Inr [])"
| "body_calls ext n mx ((bs, eos) # cs) ctx =
     (case on_response_body ext n mx ctx (Some bs) eos of
        None \<Rightarrow> None
      | Some (ctx', body, Inl e) \<Rightarrow> Some (ctx', Inl e)
      | Some (ctx', body, Inr _) \<Rightarrow>
          map_option (\<lambda>(c, r). (c, map_sum id (append (unwrap_or [] body)) r)) (body_calls ext n mx cs ctx'))"

lemma output_bytes_append: "output_bytes ext (as @ bs) = output_bytes ext as @ output_bytes ext bs"
  by (simp add: output_bytes_def)

lemma body_calls_tracks:
  assumes "body_tracks ext n s0 bs ctx E" and "utf8_ok (bs @ concat cs @ x)" and "length (bs @ concat cs @ x) \<le> mx"
  shows "map_option snd (body_calls ext n mx (map (\<lambda>c. (c, False)) cs @ [(x, True)]) ctx) =
      map_option (\<lambda>(_, u). Inr (output_bytes ext (drop (length E) (snd u))))
        (process_blocks ext n (norm_eol (bs @ concat cs @ x)) s0) \<and>
    (\<forall>r u. process_blocks ext n (norm_eol (bs @ concat cs @ x)) s0 = Some (r, u) \<longrightarrow> (\<exists>new. snd u = E @ new))"
  using assms
proof (induction cs arbitrary: bs ctx E)
  case Nil
  have l: "map_option snd (on_response_body ext n mx ctx (Some x) True) =
      map_option (\<lambda>(_, u). (Some (output_bytes ext (drop (length E) (snd u))), Inr Continue))
        (process_blocks ext n (norm_eol (bs @ x)) s0)"
    and new: "\<forall>r u. process_blocks ext n (norm_eol (bs @ x)) s0 = Some (r, u) \<longrightarrow> (\<exists>new. snd u = E @ new)"
    using body_last [OF Nil.prems(1)] Nil.prems(2,3) by simp_all
  show ?case
  proof (cases "process_blocks ext n (norm_eol (bs @ x)) s0")
    case None
    with l show ?thesis by simp
  next
    case (Some ru)
    obtain r u where "ru = (r, u)" by (cases ru)
    with l Some obtain ctx' where
      "on_response_body ext n mx ctx (Some x) True =
        Some (ctx', Some (output_bytes ext (drop (length E) (snd u))), Inr Continue)" by auto
    with Some new \<open>ru = (r, u)\<close> show ?thesis by simp
  qed
next
  case (Cons c cs)
  have len: "length (bs @ c) \<le> mx" using Cons.prems(3) by simp
  have ok: "utf8_ok (bs @ c @ concat cs @ x)" using Cons.prems(2) by simp
  from body_step [OF Cons.prems(1) ok len] show ?case
  proof (elim disjE exE conjE)
    assume "on_response_body ext n mx ctx (Some c) False = None"
      "\<forall>z. process_blocks ext n (norm_eol (bs @ c @ z)) s0 = None"
    then show ?thesis by simp
  next
    fix ctx' new
    assume call: "on_response_body ext n mx ctx (Some c) False = Some (ctx', Some (output_bytes ext new), Inr Continue)"
      and tr: "body_tracks ext n s0 (bs @ c) ctx' (E @ new)"
    from Cons.IH [OF tr] Cons.prems(2,3) have
      IH: "map_option snd (body_calls ext n mx (map (\<lambda>c. (c, False)) cs @ [(x, True)]) ctx') =
        map_option (\<lambda>(_, u). Inr (output_bytes ext (drop (length (E @ new)) (snd u))))
          (process_blocks ext n (norm_eol (bs @ c @ concat cs @ x)) s0)"
      and more: "\<forall>r u. process_blocks ext n (norm_eol (bs @ c @ concat cs @ x)) s0 = Some (r, u) \<longrightarrow>
        (\<exists>new'. snd u = (E @ new) @ new')" by simp_all
    have "map_option snd (body_calls ext n mx (map (\<lambda>c. (c, False)) (c # cs) @ [(x, True)]) ctx) =
        map_option (map_sum id (append (output_bytes ext new)))
          (map_option snd (body_calls ext n mx (map (\<lambda>c. (c, False)) cs @ [(x, True)]) ctx'))"
      using call by (simp add: option.map_comp comp_def case_prod_unfold)
    also have "\<dots> = map_option (\<lambda>(_, u). Inr (output_bytes ext (drop (length E) (snd u))))
        (process_blocks ext n (norm_eol (bs @ c @ concat cs @ x)) s0)"
      unfolding IH using more
      by (cases "process_blocks ext n (norm_eol (bs @ c @ concat cs @ x)) s0")
        (auto simp: output_bytes_append)
    finally show ?thesis using more by auto
  qed
qed

text \<open>An armed context before its first body chunk.\<close>

definition fresh_stream :: "filter_ctx \<Rightarrow> bool" where
  "fresh_stream ctx \<longleftrightarrow>
     is_armed ctx \<and> get_metadata ctx LINE_BUFFER_KEY = None \<and> get_metadata ctx UTF8_BUFFER_KEY = None"

lemma fresh_tracks:
  assumes "fresh_stream ctx"
  shows "body_tracks ext n (forget ctx, []) [] ctx []"
proof -
  have sp: "split_once [LF, LF] [] = None" by simp
  have "tracks ext n (forget ctx, []) [] [] [] ctx []"
    unfolding tracks_def using assms
    by (intro exI [of _ "[]"]) (simp add: fresh_stream_def process_blocks.simps sp)
  moreover have "utf8_ok []" by code_simp
  ultimately show ?thesis
    unfolding body_tracks_def using assms
    by (intro exI [of _ "[]"]) (auto simp: fresh_stream_def pending_tail_def)
qed

lemma fresh_calls:
  assumes "fresh_stream ctx" and "utf8_ok (concat cs @ x)" and "length (concat cs @ x) \<le> mx"
  shows "map_option snd (body_calls ext n mx (map (\<lambda>c. (c, False)) cs @ [(x, True)]) ctx) =
    map_option (\<lambda>(_, u). Inr (output_bytes ext (snd u)))
      (process_blocks ext n (norm_eol (concat cs @ x)) (forget ctx, []))"
  using body_calls_tracks [OF fresh_tracks [OF assms(1)], of cs x mx ext n] assms(2,3) by simp

text \<open>
  C4. The body handler translates a stream the same way however it is cut: for an armed response
  and a UTF-8 body within the buffer limit, the calls for any chunks, cut inside a line, between
  the bytes of a line end or inside a character, emit together exactly what one call with the
  whole body emits, and panic exactly when it does. The clock reading, which goes into the message
  id only, is the same in all calls.
\<close>

theorem anthropic_body_chunking:
  assumes "fresh_stream ctx" and "utf8_ok (concat cs @ x)" and "length (concat cs @ x) \<le> mx"
  shows "map_option snd (body_calls ext n mx (map (\<lambda>c. (c, False)) cs @ [(x, True)]) ctx) =
    map_option snd (body_calls ext n mx [(concat cs @ x, True)] ctx)"
  using fresh_calls [OF assms] fresh_calls [of ctx "[]" "concat cs @ x" mx ext n] assms by simp

definition body_ext :: externals where
  "body_ext = null_ext\<lparr>from_slice := (\<lambda>_. Inr (jobj [])), to_text := (\<lambda>_. Inr ''{}'')\<rparr>"

lemma anthropic_body_chunking_witness:
  "let ctx = set_metadata ARMED_KEY ''true'' empty_ctx;
       cut = [''data: '' @ [CHR 0xC3], [CHR 0xA9, CR]];
       calls = body_calls body_ext 7 100 (map (\<lambda>c. (c, False)) cut @ [([LF, CR, LF], True)]) ctx;
       whole = body_calls body_ext 7 100 [(concat cut @ [LF, CR, LF], True)] ctx
   in map_option snd calls = map_option snd whole \<and> map_option snd calls \<notin> {None, Some (Inr [])}"
proof -
  let ?ctx = "set_metadata ARMED_KEY ''true'' empty_ctx"
  let ?cut = "[''data: '' @ [CHR 0xC3], [CHR 0xA9, CR]]"
  have "fresh_stream ?ctx" "utf8_ok (concat ?cut @ [LF, CR, LF])" "length (concat ?cut @ [LF, CR, LF]) \<le> 100"
    by code_simp+
  note anthropic_body_chunking [OF this, of body_ext 7]
  moreover have "map_option snd (body_calls body_ext 7 100 [(concat ?cut @ [LF, CR, LF], True)] ?ctx) \<notin>
      {None, Some (Inr [])}"
    by code_simp
  ultimately show ?thesis unfolding Let_def by argo
qed

section \<open>What is kept between calls\<close>

definition buffers_within :: "nat \<Rightarrow> filter_ctx \<Rightarrow> bool" where
  "buffers_within mx ctx \<longleftrightarrow>
     length (unwrap_or [] (get_metadata ctx LINE_BUFFER_KEY)) \<le> mx \<and> length (pending_tail ctx) \<le> 3"

lemma store_line_buffer_bound:
  "store_line_buffer ctx b mx = (ctx', r) \<Longrightarrow>
     length (unwrap_or [] (get_metadata ctx' LINE_BUFFER_KEY)) \<le> mx \<and> kept ctx' = kept ctx"
  by (auto simp: store_line_buffer_def split: if_splits)

lemma sse_chunk_bound:
  assumes "process_sse_chunk ext n ctx c eos mx = Some (ctx', r)"
  shows "length (unwrap_or [] (get_metadata ctx' LINE_BUFFER_KEY)) \<le> mx \<and> kept ctx' = kept ctx"
proof -
  obtain f z where "map_option (\<lambda>w. (fst (store_line_buffer (fst (snd w)) (f w) mx),
        map_sum id (\<lambda>_. output_bytes ext (snd (snd w))) (snd (store_line_buffer (fst (snd w)) (f w) mx))))
      (process_blocks ext n z (ctx, [])) = Some (ctx', r)"
    using assms unfolding process_sse_chunk_def Let_def case_prod_unfold by fast
  then obtain w where "ctx' = fst (store_line_buffer (fst (snd w)) (f w) mx)" by (elim map_option_SomeE) simp
  then show ?thesis
    using store_line_buffer_bound [of "fst (snd w)" "f w" mx] kept_sse_chunk [OF assms] by (metis prod.collapse)
qed

lemma prefix_bound:
  assumes "valid_utf8_prefix_len ctx bs eos = (ctx', p)" and "get_metadata ctx UTF8_BUFFER_KEY = None"
  shows "length (pending_tail ctx') \<le> 3 \<and> get_metadata ctx' LINE_BUFFER_KEY = get_metadata ctx LINE_BUFFER_KEY"
  using assms by (auto simp: valid_utf8_prefix_len_def Let_def pending_tail_def
      split: utf8_result.splits option.splits if_splits)

lemma decode_bound:
  assumes "buffers_within mx ctx" and "decode_and_process_chunk ext n ctx bs eos mx = Some (ctx', r)"
  shows "buffers_within mx ctx'"
proof -
  obtain ctx1 bs1 where c1: "combine_pending_utf8 ctx bs = (ctx1, bs1)" "same_text ctx1 ctx"
    "get_metadata ctx1 UTF8_BUFFER_KEY = None"
    using combine_pending [of ctx bs] by blast
  obtain ctx2 p where c2: "valid_utf8_prefix_len ctx1 bs1 eos = (ctx2, p)" by fastforce
  from prefix_bound [OF c2 c1(3)] assms(1) c1(2) have b2: "buffers_within mx ctx2"
    by (simp add: buffers_within_def same_text_def)
  have keep: "kept ctx3 = kept ctx2 \<Longrightarrow>
      length (unwrap_or [] (get_metadata ctx3 LINE_BUFFER_KEY)) \<le> mx \<Longrightarrow> buffers_within mx ctx3" for ctx3
    using b2 armed_kept [of ctx3 ctx2] by (simp add: buffers_within_def)
  show ?thesis
  proof (cases p)
    case None
    with assms(2) c1(1) c2 b2 show ?thesis
      by (auto simp: decode_and_process_chunk_def passthrough_with_line_buffer_def split: option.splits
          intro!: keep)
  next
    case (Some k)
    with assms(2) c1(1) c2 b2 show ?thesis
      by (auto simp: decode_and_process_chunk_def Let_def split: if_splits prod.splits elim!: map_option_SomeE
          dest!: sse_chunk_bound intro!: keep)
  qed
qed

lemma body_context:
  assumes "on_response_body ext n mx ctx body eos = Some (ctx', rest)"
  shows "ctx' = ctx \<or> (\<exists>bs r. decode_and_process_chunk ext n ctx bs eos mx = Some (ctx', r))"
proof -
  show ?thesis
  proof (cases "is_armed ctx")
    case True
    with assms show ?thesis
      by (cases body) (auto simp: on_response_body_def split: if_splits, (auto split: sum.splits option.splits))
  next
    case False
    with assms show ?thesis by (simp add: on_response_body_def)
  qed
qed

text \<open>
  C37. What the stream filter keeps between two calls is bounded: after any call, whatever the
  bytes, the buffered partial event is at most \<open>max_partial_event_bytes\<close> long and the kept
  start of a character at most three bytes, if they were before.
\<close>

theorem anthropic_buffers_bounded:
  assumes "buffers_within mx ctx" and "on_response_body ext n mx ctx body eos = Some (ctx', body', r)"
  shows "buffers_within mx ctx'"
  using body_context [OF assms(2)] decode_bound [OF assms(1)] assms(1) by blast

lemma anthropic_buffers_bounded_witness:
  "\<exists>ctx' body' r. on_response_body body_ext 7 10 (set_metadata ARMED_KEY ''true'' empty_ctx)
     (Some ''data: abc'') False = Some (ctx', body', r) \<and> buffers_within 10 ctx'"
proof -
  have "map_option (fst \<circ> snd) (on_response_body body_ext 7 10 (set_metadata ARMED_KEY ''true'' empty_ctx)
     (Some ''data: abc'') False) = Some (Some [])" by code_simp
  then obtain c b r where call: "on_response_body body_ext 7 10 (set_metadata ARMED_KEY ''true'' empty_ctx)
     (Some ''data: abc'') False = Some (c, b, r)" by (auto elim!: map_option_SomeE)
  have "buffers_within 10 (set_metadata ARMED_KEY ''true'' empty_ctx)" by code_simp
  from anthropic_buffers_bounded [OF this call] call show ?thesis by blast
qed

end
