(* ===== verification/A2a_Sse.thy ===== *)
theory A2a_Sse
  imports Chunked Sse_Lines
begin

text \<open>
  The A2A filter's own SSE scanner, \<open>filters/src/agentic/a2a/sse.rs\<close>: it collects the \<open>data:\<close>
  payloads of a response stream. An overflow of the scratch limit still returns the payloads
  completed before it. The scanner provides the chunking contract for non-empty chunks, and its
  payloads are the data of the frames of the line reading.
\<close>

record sse_scan_state =
  scan_line_buf :: bytes
  scan_data_buf :: bytes
  scan_has_data :: bool
  scan_prev_cr :: bool
  scan_scratch_bytes :: nat

definition default_scan_state :: sse_scan_state where
  "default_scan_state =
     \<lparr>scan_line_buf = [], scan_data_buf = [], scan_has_data = False, scan_prev_cr = False,
      scan_scratch_bytes = 0\<rparr>"

record sse_scan_result =
  payloads :: "bytes list"
  overflowed :: bool

section \<open>Scanning\<close>

text \<open>One complete line; the payloads it completes are returned.\<close>

definition scan_process_line ::
  "bytes \<Rightarrow> bytes \<Rightarrow> bool \<Rightarrow> bytes \<times> bool \<times> bytes list" where
  "scan_process_line line data had_data =
     (if line = [] then (if had_data then ([], False, [data]) else (data, had_data, []))
      else if get_at line 0 = Some (CHR '':'') then (data, had_data, [])
      else
        (case position (\<lambda>b. b = CHR '':'') line of
           None \<Rightarrow> (data, had_data, [])
         | Some colon_pos \<Rightarrow>
             if take colon_pos line \<noteq> ''data'' then (data, had_data, [])
             else
               (let value_start = (if get_at line (colon_pos + 1) = Some SP
                                   then colon_pos + 2 else colon_pos + 1);
                    value = drop value_start line
                in (data @ (if had_data then [LF] else []) @ value, True, []))))"

definition set_scratch :: "sse_scan_state \<Rightarrow> sse_scan_state" where
  "set_scratch st =
     st\<lparr>scan_scratch_bytes := length (scan_line_buf st) + length (scan_data_buf st)\<rparr>"

text \<open>The byte loop; the last argument is the chunk from the current index on.\<close>

function scan_loop ::
  "nat \<Rightarrow> sse_scan_state \<Rightarrow> bytes list \<Rightarrow> bytes \<Rightarrow> sse_scan_state \<times> sse_scan_result" where
  "scan_loop max_scratch_bytes st ps [] =
     (set_scratch st, \<lparr>payloads = ps, overflowed = False\<rparr>)"
| "scan_loop max_scratch_bytes st ps (b # rest) =
     (let (st1, new) =
            (if b = LF \<or> b = CR then
               (let (data, had_data, new) =
                      scan_process_line (scan_line_buf st) (scan_data_buf st) (scan_has_data st)
                in (st\<lparr>scan_line_buf := [], scan_data_buf := data, scan_has_data := had_data,
                       scan_prev_cr := (if b = CR \<and> rest = [] then True else scan_prev_cr st)\<rparr>, new))
             else (st\<lparr>scan_line_buf := scan_line_buf st @ [b]\<rparr>, []));
          st2 = set_scratch st1
      in if scan_scratch_bytes st2 > max_scratch_bytes
         then (st2, \<lparr>payloads = ps @ new, overflowed = True\<rparr>)
         else scan_loop max_scratch_bytes st2 (ps @ new) (skip_lf b rest))"
  by pat_completeness auto
termination
  by (relation "measure (\<lambda>(_, _, _, bs). length bs)")
     (auto simp: less_Suc_eq_le slice_len)

declare scan_loop.simps [simp del]

definition scan_sse_chunk ::
  "sse_scan_state \<Rightarrow> bytes \<Rightarrow> nat \<Rightarrow> sse_scan_state \<times> sse_scan_result" where
  "scan_sse_chunk st chunk max_scratch_bytes =
     (let chunk' = (if scan_prev_cr st \<and> get_at chunk 0 = Some LF then tl chunk else chunk)
      in scan_loop max_scratch_bytes (st\<lparr>scan_prev_cr := False\<rparr>) [] chunk')"

section \<open>One byte\<close>

definition scan_byte :: "sse_scan_state \<Rightarrow> char \<Rightarrow> bool \<Rightarrow> sse_scan_state \<times> bytes list" where
  "scan_byte st b at_end =
     (if b = LF \<or> b = CR then
        (let (data, had_data, new) =
               scan_process_line (scan_line_buf st) (scan_data_buf st) (scan_has_data st)
         in (set_scratch (st\<lparr>scan_line_buf := [], scan_data_buf := data, scan_has_data := had_data,
                scan_prev_cr := (if b = CR \<and> at_end then True else scan_prev_cr st)\<rparr>), new))
      else (set_scratch (st\<lparr>scan_line_buf := scan_line_buf st @ [b]\<rparr>), []))"

definition scanned :: "sse_scan_state \<times> sse_scan_result \<Rightarrow> bytes list + bytes list \<times> sse_scan_state" where
  "scanned r = (if overflowed (snd r) then Inl (payloads (snd r)) else Inr (payloads (snd r), fst r))"

lemma scanned_Nil: "scanned (scan_loop mx st ps []) = Inr (ps, set_scratch st)"
  by (simp add: scanned_def scan_loop.simps)

lemma scanned_Cons:
  "scanned (scan_loop mx st ps (b # rest)) =
     (let (st', new) = scan_byte st b (rest = [])
      in if scan_scratch_bytes st' > mx then Inl (ps @ new)
         else scanned (scan_loop mx st' (ps @ new) (skip_lf b rest)))"
  by (simp add: scan_loop.simps(2) scan_byte_def scanned_def Let_def split: prod.split)

lemmas scanned_loop = scanned_Nil scanned_Cons

text \<open>The payloads found before only come first.\<close>

lemma scanned_acc:
  "scanned (scan_loop mx st (ps @ qs) bs) =
     map_sum (append ps) (map_prod (append ps) id) (scanned (scan_loop mx st qs bs))"
proof (induction bs arbitrary: st qs rule: measure_induct_rule [where f = length])
  case (less bs)
  show ?case
  proof (cases bs)
    case Nil
    then show ?thesis by (simp add: scanned_Nil)
  next
    case (Cons b rest)
    then have "length (skip_lf b rest) < length bs" using length_skip_lf [of b rest] by simp
    from less [OF this] Cons show ?thesis
      by (simp add: scanned_Cons Let_def split: prod.split)
  qed
qed

lemma scan_byte_scratch:
  "scan_byte (st\<lparr>scan_scratch_bytes := k\<rparr>) b e = scan_byte st b e"
  by (simp add: scan_byte_def set_scratch_def split: prod.split)

lemma scanned_scratch:
  "scanned (scan_loop mx (st\<lparr>scan_scratch_bytes := k\<rparr>) ps bs) = scanned (scan_loop mx st ps bs)"
  by (cases bs) (simp_all add: scanned_loop scan_byte_scratch set_scratch_def)

text \<open>Looking at the end of the chunk only matters for \<open>prev_cr\<close>.\<close>

lemma scan_byte_at_end:
  "scan_byte st b True =
     (let (st', new) = scan_byte st b False
      in ((if b = CR then st'\<lparr>scan_prev_cr := True\<rparr> else st'), new))"
  by (simp add: scan_byte_def set_scratch_def Let_def split: prod.split)

lemma scan_byte_prev_cr: "scan_byte st b False = (st', new) \<Longrightarrow> scan_prev_cr st' = scan_prev_cr st"
  by (auto simp: scan_byte_def set_scratch_def Let_def split: if_splits prod.splits)

section \<open>The chunking contract\<close>

definition scan_resume :: "sse_scan_state \<Rightarrow> bytes \<Rightarrow> bytes" where
  "scan_resume st bs = (if scan_prev_cr st \<and> get_at bs 0 = Some LF then tl bs else bs)"

lemma scan_loop_append:
  assumes "as \<noteq> []" and "bs \<noteq> []" and "\<not> scan_prev_cr st"
  shows "scanned (scan_loop mx st ps (as @ bs)) =
    (case scanned (scan_loop mx st ps as) of
       Inl qs \<Rightarrow> Inl qs
     | Inr (qs, st') \<Rightarrow> scanned (scan_loop mx (st'\<lparr>scan_prev_cr := False\<rparr>) qs (scan_resume st' bs)))"
  using assms(1,3)
proof (induction as arbitrary: st ps rule: measure_induct_rule [where f = length])
  case (less as)
  then obtain b rest where as: "as = b # rest" by (cases as) auto
  obtain st' new where sb: "scan_byte st b False = (st', new)" by (cases "scan_byte st b False")
  with less.prems have cr: "\<not> scan_prev_cr st'" by (simp add: scan_byte_prev_cr)
  show ?case
  proof (cases "rest = []")
    case True
    define st2 where "st2 = (if b = CR then st'\<lparr>scan_prev_cr := True\<rparr> else st')"
    have sc: "scan_scratch_bytes st2 = scan_scratch_bytes st'" by (simp add: st2_def)
    have clr: "(set_scratch st2)\<lparr>scan_prev_cr := False\<rparr> =
        st'\<lparr>scan_scratch_bytes := length (scan_line_buf st') + length (scan_data_buf st')\<rparr>"
      using cr by (simp add: st2_def set_scratch_def)
    have res: "scan_resume (set_scratch st2) bs = skip_lf b bs"
      using cr by (simp add: scan_resume_def skip_lf_def st2_def set_scratch_def)
    from True as sb sc clr res \<open>bs \<noteq> []\<close> show ?thesis
      by (simp add: scanned_loop scan_byte_at_end Let_def skip_lf_def [of b "[]"] get_at_def [of "[]"]
          scanned_scratch flip: st2_def)
  next
    case False
    show ?thesis
    proof (cases "skip_lf b rest = []")
      case True
      with False have br: "b = CR" "rest = [LF]"
        by (auto simp: skip_lf_def get_at_def split: if_splits; cases rest; simp)+
      have idle: "st'\<lparr>scan_scratch_bytes := k, scan_prev_cr := False\<rparr> =
          st'\<lparr>scan_scratch_bytes := k\<rparr>" for k
        using cr by (cases st') simp
      from br as sb cr \<open>bs \<noteq> []\<close> show ?thesis
        by (simp add: scanned_loop Let_def skip_lf_def get_at_def scan_resume_def set_scratch_def
            idle scanned_scratch)
    next
      case nz: False
      have "length (skip_lf b rest) < length as"
        using as length_skip_lf [of b rest] by simp
      from less.IH [OF this nz cr] as sb False \<open>bs \<noteq> []\<close> show ?thesis
        by (simp add: scanned_Cons Let_def skip_lf_append)
    qed
  qed
qed

definition feed_scan ::
  "nat \<Rightarrow> sse_scan_state \<Rightarrow> bytes \<Rightarrow> bytes list + bytes list \<times> sse_scan_state" where
  "feed_scan mx st chunk = scanned (scan_sse_chunk st chunk mx)"

lemma feed_scan_eq:
  "feed_scan mx st chunk =
     scanned (scan_loop mx (st\<lparr>scan_prev_cr := False\<rparr>) [] (scan_resume st chunk))"
  by (simp add: feed_scan_def scan_sse_chunk_def scan_resume_def Let_def)

lemma feed_scan_append:
  assumes "as \<noteq> []" and "bs \<noteq> []"
  shows "feed_scan mx st (as @ bs) = feed_then append (\<lambda>t. feed_scan mx t bs) (feed_scan mx st as)"
proof -
  let ?st = "st\<lparr>scan_prev_cr := False\<rparr>"
  have acc: "scanned (scan_loop mx t qs cs) =
      map_sum (append qs) (map_prod (append qs) id) (scanned (scan_loop mx t [] cs))" for t qs cs
    using scanned_acc [of mx t qs "[]" cs] by simp
  show ?thesis
  proof (cases "scan_resume st as = []")
    case True
    with assms have st: "scan_prev_cr st" "as = [LF]"
      by (auto simp: scan_resume_def get_at_def split: if_splits; cases as; simp)+
    then have "scan_resume st (as @ bs) = bs" by (simp add: scan_resume_def get_at_def)
    moreover have "scan_resume (set_scratch ?st) bs = bs"
      by (simp add: scan_resume_def set_scratch_def)
    moreover have "(set_scratch ?st)\<lparr>scan_prev_cr := False\<rparr> =
        ?st\<lparr>scan_scratch_bytes := length (scan_line_buf st) + length (scan_data_buf st)\<rparr>"
      by (simp add: set_scratch_def)
    ultimately show ?thesis using True
      by (auto simp: feed_scan_eq scanned_Nil feed_then_def scanned_scratch split: sum.split)
  next
    case False
    have "scan_resume st (as @ bs) = scan_resume st as @ bs"
      using assms by (simp add: scan_resume_def get_at_def nth_append)
    then have whole: "feed_scan mx st (as @ bs) =
        (case feed_scan mx st as of
           Inl qs \<Rightarrow> Inl qs
         | Inr (qs, st') \<Rightarrow> scanned (scan_loop mx (st'\<lparr>scan_prev_cr := False\<rparr>) qs (scan_resume st' bs)))"
      using scan_loop_append [OF False assms(2), of ?st mx "[]"] by (simp add: feed_scan_eq)
    have "scanned (scan_loop mx (t\<lparr>scan_prev_cr := False\<rparr>) qs (scan_resume t bs)) =
        map_sum (append qs) (map_prod (append qs) id) (feed_scan mx t bs)" for t qs
      unfolding feed_scan_eq by (rule acc)
    then show ?thesis
      unfolding whole feed_then_def by (auto simp: map_sum_def split: sum.split)
  qed
qed

interpretation a2a_scan: chunked_scanner "feed_scan mx" append "\<lambda>_. True"
  by unfold_locales (simp_all add: feed_scan_append)

section \<open>The line reading\<close>

text \<open>The event type plays no part in the payloads.\<close>

lemma dispatch_data_any:
  "map frame_data (dispatch ev ds ls) = map frame_data (dispatch ev' ds ls)"
proof (induction ls arbitrary: ev ev' ds)
  case Nil
  then show ?case by simp
next
  case (Cons l ls)
  have "map frame_data (dispatch e d ls) = map frame_data (dispatch e' d ls)" for e e' d
    by (rule Cons.IH)
  from this [of ev _ ev'] this [of "Some x" _ "Some x" for x] show ?case
    by (auto split: sse_field.split)
qed

definition scans_as :: "bytes \<Rightarrow> bool \<Rightarrow> bytes list \<Rightarrow> bool" where
  "scans_as data had_data ds \<longleftrightarrow> had_data = (ds \<noteq> []) \<and> data = str_join [LF] ds"

lemma scan_process_line_reads:
  assumes "scans_as d h ds" and "scan_process_line line d h = (d', h', new)"
  shows "\<exists>ds'. scans_as d' h' ds' \<and>
    (\<forall>ls. map frame_data (dispatch None ds (line # ls)) = new @ map frame_data (dispatch None ds' ls))"
proof (cases "line = []")
  case True
  have "scans_as d' h' []"
    using assms True by (auto simp: scan_process_line_def scans_as_def split: if_splits)
  moreover have "\<forall>ls. map frame_data (dispatch None ds (line # ls)) = new @ map frame_data (dispatch None [] ls)"
    using assms True by (auto simp: scan_process_line_def scans_as_def split: if_splits)
  ultimately show ?thesis by blast
next
  case False
  show ?thesis
  proof (cases "position (\<lambda>b. b = CHR '':'') line")
    case None
    with False assms show ?thesis
      by (auto simp: scan_process_line_def sse_field_def split_once_position split: if_splits)
  next
    case (Some i)
    define v where "v = drop (if get_at line (i + 1) = Some SP then i + 2 else i + 1) line"
    have v_eq: "v = (case drop (Suc i) line of c # cs \<Rightarrow> if c = SP then cs else c # cs | [] \<Rightarrow> [])"
      unfolding v_def by (rule colon_value)
    have i0: "get_at line 0 = Some (CHR '':'') \<Longrightarrow> i = 0"
      using Some position_Some_iff [of "\<lambda>b. b = CHR '':''" line i]
      by (auto simp: get_at_def split: if_splits)
    have fld: "sse_field line =
        (if take i line = ''data'' then Data_field v
         else if take i line = ''event'' then Event_field v else Other_field)"
      using Some v_eq by (simp add: sse_field_def split_once_position Let_def split: list.split)
    have pl: "(d', h', new) =
        (if take i line = ''data'' then (d @ (if h then [LF] else []) @ v, True, []) else (d, h, []))"
      unfolding assms(2) [symmetric] scan_process_line_def v_def using False Some i0
      by (cases "get_at line 0 = Some (CHR '':'')") (simp_all add: Let_def)
    show ?thesis
    proof (cases "take i line = ''data''")
      case True
      with pl assms(1) have "scans_as d' h' (ds @ [v])"
        by (auto simp: scans_as_def str_join_snoc)
      with True pl fld False show ?thesis by (intro exI [of _ "ds @ [v]"]) simp
    next
      case other: False
      with pl assms(1) fld False show ?thesis
        using dispatch_data_any [of "Some (from_utf8_lossy v)" ds _ None]
        by (intro exI [of _ ds]) auto
    qed
  qed
qed

lemma scan_loop_dispatch:
  assumes "scanned (scan_loop mx st ps bs) = Inr (qs, t)"
    and "scans_as (scan_data_buf st) (scan_has_data st) ds" and "LF \<notin> set (scan_line_buf st)"
  shows "qs = ps @ map frame_data (dispatch None ds (complete_lines (scan_line_buf st @ norm_eol bs)))"
  using assms
proof (induction bs arbitrary: st ps ds rule: measure_induct_rule [where f = length])
  case (less bs)
  show ?case
  proof (cases bs)
    case Nil
    with less.prems show ?thesis by (simp add: scanned_Nil complete_lines_plain)
  next
    case (Cons b rest)
    obtain st' new where sb: "scan_byte st b (rest = []) = (st', new)"
      by (cases "scan_byte st b (rest = [])")
    with less.prems(1) Cons have loop: "scanned (scan_loop mx st' (ps @ new) (skip_lf b rest)) = Inr (qs, t)"
      by (simp add: scanned_Cons split: if_splits)
    have shorter: "length (skip_lf b rest) < length bs"
      using Cons length_skip_lf [of b rest] by simp
    show ?thesis
    proof (cases "b = LF \<or> b = CR")
      case True
      obtain d h new' where pl: "scan_process_line (scan_line_buf st) (scan_data_buf st) (scan_has_data st) = (d, h, new')"
        by (cases "scan_process_line (scan_line_buf st) (scan_data_buf st) (scan_has_data st)")
      from scan_process_line_reads [OF less.prems(2) pl] obtain ds' where
        r: "scans_as d h ds'" and
        e: "\<And>ls. map frame_data (dispatch None ds (scan_line_buf st # ls)) = new' @ map frame_data (dispatch None ds' ls)"
        by blast
      from sb True pl have st': "scan_line_buf st' = []" "scan_data_buf st' = d" "scan_has_data st' = h" "new = new'"
        by (auto simp: scan_byte_def set_scratch_def)
      with less.IH [OF shorter loop] r have
        "qs = (ps @ new') @ map frame_data (dispatch None ds' (complete_lines (norm_eol (skip_lf b rest))))"
        by simp
      with less.prems(3) Cons True show ?thesis
        by (simp add: norm_eol_break complete_lines_break e del: dispatch.simps(2) norm_eol.simps(2))
    next
      case False
      with sb have "st' = set_scratch (st\<lparr>scan_line_buf := scan_line_buf st @ [b]\<rparr>)" "new = []"
        by (auto simp: scan_byte_def)
      moreover from False have "b \<noteq> LF" "b \<noteq> CR" "LF \<noteq> b" by auto
      ultimately show ?thesis using less.prems less.IH [OF shorter loop, of ds] Cons
        by (simp add: skip_lf_other set_scratch_def)
    qed
  qed
qed

lemma feed_scan_dispatch:
  assumes "feed_scan mx default_scan_state bs = Inr (ps, t)"
  shows "ps = map frame_data (stream_frames bs)"
proof -
  have "scan_resume default_scan_state bs = bs" by (simp add: scan_resume_def default_scan_state_def)
  with assms have "scanned (scan_loop mx (default_scan_state\<lparr>scan_prev_cr := False\<rparr>) [] bs) = Inr (ps, t)"
    by (simp add: feed_scan_eq)
  from scan_loop_dispatch [OF this, of "[]"] show ?thesis
    by (simp add: scans_as_def default_scan_state_def stream_frames_def)
qed

lemma feed_all_scan_dispatch:
  assumes "feed_all append (feed_scan mx) default_scan_state cs = Inr (ps, t)" and "[] \<notin> set cs"
  shows "ps = map frame_data (stream_frames (concat cs))"
proof (cases "cs = []")
  case True
  with assms show ?thesis by (simp add: stream_frames_def complete_lines_def)
next
  case False
  with assms have "feed_scan mx default_scan_state (concat cs) = Inr (ps, t)"
    using a2a_scan.feed_all_concat [of cs mx default_scan_state] by simp
  then show ?thesis by (rule feed_scan_dispatch)
qed

section \<open>Properties\<close>

text \<open>
  C36. The scanner reads the stream like the frame parser of the Responses API: for every
  splitting into non-empty chunks that stays within the scratch limit, the payloads are the
  data fields of the frames of the whole stream.
\<close>

theorem a2a_scan_refines_frames:
  assumes "feed_all append (feed_scan mx) default_scan_state cs = Inr (ps, t)" and "[] \<notin> set cs"
  shows "ps = map frame_data (stream_frames (concat cs))"
  using assms by (rule feed_all_scan_dispatch)

lemma a2a_scan_refines_frames_witness:
  "\<exists>t. feed_all append (feed_scan 20) default_scan_state
      [''event: x'' @ [CR], LF # ''data:b'', [LF] @ ''data: c'' @ [LF, CR]] = Inr ([''b'' @ [LF] @ ''c''], t) \<and>
    [''b'' @ [LF] @ ''c''] = map frame_data (stream_frames (concat
      [''event: x'' @ [CR], LF # ''data:b'', [LF] @ ''data: c'' @ [LF, CR]]))"
proof -
  let ?cs = "[''event: x'' @ [CR], LF # ''data:b'', [LF] @ ''data: c'' @ [LF, CR]]"
  have "map_sum id fst (feed_all append (feed_scan 20) default_scan_state ?cs) = Inr [''b'' @ [LF] @ ''c'']"
    by code_simp
  from map_sum_InrD [OF this] obtain t where
    t: "feed_all append (feed_scan 20) default_scan_state ?cs = Inr ([''b'' @ [LF] @ ''c''], t)" by auto
  from a2a_scan_refines_frames [OF t] t show ?thesis by simp
qed

text \<open>
  The chunks have to be non-empty: an empty chunk between the two halves of a CRLF makes the
  scanner forget the carriage return, and an event that goes on is delivered in two parts.
\<close>

theorem a2a_scan_empty_chunk:
  "map_sum id fst (feed_all append (feed_scan 99) default_scan_state
      [''data: a'' @ [CR], [LF] @ ''data: b'' @ [LF, LF]]) = Inr [''a'' @ [LF] @ ''b''] \<and>
   map_sum id fst (feed_all append (feed_scan 99) default_scan_state
      [''data: a'' @ [CR], [], [LF] @ ''data: b'' @ [LF, LF]]) = Inr [''a'', ''b'']"
  by code_simp

end
