(* ===== verification/A2a_Routes.thy ===== *)
theory A2a_Routes
  imports Json "HOL-Library.AList"
begin

text \<open>
  The task routes of the A2A filter, \<open>filters/src/agentic/a2a/task_routing.rs\<close>: the in-process
  store that maps a task to the cluster that owns it, and the extraction of a route from a
  JSON-RPC response. Times are nanoseconds; the hash map is an association list with distinct
  keys. A lookup takes the lock twice, so it is two atomic sections; the step relation below
  interleaves the sections of any number of requests.
\<close>

section \<open>Constants and configuration\<close>

definition MAX_ID_LEN :: nat where "MAX_ID_LEN = 256"
definition MAX_TASK_ROUTES :: nat where "MAX_TASK_ROUTES = 50000"
definition SECOND :: nat where "SECOND = 10 ^ 9"
definition EVICTION_INTERVAL :: nat where "EVICTION_INTERVAL = 30 * SECOND"

datatype on_lookup_miss = Continue_miss
datatype task_route_store = Local

record task_routing_config =
  enabled :: bool
  max_response_body_bytes :: nat
  on_miss :: on_lookup_miss
  route_cluster_header :: str
  route_store :: task_route_store
  terminal_ttl_seconds :: nat
  ttl_seconds :: nat

definition default_task_routing_config :: task_routing_config where
  "default_task_routing_config =
     \<lparr>enabled = False, max_response_body_bytes = 65536, on_miss = Continue_miss,
      route_cluster_header = ''x-praxis-a2a-route-cluster'', route_store = Local,
      terminal_ttl_seconds = 300, ttl_seconds = 3600\<rparr>"

record task_route =
  route_cluster :: str
  expires_at :: nat

record extracted_task_route =
  terminal :: bool
  task_id :: str

record route_store =
  tasks :: "(str \<times> task_route) list"
  last_eviction :: nat

section \<open>The store\<close>

definition new_store :: "nat \<Rightarrow> route_store" where
  "new_store now = \<lparr>tasks = [], last_eviction = now\<rparr>"

definition validate_id :: "externals \<Rightarrow> str \<Rightarrow> bool" where
  "validate_id ext tid \<longleftrightarrow>
     tid \<noteq> [] \<and> length tid \<le> MAX_ID_LEN \<and> \<not> contains_control_chars ext tid"

text \<open>
  The first section of a lookup, under the read lock: the cluster of a live route, or whether
  an expired one is present. The second, under the write lock, checks again and removes it.
\<close>

datatype lookup_outcome = Hit str | Stale | Absent

definition lookup_section :: "nat \<Rightarrow> route_store \<Rightarrow> str \<Rightarrow> lookup_outcome" where
  "lookup_section now st tid =
     (case map_of (tasks st) tid of
        None \<Rightarrow> Absent
      | Some r \<Rightarrow> if now < expires_at r then Hit (route_cluster r) else Stale)"

definition evict_section :: "nat \<Rightarrow> route_store \<Rightarrow> str \<Rightarrow> route_store" where
  "evict_section now st tid =
     (case map_of (tasks st) tid of
        None \<Rightarrow> st
      | Some r \<Rightarrow> if now \<ge> expires_at r then st\<lparr>tasks := AList.delete tid (tasks st)\<rparr> else st)"

definition get_by_task_id :: "nat \<Rightarrow> nat \<Rightarrow> route_store \<Rightarrow> str \<Rightarrow> str option \<times> route_store" where
  "get_by_task_id now now' st tid =
     (case lookup_section now st tid of
        Hit c \<Rightarrow> (Some c, st)
      | Stale \<Rightarrow> (None, evict_section now' st tid)
      | Absent \<Rightarrow> (None, st))"

text \<open>The sweep, when the lock of the eviction time is free and the interval has passed.\<close>

definition maybe_evict :: "nat \<Rightarrow> bool \<Rightarrow> route_store \<Rightarrow> route_store" where
  "maybe_evict now lock_free st =
     (if \<not> lock_free then st
      else if now - last_eviction st < EVICTION_INTERVAL then st
      else st\<lparr>tasks := filter (\<lambda>(_, r). now < expires_at r) (tasks st), last_eviction := now\<rparr>)"

text \<open>
  \<open>Instant + Duration\<close> panics when the seconds of the result do not fit a signed 64-bit
  number.
\<close>

definition instant_add :: "nat \<Rightarrow> nat \<Rightarrow> nat option" where
  "instant_add t d = (if (t + d) div SECOND < 2 ^ 63 then Some (t + d) else None)"

definition put_route ::
  "externals \<Rightarrow> nat \<Rightarrow> bool \<Rightarrow> str \<Rightarrow> str \<Rightarrow> nat \<Rightarrow> route_store \<Rightarrow> route_store option" where
  "put_route ext now lock_free tid cluster ttl st =
     (if \<not> validate_id ext tid then Some st
      else (case instant_add now ttl of
              None \<Rightarrow> None
            | Some deadline \<Rightarrow>
                (let st1 = maybe_evict now lock_free st
                 in if length (tasks st1) \<ge> MAX_TASK_ROUTES \<and> tid \<notin> fst ` set (tasks st1)
                    then Some st1
                    else Some (st1\<lparr>tasks := AList.update tid
                           \<lparr>route_cluster = cluster, expires_at = deadline\<rparr> (tasks st1)\<rparr>))))"

definition remove_route :: "str \<Rightarrow> route_store \<Rightarrow> route_store" where
  "remove_route tid st = st\<lparr>tasks := AList.delete tid (tasks st)\<rparr>"

section \<open>Extraction\<close>

definition is_terminal_state :: "str \<Rightarrow> bool" where
  "is_terminal_state state \<longleftrightarrow>
     state \<in> {''TASK_STATE_COMPLETED'', ''TASK_STATE_FAILED'', ''TASK_STATE_CANCELED'',
              ''TASK_STATE_REJECTED'', ''completed'', ''failed'', ''canceled'', ''cancelled'',
              ''rejected''}"

definition has_terminal_status :: "json \<Rightarrow> bool" where
  "has_terminal_status v =
     (case Option.bind (jget v ''status'') (\<lambda>s. get_str s ''state'') of
        None \<Rightarrow> False | Some state \<Rightarrow> is_terminal_state state)"

definition extract_from_task_object :: "externals \<Rightarrow> json \<Rightarrow> extracted_task_route option" where
  "extract_from_task_object ext task =
     Option.bind (get_str task ''id'') (\<lambda>tid.
       if \<not> validate_id ext tid then None
       else Some \<lparr>terminal = has_terminal_status task, task_id = tid\<rparr>)"

definition extract_from_status_update :: "externals \<Rightarrow> json \<Rightarrow> extracted_task_route option" where
  "extract_from_status_update ext update =
     Option.bind (get_str update ''taskId'') (\<lambda>tid.
       if \<not> validate_id ext tid then None
       else Some \<lparr>terminal = has_terminal_status update, task_id = tid\<rparr>)"

definition extract_from_artifact_update :: "externals \<Rightarrow> json \<Rightarrow> extracted_task_route option" where
  "extract_from_artifact_update ext update =
     Option.bind (get_str update ''taskId'') (\<lambda>tid.
       if \<not> validate_id ext tid then None
       else Some \<lparr>terminal = False, task_id = tid\<rparr>)"

definition extract_task_route :: "externals \<Rightarrow> json \<Rightarrow> extracted_task_route option" where
  "extract_task_route ext v =
     Option.bind (jget v ''result'') (\<lambda>result.
       case jget result ''task'' of
         Some task_obj \<Rightarrow> extract_from_task_object ext task_obj
       | None \<Rightarrow>
           if jget result ''id'' \<noteq> None \<and> jget result ''status'' \<noteq> None
           then extract_from_task_object ext result
           else (case jget result ''statusUpdate'' of
                   Some status_update \<Rightarrow> extract_from_status_update ext status_update
                 | None \<Rightarrow>
                     (case jget result ''artifactUpdate'' of
                        Some artifact_update \<Rightarrow> extract_from_artifact_update ext artifact_update
                      | None \<Rightarrow> None)))"

definition route_ttl :: "bool \<Rightarrow> task_routing_config \<Rightarrow> nat" where
  "route_ttl is_final config =
     (if is_final then terminal_ttl_seconds config * SECOND else ttl_seconds config * SECOND)"

definition store_task_route ::
  "externals \<Rightarrow> nat \<Rightarrow> bool \<Rightarrow> task_routing_config \<Rightarrow> str \<Rightarrow> json \<Rightarrow> route_store \<Rightarrow> route_store option" where
  "store_task_route ext now lock_free config cluster v st =
     (case extract_task_route ext v of
        None \<Rightarrow> Some st
      | Some extracted \<Rightarrow>
          (let ttl = route_ttl (terminal extracted) config
           in if terminal extracted \<and> terminal_ttl_seconds config = 0
              then Some (remove_route (task_id extracted) st)
              else put_route ext now lock_free (task_id extracted) cluster ttl st))"

section \<open>Invariant\<close>

definition store_ok :: "externals \<Rightarrow> route_store \<Rightarrow> bool" where
  "store_ok ext st \<longleftrightarrow>
     distinct (map fst (tasks st)) \<and> length (tasks st) \<le> MAX_TASK_ROUTES \<and>
     (\<forall>tid \<in> fst ` set (tasks st). validate_id ext tid)"

lemma store_ok_new: "store_ok ext (new_store t)"
  by (simp add: store_ok_def new_store_def)

lemma length_delete: "length (AList.delete k xs) \<le> length xs"
  by (simp add: AList.delete_eq)

lemma length_update:
  "length (AList.update k v xs) = (if k \<in> fst ` set xs then length xs else Suc (length xs))"
  by (induction xs) auto

lemma store_ok_delete: "store_ok ext st \<Longrightarrow> store_ok ext (st\<lparr>tasks := AList.delete k (tasks st)\<rparr>)"
  by (auto simp: store_ok_def AList.delete_eq distinct_map_filter intro: le_trans [OF length_filter_le])

lemma store_ok_update:
  assumes "store_ok ext st" and "validate_id ext k"
    and "k \<in> fst ` set (tasks st) \<or> length (tasks st) < MAX_TASK_ROUTES"
  shows "store_ok ext (st\<lparr>tasks := AList.update k v (tasks st)\<rparr>)"
  using assms
  by (auto simp: store_ok_def length_update distinct_update dom_update simp del: ball_simps)

lemma store_ok_evict: "store_ok ext st \<Longrightarrow> store_ok ext (evict_section now st tid)"
  by (auto simp: evict_section_def store_ok_delete split: option.split)

lemma store_ok_sweep: "store_ok ext st \<Longrightarrow> store_ok ext (maybe_evict now lf st)"
  by (auto simp: maybe_evict_def store_ok_def distinct_map_filter intro: le_trans [OF length_filter_le])

lemma store_ok_put:
  assumes "store_ok ext st" and "put_route ext now lf tid c ttl st = Some st'"
  shows "store_ok ext st'"
proof -
  have "store_ok ext (maybe_evict now lf st)" by (rule store_ok_sweep [OF assms(1)])
  with assms show ?thesis
    by (auto simp: put_route_def Let_def not_le intro!: store_ok_update split: if_splits option.splits)
qed

section \<open>Live routes\<close>

text \<open>The abstract store: the live routes at a time, as a map to cluster and deadline.\<close>

definition live_routes :: "nat \<Rightarrow> route_store \<Rightarrow> str \<rightharpoonup> str \<times> nat" where
  "live_routes now st tid =
     (case map_of (tasks st) tid of
        None \<Rightarrow> None
      | Some r \<Rightarrow> if now < expires_at r then Some (route_cluster r, expires_at r) else None)"

lemma lookup_section_live: "lookup_section now st tid = Hit c \<longleftrightarrow> (\<exists>e. live_routes now st tid = Some (c, e))"
  by (auto simp: lookup_section_def live_routes_def split: option.split)

lemma fst_get_by_task_id: "fst (get_by_task_id now now' st tid) = map_option fst (live_routes now st tid)"
  by (simp add: get_by_task_id_def lookup_section_def live_routes_def split: option.split)

lemma live_later:
  "now \<le> now' \<Longrightarrow> live_routes now' st tid =
     Option.bind (live_routes now st tid) (\<lambda>(c, e). if now' < e then Some (c, e) else None)"
  by (auto simp: live_routes_def split: option.split)

lemma live_delete:
  "live_routes now (st\<lparr>tasks := AList.delete k (tasks st)\<rparr>) = (live_routes now st)(k := None)"
  by (rule ext) (simp add: live_routes_def delete_conv)

lemma live_evict [simp]: "live_routes now (evict_section now st tid) = live_routes now st"
  by (rule ext) (auto simp: evict_section_def live_routes_def delete_conv split: option.split)

lemma map_of_filter_snd:
  "distinct (map fst xs) \<Longrightarrow> map_of (filter (\<lambda>(_, v). P v) xs) k =
     (case map_of xs k of None \<Rightarrow> None | Some v \<Rightarrow> if P v then Some v else None)"
  by (induction xs) (auto simp: map_of_eq_None_iff image_iff split: option.split)

lemma live_sweep:
  "store_ok ext st \<Longrightarrow> live_routes now (maybe_evict now lf st) = live_routes now st"
  by (rule HOL.ext)
    (auto simp: maybe_evict_def live_routes_def map_of_filter_snd store_ok_def split: option.split)

lemma live_put_other:
  assumes "store_ok ext st" and "put_route ext now lf k c ttl st = Some st'" and "tid \<noteq> k"
  shows "live_routes now st' tid = live_routes now st tid"
proof -
  from assms(2,3) have "live_routes now st' tid = live_routes now (maybe_evict now lf st) tid \<or> st' = st"
    by (auto simp: put_route_def Let_def live_routes_def update_conv split: if_splits option.splits)
  with live_sweep [OF assms(1)] show ?thesis by auto
qed

lemma live_put:
  assumes "put_route ext now lf k c ttl st = Some st'" and "validate_id ext k" and "0 < ttl"
    and "k \<in> fst ` set (tasks (maybe_evict now lf st)) \<or> length (tasks (maybe_evict now lf st)) < MAX_TASK_ROUTES"
  shows "live_routes now st' k = Some (c, now + ttl)"
  using assms
  by (auto simp: put_route_def Let_def live_routes_def update_conv instant_add_def split: if_splits)

section \<open>Interleaved requests\<close>

record route_sys =
  clock :: nat
  store_of :: route_store
  stale_reads :: "str list"

datatype route_label =
    Put_step str str nat bool
  | Remove_step str
  | Lookup_step str
  | Evict_step str
  | Tick_step nat

text \<open>
  One atomic section of one request, or the passing of time. A lookup that found an expired
  route leaves its second section to be done at any later point.
\<close>

inductive route_step :: "externals \<Rightarrow> route_sys \<Rightarrow> route_label \<Rightarrow> route_sys \<Rightarrow> bool" where
  put: "put_route ext (clock s) lf tid c ttl (store_of s) = Some st' \<Longrightarrow>
     route_step ext s (Put_step tid c ttl lf) (s\<lparr>store_of := st'\<rparr>)"
| remove: "route_step ext s (Remove_step tid) (s\<lparr>store_of := remove_route tid (store_of s)\<rparr>)"
| lookup: "route_step ext s (Lookup_step tid)
     (if lookup_section (clock s) (store_of s) tid = Stale
      then s\<lparr>stale_reads := tid # stale_reads s\<rparr> else s)"
| evict: "tid \<in> set (stale_reads s) \<Longrightarrow>
     route_step ext s (Evict_step tid)
       (s\<lparr>store_of := evict_section (clock s) (store_of s) tid,
          stale_reads := remove1 tid (stale_reads s)\<rparr>)"
| tick: "route_step ext s (Tick_step d) (s\<lparr>clock := clock s + d\<rparr>)"

inductive route_run :: "externals \<Rightarrow> route_sys \<Rightarrow> route_label list \<Rightarrow> route_sys \<Rightarrow> bool" where
  stop: "route_run ext s [] s"
| more: "route_step ext s l t \<Longrightarrow> route_run ext t ls u \<Longrightarrow> route_run ext s (l # ls) u"

inductive_simps route_step_simps [simp]:
  "route_step ext s (Put_step tid c ttl lf) t" "route_step ext s (Remove_step tid) t"
  "route_step ext s (Lookup_step tid) t" "route_step ext s (Evict_step tid) t"
  "route_step ext s (Tick_step d) t"

inductive_simps route_run_simps [simp]: "route_run ext s [] t" "route_run ext s (l # ls) t"

fun touches :: "str \<Rightarrow> route_label \<Rightarrow> bool" where
  "touches tid (Put_step k _ _ _) = (k = tid)"
| "touches tid (Remove_step k) = (k = tid)"
| "touches tid _ = False"

lemma route_step_ok: "route_step ext s l t \<Longrightarrow> store_ok ext (store_of s) \<Longrightarrow> store_ok ext (store_of t)"
  by (induction rule: route_step.induct)
    (auto simp: store_ok_put store_ok_evict remove_route_def store_ok_delete)

lemma route_run_ok: "route_run ext s ls t \<Longrightarrow> store_ok ext (store_of s) \<Longrightarrow> store_ok ext (store_of t)"
  by (induction rule: route_run.induct) (auto dest: route_step_ok)

lemma route_step_clock: "route_step ext s l t \<Longrightarrow> clock s \<le> clock t"
  by (induction rule: route_step.induct) auto

lemma route_run_clock: "route_run ext s ls t \<Longrightarrow> clock s \<le> clock t"
  by (induction rule: route_run.induct) (auto dest: route_step_clock)

lemma route_step_live:
  assumes "route_step ext s l t" and "store_ok ext (store_of s)" and "\<not> touches tid l"
  shows "live_routes (clock t) (store_of t) tid = live_routes (clock t) (store_of s) tid"
  using assms
  by (induction rule: route_step.induct) (auto simp: live_put_other remove_route_def live_delete)

lemma route_run_live:
  assumes "route_run ext s ls t" and "store_ok ext (store_of s)" and "\<not> list_ex (touches tid) ls"
  shows "live_routes (clock t) (store_of t) tid = live_routes (clock t) (store_of s) tid"
  using assms
proof (induction rule: route_run.induct)
  case (stop ext s)
  then show ?case by simp
next
  case (more ext s l t ls u)
  then have "live_routes (clock u) (store_of u) tid = live_routes (clock u) (store_of t) tid"
    using route_step_ok by auto
  also have "\<dots> = live_routes (clock u) (store_of s) tid"
    using more route_step_live [of ext s l t tid] route_run_clock [of ext t ls u]
    by (simp add: live_later [of "clock t" "clock u"])
  finally show ?case .
qed

lemma put_then_lookup:
  assumes "store_ok ext (store_of s)" and "validate_id ext tid" and "0 < ttl"
    and "put_route ext (clock s) lf tid c ttl (store_of s) = Some st"
    and "tid \<in> fst ` set (tasks st)"
    and "route_run ext (s\<lparr>store_of := st\<rparr>) ls t" and "\<not> list_ex (touches tid) ls"
  shows "fst (get_by_task_id (clock t) now' (store_of t) tid) =
    (if clock t < clock s + ttl then Some c else None)"
proof -
  from assms(4) have "tid \<in> fst ` set (tasks (maybe_evict (clock s) lf (store_of s))) \<or>
      length (tasks (maybe_evict (clock s) lf (store_of s))) < MAX_TASK_ROUTES"
    using assms(2,5) by (auto simp: put_route_def Let_def split: if_splits option.splits)
  from live_put [OF assms(4,2,3) this] have
    now: "live_routes (clock s) st tid = Some (c, clock s + ttl)" .
  from store_ok_put [OF assms(1,4)] have ok: "store_ok ext st" .
  have "clock s \<le> clock t" using route_run_clock [OF assms(6)] by simp
  have "live_routes (clock t) (store_of t) tid =
      (if clock t < clock s + ttl then Some (c, clock s + ttl) else None)"
    using route_run_live [OF assms(6) _ assms(7)] ok now \<open>clock s \<le> clock t\<close>
    by (simp add: live_later [of "clock s" "clock t"])
  then show ?thesis by (simp add: fst_get_by_task_id)
qed

section \<open>Properties\<close>

text \<open>
  The route store keeps its bounds under any interleaving of requests: every task id once,
  at most \<open>MAX_TASK_ROUTES\<close> routes, and only ids that are valid.
\<close>

theorem route_store_bounded:
  assumes "route_run ext \<lparr>clock = t0, store_of = new_store t0, stale_reads = []\<rparr> ls s"
  shows "distinct (map fst (tasks (store_of s))) \<and> length (tasks (store_of s)) \<le> MAX_TASK_ROUTES \<and>
    (\<forall>tid \<in> fst ` set (tasks (store_of s)).
       tid \<noteq> [] \<and> length tid \<le> 256 \<and> \<not> contains_control_chars ext tid)"
proof -
  have "store_ok ext (store_of s)"
    by (rule route_run_ok [OF assms]) (simp add: store_ok_new)
  then show ?thesis by (auto simp: store_ok_def validate_id_def MAX_ID_LEN_def)
qed

definition demo_store :: route_store where
  "demo_store = \<lparr>tasks = [(''t1'', \<lparr>route_cluster = ''c1'', expires_at = 5\<rparr>)], last_eviction = 0\<rparr>"

lemma demo_put: "put_route null_ext 0 True ''t1'' ''c1'' 5 (new_store 0) = Some demo_store"
  by code_simp

lemma route_store_bounded_witness:
  "route_run null_ext \<lparr>clock = 0, store_of = new_store 0, stale_reads = []\<rparr>
     [Put_step ''t1'' ''c1'' 5 True, Tick_step 7, Lookup_step ''t1'']
     \<lparr>clock = 7, store_of = demo_store, stale_reads = [''t1'']\<rparr> \<and>
   length (tasks demo_store) \<le> MAX_TASK_ROUTES"
proof -
  have "lookup_section 7 demo_store ''t1'' = Stale" by code_simp
  then have run: "route_run null_ext \<lparr>clock = 0, store_of = new_store 0, stale_reads = []\<rparr>
     [Put_step ''t1'' ''c1'' 5 True, Tick_step 7, Lookup_step ''t1'']
     \<lparr>clock = 7, store_of = demo_store, stale_reads = [''t1'']\<rparr>"
    by (simp add: demo_put)
  from route_store_bounded [OF run] run show ?thesis by simp
qed

text \<open>
  C35. A route lives until its deadline: once a put is accepted, whatever other requests do in
  between (their own puts, sweeps, lazy evictions from lookups begun earlier), a lookup before
  the deadline finds the cluster, and a lookup from the deadline on does not, as long as nobody
  puts or removes this task again.
\<close>

theorem route_lives_until_deadline:
  assumes "store_ok ext (store_of s)" and "validate_id ext tid" and "0 < ttl"
    and "put_route ext (clock s) lf tid c ttl (store_of s) = Some st"
    and "tid \<in> fst ` set (tasks st)"
    and "route_run ext (s\<lparr>store_of := st\<rparr>) ls t" and "\<not> list_ex (touches tid) ls"
  shows "fst (get_by_task_id (clock t) now' (store_of t) tid) =
    (if clock t < clock s + ttl then Some c else None)"
  using assms by (rule put_then_lookup)

lemma route_lives_until_deadline_witness:
  "fst (get_by_task_id 4 4 demo_store ''t1'') = Some ''c1''"
proof -
  let ?s = "\<lparr>clock = 0, store_of = new_store 0, stale_reads = [''t1'']\<rparr>"
  have "evict_section 4 demo_store ''t1'' = demo_store" by code_simp
  then have "route_run null_ext (?s\<lparr>store_of := demo_store\<rparr>) [Tick_step 4, Evict_step ''t1'']
      \<lparr>clock = 4, store_of = demo_store, stale_reads = []\<rparr>"
    by simp
  moreover have "validate_id null_ext ''t1''" "''t1'' \<in> fst ` set (tasks demo_store)" by code_simp+
  ultimately show ?thesis
    using route_lives_until_deadline [of null_ext ?s "''t1''" 5 True "''c1''" demo_store
        "[Tick_step 4, Evict_step ''t1'']" "\<lparr>clock = 4, store_of = demo_store, stale_reads = []\<rparr>" 4]
      demo_put store_ok_new by simp
qed

end
