(* ===== verification/A2a.thy ===== *)
theory A2a
  imports Praxis Hex A2a_Sse A2a_Routes
begin

text \<open>
  The A2A filter, \<open>filters/src/agentic/a2a\<close>: the method classification and envelope of a
  request (\<open>envelope.rs\<close>), its configuration (\<open>config.rs\<close>) and the handlers (\<open>mod.rs\<close>) that
  promote the envelope, look up the task route and capture routes from responses. What a
  response has shown so far is kept as hexadecimal text in the metadata.
\<close>

section \<open>Methods\<close>

datatype a2a_method =
    SendMessage | SendStreamingMessage | GetTask | ListTasks | CancelTask | SubscribeToTask
  | CreateTaskPushNotificationConfig | GetTaskPushNotificationConfig
  | ListTaskPushNotificationConfigs | DeleteTaskPushNotificationConfig
  | GetExtendedAgentCard
  | Unknown_method str

datatype a2a_family = Message_family | Task_family | PushNotification | AgentCard | Unknown_family

definition from_method_str :: "(str \<rightharpoonup> str) \<Rightarrow> str \<Rightarrow> a2a_method" where
  "from_method_str aliases s =
     (let canonical = unwrap_or s (aliases s) in
      if canonical = ''SendMessage'' then SendMessage
      else if canonical = ''SendStreamingMessage'' then SendStreamingMessage
      else if canonical = ''GetTask'' then GetTask
      else if canonical = ''ListTasks'' then ListTasks
      else if canonical = ''CancelTask'' then CancelTask
      else if canonical = ''SubscribeToTask'' then SubscribeToTask
      else if canonical = ''CreateTaskPushNotificationConfig'' then CreateTaskPushNotificationConfig
      else if canonical = ''GetTaskPushNotificationConfig'' then GetTaskPushNotificationConfig
      else if canonical = ''ListTaskPushNotificationConfigs'' then ListTaskPushNotificationConfigs
      else if canonical = ''DeleteTaskPushNotificationConfig'' then DeleteTaskPushNotificationConfig
      else if canonical = ''GetExtendedAgentCard'' then GetExtendedAgentCard
      else Unknown_method canonical)"

fun a2a_method_str :: "a2a_method \<Rightarrow> str" where
  "a2a_method_str SendMessage = ''SendMessage''"
| "a2a_method_str SendStreamingMessage = ''SendStreamingMessage''"
| "a2a_method_str GetTask = ''GetTask''"
| "a2a_method_str ListTasks = ''ListTasks''"
| "a2a_method_str CancelTask = ''CancelTask''"
| "a2a_method_str SubscribeToTask = ''SubscribeToTask''"
| "a2a_method_str CreateTaskPushNotificationConfig = ''CreateTaskPushNotificationConfig''"
| "a2a_method_str GetTaskPushNotificationConfig = ''GetTaskPushNotificationConfig''"
| "a2a_method_str ListTaskPushNotificationConfigs = ''ListTaskPushNotificationConfigs''"
| "a2a_method_str DeleteTaskPushNotificationConfig = ''DeleteTaskPushNotificationConfig''"
| "a2a_method_str GetExtendedAgentCard = ''GetExtendedAgentCard''"
| "a2a_method_str (Unknown_method s) = s"

fun a2a_family_of :: "a2a_method \<Rightarrow> a2a_family" where
  "a2a_family_of SendMessage = Message_family"
| "a2a_family_of SendStreamingMessage = Message_family"
| "a2a_family_of GetTask = Task_family"
| "a2a_family_of ListTasks = Task_family"
| "a2a_family_of CancelTask = Task_family"
| "a2a_family_of SubscribeToTask = Task_family"
| "a2a_family_of CreateTaskPushNotificationConfig = PushNotification"
| "a2a_family_of GetTaskPushNotificationConfig = PushNotification"
| "a2a_family_of ListTaskPushNotificationConfigs = PushNotification"
| "a2a_family_of DeleteTaskPushNotificationConfig = PushNotification"
| "a2a_family_of GetExtendedAgentCard = AgentCard"
| "a2a_family_of (Unknown_method _) = Unknown_family"

definition a2a_is_streaming :: "a2a_method \<Rightarrow> bool" where
  "a2a_is_streaming m \<longleftrightarrow> m \<in> {SendStreamingMessage, SubscribeToTask}"

definition extracts_task_id :: "a2a_method \<Rightarrow> bool" where
  "extracts_task_id m \<longleftrightarrow> m \<in> {GetTask, CancelTask, SubscribeToTask}"

definition is_task_routable :: "a2a_method \<Rightarrow> bool" where
  "is_task_routable m \<longleftrightarrow>
     m \<in> {GetTask, CancelTask, SubscribeToTask, CreateTaskPushNotificationConfig,
          GetTaskPushNotificationConfig, ListTaskPushNotificationConfigs,
          DeleteTaskPushNotificationConfig}"

definition extracts_task_id_from_params :: "a2a_method \<Rightarrow> bool" where
  "extracts_task_id_from_params m \<longleftrightarrow>
     m \<in> {CreateTaskPushNotificationConfig, GetTaskPushNotificationConfig,
          ListTaskPushNotificationConfigs, DeleteTaskPushNotificationConfig}"

fun a2a_family_str :: "a2a_family \<Rightarrow> str" where
  "a2a_family_str Message_family = ''message''"
| "a2a_family_str Task_family = ''task''"
| "a2a_family_str PushNotification = ''push_notification''"
| "a2a_family_str AgentCard = ''agent_card''"
| "a2a_family_str Unknown_family = ''unknown''"

section \<open>The envelope\<close>

record a2a_envelope =
  env_family :: a2a_family
  env_method :: a2a_method
  env_original_method :: "str option"
  env_streaming :: bool
  env_task_id :: "str option"
  env_version :: "str option"

definition extract_task_id :: "json \<Rightarrow> a2a_method \<Rightarrow> str option" where
  "extract_task_id v m =
     Option.bind (jget v ''params'') (\<lambda>params.
       if extracts_task_id m then get_str params ''id''
       else if extracts_task_id_from_params m then get_str params ''taskId''
       else None)"

definition extract_version :: "externals \<Rightarrow> (str \<rightharpoonup> bytes) \<Rightarrow> str option" where
  "extract_version ext headers = Option.bind (headers ''a2a-version'') (header_text ext)"

definition extract_a2a_envelope ::
  "externals \<Rightarrow> json \<Rightarrow> str \<Rightarrow> (str \<rightharpoonup> str) \<Rightarrow> (str \<rightharpoonup> bytes) \<Rightarrow> a2a_envelope" where
  "extract_a2a_envelope ext v method_str aliases headers =
     (let m = from_method_str aliases method_str
      in \<lparr>env_family = a2a_family_of m, env_method = m,
          env_original_method = map_option (\<lambda>_. method_str) (aliases method_str),
          env_streaming = a2a_is_streaming m, env_task_id = extract_task_id v m,
          env_version = extract_version ext headers\<rparr>)"

section \<open>Configuration\<close>

record a2a_headers =
  h_family :: "str option"
  h_kind :: "str option"
  h_method :: "str option"
  h_streaming :: "str option"
  h_task_id :: "str option"
  h_version :: "str option"

definition default_a2a_headers :: a2a_headers where
  "default_a2a_headers =
     \<lparr>h_family = Some ''x-praxis-a2a-family'', h_kind = Some ''x-praxis-a2a-kind'',
      h_method = Some ''x-praxis-a2a-method'', h_streaming = Some ''x-praxis-a2a-streaming'',
      h_task_id = Some ''x-praxis-a2a-task-id'', h_version = Some ''x-praxis-a2a-version''\<rparr>"

text \<open>The aliases are a \<open>BTreeMap\<close>: its entries in key order.\<close>

record a2a_config =
  a2a_headers_of :: a2a_headers
  a2a_max_body_bytes :: nat
  method_aliases :: "(str \<times> str) list"
  a2a_on_invalid :: on_invalid_behavior
  task_routing :: task_routing_config

definition is_known_a2a_method :: "str \<Rightarrow> bool" where
  "is_known_a2a_method m \<longleftrightarrow>
     m \<in> {''SendMessage'', ''SendStreamingMessage'', ''GetTask'', ''ListTasks'', ''CancelTask'',
          ''SubscribeToTask'', ''CreateTaskPushNotificationConfig'',
          ''GetTaskPushNotificationConfig'', ''ListTaskPushNotificationConfigs'',
          ''DeleteTaskPushNotificationConfig'', ''GetExtendedAgentCard''}"

definition validate_task_routing :: "praxis \<Rightarrow> task_routing_config \<Rightarrow> filter_error + unit" where
  "validate_task_routing px tr =
     (if ttl_seconds tr = 0 then Inl ''a2a: task_routing.ttl_seconds must be greater than 0''
      else
        and_then (check_max_body_bytes px ''a2a: task_routing'' (max_response_body_bytes tr)) (\<lambda>_.
        and_then (check_header_name px ''a2a'' ''task_routing.route_cluster_header''
                    (Some (route_cluster_header tr))) (\<lambda>_.
        if \<not> starts_with (route_cluster_header tr) ''x-praxis-a2a-''
        then Inl (''a2a: task_routing.route_cluster_header '' @ quoted (route_cluster_header tr) @ '' must start with '' @ quoted ''x-praxis-a2a-'')
        else Inr ())))"

fun validate_aliases :: "(str \<times> str) list \<Rightarrow> filter_error + unit" where
  "validate_aliases [] = Inr ()"
| "validate_aliases ((alias, canonical) # rest) =
     (if alias = [] then Inl ''a2a: alias key must be non-empty''
      else if canonical = [] then Inl ''a2a: alias value must be non-empty''
      else if \<not> is_known_a2a_method canonical
      then Inl (''a2a: alias target '' @ quoted canonical @
                '' is not a known A2A method'')
      else validate_aliases rest)"

definition a2a_build_config :: "praxis \<Rightarrow> a2a_config \<Rightarrow> filter_error + a2a_config" where
  "a2a_build_config px cfg =
     (let h = a2a_headers_of cfg; check = check_header_name px ''a2a'' in
      and_then (check_max_body_bytes px ''a2a'' (a2a_max_body_bytes cfg)) (\<lambda>_.
      and_then (check ''method'' (h_method h)) (\<lambda>_.
      and_then (check ''family'' (h_family h)) (\<lambda>_.
      and_then (check ''task_id'' (h_task_id h)) (\<lambda>_.
      and_then (check ''kind'' (h_kind h)) (\<lambda>_.
      and_then (check ''streaming'' (h_streaming h)) (\<lambda>_.
      and_then (check ''version'' (h_version h)) (\<lambda>_.
      and_then (if enabled (task_routing cfg) then validate_task_routing px (task_routing cfg)
                else Inr ()) (\<lambda>_.
      and_then (validate_aliases (method_aliases cfg)) (\<lambda>_. Inr cfg))))))))))"

section \<open>Promotion\<close>

definition is_promotable :: "externals \<Rightarrow> praxis \<Rightarrow> str \<Rightarrow> bool" where
  "is_promotable ext px v \<longleftrightarrow> \<not> contains_control_chars ext v \<and> length v \<le> max_dynamic_value_len px"

definition set_safe_metadata ::
  "externals \<Rightarrow> praxis \<Rightarrow> str \<Rightarrow> str option \<Rightarrow> filter_ctx \<Rightarrow> filter_ctx" where
  "set_safe_metadata ext px k v =
     when_some v (\<lambda>x ctx. if is_promotable ext px x then set_metadata k x ctx else ctx)"

definition a2a_write_metadata ::
  "externals \<Rightarrow> praxis \<Rightarrow> json_rpc_envelope \<Rightarrow> a2a_envelope \<Rightarrow> filter_ctx \<Rightarrow> filter_ctx" where
  "a2a_write_metadata ext px envelope a2a ctx =
     (let method_str = a2a_method_str (env_method a2a);
          ctx1 = set_safe_metadata ext px ''json_rpc.method'' (rpc_method envelope) ctx;
          ctx2 = (if is_promotable ext px method_str
                  then set_metadata ''a2a.method'' method_str ctx1 else ctx1);
          ctx3 = set_metadata ''json_rpc.kind'' (rpc_kind envelope) ctx2;
          ctx4 = set_safe_metadata ext px ''a2a.original_method'' (env_original_method a2a) ctx3;
          ctx5 = set_metadata ''a2a.family'' (a2a_family_str (env_family a2a)) ctx4;
          ctx6 = set_metadata ''a2a.streaming'' (bool_text (env_streaming a2a)) ctx5;
          ctx7 = set_safe_metadata ext px ''a2a.task_id'' (env_task_id a2a) ctx6
      in set_safe_metadata ext px ''a2a.version'' (env_version a2a) ctx7)"

definition promote_optional_header ::
  "externals \<Rightarrow> praxis \<Rightarrow> str option \<Rightarrow> str option \<Rightarrow> filter_ctx \<Rightarrow> filter_ctx" where
  "promote_optional_header ext px header_name v =
     when_some header_name (\<lambda>h. when_some v (\<lambda>x ctx.
       if is_promotable ext px x then push_header h x ctx else ctx))"

definition promote_a2a_headers ::
  "externals \<Rightarrow> praxis \<Rightarrow> a2a_envelope \<Rightarrow> json_rpc_envelope \<Rightarrow> a2a_config \<Rightarrow> filter_ctx \<Rightarrow> filter_ctx" where
  "promote_a2a_headers ext px a2a envelope config ctx =
     (let h = a2a_headers_of config;
          method_str = a2a_method_str (env_method a2a);
          ctx1 = when_some (h_method h) (\<lambda>name c.
                   if \<not> contains_control_chars ext method_str \<and>
                      length method_str \<le> max_dynamic_value_len px
                   then push_header name method_str c else c) ctx;
          ctx2 = when_some (h_family h) (\<lambda>name. push_header name (a2a_family_str (env_family a2a))) ctx1;
          ctx3 = promote_optional_header ext px (h_task_id h) (env_task_id a2a) ctx2;
          ctx4 = when_some (h_kind h) (\<lambda>name. push_header name (rpc_kind envelope)) ctx3;
          ctx5 = when_some (h_streaming h) (\<lambda>name. push_header name (bool_text (env_streaming a2a))) ctx4
      in promote_optional_header ext px (h_version h) (env_version a2a) ctx5)"

definition set_optional_result ::
  "externals \<Rightarrow> praxis \<Rightarrow> str \<Rightarrow> str option \<Rightarrow> filter_ctx \<Rightarrow> filter_ctx \<times> (filter_error + unit)" where
  "set_optional_result ext px k v ctx =
     (case v of
        None \<Rightarrow> (ctx, Inr ())
      | Some x \<Rightarrow> if is_promotable ext px x then set_result px ''a2a'' k x ctx else (ctx, Inr ()))"

definition a2a_promote_filter_results ::
  "externals \<Rightarrow> praxis \<Rightarrow> filter_ctx \<Rightarrow> json_rpc_envelope \<Rightarrow> a2a_envelope
    \<Rightarrow> filter_ctx \<times> (filter_error + unit)" where
  "a2a_promote_filter_results ext px ctx envelope a2a =
     (let method_str = a2a_method_str (env_method a2a) in
      run_steps
        [\<lambda>c. if is_promotable ext px method_str then set_result px ''a2a'' ''method'' method_str c
              else (c, Inr ()),
         set_result px ''a2a'' ''family'' (a2a_family_str (env_family a2a)),
         set_result px ''a2a'' ''streaming'' (bool_text (env_streaming a2a)),
         set_result px ''a2a'' ''kind'' (rpc_kind envelope),
         set_optional_result ext px ''task_id'' (env_task_id a2a),
         set_optional_result ext px ''version'' (env_version a2a)]
        (results_entry ''a2a'' ctx))"

section \<open>Request handling\<close>

text \<open>A configured filter and the store, present when task routing is enabled.\<close>

definition a2a_from_config ::
  "praxis \<Rightarrow> nat \<Rightarrow> a2a_config \<Rightarrow> filter_error + a2a_config \<times> route_store option" where
  "a2a_from_config px now cfg =
     map_sum id (\<lambda>c. (c, if enabled (task_routing c) then Some (new_store now) else None))
       (a2a_build_config px cfg)"

text \<open>\<open>now\<close> and \<open>now'\<close> are the times of the two sections of the lookup.\<close>

definition lookup_task_route ::
  "nat \<Rightarrow> nat \<Rightarrow> filter_ctx \<Rightarrow> a2a_envelope \<Rightarrow> route_store \<Rightarrow> a2a_config \<Rightarrow> filter_ctx \<times> route_store" where
  "lookup_task_route now now' ctx a2a st config =
     (if \<not> is_task_routable (env_method a2a) then (ctx, st)
      else (case env_task_id a2a of
              None \<Rightarrow> (ctx, st)
            | Some tid \<Rightarrow>
                (case get_by_task_id now now' st tid of
                   (Some c, st') \<Rightarrow>
                     (set_metadata ''a2a.route_cluster'' c
                        (set_metadata ''a2a.route_decision'' ''task_route_hit''
                          (push_header (route_cluster_header (task_routing config)) c ctx)), st')
                 | (None, st') \<Rightarrow>
                     (set_metadata ''a2a.route_decision'' ''task_route_miss'' ctx, st'))))"

definition a2a_on_request_body ::
  "externals \<Rightarrow> praxis \<Rightarrow> nat \<Rightarrow> nat \<Rightarrow> a2a_config \<Rightarrow> filter_ctx \<Rightarrow> route_store option \<Rightarrow> bytes option \<Rightarrow> bool
    \<Rightarrow> filter_ctx \<times> route_store option \<times> (filter_error + filter_action)" where
  "a2a_on_request_body ext px now now' config ctx store body end_of_stream =
     (case parse_json_rpc_body px body end_of_stream
             (build_json_rpc_config (a2a_max_body_bytes config)) (a2a_on_invalid config) of
        Inl action \<Rightarrow> (ctx, store, action)
      | Inr None \<Rightarrow> (ctx, store, Inr Continue)
      | Inr (Some parsed) \<Rightarrow>
          (let a2a = extract_a2a_envelope ext (parsed_value parsed) (parsed_method parsed)
                       (map_of (method_aliases config)) (request_headers ctx);
               ctx1 = a2a_write_metadata ext px (parsed_envelope parsed) a2a ctx;
               ctx2 = promote_a2a_headers ext px a2a (parsed_envelope parsed) config ctx1
           in case a2a_promote_filter_results ext px ctx2 (parsed_envelope parsed) a2a of
                (ctx3, Inl e) \<Rightarrow> (ctx3, store, Inl e)
              | (ctx3, Inr _) \<Rightarrow>
                  (case store of
                     None \<Rightarrow> (ctx3, None, Inr Release)
                   | Some st \<Rightarrow>
                       (let (ctx4, st') = lookup_task_route now now' ctx3 a2a st config
                        in (ctx4, Some st', Inr Release)))))"

section \<open>Response capture\<close>

definition a2a_response_is_success :: "externals \<Rightarrow> filter_ctx \<Rightarrow> bool" where
  "a2a_response_is_success ext ctx =
     (case response_header ctx of None \<Rightarrow> False | Some r \<Rightarrow> is_success ext (status r))"

definition a2a_response_is_sse :: "externals \<Rightarrow> filter_ctx \<Rightarrow> bool" where
  "a2a_response_is_sse ext ctx =
     (case Option.bind (Option.bind (response_header ctx) (\<lambda>r. resp_headers r ''content-type''))
             (header_text ext) of
        None \<Rightarrow> False | Some ct \<Rightarrow> is_event_stream_content_type ct)"

definition a2a_on_response ::
  "externals \<Rightarrow> route_store option \<Rightarrow> filter_ctx \<Rightarrow> filter_ctx \<times> (filter_error + filter_action)" where
  "a2a_on_response ext store ctx =
     (if store = None then (ctx, Inr Continue)
      else
        (let m = get_metadata ctx ''a2a.method'';
             is_send_message = (m = Some ''SendMessage'');
             is_sse_capable = (m = Some ''SendStreamingMessage'' \<or> m = Some ''SubscribeToTask'')
         in if \<not> is_send_message \<and> \<not> is_sse_capable then (ctx, Inr Continue)
            else if \<not> a2a_response_is_success ext ctx then (ctx, Inr Continue)
            else
              (let is_sse = a2a_response_is_sse ext ctx
               in if is_sse_capable then
                    (if is_sse then
                       (case cluster ctx of
                          None \<Rightarrow> (ctx, Inr Continue)
                        | Some c \<Rightarrow>
                            (set_metadata ''a2a.response.cluster'' c
                               (set_metadata ''a2a.response.sse_capture_enabled'' ''true'' ctx), Inr Continue))
                     else (ctx, Inr Continue))
                  else if is_sse then (set_metadata ''a2a.response.is_sse'' ''true'' ctx, Inr Continue)
                  else
                    (case cluster ctx of
                       None \<Rightarrow> (ctx, Inr Continue)
                     | Some c \<Rightarrow>
                         (set_metadata ''a2a.response.capture_enabled'' ''true''
                            (set_metadata ''a2a.response.cluster'' c ctx), Inr Continue)))))"

definition capture_keys :: "str list" where
  "capture_keys =
     [''a2a.response.capture_enabled'', ''a2a.response.buffer_hex'', ''a2a.response.buffer_bytes'',
      ''a2a.response.cluster'']"

definition clear_capture_metadata :: "filter_ctx \<Rightarrow> filter_ctx" where
  "clear_capture_metadata ctx = remove_all_metadata capture_keys ctx"

definition sse_capture_keys :: "str list" where
  "sse_capture_keys =
     [''a2a.response.sse_capture_enabled'', ''a2a.response.sse_line_buf_hex'',
      ''a2a.response.sse_data_hex'', ''a2a.response.sse_has_data'', ''a2a.response.sse_prev_cr'',
      ''a2a.response.sse_scratch_bytes'', ''a2a.response.cluster'']"

definition clear_sse_capture_metadata :: "filter_ctx \<Rightarrow> filter_ctx" where
  "clear_sse_capture_metadata ctx = remove_all_metadata sse_capture_keys ctx"

text \<open>False when the limit was exceeded and the capture was given up.\<close>

definition accumulate_response_hex :: "filter_ctx \<Rightarrow> bytes \<Rightarrow> nat \<Rightarrow> filter_ctx \<times> bool" where
  "accumulate_response_hex ctx chunk max_bytes =
     (let existing_bytes =
            unwrap_or 0 (Option.bind (get_metadata ctx ''a2a.response.buffer_bytes'') (parse_uint 64))
      in if saturating_add existing_bytes (length chunk) > max_bytes
         then (remove_all_metadata capture_keys ctx, False)
         else
           (let hex_buf = unwrap_or [] (get_metadata ctx ''a2a.response.buffer_hex'');
                new_total = existing_bytes + length chunk
            in (set_metadata ''a2a.response.buffer_bytes'' (show_nat new_total)
                  (set_metadata ''a2a.response.buffer_hex'' (hex_buf @ encode_hex_bytes chunk) ctx), True)))"

definition json_ok :: "externals \<Rightarrow> bytes \<Rightarrow> json option" where
  "json_ok ext bs = (case from_slice ext bs of Inl _ \<Rightarrow> None | Inr v \<Rightarrow> Some v)"

definition try_capture_from_buffer ::
  "externals \<Rightarrow> nat \<Rightarrow> bool \<Rightarrow> task_routing_config \<Rightarrow> filter_ctx \<Rightarrow> route_store \<Rightarrow> bool
    \<Rightarrow> (filter_ctx \<times> route_store) option" where
  "try_capture_from_buffer ext now lf config ctx st end_of_stream =
     (case Option.bind (Option.bind (get_metadata ctx ''a2a.response.buffer_hex'') decode_hex)
             (json_ok ext) of
        Some v \<Rightarrow>
          map_option (Pair (clear_capture_metadata ctx))
            (case get_metadata ctx ''a2a.response.cluster'' of
               None \<Rightarrow> Some st
             | Some c \<Rightarrow> store_task_route ext now lf config c v st)
      | None \<Rightarrow> Some (if end_of_stream then clear_capture_metadata ctx else ctx, st))"

definition try_extract_task_from_sse_payload ::
  "externals \<Rightarrow> nat \<Rightarrow> bool \<Rightarrow> task_routing_config \<Rightarrow> filter_ctx \<Rightarrow> bytes \<Rightarrow> route_store \<Rightarrow> route_store option" where
  "try_extract_task_from_sse_payload ext now lf config ctx data st =
     (case json_ok ext data of
        None \<Rightarrow> Some st
      | Some v \<Rightarrow>
          (case get_metadata ctx ''a2a.response.cluster'' of
             None \<Rightarrow> Some st
           | Some c \<Rightarrow> store_task_route ext now lf config c v st))"

definition load_sse_scan_state :: "filter_ctx \<Rightarrow> sse_scan_state" where
  "load_sse_scan_state ctx =
     \<lparr>scan_line_buf = unwrap_or [] (Option.bind (get_metadata ctx ''a2a.response.sse_line_buf_hex'') decode_hex),
      scan_data_buf = unwrap_or [] (Option.bind (get_metadata ctx ''a2a.response.sse_data_hex'') decode_hex),
      scan_has_data = (get_metadata ctx ''a2a.response.sse_has_data'' = Some ''true''),
      scan_prev_cr = (get_metadata ctx ''a2a.response.sse_prev_cr'' = Some ''true''),
      scan_scratch_bytes =
        unwrap_or 0 (Option.bind (get_metadata ctx ''a2a.response.sse_scratch_bytes'') (parse_uint 64))\<rparr>"

definition set_hex_metadata :: "str \<Rightarrow> bytes \<Rightarrow> filter_ctx \<Rightarrow> filter_ctx" where
  "set_hex_metadata k data ctx =
     (if data = [] then remove_metadata k ctx else set_metadata k (encode_hex_bytes data) ctx)"

definition save_sse_scan_state :: "filter_ctx \<Rightarrow> sse_scan_state \<Rightarrow> filter_ctx" where
  "save_sse_scan_state ctx st =
     set_metadata ''a2a.response.sse_scratch_bytes'' (show_nat (scan_scratch_bytes st))
       (set_metadata ''a2a.response.sse_prev_cr'' (bool_text (scan_prev_cr st))
         (set_metadata ''a2a.response.sse_has_data'' (bool_text (scan_has_data st))
           (set_hex_metadata ''a2a.response.sse_data_hex'' (scan_data_buf st)
             (set_hex_metadata ''a2a.response.sse_line_buf_hex'' (scan_line_buf st) ctx))))"

definition process_sse_response_chunk ::
  "externals \<Rightarrow> nat \<Rightarrow> bool \<Rightarrow> task_routing_config \<Rightarrow> filter_ctx \<Rightarrow> bytes \<Rightarrow> route_store
    \<Rightarrow> (filter_ctx \<times> route_store) option" where
  "process_sse_response_chunk ext now lf config ctx chunk st =
     (let (scan, result) = scan_sse_chunk (load_sse_scan_state ctx) chunk (max_response_body_bytes config)
      in map_option
           (Pair (if overflowed result then clear_sse_capture_metadata ctx else save_sse_scan_state ctx scan))
           (fold_opt (try_extract_task_from_sse_payload ext now lf config ctx) (payloads result) st))"

definition a2a_on_response_body ::
  "externals \<Rightarrow> nat \<Rightarrow> bool \<Rightarrow> task_routing_config \<Rightarrow> filter_ctx \<Rightarrow> route_store option \<Rightarrow> bytes option \<Rightarrow> bool
    \<Rightarrow> (filter_ctx \<times> route_store option) option" where
  "a2a_on_response_body ext now lf config ctx store body end_of_stream =
     (case store of
        None \<Rightarrow> Some (ctx, None)
      | Some st \<Rightarrow>
          if get_metadata ctx ''a2a.response.capture_enabled'' = Some ''true'' then
            (let (ctx1, fits) = (case body of
                   None \<Rightarrow> (ctx, True)
                 | Some chunk \<Rightarrow> accumulate_response_hex ctx chunk (max_response_body_bytes config))
             in if \<not> fits then Some (ctx1, Some st)
                else map_option (\<lambda>(c, s). (c, Some s))
                       (try_capture_from_buffer ext now lf config ctx1 st end_of_stream))
          else if get_metadata ctx ''a2a.response.sse_capture_enabled'' = Some ''true'' then
            map_option (\<lambda>(c, s). (if end_of_stream then clear_sse_capture_metadata c else c, Some s))
              (case body of
                 None \<Rightarrow> Some (ctx, st)
               | Some chunk \<Rightarrow> process_sse_response_chunk ext now lf config ctx chunk st)
          else Some (ctx, Some st))"

end
