(* ===== verification/A2a_Capture.thy ===== *)
theory A2a_Capture
  imports A2a
begin

text \<open>
  What the A2A filter learns from responses and what later requests get from it: the scanner
  state survives the trip through the metadata, so the routes learned from a streamed response
  are those of its events, however the stream was cut; a buffered response is read when it is
  complete; and a follow-up request is sent to the cluster that answered.
\<close>

section \<open>The state in the metadata\<close>

definition scan_keys :: "str list" where
  "scan_keys =
     [''a2a.response.sse_line_buf_hex'', ''a2a.response.sse_data_hex'', ''a2a.response.sse_has_data'',
      ''a2a.response.sse_prev_cr'', ''a2a.response.sse_scratch_bytes'']"

lemma get_set_hex:
  "get_metadata (set_hex_metadata k data ctx) j =
     (if j = k then if data = [] then None else Some (encode_hex_bytes data) else get_metadata ctx j)"
  by (simp add: set_hex_metadata_def)

lemma get_save_other:
  "k \<notin> set scan_keys \<Longrightarrow> get_metadata (save_sse_scan_state ctx st) k = get_metadata ctx k"
  by (simp add: save_sse_scan_state_def scan_keys_def get_set_hex)

lemma load_save:
  "scan_scratch_bytes st < 2 ^ 64 \<Longrightarrow> load_sse_scan_state (save_sse_scan_state ctx st) = st"
  by (cases st) (simp add: load_sse_scan_state_def save_sse_scan_state_def get_set_hex parse_uint_show_nat)

lemma load_fresh:
  "\<forall>k \<in> set scan_keys. get_metadata ctx k = None \<Longrightarrow> load_sse_scan_state ctx = default_scan_state"
  by (simp add: load_sse_scan_state_def default_scan_state_def scan_keys_def)

section \<open>Streamed responses\<close>

text \<open>What the scanner holds after a chunk is within the limit.\<close>

definition scan_ok :: "nat \<Rightarrow> sse_scan_state \<Rightarrow> bool" where
  "scan_ok mx st \<longleftrightarrow> length (scan_line_buf st) + length (scan_data_buf st) \<le> mx"

lemma scan_byte_scratch_eq:
  "scan_byte st b e = (st', new) \<Longrightarrow>
     scan_scratch_bytes st' = length (scan_line_buf st') + length (scan_data_buf st')"
  by (auto simp: scan_byte_def set_scratch_def split: if_splits prod.splits)

lemma scan_loop_ok:
  assumes "scanned (scan_loop mx st ps bs) = Inr (qs, t)" and "scan_ok mx st"
  shows "scan_ok mx t \<and> scan_scratch_bytes t \<le> mx"
  using assms
proof (induction bs arbitrary: st ps rule: measure_induct_rule [where f = length])
  case (less bs)
  show ?case
  proof (cases bs)
    case Nil
    with less.prems show ?thesis by (auto simp: scanned_Nil scan_ok_def set_scratch_def)
  next
    case (Cons b rest)
    obtain st' new where sb: "scan_byte st b (rest = []) = (st', new)"
      by (cases "scan_byte st b (rest = [])")
    with less.prems(1) Cons have l: "scanned (scan_loop mx st' (ps @ new) (skip_lf b rest)) = Inr (qs, t)"
      and "scan_scratch_bytes st' \<le> mx"
      by (auto simp: scanned_Cons split: if_splits)
    with scan_byte_scratch_eq [OF sb] have "scan_ok mx st'" by (simp add: scan_ok_def)
    moreover have "length (skip_lf b rest) < length bs"
      using Cons length_skip_lf [of b rest] by simp
    ultimately show ?thesis using less.IH l by blast
  qed
qed

lemma feed_scan_ok:
  "feed_scan mx st c = Inr (ps, t) \<Longrightarrow> scan_ok mx st \<Longrightarrow> scan_ok mx t \<and> scan_scratch_bytes t \<le> mx"
  unfolding feed_scan_eq by (erule scan_loop_ok) (simp add: scan_ok_def)

lemma feed_scan_InrD:
  "feed_scan mx st c = Inr (ps, t) \<Longrightarrow>
     scan_sse_chunk st c mx = (t, \<lparr>payloads = ps, overflowed = False\<rparr>)"
  by (cases "scan_sse_chunk st c mx") (auto simp: feed_scan_def scanned_def split: if_splits)

text \<open>
  The handler is called for each chunk of the response body. The calls come at different times; other requests use
  the store in between, which is any function of the store here; and the flag tells whether a full store may be
  evicted.
\<close>

record chunk_call =
  ck_now :: nat
  ck_lock_free :: bool
  ck_others :: "route_store \<Rightarrow> route_store"
  ck_chunk :: bytes

fun response_chunks ::
  "externals \<Rightarrow> task_routing_config \<Rightarrow> chunk_call list \<Rightarrow> filter_ctx \<times> route_store option
    \<Rightarrow> (filter_ctx \<times> route_store option) option" where
  "response_chunks ext config [] s = Some s"
| "response_chunks ext config (k # ks) s =
     Option.bind (a2a_on_response_body ext (ck_now k) (ck_lock_free k) config (fst s) (map_option (ck_others k) (snd s))
         (Some (ck_chunk k)) False)
       (response_chunks ext config ks)"

text \<open>What one payload teaches.\<close>

definition learn ::
  "externals \<Rightarrow> nat \<Rightarrow> bool \<Rightarrow> task_routing_config \<Rightarrow> str \<Rightarrow> bytes \<Rightarrow> route_store \<Rightarrow> route_store option" where
  "learn ext now lf config c data st =
     (case json_ok ext data of None \<Rightarrow> Some st | Some v \<Rightarrow> store_task_route ext now lf config c v st)"

text \<open>The payloads that a chunk completes are stored at the time of its call.\<close>

fun learn_chunks ::
  "externals \<Rightarrow> task_routing_config \<Rightarrow> str \<Rightarrow> chunk_call list \<Rightarrow> bytes list list \<Rightarrow> route_store \<Rightarrow> route_store option" where
  "learn_chunks ext config c (k # ks) (ps # pss) st =
     Option.bind (fold_opt (learn ext (ck_now k) (ck_lock_free k) config c) ps (ck_others k st))
       (learn_chunks ext config c ks pss)"
| "learn_chunks ext config c _ _ st = Some st"

definition sse_capturing :: "filter_ctx \<Rightarrow> str \<Rightarrow> bool" where
  "sse_capturing ctx c \<longleftrightarrow>
     get_metadata ctx ''a2a.response.capture_enabled'' \<noteq> Some ''true'' \<and>
     get_metadata ctx ''a2a.response.sse_capture_enabled'' = Some ''true'' \<and>
     get_metadata ctx ''a2a.response.cluster'' = Some c"

lemma sse_capturing_save: "sse_capturing (save_sse_scan_state ctx st) c = sse_capturing ctx c"
  by (simp add: sse_capturing_def get_save_other scan_keys_def)

lemma sse_chunk_learns:
  assumes "sse_capturing ctx c"
    and "feed_scan (max_response_body_bytes config) (load_sse_scan_state ctx) chunk = Inr (ps, t)"
  shows "a2a_on_response_body ext now lf config ctx (Some st) (Some chunk) False =
    map_option (\<lambda>s. (save_sse_scan_state ctx t, Some s)) (fold_opt (learn ext now lf config c) ps st)"
proof -
  have "try_extract_task_from_sse_payload ext now lf config ctx = learn ext now lf config c"
    using assms(1)
    by (intro HOL.ext)
      (simp add: try_extract_task_from_sse_payload_def learn_def sse_capturing_def
        split: option.split)
  with assms feed_scan_InrD [OF assms(2)] show ?thesis
    by (simp add: a2a_on_response_body_def sse_capturing_def process_sse_response_chunk_def
        option.map_comp comp_def)
qed

text \<open>What the scanner reports chunk by chunk.\<close>

fun chunk_payloads :: "nat \<Rightarrow> sse_scan_state \<Rightarrow> bytes list \<Rightarrow> bytes list list" where
  "chunk_payloads mx s [] = []"
| "chunk_payloads mx s (c # cs) =
     (case feed_scan mx s c of Inr (ps, s') \<Rightarrow> ps # chunk_payloads mx s' cs | Inl _ \<Rightarrow> [])"

lemma chunk_payloads_prefix:
  assumes "feed_all append (feed_scan mx) s cs = Inr (ps, t)"
  shows "length (chunk_payloads mx s cs) = length cs"
    and "\<exists>u. feed_all append (feed_scan mx) s (take n cs) = Inr (concat (take n (chunk_payloads mx s cs)), u)"
proof -
  show "length (chunk_payloads mx s cs) = length cs"
    using assms by (induction cs arbitrary: s ps) (auto simp: feed_then_Inr_iff)
  show "\<exists>u. feed_all append (feed_scan mx) s (take n cs) = Inr (concat (take n (chunk_payloads mx s cs)), u)"
    using assms
  proof (induction cs arbitrary: s ps n)
    case (Cons c cs)
    then obtain qs s' rs where f: "feed_scan mx s c = Inr (qs, s')"
      and r: "feed_all append (feed_scan mx) s' cs = Inr (rs, t)" by (auto simp: feed_then_Inr_iff)
    from f Cons.IH [OF r] show ?case by (cases n) (auto simp: feed_then_Inr_iff)
  qed simp
qed

lemma sse_chunks_learn:
  assumes "sse_capturing ctx c" and "load_sse_scan_state ctx = s" and "scan_ok mx s"
    and "max_response_body_bytes config = mx" and "mx < 2 ^ 64"
    and "feed_all append (feed_scan mx) s (map ck_chunk ks) = Inr (ps, t)"
  shows "map_option snd (response_chunks ext config ks (ctx, Some st)) =
    map_option Some (learn_chunks ext config c ks (chunk_payloads mx s (map ck_chunk ks)) st)"
  using assms
proof (induction ks arbitrary: ctx s ps st)
  case Nil
  then show ?case by simp
next
  case (Cons k ks)
  from Cons.prems(6) obtain qs u rs where
    f: "feed_scan mx s (ck_chunk k) = Inr (qs, u)" and r: "feed_all append (feed_scan mx) u (map ck_chunk ks) = Inr (rs, t)"
    by (auto simp: feed_then_Inr_iff)
  from feed_scan_ok [OF f Cons.prems(3)] Cons.prems(5) have u: "scan_ok mx u" "scan_scratch_bytes u < 2 ^ 64"
    by auto
  let ?ctx = "save_sse_scan_state ctx u" and ?learn = "learn ext (ck_now k) (ck_lock_free k) config c"
  have step: "a2a_on_response_body ext (ck_now k) (ck_lock_free k) config ctx (Some (ck_others k st)) (Some (ck_chunk k)) False =
      map_option (\<lambda>s. (?ctx, Some s)) (fold_opt ?learn qs (ck_others k st))"
    using sse_chunk_learns [OF Cons.prems(1), of config "ck_chunk k" qs u] f Cons.prems(2,4) by simp
  have rest: "map_option snd (response_chunks ext config ks (?ctx, Some st')) =
      map_option Some (learn_chunks ext config c ks (chunk_payloads mx u (map ck_chunk ks)) st')" for st'
    using Cons.IH [of ?ctx u rs st'] Cons.prems(1,4,5) u r by (simp add: sse_capturing_save load_save)
  show ?case
    by (cases "fold_opt ?learn qs (ck_others k st)") (simp_all add: step rest f)
qed

section \<open>Buffered responses\<close>

definition capturing :: "filter_ctx \<Rightarrow> str \<Rightarrow> bytes \<Rightarrow> bool" where
  "capturing ctx c buffered \<longleftrightarrow>
     get_metadata ctx ''a2a.response.capture_enabled'' = Some ''true'' \<and>
     get_metadata ctx ''a2a.response.cluster'' = Some c \<and>
     unwrap_or [] (get_metadata ctx ''a2a.response.buffer_hex'') = encode_hex_bytes buffered \<and>
     unwrap_or 0 (Option.bind (get_metadata ctx ''a2a.response.buffer_bytes'') (parse_uint 64)) = length buffered"

lemma buffer_chunk:
  assumes "capturing ctx c buffered" and "length buffered + length chunk \<le> max_response_body_bytes config"
    and "max_response_body_bytes config < 2 ^ 64"
  shows "\<exists>ctx1. capturing ctx1 c (buffered @ chunk) \<and>
    a2a_on_response_body ext now lf config ctx (Some st) (Some chunk) False =
      (case json_ok ext (buffered @ chunk) of
         None \<Rightarrow> Some (ctx1, Some st)
       | Some v \<Rightarrow> map_option (\<lambda>s. (clear_capture_metadata ctx1, Some s)) (store_task_route ext now lf config c v st))"
proof -
  let ?ctx1 = "set_metadata ''a2a.response.buffer_bytes'' (show_nat (length buffered + length chunk))
     (set_metadata ''a2a.response.buffer_hex'' (encode_hex_bytes (buffered @ chunk)) ctx)"
  have acc: "accumulate_response_hex ctx chunk (max_response_body_bytes config) = (?ctx1, True)"
    using assms by (simp add: accumulate_response_hex_def capturing_def saturating_add_def encode_append)
  have cap: "capturing ?ctx1 c (buffered @ chunk)"
    using assms by (simp add: capturing_def parse_uint_show_nat)
  have "a2a_on_response_body ext now lf config ctx (Some st) (Some chunk) False =
      map_option (\<lambda>(c, s). (c, Some s)) (try_capture_from_buffer ext now lf config ?ctx1 st False)"
    using assms(1) acc by (simp add: a2a_on_response_body_def capturing_def)
  also have "\<dots> = (case json_ok ext (buffered @ chunk) of
         None \<Rightarrow> Some (?ctx1, Some st)
       | Some v \<Rightarrow> map_option (\<lambda>s. (clear_capture_metadata ?ctx1, Some s)) (store_task_route ext now lf config c v st))"
    using assms(1) by (simp add: try_capture_from_buffer_def capturing_def option.map_comp comp_def
        split: option.split)
  finally show ?thesis using cap by blast
qed

lemma buffer_chunks:
  assumes "capturing ctx c buffered"
    and "length (buffered @ concat (map ck_chunk ks) @ ck_chunk k) \<le> max_response_body_bytes config"
    and "max_response_body_bytes config < 2 ^ 64"
    and "\<forall>n. 0 < n \<and> n \<le> length ks \<longrightarrow> json_ok ext (buffered @ concat (map ck_chunk (take n ks))) = None"
    and "json_ok ext (buffered @ concat (map ck_chunk ks) @ ck_chunk k) = Some v"
  shows "map_option snd (response_chunks ext config (ks @ [k]) (ctx, Some st)) =
    map_option Some (store_task_route ext (ck_now k) (ck_lock_free k) config c v (fold ck_others (ks @ [k]) st))"
  using assms
proof (induction ks arbitrary: ctx buffered st)
  case Nil
  with buffer_chunk [of ctx c buffered "ck_chunk k" config ext "ck_now k" "ck_lock_free k" "ck_others k st"] show ?case
    by (cases "store_task_route ext (ck_now k) (ck_lock_free k) config c v (ck_others k st)") auto
next
  case (Cons y ys)
  from Cons.prems(4) [rule_format, of 1] have none: "json_ok ext (buffered @ ck_chunk y) = None" by simp
  with buffer_chunk [of ctx c buffered "ck_chunk y" config ext "ck_now y" "ck_lock_free y" "ck_others y st"]
    Cons.prems(1-3) obtain ctx1 where
    1: "capturing ctx1 c (buffered @ ck_chunk y)" and
    step: "a2a_on_response_body ext (ck_now y) (ck_lock_free y) config ctx (Some (ck_others y st)) (Some (ck_chunk y)) False =
      Some (ctx1, Some (ck_others y st))"
    by auto
  have "\<forall>n. 0 < n \<and> n \<le> length ys \<longrightarrow>
      json_ok ext ((buffered @ ck_chunk y) @ concat (map ck_chunk (take n ys))) = None"
  proof safe
    fix n assume "0 < n" "n \<le> length ys"
    then show "json_ok ext ((buffered @ ck_chunk y) @ concat (map ck_chunk (take n ys))) = None"
      using Cons.prems(4) [rule_format, of "Suc n"] by simp
  qed
  from Cons.IH [OF 1 _ Cons.prems(3) this, of "ck_others y st"] Cons.prems(2,5) step show ?case by simp
qed

section \<open>Follow-up requests\<close>

lemma lookup_hit:
  assumes "is_task_routable (env_method a2a)" and "env_task_id a2a = Some tid"
    and "fst (get_by_task_id now now' st tid) = Some c"
  shows "\<exists>ctx' st'. lookup_task_route now now' ctx a2a st config = (ctx', st') \<and>
    (route_cluster_header (task_routing config), c) \<in> set (extra_request_headers ctx') \<and>
    get_metadata ctx' ''a2a.route_cluster'' = Some c"
  using assms
  by (cases "get_by_task_id now now' st tid")
    (simp add: lookup_task_route_def push_header_def set_metadata_def get_metadata_def)

lemma extract_task_route_valid:
  "extract_task_route ext v = Some r \<Longrightarrow> validate_id ext (task_id r)"
  by (auto simp: extract_task_route_def extract_from_task_object_def extract_from_status_update_def
      extract_from_artifact_update_def bind_eq_Some_conv split: if_splits option.splits)

section \<open>Properties\<close>

text \<open>
  C33. A streamed A2A response teaches the routes of its events: the handler, called for every
  chunk with its scanner state written to and read back from the metadata, leaves the store as
  if each \<open>data\<close> payload of the whole stream had been stored in order, each at the time of the chunk that completes it and
  after what other requests did to the store until then, wherever the stream was
  cut. The scanner state is fresh, chunks are not empty and the scratch limit is kept; other requests use the store between the
  chunks, not while one is handled.
\<close>

theorem a2a_stream_capture:
  assumes "sse_capturing ctx c" and "\<forall>k \<in> set scan_keys. get_metadata ctx k = None"
    and "max_response_body_bytes config < 2 ^ 64" and "[] \<notin> set (map ck_chunk ks)"
    and "feed_all append (feed_scan (max_response_body_bytes config)) default_scan_state (map ck_chunk ks) = Inr (ps, t)"
  shows "\<exists>pss. length pss = length ks \<and>
    (\<forall>n \<le> length ks. concat (take n pss) = map frame_data (stream_frames (concat (map ck_chunk (take n ks))))) \<and>
    (\<forall>st. map_option snd (response_chunks ext config ks (ctx, Some st)) =
       map_option Some (learn_chunks ext config c ks pss st))"
proof (intro exI conjI allI impI)
  let ?mx = "max_response_body_bytes config"
  let ?pss = "chunk_payloads ?mx default_scan_state (map ck_chunk ks)"
  show "length ?pss = length ks" using chunk_payloads_prefix(1) [OF assms(5)] by simp
  show "concat (take n ?pss) = map frame_data (stream_frames (concat (map ck_chunk (take n ks))))" for n
  proof -
    obtain u where "feed_all append (feed_scan ?mx) default_scan_state (take n (map ck_chunk ks)) =
        Inr (concat (take n ?pss), u)" using chunk_payloads_prefix(2) [OF assms(5)] by blast
    moreover have "[] \<notin> set (take n (map ck_chunk ks))" using assms(4) set_take_subset by fastforce
    ultimately show ?thesis by (simp add: feed_all_scan_dispatch take_map)
  qed
  have "scan_ok ?mx default_scan_state" by (simp add: scan_ok_def default_scan_state_def)
  from sse_chunks_learn [OF assms(1) load_fresh [OF assms(2)] this refl assms(3,5)]
  show "map_option snd (response_chunks ext config ks (ctx, Some st)) =
      map_option Some (learn_chunks ext config c ks ?pss st)" for st .
qed

definition demo_task_json :: json where
  "demo_task_json = jobj [(''result'', jobj [(''task'', jobj [(''id'', JString ''t1'')])])]"

definition demo_a2a_ext :: externals where
  "demo_a2a_ext = null_ext\<lparr>from_slice := (\<lambda>s. if s = ''T'' then Inr demo_task_json else Inl [])\<rparr>"

definition demo_sse_ctx :: filter_ctx where
  "demo_sse_ctx = set_metadata ''a2a.response.cluster'' ''c1''
     (set_metadata ''a2a.response.sse_capture_enabled'' ''true'' empty_ctx)"

text \<open>
  Two chunks at seconds 3 and 5; in between another request removes a route. The task of the first event is stored
  only with the second chunk, which ends the event.
\<close>

definition demo_calls :: "chunk_call list" where
  "demo_calls =
     [\<lparr>ck_now = 3 * SECOND, ck_lock_free = True, ck_others = (\<lambda>st. st), ck_chunk = ''data: T'' @ [CR]\<rparr>,
      \<lparr>ck_now = 5 * SECOND, ck_lock_free = False, ck_others = (\<lambda>st. st\<lparr>tasks := []\<rparr>), ck_chunk = [LF] @ [LF]\<rparr>]"

definition demo_old_store :: route_store where
  "demo_old_store = \<lparr>tasks = [(''t0'', \<lparr>route_cluster = ''c0'', expires_at = 9 * SECOND\<rparr>)], last_eviction = 0\<rparr>"

lemma a2a_stream_capture_witness:
  "map_option snd (response_chunks demo_a2a_ext default_task_routing_config demo_calls (demo_sse_ctx, Some demo_old_store)) =
   Some (Some \<lparr>tasks = [(''t1'', \<lparr>route_cluster = ''c1'', expires_at = 3605 * SECOND\<rparr>)], last_eviction = 0\<rparr>)"
proof -
  let ?cs = "map ck_chunk demo_calls" and ?mx = "max_response_body_bytes default_task_routing_config"
  have "map_sum id fst (feed_all append (feed_scan ?mx) default_scan_state ?cs) = Inr [''T'']"
    by code_simp
  from map_sum_InrD [OF this] obtain t where
    t: "feed_all append (feed_scan ?mx) default_scan_state ?cs = Inr ([''T''], t)" by auto
  have "sse_capturing demo_sse_ctx ''c1''" "\<forall>k \<in> set scan_keys. get_metadata demo_sse_ctx k = None"
    "?mx < 2 ^ 64" "[] \<notin> set ?cs" by code_simp+
  note learned = a2a_stream_capture [OF this t, of demo_a2a_ext]
  have two: "length demo_calls = 2" by (simp add: demo_calls_def)
  from learned obtain pss where len: "length pss = 2"
    and parts: "\<And>n. n \<le> 2 \<Longrightarrow>
      concat (take n pss) = map frame_data (stream_frames (concat (map ck_chunk (take n demo_calls))))"
    and run: "map_option snd (response_chunks demo_a2a_ext default_task_routing_config demo_calls
        (demo_sse_ctx, Some demo_old_store)) =
      map_option Some (learn_chunks demo_a2a_ext default_task_routing_config ''c1'' demo_calls pss demo_old_store)"
    unfolding two by blast
  obtain p q where pss: "pss = [p, q]" using len by (auto simp: length_Suc_conv numeral_2_eq_2)
  have "map frame_data (stream_frames (concat (map ck_chunk (take 1 demo_calls)))) = []"
    "map frame_data (stream_frames (concat (map ck_chunk (take 2 demo_calls)))) = [''T'']" by code_simp+
  with parts [of 1] parts [of 2] have "pss = [[], [''T'']]" by (simp add: pss)
  moreover have "map_option Some (learn_chunks demo_a2a_ext default_task_routing_config ''c1'' demo_calls
        [[], [''T'']] demo_old_store) =
      Some (Some \<lparr>tasks = [(''t1'', \<lparr>route_cluster = ''c1'', expires_at = 3605 * SECOND\<rparr>)], last_eviction = 0\<rparr>)"
    by code_simp
  ultimately show ?thesis using run by simp
qed

text \<open>
  A buffered A2A response is read once it is complete: when no shorter prefix of chunks is
  JSON and the whole fits the limit, the chunks leave the store as if the message had arrived
  at once with the last one.
\<close>

theorem a2a_json_capture:
  assumes "capturing ctx c []"
    and "length (concat (map ck_chunk ks) @ ck_chunk k) \<le> max_response_body_bytes config"
    and "max_response_body_bytes config < 2 ^ 64"
    and "\<forall>n. 0 < n \<and> n \<le> length ks \<longrightarrow> json_ok ext (concat (map ck_chunk (take n ks))) = None"
    and "json_ok ext (concat (map ck_chunk ks) @ ck_chunk k) = Some v"
  shows "map_option snd (response_chunks ext config (ks @ [k]) (ctx, Some st)) =
    map_option Some (store_task_route ext (ck_now k) (ck_lock_free k) config c v (fold ck_others (ks @ [k]) st))"
  using buffer_chunks [OF assms(1), of ks k config ext v st] assms(2-) by simp

definition demo_json_ctx :: filter_ctx where
  "demo_json_ctx = set_metadata ''a2a.response.cluster'' ''c1''
     (set_metadata ''a2a.response.capture_enabled'' ''true'' empty_ctx)"

lemma a2a_json_capture_witness:
  "map_option snd (response_chunks (demo_a2a_ext\<lparr>from_slice := (\<lambda>s. if s = ''abc'' then Inr demo_task_json else Inl [])\<rparr>)
      default_task_routing_config
      [\<lparr>ck_now = 0, ck_lock_free = True, ck_others = id, ck_chunk = ''a''\<rparr>,
       \<lparr>ck_now = 0, ck_lock_free = True, ck_others = id, ck_chunk = ''bc''\<rparr>] (demo_json_ctx, Some (new_store 0))) =
   Some (Some \<lparr>tasks = [(''t1'', \<lparr>route_cluster = ''c1'', expires_at = 3600 * SECOND\<rparr>)], last_eviction = 0\<rparr>)"
proof -
  let ?ext = "demo_a2a_ext\<lparr>from_slice := (\<lambda>s. if s = ''abc'' then Inr demo_task_json else Inl [])\<rparr>"
  let ?k = "\<lambda>c. \<lparr>ck_now = 0, ck_lock_free = True, ck_others = id, ck_chunk = c\<rparr>"
  have "capturing demo_json_ctx ''c1'' []"
    "length (concat (map ck_chunk [?k ''a'']) @ ck_chunk (?k ''bc'')) \<le> max_response_body_bytes default_task_routing_config"
    "max_response_body_bytes default_task_routing_config < 2 ^ 64" by code_simp+
  moreover have "\<forall>n. 0 < n \<and> n \<le> length [?k ''a''] \<longrightarrow> json_ok ?ext (concat (map ck_chunk (take n [?k ''a'']))) = None"
    by (auto simp: le_Suc_eq json_ok_def)
  moreover have "json_ok ?ext (concat (map ck_chunk [?k ''a'']) @ ck_chunk (?k ''bc'')) = Some demo_task_json"
    by (simp add: json_ok_def)
  ultimately have "map_option snd (response_chunks ?ext default_task_routing_config ([?k ''a''] @ [?k ''bc''])
      (demo_json_ctx, Some (new_store 0))) =
    map_option Some (store_task_route ?ext (ck_now (?k ''bc'')) (ck_lock_free (?k ''bc'')) default_task_routing_config ''c1''
      demo_task_json (fold ck_others ([?k ''a''] @ [?k ''bc'']) (new_store 0)))"
    by (rule a2a_json_capture)
  also have "\<dots> = Some (Some \<lparr>tasks = [(''t1'', \<lparr>route_cluster = ''c1'', expires_at = 3600 * SECOND\<rparr>)], last_eviction = 0\<rparr>)"
    by code_simp
  finally show ?thesis by simp
qed

text \<open>
  C34. Task ownership: when a response of cluster \<open>c\<close> showed a running task and the store took the route, then a
  follow-up request about the task carries the route header naming \<open>c\<close>, if it comes before the lifetime of the
  route is over and no other request has put or removed a route of this very task since; what other requests did
  about other tasks, the sweeps of expired routes and the evictions of stale readings do not matter. A full store may
  refuse the route, and a later response about the task may change or remove it.
\<close>

theorem a2a_follow_up_routed:
  assumes "store_ok ext st" and "store_task_route ext now lf (task_routing config) c v st = Some st1"
    and "extract_task_route ext v = Some \<lparr>terminal = False, task_id = tid\<rparr>"
    and "tid \<in> fst ` set (tasks st1)"
    and "route_run ext \<lparr>clock = now, store_of = st1, stale_reads = pending\<rparr> ls s"
    and "\<not> list_ex (touches tid) ls"
    and "clock s < now + ttl_seconds (task_routing config) * SECOND"
    and "parse_json_rpc_body px body end_of_stream (build_json_rpc_config (a2a_max_body_bytes config))
           (a2a_on_invalid config) = Inr (Some parsed)"
    and "extract_a2a_envelope ext (parsed_value parsed) (parsed_method parsed)
           (map_of (method_aliases config)) (request_headers ctx) = a2a"
    and "is_task_routable (env_method a2a)" and "env_task_id a2a = Some tid"
    and "a2a_on_request_body ext px (clock s) now' config ctx (Some (store_of s)) body end_of_stream =
           (ctx', store', Inr action)"
  shows "action = Release \<and> get_metadata ctx' ''a2a.route_cluster'' = Some c \<and>
    (route_cluster_header (task_routing config), c) \<in> set (extra_request_headers ctx')"
proof -
  let ?ttl = "ttl_seconds (task_routing config) * SECOND"
  from assms(2,3) have put: "put_route ext now lf tid c ?ttl st = Some st1"
    by (simp add: store_task_route_def route_ttl_def)
  from extract_task_route_valid [OF assms(3)] have valid: "validate_id ext tid" by simp
  have "0 < ?ttl" using assms(7) route_run_clock [OF assms(5)] by (cases ?ttl) auto
  then have "fst (get_by_task_id (clock s) now' (store_of s) tid) =
      (if clock s < now + ?ttl then Some c else None)"
    using put_then_lookup [of ext "\<lparr>clock = now, store_of = st, stale_reads = pending\<rparr>" tid ?ttl lf c st1 ls s now']
      assms(1,4,5,6) valid put by simp
  with assms(7) have hit: "fst (get_by_task_id (clock s) now' (store_of s) tid) = Some c" by simp
  obtain ctx3 where
    "lookup_task_route (clock s) now' ctx3 a2a (store_of s) config = (ctx', the store')" "action = Release"
    using assms(8,9,12) by (auto simp: a2a_on_request_body_def Let_def split: prod.splits sum.splits)
  with lookup_hit [OF assms(10,11) hit, of ctx3 config] show ?thesis by auto
qed

definition demo_rpc :: parsed_json_rpc where
  "demo_rpc =
     \<lparr>parsed_value = jobj [(''params'', jobj [(''id'', JString ''t1'')])], parsed_method = ''tasks/get'',
      parsed_envelope = \<lparr>rpc_method = Some ''tasks/get'', rpc_kind = ''request'', rpc_notification = False, rpc_id = None,
                         rpc_id_kind = Id_missing\<rparr>\<rparr>"

definition demo_px :: praxis where
  "demo_px = open_px\<lparr>parse_json_rpc_body := (\<lambda>_ _ _ _. Inr (Some demo_rpc))\<rparr>"

definition demo_a2a_config :: a2a_config where
  "demo_a2a_config =
     \<lparr>a2a_headers_of = default_a2a_headers, a2a_max_body_bytes = 65536,
      method_aliases = [(''tasks/get'', ''GetTask'')], a2a_on_invalid = Invalid_reject,
      task_routing = default_task_routing_config\<lparr>enabled := True\<rparr>\<rparr>"

lemma a2a_follow_up_routed_witness:
  "\<exists>ctx' store'. a2a_on_request_body null_ext demo_px 9 9 demo_a2a_config empty_ctx
      (Some \<lparr>tasks = [(''t1'', \<lparr>route_cluster = ''c1'', expires_at = 3600 * SECOND\<rparr>)], last_eviction = 0\<rparr>)
      None True = (ctx', store', Inr Release) \<and>
    (''x-praxis-a2a-route-cluster'', ''c1'') \<in> set (extra_request_headers ctx')"
proof -
  let ?st1 = "\<lparr>tasks = [(''t1'', \<lparr>route_cluster = ''c1'', expires_at = 3600 * SECOND\<rparr>)], last_eviction = 0\<rparr>"
  let ?s = "\<lparr>clock = 9, store_of = ?st1, stale_reads = []\<rparr>"
  let ?a2a = "extract_a2a_envelope null_ext (parsed_value demo_rpc) (parsed_method demo_rpc)
     (map_of (method_aliases demo_a2a_config)) (request_headers empty_ctx)"
  have "snd (snd (a2a_on_request_body null_ext demo_px 9 9 demo_a2a_config empty_ctx (Some ?st1) None True)) = Inr Release"
    by code_simp
  then obtain ctx' store' where
    call: "a2a_on_request_body null_ext demo_px 9 9 demo_a2a_config empty_ctx (Some ?st1) None True =
      (ctx', store', Inr Release)"
    by (metis prod.collapse)
  have learned: "store_task_route null_ext 0 True (task_routing demo_a2a_config) ''c1'' demo_task_json (new_store 0) = Some ?st1"
    "extract_task_route null_ext demo_task_json = Some \<lparr>terminal = False, task_id = ''t1''\<rparr>"
    "''t1'' \<in> fst ` set (tasks ?st1)" by code_simp+
  have run: "route_run null_ext \<lparr>clock = 0, store_of = ?st1, stale_reads = []\<rparr> [Tick_step 9] ?s"
    "\<not> list_ex (touches ''t1'') [Tick_step 9]" by simp_all
  have time: "clock ?s < 0 + ttl_seconds (task_routing demo_a2a_config) * SECOND" by code_simp
  have parse: "parse_json_rpc_body demo_px None True (build_json_rpc_config (a2a_max_body_bytes demo_a2a_config))
      (a2a_on_invalid demo_a2a_config) = Inr (Some demo_rpc)" by (simp add: demo_px_def)
  have env: "is_task_routable (env_method ?a2a)" "env_task_id ?a2a = Some ''t1''" by code_simp+
  have call': "a2a_on_request_body null_ext demo_px (clock ?s) 9 demo_a2a_config empty_ctx (Some (store_of ?s)) None True =
      (ctx', store', Inr Release)" using call by simp
  have "route_cluster_header (task_routing demo_a2a_config) = ''x-praxis-a2a-route-cluster''" by code_simp
  with a2a_follow_up_routed [OF store_ok_new learned run time parse refl env call'] call show ?thesis by auto
qed

text \<open>
  A lifetime too long for the clock stops the process: \<open>ttl_seconds\<close> has a lower bound in
  the configuration check but no upper one, and with the largest accepted value the first task
  route that a response teaches panics.
\<close>

theorem a2a_ttl_panics:
  "a2a_build_config demo_px (demo_a2a_config\<lparr>task_routing :=
       (task_routing demo_a2a_config)\<lparr>ttl_seconds := 2 ^ 64 - 1\<rparr>\<rparr>) =
     Inr (demo_a2a_config\<lparr>task_routing := (task_routing demo_a2a_config)\<lparr>ttl_seconds := 2 ^ 64 - 1\<rparr>\<rparr>) \<and>
   store_task_route demo_a2a_ext now True
     ((task_routing demo_a2a_config)\<lparr>ttl_seconds := 2 ^ 64 - 1\<rparr>) c demo_task_json st = None"
proof
  show "a2a_build_config demo_px (demo_a2a_config\<lparr>task_routing :=
       (task_routing demo_a2a_config)\<lparr>ttl_seconds := 2 ^ 64 - 1\<rparr>\<rparr>) =
     Inr (demo_a2a_config\<lparr>task_routing := (task_routing demo_a2a_config)\<lparr>ttl_seconds := 2 ^ 64 - 1\<rparr>\<rparr>)"
    by code_simp
  let ?cfg = "(task_routing demo_a2a_config)\<lparr>ttl_seconds := 2 ^ 64 - 1\<rparr>"
  have "extract_task_route demo_a2a_ext demo_task_json = Some \<lparr>terminal = False, task_id = ''t1''\<rparr>"
    "validate_id demo_a2a_ext ''t1''" by code_simp+
  moreover have "instant_add now (route_ttl False ?cfg) = None"
  proof -
    have "route_ttl False ?cfg = (2 ^ 64 - 1) * SECOND" by (simp add: route_ttl_def)
    moreover have "2 ^ 64 - 1 \<le> (now + (2 ^ 64 - 1) * SECOND) div SECOND"
      by (simp add: SECOND_def)
    ultimately show ?thesis by (simp add: instant_add_def)
  qed
  ultimately show "store_task_route demo_a2a_ext now True ?cfg c demo_task_json st = None"
    by (simp add: store_task_route_def put_route_def)
qed

section \<open>Methods and aliases\<close>

lemma known_method_str: "is_known_a2a_method (a2a_method_str m) \<longleftrightarrow> (\<forall>s. m = Unknown_method s \<longrightarrow> is_known_a2a_method s)"
  by (cases m) (auto simp: is_known_a2a_method_def)

lemma method_str_from: "a2a_method_str (from_method_str aliases s) = unwrap_or s (aliases s)"
  by (simp add: from_method_str_def Let_def)

lemma from_method_str_known:
  "is_known_a2a_method (unwrap_or s (aliases s)) \<Longrightarrow> from_method_str aliases s \<noteq> Unknown_method t"
  unfolding is_known_a2a_method_def from_method_str_def Let_def by auto

lemma validate_aliases_known:
  "validate_aliases al = Inr () \<Longrightarrow> (a, c) \<in> set al \<Longrightarrow> is_known_a2a_method c"
  by (induction al rule: validate_aliases.induct) (auto split: if_splits)

text \<open>
  Aliases never invent methods: with an accepted configuration, the method of a request is
  reported under the name the alias map gives (or its own), and an aliased name always stands
  for one of the protocol's methods.
\<close>

theorem a2a_alias_resolution:
  assumes "a2a_build_config px cfg = Inr cfg'"
    and "from_method_str (map_of (method_aliases cfg')) s = m"
  shows "a2a_method_str m = unwrap_or s (map_of (method_aliases cfg) s) \<and>
    (map_of (method_aliases cfg) s \<noteq> None \<longrightarrow> (\<forall>t. m \<noteq> Unknown_method t))"
proof -
  from assms(1) have cfg': "cfg' = cfg" "validate_aliases (method_aliases cfg) = Inr ()"
    by (auto simp: a2a_build_config_def Let_def and_then_Inr_iff)
  have "\<forall>t. m \<noteq> Unknown_method t" if "map_of (method_aliases cfg) s = Some c" for c
    using from_method_str_known [of s "map_of (method_aliases cfg)"] that assms(2) cfg'
      validate_aliases_known [OF cfg'(2) map_of_SomeD [OF that]] by auto
  then show ?thesis using assms(2) cfg' method_str_from by auto
qed

lemma a2a_alias_resolution_witness:
  "a2a_method_str (from_method_str (map_of (method_aliases demo_a2a_config)) ''tasks/get'') = ''GetTask''"
proof -
  have "a2a_build_config demo_px demo_a2a_config = Inr demo_a2a_config"
    "map_of (method_aliases demo_a2a_config) ''tasks/get'' = Some ''GetTask''" by code_simp+
  with a2a_alias_resolution [OF this(1) refl, of "''tasks/get''"] show ?thesis by simp
qed

end
