(* ===== verification/Anthropic_Request.thy ===== *)
theory Anthropic_Request
  imports Json
begin

text \<open>
  The translation of an Anthropic Messages request body to the Chat Completions shape,
  \<open>apis/src/anthropic/to_openai/request.rs\<close>: system hoisting, content blocks, tool calls and
  results, images, parameters, tools and tool choice.
\<close>

section \<open>Images and tool results\<close>

definition convert_image_source :: "json \<Rightarrow> str option" where
  "convert_image_source source =
     Option.bind (get_str source ''type'') (\<lambda>source_type.
       if source_type = ''base64'' then
         Option.bind (get_str source ''media_type'') (\<lambda>media_type.
           map_option (\<lambda>data. ''data:'' @ media_type @ '';base64,'' @ data) (get_str source ''data''))
       else if source_type = ''url'' then get_str source ''url''
       else None)"

definition convert_image_block :: "json \<Rightarrow> json list \<Rightarrow> json list" where
  "convert_image_block block content_parts =
     (case Option.bind (jget block ''source'') convert_image_source of
        None \<Rightarrow> content_parts
      | Some url_val \<Rightarrow>
          content_parts @ [jobj [(''type'', JString ''image_url''),
                                 (''image_url'', jobj [(''url'', JString url_val)])]])"

definition extract_tool_result_content :: "json \<Rightarrow> str" where
  "extract_tool_result_content block =
     (case jget block ''content'' of
        Some (JString s) \<Rightarrow> s
      | Some (JArray parts) \<Rightarrow>
          str_join [LF]
            (List.map_filter
              (\<lambda>part. if get_str part ''type'' = Some ''text'' then get_str part ''text'' else None) parts)
      | _ \<Rightarrow> [])"

definition extract_tool_result_image_content :: "json \<Rightarrow> json list" where
  "extract_tool_result_image_content block =
     (case jget block ''content'' of
        Some (JArray parts) \<Rightarrow>
          fold (\<lambda>part image_parts. if get_str part ''type'' = Some ''image''
                                  then convert_image_block part image_parts else image_parts) parts []
      | _ \<Rightarrow> [])"

section \<open>Content blocks\<close>

text \<open>What is collected while the blocks of one message are read.\<close>

record block_acc =
  acc_messages :: "json list"
  text_parts :: "str list"
  content_parts :: "json list"
  tool_calls :: "json list"

definition convert_text_block :: "json \<Rightarrow> block_acc \<Rightarrow> block_acc" where
  "convert_text_block block acc =
     (case get_str block ''text'' of
        None \<Rightarrow> acc
      | Some text \<Rightarrow>
          acc\<lparr>text_parts := text_parts acc @ [text],
              content_parts := content_parts acc @
                [jobj [(''type'', JString ''text''), (''text'', JString text)]]\<rparr>)"

definition convert_tool_use_block :: "externals \<Rightarrow> json \<Rightarrow> block_acc \<Rightarrow> block_acc" where
  "convert_tool_use_block ext block acc =
     (let tid = unwrap_or [] (get_str block ''id'');
          name = unwrap_or [] (get_str block ''name'');
          input = unwrap_or (JObject []) (jget block ''input'');
          args = text_or_default ext input
      in acc\<lparr>tool_calls := tool_calls acc @
           [jobj [(''id'', JString tid), (''type'', JString ''function''),
                  (''function'', jobj [(''name'', JString name), (''arguments'', JString args)])]]\<rparr>)"

definition convert_tool_result_block :: "json \<Rightarrow> block_acc \<Rightarrow> block_acc" where
  "convert_tool_result_block block acc =
     (let tool_call_id = unwrap_or [] (get_str block ''tool_use_id'');
          result_content = extract_tool_result_content block;
          image_content = extract_tool_result_image_content block;
          acc1 = acc\<lparr>acc_messages := acc_messages acc @
                   [jobj [(''role'', JString ''tool''), (''tool_call_id'', JString tool_call_id),
                          (''content'', JString result_content)]]\<rparr>
      in if image_content \<noteq> []
         then acc1\<lparr>acc_messages := acc_messages acc1 @
                [jobj [(''role'', JString ''user''), (''content'', JArray image_content)]]\<rparr>
         else acc1)"

definition flush_text_parts :: "str \<Rightarrow> block_acc \<Rightarrow> block_acc" where
  "flush_text_parts role acc =
     (if content_parts acc = [] \<and> text_parts acc = [] then acc
      else
        (let acc1 =
               (if length (content_parts acc) = 1 \<and>
                   Option.bind (first_of (content_parts acc)) (\<lambda>p. get_str p ''type'') = Some ''text''
                then acc\<lparr>acc_messages := acc_messages acc @
                       [jobj [(''role'', JString role), (''content'', JString (concat (text_parts acc)))]]\<rparr>
                else if content_parts acc \<noteq> []
                then acc\<lparr>acc_messages := acc_messages acc @
                       [jobj [(''role'', JString role), (''content'', JArray (content_parts acc))]]\<rparr>
                else acc)
         in acc1\<lparr>text_parts := [], content_parts := []\<rparr>))"

definition convert_single_block ::
  "externals \<Rightarrow> str \<Rightarrow> json \<Rightarrow> str \<Rightarrow> block_acc \<Rightarrow> block_acc" where
  "convert_single_block ext role block block_type acc =
     (if block_type = ''text'' then convert_text_block block acc
      else if block_type = ''image''
        then acc\<lparr>content_parts := convert_image_block block (content_parts acc)\<rparr>
      else if block_type = ''tool_use'' then convert_tool_use_block ext block acc
      else if block_type = ''tool_result''
        then convert_tool_result_block block (flush_text_parts role acc)
      else acc)"

definition finalize_content_blocks :: "str \<Rightarrow> block_acc \<Rightarrow> block_acc" where
  "finalize_content_blocks role acc =
     (if role = ''assistant'' \<and> tool_calls acc \<noteq> [] then
        (let m0 = [(''role'', JString ''assistant'')];
             m1 = (if text_parts acc \<noteq> []
                   then obj_insert ''content'' (JString (concat (text_parts acc))) m0 else m0);
             m2 = obj_insert ''tool_calls'' (JArray (tool_calls acc)) m1
         in acc\<lparr>acc_messages := acc_messages acc @ [JObject m2]\<rparr>)
      else flush_text_parts role acc)"

definition block_type_of :: "json \<Rightarrow> str" where
  "block_type_of block = unwrap_or [] (get_str block ''type'')"

definition convert_content_blocks ::
  "externals \<Rightarrow> json list \<Rightarrow> str \<Rightarrow> json list \<Rightarrow> json list" where
  "convert_content_blocks ext messages role blocks =
     (let acc0 = \<lparr>acc_messages = messages, text_parts = [], content_parts = [], tool_calls = []\<rparr>;
          acc1 = fold (\<lambda>block. convert_single_block ext role block (block_type_of block)) blocks acc0
      in acc_messages (finalize_content_blocks role acc1))"

section \<open>Messages\<close>

definition convert_message :: "externals \<Rightarrow> json \<Rightarrow> json list \<Rightarrow> json list" where
  "convert_message ext msg messages =
     (case get_str msg ''role'' of
        None \<Rightarrow> messages
      | Some role \<Rightarrow>
          (case jget msg ''content'' of
             Some (JString text) \<Rightarrow>
               messages @ [jobj [(''role'', JString role), (''content'', JString text)]]
           | Some (JArray blocks) \<Rightarrow> convert_content_blocks ext messages role blocks
           | _ \<Rightarrow> messages @ [jobj [(''role'', JString role), (''content'', JString [])]]))"

definition convert_messages :: "externals \<Rightarrow> jmap \<Rightarrow> json list \<Rightarrow> json list" where
  "convert_messages ext obj messages =
     (case map_of obj ''messages'' of
        Some (JArray anthropic_messages) \<Rightarrow> fold (convert_message ext) anthropic_messages messages
      | _ \<Rightarrow> messages)"

definition hoist_system :: "jmap \<Rightarrow> json list \<Rightarrow> json list" where
  "hoist_system obj messages =
     (let push = (\<lambda>content. if content \<noteq> []
             then messages @ [jobj [(''role'', JString ''system''), (''content'', JString content)]]
             else messages)
      in case map_of obj ''system'' of
           Some (JString s) \<Rightarrow> push s
         | Some (JArray blocks) \<Rightarrow> push (str_join [LF] (List.map_filter (\<lambda>b. get_str b ''text'') blocks))
         | _ \<Rightarrow> messages)"

section \<open>Parameters and tools\<close>

definition copy_key :: "jmap \<Rightarrow> str \<Rightarrow> str \<Rightarrow> jmap \<Rightarrow> jmap" where
  "copy_key obj src dst chat = (case map_of obj src of None \<Rightarrow> chat | Some v \<Rightarrow> obj_insert dst v chat)"

definition map_parameters :: "jmap \<Rightarrow> jmap \<Rightarrow> jmap" where
  "map_parameters obj chat =
     copy_key obj ''top_k'' ''top_k'' (copy_key obj ''top_p'' ''top_p''
       (copy_key obj ''temperature'' ''temperature'' (copy_key obj ''stop_sequences'' ''stop'' chat)))"

definition server_side_tool :: "str \<Rightarrow> bool" where
  "server_side_tool tool_type \<longleftrightarrow>
     starts_with tool_type ''web_search'' \<or> starts_with tool_type ''bash'' \<or>
     starts_with tool_type ''text_editor''"

definition convert_tool :: "json \<Rightarrow> json option" where
  "convert_tool tool =
     (let tool_type = unwrap_or ''custom'' (get_str tool ''type'')
      in if server_side_tool tool_type then None
         else
           (let name = unwrap_or [] (get_str tool ''name'');
                description = unwrap_or [] (get_str tool ''description'');
                parameters = unwrap_or (jobj [(''type'', JString ''object'')]) (jget tool ''input_schema'')
            in Some (jobj [(''type'', JString ''function''),
                           (''function'', jobj [(''name'', JString name),
                                                (''description'', JString description),
                                                (''parameters'', parameters)])])))"

definition convert_tools :: "jmap \<Rightarrow> jmap \<Rightarrow> jmap" where
  "convert_tools obj chat =
     (case map_of obj ''tools'' of
        Some (JArray tools) \<Rightarrow>
          (let chat_tools = List.map_filter convert_tool tools
           in if chat_tools \<noteq> [] then obj_insert ''tools'' (JArray chat_tools) chat else chat)
      | _ \<Rightarrow> chat)"

definition convert_parallel_tool_calls :: "jmap \<Rightarrow> jmap \<Rightarrow> jmap" where
  "convert_parallel_tool_calls obj chat =
     (case map_of obj ''tool_choice'' of
        Some (JObject tool_choice) \<Rightarrow>
          if Option.bind (map_of tool_choice ''disable_parallel_tool_use'') as_bool = Some True
          then obj_insert ''parallel_tool_calls'' (JBool False) chat else chat
      | _ \<Rightarrow> chat)"

definition chat_choice_of :: "json \<Rightarrow> json option" where
  "chat_choice_of tool_choice =
     (case tool_choice of
        JString s \<Rightarrow>
          Some (JString (if s = ''any'' then ''required'' else if s = ''none'' then ''none'' else ''auto''))
      | JObject tc \<Rightarrow>
          (let t = Option.bind (map_of tc ''type'') as_str in
           Some (if t = Some ''any'' then JString ''required''
                 else if t = Some ''none'' then JString ''none''
                 else if t = Some ''tool'' then
                   (case Option.bind (map_of tc ''name'') as_str of
                      Some name \<Rightarrow> jobj [(''type'', JString ''function''),
                                         (''function'', jobj [(''name'', JString name)])]
                    | None \<Rightarrow> JString ''auto'')
                 else JString ''auto''))
      | _ \<Rightarrow> None)"

definition convert_tool_choice :: "jmap \<Rightarrow> jmap \<Rightarrow> jmap" where
  "convert_tool_choice obj chat =
     (case map_of obj ''tool_choice'' of
        None \<Rightarrow> chat
      | Some tool_choice \<Rightarrow>
          if contains_key obj ''tools'' \<and> \<not> contains_key chat ''tools'' then chat
          else (case chat_choice_of tool_choice of
                  None \<Rightarrow> chat | Some chat_choice \<Rightarrow> obj_insert ''tool_choice'' chat_choice chat))"

section \<open>The request\<close>

definition transform_object :: "externals \<Rightarrow> jmap \<Rightarrow> jmap" where
  "transform_object ext obj =
     (let chat1 = copy_key obj ''model'' ''model'' [];
          messages = convert_messages ext obj (hoist_system obj []);
          chat2 = obj_insert ''messages'' (JArray messages) chat1;
          chat3 = copy_key obj ''stream'' ''stream'' (copy_key obj ''max_tokens'' ''max_tokens'' chat2)
      in convert_tool_choice obj
           (convert_parallel_tool_calls obj (convert_tools obj (map_parameters obj chat3))))"

definition transform_request :: "externals \<Rightarrow> bytes \<Rightarrow> str + bytes" where
  "transform_request ext body =
     (case from_slice ext body of
        Inl e \<Rightarrow> Inl (''invalid JSON: '' @ e)
      | Inr v \<Rightarrow>
          (case as_object v of
             None \<Rightarrow> Inl ''request body is not a JSON object''
           | Some obj \<Rightarrow>
               (case to_text ext (JObject (transform_object ext obj)) of
                  Inl e \<Rightarrow> Inl (''serialization failed: '' @ e)
                | Inr t \<Rightarrow> Inr t)))"

end
