(* ===== verification/Anthropic_Response.thy ===== *)
theory Anthropic_Response
  imports Praxis Anthropic_Request Anthropic_Stream
begin

text \<open>
  The translation of a Chat Completions response back to the Messages shape
  (\<open>apis/src/anthropic/to_openai/response.rs\<close>) and the filter around both translations
  (\<open>to_openai/mod.rs\<close>, \<open>config.rs\<close>).
\<close>

section \<open>The response\<close>

definition RESPONSE_TYPE :: str where "RESPONSE_TYPE = ''message''"
definition RESPONSE_ROLE :: str where "RESPONSE_ROLE = ''assistant''"

record transform_result =
  tr_body :: bytes
  original_finish_reason :: str

definition first_choice :: "jmap \<Rightarrow> json option" where
  "first_choice obj = Option.bind (Option.bind (map_of obj ''choices'') as_array) first_of"

definition extract_text_block :: "json option \<Rightarrow> json list \<Rightarrow> json list" where
  "extract_text_block message blocks =
     (case Option.bind message (\<lambda>m. get_str m ''content'') of
        None \<Rightarrow> blocks
      | Some content \<Rightarrow>
          if content \<noteq> []
          then blocks @ [jobj [(''type'', JString ''text''), (''text'', JString content)]] else blocks)"

definition tool_call_block :: "externals \<Rightarrow> json \<Rightarrow> json" where
  "tool_call_block ext tc =
     (let tid = unwrap_or [] (get_str tc ''id'');
          name = unwrap_or [] (Option.bind (jget tc ''function'') (\<lambda>f. get_str f ''name''));
          args_str = unwrap_or ''{}'' (Option.bind (jget tc ''function'') (\<lambda>f. get_str f ''arguments''));
          input = (case from_slice ext args_str of Inl _ \<Rightarrow> JObject [] | Inr v \<Rightarrow> v)
      in jobj [(''type'', JString ''tool_use''), (''id'', JString tid), (''name'', JString name),
               (''input'', input)])"

definition extract_tool_call_blocks :: "externals \<Rightarrow> json option \<Rightarrow> json list \<Rightarrow> json list" where
  "extract_tool_call_blocks ext message blocks =
     (case Option.bind message (\<lambda>m. get_array m ''tool_calls'') of
        None \<Rightarrow> blocks
      | Some tcs \<Rightarrow> blocks @ map (tool_call_block ext) tcs)"

definition build_content_blocks :: "externals \<Rightarrow> jmap \<Rightarrow> json list" where
  "build_content_blocks ext obj =
     (case first_choice obj of
        None \<Rightarrow> []
      | Some choice \<Rightarrow>
          (let message = jget choice ''message''
           in extract_tool_call_blocks ext message (extract_text_block message [])))"

definition map_finish_reason :: "jmap \<Rightarrow> str \<times> str" where
  "map_finish_reason obj =
     (let finish_reason = unwrap_or ''stop'' (Option.bind (first_choice obj) (\<lambda>c. get_str c ''finish_reason''));
          mapped = (if finish_reason = ''tool_calls'' then ''tool_use''
                    else if finish_reason = ''length'' then ''max_tokens'' else ''end_turn'')
      in (mapped, finish_reason))"

definition build_usage :: "jmap \<Rightarrow> json" where
  "build_usage obj =
     (let usage = map_of obj ''usage'';
          input_tokens = unwrap_or 0 (Option.bind usage (\<lambda>u. get_u64 u ''prompt_tokens''));
          output_tokens = unwrap_or 0 (Option.bind usage (\<lambda>u. get_u64 u ''completion_tokens''));
          cache_read = Option.bind (Option.bind usage (\<lambda>u. jget u ''prompt_tokens_details''))
                         (\<lambda>d. get_u64 d ''cached_tokens'');
          usage_obj = obj_insert ''output_tokens'' (JNumber (PosInt output_tokens))
                        [(''input_tokens'', JNumber (PosInt input_tokens))]
      in JObject (case cache_read of
                    None \<Rightarrow> usage_obj
                  | Some cached \<Rightarrow> obj_insert ''cache_read_input_tokens'' (JNumber (PosInt cached)) usage_obj))"

definition timestamp_hex_id :: "nat \<Rightarrow> str" where
  "timestamp_hex_id nanos = show_hex 24 nanos"

definition response_object :: "externals \<Rightarrow> nat \<Rightarrow> jmap \<Rightarrow> str \<Rightarrow> jmap" where
  "response_object ext nanos obj request_model =
     (let mid = (case Option.bind (map_of obj ''id'') as_str of
                   Some i \<Rightarrow> ''msg_'' @ i | None \<Rightarrow> ''msg_'' @ timestamp_hex_id nanos);
          model = unwrap_or request_model (Option.bind (map_of obj ''model'') as_str)
      in fold (\<lambda>(k, v) m. obj_insert k v m)
           [(''id'', JString mid), (''type'', JString RESPONSE_TYPE), (''role'', JString RESPONSE_ROLE),
            (''model'', JString model), (''content'', JArray (build_content_blocks ext obj)),
            (''stop_reason'', JString (fst (map_finish_reason obj))), (''stop_sequence'', JNull),
            (''usage'', build_usage obj)] [])"

definition transform_response :: "externals \<Rightarrow> nat \<Rightarrow> bytes \<Rightarrow> str \<Rightarrow> str + transform_result" where
  "transform_response ext nanos body request_model =
     (case from_slice ext body of
        Inl e \<Rightarrow> Inl (''invalid JSON: '' @ e)
      | Inr v \<Rightarrow>
          (case as_object v of
             None \<Rightarrow> Inl ''response body is not a JSON object''
           | Some obj \<Rightarrow>
               (case to_text ext (JObject (response_object ext nanos obj request_model)) of
                  Inl e \<Rightarrow> Inl (''serialization failed: '' @ e)
                | Inr t \<Rightarrow> Inr \<lparr>tr_body = t, original_finish_reason = snd (map_finish_reason obj)\<rparr>)))"

section \<open>The filter\<close>

definition to_openai_on_request :: "filter_ctx \<Rightarrow> filter_ctx \<times> filter_action" where
  "to_openai_on_request ctx =
     (ctx\<lparr>request_headers_to_remove :=
        request_headers_to_remove ctx @ [''anthropic-version'', ''x-api-key'']\<rparr>, Continue)"

definition extract_request_metadata :: "externals \<Rightarrow> filter_ctx \<Rightarrow> bytes \<Rightarrow> filter_ctx" where
  "extract_request_metadata ext ctx bs =
     (case from_slice ext bs of
        Inl _ \<Rightarrow> set_metadata ''anthropic_to_openai.streaming'' ''false'' ctx
      | Inr v \<Rightarrow>
          (let is_streaming = unwrap_or False (get_bool v ''stream'');
               model = unwrap_or [] (get_str v ''model'')
           in set_metadata ''anthropic_to_openai.model'' model
                (set_metadata ''anthropic_to_openai.streaming'' (bool_text is_streaming) ctx)))"

definition transform_request_body :: "externals \<Rightarrow> bytes option \<Rightarrow> bytes option \<times> filter_action" where
  "transform_request_body ext body =
     (case body of
        None \<Rightarrow> (None, Continue)
      | Some bs \<Rightarrow>
          (case transform_request ext bs of
             Inr transformed \<Rightarrow> (Some transformed, Continue)
           | Inl msg \<Rightarrow>
               (body, Reject \<lparr>rej_status = 400, rej_headers = [(''content-type'', ''application/json'')],
                  rej_body = ''{\"error\":{\"message\":\"'' @ msg @
                             ''\",\"type\":\"invalid_request_error\"}}''\<rparr>)))"

definition to_openai_on_request_body ::
  "externals \<Rightarrow> filter_ctx \<Rightarrow> bytes option \<Rightarrow> bool \<Rightarrow> filter_ctx \<times> bytes option \<times> filter_action" where
  "to_openai_on_request_body ext ctx body end_of_stream =
     (if \<not> end_of_stream then (ctx, body, Continue)
      else (case body of
              None \<Rightarrow> (ctx, body, Continue)
            | Some bs \<Rightarrow>
                if bs = [] then (ctx, body, Continue)
                else (extract_request_metadata ext ctx bs, transform_request_body ext body)))"

definition should_transform_response :: "externals \<Rightarrow> filter_ctx \<Rightarrow> bool" where
  "should_transform_response ext ctx \<longleftrightarrow>
     \<not> meta_true ctx ''anthropic_to_openai.streaming'' \<and>
     (case response_header ctx of None \<Rightarrow> True | Some r \<Rightarrow> is_success ext (status r))"

definition to_openai_on_response :: "externals \<Rightarrow> nat \<Rightarrow> filter_ctx \<Rightarrow> filter_ctx \<times> filter_action" where
  "to_openai_on_response ext max_body_bytes ctx =
     (if should_transform_response ext ctx then
        (let ctx1 = ctx\<lparr>response_body_mode := StreamBuffer (Some max_body_bytes)\<rparr>
         in (case response_header ctx1 of
               None \<Rightarrow> ctx1
             | Some resp \<Rightarrow>
                 ctx1\<lparr>response_header :=
                        Some (resp\<lparr>resp_headers := (resp_headers resp)(''content-length'' := None)\<rparr>),
                      response_headers_modified := True\<rparr>, Continue))
      else (ctx, Continue))"

definition transform_non_streaming_body ::
  "externals \<Rightarrow> nat \<Rightarrow> filter_ctx \<Rightarrow> bytes option \<Rightarrow> str \<Rightarrow> filter_ctx \<times> bytes option" where
  "transform_non_streaming_body ext nanos ctx body request_model =
     (case body of
        None \<Rightarrow> (ctx, body)
      | Some bs \<Rightarrow>
          if bs = [] then (ctx, body)
          else (case transform_response ext nanos bs request_model of
                  Inl _ \<Rightarrow> (ctx, body)
                | Inr result \<Rightarrow>
                    (set_metadata ''openai.finish_reason'' (original_finish_reason result) ctx,
                     Some (tr_body result))))"

definition to_openai_on_response_body ::
  "externals \<Rightarrow> nat \<Rightarrow> filter_ctx \<Rightarrow> bytes option \<Rightarrow> bool \<Rightarrow> filter_ctx \<times> bytes option \<times> filter_action" where
  "to_openai_on_response_body ext nanos ctx body end_of_stream =
     (if \<not> should_transform_response ext ctx then (ctx, body, Continue)
      else if \<not> end_of_stream then (ctx, body, Continue)
      else
        (let request_model = unwrap_or [] (get_metadata ctx ''anthropic_to_openai.model'');
             (ctx1, body1) = transform_non_streaming_body ext nanos ctx body request_model
         in case (body1, response_header ctx1) of
              (Some b, Some resp) \<Rightarrow>
                (ctx1\<lparr>response_header :=
                        Some (resp\<lparr>resp_headers := (resp_headers resp)
                          (''content-length'' \<mapsto> show_nat (length b),
                           ''content-type'' \<mapsto> ''application/json'')\<rparr>),
                      response_headers_modified := True\<rparr>, body1, Continue)
            | _ \<Rightarrow> (ctx1, body1, Continue)))"

definition to_openai_default_max_body_bytes :: nat where
  "to_openai_default_max_body_bytes = 1048576"

definition to_openai_build_config :: "praxis \<Rightarrow> nat \<Rightarrow> filter_error + nat" where
  "to_openai_build_config px max_body_bytes =
     and_then (check_max_body_bytes px ''anthropic_to_openai'' max_body_bytes) (\<lambda>_. Inr max_body_bytes)"

end
