(* ===== verification/Anthropic_Translation.thy ===== *)
theory Anthropic_Translation
  imports Anthropic_Response
begin

text \<open>
  What the translation between the Messages and the Chat Completions shape keeps: the text, the
  tool calls and the tool results of a conversation in their order, the shape of the request
  object, and the content of an assistant turn that is translated there and back.
\<close>

section \<open>Views of a chat message\<close>

definition chat_text :: "json \<Rightarrow> str" where
  "chat_text m =
     (case jget m ''content'' of
        Some (JString s) \<Rightarrow> s
      | Some (JArray ps) \<Rightarrow> concat (List.map_filter (\<lambda>p. get_str p ''text'') ps)
      | _ \<Rightarrow> [])"

type_synonym call_view = "str \<times> str \<times> str"

definition view_call :: "json \<Rightarrow> call_view" where
  "view_call c =
     (unwrap_or [] (get_str c ''id''),
      unwrap_or [] (Option.bind (jget c ''function'') (\<lambda>f. get_str f ''name'')),
      unwrap_or [] (Option.bind (jget c ''function'') (\<lambda>f. get_str f ''arguments'')))"

definition chat_calls :: "json \<Rightarrow> call_view list" where
  "chat_calls m = map view_call (unwrap_or [] (get_array m ''tool_calls''))"

definition chat_results :: "json \<Rightarrow> (str \<times> str) list" where
  "chat_results m =
     (case get_str m ''tool_call_id'' of
        None \<Rightarrow> [] | Some i \<Rightarrow> [(i, unwrap_or [] (get_str m ''content''))])"

section \<open>Views of an Anthropic message\<close>

text \<open>The text of a tool result: a string, or the lines of its text parts.\<close>

definition result_text :: "json \<Rightarrow> str" where
  "result_text b =
     (case jget b ''content'' of
        Some (JString s) \<Rightarrow> s
      | Some (JArray ps) \<Rightarrow>
          str_join [LF] (List.map_filter (\<lambda>p. if get_str p ''type'' = Some ''text'' then get_str p ''text'' else None) ps)
      | _ \<Rightarrow> [])"

lemma extract_is_result_text: "extract_tool_result_content = result_text"
  by (simp add: fun_eq_iff extract_tool_result_content_def result_text_def)

definition block_text :: "json \<Rightarrow> str" where
  "block_text b =
     (if block_type_of b = ''text'' then unwrap_or [] (get_str b ''text'')
      else if block_type_of b = ''tool_result'' then result_text b else [])"

definition block_calls :: "externals \<Rightarrow> json \<Rightarrow> call_view list" where
  "block_calls ext b =
     (if block_type_of b = ''tool_use''
      then [(unwrap_or [] (get_str b ''id''), unwrap_or [] (get_str b ''name''),
             text_or_default ext (unwrap_or (JObject []) (jget b ''input'')))]
      else [])"

definition block_results :: "json \<Rightarrow> (str \<times> str) list" where
  "block_results b =
     (if block_type_of b = ''tool_result''
      then [(unwrap_or [] (get_str b ''tool_use_id''), result_text b)] else [])"

text \<open>
  Over the blocks of a message; a message without a role is skipped, and only an assistant
  makes tool calls.
\<close>

definition over_blocks :: "(str \<Rightarrow> json \<Rightarrow> 'a list) \<Rightarrow> json \<Rightarrow> 'a list" where
  "over_blocks f msg =
     (case (get_str msg ''role'', jget msg ''content'') of
        (Some role, Some (JArray blocks)) \<Rightarrow> concat (map (f role) blocks)
      | _ \<Rightarrow> [])"

definition source_text :: "json \<Rightarrow> str" where
  "source_text msg =
     (case (get_str msg ''role'', jget msg ''content'') of
        (Some role, Some (JString s)) \<Rightarrow> s
      | _ \<Rightarrow> over_blocks (\<lambda>_. block_text) msg)"

definition source_calls :: "externals \<Rightarrow> json \<Rightarrow> call_view list" where
  "source_calls ext = over_blocks (\<lambda>role b. if role = ''assistant'' then block_calls ext b else [])"

definition source_results :: "json \<Rightarrow> (str \<times> str) list" where
  "source_results = over_blocks (\<lambda>_. block_results)"

abbreviation "texts_of ms \<equiv> concat (map chat_text ms)"
abbreviation "calls_of ms \<equiv> concat (map chat_calls ms)"
abbreviation "results_of ms \<equiv> concat (map chat_results ms)"

section \<open>One block\<close>

lemmas view_defs = chat_text_def chat_calls_def chat_results_def get_str_def get_array_def

lemma chat_role_content [simp]:
  "chat_text (jobj [(''role'', r), (''content'', JString s)]) = s"
  "chat_calls (jobj [(''role'', r), (''content'', c)]) = []"
  "chat_results (jobj [(''role'', r), (''content'', c)]) = []"
  "chat_text (jobj [(''role'', r), (''content'', JArray ps)]) =
     concat (List.map_filter (\<lambda>p. get_str p ''text'') ps)"
  by (simp_all add: view_defs jget_jobj)

lemma chat_tool_message [simp]:
  "chat_text (jobj [(''role'', r), (''tool_call_id'', JString i), (''content'', JString s)]) = s"
  "chat_calls (jobj [(''role'', r), (''tool_call_id'', JString i), (''content'', JString s)]) = []"
  "chat_results (jobj [(''role'', r), (''tool_call_id'', JString i), (''content'', JString s)]) = [(i, s)]"
  by (simp_all add: view_defs jget_jobj)

lemma map_filter_append: "List.map_filter f (xs @ ys) = List.map_filter f xs @ List.map_filter f ys"
  by (simp add: List.map_filter_def)

lemma image_no_text: "List.map_filter (\<lambda>p. get_str p ''text'') (convert_image_block b ps) =
    List.map_filter (\<lambda>p. get_str p ''text'') ps"
  by (auto simp: convert_image_block_def map_filter_append List.map_filter_simps get_str_def jget_jobj
      split: option.split)

lemma tool_images_no_text: "List.map_filter (\<lambda>p. get_str p ''text'') (extract_tool_result_image_content b) = []"
proof -
  have "List.map_filter (\<lambda>p. get_str p ''text'')
      (fold (\<lambda>part ps. if get_str part ''type'' = Some ''image'' then convert_image_block part ps else ps) parts acc) =
      List.map_filter (\<lambda>p. get_str p ''text'') acc" for parts acc
    by (induction parts arbitrary: acc) (simp_all add: image_no_text)
  then show ?thesis
    by (auto simp: extract_tool_result_image_content_def List.map_filter_simps split: option.split json.split)
qed

text \<open>The pending text is that of the pending content parts.\<close>

definition acc_ok :: "block_acc \<Rightarrow> bool" where
  "acc_ok acc \<longleftrightarrow> List.map_filter (\<lambda>p. get_str p ''text'') (content_parts acc) = text_parts acc"

lemma flush_views:
  assumes "acc_ok acc"
  shows "acc_ok (flush_text_parts role acc) \<and> text_parts (flush_text_parts role acc) = [] \<and>
    tool_calls (flush_text_parts role acc) = tool_calls acc \<and>
    texts_of (acc_messages (flush_text_parts role acc)) = texts_of (acc_messages acc) @ concat (text_parts acc) \<and>
    calls_of (acc_messages (flush_text_parts role acc)) = calls_of (acc_messages acc) \<and>
    results_of (acc_messages (flush_text_parts role acc)) = results_of (acc_messages acc)"
  using assms by (auto simp: flush_text_parts_def acc_ok_def List.map_filter_simps Let_def)

lemma tool_result_views:
  assumes "acc_ok acc" and "text_parts acc = []"
  shows "acc_ok (convert_tool_result_block b acc) \<and>
    text_parts (convert_tool_result_block b acc) = [] \<and>
    tool_calls (convert_tool_result_block b acc) = tool_calls acc \<and>
    texts_of (acc_messages (convert_tool_result_block b acc)) =
      texts_of (acc_messages acc) @ extract_tool_result_content b \<and>
    calls_of (acc_messages (convert_tool_result_block b acc)) = calls_of (acc_messages acc) \<and>
    results_of (acc_messages (convert_tool_result_block b acc)) =
      results_of (acc_messages acc) @ [(unwrap_or [] (get_str b ''tool_use_id''), extract_tool_result_content b)]"
  using assms by (simp add: convert_tool_result_block_def acc_ok_def Let_def tool_images_no_text)

lemma view_call_tool [simp]:
  "view_call (jobj [(''id'', JString i), (''type'', t),
      (''function'', jobj [(''name'', JString n), (''arguments'', JString a)])]) = (i, n, a)"
  by (simp add: view_call_def get_str_def jget_jobj)

lemma single_block_views:
  assumes "acc_ok acc"
  shows "acc_ok (convert_single_block ext role b (block_type_of b) acc) \<and>
    map view_call (tool_calls (convert_single_block ext role b (block_type_of b) acc)) =
      map view_call (tool_calls acc) @ block_calls ext b \<and>
    texts_of (acc_messages (convert_single_block ext role b (block_type_of b) acc)) @
        concat (text_parts (convert_single_block ext role b (block_type_of b) acc)) =
      texts_of (acc_messages acc) @ concat (text_parts acc) @ block_text b \<and>
    calls_of (acc_messages (convert_single_block ext role b (block_type_of b) acc)) = calls_of (acc_messages acc) \<and>
    results_of (acc_messages (convert_single_block ext role b (block_type_of b) acc)) =
      results_of (acc_messages acc) @ block_results b"
proof -
  consider "block_type_of b = ''text''" | "block_type_of b = ''image''" | "block_type_of b = ''tool_use''"
    | "block_type_of b = ''tool_result''"
    | "block_type_of b \<notin> {''text'', ''image'', ''tool_use'', ''tool_result''}" by blast
  then show ?thesis
  proof cases
    case 1
    with assms show ?thesis
      by (auto simp: convert_single_block_def convert_text_block_def acc_ok_def map_filter_append
          List.map_filter_simps get_str_def jget_jobj block_calls_def block_text_def block_results_def
          split: option.split)
  next
    case 2
    with assms show ?thesis
      by (simp add: convert_single_block_def acc_ok_def image_no_text block_calls_def block_text_def
          block_results_def)
  next
    case 3
    with assms show ?thesis
      by (simp add: convert_single_block_def convert_tool_use_block_def acc_ok_def Let_def
          block_calls_def block_text_def block_results_def)
  next
    case 4
    from flush_views [OF assms, of role] tool_result_views [of "flush_text_parts role acc" b] 4 show ?thesis
      by (simp add: extract_is_result_text convert_single_block_def block_calls_def block_text_def block_results_def)
  next
    case 5
    with assms show ?thesis
      by (simp add: convert_single_block_def block_calls_def block_text_def block_results_def)
  qed
qed

lemma fold_blocks_views:
  assumes "acc_ok acc" and "fold (\<lambda>b. convert_single_block ext role b (block_type_of b)) blocks acc = acc'"
  shows "acc_ok acc' \<and>
    map view_call (tool_calls acc') = map view_call (tool_calls acc) @ concat (map (block_calls ext) blocks) \<and>
    texts_of (acc_messages acc') @ concat (text_parts acc') =
      texts_of (acc_messages acc) @ concat (text_parts acc) @ concat (map block_text blocks) \<and>
    calls_of (acc_messages acc') = calls_of (acc_messages acc) \<and>
    results_of (acc_messages acc') = results_of (acc_messages acc) @ concat (map block_results blocks)"
  using assms
proof (induction blocks arbitrary: acc)
  case Nil
  then show ?case by simp
next
  case (Cons b bs)
  from single_block_views [OF Cons.prems(1), of ext role b] Cons.prems(2)
    Cons.IH [of "convert_single_block ext role b (block_type_of b) acc"]
  show ?case by simp
qed

lemma finalize_views:
  assumes "acc_ok acc"
  shows "texts_of (acc_messages (finalize_content_blocks role acc)) =
      texts_of (acc_messages acc) @ concat (text_parts acc) \<and>
    calls_of (acc_messages (finalize_content_blocks role acc)) =
      calls_of (acc_messages acc) @ (if role = ''assistant'' then map view_call (tool_calls acc) else []) \<and>
    results_of (acc_messages (finalize_content_blocks role acc)) = results_of (acc_messages acc)"
proof (cases "role = ''assistant'' \<and> tool_calls acc \<noteq> []")
  case True
  then show ?thesis
    by (simp add: finalize_content_blocks_def Let_def view_defs)
next
  case False
  with flush_views [OF assms, of role] show ?thesis
    by (auto simp: finalize_content_blocks_def)
qed

section \<open>Messages\<close>

lemma convert_content_blocks_views:
  "texts_of (convert_content_blocks ext ms role blocks) = texts_of ms @ concat (map block_text blocks) \<and>
   calls_of (convert_content_blocks ext ms role blocks) =
     calls_of ms @ (if role = ''assistant'' then concat (map (block_calls ext) blocks) else []) \<and>
   results_of (convert_content_blocks ext ms role blocks) = results_of ms @ concat (map block_results blocks)"
proof -
  let ?acc = "\<lparr>acc_messages = ms, text_parts = [], content_parts = [], tool_calls = []\<rparr>"
  have "acc_ok ?acc" by (simp add: acc_ok_def List.map_filter_simps)
  from fold_blocks_views [OF this refl, of ext role blocks] finalize_views
  show ?thesis unfolding convert_content_blocks_def Let_def by (cases "role = ''assistant''") simp_all
qed

lemma convert_message_views:
  "texts_of (convert_message ext msg ms) = texts_of ms @ source_text msg \<and>
   calls_of (convert_message ext msg ms) = calls_of ms @ source_calls ext msg \<and>
   results_of (convert_message ext msg ms) = results_of ms @ source_results msg"
proof (cases "get_str msg ''role''")
  case None
  then show ?thesis
    by (simp add: convert_message_def source_text_def source_calls_def source_results_def over_blocks_def)
next
  case (Some role)
  have *: "concat (map (\<lambda>b. []) blocks) = []" for blocks :: "json list" by (induction blocks) auto
  show ?thesis
    using Some convert_content_blocks_views [of ext ms role]
    by (auto simp: convert_message_def source_text_def source_calls_def source_results_def over_blocks_def *
        split: option.split json.split)
qed

lemma convert_messages_views:
  "texts_of (fold (convert_message ext) msgs ms) = texts_of ms @ concat (map source_text msgs) \<and>
   calls_of (fold (convert_message ext) msgs ms) = calls_of ms @ concat (map (source_calls ext) msgs) \<and>
   results_of (fold (convert_message ext) msgs ms) = results_of ms @ concat (map source_results msgs)"
proof (induction msgs arbitrary: ms)
  case Nil
  then show ?case by simp
next
  case (Cons m msgs)
  from convert_message_views [of ext m ms] Cons.IH [of "convert_message ext m ms"] show ?case by simp
qed

lemma hoist_system_views: "calls_of (hoist_system obj []) = []" "results_of (hoist_system obj []) = []"
proof -
  have "hoist_system obj [] = [] \<or> (\<exists>c. hoist_system obj [] = [jobj [(''role'', JString ''system''), (''content'', JString c)]])"
  proof (cases "map_of obj ''system''")
    case None
    then show ?thesis by (simp add: hoist_system_def)
  next
    case (Some v)
    then show ?thesis by (cases v) (auto simp: hoist_system_def)
  qed
  then show "calls_of (hoist_system obj []) = []" "results_of (hoist_system obj []) = []" by auto
qed

section \<open>Images\<close>

text \<open>The link of an image: its URL, or a data URL of its bytes.\<close>

definition image_link :: "json \<Rightarrow> str list" where
  "image_link block =
     (case jget block ''source'' of
        None \<Rightarrow> []
      | Some s \<Rightarrow>
          (case (get_str s ''type'', get_str s ''media_type'', get_str s ''data'', get_str s ''url'') of
             (Some t, m, d, u) \<Rightarrow>
               if t = ''url'' then (case u of Some url \<Rightarrow> [url] | None \<Rightarrow> [])
               else if t = ''base64'' then
                 (case (m, d) of (Some media, Some bytes) \<Rightarrow> [''data:'' @ media @ '';base64,'' @ bytes] | _ \<Rightarrow> [])
               else []
           | _ \<Rightarrow> []))"

definition part_link :: "json \<Rightarrow> str list" where
  "part_link p =
     (if get_str p ''type'' = Some ''image_url''
      then (case Option.bind (jget p ''image_url'') (\<lambda>u. get_str u ''url'') of Some url \<Rightarrow> [url] | None \<Rightarrow> []) else [])"

abbreviation links_of :: "json list \<Rightarrow> str list" where "links_of ps \<equiv> concat (map part_link ps)"

definition chat_images :: "json \<Rightarrow> str list" where
  "chat_images m = (case jget m ''content'' of Some (JArray ps) \<Rightarrow> links_of ps | _ \<Rightarrow> [])"

abbreviation "images_of ms \<equiv> concat (map chat_images ms)"

definition block_images :: "json \<Rightarrow> str list" where
  "block_images b =
     (if block_type_of b = ''image'' then image_link b
      else if block_type_of b = ''tool_result'' then
        concat (map image_link (filter (\<lambda>p. get_str p ''type'' = Some ''image'') (unwrap_or [] (get_array b ''content''))))
      else [])"

text \<open>
  The blocks whose images are carried over: all of them, but in a message of the assistant with tool
  calls only those up to its last tool result.
\<close>

definition is_result :: "json \<Rightarrow> bool" where "is_result b \<longleftrightarrow> block_type_of b = ''tool_result''"

definition upto_last :: "('a \<Rightarrow> bool) \<Rightarrow> 'a list \<Rightarrow> 'a list" where
  "upto_last P xs = rev (dropWhile (\<lambda>x. \<not> P x) (rev xs))"

definition after_last :: "('a \<Rightarrow> bool) \<Rightarrow> 'a list \<Rightarrow> 'a list" where
  "after_last P xs = rev (takeWhile (\<lambda>x. \<not> P x) (rev xs))"

definition imaged_blocks :: "str \<Rightarrow> json list \<Rightarrow> json list" where
  "imaged_blocks role blocks =
     (if role = ''assistant'' \<and> (\<exists>b \<in> set blocks. block_type_of b = ''tool_use'') then upto_last is_result blocks
      else blocks)"

definition source_images :: "json \<Rightarrow> str list" where
  "source_images msg =
     (case (get_str msg ''role'', jget msg ''content'') of
        (Some role, Some (JArray blocks)) \<Rightarrow> concat (map block_images (imaged_blocks role blocks))
      | _ \<Rightarrow> [])"

lemma last_simps [simp]:
  "upto_last P [] = []" "after_last P [] = []"
  "upto_last P (xs @ [x]) = (if P x then xs @ [x] else upto_last P xs)"
  "after_last P (xs @ [x]) = (if P x then [] else after_last P xs @ [x])"
  by (simp_all add: upto_last_def after_last_def)

lemma split_last: "upto_last P xs @ after_last P xs = xs"
proof -
  have "upto_last P xs @ after_last P xs = rev (takeWhile (\<lambda>x. \<not> P x) (rev xs) @ dropWhile (\<lambda>x. \<not> P x) (rev xs))"
    unfolding upto_last_def after_last_def by (simp only: rev_append)
  then show ?thesis by simp
qed

lemma part_link_simps [simp]:
  "part_link (jobj [(''type'', JString ''text''), (''text'', JString s)]) = []"
  "part_link (jobj [(''type'', JString ''image_url''), (''image_url'', jobj [(''url'', JString url)])]) = [url]"
  by (simp_all add: part_link_def get_str_def jget_jobj)

lemma convert_image_links: "links_of (convert_image_block b ps) = links_of ps @ image_link b"
  by (auto simp: convert_image_block_def image_link_def convert_image_source_def split: option.split)

lemma tool_image_links:
  "links_of (extract_tool_result_image_content b) =
     concat (map image_link (filter (\<lambda>p. get_str p ''type'' = Some ''image'') (unwrap_or [] (get_array b ''content''))))"
proof -
  have "links_of (fold (\<lambda>part ps. if get_str part ''type'' = Some ''image'' then convert_image_block part ps else ps) parts acc) =
      links_of acc @ concat (map image_link (filter (\<lambda>p. get_str p ''type'' = Some ''image'') parts))" for parts acc
    by (induction parts arbitrary: acc) (simp_all add: convert_image_links)
  then show ?thesis
    by (auto simp: extract_tool_result_image_content_def get_array_def split: option.split json.split)
qed

lemma chat_images_simps [simp]:
  "chat_images (jobj [(''role'', r), (''content'', JString s)]) = []"
  "chat_images (jobj [(''role'', r), (''content'', JArray ps)]) = links_of ps"
  "chat_images (jobj [(''role'', r), (''tool_call_id'', i), (''content'', JString s)]) = []"
  by (simp_all add: chat_images_def jget_jobj)

lemma flush_images:
  assumes "acc_ok acc"
  shows "images_of (acc_messages (flush_text_parts role acc)) = images_of (acc_messages acc) @ links_of (content_parts acc)"
    and "content_parts (flush_text_parts role acc) = []"
proof -
  have "links_of ps = []" if "length ps = 1" "Option.bind (first_of ps) (\<lambda>p. get_str p ''type'') = Some ''text''" for ps
    using that by (cases ps) (auto simp: part_link_def)
  then show "images_of (acc_messages (flush_text_parts role acc)) = images_of (acc_messages acc) @ links_of (content_parts acc)"
    by (auto simp: flush_text_parts_def Let_def)
  show "content_parts (flush_text_parts role acc) = []" by (simp add: flush_text_parts_def Let_def)
qed

lemma fold_blocks_images:
  assumes "acc' = fold (\<lambda>b. convert_single_block ext role b (block_type_of b)) blocks
      \<lparr>acc_messages = ms, text_parts = [], content_parts = [], tool_calls = []\<rparr>"
  shows "images_of (acc_messages acc') = images_of ms @ concat (map block_images (upto_last is_result blocks)) \<and>
    links_of (content_parts acc') = concat (map block_images (after_last is_result blocks)) \<and>
    (tool_calls acc' \<noteq> [] \<longleftrightarrow> (\<exists>b \<in> set blocks. block_type_of b = ''tool_use''))"
  using assms
proof (induction blocks arbitrary: acc' rule: rev_induct)
  case (snoc b blocks)
  let ?acc0 = "\<lparr>acc_messages = ms, text_parts = [], content_parts = [], tool_calls = []\<rparr>"
  define acc where "acc = fold (\<lambda>b. convert_single_block ext role b (block_type_of b)) blocks ?acc0"
  have ok: "acc_ok acc"
    using fold_blocks_views [of ?acc0 ext role blocks acc] by (simp add: acc_def acc_ok_def List.map_filter_simps)
  have step: "acc' = convert_single_block ext role b (block_type_of b) acc" using snoc.prems by (simp add: acc_def)
  note IH = snoc.IH [OF acc_def]
  have result: "is_result b = (block_type_of b = ''tool_result'')" by (simp add: is_result_def)
  consider "block_type_of b = ''text''" | "block_type_of b = ''image''" | "block_type_of b = ''tool_use''"
    | "block_type_of b = ''tool_result''"
    | "block_type_of b \<notin> {''text'', ''image'', ''tool_use'', ''tool_result''}" by blast
  then show ?case
  proof cases
    case 1
    with IH show ?thesis
      by (auto simp: step convert_single_block_def convert_text_block_def result block_images_def split: option.split)
  next
    case 2
    with IH show ?thesis
      by (simp add: step convert_single_block_def convert_image_links result block_images_def)
  next
    case 3
    with IH show ?thesis
      by (simp add: step convert_single_block_def convert_tool_use_block_def Let_def result block_images_def)
  next
    case 4
    have images: "images_of (acc_messages (convert_tool_result_block b a)) = images_of (acc_messages a) @ block_images b"
      "content_parts (convert_tool_result_block b a) = content_parts a" "tool_calls (convert_tool_result_block b a) = tool_calls a"
      for a
      using tool_image_links [of b] 4 by (auto simp: convert_tool_result_block_def Let_def block_images_def)
    have "concat (map block_images blocks) = concat (map block_images (upto_last is_result blocks)) @
        concat (map block_images (after_last is_result blocks))"
      by (subst (1) split_last [of is_result blocks, symmetric]) simp
    with IH 4 flush_images [OF ok, of role] flush_views [OF ok, of role] show ?thesis
      by (simp add: step convert_single_block_def images result)
  next
    case 5
    with IH show ?thesis by (simp add: step convert_single_block_def result block_images_def)
  qed
qed simp

lemma convert_content_blocks_images:
  "images_of (convert_content_blocks ext ms role blocks) = images_of ms @ concat (map block_images (imaged_blocks role blocks))"
proof -
  let ?acc0 = "\<lparr>acc_messages = ms, text_parts = [], content_parts = [], tool_calls = []\<rparr>"
  define acc where "acc = fold (\<lambda>b. convert_single_block ext role b (block_type_of b)) blocks ?acc0"
  have ok: "acc_ok acc"
    using fold_blocks_views [of ?acc0 ext role blocks acc] by (simp add: acc_def acc_ok_def List.map_filter_simps)
  note images = fold_blocks_images [OF acc_def]
  have made: "convert_content_blocks ext ms role blocks = acc_messages (finalize_content_blocks role acc)"
    by (simp add: convert_content_blocks_def Let_def acc_def)
  show ?thesis
  proof (cases "role = ''assistant'' \<and> tool_calls acc \<noteq> []")
    case True
    with images show ?thesis
      unfolding made by (simp add: finalize_content_blocks_def Let_def imaged_blocks_def chat_images_def)
  next
    case False
    have "concat (map block_images blocks) = concat (map block_images (upto_last is_result blocks)) @
        concat (map block_images (after_last is_result blocks))"
      by (subst (1) split_last [of is_result blocks, symmetric]) simp
    with False images flush_images(1) [OF ok, of role] show ?thesis
      unfolding made by (auto simp: finalize_content_blocks_def imaged_blocks_def)
  qed
qed

lemma convert_messages_images:
  "images_of (fold (convert_message ext) msgs ms) = images_of ms @ concat (map source_images msgs)"
proof (induction msgs arbitrary: ms)
  case (Cons m msgs)
  have "images_of (convert_message ext m ms) = images_of ms @ source_images m"
    by (auto simp: convert_message_def source_images_def convert_content_blocks_images split: option.split json.split)
  with Cons.IH show ?case by simp
qed simp

lemma hoist_system_view:
  "texts_of (hoist_system obj []) =
     (case map_of obj ''system'' of
        Some (JString s) \<Rightarrow> s
      | Some (JArray blocks) \<Rightarrow> str_join [LF] (List.map_filter (\<lambda>b. get_str b ''text'') blocks)
      | _ \<Rightarrow> [])"
  "images_of (hoist_system obj []) = []"
  by (cases "map_of obj ''system''"; simp add: hoist_system_def Let_def split: json.split)+

section \<open>The request object\<close>

lemma map_of_copy_key [simp]:
  "map_of (copy_key obj src dst chat) k =
     (if k = dst \<and> map_of obj src \<noteq> None then map_of obj src else map_of chat k)"
  by (simp add: copy_key_def split: option.split)

lemma map_of_convert_tools:
  "map_of (convert_tools obj chat) k =
     (case Option.bind (map_of obj ''tools'') as_array of
        None \<Rightarrow> map_of chat k
      | Some tools \<Rightarrow>
          if k = ''tools'' \<and> List.map_filter convert_tool tools \<noteq> []
          then Some (JArray (List.map_filter convert_tool tools)) else map_of chat k)"
  by (auto simp: convert_tools_def Let_def split: option.split json.split)

lemma map_of_parallel_other:
  "k \<noteq> ''parallel_tool_calls'' \<Longrightarrow> map_of (convert_parallel_tool_calls obj chat) k = map_of chat k"
  by (simp add: convert_parallel_tool_calls_def split: option.split json.split)

lemma map_of_choice_other:
  "k \<noteq> ''tool_choice'' \<Longrightarrow> map_of (convert_tool_choice obj chat) k = map_of chat k"
  by (simp add: convert_tool_choice_def split: option.split)

definition base_chat :: "externals \<Rightarrow> jmap \<Rightarrow> jmap" where
  "base_chat ext obj =
     map_parameters obj (copy_key obj ''stream'' ''stream'' (copy_key obj ''max_tokens'' ''max_tokens''
       (obj_insert ''messages'' (JArray (convert_messages ext obj (hoist_system obj [])))
          (copy_key obj ''model'' ''model'' []))))"

lemma transform_object_eq:
  "transform_object ext obj =
     convert_tool_choice obj (convert_parallel_tool_calls obj (convert_tools obj (base_chat ext obj)))"
  by (simp add: transform_object_def base_chat_def Let_def)

lemma base_chat_keys:
  "map_of (base_chat ext obj) ''messages'' = Some (JArray (convert_messages ext obj (hoist_system obj [])))"
  "map_of (base_chat ext obj) ''tools'' = None"
  "map_of (base_chat ext obj) ''tool_choice'' = None"
  by (simp_all add: base_chat_def map_parameters_def)

lemma transform_object_messages:
  "map_of (transform_object ext obj) ''messages'' =
     Some (JArray (convert_messages ext obj (hoist_system obj [])))"
  by (simp add: transform_object_eq map_of_choice_other map_of_parallel_other map_of_convert_tools
      base_chat_keys split: option.split)

definition kept_tools :: "jmap \<Rightarrow> json list" where
  "kept_tools obj = List.map_filter convert_tool (unwrap_or [] (Option.bind (map_of obj ''tools'') as_array))"

lemma convert_tools_base:
  "map_of (convert_parallel_tool_calls obj (convert_tools obj (base_chat ext obj))) ''tools'' =
     (if kept_tools obj = [] then None else Some (JArray (kept_tools obj)))"
  by (simp add: map_of_parallel_other map_of_convert_tools base_chat_keys kept_tools_def
      List.map_filter_simps split: option.split)

lemma transform_object_tools:
  "map_of (transform_object ext obj) ''tools'' =
     (if kept_tools obj = [] then None else Some (JArray (kept_tools obj)))"
  by (simp add: transform_object_eq map_of_choice_other convert_tools_base)

lemma transform_object_choice:
  "map_of (transform_object ext obj) ''tool_choice'' =
     (if contains_key obj ''tools'' \<and> kept_tools obj = [] then None
      else Option.bind (map_of obj ''tool_choice'') chat_choice_of)"
proof -
  let ?chat = "convert_parallel_tool_calls obj (convert_tools obj (base_chat ext obj))"
  have "contains_key ?chat ''tools'' \<longleftrightarrow> kept_tools obj \<noteq> []"
    by (simp add: contains_key_def convert_tools_base)
  moreover have "map_of ?chat ''tool_choice'' = None"
    by (simp add: map_of_parallel_other map_of_convert_tools base_chat_keys split: option.split)
  ultimately show ?thesis
    unfolding transform_object_eq convert_tool_choice_def by (auto split: option.split)
qed

section \<open>Properties\<close>


definition demo_request :: jmap where
  "demo_request =
     [(''messages'', JArray
        [jobj [(''role'', JString ''assistant''), (''content'', JArray
           [jobj [(''type'', JString ''text''), (''text'', JString ''ok'')],
            jobj [(''type'', JString ''tool_use''), (''id'', JString ''c1''), (''name'', JString ''f'')]])],
         jobj [(''role'', JString ''user''), (''content'', JArray
           [jobj [(''type'', JString ''tool_result''), (''tool_use_id'', JString ''c1''),
                  (''content'', JString ''42'')],
            jobj [(''type'', JString ''image''), (''source'',
                   jobj [(''type'', JString ''url''), (''url'', JString ''u'')])]])]]),
      (''system'', JString ''be'')]"


text \<open>
  Tools and tool choice agree: the translated request offers exactly the tools that are not
  run by the server, and it names a tool choice only if tools are offered or the request had no
  \<open>tools\<close> at all.
\<close>

theorem request_tool_choice:
  "map_of (transform_object ext obj) ''tools'' =
     (if kept_tools obj = [] then None else Some (JArray (kept_tools obj))) \<and>
   map_of (transform_object ext obj) ''tool_choice'' =
     (if contains_key obj ''tools'' \<and> map_of (transform_object ext obj) ''tools'' = None then None
      else Option.bind (map_of obj ''tool_choice'') chat_choice_of)"
  by (simp add: transform_object_tools transform_object_choice)

section \<open>There and back\<close>

definition text_block :: "str \<Rightarrow> json" where
  "text_block t = jobj [(''type'', JString ''text''), (''text'', JString t)]"

definition tool_block :: "str \<times> str \<times> json \<Rightarrow> json" where
  "tool_block c = (case c of (i, n, input) \<Rightarrow>
     jobj [(''type'', JString ''tool_use''), (''id'', JString i), (''name'', JString n), (''input'', input)])"

definition call_json :: "externals \<Rightarrow> str \<times> str \<times> json \<Rightarrow> json" where
  "call_json ext c = (case c of (i, n, input) \<Rightarrow>
     jobj [(''id'', JString i), (''type'', JString ''function''),
           (''function'', jobj [(''name'', JString n), (''arguments'', JString (text_or_default ext input))])])"

lemma block_type_simps [simp]:
  "block_type_of (text_block t) = ''text''" "block_type_of (tool_block c) = ''tool_use''"
  by (simp_all add: block_type_of_def text_block_def tool_block_def get_str_def jget_jobj split: prod.split)

lemma fold_tool_blocks:
  "fold (\<lambda>b. convert_single_block ext role b (block_type_of b)) (map tool_block cs) acc =
     acc\<lparr>tool_calls := tool_calls acc @ map (call_json ext) cs\<rparr>"
proof (induction cs arbitrary: acc)
  case Nil
  then show ?case by simp
next
  case (Cons c cs)
  have "convert_single_block ext role (tool_block c) ''tool_use'' acc =
      acc\<lparr>tool_calls := tool_calls acc @ [call_json ext c]\<rparr>"
    by (cases c) (simp add: convert_single_block_def convert_tool_use_block_def tool_block_def call_json_def
        get_str_def jget_jobj)
  with Cons.IH show ?case by simp
qed

definition assistant_turn :: "str option \<Rightarrow> (str \<times> str \<times> json) list \<Rightarrow> json list" where
  "assistant_turn t cs = (case t of None \<Rightarrow> [] | Some s \<Rightarrow> [text_block s]) @ map tool_block cs"

definition assistant_message :: "externals \<Rightarrow> str option \<Rightarrow> (str \<times> str \<times> json) list \<Rightarrow> json" where
  "assistant_message ext t cs =
     (if cs = [] then jobj [(''role'', JString ''assistant''), (''content'', JString (unwrap_or [] t))]
      else jobj ((''role'', JString ''assistant'') #
             (case t of None \<Rightarrow> [] | Some s \<Rightarrow> [(''content'', JString s)]) @
             [(''tool_calls'', JArray (map (call_json ext) cs))]))"

lemma convert_assistant_turn:
  "t \<noteq> None \<or> cs \<noteq> [] \<Longrightarrow>
   convert_content_blocks ext [] ''assistant'' (assistant_turn t cs) = [assistant_message ext t cs]"
proof -
  assume ne: "t \<noteq> None \<or> cs \<noteq> []"
  let ?acc = "\<lparr>acc_messages = [], text_parts = [], content_parts = [], tool_calls = []\<rparr>"
  have t1: "convert_single_block ext ''assistant'' (text_block s) ''text'' ?acc =
      ?acc\<lparr>text_parts := [s], content_parts := [text_block s]\<rparr>" for s
    by (simp add: convert_single_block_def convert_text_block_def text_block_def get_str_def jget_jobj)
  show ?thesis
  proof (cases "cs = []")
    case True
    with ne obtain s where "t = Some s" by auto
    moreover have "Option.bind (first_of [text_block s]) (\<lambda>p. get_str p ''type'') = Some ''text''"
      by (simp add: text_block_def get_str_def jget_jobj)
    ultimately show ?thesis using True t1 [of s]
      by (simp add: convert_content_blocks_def assistant_turn_def assistant_message_def Let_def
          finalize_content_blocks_def flush_text_parts_def)
  next
    case False
    then show ?thesis
      by (cases t) (simp_all add: convert_content_blocks_def assistant_turn_def assistant_message_def
          fold_tool_blocks finalize_content_blocks_def t1 jobj_def)
  qed
qed

text \<open>
  C6. An assistant turn survives the round trip: its content (a non-empty text, then tool
  calls), translated to a Chat Completions message, is given back unchanged by the response
  translation, provided the JSON library reads back the arguments it wrote.
\<close>

theorem assistant_turn_roundtrip:
  assumes "t \<noteq> Some []" and "t \<noteq> None \<or> cs \<noteq> []"
    and "\<forall>(i, n, input) \<in> set cs. from_slice ext (text_or_default ext input) = Inr input"
    and "convert_content_blocks ext [] ''assistant'' (assistant_turn t cs) = [m]"
  shows "build_content_blocks ext [(''choices'', JArray [jobj [(''message'', m)]])] = assistant_turn t cs"
proof -
  from assms(4) convert_assistant_turn [OF assms(2)] have m: "m = assistant_message ext t cs" by simp
  have calls: "map (tool_call_block ext) (map (call_json ext) cs) = map tool_block cs"
    using assms(3) by (auto simp: tool_call_block_def call_json_def tool_block_def get_str_def jget_jobj Let_def)
  have content: "get_str m ''content'' = t"
    using assms(2) by (cases t) (auto simp: m assistant_message_def get_str_def jget_jobj)
  have tools: "get_array m ''tool_calls'' = (if cs = [] then None else Some (map (call_json ext) cs))"
    by (cases t) (auto simp: m assistant_message_def get_array_def jget_jobj)
  show ?thesis
    using assms(1) content tools calls
    by (cases t) (simp_all add: build_content_blocks_def first_choice_def jget_jobj extract_text_block_def
        extract_tool_call_blocks_def assistant_turn_def text_block_def)
qed

lemma assistant_turn_roundtrip_witness:
  "\<exists>m. convert_content_blocks (null_ext\<lparr>from_slice := (\<lambda>_. Inr (JObject []))\<rparr>) [] ''assistant''
       (assistant_turn (Some ''hi'') [(''c1'', ''f'', JObject [])]) = [m] \<and>
     build_content_blocks (null_ext\<lparr>from_slice := (\<lambda>_. Inr (JObject []))\<rparr>)
       [(''choices'', JArray [jobj [(''message'', m)]])] = assistant_turn (Some ''hi'') [(''c1'', ''f'', JObject [])]"
proof -
  let ?ext = "null_ext\<lparr>from_slice := (\<lambda>_. Inr (JObject []))\<rparr>"
  let ?m = "assistant_message ?ext (Some ''hi'') [(''c1'', ''f'', JObject [])]"
  have "convert_content_blocks ?ext [] ''assistant'' (assistant_turn (Some ''hi'') [(''c1'', ''f'', JObject [])]) = [?m]"
    by (rule convert_assistant_turn) simp
  with assistant_turn_roundtrip [OF _ _ _ this] show ?thesis by simp
qed

text \<open>
  The assistant's other content is dropped silently: an image beside a tool call of an
  assistant message, and a tool call of a message with another role, leave no trace in the
  translated messages.
\<close>

theorem request_drops_silently:
  "convert_content_blocks ext ms ''assistant''
     [jobj [(''type'', JString ''image''), (''source'', jobj [(''type'', JString ''url''), (''url'', JString u)])],
      tool_block c] = ms @ [assistant_message ext None [c]] \<and>
   convert_content_blocks ext ms ''user'' [tool_block c] = ms"
proof
  let ?image = "jobj [(''type'', JString ''image''), (''source'', jobj [(''type'', JString ''url''), (''url'', JString u)])]"
  have "block_type_of ?image = ''image''" by (simp add: block_type_of_def get_str_def jget_jobj)
  moreover have "convert_single_block ext ''assistant'' ?image ''image''
      \<lparr>acc_messages = ms, text_parts = [], content_parts = [], tool_calls = []\<rparr> =
      \<lparr>acc_messages = ms, text_parts = [], content_parts = convert_image_block ?image [], tool_calls = []\<rparr>"
    by (simp add: convert_single_block_def)
  ultimately show "convert_content_blocks ext ms ''assistant'' [?image, tool_block c] = ms @ [assistant_message ext None [c]]"
    using fold_tool_blocks [of ext "''assistant''" "[c]"]
    by (simp add: convert_content_blocks_def finalize_content_blocks_def assistant_message_def jobj_def)
  show "convert_content_blocks ext ms ''user'' [tool_block c] = ms"
    using fold_tool_blocks [of ext "''user''" "[c]"]
    by (simp add: convert_content_blocks_def finalize_content_blocks_def flush_text_parts_def)
qed

end
