(* ===== verification/Chat_Request.thy ===== *)
theory Chat_Request
  imports Filter_Ctx
begin

text \<open>
  Responses API requests as Chat Completions requests, the first half of
  \<open>apis/src/openai/translation/chat_completions.rs\<close>: input items become messages, tools and tool
  choices change shape, and what has no counterpart is an error.
\<close>

section \<open>Errors and small helpers\<close>

datatype translation_error =
    ExpectedObject str
  | UnsupportedInputItemType str
  | UnsupportedContentPartType str
  | UnsupportedContentPart str
  | UnsupportedToolType str

section \<open>Request fields\<close>

definition map_top_logprobs :: "jmap \<Rightarrow> jmap \<Rightarrow> jmap" where
  "map_top_logprobs source target =
     (case map_of source ''top_logprobs'' of
        None \<Rightarrow> target
      | Some n \<Rightarrow> obj_insert ''logprobs'' (JBool True) (obj_insert ''top_logprobs'' n target))"

definition map_reasoning_effort :: "jmap \<Rightarrow> jmap \<Rightarrow> jmap" where
  "map_reasoning_effort source target =
     (case Option.bind (map_of source ''reasoning'') (\<lambda>r. jget r ''effort'') of
        None \<Rightarrow> target | Some effort \<Rightarrow> obj_insert ''reasoning_effort'' effort target)"

definition json_schema_response_format :: "jmap \<Rightarrow> json" where
  "json_schema_response_format format =
     (case Option.bind (map_of format ''json_schema'') as_object of
        Some json_schema \<Rightarrow> jobj [(''type'', JString ''json_schema''), (''json_schema'', JObject json_schema)]
      | None \<Rightarrow>
          (let json_schema = copy_field format ''strict'' (copy_field format ''schema''
                 (copy_field format ''description'' (copy_field format ''name'' [])))
           in jobj [(''type'', JString ''json_schema''), (''json_schema'', JObject json_schema)]))"

definition map_text_format :: "jmap \<Rightarrow> jmap \<Rightarrow> jmap" where
  "map_text_format source target =
     (case Option.bind (Option.bind (map_of source ''text'') (\<lambda>t. jget t ''format'')) as_object of
        None \<Rightarrow> target
      | Some format \<Rightarrow>
          (case get_type format of
             None \<Rightarrow> target
           | Some t \<Rightarrow>
               if t = ''json_object'' then
                 obj_insert ''response_format'' (jobj [(''type'', JString ''json_object'')]) target
               else if t = ''json_schema'' then
                 obj_insert ''response_format'' (json_schema_response_format format) target
               else target))"

section \<open>Content\<close>

record converted_content_parts =
  text_parts :: "str list"
  chat_parts :: "json list"
  all_text :: bool

definition no_content_parts :: converted_content_parts where
  "no_content_parts = \<lparr>text_parts = [], chat_parts = [], all_text = True\<rparr>"

definition push_text :: "json \<Rightarrow> converted_content_parts \<Rightarrow> converted_content_parts" where
  "push_text part acc =
     (case get_str part ''text'' of
        None \<Rightarrow> acc
      | Some text \<Rightarrow>
          acc\<lparr>text_parts := text_parts acc @ [text],
              chat_parts := chat_parts acc @ [jobj [(''type'', JString ''text''), (''text'', JString text)]]\<rparr>)"

definition push_non_text :: "json \<Rightarrow> converted_content_parts \<Rightarrow> converted_content_parts" where
  "push_non_text part acc = acc\<lparr>all_text := False, chat_parts := chat_parts acc @ [part]\<rparr>"

definition convert_input_image_part :: "json \<Rightarrow> translation_error + json" where
  "convert_input_image_part part =
     (case as_object part of
        None \<Rightarrow> Inl (UnsupportedContentPartType ''input_image'')
      | Some obj \<Rightarrow>
          (case map_of obj ''image_url'' of
             None \<Rightarrow>
               Inl (UnsupportedContentPart
                 (if contains_key obj ''file_id''
                  then ''input_image requires image_url; file_id references are not supported''
                  else ''input_image requires image_url''))
           | Some url \<Rightarrow>
               (let image_url = copy_field obj ''detail'' (obj_insert ''url'' url [])
                in Inr (jobj [(''type'', JString ''image_url''), (''image_url'', JObject image_url)]))))"

definition convert_input_file_part :: "json \<Rightarrow> translation_error + json" where
  "convert_input_file_part part =
     (case as_object part of
        None \<Rightarrow> Inl (UnsupportedContentPartType ''input_file'')
      | Some obj \<Rightarrow>
          (let file = copy_field obj ''file_url'' (copy_field obj ''file_data''
                 (copy_field obj ''filename'' (copy_field obj ''file_id'' [])))
           in if file = []
              then Inl (UnsupportedContentPart ''input_file requires file_id, filename, file_data, or file_url'')
              else Inr (jobj [(''type'', JString ''file''), (''file'', JObject file)])))"

definition push_part :: "json \<Rightarrow> converted_content_parts \<Rightarrow> translation_error + converted_content_parts" where
  "push_part part acc =
     (case get_str part ''type'' of
        None \<Rightarrow> Inl (UnsupportedContentPartType ''unknown'')
      | Some t \<Rightarrow>
          if t = ''input_text'' \<or> t = ''output_text'' \<or> t = ''text'' then Inr (push_text part acc)
          else if t = ''input_image'' then and_then (convert_input_image_part part) (\<lambda>p. Inr (push_non_text p acc))
          else if t = ''input_file'' then and_then (convert_input_file_part part) (\<lambda>p. Inr (push_non_text p acc))
          else Inl (UnsupportedContentPartType t))"

definition finish_parts :: "converted_content_parts \<Rightarrow> json" where
  "finish_parts acc = (if all_text acc then JString (str_join [] (text_parts acc)) else JArray (chat_parts acc))"

definition convert_input_content_parts :: "json list \<Rightarrow> translation_error + json" where
  "convert_input_content_parts parts =
     and_then (fold_result push_part parts no_content_parts) (\<lambda>acc. Inr (finish_parts acc))"

definition convert_input_content :: "json \<Rightarrow> translation_error + json" where
  "convert_input_content content =
     (case content of JArray parts \<Rightarrow> convert_input_content_parts parts | _ \<Rightarrow> Inr content)"

definition chat_string_field :: "externals \<Rightarrow> json option \<Rightarrow> json" where
  "chat_string_field ext v =
     (case v of
        None \<Rightarrow> JString []
      | Some w \<Rightarrow> (case w of JString text \<Rightarrow> JString text | _ \<Rightarrow> JString (text_or_default ext w)))"

section \<open>Input items\<close>

definition append_message_item :: "jmap \<Rightarrow> json list \<Rightarrow> translation_error + json list" where
  "append_message_item obj messages =
     (let role = unwrap_or ''user'' (Option.bind (map_of obj ''role'') as_str)
      in and_then (case map_of obj ''content'' of None \<Rightarrow> Inr (JString []) | Some c \<Rightarrow> convert_input_content c)
           (\<lambda>content. Inr (messages @ [jobj [(''role'', JString role), (''content'', content)]])))"

definition function_call_tool_call :: "externals \<Rightarrow> jmap \<Rightarrow> json option" where
  "function_call_tool_call ext obj =
     (case Option.bind (map_of obj ''call_id'') as_str of
        None \<Rightarrow> None
      | Some call_id \<Rightarrow>
          (case Option.bind (map_of obj ''name'') as_str of
             None \<Rightarrow> None
           | Some name \<Rightarrow>
               Some (jobj [(''id'', JString call_id), (''type'', JString ''function''),
                 (''function'', jobj [(''name'', JString name),
                                      (''arguments'', chat_string_field ext (map_of obj ''arguments''))])])))"

definition append_tool_output :: "externals \<Rightarrow> jmap \<Rightarrow> json list \<Rightarrow> json list" where
  "append_tool_output ext obj messages =
     (case Option.bind (map_of obj ''call_id'') as_str of
        None \<Rightarrow> messages
      | Some call_id \<Rightarrow>
          messages @ [jobj [(''role'', JString ''tool''), (''tool_call_id'', JString call_id),
                            (''content'', chat_string_field ext (map_of obj ''output''))]])"

definition append_input_item :: "externals \<Rightarrow> json \<Rightarrow> json list \<Rightarrow> translation_error + json list" where
  "append_input_item ext item messages =
     (case as_object item of
        None \<Rightarrow> Inr messages
      | Some obj \<Rightarrow>
          (case get_type obj of
             Some t \<Rightarrow>
               if t = ''function_call_output'' then Inr (append_tool_output ext obj messages)
               else if t = ''message'' then append_message_item obj messages
               else Inl (UnsupportedInputItemType t)
           | None \<Rightarrow>
               if contains_key obj ''role'' \<or> contains_key obj ''content'' then append_message_item obj messages
               else Inl (UnsupportedInputItemType ''unknown'')))"

definition flush_pending_function_calls :: "json list \<Rightarrow> json list \<Rightarrow> json list" where
  "flush_pending_function_calls pending messages =
     (if pending = [] then messages
      else messages @ [jobj [(''role'', JString ''assistant''), (''content'', JNull), (''tool_calls'', JArray pending)]])"

text \<open>The loop over the items; \<open>pending\<close> are the calls not yet written.\<close>

definition is_function_call :: "json \<Rightarrow> bool" where
  "is_function_call item =
     (case as_object item of None \<Rightarrow> False | Some obj \<Rightarrow> get_type obj = Some ''function_call'')"

fun input_item_loop ::
  "externals \<Rightarrow> json list \<Rightarrow> json list \<Rightarrow> json list \<Rightarrow> translation_error + json list" where
  "input_item_loop ext messages pending [] = Inr (flush_pending_function_calls pending messages)"
| "input_item_loop ext messages pending (item # items) =
     (if is_function_call item then
        (case Option.bind (as_object item) (function_call_tool_call ext) of
           Some tool_call \<Rightarrow> input_item_loop ext messages (pending @ [tool_call]) items
         | None \<Rightarrow> input_item_loop ext messages pending items)
      else
        and_then (append_input_item ext item (flush_pending_function_calls pending messages))
          (\<lambda>messages'. input_item_loop ext messages' [] items))"

definition append_input_item_sequence ::
  "externals \<Rightarrow> json list \<Rightarrow> json list \<Rightarrow> translation_error + json list" where
  "append_input_item_sequence ext items messages = input_item_loop ext messages [] items"

definition append_input_messages :: "externals \<Rightarrow> json \<Rightarrow> json list \<Rightarrow> translation_error + json list" where
  "append_input_messages ext input messages =
     (case input of
        JString text \<Rightarrow> Inr (messages @ [jobj [(''role'', JString ''user''), (''content'', JString text)]])
      | JArray items \<Rightarrow> append_input_item_sequence ext items messages
      | JObject _ \<Rightarrow> append_input_item_sequence ext [input] messages
      | _ \<Rightarrow> Inr messages)"

definition build_chat_messages :: "externals \<Rightarrow> jmap \<Rightarrow> translation_error + json list" where
  "build_chat_messages ext obj =
     (let messages = (case Option.bind (map_of obj ''instructions'') as_str of
                        None \<Rightarrow> []
                      | Some instructions \<Rightarrow>
                          if instructions \<noteq> []
                          then [jobj [(''role'', JString ''system''), (''content'', JString instructions)]] else [])
      in case map_of obj ''input'' of
           None \<Rightarrow> Inr messages
         | Some input \<Rightarrow> append_input_messages ext input messages)"

section \<open>Tools\<close>

definition function_fields :: "jmap \<Rightarrow> jmap" where
  "function_fields tool =
     copy_field tool ''strict'' (copy_field tool ''parameters''
       (copy_field tool ''description'' (copy_field tool ''name'' [])))"

definition convert_function_tool :: "jmap \<Rightarrow> json" where
  "convert_function_tool tool =
     (if contains_key tool ''function'' then JObject tool
      else jobj [(''type'', JString ''function''), (''function'', JObject (function_fields tool))])"

definition convert_tool_entry :: "json \<Rightarrow> json list \<Rightarrow> translation_error + json list" where
  "convert_tool_entry tool chat_tools =
     (case as_object tool of
        None \<Rightarrow> Inr chat_tools
      | Some tool_obj \<Rightarrow>
          if get_type tool_obj = Some ''function'' then Inr (chat_tools @ [convert_function_tool tool_obj])
          else Inl (UnsupportedToolType (unwrap_or ''unknown'' (get_type tool_obj))))"

definition build_chat_tools :: "jmap \<Rightarrow> translation_error + json option" where
  "build_chat_tools obj =
     (case Option.bind (map_of obj ''tools'') as_array of
        None \<Rightarrow> Inr None
      | Some tools \<Rightarrow>
          and_then (fold_result convert_tool_entry tools []) (\<lambda>chat_tools.
            Inr (if chat_tools \<noteq> [] then Some (JArray chat_tools) else None)))"

definition convert_allowed_tool_choice_tool :: "json \<Rightarrow> translation_error + json" where
  "convert_allowed_tool_choice_tool tool =
     (case as_object tool of
        None \<Rightarrow> Inr tool
      | Some tool_obj \<Rightarrow>
          (case get_type tool_obj of
             None \<Rightarrow> Inr tool
           | Some tool_type \<Rightarrow>
               if tool_type \<noteq> ''function'' then Inl (UnsupportedToolType tool_type)
               else if contains_key tool_obj ''function'' then Inr tool
               else Inr (jobj [(''type'', JString ''function''), (''function'', JObject (function_fields tool_obj))])))"

definition build_allowed_tools_choice :: "jmap \<Rightarrow> translation_error + json" where
  "build_allowed_tools_choice choice =
     (let source = unwrap_or choice (Option.bind (map_of choice ''allowed_tools'') as_object);
          allowed_tools = copy_field source ''mode'' []
      in case Option.bind (map_of source ''tools'') as_array of
           None \<Rightarrow> Inr (JObject allowed_tools)
         | Some tools \<Rightarrow>
             and_then (map_result convert_allowed_tool_choice_tool tools)
               (\<lambda>ts. Inr (JObject (obj_insert ''tools'' (JArray ts) allowed_tools))))"

definition build_chat_tool_choice :: "jmap \<Rightarrow> translation_error + json option" where
  "build_chat_tool_choice obj =
     (case map_of obj ''tool_choice'' of
        None \<Rightarrow> Inr None
      | Some choice \<Rightarrow>
          (case choice of
             JString _ \<Rightarrow> Inr (Some choice)
           | JObject choice_obj \<Rightarrow>
               (case get_type choice_obj of
                  None \<Rightarrow> Inr None
                | Some t \<Rightarrow>
                    if t = ''function'' then
                      Inr (Some (jobj [(''type'', JString ''function''),
                                       (''function'', JObject (copy_field choice_obj ''name'' []))]))
                    else if t = ''allowed_tools'' then
                      and_then (build_allowed_tools_choice choice_obj) (\<lambda>allowed_tools.
                        Inr (Some (jobj [(''type'', JString ''allowed_tools''), (''allowed_tools'', allowed_tools)])))
                    else Inr None)
           | _ \<Rightarrow> Inr None))"

section \<open>The request\<close>

definition copied_fields :: "str list" where
  "copied_fields =
     [''model'', ''temperature'', ''top_p'', ''presence_penalty'', ''frequency_penalty'', ''parallel_tool_calls'',
      ''prompt_cache_key'', ''service_tier'', ''extra_body'']"

definition responses_request_to_chat_request :: "externals \<Rightarrow> json \<Rightarrow> translation_error + json" where
  "responses_request_to_chat_request ext request =
     (case as_object request of
        None \<Rightarrow> Inl (ExpectedObject ''Responses request'')
      | Some obj \<Rightarrow>
          (let chat1 = fold (copy_field obj) copied_fields [];
               chat2 = map_text_format obj (map_reasoning_effort obj (map_top_logprobs obj chat1));
               chat3 = (case map_of obj ''max_output_tokens'' of
                          None \<Rightarrow> chat2 | Some n \<Rightarrow> obj_insert ''max_completion_tokens'' n chat2)
           in and_then (build_chat_messages ext obj) (\<lambda>messages.
              let chat4 = obj_insert ''messages'' (JArray messages) chat3
              in and_then (build_chat_tools obj) (\<lambda>tools.
                 let chat5 = (case tools of None \<Rightarrow> chat4 | Some ts \<Rightarrow> obj_insert ''tools'' ts chat4)
                 in and_then (build_chat_tool_choice obj) (\<lambda>tool_choice.
                    Inr (JObject (case tool_choice of
                                    None \<Rightarrow> chat5 | Some c \<Rightarrow> obj_insert ''tool_choice'' c chat5)))))))"

end
