(* ===== verification/Chat_Response.thy ===== *)
theory Chat_Response
  imports Chat_Request
begin

text \<open>
  Chat Completions responses as Responses API resources, the second half of
  \<open>apis/src/openai/translation/chat_completions.rs\<close>: what the resource echoes of the request, the
  output items, the status and the usage.
\<close>

section \<open>The request context\<close>

record response_context =
  rc_response_id :: str
  rc_created_at :: u64
  rc_completed_at :: "u64 option"
  rc_model :: str
  rc_instructions :: "str option"
  rc_input :: json
  rc_metadata :: json
  rc_text :: json
  rc_temperature :: "json option"
  rc_top_p :: "json option"
  rc_max_output_tokens :: "u64 option"
  rc_max_tool_calls :: "u64 option"
  rc_parallel_tool_calls :: bool
  rc_previous_response_id :: "str option"
  rc_store :: bool
  rc_tools :: "json list"
  rc_tool_choice :: "json option"
  rc_presence_penalty :: "json option"
  rc_frequency_penalty :: "json option"
  rc_top_logprobs :: "u64 option"
  rc_service_tier :: "json option"
  rc_safety_identifier :: "json option"
  rc_prompt_cache_key :: "json option"

definition default_text_config :: json where
  "default_text_config = jobj [(''format'', jobj [(''type'', JString ''text'')])]"

text \<open>A request that is no object has no fields, as \<open>jget\<close> has it.\<close>

definition from_responses_request :: "json \<Rightarrow> str \<Rightarrow> u64 \<Rightarrow> response_context" where
  "from_responses_request request response_id created_at =
     \<lparr>rc_response_id = response_id, rc_created_at = created_at, rc_completed_at = None,
      rc_model = unwrap_or [] (get_str request ''model''),
      rc_instructions = get_str request ''instructions'',
      rc_input = unwrap_or JNull (jget request ''input''),
      rc_metadata = unwrap_or (jobj []) (jget request ''metadata''),
      rc_text = unwrap_or default_text_config (jget request ''text''),
      rc_temperature = jget request ''temperature'', rc_top_p = jget request ''top_p'',
      rc_max_output_tokens = get_u64 request ''max_output_tokens'',
      rc_max_tool_calls = get_u64 request ''max_tool_calls'',
      rc_parallel_tool_calls = unwrap_or True (get_bool request ''parallel_tool_calls''),
      rc_previous_response_id = get_str request ''previous_response_id'',
      rc_store = unwrap_or True (get_bool request ''store''),
      rc_tools = unwrap_or [] (get_array request ''tools''),
      rc_tool_choice = jget request ''tool_choice'',
      rc_presence_penalty = jget request ''presence_penalty'',
      rc_frequency_penalty = jget request ''frequency_penalty'',
      rc_top_logprobs = get_u64 request ''top_logprobs'',
      rc_service_tier = jget request ''service_tier'',
      rc_safety_identifier = jget request ''safety_identifier'',
      rc_prompt_cache_key = jget request ''prompt_cache_key''\<rparr>"

definition with_completed_at :: "u64 \<Rightarrow> response_context \<Rightarrow> response_context" where
  "with_completed_at completed_at context = context\<lparr>rc_completed_at := Some completed_at\<rparr>"

section \<open>Fields\<close>

definition first_choice :: "jmap \<Rightarrow> json option" where
  "first_choice obj = Option.bind (Option.bind (map_of obj ''choices'') as_array) first_of"

definition chat_logprobs_content :: "json \<Rightarrow> json list" where
  "chat_logprobs_content choice =
     unwrap_or [] (Option.bind (Option.bind (jget choice ''logprobs'') (\<lambda>l. jget l ''content'')) as_array)"

definition response_status :: "str option \<Rightarrow> str" where
  "response_status finish_reason =
     (if finish_reason = Some ''length'' \<or> finish_reason = Some ''content_filter'' then ''incomplete'' else ''completed'')"

definition incomplete_details :: "str option \<Rightarrow> json" where
  "incomplete_details finish_reason =
     (if finish_reason = Some ''length'' then jobj [(''reason'', JString ''max_output_tokens'')]
      else if finish_reason = Some ''content_filter'' then jobj [(''reason'', JString ''content_filter'')]
      else JNull)"

definition ju64 :: "u64 \<Rightarrow> json" where "ju64 n = JNumber (PosInt n)"

definition string_or_null :: "str option \<Rightarrow> json" where
  "string_or_null v = (case v of None \<Rightarrow> JNull | Some s \<Rightarrow> JString s)"

definition u64_or_null :: "u64 option \<Rightarrow> json" where
  "u64_or_null v = (case v of None \<Rightarrow> JNull | Some n \<Rightarrow> ju64 n)"

definition instructions_value :: "response_context \<Rightarrow> json" where
  "instructions_value context = string_or_null (rc_instructions context)"

definition max_output_tokens_value :: "response_context \<Rightarrow> json" where
  "max_output_tokens_value context = u64_or_null (rc_max_output_tokens context)"

definition max_tool_calls_value :: "response_context \<Rightarrow> json" where
  "max_tool_calls_value context = u64_or_null (rc_max_tool_calls context)"

definition completed_at_value :: "str \<Rightarrow> response_context \<Rightarrow> json" where
  "completed_at_value st context =
     (if st = ''in_progress'' then JNull else ju64 (unwrap_or (rc_created_at context) (rc_completed_at context)))"

definition request_field_or_null :: "json option \<Rightarrow> json" where
  "request_field_or_null v = unwrap_or JNull v"

definition previous_response_id_value :: "response_context \<Rightarrow> json" where
  "previous_response_id_value context = string_or_null (rc_previous_response_id context)"

definition tool_choice_value :: "response_context \<Rightarrow> json" where
  "tool_choice_value context = unwrap_or (JString ''auto'') (rc_tool_choice context)"

definition metadata_value :: "response_context \<Rightarrow> json" where
  "metadata_value context = (if is_object (rc_metadata context) then rc_metadata context else jobj [])"

definition service_tier_value_with_context :: "jmap \<Rightarrow> response_context \<Rightarrow> json" where
  "service_tier_value_with_context obj context =
     (case map_of obj ''service_tier'' of
        Some v \<Rightarrow> v | None \<Rightarrow> unwrap_or (JString ''default'') (rc_service_tier context))"

definition is_number :: "json \<Rightarrow> bool" where
  "is_number v = (case v of JNumber _ \<Rightarrow> True | _ \<Rightarrow> False)"

text \<open>The defaults are finite, so the fallback of \<open>number_value\<close> to null is never taken.\<close>

definition number_or_default :: "json option \<Rightarrow> jnum \<Rightarrow> json" where
  "number_or_default v d =
     (case v of Some w \<Rightarrow> if is_number w then w else JNumber d | None \<Rightarrow> JNumber d)"

section \<open>Output items\<close>

definition output_text_item :: "str \<Rightarrow> json list \<Rightarrow> json" where
  "output_text_item text logprobs = jobj
     [(''type'', JString ''output_text''), (''text'', JString text), (''annotations'', JArray []),
      (''logprobs'', JArray logprobs)]"

definition refusal_item :: "str \<Rightarrow> json" where
  "refusal_item refusal = jobj [(''type'', JString ''refusal''), (''refusal'', JString refusal)]"

fun text_part_items :: "json list \<Rightarrow> json list \<Rightarrow> json list" where
  "text_part_items [] logprobs = []"
| "text_part_items (part # parts) logprobs =
     (case get_str part ''text'' of
        None \<Rightarrow> text_part_items parts logprobs
      | Some text \<Rightarrow>
          if text = [] then text_part_items parts logprobs
          else output_text_item text logprobs # text_part_items parts [])"

definition output_text_items_from_parts :: "json list \<Rightarrow> json list \<Rightarrow> json list" where
  "output_text_items_from_parts parts logprobs = text_part_items parts logprobs"

definition output_text_items :: "json option \<Rightarrow> json list \<Rightarrow> json list" where
  "output_text_items content logprobs =
     (case content of
        None \<Rightarrow> []
      | Some c \<Rightarrow>
          (case c of
             JString text \<Rightarrow> if text \<noteq> [] then [output_text_item text logprobs] else []
           | JArray parts \<Rightarrow> output_text_items_from_parts parts logprobs
           | _ \<Rightarrow> []))"

definition message_content_items :: "json option \<Rightarrow> json list \<Rightarrow> json list" where
  "message_content_items message logprobs =
     (let content_items = output_text_items (Option.bind message (\<lambda>m. jget m ''content'')) logprobs
      in case Option.bind message (\<lambda>m. get_str m ''refusal'') of
           None \<Rightarrow> content_items
         | Some refusal \<Rightarrow> if refusal \<noteq> [] then content_items @ [refusal_item refusal] else content_items)"

definition message_item_id :: "response_context \<Rightarrow> str" where
  "message_item_id context = ''msg_'' @ rc_response_id context"

definition message_output_item :: "response_context \<Rightarrow> str \<Rightarrow> json list \<Rightarrow> json" where
  "message_output_item context st content = jobj
     [(''id'', JString (message_item_id context)), (''type'', JString ''message''), (''status'', JString st),
      (''role'', JString ''assistant''), (''content'', JArray content)]"

definition append_message_output ::
  "json option \<Rightarrow> response_context \<Rightarrow> str \<Rightarrow> json list \<Rightarrow> json list \<Rightarrow> json list" where
  "append_message_output message context st logprobs output =
     (let content_items = message_content_items message logprobs
      in if content_items = [] then output else output @ [message_output_item context st content_items])"

definition function_call_output_item_from_parts :: "str \<Rightarrow> str \<Rightarrow> str \<Rightarrow> str \<Rightarrow> json" where
  "function_call_output_item_from_parts call_id name arguments st = jobj
     [(''id'', JString (''fc_'' @ call_id)), (''type'', JString ''function_call''), (''status'', JString st),
      (''call_id'', JString call_id), (''name'', JString name), (''arguments'', JString arguments)]"

definition function_call_output_item :: "json \<Rightarrow> str \<Rightarrow> json" where
  "function_call_output_item tool_call st =
     (let call_id = unwrap_or [] (get_str tool_call ''id'');
          name = unwrap_or [] (Option.bind (jget tool_call ''function'') (\<lambda>f. get_str f ''name''));
          arguments = unwrap_or ''{}'' (Option.bind (jget tool_call ''function'') (\<lambda>f. get_str f ''arguments''))
      in function_call_output_item_from_parts call_id name arguments st)"

definition append_tool_call_outputs :: "json option \<Rightarrow> str \<Rightarrow> json list \<Rightarrow> json list" where
  "append_tool_call_outputs message st output =
     (case Option.bind message (\<lambda>m. get_array m ''tool_calls'') of
        None \<Rightarrow> output
      | Some tool_calls \<Rightarrow> output @ map (\<lambda>tc. function_call_output_item tc st) tool_calls)"

definition build_output_items :: "jmap \<Rightarrow> response_context \<Rightarrow> str \<Rightarrow> json list" where
  "build_output_items obj context st =
     (case first_choice obj of
        None \<Rightarrow> []
      | Some choice \<Rightarrow>
          (let message = jget choice ''message'';
               logprobs = chat_logprobs_content choice
           in append_tool_call_outputs message st (append_message_output message context st logprobs [])))"

section \<open>Usage\<close>

definition usage_tokens :: "json option \<Rightarrow> str \<Rightarrow> u64" where
  "usage_tokens usage field = unwrap_or 0 (Option.bind usage (\<lambda>u. get_u64 u field))"

definition build_usage_from_value :: "json option \<Rightarrow> json" where
  "build_usage_from_value usage =
     (let input_tokens = usage_tokens usage ''prompt_tokens'';
          output_tokens = usage_tokens usage ''completion_tokens'';
          total_tokens = usage_tokens usage ''total_tokens'';
          cached_tokens = unwrap_or 0 (Option.bind (Option.bind usage (\<lambda>u. jget u ''prompt_tokens_details''))
                            (\<lambda>d. get_u64 d ''cached_tokens''));
          reasoning_tokens = unwrap_or 0 (Option.bind (Option.bind usage (\<lambda>u. jget u ''completion_tokens_details''))
                            (\<lambda>d. get_u64 d ''reasoning_tokens''))
      in jobj
           [(''input_tokens'', ju64 input_tokens),
            (''input_tokens_details'', jobj [(''cached_tokens'', ju64 cached_tokens)]),
            (''output_tokens'', ju64 output_tokens),
            (''output_tokens_details'', jobj [(''reasoning_tokens'', ju64 reasoning_tokens)]),
            (''total_tokens'', ju64 total_tokens)])"

definition chat_build_usage :: "jmap \<Rightarrow> json" where
  "chat_build_usage obj = build_usage_from_value (map_of obj ''usage'')"

section \<open>The resource\<close>

record response_resource_parts =
  rp_status :: str
  rp_incomplete_details :: json
  rp_output :: "json list"
  rp_usage :: json
  rp_service_tier :: json

definition insert_request_resource_fields :: "response_context \<Rightarrow> str \<Rightarrow> json \<Rightarrow> json" where
  "insert_request_resource_fields context st resource =
     (case resource of
        JObject obj \<Rightarrow>
          JObject (fold (\<lambda>(k, v) m. obj_insert k v m)
            [(''completed_at'', completed_at_value st context),
             (''max_tool_calls'', max_tool_calls_value context),
             (''prompt_cache_key'', request_field_or_null (rc_prompt_cache_key context)),
             (''safety_identifier'', request_field_or_null (rc_safety_identifier context)),
             (''presence_penalty'', number_or_default (rc_presence_penalty context) f64_zero),
             (''frequency_penalty'', number_or_default (rc_frequency_penalty context) f64_zero),
             (''top_logprobs'', ju64 (unwrap_or 0 (rc_top_logprobs context)))] obj)
      | _ \<Rightarrow> resource)"

definition response_resource :: "response_context \<Rightarrow> response_resource_parts \<Rightarrow> json" where
  "response_resource context parts =
     insert_request_resource_fields context (rp_status parts) (jobj
       [(''id'', JString (rc_response_id context)), (''object'', JString ''response''),
        (''created_at'', ju64 (rc_created_at context)), (''status'', JString (rp_status parts)),
        (''error'', JNull), (''incomplete_details'', rp_incomplete_details parts),
        (''instructions'', instructions_value context),
        (''max_output_tokens'', max_output_tokens_value context),
        (''model'', JString (rc_model context)), (''input'', rc_input context),
        (''output'', JArray (rp_output parts)),
        (''parallel_tool_calls'', JBool (rc_parallel_tool_calls context)),
        (''previous_response_id'', previous_response_id_value context), (''reasoning'', JNull),
        (''store'', JBool (rc_store context)),
        (''temperature'', number_or_default (rc_temperature context) f64_one),
        (''text'', rc_text context), (''tool_choice'', tool_choice_value context),
        (''tools'', JArray (rc_tools context)),
        (''top_p'', number_or_default (rc_top_p context) f64_one),
        (''truncation'', JString ''disabled''), (''usage'', rp_usage parts),
        (''metadata'', metadata_value context), (''background'', JBool False),
        (''service_tier'', rp_service_tier parts)])"

definition chat_response_to_response_resource ::
  "json \<Rightarrow> response_context \<Rightarrow> translation_error + json" where
  "chat_response_to_response_resource response context =
     (case as_object response of
        None \<Rightarrow> Inl (ExpectedObject ''Chat Completions response'')
      | Some obj \<Rightarrow>
          (let finish_reason = Option.bind (first_choice obj) (\<lambda>c. get_str c ''finish_reason'');
               st = response_status finish_reason
           in Inr (response_resource context
                \<lparr>rp_status = st, rp_incomplete_details = incomplete_details finish_reason,
                 rp_output = build_output_items obj context st, rp_usage = chat_build_usage obj,
                 rp_service_tier = service_tier_value_with_context obj context\<rparr>)))"

end
