(* ===== verification/Chat_Translation.thy ===== *)
theory Chat_Translation
  imports Chat_Response
begin

text \<open>
  What the translation between the Responses API and Chat Completions keeps: the order of the
  conversation in a request, the assistant's turn when a response is sent back as input, the form
  and the coherence of a response resource.
\<close>

section \<open>Input items in order\<close>

text \<open>A chat conversation as a sequence of messages and tool calls.\<close>

datatype chat_turn = Message_turn json | Call_turn json

definition message_turns :: "json \<Rightarrow> chat_turn list" where
  "message_turns m =
     (case get_array m ''tool_calls'' of Some calls \<Rightarrow> map Call_turn calls | None \<Rightarrow> [Message_turn m])"

definition chat_turns :: "json list \<Rightarrow> chat_turn list" where
  "chat_turns ms = concat (map message_turns ms)"

text \<open>What one input item contributes, taken alone.\<close>

definition item_turns :: "externals \<Rightarrow> json \<Rightarrow> translation_error + chat_turn list" where
  "item_turns ext item =
     (if is_function_call item then
        Inr (case Option.bind (as_object item) (function_call_tool_call ext) of Some c \<Rightarrow> [Call_turn c] | None \<Rightarrow> [])
      else and_then (append_input_item ext item []) (\<lambda>ms. Inr (map Message_turn ms)))"

lemma chat_turns_append: "chat_turns (ms @ ns) = chat_turns ms @ chat_turns ns"
  by (simp add: chat_turns_def)

lemma append_input_item_append:
  "append_input_item ext item messages = and_then (append_input_item ext item []) (\<lambda>new. Inr (messages @ new))"
  by (simp add: append_input_item_def append_message_item_def append_tool_output_def Let_def and_then_assoc
      split: option.split)

lemma append_input_item_messages:
  "append_input_item ext item [] = Inr ms \<Longrightarrow> chat_turns ms = map Message_turn ms"
  by (auto simp: append_input_item_def append_message_item_def append_tool_output_def Let_def and_then_Inr_iff
      chat_turns_def message_turns_def get_array_def jget_jobj split: option.splits if_splits)

lemma flush_turns: "chat_turns (flush_pending_function_calls pending messages) = chat_turns messages @ map Call_turn pending"
  by (simp add: flush_pending_function_calls_def chat_turns_def message_turns_def get_array_def jget_jobj)

lemma input_item_loop_turns:
  "and_then (input_item_loop ext messages pending items) (\<lambda>ms. Inr (chat_turns ms)) =
     and_then (map_result (item_turns ext) items)
       (\<lambda>tss. Inr (chat_turns messages @ map Call_turn pending @ concat tss))"
proof (induction items arbitrary: messages pending)
  case Nil
  then show ?case by (simp add: flush_turns)
next
  case (Cons item items)
  show ?case
  proof (cases "is_function_call item")
    case True
    with Cons.IH show ?thesis
      by (cases "Option.bind (as_object item) (function_call_tool_call ext)")
        (simp_all add: item_turns_def and_then_assoc)
  next
    case False
    let ?m = "flush_pending_function_calls pending messages"
    show ?thesis
    proof (cases "append_input_item ext item []")
      case (Inl e)
      with False append_input_item_append [of ext item ?m] show ?thesis by (simp add: item_turns_def)
    next
      case (Inr new)
      with append_input_item_append [of ext item ?m] have "append_input_item ext item ?m = Inr (?m @ new)" by simp
      with False Cons.IH [of "?m @ new" "[]"] Inr append_input_item_messages [OF Inr] show ?thesis
        by (simp add: item_turns_def chat_turns_append flush_turns and_then_assoc)
    qed
  qed
qed

text \<open>
  C38. Input items keep their order: the messages built from a list of input items, with every
  batch of tool calls taken apart, are the contributions of the single items one after another, and
  the first item that has no Chat counterpart decides the error.
\<close>

theorem chat_request_order:
  "and_then (append_input_item_sequence ext items []) (\<lambda>ms. Inr (chat_turns ms)) =
     and_then (map_result (item_turns ext) items) (\<lambda>tss. Inr (concat tss))"
  using input_item_loop_turns [of ext "[]" "[]" items] by (simp add: append_input_item_sequence_def chat_turns_def)

section \<open>Sending a response back\<close>

text \<open>A tool call as Chat Completions providers write it.\<close>

definition chat_call :: "str \<times> str \<times> str \<Rightarrow> json" where
  "chat_call c = (case c of (cid, name, arguments) \<Rightarrow>
     jobj [(''id'', JString cid), (''type'', JString ''function''),
           (''function'', jobj [(''name'', JString name), (''arguments'', JString arguments)])])"

definition call_item :: "str \<Rightarrow> str \<times> str \<times> str \<Rightarrow> json" where
  "call_item st c = (case c of (cid, name, arguments) \<Rightarrow> function_call_output_item_from_parts cid name arguments st)"

lemma call_item_of_chat_call: "function_call_output_item (chat_call c) st = call_item st c"
  by (cases c) (simp add: function_call_output_item_def chat_call_def call_item_def Let_def get_str_def jget_jobj)

lemma as_object_jobj: "as_object (jobj kvs) = Some (fold (\<lambda>(k, v) m. obj_insert k v m) kvs [])"
  by (simp add: jobj_def)

lemma get_type_fold: "get_type (fold (\<lambda>(k, v) m. obj_insert k v m) kvs []) = Option.bind (map_of (rev kvs) ''type'') as_str"
  by (simp add: get_type_def map_of_fold_insert)

lemma call_item_is_call: "is_function_call (call_item st c)"
  by (cases c) (simp add: call_item_def function_call_output_item_from_parts_def is_function_call_def
      as_object_jobj get_type_fold del: fold_simps fold.simps)

lemma call_item_back: "Option.bind (as_object (call_item st c)) (function_call_tool_call ext) = Some (chat_call c)"
  by (cases c) (simp add: call_item_def function_call_output_item_from_parts_def as_object_jobj
      function_call_tool_call_def map_of_fold_insert chat_string_field_def chat_call_def del: fold_simps fold.simps)

lemma loop_calls:
  "input_item_loop ext messages pending (map (call_item st) cs) =
     Inr (flush_pending_function_calls (pending @ map chat_call cs) messages)"
  by (induction cs arbitrary: pending) (simp_all add: call_item_is_call call_item_back)

definition text_message :: "str \<Rightarrow> json" where
  "text_message text = jobj [(''role'', JString ''assistant''), (''content'', JString text)]"

lemma message_item_not_call: "\<not> is_function_call (message_output_item context st content)"
  by (simp add: message_output_item_def is_function_call_def as_object_jobj get_type_fold del: fold_simps fold.simps)

lemma message_item_back:
  "append_input_item ext (message_output_item context st content) ms =
     and_then (convert_input_content_parts content) (\<lambda>c.
       Inr (ms @ [jobj [(''role'', JString ''assistant''), (''content'', c)]]))"
  by (simp add: message_output_item_def append_input_item_def as_object_jobj get_type_fold
      append_message_item_def map_of_fold_insert convert_input_content_def Let_def del: fold_simps fold.simps)

text \<open>The message of a Chat response: its texts, its refusal and its tool calls.\<close>

definition reply_message :: "jmap \<Rightarrow> json option" where
  "reply_message obj = Option.bind (first_choice obj) (\<lambda>c. jget c ''message'')"

definition reply_texts :: "json option \<Rightarrow> str list" where
  "reply_texts message =
     filter (\<lambda>t. t \<noteq> [])
       (case Option.bind message (\<lambda>m. jget m ''content'') of
          Some (JString t) \<Rightarrow> [t]
        | Some (JArray parts) \<Rightarrow> List.map_filter (\<lambda>part. get_str part ''text'') parts
        | _ \<Rightarrow> [])"

definition reply_refusal :: "json option \<Rightarrow> str" where
  "reply_refusal message = unwrap_or [] (Option.bind message (\<lambda>m. get_str m ''refusal''))"

definition reply_call :: "json \<Rightarrow> str \<times> str \<times> str" where
  "reply_call tool_call =
     (unwrap_or [] (get_str tool_call ''id''),
      unwrap_or [] (Option.bind (jget tool_call ''function'') (\<lambda>f. get_str f ''name'')),
      unwrap_or ''{}'' (Option.bind (jget tool_call ''function'') (\<lambda>f. get_str f ''arguments'')))"

definition reply_calls :: "json option \<Rightarrow> (str \<times> str \<times> str) list" where
  "reply_calls message = map reply_call (unwrap_or [] (Option.bind message (\<lambda>m. get_array m ''tool_calls'')))"

lemma call_item_of_reply: "function_call_output_item tool_call st = call_item st (reply_call tool_call)"
  by (simp add: function_call_output_item_def call_item_def reply_call_def Let_def)

definition text_items :: "(str \<times> json list) list \<Rightarrow> json list" where
  "text_items tls = map (\<lambda>(t, lp). output_text_item t lp) tls"

lemma part_items: "\<exists>tls. text_part_items parts lp = text_items tls \<and>
    map fst tls = filter (\<lambda>t. t \<noteq> []) (List.map_filter (\<lambda>part. get_str part ''text'') parts)"
proof (induction parts arbitrary: lp)
  case (Cons part parts)
  from Cons.IH [of lp] Cons.IH [of "[]"] obtain tls tls' where
    same: "text_part_items parts lp = text_items tls"
      "map fst tls = filter (\<lambda>t. t \<noteq> []) (List.map_filter (\<lambda>part. get_str part ''text'') parts)"
    and next': "text_part_items parts [] = text_items tls'"
      "map fst tls' = filter (\<lambda>t. t \<noteq> []) (List.map_filter (\<lambda>part. get_str part ''text'') parts)" by blast
  show ?case
  proof (cases "get_str part ''text''")
    case None
    with same show ?thesis by (intro exI [of _ tls]) (simp add: List.map_filter_simps)
  next
    case (Some t)
    show ?thesis
    proof (cases "t = []")
      case True
      with Some same show ?thesis by (intro exI [of _ tls]) (simp add: List.map_filter_simps)
    next
      case False
      with Some next' show ?thesis by (intro exI [of _ "(t, lp) # tls'"]) (simp add: List.map_filter_simps text_items_def)
    qed
  qed
qed (simp add: text_items_def List.map_filter_simps)

lemma reply_items:
  "\<exists>tls. message_content_items message lp =
      text_items tls @ (if reply_refusal message = [] then [] else [refusal_item (reply_refusal message)]) \<and>
    map fst tls = reply_texts message"
proof -
  have "\<exists>tls. output_text_items (Option.bind message (\<lambda>m. jget m ''content'')) lp = text_items tls \<and>
      map fst tls = reply_texts message"
  proof (cases "Option.bind message (\<lambda>m. jget m ''content'')")
    case (Some c)
    show ?thesis
    proof (cases c)
      case (JString t)
      with Some show ?thesis
        by (intro exI [of _ "if t = [] then [] else [(t, lp)]"]) (simp add: output_text_items_def reply_texts_def text_items_def)
    next
      case (JArray parts)
      with Some part_items [of parts lp] show ?thesis
        by (simp add: output_text_items_def reply_texts_def output_text_items_from_parts_def)
    qed (use Some in \<open>simp_all add: output_text_items_def reply_texts_def text_items_def\<close>)
  qed (simp add: output_text_items_def reply_texts_def text_items_def)
  then show ?thesis
    by (cases "Option.bind message (\<lambda>m. get_str m ''refusal'')") (auto simp: message_content_items_def reply_refusal_def Let_def)
qed

lemma push_output_text:
  "push_part (output_text_item t lp) acc = Inr (push_text (output_text_item t lp) acc)"
  "text_parts (push_text (output_text_item t lp) acc) = text_parts acc @ [t]"
  "all_text (push_text (output_text_item t lp) acc) = all_text acc"
  by (simp_all add: push_part_def push_text_def output_text_item_def get_str_def jget_jobj)

definition push_texts :: "(str \<times> json list) list \<Rightarrow> converted_content_parts \<Rightarrow> converted_content_parts" where
  "push_texts tls = fold (\<lambda>tl. push_text (output_text_item (fst tl) (snd tl))) tls"

lemma push_texts_parts:
  "text_parts (push_texts tls acc) = text_parts acc @ map fst tls" "all_text (push_texts tls acc) = all_text acc"
  by (induction tls arbitrary: acc) (simp_all add: push_texts_def push_output_text(2,3))

lemma push_text_items:
  "fold_result push_part (text_items tls @ rest) acc = fold_result push_part rest (push_texts tls acc)"
  by (induction tls arbitrary: acc) (simp_all add: text_items_def push_texts_def push_output_text(1) case_prod_unfold)

lemma str_join_concat: "str_join [] xs = concat xs"
  by (induction "[] :: 'a list" xs rule: str_join.induct) simp_all

lemma texts_back:
  "convert_input_content_parts (text_items tls) = Inr (JString (concat (map fst tls)))"
proof -
  have "fold_result push_part (text_items tls) no_content_parts = Inr (push_texts tls no_content_parts)"
    using push_text_items [of tls "[]" no_content_parts] by simp
  moreover have "text_parts no_content_parts = []" "all_text no_content_parts" by (simp_all add: no_content_parts_def)
  ultimately show ?thesis
    by (simp add: convert_input_content_parts_def finish_parts_def push_texts_parts str_join_concat)
qed

lemma refusal_not_back:
  "convert_input_content_parts (text_items tls @ [refusal_item r]) = Inl (UnsupportedContentPartType ''refusal'')"
  by (simp add: convert_input_content_parts_def push_text_items push_part_def refusal_item_def get_str_def jget_jobj)

text \<open>
  C39. An assistant turn survives the round trip, unless it is a refusal: for every Chat response, the output items
  made of its first choice, sent back as input of the next request, become one message with the texts of the answer,
  joined, when there is a text, and one with exactly its tool calls in their
  order, ids, names and arguments unchanged, where a missing id or name counts as empty and missing arguments as
  \<open>{}\<close>. When the answer holds a refusal, with or without text and calls, the output items are
  no valid input: the next request is refused because of the \<open>refusal\<close> part.
\<close>

theorem chat_turn_roundtrip:
  "append_input_item_sequence ext (build_output_items obj context st) [] =
    (let message = reply_message obj; texts = reply_texts message; calls = reply_calls message
     in if reply_refusal message \<noteq> [] then Inl (UnsupportedContentPartType ''refusal'')
        else Inr ((if texts = [] then [] else [text_message (concat texts)]) @
           (if calls = [] then [] else [jobj [(''role'', JString ''assistant''), (''content'', JNull),
                                              (''tool_calls'', JArray (map chat_call calls))]])))"
proof (cases "first_choice obj")
  case None
  then show ?thesis
    by (simp add: build_output_items_def append_input_item_sequence_def flush_pending_function_calls_def
        reply_message_def reply_refusal_def reply_texts_def reply_calls_def)
next
  case (Some choice)
  let ?m = "jget choice ''message''"
  have m: "reply_message obj = ?m" using Some by (simp add: reply_message_def)
  obtain tls where items: "message_content_items ?m (chat_logprobs_content choice) =
      text_items tls @ (if reply_refusal ?m = [] then [] else [refusal_item (reply_refusal ?m)])"
    and texts: "map fst tls = reply_texts ?m" using reply_items by blast
  have "append_tool_call_outputs ?m st out = out @ map (call_item st) (reply_calls ?m)" for out
    by (simp add: append_tool_call_outputs_def reply_calls_def call_item_of_reply split: option.split)
  then have out: "build_output_items obj context st =
      (if message_content_items ?m (chat_logprobs_content choice) = [] then []
       else [message_output_item context st (message_content_items ?m (chat_logprobs_content choice))]) @
      map (call_item st) (reply_calls ?m)"
    by (simp add: build_output_items_def Some append_message_output_def Let_def)
  have none: "text_items tls = [] \<longleftrightarrow> reply_texts ?m = []" by (simp add: text_items_def flip: texts)
  show ?thesis
    unfolding append_input_item_sequence_def out items m Let_def
    by (auto simp: none loop_calls message_item_not_call message_item_back refusal_not_back texts_back texts
        flush_pending_function_calls_def text_message_def)
qed

definition reply_obj :: jmap where
  "reply_obj = [(''choices'', JArray [jobj [(''message'', jobj [(''content'', JString ''Hi''),
     (''tool_calls'', JArray [chat_call (''c1'', ''f'', ''{}'')])])]])]"

lemma chat_turn_roundtrip_witness:
  "append_input_item_sequence null_ext (build_output_items reply_obj (from_responses_request JNull ''r'' 0) ''completed'') [] =
    Inr [text_message ''Hi'', jobj [(''role'', JString ''assistant''), (''content'', JNull),
         (''tool_calls'', JArray [chat_call (''c1'', ''f'', ''{}'')])]]"
  unfolding chat_turn_roundtrip by code_simp

section \<open>The resource\<close>

definition number_field :: "json \<Rightarrow> str \<Rightarrow> jnum \<Rightarrow> json" where
  "number_field request k d = (case jget request k of Some (JNumber n) \<Rightarrow> JNumber n | _ \<Rightarrow> JNumber d)"

definition count_field :: "json option \<Rightarrow> str \<Rightarrow> u64" where
  "count_field v k = (case Option.bind v (\<lambda>u. get_u64 u k) of Some n \<Rightarrow> n | None \<Rightarrow> 0)"

definition finish_reason_of :: "jmap \<Rightarrow> str option" where
  "finish_reason_of obj = Option.bind (first_choice obj) (\<lambda>c. get_str c ''finish_reason'')"

lemma number_field_eq: "number_or_default (jget request k) d = number_field request k d"
  by (auto simp: number_or_default_def number_field_def is_number_def split: option.split json.split)

lemmas resource_defs = response_resource_def insert_request_resource_fields_def jobj_def map_of_fold_insert

lemmas field_defs = from_responses_request_def instructions_value_def max_output_tokens_value_def max_tool_calls_value_def
  previous_response_id_value_def request_field_or_null_def tool_choice_value_def metadata_value_def
  string_or_null_def u64_or_null_def ju64_def unwrap_or_def completed_at_value_def count_field_def number_field_eq

text \<open>What the resource repeats of the request, whatever the answer is.\<close>

lemma resource_echo:
  fixes request :: json and rid :: str and created :: u64 and parts :: response_resource_parts
  defines "r \<equiv> response_resource (from_responses_request request rid created) parts"
  shows "jget r ''id'' = Some (JString rid)" and "get_u64 r ''created_at'' = Some created"
    and "rp_status parts \<noteq> ''in_progress'' \<Longrightarrow> get_u64 r ''completed_at'' = Some created"
    and "jget r ''reasoning'' = Some JNull" and "jget r ''truncation'' = Some (JString ''disabled'')"
    and "jget r ''background'' = Some (JBool False)"
    and "jget r ''model'' = Some (case get_str request ''model'' of Some m \<Rightarrow> JString m | None \<Rightarrow> JString [])"
    and "\<forall>k \<in> {''instructions'', ''previous_response_id''}.
       jget r k = Some (case get_str request k of Some t \<Rightarrow> JString t | None \<Rightarrow> JNull)"
    and "\<forall>k \<in> {''max_output_tokens'', ''max_tool_calls''}.
       jget r k = Some (case get_u64 request k of Some n \<Rightarrow> JNumber (PosInt n) | None \<Rightarrow> JNull)"
    and "\<forall>k \<in> {''temperature'', ''top_p''}. jget r k = Some (number_field request k f64_one)"
    and "\<forall>k \<in> {''presence_penalty'', ''frequency_penalty''}. jget r k = Some (number_field request k f64_zero)"
    and "\<forall>k \<in> {''parallel_tool_calls'', ''store''}.
       jget r k = Some (JBool (case get_bool request k of Some b \<Rightarrow> b | None \<Rightarrow> True))"
    and "\<forall>k \<in> {''input'', ''prompt_cache_key'', ''safety_identifier''}.
       jget r k = Some (case jget request k of Some v \<Rightarrow> v | None \<Rightarrow> JNull)"
    and "get_u64 r ''top_logprobs'' = Some (count_field (Some request) ''top_logprobs'')"
    and "get_array r ''tools'' = Some (case get_array request ''tools'' of Some ts \<Rightarrow> ts | None \<Rightarrow> [])"
    and "jget r ''tool_choice'' = Some (case jget request ''tool_choice'' of Some v \<Rightarrow> v | None \<Rightarrow> JString ''auto'')"
    and "jget r ''text'' = Some (case jget request ''text'' of Some v \<Rightarrow> v | None \<Rightarrow> default_text_config)"
    and "jget r ''metadata'' = Some (case jget request ''metadata'' of Some (JObject m) \<Rightarrow> JObject m | _ \<Rightarrow> jobj [])"
  unfolding r_def
  by (simp_all add: resource_defs field_defs is_object_def get_u64_def [of "JObject _"] get_array_def [of "JObject _"]
      del: fold_simps fold.simps split: option.split json.split)

text \<open>What it takes from the answer.\<close>

lemma resource_answer:
  fixes rc :: response_context and parts :: response_resource_parts
  defines "r \<equiv> response_resource rc parts"
  shows "get_array r ''output'' = Some (rp_output parts)" and "get_str r ''status'' = Some (rp_status parts)"
    and "jget r ''incomplete_details'' = Some (rp_incomplete_details parts)" and "jget r ''usage'' = Some (rp_usage parts)"
    and "jget r ''service_tier'' = Some (rp_service_tier parts)"
  unfolding r_def
  by (simp_all add: resource_defs get_array_def get_str_def del: fold_simps fold.simps)

lemma usage_counts:
  "get_u64 (chat_build_usage obj) ''input_tokens'' = Some (count_field (map_of obj ''usage'') ''prompt_tokens'')"
  "get_u64 (chat_build_usage obj) ''output_tokens'' = Some (count_field (map_of obj ''usage'') ''completion_tokens'')"
  "get_u64 (chat_build_usage obj) ''total_tokens'' = Some (count_field (map_of obj ''usage'') ''total_tokens'')"
  by (simp_all add: chat_build_usage_def build_usage_from_value_def usage_tokens_def Let_def get_u64_def [of "jobj _"]
      jget_jobj ju64_def count_field_def unwrap_or_def split: option.split)

text \<open>
  C40. The resource tells what was asked and what was answered. The model, the input, the instructions, the limits, the
  sampling numbers, the tools and the other fields of the request that the resource repeats stand in it under their own
  names, with a default for what the request leaves out or gives in another type: null for the texts and
  limits, 1 for \<open>temperature\<close> and \<open>top_p\<close>, 0 for the penalties, true for \<open>parallel_tool_calls\<close> and \<open>store\<close>, no
  tools, and so on; only \<open>reasoning\<close>, \<open>truncation\<close> and \<open>background\<close> are constants, whatever the request says. From the response come the output items, the token counts under their new names, and the service tier if it gives one;
  the status is \<open>incomplete\<close> exactly when the answer was cut for its length or by the content filter, and the
  details then name which.
\<close>

theorem response_resource_fields:
  assumes "chat_response_to_response_resource (JObject obj) (from_responses_request request rid created) = Inr r"
    and "finish = finish_reason_of obj" and "usage = map_of obj ''usage''"
  shows "jget r ''id'' = Some (JString rid) \<and> get_u64 r ''created_at'' = Some created \<and>
    get_u64 r ''completed_at'' = Some created \<and>
    jget r ''reasoning'' = Some JNull \<and> jget r ''truncation'' = Some (JString ''disabled'') \<and>
    jget r ''background'' = Some (JBool False) \<and>
    jget r ''model'' = Some (case get_str request ''model'' of Some m \<Rightarrow> JString m | None \<Rightarrow> JString []) \<and>
    (\<forall>k \<in> {''instructions'', ''previous_response_id''}.
       jget r k = Some (case get_str request k of Some t \<Rightarrow> JString t | None \<Rightarrow> JNull)) \<and>
    (\<forall>k \<in> {''max_output_tokens'', ''max_tool_calls''}.
       jget r k = Some (case get_u64 request k of Some n \<Rightarrow> JNumber (PosInt n) | None \<Rightarrow> JNull)) \<and>
    (\<forall>k \<in> {''temperature'', ''top_p''}. jget r k = Some (number_field request k f64_one)) \<and>
    (\<forall>k \<in> {''presence_penalty'', ''frequency_penalty''}. jget r k = Some (number_field request k f64_zero)) \<and>
    (\<forall>k \<in> {''parallel_tool_calls'', ''store''}.
       jget r k = Some (JBool (case get_bool request k of Some b \<Rightarrow> b | None \<Rightarrow> True))) \<and>
    (\<forall>k \<in> {''input'', ''prompt_cache_key'', ''safety_identifier''}.
       jget r k = Some (case jget request k of Some v \<Rightarrow> v | None \<Rightarrow> JNull)) \<and>
    get_u64 r ''top_logprobs'' = Some (count_field (Some request) ''top_logprobs'') \<and>
    get_array r ''tools'' = Some (case get_array request ''tools'' of Some ts \<Rightarrow> ts | None \<Rightarrow> []) \<and>
    jget r ''tool_choice'' = Some (case jget request ''tool_choice'' of Some v \<Rightarrow> v | None \<Rightarrow> JString ''auto'') \<and>
    jget r ''text'' = Some (case jget request ''text'' of Some v \<Rightarrow> v | None \<Rightarrow> default_text_config) \<and>
    jget r ''metadata'' = Some (case jget request ''metadata'' of Some (JObject m) \<Rightarrow> JObject m | _ \<Rightarrow> jobj []) \<and>
    jget r ''service_tier'' = Some (case (map_of obj ''service_tier'', jget request ''service_tier'') of
      (Some v, _) \<Rightarrow> v | (None, Some v) \<Rightarrow> v | (None, None) \<Rightarrow> JString ''default'') \<and>
    get_array r ''output'' = Some (build_output_items obj (from_responses_request request rid created)
      (if finish \<in> {Some ''length'', Some ''content_filter''} then ''incomplete'' else ''completed'')) \<and>
    get_str r ''status'' = Some (if finish \<in> {Some ''length'', Some ''content_filter''} then ''incomplete'' else ''completed'') \<and>
    jget r ''incomplete_details'' = Some
      (if finish = Some ''length'' then jobj [(''reason'', JString ''max_output_tokens'')]
       else if finish = Some ''content_filter'' then jobj [(''reason'', JString ''content_filter'')] else JNull) \<and>
    (\<exists>counts. jget r ''usage'' = Some counts \<and>
       get_u64 counts ''input_tokens'' = Some (count_field usage ''prompt_tokens'') \<and>
       get_u64 counts ''output_tokens'' = Some (count_field usage ''completion_tokens'') \<and>
       get_u64 counts ''total_tokens'' = Some (count_field usage ''total_tokens''))"
proof -
  let ?c = "from_responses_request request rid created"
  let ?parts = "\<lparr>rp_status = response_status finish, rp_incomplete_details = incomplete_details finish,
       rp_output = build_output_items obj ?c (response_status finish), rp_usage = chat_build_usage obj,
       rp_service_tier = service_tier_value_with_context obj ?c\<rparr>"
  have r: "r = response_resource ?c ?parts"
    using assms by (simp add: chat_response_to_response_resource_def finish_reason_of_def Let_def)
  have "rp_status ?parts \<noteq> ''in_progress''" by (simp add: response_status_def)
  note echo = resource_echo(1,2) [of request rid created ?parts] resource_echo(3) [of ?parts request rid created, OF this]
    resource_echo(4-) [of request rid created ?parts]
  have tier: "service_tier_value_with_context obj ?c = (case (map_of obj ''service_tier'', jget request ''service_tier'') of
      (Some v, _) \<Rightarrow> v | (None, Some v) \<Rightarrow> v | (None, None) \<Rightarrow> JString ''default'')"
    by (simp add: service_tier_value_with_context_def from_responses_request_def unwrap_or_def split: option.split)
  have status: "response_status finish =
      (if finish \<in> {Some ''length'', Some ''content_filter''} then ''incomplete'' else ''completed'')"
    by (simp add: response_status_def)
  note answer = resource_answer [of ?c ?parts, folded r,
      unfolded response_resource_parts.select_convs tier status incomplete_details_def]
  from echo [folded r] answer usage_counts [of obj, folded assms(3)] show ?thesis by blast
qed

lemma response_resource_fields_witness:
  "\<exists>r. chat_response_to_response_resource (JObject reply_obj)
      (from_responses_request (jobj [(''temperature'', JNumber f64_zero), (''store'', JBool False)]) ''r'' 7) = Inr r \<and>
     jget r ''temperature'' = Some (JNumber f64_zero) \<and> jget r ''top_p'' = Some (JNumber f64_one) \<and>
     jget r ''store'' = Some (JBool False) \<and> get_str r ''status'' = Some ''completed''"
proof -
  let ?request = "jobj [(''temperature'', JNumber f64_zero), (''store'', JBool False)]"
  obtain r where r: "chat_response_to_response_resource (JObject reply_obj) (from_responses_request ?request ''r'' 7) = Inr r"
    by (simp add: chat_response_to_response_resource_def Let_def)
  have "finish_reason_of reply_obj = None" by code_simp
  with response_resource_fields [OF r refl refl] r show ?thesis
    by (auto simp: number_field_def jget_jobj get_bool_def)
qed

text \<open>
  The parts of a resource agree: the status is \<open>completed\<close> or \<open>incomplete\<close>, details are given
  exactly for an incomplete response and name its reason, the completion time is never missing, and
  every output item carries the same status.
\<close>

theorem response_status_coherent:
  assumes "chat_response_to_response_resource response context = Inr r"
  shows "\<exists>st details. get_str r ''status'' = Some st \<and> jget r ''incomplete_details'' = Some details \<and>
    (st = ''completed'' \<and> details = JNull \<or>
     st = ''incomplete'' \<and> get_str details ''reason'' \<in> {Some ''max_output_tokens'', Some ''content_filter''}) \<and>
    get_u64 r ''completed_at'' = Some (unwrap_or (rc_created_at context) (rc_completed_at context)) \<and>
    (\<exists>items. get_array r ''output'' = Some items \<and> (\<forall>item \<in> set items. get_str item ''status'' = Some st))"
proof -
  from assms obtain obj fr where r: "r = response_resource context
      \<lparr>rp_status = response_status fr, rp_incomplete_details = incomplete_details fr,
       rp_output = build_output_items obj context (response_status fr), rp_usage = chat_build_usage obj,
       rp_service_tier = service_tier_value_with_context obj context\<rparr>"
    by (auto simp: chat_response_to_response_resource_def Let_def split: option.splits)
  have st: "response_status fr \<noteq> ''in_progress''" by (simp add: response_status_def)
  note get = r response_resource_def insert_request_resource_fields_def jobj_def map_of_fold_insert get_defs
  have "get_str r ''status'' = Some (response_status fr)" "jget r ''incomplete_details'' = Some (incomplete_details fr)"
    "get_array r ''output'' = Some (build_output_items obj context (response_status fr))"
    "get_u64 r ''completed_at'' = Some (unwrap_or (rc_created_at context) (rc_completed_at context))"
    by (simp_all add: get st completed_at_value_def ju64_def del: fold_simps fold.simps)
  moreover have "response_status fr = ''completed'' \<and> incomplete_details fr = JNull \<or>
     response_status fr = ''incomplete'' \<and>
       get_str (incomplete_details fr) ''reason'' \<in> {Some ''max_output_tokens'', Some ''content_filter''}"
    by (simp add: response_status_def incomplete_details_def get_str_def jget_jobj)
  moreover have "get_str item ''status'' = Some (response_status fr)"
    if "item \<in> set (build_output_items obj context (response_status fr))" for item
    using that by (auto simp: build_output_items_def append_message_output_def append_tool_call_outputs_def Let_def
        message_output_item_def function_call_output_item_def function_call_output_item_from_parts_def get_str_def jget_jobj
        split: option.splits if_splits)
  ultimately show ?thesis by blast
qed

lemma response_status_coherent_witness:
  "\<exists>r. chat_response_to_response_resource (JObject reply_obj) (from_responses_request JNull ''r'' 7) = Inr r \<and>
     get_u64 r ''completed_at'' = Some 7"
proof -
  obtain r where r: "chat_response_to_response_resource (JObject reply_obj) (from_responses_request JNull ''r'' 7) = Inr r"
    by (simp add: chat_response_to_response_resource_def Let_def)
  from response_status_coherent [OF r] r show ?thesis by (auto simp: from_responses_request_def)
qed

end
