(* ===== verification/Responses_State.thy ===== *)
theory Responses_State
  imports Filter_Ctx
begin

text \<open>
  The state of one Responses request (\<open>apis/src/openai/responses/state.rs\<close>): what the client
  sent, the history the backend is sent and the history that is stored.
\<close>

type_synonym u32 = "32 word"

record responses_state =
  st_context_management :: "json option"
  st_conversation :: "json option"
  st_include :: "str list"
  st_input :: "json list"
  st_iteration :: u32
  st_max_tool_calls :: "u32 option"
  st_messages :: "json list"
  st_output_items :: "json list"
  st_parallel_tool_calls :: bool
  st_persisted_messages :: "json list"
  st_previous_response_id :: "str option"
  st_previous_tools :: "json list"
  st_previous_usage :: "json option"
  st_request_body :: json
  st_response_object :: json
  st_tool_calls :: "json list"
  st_tool_choice :: json
  st_tools :: "json list"
  st_usage :: json

definition default_responses_state :: responses_state where
  "default_responses_state =
     \<lparr>st_context_management = None, st_conversation = None, st_include = [], st_input = [], st_iteration = 0,
      st_max_tool_calls = None, st_messages = [], st_output_items = [], st_parallel_tool_calls = True,
      st_persisted_messages = [], st_previous_response_id = None, st_previous_tools = [],
      st_previous_usage = None, st_request_body = JNull, st_response_object = JNull, st_tool_calls = [],
      st_tool_choice = JString ''auto'', st_tools = [], st_usage = JNull\<rparr>"

definition user_message_item :: "str \<Rightarrow> json" where
  "user_message_item text = jobj
     [(''type'', JString ''message''), (''role'', JString ''user''), (''content'', JString text)]"

definition normalize_input :: "json \<Rightarrow> json list" where
  "normalize_input body =
     (case jget body ''input'' of
        Some v \<Rightarrow> (case v of JArray arr \<Rightarrow> arr | JString s \<Rightarrow> [user_message_item s] | _ \<Rightarrow> [])
      | None \<Rightarrow> [])"

definition extract_array_field :: "json \<Rightarrow> str \<Rightarrow> json list" where
  "extract_array_field body field = unwrap_or [] (get_array body field)"

definition extract_string_array :: "json \<Rightarrow> str \<Rightarrow> str list" where
  "extract_string_array body field =
     unwrap_or [] (map_option (\<lambda>arr. List.map_filter as_str arr) (get_array body field))"

definition extract_u32 :: "json \<Rightarrow> str \<Rightarrow> u32 option" where
  "extract_u32 body field =
     (case get_u64 body field of
        None \<Rightarrow> None | Some v \<Rightarrow> if unat v < 2 ^ 32 then Some (ucast v) else None)"

definition extract_bool_or :: "json \<Rightarrow> str \<Rightarrow> bool \<Rightarrow> bool" where
  "extract_bool_or body field d = unwrap_or d (get_bool body field)"

definition from_request_body :: "json \<Rightarrow> responses_state" where
  "from_request_body body =
     (let messages = normalize_input body
      in default_responses_state
           \<lparr>st_context_management := jget body ''context_management'',
            st_conversation := jget body ''conversation'',
            st_include := extract_string_array body ''include'',
            st_input := messages,
            st_max_tool_calls := extract_u32 body ''max_tool_calls'',
            st_messages := messages,
            st_parallel_tool_calls := extract_bool_or body ''parallel_tool_calls'' True,
            st_persisted_messages := messages,
            st_previous_response_id := get_str body ''previous_response_id'',
            st_request_body := body,
            st_tool_choice := unwrap_or (JString ''auto'') (jget body ''tool_choice''),
            st_tools := extract_array_field body ''tools''\<rparr>)"

lemma from_request_body_histories [simp]:
  "st_messages (from_request_body body) = normalize_input body"
  "st_persisted_messages (from_request_body body) = normalize_input body"
  "st_input (from_request_body body) = normalize_input body"
  "st_request_body (from_request_body body) = body"
  by (simp_all add: from_request_body_def Let_def)

end
