(* ===== verification/Store.thy ===== *)
theory Store
  imports Filter_Ctx
begin

text \<open>
  What the filters keep between requests: the records of \<open>apis/src/store/types.rs\<close>, the
  statements on a table the backends use, and the \<open>ResponseStore\<close> trait of
  \<open>apis/src/store/trait_def.rs\<close> as an interface with the laws its clients rely on.
\<close>

section \<open>Records\<close>

text \<open>Times and positions are \<open>i64\<close>, read as integers.\<close>

record response_record =
  rr_id :: str
  rr_tenant_id :: str
  rr_created_at :: int
  rr_model :: str
  rr_response_object :: json
  rr_input :: json
  rr_messages :: json

record conversation_record =
  cr_conversation_id :: str
  cr_tenant_id :: str
  cr_created_at :: int
  cr_metadata :: json
  cr_messages :: json

record item_record =
  ir_item_id :: str
  ir_tenant_id :: str
  ir_conversation_id :: str
  ir_item_data :: json
  ir_created_at :: int
  ir_position :: int

datatype store_error = Database str | Invalid_input str | Serialization str | Unavailable str

definition store_error_text :: "store_error \<Rightarrow> str" where
  "store_error_text e =
     (case e of
        Database msg \<Rightarrow> ''database error: '' @ msg
      | Invalid_input msg \<Rightarrow> ''invalid input: '' @ msg
      | Serialization msg \<Rightarrow> ''serialization error: '' @ msg
      | Unavailable msg \<Rightarrow> ''store unavailable: '' @ msg)"

section \<open>JSON columns\<close>

text \<open>A JSON value is a text column, written by \<open>to_string\<close> and read by \<open>from_str\<close>.\<close>

definition to_column :: "externals \<Rightarrow> json \<Rightarrow> store_error + str" where
  "to_column ext v = (case to_text ext v of Inl e \<Rightarrow> Inl (Serialization e) | Inr s \<Rightarrow> Inr s)"

definition from_column :: "externals \<Rightarrow> str \<Rightarrow> store_error + json" where
  "from_column ext s = (case from_slice ext s of Inl e \<Rightarrow> Inl (Serialization e) | Inr v \<Rightarrow> Inr v)"

text \<open>A value that its text gives back.\<close>

definition json_kept :: "externals \<Rightarrow> json \<Rightarrow> bool" where
  "json_kept ext v = (case to_text ext v of Inl _ \<Rightarrow> False | Inr s \<Rightarrow> from_slice ext s = Inr v)"

lemma column_kept:
  "json_kept ext v \<Longrightarrow> to_column ext v = Inr s \<Longrightarrow> from_column ext s = Inr v"
  by (auto simp: json_kept_def to_column_def from_column_def split: sum.splits)

lemma to_column_kept: "json_kept ext v \<Longrightarrow> \<exists>s. to_column ext v = Inr s"
  by (auto simp: json_kept_def to_column_def split: sum.splits)

section \<open>Rows\<close>

text \<open>
  A table is the list of its rows. \<open>replace_row\<close> is \<open>INSERT OR REPLACE\<close>, \<open>merge_row\<close> is
  \<open>INSERT ... ON CONFLICT DO UPDATE\<close> with the given merge of the old row and the new one,
  \<open>insert_row\<close> is a plain \<open>INSERT\<close>, that a row with the same key makes fail.
\<close>

definition row_with :: "('r \<Rightarrow> 'k) \<Rightarrow> 'k \<Rightarrow> 'r list \<Rightarrow> 'r option" where
  "row_with key k rows = first_of (filter (\<lambda>r. key r = k) rows)"

definition delete_rows :: "('r \<Rightarrow> 'k) \<Rightarrow> 'k \<Rightarrow> 'r list \<Rightarrow> 'r list" where
  "delete_rows key k rows = filter (\<lambda>r. key r \<noteq> k) rows"

definition replace_row :: "('r \<Rightarrow> 'k) \<Rightarrow> 'r \<Rightarrow> 'r list \<Rightarrow> 'r list" where
  "replace_row key row rows = delete_rows key (key row) rows @ [row]"

definition update_rows :: "('r \<Rightarrow> 'k) \<Rightarrow> 'k \<Rightarrow> ('r \<Rightarrow> 'r) \<Rightarrow> 'r list \<Rightarrow> 'r list" where
  "update_rows key k f rows = map (\<lambda>r. if key r = k then f r else r) rows"

definition merge_row :: "('r \<Rightarrow> 'k) \<Rightarrow> ('r \<Rightarrow> 'r \<Rightarrow> 'r) \<Rightarrow> 'r \<Rightarrow> 'r list \<Rightarrow> 'r list" where
  "merge_row key merge row rows =
     (if row_with key (key row) rows = None then rows @ [row]
      else update_rows key (key row) (\<lambda>old. merge old row) rows)"

definition insert_row :: "('r \<Rightarrow> 'k) \<Rightarrow> 'r \<Rightarrow> 'r list \<Rightarrow> str + 'r list" where
  "insert_row key row rows =
     (if row_with key (key row) rows = None then Inr (rows @ [row]) else Inl ''UNIQUE constraint failed'')"

lemma first_of_append: "first_of (xs @ ys) = (case first_of xs of None \<Rightarrow> first_of ys | Some x \<Rightarrow> Some x)"
  by (cases xs) simp_all

lemma first_of_None: "first_of xs = None \<longleftrightarrow> xs = []"
  by (cases xs) simp_all

lemma row_with_simps [simp]:
  "row_with key k [] = None"
  "row_with key k (r # rows) = (if key r = k then Some r else row_with key k rows)"
  by (simp_all add: row_with_def)

lemma row_with_append:
  "row_with key k (xs @ ys) = (case row_with key k xs of None \<Rightarrow> row_with key k ys | Some x \<Rightarrow> Some x)"
  by (induction xs) simp_all

lemma row_with_None: "row_with key k rows = None \<longleftrightarrow> k \<notin> key ` set rows"
  by (induction rows) auto

lemma row_with_key: "row_with key k rows = Some r \<Longrightarrow> key r = k \<and> r \<in> set rows"
  by (induction rows) (auto split: if_splits)

lemma row_with_delete:
  "row_with key k (delete_rows key j rows) = (if k = j then None else row_with key k rows)"
  by (induction rows) (auto simp: delete_rows_def)

lemma row_with_replace:
  "row_with key k (replace_row key row rows) = (if k = key row then Some row else row_with key k rows)"
  by (auto simp: replace_row_def row_with_append row_with_delete split: option.split)

lemma row_with_update:
  assumes "\<And>r. key r = j \<Longrightarrow> key (f r) = j"
  shows "row_with key k (update_rows key j f rows) =
    (if k = j then map_option f (row_with key k rows) else row_with key k rows)"
  by (induction rows) (auto simp: update_rows_def assms)

lemma row_with_merge:
  assumes "\<And>old. key old = key row \<Longrightarrow> key (merge old row) = key row"
  shows "row_with key k (merge_row key merge row rows) =
    (if k = key row then Some (case row_with key k rows of None \<Rightarrow> row | Some old \<Rightarrow> merge old row)
     else row_with key k rows)"
  using row_with_update [of key "key row" "\<lambda>old. merge old row" k rows] assms
  by (auto simp: merge_row_def row_with_append split: option.split)

section \<open>Primary keys\<close>

lemma distinct_delete: "distinct (map key rows) \<Longrightarrow> distinct (map key (delete_rows key k rows))"
  by (simp add: delete_rows_def distinct_map_filter)

lemma distinct_replace: "distinct (map key rows) \<Longrightarrow> distinct (map key (replace_row key row rows))"
  by (simp add: replace_row_def distinct_delete) (auto simp: delete_rows_def)

lemma map_key_update: "(\<And>r. key r = k \<Longrightarrow> key (f r) = k) \<Longrightarrow> map key (update_rows key k f rows) = map key rows"
  by (simp add: update_rows_def)

lemma distinct_merge:
  assumes "distinct (map key rows)" and "\<And>old. key old = key row \<Longrightarrow> key (merge old row) = key row"
  shows "distinct (map key (merge_row key merge row rows))"
  using assms map_key_update [of key "key row" "\<lambda>old. merge old row" rows]
  by (auto simp: merge_row_def row_with_None)

lemma distinct_insert: "insert_row key row rows = Inr rows' \<Longrightarrow> distinct (map key rows) \<Longrightarrow> distinct (map key rows')"
  by (auto simp: insert_row_def row_with_None split: if_splits)

section \<open>The response store\<close>

text \<open>
  \<open>ok r\<close> means that the record survives storage. A record stored is the record found, a deleted
  record is found no more, deletion tells whether there was one, and neither operation touches
  the record of another tenant or of another id.
\<close>

datatype response_op = Upsert response_record | Delete str str

definition op_key :: "response_op \<Rightarrow> str \<times> str" where
  "op_key op = (case op of Upsert r \<Rightarrow> (rr_tenant_id r, rr_id r) | Delete t i \<Rightarrow> (t, i))"

locale response_store =
  fixes upsert :: "response_record \<Rightarrow> 's \<Rightarrow> store_error + 's"
    and get :: "str \<Rightarrow> str \<Rightarrow> 's \<Rightarrow> store_error + response_record option"
    and delete :: "str \<Rightarrow> str \<Rightarrow> 's \<Rightarrow> store_error + 's \<times> bool"
    and ok :: "response_record \<Rightarrow> bool"
  assumes get_upsert: "upsert r s = Inr s' \<Longrightarrow> ok r \<Longrightarrow> get (rr_tenant_id r) (rr_id r) s' = Inr (Some r)"
    and upsert_other: "upsert r s = Inr s' \<Longrightarrow> (t, i) \<noteq> (rr_tenant_id r, rr_id r) \<Longrightarrow> get t i s' = get t i s"
    and get_delete: "delete t i s = Inr (s', b) \<Longrightarrow> get t i s' = Inr None"
    and delete_other: "delete t i s = Inr (s', b) \<Longrightarrow> (t', i') \<noteq> (t, i) \<Longrightarrow> get t' i' s' = get t' i' s"
    and delete_found: "delete t i s = Inr (s', b) \<Longrightarrow> b \<longleftrightarrow> get t i s \<noteq> Inr None"
begin

text \<open>An operation that fails leaves the store as it was.\<close>

definition step :: "response_op \<Rightarrow> 's \<Rightarrow> 's" where
  "step op s =
     (case op of
        Upsert r \<Rightarrow> (case upsert r s of Inl _ \<Rightarrow> s | Inr s' \<Rightarrow> s')
      | Delete t i \<Rightarrow> (case delete t i s of Inl _ \<Rightarrow> s | Inr (s', _) \<Rightarrow> s'))"

lemma step_other: "op_key op \<noteq> (t, i) \<Longrightarrow> get t i (step op s) = get t i s"
  using upsert_other [of _ s _ t i] delete_other [of _ _ s _ _ t i]
  by (force simp: step_def op_key_def split: response_op.splits sum.splits)

lemma steps_other: "\<forall>op \<in> set ops. op_key op \<noteq> (t, i) \<Longrightarrow> get t i (fold step ops s) = get t i s"
  by (induction ops arbitrary: s) (auto simp: step_other)

lemma kept_until_touched:
  assumes "upsert r s = Inr s'" and "ok r"
    and "\<forall>op \<in> set ops. op_key op \<noteq> (rr_tenant_id r, rr_id r)"
  shows "get (rr_tenant_id r) (rr_id r) (fold step ops s') = Inr (Some r)"
  using assms by (simp add: steps_other get_upsert)

lemma gone_until_stored:
  assumes "delete t i s = Inr (s', b)" and "\<forall>op \<in> set ops. op_key op \<noteq> (t, i)"
  shows "get t i (fold step ops s') = Inr None"
  using assms by (simp add: steps_other get_delete)

end

end
