(* ===== verification/Store_Schema.thy ===== *)
theory Store_Schema
  imports Store
begin

text \<open>
  The tables of a store (\<open>apis/src/store/schemas.rs\<close>): their names, which go into the text of
  every statement unquoted and are therefore checked, and the statements that create them.
\<close>

record table_names =
  tn_responses :: str
  tn_conversations :: str
  tn_items :: "str option"

definition ascii_alphabetic :: "char \<Rightarrow> bool" where
  "ascii_alphabetic c \<longleftrightarrow> (65 \<le> byte c \<and> byte c \<le> 90) \<or> (97 \<le> byte c \<and> byte c \<le> 122)"

definition ascii_digit :: "char \<Rightarrow> bool" where
  "ascii_digit c \<longleftrightarrow> 48 \<le> byte c \<and> byte c \<le> 57"

definition identifier_char :: "char \<Rightarrow> bool" where
  "identifier_char c \<longleftrightarrow> ascii_alphabetic c \<or> ascii_digit c \<or> c = CHR ''_''"

definition MAX_IDENTIFIER_LEN :: nat where "MAX_IDENTIFIER_LEN = 128"
definition POSTGRES_MAX_IDENTIFIER_LEN :: nat where "POSTGRES_MAX_IDENTIFIER_LEN = 63"
definition POSTGRES_MAX_CONVERSATION_TABLE_LEN :: nat where
  "POSTGRES_MAX_CONVERSATION_TABLE_LEN = POSTGRES_MAX_IDENTIFIER_LEN - 14"
definition POSTGRES_MAX_ITEMS_TABLE_LEN :: nat where
  "POSTGRES_MAX_ITEMS_TABLE_LEN = POSTGRES_MAX_IDENTIFIER_LEN - 17"

section \<open>Checks\<close>

definition validate_identifier :: "str \<Rightarrow> store_error + unit" where
  "validate_identifier name =
     (if name = [] then Inl (Database ''table name must not be empty'')
      else if length name > MAX_IDENTIFIER_LEN then
        Inl (Database (''table name exceeds '' @ show_nat MAX_IDENTIFIER_LEN @ '' characters: '' @ name))
      else if \<not> (ascii_alphabetic (hd name) \<or> hd name = CHR ''_'') then
        Inl (Database (''table name must start with a letter or underscore: '' @ name))
      else if \<not> list_all identifier_char name then
        Inl (Database (''table name contains invalid characters: '' @ name))
      else Inr ())"

definition validate_table_names :: "table_names \<Rightarrow> store_error + str \<times> str" where
  "validate_table_names tables =
     (let r = tn_responses tables; c = tn_conversations tables
      in and_then (validate_identifier r) (\<lambda>_. and_then (validate_identifier c) (\<lambda>_.
           if eq_ignore_ascii_case r c then
             Inl (Database (''response and conversation table names must be distinct: '' @ r))
           else Inr (r, c))))"

definition validate_items_table :: "str \<Rightarrow> str \<Rightarrow> str \<Rightarrow> store_error + str" where
  "validate_items_table items responses conversations =
     and_then (validate_identifier items) (\<lambda>_.
       if eq_ignore_ascii_case items responses then
         Inl (Database (''items and response table names must be distinct: '' @ items))
       else if eq_ignore_ascii_case items conversations then
         Inl (Database (''items and conversation table names must be distinct: '' @ items))
       else Inr items)"

definition validate_postgres_identifier_len :: "str \<Rightarrow> str \<Rightarrow> nat \<Rightarrow> store_error + unit" where
  "validate_postgres_identifier_len kind name max_len =
     (if length name > max_len then
        Inl (Database (kind @ '' exceeds PostgreSQL identifier limit of '' @ show_nat max_len @ '' bytes: '' @ name))
      else Inr ())"

definition validate_postgres_identifiers :: "table_names \<Rightarrow> store_error + unit" where
  "validate_postgres_identifiers tables =
     and_then (validate_table_names tables) (\<lambda>(r, c).
     and_then (validate_postgres_identifier_len ''response table name'' r POSTGRES_MAX_IDENTIFIER_LEN) (\<lambda>_.
     and_then (validate_postgres_identifier_len ''conversation table name'' c
                 POSTGRES_MAX_CONVERSATION_TABLE_LEN) (\<lambda>_.
       case tn_items tables of
         None \<Rightarrow> Inr ()
       | Some items \<Rightarrow>
           and_then (validate_items_table items r c)
             (\<lambda>i. validate_postgres_identifier_len ''items table name'' i POSTGRES_MAX_ITEMS_TABLE_LEN))))"

definition validate_postgres_table_set_identifiers :: "str \<Rightarrow> str \<Rightarrow> str option \<Rightarrow> store_error + unit" where
  "validate_postgres_table_set_identifiers r c i =
     validate_postgres_identifiers \<lparr>tn_responses = r, tn_conversations = c, tn_items = i\<rparr>"

definition validate_postgres_table_identifiers :: "str \<Rightarrow> str \<Rightarrow> store_error + unit" where
  "validate_postgres_table_identifiers r c = validate_postgres_table_set_identifiers r c None"

section \<open>Statements\<close>

text \<open>The text of a table definition: its columns and its key on lines of their own.\<close>

definition table_ddl :: "str \<Rightarrow> str list \<Rightarrow> nat \<Rightarrow> str" where
  "table_ddl name columns closing =
     ''CREATE TABLE IF NOT EXISTS '' @ name @ '' ('' @
     concat (map (\<lambda>c. [LF] @ replicate (closing + 4) SP @ c) columns) @ [LF] @ replicate closing SP @ '')''"

definition responses_ddl :: "str \<Rightarrow> str" where
  "responses_ddl r = table_ddl r
     [''tenant_id       TEXT NOT NULL,'', ''id              TEXT NOT NULL,'',
      ''created_at      BIGINT NOT NULL,'', ''model           TEXT NOT NULL,'',
      ''response_object TEXT NOT NULL,'', ''input           TEXT NOT NULL,'',
      ''messages        TEXT NOT NULL,'', ''PRIMARY KEY (tenant_id, id)''] 8"

definition conversations_ddl :: "str \<Rightarrow> str" where
  "conversations_ddl c = table_ddl c
     [''conversation_id TEXT NOT NULL,'', ''tenant_id       TEXT NOT NULL,'',
      ''created_at      BIGINT NOT NULL,'', ''metadata        TEXT NOT NULL,'',
      ''messages        TEXT NOT NULL,'', ''PRIMARY KEY (conversation_id, tenant_id)''] 8"

definition items_ddl :: "str \<Rightarrow> str list" where
  "items_ddl i =
     [table_ddl i
        [''item_id           TEXT NOT NULL,'', ''tenant_id         TEXT NOT NULL,'',
         ''conversation_id   TEXT NOT NULL,'', ''item_data         TEXT NOT NULL,'',
         ''created_at        BIGINT NOT NULL,'', ''position          BIGINT NOT NULL,'',
         ''PRIMARY KEY (item_id, tenant_id, conversation_id)''] 8,
      ''CREATE INDEX IF NOT EXISTS idx_'' @ i @ ''_conversation ON '' @ i @
        ''(conversation_id, tenant_id, position, item_id)'']"

definition generate_ddl :: "table_names \<Rightarrow> store_error + str list" where
  "generate_ddl tables =
     and_then (validate_table_names tables) (\<lambda>(r, c).
       let stmts = [responses_ddl r, conversations_ddl c,
                    ''CREATE INDEX IF NOT EXISTS idx_'' @ c @ ''_tenant_id ON '' @ c @ ''(tenant_id)'']
       in case tn_items tables of
            None \<Rightarrow> Inr stmts
          | Some items \<Rightarrow> and_then (validate_items_table items r c) (\<lambda>i. Inr (stmts @ items_ddl i)))"

section \<open>What a checked name is\<close>

definition safe_identifier :: "str \<Rightarrow> bool" where
  "safe_identifier name \<longleftrightarrow> name \<noteq> [] \<and> length name \<le> MAX_IDENTIFIER_LEN \<and>
     \<not> ascii_digit (hd name) \<and> list_all identifier_char name"

lemma validate_identifier_iff: "validate_identifier name = Inr () \<longleftrightarrow> safe_identifier name"
proof (cases name)
  case Nil
  then show ?thesis by (simp add: validate_identifier_def safe_identifier_def)
next
  case (Cons c cs)
  have "(ascii_alphabetic c \<or> c = CHR ''_'') \<longleftrightarrow> \<not> ascii_digit c" if "identifier_char c"
  proof -
    have "\<not> ascii_digit (CHR ''_'')" by code_simp
    with that show ?thesis
      by (auto simp: identifier_char_def ascii_alphabetic_def ascii_digit_def)
  qed
  with Cons show ?thesis
    by (auto simp: validate_identifier_def safe_identifier_def)
qed

text \<open>The index names too stay within the limit PostgreSQL truncates at.\<close>

lemma postgres_identifiers_fit:
  assumes "validate_postgres_identifiers tables = Inr ()"
  shows "safe_identifier (tn_responses tables)" "safe_identifier (tn_conversations tables)"
    "\<not> eq_ignore_ascii_case (tn_responses tables) (tn_conversations tables)"
    "length (tn_responses tables) \<le> 63"
    "length (''idx_'' @ tn_conversations tables @ ''_tenant_id'') \<le> 63"
    "tn_items tables = Some i \<Longrightarrow> length (''idx_'' @ i @ ''_conversation'') \<le> 63"
  using assms
  by (auto simp: validate_postgres_identifiers_def validate_table_names_def validate_items_table_def
      validate_postgres_identifier_len_def and_then_Inr_iff Let_def validate_identifier_iff [symmetric]
      POSTGRES_MAX_IDENTIFIER_LEN_def POSTGRES_MAX_CONVERSATION_TABLE_LEN_def POSTGRES_MAX_ITEMS_TABLE_LEN_def
      split: if_splits option.splits)

end
