(* ===== verification/Sql.thy ===== *)
theory Sql
  imports Store_Schema "HOL-Library.Product_Lexorder" "HOL-Library.List_Lexorder" "HOL-Library.Char_ord"
begin

text \<open>
  The part of SQL the store uses: statements with numbered parameters, the text of a statement in
  the two dialects, and what a statement does to tables whose rows are maps from columns to
  values. The database and the driver are not code of the repository; this is what is taken of
  them.
\<close>

datatype storage_backend = Sqlite | Postgres

section \<open>Statements\<close>

datatype sql_value = Int_value int | Text_value str | Texts_value "str list"

type_synonym sql_row = "str \<rightharpoonup> sql_value"

text \<open>
  Conditions on a row; a number stands for a parameter, counted from 1. \<open>Beyond c True k\<close> is
  \<open>c > ?\<close>, \<open>Beyond c False k\<close> is \<open>c < ?\<close>.
\<close>

datatype sql_cond =
    Equals str nat
  | Beyond str bool nat
  | One_of str "nat list"
  | Any_of str nat
  | Both sql_cond sql_cond
  | Either sql_cond sql_cond

datatype sql_conflict = Abort_insert | Replace_row | Update_columns "str list" "str list"

datatype sql_selection = Columns "str list" | Greatest_or_zero str str

datatype sql_stmt =
    Insert_into str "str list" sql_conflict
  | Select_from sql_selection str sql_cond "(str list \<times> bool) option" "nat option"
  | Update_set str str nat sql_cond
  | Delete_from str sql_cond

section \<open>The text of a statement\<close>

definition placeholder :: "storage_backend \<Rightarrow> nat \<Rightarrow> str" where
  "placeholder d k = (case d of Sqlite \<Rightarrow> ''?'' | Postgres \<Rightarrow> ''$'' @ show_nat k)"

definition comma_list :: "str list \<Rightarrow> str" where
  "comma_list cols = str_join '', '' cols"

fun cond_text :: "storage_backend \<Rightarrow> sql_cond \<Rightarrow> str" where
  "cond_text d (Equals c k) = c @ '' = '' @ placeholder d k"
| "cond_text d (Beyond c up k) = c @ (if up then '' > '' else '' < '') @ placeholder d k"
| "cond_text d (One_of c ks) = c @ '' IN ('' @ comma_list (map (placeholder d) ks) @ '')''"
| "cond_text d (Any_of c k) = c @ '' = ANY('' @ placeholder d k @ '')''"
| "cond_text d (Both a b) = cond_text d a @ '' AND '' @ cond_text d b"
| "cond_text d (Either a b) = ''('' @ cond_text d a @ '' OR ('' @ cond_text d b @ ''))''"

definition where_text :: "storage_backend \<Rightarrow> sql_cond \<Rightarrow> str" where
  "where_text d c = '' WHERE '' @ cond_text d c"

fun conflict_text :: "storage_backend \<Rightarrow> sql_conflict \<Rightarrow> str" where
  "conflict_text d (Update_columns ks cs) =
     (case d of
        Sqlite \<Rightarrow> '' ON CONFLICT('' @ comma_list ks @ '') DO UPDATE SET '' @
          comma_list (map (\<lambda>c. c @ '' = excluded.'' @ c) cs)
      | Postgres \<Rightarrow> '' ON CONFLICT ('' @ comma_list ks @ '') DO UPDATE SET '' @
          comma_list (map (\<lambda>c. c @ '' = EXCLUDED.'' @ c) cs))"
| "conflict_text d c = []"

fun selection_text :: "sql_selection \<Rightarrow> str" where
  "selection_text (Columns cs) = comma_list cs"
| "selection_text (Greatest_or_zero c name) = ''COALESCE(MAX('' @ c @ ''), 0) AS '' @ name"

definition order_text :: "(str list \<times> bool) option \<Rightarrow> str" where
  "order_text ord =
     (case ord of
        None \<Rightarrow> []
      | Some (cs, up) \<Rightarrow> '' ORDER BY '' @ comma_list (map (\<lambda>c. c @ (if up then '' ASC'' else '' DESC'')) cs))"

definition limit_text :: "storage_backend \<Rightarrow> nat option \<Rightarrow> str" where
  "limit_text d l = (case l of None \<Rightarrow> [] | Some k \<Rightarrow> '' LIMIT '' @ placeholder d k)"

fun stmt_text :: "storage_backend \<Rightarrow> sql_stmt \<Rightarrow> str" where
  "stmt_text d (Insert_into t cs conflict) =
     (if conflict = Replace_row then ''INSERT OR REPLACE INTO '' else ''INSERT INTO '') @ t @ '' ('' @ comma_list cs @
     '') VALUES ('' @ comma_list (map (placeholder d) [1..<length cs + 1]) @ '')'' @ conflict_text d conflict"
| "stmt_text d (Select_from sel t c ord l) =
     ''SELECT '' @ selection_text sel @ '' FROM '' @ t @ where_text d c @ order_text ord @ limit_text d l"
| "stmt_text d (Update_set t col k c) = ''UPDATE '' @ t @ '' SET '' @ col @ '' = '' @ placeholder d k @ where_text d c"
| "stmt_text d (Delete_from t c) = ''DELETE FROM '' @ t @ where_text d c"

text \<open>
  The parameters in the order of the text. SQLite's \<open>?\<close> has no number, so that a statement means
  the same in both dialects when they come in order.
\<close>

fun cond_params :: "sql_cond \<Rightarrow> nat list" where
  "cond_params (Equals c k) = [k]"
| "cond_params (Beyond c up k) = [k]"
| "cond_params (One_of c ks) = ks"
| "cond_params (Any_of c k) = [k]"
| "cond_params (Both a b) = cond_params a @ cond_params b"
| "cond_params (Either a b) = cond_params a @ cond_params b"

fun stmt_params :: "sql_stmt \<Rightarrow> nat list" where
  "stmt_params (Insert_into t cs conflict) = [1..<length cs + 1]"
| "stmt_params (Select_from sel t c ord l) = cond_params c @ (case l of None \<Rightarrow> [] | Some k \<Rightarrow> [k])"
| "stmt_params (Update_set t col k c) = k # cond_params c"
| "stmt_params (Delete_from t c) = cond_params c"

definition in_order :: "sql_stmt \<Rightarrow> bool" where
  "in_order s \<longleftrightarrow> stmt_params s = [1..<length (stmt_params s) + 1]"

section \<open>What a statement does\<close>

text \<open>A table has the columns of its key and its rows.\<close>

record sql_db =
  sq_fault :: "str option"
  sq_collation :: "str \<Rightarrow> str"
  sq_tables :: "(str \<times> str list \<times> sql_row list) list"

datatype sql_reply = Affected nat | Found "sql_row list"

definition param :: "sql_value list \<Rightarrow> nat \<Rightarrow> sql_value option" where
  "param binds k = (if k = 0 then None else get_at binds (k - 1))"

definition value_rank :: "(str \<Rightarrow> str) \<Rightarrow> sql_value option \<Rightarrow> int \<times> str" where
  "value_rank coll v = (case v of Some (Int_value i) \<Rightarrow> (i, []) | Some (Text_value s) \<Rightarrow> (0, coll s) | _ \<Rightarrow> (0, []))"

fun holds :: "(str \<Rightarrow> str) \<Rightarrow> sql_value list \<Rightarrow> sql_cond \<Rightarrow> sql_row \<Rightarrow> bool" where
  "holds coll binds (Equals c k) row \<longleftrightarrow> row c \<noteq> None \<and> row c = param binds k"
| "holds coll binds (Beyond c up k) row \<longleftrightarrow>
     (if up then value_rank coll (row c) > value_rank coll (param binds k)
      else value_rank coll (row c) < value_rank coll (param binds k))"
| "holds coll binds (One_of c ks) row \<longleftrightarrow> row c \<noteq> None \<and> row c \<in> param binds ` set ks"
| "holds coll binds (Any_of c k) row \<longleftrightarrow>
     (case (row c, param binds k) of (Some (Text_value s), Some (Texts_value ss)) \<Rightarrow> s \<in> set ss | _ \<Rightarrow> False)"
| "holds coll binds (Both a b) row \<longleftrightarrow> holds coll binds a row \<and> holds coll binds b row"
| "holds coll binds (Either a b) row \<longleftrightarrow> holds coll binds a row \<or> holds coll binds b row"

definition key_of :: "str list \<Rightarrow> sql_row \<Rightarrow> sql_value option list" where
  "key_of ks row = map row ks"

fun insert_conflicting :: "str list \<Rightarrow> sql_conflict \<Rightarrow> sql_row \<Rightarrow> sql_row list \<Rightarrow> str + sql_row list" where
  "insert_conflicting pk Abort_insert row rows = insert_row (key_of pk) row rows"
| "insert_conflicting pk Replace_row row rows = Inr (replace_row (key_of pk) row rows)"
| "insert_conflicting pk (Update_columns ks cs) row rows =
     Inr (merge_row (key_of ks) (\<lambda>old excluded. old ++ (excluded |` set cs)) row rows)"

definition ordered :: "(str \<Rightarrow> str) \<Rightarrow> (str list \<times> bool) option \<Rightarrow> sql_row list \<Rightarrow> sql_row list" where
  "ordered coll ord rows =
     (case ord of
        None \<Rightarrow> rows
      | Some (cs, up) \<Rightarrow>
          let asc = sort_key (\<lambda>row. map (\<lambda>c. value_rank coll (row c)) cs) rows in if up then asc else rev asc)"

definition limited :: "sql_value list \<Rightarrow> nat option \<Rightarrow> sql_row list \<Rightarrow> sql_row list" where
  "limited binds l rows =
     (case l of
        None \<Rightarrow> rows
      | Some k \<Rightarrow> (case param binds k of Some (Int_value n) \<Rightarrow> take (nat n) rows | _ \<Rightarrow> rows))"

definition int_column :: "str \<Rightarrow> sql_row \<Rightarrow> int" where
  "int_column c row = (case row c of Some (Int_value i) \<Rightarrow> i | _ \<Rightarrow> 0)"

fun selected :: "sql_selection \<Rightarrow> sql_row list \<Rightarrow> sql_row list" where
  "selected (Columns cs) rows = map (\<lambda>row. row |` set cs) rows"
| "selected (Greatest_or_zero c name) rows =
     [[name \<mapsto> Int_value (case map (int_column c) rows of [] \<Rightarrow> 0 | i # is \<Rightarrow> fold max is i)]]"

definition set_rows :: "str \<Rightarrow> sql_row list \<Rightarrow> sql_db \<Rightarrow> sql_db" where
  "set_rows t rows db =
     db\<lparr>sq_tables := map (\<lambda>(n, pk, old). (n, pk, if n = t then rows else old)) (sq_tables db)\<rparr>"

definition on_table ::
  "sql_db \<Rightarrow> str \<Rightarrow> (str list \<Rightarrow> sql_row list \<Rightarrow> str + sql_row list \<times> sql_reply) \<Rightarrow> str + sql_db \<times> sql_reply" where
  "on_table db t f =
     (case sq_fault db of
        Some e \<Rightarrow> Inl e
      | None \<Rightarrow>
          (case map_of (sq_tables db) t of
             None \<Rightarrow> Inl (''no such table: '' @ t)
           | Some (pk, rows) \<Rightarrow> map_sum id (\<lambda>(rows', reply). (set_rows t rows' db, reply)) (f pk rows)))"

fun exec_stmt :: "sql_stmt \<Rightarrow> sql_value list \<Rightarrow> sql_db \<Rightarrow> str + sql_db \<times> sql_reply" where
  "exec_stmt (Insert_into t cs conflict) binds db =
     on_table db t (\<lambda>pk rows.
       map_sum id (\<lambda>rows'. (rows', Affected 1)) (insert_conflicting pk conflict (map_of (zip cs binds)) rows))"
| "exec_stmt (Select_from sel t c ord l) binds db =
     on_table db t (\<lambda>pk rows.
       Inr (rows, Found (selected sel (limited binds l
         (ordered (sq_collation db) ord (filter (holds (sq_collation db) binds c) rows))))))"
| "exec_stmt (Update_set t col k c) binds db =
     on_table db t (\<lambda>pk rows.
       let hit = holds (sq_collation db) binds c
       in Inr (map (\<lambda>row. if hit row then row(col := param binds k) else row) rows,
               Affected (length (filter hit rows))))"
| "exec_stmt (Delete_from t c) binds db =
     on_table db t (\<lambda>pk rows.
       let rest = filter (\<lambda>row. \<not> holds (sq_collation db) binds c row) rows
       in Inr (rest, Affected (length rows - length rest)))"

section \<open>The driver\<close>

text \<open>
  The functions of the driver: running a text with the values bound to it, opening and committing
  a transaction, and the text of its errors about a column that is missing or of another type and
  about a missing row.
\<close>

record sql_engine =
  run_sql :: "str \<Rightarrow> sql_value list \<Rightarrow> sql_db \<Rightarrow> str + sql_db \<times> sql_reply"
  begin_tx :: "sql_db \<Rightarrow> str + sql_db"
  commit_tx :: "sql_db \<Rightarrow> str + sql_db"
  column_error :: "str \<Rightarrow> str"
  no_row_error :: str

text \<open>The driver runs the given statements by their meaning, and a transaction sees what it wrote.\<close>

definition live_db :: "sql_db \<Rightarrow> str + sql_db" where
  "live_db db = (case sq_fault db of Some e \<Rightarrow> Inl e | None \<Rightarrow> Inr db)"

definition runs_by_meaning :: "storage_backend \<Rightarrow> sql_engine \<Rightarrow> sql_stmt list \<Rightarrow> bool" where
  "runs_by_meaning d e ss \<longleftrightarrow>
     begin_tx e = live_db \<and> commit_tx e = live_db \<and>
     (\<forall>s \<in> set ss. in_order s \<longrightarrow> run_sql e (stmt_text d s) = exec_stmt s)"

lemma runs_by_meaningD:
  "runs_by_meaning d e ss \<Longrightarrow> s \<in> set ss \<Longrightarrow> in_order s \<Longrightarrow> text = stmt_text d s \<Longrightarrow> run_sql e text = exec_stmt s"
  by (simp add: runs_by_meaning_def)

lemma in_order_insert: "in_order (Insert_into t cs conflict)"
  by (simp add: in_order_def del: upt_Suc)

end
