(* ===== verification/Store_Backends.thy ===== *)
theory Store_Backends
  imports Sql
begin

text \<open>
  The two backends of the store, \<open>apis/src/store/sqlite.rs\<close> and \<open>postgres.rs\<close>: each operation is
  the statement it sends, on tables held as lists of rows. The database server and the driver are
  not code of the repository; what the model takes of them is the meaning of the statements, and
  \<open>db_fault\<close>, the error every statement gives while the connection is down, and \<open>db_collation\<close>,
  the sort key of a text (the text itself for SQLite). Both satisfy the
  interface \<open>response_store\<close>.
\<close>

section \<open>Rows and tables\<close>

record response_row =
  row_id :: str
  row_tenant_id :: str
  row_created_at :: int
  row_model :: str
  row_response_object :: str
  row_input :: str
  row_messages :: str

record conversation_row =
  crow_conversation_id :: str
  crow_tenant_id :: str
  crow_created_at :: int
  crow_metadata :: str
  crow_messages :: str

record item_row =
  irow_item_id :: str
  irow_tenant_id :: str
  irow_conversation_id :: str
  irow_item_data :: str
  irow_created_at :: int
  irow_position :: int

record store_db =
  db_backend :: storage_backend
  db_tables :: table_names
  db_fault :: "str option"
  db_collation :: "str \<Rightarrow> str"
  db_responses :: "response_row list"
  db_conversations :: "conversation_row list"
  db_items :: "item_row list"

text \<open>The primary keys of the three tables.\<close>

definition response_key :: "response_row \<Rightarrow> str \<times> str" where
  "response_key r = (row_tenant_id r, row_id r)"

definition conversation_key :: "conversation_row \<Rightarrow> str \<times> str" where
  "conversation_key r = (crow_tenant_id r, crow_conversation_id r)"

definition item_key :: "item_row \<Rightarrow> str \<times> str \<times> str" where
  "item_key r = (irow_tenant_id r, irow_conversation_id r, irow_item_id r)"

text \<open>Sending a statement: it fails while the connection is down.\<close>

definition execute :: "store_db \<Rightarrow> 'a \<Rightarrow> store_error + 'a" where
  "execute db x = (case db_fault db of Some e \<Rightarrow> Inl (Database e) | None \<Rightarrow> Inr x)"

lemma execute_Inr: "execute db x = Inr y \<longleftrightarrow> db_fault db = None \<and> y = x"
  by (auto simp: execute_def split: option.split)

text \<open>\<open>Option<Result<T, E>>::transpose\<close>.\<close>

definition transpose_opt :: "('e + 'a) option \<Rightarrow> 'e + 'a option" where
  "transpose_opt x = (case x of None \<Rightarrow> Inr None | Some r \<Rightarrow> map_sum id Some r)"

lemma transpose_opt_simps [simp]:
  "transpose_opt None = Inr None" "transpose_opt (Some (Inr x)) = Inr (Some x)" "transpose_opt (Some (Inl e)) = Inl e"
  by (simp_all add: transpose_opt_def)

lemma transpose_opt_None: "transpose_opt (map_option f x) = Inr None \<longleftrightarrow> x = None"
  by (cases x; cases "f (the x)") (auto simp: transpose_opt_def)

section \<open>Responses\<close>

definition response_to_row :: "externals \<Rightarrow> response_record \<Rightarrow> store_error + response_row" where
  "response_to_row ext r =
     and_then (to_column ext (rr_response_object r)) (\<lambda>object.
     and_then (to_column ext (rr_input r)) (\<lambda>input.
     and_then (to_column ext (rr_messages r)) (\<lambda>messages.
       Inr \<lparr>row_id = rr_id r, row_tenant_id = rr_tenant_id r, row_created_at = rr_created_at r,
            row_model = rr_model r, row_response_object = object, row_input = input, row_messages = messages\<rparr>)))"

definition row_to_response_record :: "externals \<Rightarrow> response_row \<Rightarrow> store_error + response_record" where
  "row_to_response_record ext row =
     and_then (from_column ext (row_response_object row)) (\<lambda>object.
     and_then (from_column ext (row_input row)) (\<lambda>input.
     and_then (from_column ext (row_messages row)) (\<lambda>messages.
       Inr \<lparr>rr_id = row_id row, rr_tenant_id = row_tenant_id row, rr_created_at = row_created_at row,
            rr_model = row_model row, rr_response_object = object, rr_input = input, rr_messages = messages\<rparr>)))"

definition sqlite_upsert_response :: "externals \<Rightarrow> response_record \<Rightarrow> store_db \<Rightarrow> store_error + store_db" where
  "sqlite_upsert_response ext r db =
     and_then (response_to_row ext r) (\<lambda>row.
       execute db (db\<lparr>db_responses := replace_row response_key row (db_responses db)\<rparr>))"

text \<open>The columns \<open>DO UPDATE SET\<close> takes from the new row.\<close>

definition merge_response_row :: "response_row \<Rightarrow> response_row \<Rightarrow> response_row" where
  "merge_response_row old excluded =
     old\<lparr>row_created_at := row_created_at excluded, row_model := row_model excluded,
         row_response_object := row_response_object excluded, row_input := row_input excluded,
         row_messages := row_messages excluded\<rparr>"

definition postgres_upsert_response :: "externals \<Rightarrow> response_record \<Rightarrow> store_db \<Rightarrow> store_error + store_db" where
  "postgres_upsert_response ext r db =
     and_then (response_to_row ext r) (\<lambda>row.
       execute db (db\<lparr>db_responses := merge_row response_key merge_response_row row (db_responses db)\<rparr>))"

definition get_response :: "externals \<Rightarrow> str \<Rightarrow> str \<Rightarrow> store_db \<Rightarrow> store_error + response_record option" where
  "get_response ext tenant_id id' db =
     and_then (execute db (row_with response_key (tenant_id, id') (db_responses db)))
       (\<lambda>row. transpose_opt (map_option (row_to_response_record ext) row))"

definition delete_response :: "str \<Rightarrow> str \<Rightarrow> store_db \<Rightarrow> store_error + store_db \<times> bool" where
  "delete_response tenant_id id' db =
     (let rest = delete_rows response_key (tenant_id, id') (db_responses db);
          rows_affected = length (db_responses db) - length rest
      in execute db (db\<lparr>db_responses := rest\<rparr>, rows_affected > 0))"

section \<open>The laws of the store\<close>

definition response_kept :: "externals \<Rightarrow> response_record \<Rightarrow> bool" where
  "response_kept ext r \<longleftrightarrow>
     json_kept ext (rr_response_object r) \<and> json_kept ext (rr_input r) \<and> json_kept ext (rr_messages r)"

lemma response_row_kept:
  assumes "response_kept ext r" and "response_to_row ext r = Inr row"
  shows "row_to_response_record ext row = Inr r"
proof -
  from assms(2) obtain a b c where
    cols: "to_column ext (rr_response_object r) = Inr a" "to_column ext (rr_input r) = Inr b"
      "to_column ext (rr_messages r) = Inr c"
    and row: "row = \<lparr>row_id = rr_id r, row_tenant_id = rr_tenant_id r, row_created_at = rr_created_at r,
      row_model = rr_model r, row_response_object = a, row_input = b, row_messages = c\<rparr>"
    by (auto simp: response_to_row_def and_then_Inr_iff)
  from assms(1) cols have "from_column ext a = Inr (rr_response_object r)" "from_column ext b = Inr (rr_input r)"
    "from_column ext c = Inr (rr_messages r)"
    by (auto simp: response_kept_def intro: column_kept)
  then show ?thesis by (simp add: row_to_response_record_def row)
qed

lemma response_row_key:
  "response_to_row ext r = Inr row \<Longrightarrow> response_key row = (rr_tenant_id r, rr_id r)"
  by (auto simp: response_to_row_def and_then_Inr_iff response_key_def)

lemma merge_response_row:
  "response_key old = response_key row \<Longrightarrow> merge_response_row old row = row"
  by (cases old; cases row) (simp add: merge_response_row_def response_key_def)

text \<open>In both backends an upsert makes the new row the row of its key.\<close>

lemma row_with_upsert:
  assumes "sqlite_upsert_response ext r db = Inr db' \<or> postgres_upsert_response ext r db = Inr db'"
  obtains row where "response_to_row ext r = Inr row" "db_fault db = None" "db_fault db' = None"
    and "\<And>k. row_with response_key k (db_responses db') =
      (if k = response_key row then Some row else row_with response_key k (db_responses db))"
proof -
  from assms obtain row where row: "response_to_row ext r = Inr row" "db_fault db = None" "db_fault db' = None"
    and rows: "db_responses db' = replace_row response_key row (db_responses db) \<or>
      db_responses db' = merge_row response_key merge_response_row row (db_responses db)"
    by (auto simp: sqlite_upsert_response_def postgres_upsert_response_def and_then_Inr_iff execute_Inr)
  have "row_with response_key k (db_responses db') =
      (if k = response_key row then Some row else row_with response_key k (db_responses db))" for k
    using rows
    by (auto simp: row_with_replace row_with_merge merge_response_row dest!: row_with_key split: option.split)
  with row that show thesis by blast
qed

lemma get_response_eq:
  "db_fault db = None \<Longrightarrow> get_response ext t i db =
     transpose_opt (map_option (row_to_response_record ext) (row_with response_key (t, i) (db_responses db)))"
  by (simp add: get_response_def execute_def)

lemma get_response_fault: "db_fault db = Some e \<Longrightarrow> get_response ext t i db = Inl (Database e)"
  by (simp add: get_response_def execute_def)

lemma upsert_get:
  assumes "sqlite_upsert_response ext r db = Inr db' \<or> postgres_upsert_response ext r db = Inr db'"
  shows "response_kept ext r \<Longrightarrow> get_response ext (rr_tenant_id r) (rr_id r) db' = Inr (Some r)"
    and "(t, i) \<noteq> (rr_tenant_id r, rr_id r) \<Longrightarrow> get_response ext t i db' = get_response ext t i db"
  using assms
  by (auto elim!: row_with_upsert simp: get_response_eq response_row_key response_row_kept)

lemma delete_response_Inr:
  "delete_response t i db = Inr (db', b) \<longleftrightarrow>
     db_fault db = None \<and> db' = db\<lparr>db_responses := delete_rows response_key (t, i) (db_responses db)\<rparr> \<and>
     (b \<longleftrightarrow> row_with response_key (t, i) (db_responses db) \<noteq> None)"
proof -
  have "length (delete_rows response_key k rows) < length rows \<longleftrightarrow> row_with response_key k rows \<noteq> None" for k rows
    unfolding delete_rows_def by (auto simp: row_with_None intro: length_filter_less)
       (metis (mono_tags, lifting) filter_True imageI less_irrefl)
  then show ?thesis
    by (auto simp: delete_response_def Let_def execute_Inr)
qed

lemma delete_get:
  assumes "delete_response t i db = Inr (db', b)"
  shows "get_response ext t i db' = Inr None"
    and "(t', i') \<noteq> (t, i) \<Longrightarrow> get_response ext t' i' db' = get_response ext t' i' db"
    and "b \<longleftrightarrow> get_response ext t i db \<noteq> Inr None"
  using assms
  by (auto simp: delete_response_Inr get_response_eq row_with_delete transpose_opt_None)

text \<open>The trait object dispatches to the backend it was built for.\<close>

definition upsert_response :: "externals \<Rightarrow> response_record \<Rightarrow> store_db \<Rightarrow> store_error + store_db" where
  "upsert_response ext r db =
     (case db_backend db of
        Sqlite \<Rightarrow> sqlite_upsert_response ext r db
      | Postgres \<Rightarrow> postgres_upsert_response ext r db)"

lemma upsert_either:
  "upsert_response ext r db = Inr db' \<Longrightarrow>
     sqlite_upsert_response ext r db = Inr db' \<or> postgres_upsert_response ext r db = Inr db'"
  by (auto simp: upsert_response_def split: storage_backend.splits)

interpretation sq: response_store "sqlite_upsert_response ext" "get_response ext" delete_response "response_kept ext"
  for ext
  by unfold_locales (blast intro: upsert_get delete_get(1,2) | erule delete_get(3))+

interpretation pg: response_store "postgres_upsert_response ext" "get_response ext" delete_response "response_kept ext"
  for ext
  by unfold_locales (blast intro: upsert_get delete_get(1,2) | erule delete_get(3))+

interpretation rs: response_store "upsert_response ext" "get_response ext" delete_response "response_kept ext"
  for ext
  by unfold_locales (blast dest: upsert_either intro: upsert_get delete_get(1,2) | erule delete_get(3))+

lemma upsert_succeeds:
  assumes "response_kept ext r" and "db_fault db = None"
  shows "\<exists>db'. upsert_response ext r db = Inr db' \<and> db_fault db' = None"
proof -
  from assms(1) obtain row where "response_to_row ext r = Inr row"
    by (auto simp: response_kept_def response_to_row_def dest!: to_column_kept)
  with assms(2) show ?thesis
    by (cases "db_backend db")
       (auto simp: upsert_response_def sqlite_upsert_response_def postgres_upsert_response_def execute_Inr)
qed

end
