(* ===== verification/Rehydrate.thy ===== *)
theory Rehydrate
  imports Responses_State Responses_Format Store_Backends
begin

text \<open>
  Continuing a stored conversation: the filter \<open>openai_responses_rehydrate\<close>
  (\<open>apis/src/openai/responses/rehydrate/mod.rs\<close>) puts the stored history before the new input,
  and the filter \<open>responses_proxy\<close> (\<open>proxy/mod.rs\<close>, \<open>proxy/config.rs\<close>) writes it into the body.
\<close>

section \<open>An exchange\<close>

text \<open>
  The context of a request with its typed extensions: the registry of stores, shared by all
  requests, as a map from names to database handles; the request state; and the request input
  the store filter keeps for itself. The databases behind the handles are passed along.
\<close>

record exchange =
  ex_ctx :: filter_ctx
  ex_registry :: "(str \<rightharpoonup> nat) option"
  ex_state :: "responses_state option"
  ex_request_input :: "json option"

type_synonym databases = "nat \<Rightarrow> store_db"

definition DEFAULT_STORE_NAME :: str where "DEFAULT_STORE_NAME = ''default''"
definition DEFAULT_TENANT_ID :: str where "DEFAULT_TENANT_ID = ''default''"
definition TENANT_METADATA_KEY :: str where "TENANT_METADATA_KEY = ''responses.tenant_id''"

definition tenant_of :: "filter_ctx \<Rightarrow> str" where
  "tenant_of ctx = unwrap_or DEFAULT_TENANT_ID (get_metadata ctx TENANT_METADATA_KEY)"

section \<open>Stored history\<close>

definition append_stored_input_items :: "json \<Rightarrow> json list \<Rightarrow> json list" where
  "append_stored_input_items input messages =
     (case input of
        JNull \<Rightarrow> messages
      | JString text \<Rightarrow> messages @ [user_message_item text]
      | JArray items \<Rightarrow> messages @ items
      | other \<Rightarrow> messages @ [other])"

definition append_stored_output_items :: "json \<Rightarrow> json list \<Rightarrow> json list" where
  "append_stored_output_items output messages =
     (case output of JArray items \<Rightarrow> messages @ items | _ \<Rightarrow> messages @ [output])"

definition not_null :: "json option \<Rightarrow> json option" where
  "not_null v = (case v of Some w \<Rightarrow> if is_null w then None else Some w | None \<Rightarrow> None)"

definition reconstruct_messages_from_public_response :: "response_record \<Rightarrow> json list" where
  "reconstruct_messages_from_public_response record =
     (let messages = append_stored_input_items (rr_input record) []
      in case not_null (jget (rr_response_object record) ''output'') of
           None \<Rightarrow> messages
         | Some output \<Rightarrow> append_stored_output_items output messages)"

definition stored_messages_for_rehydrate :: "response_record \<Rightarrow> json list" where
  "stored_messages_for_rehydrate record =
     (case as_array (rr_messages record) of
        Some messages \<Rightarrow> if messages \<noteq> [] then messages else reconstruct_messages_from_public_response record
      | None \<Rightarrow> reconstruct_messages_from_public_response record)"

definition is_output_only_metadata_item :: "json \<Rightarrow> bool" where
  "is_output_only_metadata_item item \<longleftrightarrow> get_str item ''type'' = Some ''mcp_list_tools''"

definition replay_messages_from_stored :: "json list \<Rightarrow> json list" where
  "replay_messages_from_stored stored = filter (\<lambda>item. \<not> is_output_only_metadata_item item) stored"

definition build_state ::
  "json \<Rightarrow> response_record \<Rightarrow> json list \<Rightarrow> json option \<Rightarrow> responses_state" where
  "build_state parsed_body record previous_tools previous_usage =
     (let state = from_request_body parsed_body;
          stored = stored_messages_for_rehydrate record;
          replay = replay_messages_from_stored stored
      in state\<lparr>st_messages := replay @ st_messages state,
               st_persisted_messages := stored @ st_persisted_messages state,
               st_previous_tools := previous_tools, st_previous_usage := previous_usage\<rparr>)"

section \<open>Tool listings and usage\<close>

definition mcp_tool_names :: "json list \<Rightarrow> str list" where
  "mcp_tool_names tools = List.map_filter (\<lambda>tool. get_str tool ''name'') tools"

text \<open>\<open>seen\<close> holds the labels and name sets already listed.\<close>

definition mcp_tool_listing ::
  "json \<Rightarrow> (str \<times> str list) list \<times> json list \<Rightarrow> (str \<times> str list) list \<times> json list" where
  "mcp_tool_listing item acc =
     (if get_str item ''type'' \<noteq> Some ''mcp_list_tools'' then acc
      else
        (case get_str item ''server_label'' of
           None \<Rightarrow> acc
         | Some label \<Rightarrow>
             (case get_array item ''tools'' of
                None \<Rightarrow> acc
              | Some tools \<Rightarrow>
                  (let dedupe_names = remdups_adj (sort (mcp_tool_names tools)); (seen, listings) = acc
                   in if (label, dedupe_names) \<in> set seen then acc
                      else ((label, dedupe_names) # seen,
                            listings @ [jobj [(''server_label'', JString label), (''tools'', JArray tools)]])))))"

definition collect_mcp_tool_listings :: "response_record \<Rightarrow> json list" where
  "collect_mcp_tool_listings record =
     (let acc1 = fold mcp_tool_listing (unwrap_or [] (as_array (rr_messages record))) ([], []);
          acc2 = fold mcp_tool_listing (unwrap_or [] (get_array (rr_response_object record) ''output'')) acc1
      in snd acc2)"

definition write_previous_usage_metadata :: "json option \<Rightarrow> filter_ctx \<Rightarrow> filter_ctx" where
  "write_previous_usage_metadata usage ctx =
     (case usage of
        None \<Rightarrow> ctx
      | Some u \<Rightarrow>
          (let note = (\<lambda>key. \<lambda>n. set_metadata key (show_nat (unat n)))
           in when_some (get_u64 u ''total_tokens'') (note ''responses.previous_usage_total_tokens'')
                (when_some (get_u64 u ''output_tokens'') (note ''responses.previous_usage_output_tokens'')
                   (when_some (get_u64 u ''input_tokens'') (note ''responses.previous_usage_input_tokens'') ctx))))"

definition populate_state_and_usage_metadata :: "json \<Rightarrow> response_record \<Rightarrow> exchange \<Rightarrow> exchange" where
  "populate_state_and_usage_metadata parsed_body record ex =
     (let previous_tools = collect_mcp_tool_listings record;
          previous_usage = not_null (jget (rr_response_object record) ''usage'')
      in ex\<lparr>ex_ctx := write_previous_usage_metadata previous_usage (ex_ctx ex),
            ex_state := Some (build_state parsed_body record previous_tools previous_usage)\<rparr>)"

section \<open>The rehydrate handler\<close>

definition rh_reject_invalid :: "externals \<Rightarrow> str \<Rightarrow> bool \<Rightarrow> filter_action" where
  "rh_reject_invalid ext message streaming =
     Reject (responses_error_rejection ext 400 ''invalid_request_error'' message streaming)"

definition reject_server_error :: "externals \<Rightarrow> str \<Rightarrow> bool \<Rightarrow> filter_action" where
  "reject_server_error ext message streaming =
     Reject (responses_error_rejection ext 500 ''server_error'' message streaming)"

definition parse_body_and_extract_id :: "externals \<Rightarrow> bytes \<Rightarrow> bool \<Rightarrow> filter_action + json \<times> str option" where
  "parse_body_and_extract_id ext bytes streaming =
     (case from_slice ext bytes of
        Inl e \<Rightarrow> Inl (rh_reject_invalid ext (''invalid request body: '' @ e) streaming)
      | Inr parsed \<Rightarrow>
          (case jget parsed ''previous_response_id'' of
             None \<Rightarrow> Inr (parsed, None)
           | Some v \<Rightarrow>
               (case v of
                  JNull \<Rightarrow> Inr (parsed, None)
                | JString s \<Rightarrow> Inr (parsed, Some s)
                | _ \<Rightarrow> Inl (rh_reject_invalid ext ''previous_response_id must be a string'' streaming))))"

definition fetch_previous_response ::
  "externals \<Rightarrow> databases \<Rightarrow> exchange \<Rightarrow> str \<Rightarrow> str \<Rightarrow> bool \<Rightarrow> filter_action + response_record" where
  "fetch_previous_response ext dbs ex tenant_id prev_id streaming =
     (case Option.bind (ex_registry ex) (\<lambda>registry. registry DEFAULT_STORE_NAME) of
        None \<Rightarrow> Inl (reject_server_error ext ''response store is not available'' streaming)
      | Some store \<Rightarrow>
          (case get_response ext tenant_id prev_id (dbs store) of
             Inl e \<Rightarrow> Inl (reject_server_error ext ''failed to fetch previous response'' streaming)
           | Inr None \<Rightarrow> Inl (rh_reject_invalid ext (''response '' @ quoted prev_id @ '' not found'') streaming)
           | Inr (Some record) \<Rightarrow> Inr record))"

definition validate_response_status :: "externals \<Rightarrow> response_record \<Rightarrow> bool \<Rightarrow> filter_action + unit" where
  "validate_response_status ext record streaming =
     (let st = unwrap_or ''unknown'' (get_str (rr_response_object record) ''status'')
      in if st \<noteq> ''completed'' then
           Inl (rh_reject_invalid ext (''cannot continue from response with status '' @ quoted st) streaming)
         else Inr ())"

definition validate_previous_response ::
  "externals \<Rightarrow> databases \<Rightarrow> exchange \<Rightarrow> bytes option \<Rightarrow> bool \<Rightarrow> exchange \<times> filter_action" where
  "validate_previous_response ext dbs ex body streaming =
     (case body of
        None \<Rightarrow> (ex, Release)
      | Some bytes \<Rightarrow>
          (case parse_body_and_extract_id ext bytes streaming of
             Inl action \<Rightarrow> (ex, action)
           | Inr (parsed_body, None) \<Rightarrow> (ex, Release)
           | Inr (parsed_body, Some prev_id) \<Rightarrow>
               (case fetch_previous_response ext dbs ex (tenant_of (ex_ctx ex)) prev_id streaming of
                  Inl action \<Rightarrow> (ex, action)
                | Inr record \<Rightarrow>
                    (case validate_response_status ext record streaming of
                       Inl action \<Rightarrow> (ex, action)
                     | Inr _ \<Rightarrow>
                         (let ex1 = populate_state_and_usage_metadata parsed_body record ex
                          in (ex1\<lparr>ex_ctx := set_metadata ''responses.previous_response_id'' prev_id (ex_ctx ex1)\<rparr>,
                              Release))))))"

definition is_responses_cancel_path :: "str \<Rightarrow> bool" where
  "is_responses_cancel_path path =
     (let p = rev (dropWhile (\<lambda>c. c = CHR ''/'') (rev path))
      in case Option.bind (strip_prefix ''/v1/responses/'' p) (strip_suffix ''/cancel'') of
           None \<Rightarrow> False
         | Some response_id \<Rightarrow> response_id \<noteq> [] \<and> CHR ''/'' \<notin> set response_id)"

definition meta_eq :: "filter_ctx \<Rightarrow> str \<Rightarrow> str \<Rightarrow> bool" where
  "meta_eq ctx k v \<longleftrightarrow> get_metadata ctx k = Some v"

definition rehydrate_on_request_body ::
  "externals \<Rightarrow> databases \<Rightarrow> exchange \<Rightarrow> bytes option \<Rightarrow> bool \<Rightarrow> exchange \<times> filter_action" where
  "rehydrate_on_request_body ext dbs ex body end_of_stream =
     (if \<not> end_of_stream then (ex, Continue)
      else if req_method (ex_ctx ex) \<noteq> ''POST'' then (ex, Continue)
      else if is_responses_cancel_path (req_path (ex_ctx ex)) then (ex, Release)
      else if \<not> meta_eq (ex_ctx ex) ''openai_responses_format.format'' ''openai_responses'' then (ex, Release)
      else validate_previous_response ext dbs ex body
             (meta_eq (ex_ctx ex) ''openai_responses_format.stream'' ''true''))"

section \<open>The proxy handler\<close>

definition proxy_build_config :: "praxis \<Rightarrow> nat \<Rightarrow> filter_error + nat" where
  "proxy_build_config px max_body_bytes =
     and_then (check_max_body_bytes px ''responses_proxy'' max_body_bytes) (\<lambda>_. Inr max_body_bytes)"

definition outbound_body :: "responses_state \<Rightarrow> json" where
  "outbound_body state =
     (case st_request_body state of
        JObject obj \<Rightarrow> JObject (obj_remove ''previous_response_id''
                         (obj_insert ''input'' (JArray (st_messages state)) obj))
      | other \<Rightarrow> other)"

definition serialize_body ::
  "externals \<Rightarrow> nat \<Rightarrow> responses_state \<Rightarrow> bool \<Rightarrow> filter_error + (filter_action + bytes)" where
  "serialize_body ext max_body_bytes state streaming =
     (case to_text ext (outbound_body state) of
        Inl e \<Rightarrow> Inl (''responses_proxy: '' @ e)
      | Inr serialized \<Rightarrow>
          if length serialized > max_body_bytes then
            Inr (Inl (Reject (responses_error_rejection ext 413 ''invalid_request_error''
                                ''request body exceeds maximum size'' streaming)))
          else Inr (Inr serialized))"

definition proxy_on_request_body ::
  "externals \<Rightarrow> nat \<Rightarrow> exchange \<Rightarrow> bytes option \<Rightarrow> bool
     \<Rightarrow> filter_error + exchange \<times> bytes option \<times> filter_action" where
  "proxy_on_request_body ext max_body_bytes ex body end_of_stream =
     (if \<not> end_of_stream then Inr (ex, body, Continue)
      else
        (case ex_state ex of
           None \<Rightarrow> Inr (ex, body, Continue)
         | Some state \<Rightarrow>
             and_then (serialize_body ext max_body_bytes state
                         (meta_eq (ex_ctx ex) ''openai_responses_format.stream'' ''true'')) (\<lambda>r.
               case r of
                 Inl action \<Rightarrow> Inr (ex, body, action)
               | Inr bytes \<Rightarrow>
                   Inr (ex\<lparr>ex_ctx := push_header ''content-length'' (show_nat (length bytes)) (ex_ctx ex)\<rparr>,
                        Some bytes, Continue))))"

end
