(* ===== verification/Ip_Addr.thy ===== *)
theory Ip_Addr
  imports Filter_Ctx
begin

unbundle bit_operations_syntax

text \<open>
  What the configuration checks use of the standard library: internet addresses with the parser
  of \<open>IpAddr\<close>, and \<open>str::trim\<close>, that knows the white space of Unicode.
\<close>

section \<open>Trimming\<close>

text \<open>The characters with the property White_Space, in UTF-8.\<close>

definition unicode_spaces :: "str list" where
  "unicode_spaces =
     map (\<lambda>n. [char_of n]) [9, 10, 11, 12, 13, 32 :: nat] @
     map (\<lambda>n :: nat. [char_of (0xC2 :: nat), char_of n]) [0x85, 0xA0] @
     [[char_of (0xE1 :: nat), char_of (0x9A :: nat), char_of (0x80 :: nat)]] @
     map (\<lambda>n :: nat. [char_of (0xE2 :: nat), char_of (0x80 :: nat), char_of n]) ([0x80 ..< 0x8B] @ [0xA8, 0xA9, 0xAF]) @
     [[char_of (0xE2 :: nat), char_of (0x81 :: nat), char_of (0x9F :: nat)],
      [char_of (0xE3 :: nat), char_of (0x80 :: nat), char_of (0x80 :: nat)]]"

definition space_prefix :: "str list \<Rightarrow> str \<Rightarrow> str option" where
  "space_prefix sps s = first_of (List.map_filter (\<lambda>sp. strip_prefix sp s) sps)"

text \<open>Each round removes at least one byte, so as many rounds as bytes are enough.\<close>

fun strip_spaces :: "nat \<Rightarrow> str list \<Rightarrow> str \<Rightarrow> str" where
  "strip_spaces 0 sps s = s"
| "strip_spaces (Suc n) sps s =
     (case space_prefix sps s of None \<Rightarrow> s | Some rest \<Rightarrow> strip_spaces n sps rest)"

definition str_trim :: "str \<Rightarrow> str" where
  "str_trim s =
     (let t = strip_spaces (length s) unicode_spaces s
      in rev (strip_spaces (length t) (map rev unicode_spaces) (rev t)))"

section \<open>Addresses\<close>

type_synonym u32 = "32 word"

text \<open>An address of version 6 is the list of its eight 16-bit groups.\<close>

datatype ip_addr = V4 u32 | V6 "nat list"

definition v4_is_loopback :: "u32 \<Rightarrow> bool" where
  "v4_is_loopback a \<longleftrightarrow> drop_bit 24 a = 127"

definition v4_is_private :: "u32 \<Rightarrow> bool" where
  "v4_is_private a \<longleftrightarrow> drop_bit 24 a = 10 \<or> drop_bit 20 a = 0xAC1 \<or> drop_bit 16 a = 0xC0A8"

definition v4_is_link_local :: "u32 \<Rightarrow> bool" where
  "v4_is_link_local a \<longleftrightarrow> drop_bit 16 a = 0xA9FE"

definition v6_is_loopback :: "nat list \<Rightarrow> bool" where
  "v6_is_loopback g \<longleftrightarrow> g = [0, 0, 0, 0, 0, 0, 0, 1]"

definition v6_is_unique_local :: "nat list \<Rightarrow> bool" where
  "v6_is_unique_local g \<longleftrightarrow> hd g div 0x200 = 0x7E"

definition v6_is_unicast_link_local :: "nat list \<Rightarrow> bool" where
  "v6_is_unicast_link_local g \<longleftrightarrow> hd g div 0x40 = 0x3FA"

definition v6_is_unspecified :: "nat list \<Rightarrow> bool" where
  "v6_is_unspecified g \<longleftrightarrow> g = replicate 8 0"

section \<open>Reading addresses\<close>

definition radix_digit :: "nat \<Rightarrow> char \<Rightarrow> nat option" where
  "radix_digit radix c =
     (let b = byte c;
          d = (if 48 \<le> b \<and> b \<le> 57 then Some (b - 48)
               else if 97 \<le> b \<and> b \<le> 122 then Some (b - 87)
               else if 65 \<le> b \<and> b \<le> 90 then Some (b - 55) else None)
      in case d of None \<Rightarrow> None | Some v \<Rightarrow> if v < radix then Some v else None)"

definition digits_value :: "nat \<Rightarrow> str \<Rightarrow> nat" where
  "digits_value radix s = fold (\<lambda>c acc. radix * acc + unwrap_or 0 (radix_digit radix c)) s 0"

text \<open>A number below \<open>bound\<close> of at most \<open>max_digits\<close> digits, and the text after it.\<close>

definition read_number :: "nat \<Rightarrow> nat \<Rightarrow> nat \<Rightarrow> bool \<Rightarrow> str \<Rightarrow> (nat \<times> str) option" where
  "read_number radix max_digits bound allow_zero_prefix s =
     (let ds = takeWhile (\<lambda>c. radix_digit radix c \<noteq> None) s
      in if ds = [] \<or> length ds > max_digits then None
         else if \<not> allow_zero_prefix \<and> hd ds = CHR ''0'' \<and> length ds > 1 then None
         else if digits_value radix ds < bound then Some (digits_value radix ds, drop (length ds) s) else None)"

definition read_separator :: "char \<Rightarrow> nat \<Rightarrow> (str \<Rightarrow> ('a \<times> str) option) \<Rightarrow> str \<Rightarrow> ('a \<times> str) option" where
  "read_separator sep index inner s =
     (if index > 0 then Option.bind (strip_prefix [sep] s) inner else inner s)"

definition read_octet :: "nat \<Rightarrow> str \<Rightarrow> (nat \<times> str) option" where
  "read_octet i = read_separator (CHR ''.'') i (read_number 10 3 256 False)"

fun read_octets :: "nat list \<Rightarrow> str \<Rightarrow> (nat list \<times> str) option" where
  "read_octets [] s = Some ([], s)"
| "read_octets (i # is) s =
     (case read_octet i s of
        None \<Rightarrow> None
      | Some (d, r) \<Rightarrow> map_option (\<lambda>(ds, t). (d # ds, t)) (read_octets is r))"

definition read_ipv4_addr :: "str \<Rightarrow> (nat list \<times> str) option" where
  "read_ipv4_addr s = read_octets [0, 1, 2, 3] s"

definition v4_of_octets :: "nat list \<Rightarrow> u32" where
  "v4_of_octets ds = of_nat (fold (\<lambda>d acc. 256 * acc + d) ds 0)"

text \<open>
  Groups from index \<open>i\<close> on, \<open>left\<close> of them at most; the flag tells whether they end in an
  embedded address of version 4, that takes two groups.
\<close>

fun read_groups :: "nat \<Rightarrow> nat \<Rightarrow> str \<Rightarrow> nat list \<times> bool \<times> str" where
  "read_groups i 0 s = ([], False, s)"
| "read_groups i (Suc left) s =
     (case (if left > 0 then read_separator (CHR '':'') i read_ipv4_addr s else None) of
        Some (ds, r) \<Rightarrow> ([256 * ds ! 0 + ds ! 1, 256 * ds ! 2 + ds ! 3], True, r)
      | None \<Rightarrow>
          (case read_separator (CHR '':'') i (read_number 16 4 65536 True) s of
             None \<Rightarrow> ([], False, s)
           | Some (g, r) \<Rightarrow> (case read_groups (Suc i) left r of (gs, v4, t) \<Rightarrow> (g # gs, v4, t))))"

definition read_ipv6_addr :: "str \<Rightarrow> (nat list \<times> str) option" where
  "read_ipv6_addr s =
     (case read_groups 0 8 s of
        (head, head_ipv4, r) \<Rightarrow>
          if length head = 8 then Some (head, r)
          else if head_ipv4 then None
          else
            (case strip_prefix ''::'' r of
               None \<Rightarrow> None
             | Some r1 \<Rightarrow>
                 (case read_groups 0 (7 - length head) r1 of
                    (back, _, r2) \<Rightarrow> Some (head @ replicate (8 - length head - length back) 0 @ back, r2))))"

text \<open>\<open>str::parse::<IpAddr>\<close>: the whole text is an address of one of the versions.\<close>

definition parse_ip :: "str \<Rightarrow> ip_addr option" where
  "parse_ip s =
     (case read_ipv4_addr s of
        Some (ds, r) \<Rightarrow> if r = [] then Some (V4 (v4_of_octets ds)) else None
      | None \<Rightarrow>
          (case read_ipv6_addr s of
             Some (g, r) \<Rightarrow> if r = [] then Some (V6 g) else None
           | None \<Rightarrow> None))"

lemma parse_ip_examples:
  "parse_ip ''127.0.0.1'' = Some (V4 0x7F000001)"
  "parse_ip ''127.0.0.01'' = None"
  "parse_ip ''::1'' = Some (V6 [0, 0, 0, 0, 0, 0, 0, 1])"
  "parse_ip ''::ffff:10.0.0.1'' = Some (V6 [0, 0, 0, 0, 0, 0xFFFF, 0xA00, 1])"
  "parse_ip ''1.2.3.4.'' = None"
  by code_simp+

end
