(* ===== verification/Store_Config.thy ===== *)
theory Store_Config
  imports Store_Backends Ip_Addr
begin

text \<open>
  The configuration of the response store (\<open>apis/src/openai/responses/store/config.rs\<close>): table
  names, and the check that a PostgreSQL URL names its server by an address that is not local.
\<close>

text \<open>
  Functions of other crates: \<open>percent_decode_str(..)\<close> with \<open>decode_utf8_lossy()\<close> or \<open>decode_utf8()\<close>,
  \<open>praxis_core::normalize_mapped_ipv4\<close> and \<open>praxis_filter::has_dot_dot_traversal\<close>.
\<close>

record url_fns =
  percent_decode :: "str \<Rightarrow> str"
  percent_decode_utf8 :: "str \<Rightarrow> str + str"
  normalize_mapped_ipv4 :: "ip_addr \<Rightarrow> ip_addr"
  has_dot_dot_traversal :: "str \<Rightarrow> bool"

datatype ssl_mode = Disable | Prefer | Require | VerifyCa | VerifyFull

record response_store_config =
  sc_backend :: storage_backend
  sc_database_url :: str
  sc_responses_table :: str
  sc_conversations_table :: str
  sc_ssl_mode :: "ssl_mode option"
  sc_ssl_root_cert :: "str option"
  sc_allow_private_database_url :: bool

type_synonym 'a checked = "filter_error + 'a"

abbreviation err :: "str \<Rightarrow> str" where
  "err msg \<equiv> ''openai_response_store: '' @ msg"

section \<open>Text of a URL\<close>

text \<open>\<open>str::rsplit_once(c)\<close>.\<close>

definition rsplit_once :: "char \<Rightarrow> str \<Rightarrow> (str \<times> str) option" where
  "rsplit_once c s = map_option (\<lambda>(a, b). (rev b, rev a)) (split_once [c] (rev s))"

definition postgres_url_after_scheme :: "str \<Rightarrow> str option" where
  "postgres_url_after_scheme url =
     (case strip_prefix ''postgres://'' url of Some r \<Rightarrow> Some r | None \<Rightarrow> strip_prefix ''postgresql://'' url)"

definition postgres_authority_host :: "url_fns \<Rightarrow> str \<Rightarrow> str option" where
  "postgres_authority_host u after_scheme =
     (let authority = takeWhile (\<lambda>c. c \<notin> set ''/?#'') after_scheme;
          host_port = (case rsplit_once (CHR ''@'') authority of None \<Rightarrow> authority | Some (_, host) \<Rightarrow> host)
      in if host_port = [] then None
         else
           (let host = (case strip_prefix ''['' host_port of
                          Some bracketed \<Rightarrow>
                            (case split_once '']'' bracketed of None \<Rightarrow> host_port | Some (h, _) \<Rightarrow> h)
                        | None \<Rightarrow>
                            (case rsplit_once (CHR '':'') host_port of
                               None \<Rightarrow> host_port
                             | Some (h, port) \<Rightarrow> if list_all ascii_digit port then h else host_port))
            in if host = [] then None else Some (percent_decode u host)))"

definition postgres_query_params :: "url_fns \<Rightarrow> str \<Rightarrow> (str \<times> str) list" where
  "postgres_query_params u url =
     (case split_once ''?'' url of
        None \<Rightarrow> []
      | Some (_, query) \<Rightarrow>
          (let q = (case split_once ''#'' query of None \<Rightarrow> query | Some (q, _) \<Rightarrow> q)
           in map (\<lambda>param.
                let (key, v) = (case split_once ''='' param of None \<Rightarrow> (param, []) | Some kv \<Rightarrow> kv)
                in (percent_decode u key, percent_decode u v))
              (filter (\<lambda>param. param \<noteq> []) (split_char (CHR ''&'') q))))"

definition is_postgres_hostaddr_param :: "str \<Rightarrow> bool" where
  "is_postgres_hostaddr_param key \<longleftrightarrow> key = ''hostaddr''"
definition is_postgres_host_param :: "str \<Rightarrow> bool" where
  "is_postgres_host_param key \<longleftrightarrow> key = ''host''"
definition is_postgres_sslmode_param :: "str \<Rightarrow> bool" where
  "is_postgres_sslmode_param key \<longleftrightarrow> key = ''sslmode'' \<or> key = ''ssl-mode''"
definition is_postgres_ssl_root_cert_param :: "str \<Rightarrow> bool" where
  "is_postgres_ssl_root_cert_param key \<longleftrightarrow> key = ''sslrootcert'' \<or> key = ''ssl-root-cert'' \<or> key = ''ssl-ca''"
definition is_postgres_tls_file_param :: "str \<Rightarrow> bool" where
  "is_postgres_tls_file_param key \<longleftrightarrow> is_postgres_ssl_root_cert_param key \<or>
     key = ''sslcert'' \<or> key = ''ssl-cert'' \<or> key = ''sslkey'' \<or> key = ''ssl-key''"

section \<open>Hosts\<close>

definition is_postgres_localhost_name :: "str \<Rightarrow> bool" where
  "is_postgres_localhost_name host \<longleftrightarrow>
     eq_ignore_ascii_case (rev (dropWhile (\<lambda>c. c = CHR ''.'') (rev host))) ''localhost''"

definition is_postgres_ssrf_sensitive_ip :: "ip_addr \<Rightarrow> bool" where
  "is_postgres_ssrf_sensitive_ip ip =
     (case ip of
        V4 a \<Rightarrow> v4_is_loopback a \<or> v4_is_private a \<or> v4_is_link_local a \<or> a = 0
      | V6 g \<Rightarrow> v6_is_loopback g \<or> v6_is_unique_local g \<or> v6_is_unicast_link_local g \<or> v6_is_unspecified g)"

definition parse_legacy_ipv4_number :: "str \<Rightarrow> u32 option" where
  "parse_legacy_ipv4_number part =
     (let (digits, radix) =
            (case (case strip_prefix ''0x'' part of Some d \<Rightarrow> Some d | None \<Rightarrow> strip_prefix ''0X'' part) of
               Some digits \<Rightarrow> (digits, 16)
             | None \<Rightarrow> if length part > 1 \<and> starts_with part ''0'' then (tl part, 8) else (part, 10))
      in if digits = [] \<or> \<not> list_all (\<lambda>c. radix_digit radix c \<noteq> None) digits then None
         else if digits_value radix digits < 2 ^ 32 then Some (of_nat (digits_value radix digits)) else None)"

definition parse_legacy_ipv4_host :: "str \<Rightarrow> u32 option" where
  "parse_legacy_ipv4_host host =
     (let parts = split_char (CHR ''.'') (rev (dropWhile (\<lambda>c. c = CHR ''.'') (rev host)))
      in if length parts > 4 \<or> list_ex (\<lambda>part. part = []) parts then None
         else
           (let numbers = map parse_legacy_ipv4_number parts
            in if list_ex (\<lambda>n. n = None) numbers then None
               else
                 (case map the numbers of
                    [a] \<Rightarrow> Some a
                  | [a, b] \<Rightarrow> if a \<le> 0xFF \<and> b \<le> 0x00FFFFFF then Some (push_bit 24 a OR b) else None
                  | [a, b, c] \<Rightarrow>
                      if a \<le> 0xFF \<and> b \<le> 0xFF \<and> c \<le> 0xFFFF then Some (push_bit 24 a OR push_bit 16 b OR c) else None
                  | [a, b, c, d] \<Rightarrow>
                      if list_all (\<lambda>n. n \<le> 0xFF) [a, b, c, d]
                      then Some (push_bit 24 a OR push_bit 16 b OR push_bit 8 c OR d) else None
                  | _ \<Rightarrow> None)))"

definition validate_postgres_ip_target :: "url_fns \<Rightarrow> str \<Rightarrow> ip_addr \<Rightarrow> bool \<Rightarrow> unit checked" where
  "validate_postgres_ip_target u kind ip allow_private =
     (if \<not> allow_private \<and> is_postgres_ssrf_sensitive_ip (normalize_mapped_ipv4 u ip) then
        Inl (err (''database_url '' @ kind @ '' targets a local-sensitive address; '' @
                  ''set allow_private_database_url: true to allow''))
      else Inr ())"

definition validate_postgres_dns_target :: "str \<Rightarrow> str \<Rightarrow> bool \<Rightarrow> unit checked" where
  "validate_postgres_dns_target kind host allow_private =
     (if allow_private then Inr ()
      else Inl (err (''database_url '' @ kind @ '' host '' @ [CHR 0x27] @ host @ [CHR 0x27] @ '' is a DNS name; '' @
                     ''use a literal IP address or set allow_private_database_url: true to allow DNS targets'')))"

definition validate_postgres_socket_path :: "url_fns \<Rightarrow> str \<Rightarrow> str \<Rightarrow> bool \<Rightarrow> unit checked" where
  "validate_postgres_socket_path u kind path allow_private =
     (if has_dot_dot_traversal u path then
        Inl (err (''database_url '' @ kind @ '' must not contain '' @ [CHR 0x27] @ ''..'' @ [CHR 0x27] @ '' path traversal''))
      else if \<not> allow_private then
        Inl (err (''database_url '' @ kind @ '' targets a Unix socket; set allow_private_database_url: true to allow''))
      else Inr ())"

definition validate_postgres_host_value :: "url_fns \<Rightarrow> str \<Rightarrow> str \<Rightarrow> bool \<Rightarrow> unit checked" where
  "validate_postgres_host_value u kind host allow_private =
     (if host = [] then Inl (err (''database_url '' @ kind @ '' must not be empty''))
      else if starts_with host ''/'' then validate_postgres_socket_path u kind host allow_private
      else if \<not> allow_private \<and> is_postgres_localhost_name host then
        Inl (err (''database_url '' @ kind @ '' targets localhost; set allow_private_database_url: true to allow''))
      else
        (case parse_ip host of
           Some ip \<Rightarrow> validate_postgres_ip_target u kind ip allow_private
         | None \<Rightarrow>
             (case parse_legacy_ipv4_host host of
                Some ip \<Rightarrow> validate_postgres_ip_target u kind (V4 ip) allow_private
              | None \<Rightarrow> validate_postgres_dns_target kind host allow_private)))"

definition validate_postgres_hostaddr :: "url_fns \<Rightarrow> str \<Rightarrow> bool \<Rightarrow> unit checked" where
  "validate_postgres_hostaddr u v allow_private =
     (case parse_ip v of
        None \<Rightarrow> Inl (err (''database_url parameter '' @ [CHR 0x27] @ ''hostaddr'' @ [CHR 0x27] @
                          '' must be a valid IP address: invalid IP address syntax''))
      | Some ip \<Rightarrow> validate_postgres_ip_target u ''hostaddr'' ip allow_private)"

text \<open>One query parameter; the flag tells that a host was given.\<close>

definition check_host_param :: "url_fns \<Rightarrow> bool \<Rightarrow> str \<times> str \<Rightarrow> bool \<Rightarrow> bool checked" where
  "check_host_param u allow_private kv has_target =
     (case kv of (key, v) \<Rightarrow>
        if is_postgres_hostaddr_param key then
          and_then (validate_postgres_hostaddr u v allow_private) (\<lambda>_. Inr True)
        else if is_postgres_host_param key then
          and_then (validate_postgres_host_value u key v allow_private) (\<lambda>_. Inr True)
        else Inr has_target)"

definition validate_postgres_database_url :: "url_fns \<Rightarrow> str \<Rightarrow> bool \<Rightarrow> unit checked" where
  "validate_postgres_database_url u url allow_private =
     (case postgres_url_after_scheme url of
        None \<Rightarrow> Inl (err (''postgres database_url must start with '' @ [CHR 0x27] @ ''postgres://'' @ [CHR 0x27] @
                          '' or '' @ [CHR 0x27] @ ''postgresql://'' @ [CHR 0x27]))
      | Some after_scheme \<Rightarrow>
          and_then (case postgres_authority_host u after_scheme of
                      None \<Rightarrow> Inr False
                    | Some host \<Rightarrow>
                        and_then (validate_postgres_host_value u ''host'' host allow_private) (\<lambda>_. Inr True)) (\<lambda>has_target.
          and_then (fold_result (check_host_param u allow_private) (postgres_query_params u url) has_target) (\<lambda>has_target.
            if \<not> has_target then Inl (err ''postgres database_url must include an explicit host'') else Inr ())))"

definition revalidate_postgres_host :: "url_fns \<Rightarrow> response_store_config \<Rightarrow> unit checked" where
  "revalidate_postgres_host u cfg =
     (let url = sc_database_url cfg; allow = sc_allow_private_database_url cfg
      in case postgres_url_after_scheme url of
           None \<Rightarrow> Inr ()
         | Some after_scheme \<Rightarrow>
             and_then (case postgres_authority_host u after_scheme of
                         None \<Rightarrow> Inr () | Some host \<Rightarrow> validate_postgres_host_value u ''host'' host allow) (\<lambda>_.
             and_then (fold_result (check_host_param u allow) (postgres_query_params u url) False) (\<lambda>_. Inr ())))"

section \<open>Transport security\<close>

definition validate_postgres_url_tls_file_params :: "url_fns \<Rightarrow> str \<Rightarrow> unit checked" where
  "validate_postgres_url_tls_file_params u url =
     fold_result (\<lambda>(key, v) _.
       if is_postgres_tls_file_param key \<and> has_dot_dot_traversal u v then
         Inl (err (''database_url parameter '' @ [CHR 0x27] @ key @ [CHR 0x27] @ '' must not contain '' @
                   [CHR 0x27] @ ''..'' @ [CHR 0x27] @ '' path traversal''))
       else Inr ()) (postgres_query_params u url) ()"

definition postgres_url_sslmode :: "url_fns \<Rightarrow> str \<Rightarrow> str option" where
  "postgres_url_sslmode u url =
     (let vs = map snd (filter (\<lambda>(key, _). is_postgres_sslmode_param key) (postgres_query_params u url))
      in if vs = [] then None else Some (last vs))"

definition is_verified_postgres_sslmode :: "str \<Rightarrow> bool" where
  "is_verified_postgres_sslmode v \<longleftrightarrow> eq_ignore_ascii_case v ''verify-ca'' \<or> eq_ignore_ascii_case v ''verify-full''"

definition has_verified_postgres_ssl_mode :: "url_fns \<Rightarrow> response_store_config \<Rightarrow> str \<Rightarrow> bool" where
  "has_verified_postgres_ssl_mode u cfg url =
     (case sc_ssl_mode cfg of
        Some mode \<Rightarrow> mode = VerifyCa \<or> mode = VerifyFull
      | None \<Rightarrow>
          (case postgres_url_sslmode u url of None \<Rightarrow> False | Some v \<Rightarrow> is_verified_postgres_sslmode v))"

definition has_postgres_ssl_root_cert :: "url_fns \<Rightarrow> response_store_config \<Rightarrow> str \<Rightarrow> bool" where
  "has_postgres_ssl_root_cert u cfg url \<longleftrightarrow>
     sc_ssl_root_cert cfg \<noteq> None \<or>
     list_ex (\<lambda>(key, _). is_postgres_ssl_root_cert_param key) (postgres_query_params u url)"

definition validate_postgres_ssl_config :: "url_fns \<Rightarrow> response_store_config \<Rightarrow> str \<Rightarrow> unit checked" where
  "validate_postgres_ssl_config u cfg url =
     and_then (validate_postgres_url_tls_file_params u url) (\<lambda>_.
       if (case sc_ssl_root_cert cfg of None \<Rightarrow> False | Some cert \<Rightarrow> has_dot_dot_traversal u cert) then
         Inl (err (''ssl_root_cert must not contain '' @ [CHR 0x27] @ ''..'' @ [CHR 0x27] @ '' path traversal''))
       else if has_postgres_ssl_root_cert u cfg url \<and> \<not> has_verified_postgres_ssl_mode u cfg url then
         Inl (err ([CHR 0x27] @ ''ssl_root_cert'' @ [CHR 0x27] @ '' requires ssl_mode '' @ [CHR 0x27] @ ''verify-ca'' @
                   [CHR 0x27] @ '' or '' @ [CHR 0x27] @ ''verify-full'' @ [CHR 0x27]))
       else Inr ())"

section \<open>SQLite\<close>

definition is_memory_database_url :: "str \<Rightarrow> bool" where
  "is_memory_database_url database_url =
     (let url = str_trim database_url
      in url = ''sqlite::memory:'' \<or> url = ''sqlite://:memory:'' \<or>
         list_ex (\<lambda>param. param = ''mode=memory'')
           (split_char (CHR ''&'') (case split_once ''?'' url of None \<Rightarrow> [] | Some (_, q) \<Rightarrow> q)))"

definition sqlite_file_path :: "str \<Rightarrow> str option" where
  "sqlite_file_path url =
     map_option (\<lambda>rest. case split_once ''?'' rest of None \<Rightarrow> rest | Some (path, _) \<Rightarrow> path)
       (case strip_prefix ''sqlite://'' url of Some r \<Rightarrow> Some r | None \<Rightarrow> strip_prefix ''sqlite:'' url)"

definition validate_sqlite_database_url :: "url_fns \<Rightarrow> str \<Rightarrow> unit checked" where
  "validate_sqlite_database_url u url =
     (if is_memory_database_url url then Inr ()
      else if has_dot_dot_traversal u (unwrap_or url (sqlite_file_path url)) then
        Inl (err (''database_url must not contain '' @ [CHR 0x27] @ ''..'' @ [CHR 0x27] @ '' path traversal''))
      else Inr ())"

abbreviation only_postgres :: "str \<Rightarrow> str" where
  "only_postgres field \<equiv> err ([CHR 0x27] @ field @ [CHR 0x27] @ '' is only valid with the '' @
     [CHR 0x27] @ ''postgres'' @ [CHR 0x27] @ '' backend'')"

definition reject_postgres_fields :: "response_store_config \<Rightarrow> unit checked" where
  "reject_postgres_fields cfg =
     (if sc_ssl_mode cfg \<noteq> None then Inl (only_postgres ''ssl_mode'')
      else if sc_ssl_root_cert cfg \<noteq> None then Inl (only_postgres ''ssl_root_cert'')
      else if sc_allow_private_database_url cfg then Inl (only_postgres ''allow_private_database_url'')
      else Inr ())"

section \<open>The check\<close>

definition table_check :: "str \<Rightarrow> store_error + 'a \<Rightarrow> 'a checked" where
  "table_check what r = map_sum (\<lambda>e. err (what @ store_error_text e)) id r"

definition validate_config :: "url_fns \<Rightarrow> response_store_config \<Rightarrow> unit checked" where
  "validate_config u cfg =
     (let url = sc_database_url cfg
      in if url = [] then Inl (err ([CHR 0x27] @ ''database_url'' @ [CHR 0x27] @ '' must not be empty''))
         else
           and_then (table_check ''invalid responses_table: '' (validate_identifier (sc_responses_table cfg))) (\<lambda>_.
           and_then (table_check ''invalid conversations_table: '' (validate_identifier (sc_conversations_table cfg))) (\<lambda>_.
             if eq_ignore_ascii_case (sc_responses_table cfg) (sc_conversations_table cfg) then
               Inl (err ''response and conversation table names must be distinct'')
             else
               (case sc_backend cfg of
                  Sqlite \<Rightarrow>
                    and_then (validate_sqlite_database_url u url) (\<lambda>_. reject_postgres_fields cfg)
                | Postgres \<Rightarrow>
                    and_then (validate_postgres_database_url u url (sc_allow_private_database_url cfg)) (\<lambda>_.
                    and_then (table_check ''invalid postgres table identifier: ''
                      (validate_postgres_table_identifiers (sc_responses_table cfg) (sc_conversations_table cfg))) (\<lambda>_.
                      validate_postgres_ssl_config u cfg url))))))"

section \<open>No local server\<close>

text \<open>The servers a URL names: the host of its authority and its host parameters.\<close>

definition is_target_param :: "str \<times> str \<Rightarrow> bool" where
  "is_target_param kv \<longleftrightarrow> is_postgres_hostaddr_param (fst kv) \<or> is_postgres_host_param (fst kv)"

definition database_targets :: "url_fns \<Rightarrow> str \<Rightarrow> str list" where
  "database_targets u url =
     (case Option.bind (postgres_url_after_scheme url) (postgres_authority_host u) of
        None \<Rightarrow> [] | Some host \<Rightarrow> [host]) @
     map snd (filter is_target_param (postgres_query_params u url))"

subsection \<open>Which address a host names\<close>

text \<open>
  A host is a literal address of version 4 or 6, or one to four numbers as \<open>inet_aton\<close> reads them: each decimal, octal
  or hexadecimal as in C, all but the last a byte, and the last fills the bytes that are left.
\<close>

definition c_number :: "str \<Rightarrow> nat option" where
  "c_number s =
     (let (digits, radix) =
            (if starts_with s ''0x'' \<or> starts_with s ''0X'' then (drop 2 s, 16)
             else if starts_with s ''0'' \<and> s \<noteq> ''0'' then (drop 1 s, 8) else (s, 10))
      in if digits \<noteq> [] \<and> list_all (\<lambda>c. radix_digit radix c \<noteq> None) digits then Some (digits_value radix digits) else None)"

definition inet_aton :: "str \<Rightarrow> nat option" where
  "inet_aton host =
     (let numbers = map c_number (split_char (CHR ''.'') (rev (dropWhile (\<lambda>c. c = CHR ''.'') (rev host))));
          high = map the (butlast numbers); low = the (last numbers)
      in if length numbers \<le> 4 \<and> None \<notin> set numbers \<and> list_all (\<lambda>n. n < 256) high \<and> low < 256 ^ (5 - length numbers)
         then Some (fold (\<lambda>n acc. 256 * acc + n) high 0 * 256 ^ (5 - length numbers) + low) else None)"

definition literal_ip :: "str \<Rightarrow> ip_addr option" where
  "literal_ip host =
     (case parse_ip host of Some ip \<Rightarrow> Some ip | None \<Rightarrow> map_option (\<lambda>n. V4 (of_nat n)) (inet_aton host))"

subsection \<open>Local addresses\<close>

definition quad :: "nat \<Rightarrow> nat \<Rightarrow> nat \<Rightarrow> nat \<Rightarrow> nat" where
  "quad a b c d = ((a * 256 + b) * 256 + c) * 256 + d"

text \<open>Loopback, the three private blocks, link-local, and the unspecified address.\<close>

definition local_v4 :: "nat \<Rightarrow> bool" where
  "local_v4 n \<longleftrightarrow>
     quad 127 0 0 0 \<le> n \<and> n \<le> quad 127 255 255 255 \<or>
     quad 10 0 0 0 \<le> n \<and> n \<le> quad 10 255 255 255 \<or>
     quad 172 16 0 0 \<le> n \<and> n \<le> quad 172 31 255 255 \<or>
     quad 192 168 0 0 \<le> n \<and> n \<le> quad 192 168 255 255 \<or>
     quad 169 254 0 0 \<le> n \<and> n \<le> quad 169 254 255 255 \<or>
     n = quad 0 0 0 0"

text \<open>\<open>::1\<close>, \<open>::\<close>, \<open>fc00::/7\<close>, \<open>fe80::/10\<close>.\<close>

definition local_v6 :: "nat list \<Rightarrow> bool" where
  "local_v6 g \<longleftrightarrow>
     g = [0, 0, 0, 0, 0, 0, 0, 1] \<or> g = [0, 0, 0, 0, 0, 0, 0, 0] \<or>
     0xFC00 \<le> hd g \<and> hd g \<le> 0xFDFF \<or> 0xFE80 \<le> hd g \<and> hd g \<le> 0xFEBF"

text \<open>The address of version 4 in \<open>::ffff:a.b.c.d\<close>.\<close>

definition mapped_v4 :: "nat list \<Rightarrow> u32 option" where
  "mapped_v4 g =
     (if length g = 8 \<and> take 6 g = [0, 0, 0, 0, 0, 0xFFFF] then Some (of_nat (65536 * g ! 6 + g ! 7)) else None)"

fun local_address :: "ip_addr \<Rightarrow> bool" where
  "local_address (V4 a) \<longleftrightarrow> local_v4 (unat a)"
| "local_address (V6 g) \<longleftrightarrow> (case mapped_v4 g of Some a \<Rightarrow> local_v4 (unat a) | None \<Rightarrow> local_v6 g)"

text \<open>
  What the checks and their tests rely on of \<open>normalize_mapped_ipv4\<close> in \<open>praxis_core\<close>: mapped addresses become those of
  version 4, others stay.
\<close>

definition unmaps_ipv4 :: "url_fns \<Rightarrow> bool" where
  "unmaps_ipv4 u \<longleftrightarrow>
     (\<forall>a. normalize_mapped_ipv4 u (V4 a) = V4 a) \<and>
     (\<forall>g. normalize_mapped_ipv4 u (V6 g) = (case mapped_v4 g of Some a \<Rightarrow> V4 a | None \<Rightarrow> V6 g))"

definition public_target :: "str \<Rightarrow> bool" where
  "public_target host = (case literal_ip host of None \<Rightarrow> False | Some ip \<Rightarrow> \<not> local_address ip)"

subsection \<open>The checks refuse them\<close>

lemma div_range: "0 < m \<Longrightarrow> n div m = q \<longleftrightarrow> q * m \<le> n \<and> n < (q + 1) * m" for m n q :: nat
  unfolding less_eq_div_iff_mult_less_eq [symmetric] div_less_iff_less_mult [symmetric] by auto

lemma drop_bit_range: "drop_bit k (a :: u32) = w \<longleftrightarrow> unat w * 2 ^ k \<le> unat a \<and> unat a < (unat w + 1) * 2 ^ k"
proof -
  have "drop_bit k a = w \<longleftrightarrow> unat a div 2 ^ k = unat w"
    by (simp add: word_unat_eq_iff unat_drop_bit_eq drop_bit_eq_div flip: drop_bit_eq_div)
  then show ?thesis by (simp only: div_range zero_less_power zero_less_numeral)
qed

lemma v4_ranges:
  "v4_is_loopback a \<longleftrightarrow> quad 127 0 0 0 \<le> unat a \<and> unat a \<le> quad 127 255 255 255"
  "drop_bit 24 a = 10 \<longleftrightarrow> quad 10 0 0 0 \<le> unat a \<and> unat a \<le> quad 10 255 255 255"
  "drop_bit 20 a = 0xAC1 \<longleftrightarrow> quad 172 16 0 0 \<le> unat a \<and> unat a \<le> quad 172 31 255 255"
  "drop_bit 16 a = 0xC0A8 \<longleftrightarrow> quad 192 168 0 0 \<le> unat a \<and> unat a \<le> quad 192 168 255 255"
  "v4_is_link_local a \<longleftrightarrow> quad 169 254 0 0 \<le> unat a \<and> unat a \<le> quad 169 254 255 255"
  "a = 0 \<longleftrightarrow> unat a = quad 0 0 0 0"
  unfolding v4_is_loopback_def v4_is_link_local_def quad_def drop_bit_range
  by (auto simp: unsigned_eq_0_iff)

lemma sensitive_v4: "is_postgres_ssrf_sensitive_ip (V4 a) \<longleftrightarrow> local_v4 (unat a)"
proof -
  have "is_postgres_ssrf_sensitive_ip (V4 a) \<longleftrightarrow>
      v4_is_loopback a \<or> drop_bit 24 a = 10 \<or> drop_bit 20 a = 0xAC1 \<or> drop_bit 16 a = 0xC0A8 \<or> v4_is_link_local a \<or> a = 0"
    unfolding is_postgres_ssrf_sensitive_ip_def v4_is_private_def ip_addr.case by blast
  then show ?thesis unfolding local_v4_def v4_ranges(1-5) [symmetric] v4_ranges(6) [symmetric] .
qed

lemma sensitive_v6: "is_postgres_ssrf_sensitive_ip (V6 g) \<longleftrightarrow> local_v6 g"
proof -
  have "replicate 8 (0 :: nat) = [0, 0, 0, 0, 0, 0, 0, 0]" by (simp add: numeral_eq_Suc)
  then show ?thesis
    by (auto simp: is_postgres_ssrf_sensitive_ip_def v6_is_loopback_def v6_is_unique_local_def
        v6_is_unicast_link_local_def v6_is_unspecified_def local_v6_def div_range)
qed

lemma sensitive_iff:
  "unmaps_ipv4 u \<Longrightarrow> is_postgres_ssrf_sensitive_ip (normalize_mapped_ipv4 u ip) \<longleftrightarrow> local_address ip"
  by (cases ip) (auto simp: unmaps_ipv4_def sensitive_v4 sensitive_v6 split: option.split)

lemma or_low_bits: "(w :: u32) < 2 ^ k \<Longrightarrow> push_bit k a OR w = push_bit k a + w"
proof -
  assume w: "w < 2 ^ k"
  have "w = take_bit k w"
    using w by (cases "k < 32") (simp_all add: take_bit_eq_mod word_arith_nat_mod unsigned_take_bit_eq less_mask_eq
      mask_eq_exp_minus_1 word_less_nat_alt)
  then have "\<not> bit w n" if "k \<le> n" for n using that by (metis bit_take_bit_iff not_le)
  then show ?thesis by (subst disjunctive_add) (auto simp: bit_push_bit_iff not_le)
qed

lemma legacy_number:
  "parse_legacy_ipv4_number part =
     (case c_number part of None \<Rightarrow> None | Some n \<Rightarrow> if n < 2 ^ 32 then Some (of_nat n) else None)"
proof -
  have x: "(case (case strip_prefix ''0x'' part of Some d \<Rightarrow> Some d | None \<Rightarrow> strip_prefix ''0X'' part) of
        Some digits \<Rightarrow> (digits, 16) | None \<Rightarrow> if length part > 1 \<and> starts_with part ''0'' then (tl part, 8) else (part, 10)) =
      (if starts_with part ''0x'' \<or> starts_with part ''0X'' then (drop 2 part, 16)
       else if starts_with part ''0'' \<and> part \<noteq> ''0'' then (drop 1 part, 8) else (part, 10 :: nat))"
    by (cases part; cases "tl part") (auto simp: starts_with_def)
  show ?thesis unfolding parse_legacy_ipv4_number_def c_number_def Let_def x by (auto split: prod.split)
qed

lemma shifted_bytes:
  assumes "b < 2 ^ k" and "k < 32"
  shows "push_bit k (of_nat a) OR of_nat b = (of_nat (a * 2 ^ k + b) :: u32)"
proof -
  have k: "2 ^ k < (2 :: nat) ^ 32" using assms(2) by (simp only: power_strict_increasing_iff one_less_numeral_iff semiring_norm)
  then have "unat (of_nat (2 ^ k) :: u32) = 2 ^ k" by (simp add: unat_of_nat del: of_nat_power)
  moreover have "unat (of_nat b :: u32) = b" using k assms(1) by (simp add: unat_of_nat)
  ultimately have "(of_nat b :: u32) < 2 ^ k" using assms(1) by (simp add: word_less_nat_alt)
  then have "push_bit k (of_nat a :: u32) OR of_nat b = push_bit k (of_nat a) + of_nat b" by (rule or_low_bits)
  then show ?thesis by (simp add: push_bit_eq_mult)
qed

lemma joined_bytes:
  "b < 2 ^ 24 \<Longrightarrow> push_bit 24 (of_nat a) OR of_nat b = (of_nat (a * 2 ^ 24 + b) :: u32)"
  "b < 2 ^ 8 \<Longrightarrow> c < 2 ^ 16 \<Longrightarrow>
     push_bit 24 (of_nat a) OR push_bit 16 (of_nat b) OR of_nat c = (of_nat ((a * 2 ^ 8 + b) * 2 ^ 16 + c) :: u32)"
  "b < 2 ^ 8 \<Longrightarrow> c < 2 ^ 8 \<Longrightarrow> d < 2 ^ 8 \<Longrightarrow>
     push_bit 24 (of_nat a) OR push_bit 16 (of_nat b) OR push_bit 8 (of_nat c) OR of_nat d =
       (of_nat (((a * 2 ^ 8 + b) * 2 ^ 8 + c) * 2 ^ 8 + d) :: u32)"
proof -
  show "b < 2 ^ 24 \<Longrightarrow> push_bit 24 (of_nat a) OR of_nat b = (of_nat (a * 2 ^ 24 + b) :: u32)"
    by (rule shifted_bytes) simp_all
  assume b: "b < 2 ^ 8"
  show "push_bit 24 (of_nat a) OR push_bit 16 (of_nat b) OR of_nat c = (of_nat ((a * 2 ^ 8 + b) * 2 ^ 16 + c) :: u32)"
    if "c < 2 ^ 16"
    using that b by (subst shifted_bytes, simp, simp, subst shifted_bytes) (simp_all add: algebra_simps)
  show "push_bit 24 (of_nat a) OR push_bit 16 (of_nat b) OR push_bit 8 (of_nat c) OR of_nat d =
      (of_nat (((a * 2 ^ 8 + b) * 2 ^ 8 + c) * 2 ^ 8 + d) :: u32)" if "c < 2 ^ 8" "d < 2 ^ 8"
    using that b
    by (subst shifted_bytes, simp, simp, subst shifted_bytes, simp, simp, subst shifted_bytes) (simp_all add: algebra_simps)
qed

lemma byte_word: "n < 2 ^ 32 \<Longrightarrow> (of_nat n :: u32) \<le> of_nat m \<longleftrightarrow> n \<le> m" if "m < 2 ^ 32"
  using that by (simp add: word_le_nat_alt unat_of_nat)

text \<open>One to four numbers, by their count.\<close>

definition legacy_address :: "nat list \<Rightarrow> u32 option" where
  "legacy_address ns =
     (if list_all (\<lambda>n. n < 2 ^ 32) ns then
        (case map of_nat ns of
           [a] \<Rightarrow> Some a
         | [a, b] \<Rightarrow> if a \<le> 0xFF \<and> b \<le> 0x00FFFFFF then Some (push_bit 24 a OR b) else None
         | [a, b, c] \<Rightarrow>
             if a \<le> 0xFF \<and> b \<le> 0xFF \<and> c \<le> 0xFFFF then Some (push_bit 24 a OR push_bit 16 b OR c) else None
         | [a, b, c, d] \<Rightarrow>
             if list_all (\<lambda>n. n \<le> 0xFF) [a, b, c, d]
             then Some (push_bit 24 a OR push_bit 16 b OR push_bit 8 c OR d) else None
         | _ \<Rightarrow> None)
      else None)"

lemma legacy_address_eq:
  assumes "ns \<noteq> []" and "length ns \<le> 4"
  shows "legacy_address ns =
    (if list_all (\<lambda>n. n < 256) (butlast ns) \<and> last ns < 256 ^ (5 - length ns)
     then Some (of_nat (fold (\<lambda>n acc. 256 * acc + n) (butlast ns) 0 * 256 ^ (5 - length ns) + last ns)) else None)"
proof -
  note le = byte_word [of 255, simplified] byte_word [of 16777215, simplified] byte_word [of 65535, simplified]
  from assms consider (1) a where "ns = [a]" | (2) a b where "ns = [a, b]" | (3) a b c where "ns = [a, b, c]"
    | (4) a b c d where "ns = [a, b, c, d]"
    by (auto simp: length_Suc_conv le_Suc_eq numeral_eq_Suc)
  then show ?thesis
  proof cases
    case 1
    then show ?thesis by (simp add: legacy_address_def)
  next
    case 2
    then show ?thesis by (auto simp: legacy_address_def le joined_bytes algebra_simps simp del: of_nat_mult of_nat_add)
  next
    case 3
    then show ?thesis by (auto simp: legacy_address_def le joined_bytes algebra_simps simp del: of_nat_mult of_nat_add)
  next
    case 4
    then show ?thesis by (auto simp: legacy_address_def le joined_bytes algebra_simps simp del: of_nat_mult of_nat_add)
  qed
qed

lemma legacy_host: "parse_legacy_ipv4_host host = map_option of_nat (inet_aton host)"
proof -
  define parts where "parts = split_char (CHR ''.'') (rev (dropWhile (\<lambda>c. c = CHR ''.'') (rev host)))"
  have empty: "c_number [] = None" by code_simp
  show ?thesis
  proof (cases "length parts \<le> 4 \<and> None \<notin> set (map c_number parts)")
    case False
    then have "length parts > 4 \<or> None \<in> set (map parse_legacy_ipv4_number parts)"
      by (force simp: legacy_number image_iff split: option.split)
    then show ?thesis using False
      by (auto simp: parse_legacy_ipv4_host_def inet_aton_def Let_def list_ex_iff image_iff simp flip: parts_def)
  next
    case True
    then have short: "length parts \<le> 4" and read: "\<forall>x \<in> set parts. \<exists>n. c_number x = Some n" by force+
    have some: "parts \<noteq> []" by (simp add: parts_def)
    define ns where "ns = map (the \<circ> c_number) parts"
    have numbers: "map c_number parts = map Some ns" using read by (auto simp: ns_def)
    have ns: "ns \<noteq> []" "length ns \<le> 4" "length ns = length parts" using some short by (auto simp: ns_def)
    have full: "\<not> list_ex (\<lambda>part. part = []) parts" using read empty by (auto simp: list_ex_iff)
    have words: "map parse_legacy_ipv4_number parts =
        map (\<lambda>n. if n < 2 ^ 32 then Some (of_nat n) else None) ns"
      using read by (auto simp: ns_def legacy_number)
    have "parse_legacy_ipv4_host host = legacy_address ns"
    proof (cases "list_all (\<lambda>n. n < 2 ^ 32) ns")
      case True
      then have "map parse_legacy_ipv4_number parts = map (\<lambda>n. Some (of_nat n)) ns"
        unfolding words by (simp add: list_all_iff)
      then show ?thesis using True short full
        by (simp add: parse_legacy_ipv4_host_def legacy_address_def Let_def list_ex_iff image_iff comp_def flip: parts_def)
    next
      case False
      then show ?thesis using short full
        by (auto simp: parse_legacy_ipv4_host_def legacy_address_def Let_def words list_ex_iff list_all_iff
            simp flip: parts_def)
    qed
    also have "\<dots> = map_option of_nat (inet_aton host)"
      unfolding legacy_address_eq [OF ns(1,2)] inet_aton_def Let_def parts_def [symmetric] numbers
      using ns by (auto simp: map_butlast [symmetric] last_map comp_def)
    finally show ?thesis .
  qed
qed

lemma ip_target_public:
  "unmaps_ipv4 u \<Longrightarrow> validate_postgres_ip_target u kind ip False = Inr () \<longleftrightarrow> \<not> local_address ip"
  by (simp add: validate_postgres_ip_target_def sensitive_iff)

lemma host_value_public:
  "unmaps_ipv4 u \<Longrightarrow> validate_postgres_host_value u kind host False = Inr () \<Longrightarrow> public_target host"
  by (auto simp: validate_postgres_host_value_def validate_postgres_socket_path_def legacy_host
      validate_postgres_dns_target_def ip_target_public public_target_def literal_ip_def split: if_splits option.splits)

lemma hostaddr_public: "unmaps_ipv4 u \<Longrightarrow> validate_postgres_hostaddr u v False = Inr () \<Longrightarrow> public_target v"
  by (auto simp: validate_postgres_hostaddr_def ip_target_public public_target_def literal_ip_def split: option.splits)

lemma host_param_Inr:
  "unmaps_ipv4 u \<Longrightarrow> check_host_param u allow kv b = Inr b' \<Longrightarrow>
     (\<forall>c. \<exists>c'. check_host_param u allow kv c = Inr c') \<and> (b' \<longleftrightarrow> b \<or> is_target_param kv) \<and>
     (is_target_param kv \<longrightarrow> \<not> allow \<longrightarrow> public_target (snd kv))"
  using host_value_public [of u] hostaddr_public [of u]
  by (cases kv) (auto simp: check_host_param_def and_then_Inr_iff is_target_param_def split: if_splits)

lemma host_params_Inr:
  "unmaps_ipv4 u \<Longrightarrow> fold_result (check_host_param u allow) kvs b = Inr b' \<Longrightarrow>
     (\<exists>c'. fold_result (check_host_param u allow) kvs c = Inr c') \<and> (b' \<longleftrightarrow> b \<or> list_ex is_target_param kvs) \<and>
     (\<not> allow \<longrightarrow> (\<forall>kv \<in> set kvs. is_target_param kv \<longrightarrow> public_target (snd kv)))"
proof (induction kvs arbitrary: b c)
  case (Cons kv kvs)
  from Cons.prems(2) obtain b1 where step: "check_host_param u allow kv b = Inr b1"
    and rest: "fold_result (check_host_param u allow) kvs b1 = Inr b'"
    by (auto simp: and_then_Inr_iff)
  from host_param_Inr [OF Cons.prems(1) step] obtain c1 where "check_host_param u allow kv c = Inr c1" by blast
  with Cons.IH [OF Cons.prems(1) rest, of c1] host_param_Inr [OF Cons.prems(1) step] show ?case by auto
qed simp

text \<open>The narrower check before each connection depends on the URL and the option only.\<close>

definition revalidate_url :: "url_fns \<Rightarrow> str \<Rightarrow> bool \<Rightarrow> unit checked" where
  "revalidate_url u url allow =
     (case postgres_url_after_scheme url of
        None \<Rightarrow> Inr ()
      | Some after_scheme \<Rightarrow>
          and_then (case postgres_authority_host u after_scheme of
                      None \<Rightarrow> Inr () | Some host \<Rightarrow> validate_postgres_host_value u ''host'' host allow) (\<lambda>_.
          and_then (fold_result (check_host_param u allow) (postgres_query_params u url) False) (\<lambda>_. Inr ())))"

lemma revalidate_by_url:
  "revalidate_postgres_host u cfg = revalidate_url u (sc_database_url cfg) (sc_allow_private_database_url cfg)"
  by (simp add: revalidate_postgres_host_def revalidate_url_def Let_def)

lemma accepted_url_targets:
  assumes unmaps: "unmaps_ipv4 u" and ok: "validate_postgres_database_url u url False = Inr ()"
  shows "database_targets u url \<noteq> [] \<and> list_all public_target (database_targets u url) \<and>
    revalidate_url u url False = Inr ()"
proof (intro conjI)
  from ok obtain rest b where scheme: "postgres_url_after_scheme url = Some rest"
    and auth: "(case postgres_authority_host u rest of None \<Rightarrow> Inr False
      | Some host \<Rightarrow> and_then (validate_postgres_host_value u ''host'' host False) (\<lambda>_. Inr True)) = Inr b"
    and params: "fold_result (check_host_param u False) (postgres_query_params u url) b = Inr True"
    by (auto simp: validate_postgres_database_url_def and_then_Inr_iff split: option.splits if_splits)
  have b: "b \<longleftrightarrow> postgres_authority_host u rest \<noteq> None"
    using auth by (auto simp: and_then_Inr_iff split: option.splits)
  from host_params_Inr [OF unmaps params] obtain c where
    again: "fold_result (check_host_param u False) (postgres_query_params u url) False = Inr c"
    and some: "b \<or> list_ex is_target_param (postgres_query_params u url)"
    and public: "\<forall>kv \<in> set (postgres_query_params u url). is_target_param kv \<longrightarrow> public_target (snd kv)"
    by blast
  show "database_targets u url \<noteq> []"
    using some b scheme by (auto simp: database_targets_def list_ex_iff filter_empty_conv)
  show "list_all public_target (database_targets u url)"
    unfolding list_all_iff using public auth host_value_public [OF unmaps] scheme
    by (fastforce simp: database_targets_def and_then_Inr_iff split: option.splits)
  show "revalidate_url u url False = Inr ()"
    using scheme auth again by (auto simp: revalidate_url_def and_then_Inr_iff split: option.splits)
qed

text \<open>
  C30. No connection to a local server unless asked for: when a PostgreSQL configuration that
  does not set \<open>allow_private_database_url\<close> is accepted, its URL names at least one server, and
  every host it names, in the authority or in a query parameter, is a literal address, also in the legacy forms that
  \<open>inet_aton\<close> reads, and none in \<open>127.0.0.0/8\<close>, \<open>10.0.0.0/8\<close>, \<open>172.16.0.0/12\<close>,
  \<open>192.168.0.0/16\<close>, \<open>169.254.0.0/16\<close>, nor \<open>0.0.0.0\<close>, nor \<open>::1\<close>, \<open>::\<close>, \<open>fc00::/7\<close> or \<open>fe80::/10\<close>, nor a
  version 4 address of these in its mapped form of version 6, provided that \<open>normalize_mapped_ipv4\<close> unmaps such
  addresses. The narrower check before each connection accepts the URL too.
\<close>

theorem strict_database_targets:
  assumes "validate_config u cfg = Inr ()" and "sc_backend cfg = Postgres"
    and "\<not> sc_allow_private_database_url cfg" and "unmaps_ipv4 u"
  shows "database_targets u (sc_database_url cfg) \<noteq> [] \<and>
    list_all public_target (database_targets u (sc_database_url cfg)) \<and>
    revalidate_postgres_host u cfg = Inr ()"
proof -
  from assms have "validate_postgres_database_url u (sc_database_url cfg) False = Inr ()"
    by (auto simp: validate_config_def Let_def and_then_Inr_iff split: if_splits)
  from accepted_url_targets [OF assms(4) this] assms(3) show ?thesis by (simp add: revalidate_by_url)
qed

definition plain_urls :: url_fns where
  "plain_urls = \<lparr>percent_decode = (\<lambda>s. s), percent_decode_utf8 = Inr, 
     normalize_mapped_ipv4 = (\<lambda>ip. case ip of V6 g \<Rightarrow> (case mapped_v4 g of Some a \<Rightarrow> V4 a | None \<Rightarrow> ip) | _ \<Rightarrow> ip),
     has_dot_dot_traversal = (\<lambda>_. False)\<rparr>"

definition public_config :: "str \<Rightarrow> response_store_config" where
  "public_config url =
     \<lparr>sc_backend = Postgres, sc_database_url = url, sc_responses_table = ''r'', sc_conversations_table = ''c'',
      sc_ssl_mode = None, sc_ssl_root_cert = None, sc_allow_private_database_url = False\<rparr>"

lemma plain_urls_unmaps: "unmaps_ipv4 plain_urls"
  by (simp add: unmaps_ipv4_def plain_urls_def)

lemma strict_database_targets_witness:
  "database_targets plain_urls ''postgres://u:p@8.8.8.8:5432/db?hostaddr=9.9.9.9'' = [''8.8.8.8'', ''9.9.9.9''] \<and>
   public_target ''8.8.8.8'' \<and> public_target ''9.9.9.9''"
proof -
  have "validate_config plain_urls (public_config ''postgres://u:p@8.8.8.8:5432/db?hostaddr=9.9.9.9'') = Inr ()"
    by code_simp
  note targets = strict_database_targets [OF this _ _ plain_urls_unmaps]
  have "database_targets plain_urls ''postgres://u:p@8.8.8.8:5432/db?hostaddr=9.9.9.9'' = [''8.8.8.8'', ''9.9.9.9'']"
    by code_simp
  with targets show ?thesis by (simp add: public_config_def)
qed

text \<open>Names of the loopback address that are refused.\<close>

lemma disguised_loopback:
  "list_all (\<lambda>host. validate_postgres_host_value plain_urls ''host'' host False \<noteq> Inr ())
     [''127.0.0.1'', ''127.1'', ''0x7f000001'', ''2130706433'', ''0177.0.0.1'', ''127.0.0.1.'', ''localhost.'', ''::1'', ''::ffff:10.0.0.1'']"
  by code_simp

end
