(* ===== verification/Input_Items.thy ===== *)
theory Input_Items
  imports Store
begin

text \<open>
  Pages of the input items of a stored response
  (\<open>apis/src/openai/responses/store/input_items.rs\<close>).
\<close>

section \<open>Reading an unsigned number, with its errors\<close>

text \<open>\<open>str::parse\<close> for an unsigned integer of \<open>w\<close> bits and the text of its error.\<close>

definition parse_digit :: "nat \<Rightarrow> char \<Rightarrow> nat \<Rightarrow> str + nat" where
  "parse_digit w c acc =
     (case digit_val c of
        None \<Rightarrow> Inl ''invalid digit found in string''
      | Some d \<Rightarrow>
          if 10 * acc < 2 ^ w \<and> 10 * acc + d < 2 ^ w then Inr (10 * acc + d)
          else Inl ''number too large to fit in target type'')"

definition parse_unsigned :: "nat \<Rightarrow> str \<Rightarrow> str + nat" where
  "parse_unsigned w s =
     (if s = [] then Inl ''cannot parse integer from empty string''
      else if s = ''+'' \<or> s = ''-'' then Inl ''invalid digit found in string''
      else fold_result (parse_digit w) (if hd s = CHR ''+'' then tl s else s) 0)"

lemma parse_digits_show:
  assumes "digits_val acc s = Some n" and "n < 2 ^ w"
  shows "fold_result (parse_digit w) s acc = Inr n"
  using assms
proof (induction s arbitrary: acc)
  case Nil
  then show ?case by simp
next
  case (Cons c s)
  have mono: "digits_val a t = Some m \<Longrightarrow> a \<le> m" for a t m
    by (induction t arbitrary: a) (fastforce split: option.splits)+
  from Cons.prems obtain d where "digit_val c = Some d" and rest: "digits_val (10 * acc + d) s = Some n"
    by (auto split: option.splits)
  moreover from mono [OF rest] Cons.prems(2) have "10 * acc + d < 2 ^ w" by simp
  ultimately show ?case
    using Cons.IH [OF rest Cons.prems(2)] by (simp add: parse_digit_def)
qed

lemma parse_unsigned_show_nat: "n < 2 ^ w \<Longrightarrow> parse_unsigned w (show_nat n) = Inr n"
proof -
  assume "n < 2 ^ w"
  moreover obtain c cs where c: "show_nat n = c # cs" "c \<noteq> CHR ''+''" using show_nat_Cons by blast
  moreover have "show_nat n \<noteq> ''-''"
  proof
    assume "show_nat n = ''-''"
    with digits_val_show_nat [of n] have "digits_val 0 ''-'' = Some n" by simp
    moreover have "digits_val 0 ''-'' = None" by code_simp
    ultimately show False by simp
  qed
  ultimately show ?thesis
    using parse_digits_show [OF digits_val_show_nat, of n w] by (simp add: parse_unsigned_def del: fold_result.simps)
qed

section \<open>Pages\<close>

datatype order = Ascending | Descending

record list_params =
  lp_cursor :: "str option"
  lp_limit :: nat
  lp_order :: order

definition DEFAULT_PAGE_LIMIT :: nat where "DEFAULT_PAGE_LIMIT = 20"
definition MAX_PAGE_LIMIT :: nat where "MAX_PAGE_LIMIT = 100"

definition default_list_params :: list_params where
  "default_list_params = \<lparr>lp_cursor = None, lp_limit = DEFAULT_PAGE_LIMIT, lp_order = Descending\<rparr>"

definition effective_limit :: "list_params \<Rightarrow> nat" where
  "effective_limit params = max 1 (min MAX_PAGE_LIMIT (lp_limit params))"

record input_item_page =
  page_data :: "json list"
  page_next :: "str option"
  has_more :: bool

definition item_id :: "json \<Rightarrow> str option" where
  "item_id item = get_str item ''id''"

definition cursor_id_offset :: "json list \<Rightarrow> str \<Rightarrow> nat option" where
  "cursor_id_offset items cursor = map_option Suc (position (\<lambda>item. item_id item = Some cursor) items)"

definition cursor_offset :: "json list \<Rightarrow> str \<Rightarrow> store_error + nat" where
  "cursor_offset items cursor =
     (case cursor_id_offset items cursor of
        Some offset \<Rightarrow> Inr offset
      | None \<Rightarrow>
          (case parse_unsigned 64 cursor of
             Inl e \<Rightarrow> Inl (Invalid_input (''invalid input_items cursor: '' @ e))
           | Inr n \<Rightarrow> Inr n))"

definition page_next_cursor :: "json list \<Rightarrow> nat \<Rightarrow> bool \<Rightarrow> str option" where
  "page_next_cursor data end_pos is_more =
     (if \<not> is_more then None
      else
        (case (if data = [] then None else item_id (last data)) of
           Some i \<Rightarrow> Some i | None \<Rightarrow> Some (show_nat end_pos)))"

definition stored_input_items :: "response_record \<Rightarrow> order \<Rightarrow> json list" where
  "stored_input_items record ord =
     (let items = (case rr_input record of JArray arr \<Rightarrow> arr | other \<Rightarrow> [other])
      in if ord = Descending then rev items else items)"

definition list_input_items :: "response_record \<Rightarrow> list_params \<Rightarrow> store_error + input_item_page" where
  "list_input_items record params =
     (let items = stored_input_items record (lp_order params)
      in and_then (case lp_cursor params of None \<Rightarrow> Inr 0 | Some cursor \<Rightarrow> cursor_offset items cursor) (\<lambda>offset.
         let limit = effective_limit params
         in if offset + limit > usize_max then Inl (Invalid_input ''input_items cursor offset overflow'')
            else
              (let end_pos = min (offset + limit) (length items);
                   is_more = end_pos < length items;
                   data = take limit (drop offset items)
               in Inr \<lparr>page_data = data, page_next = page_next_cursor data end_pos is_more, has_more = is_more\<rparr>)))"

section \<open>Following the cursor reads every item once\<close>

text \<open>
  A client that asks again with the cursor of each page, at most \<open>fuel\<close> times. Cursors name an
  item when the ids the items carry are distinct and none of them reads as a position.
\<close>

fun read_pages :: "nat \<Rightarrow> response_record \<Rightarrow> list_params \<Rightarrow> json list option" where
  "read_pages 0 record params = None"
| "read_pages (Suc fuel) record params =
     (case list_input_items record params of
        Inl _ \<Rightarrow> None
      | Inr page \<Rightarrow>
          (case page_next page of
             None \<Rightarrow> Some (page_data page)
           | Some cursor \<Rightarrow>
               map_option (\<lambda>rest. page_data page @ rest) (read_pages fuel record (params\<lparr>lp_cursor := Some cursor\<rparr>))))"

definition cursors_clear :: "json list \<Rightarrow> bool" where
  "cursors_clear items \<longleftrightarrow>
     distinct (List.map_filter item_id items) \<and>
     list_all (\<lambda>i. digits_val 0 i = None) (List.map_filter item_id items)"

lemma list_input_items_at:
  assumes "items = stored_input_items record (lp_order params)" and "length items + 100 < 2 ^ 64"
    and "offset \<le> length items"
    and "(case lp_cursor params of None \<Rightarrow> Inr 0 | Some cursor \<Rightarrow> cursor_offset items cursor) = Inr offset"
  shows "list_input_items record params =
    (let limit = effective_limit params; end_pos = min (offset + limit) (length items);
         data = take limit (drop offset items)
     in Inr \<lparr>page_data = data, page_next = page_next_cursor data end_pos (end_pos < length items),
             has_more = end_pos < length items\<rparr>)"
proof -
  have "effective_limit params \<le> 100" by (simp add: effective_limit_def MAX_PAGE_LIMIT_def)
  with assms(2,3) have "offset + effective_limit params \<le> usize_max" by (simp add: usize_max_def)
  then show ?thesis
    by (simp add: list_input_items_def Let_def assms(1) [symmetric] assms(4))
qed

lemma map_filter_set: "y \<in> set (List.map_filter f xs) \<longleftrightarrow> (\<exists>x \<in> set xs. f x = Some y)"
  by (force simp: List.map_filter_def)

lemma distinct_map_filter_nth:
  assumes "distinct (List.map_filter f xs)" and "f (xs ! j) = Some y" and "j < length xs" and "i < j"
  shows "f (xs ! i) \<noteq> Some y"
  using assms
proof (induction xs arbitrary: i j)
  case (Cons x xs)
  from Cons.prems obtain k where k: "j = Suc k" by (cases j) auto
  show ?case
  proof (cases i)
    case 0
    from Cons.prems k have "f (xs ! k) = Some y" "k < length xs" by simp_all
    then have "y \<in> set (List.map_filter f xs)" using nth_mem [of k xs] by (auto simp: map_filter_set)
    with Cons.prems 0 show ?thesis by (auto simp: List.map_filter_simps)
  next
    case (Suc l)
    have "distinct (List.map_filter f xs)" using Cons.prems(1) by (auto simp: List.map_filter_simps split: option.splits)
    with Cons.IH [of k l] Cons.prems k Suc show ?thesis by simp
  qed
qed simp

lemma next_cursor_offset:
  assumes "cursors_clear items" and "0 < e" and "e < length items" and "length items < 2 ^ 64"
    and "data \<noteq> []" and "last data = items ! (e - 1)"
  shows "\<exists>c. page_next_cursor data e True = Some c \<and> cursor_offset items c = Inr e"
proof (cases "item_id (items ! (e - 1))")
  case None
  have "\<forall>item \<in> set items. item_id item \<noteq> Some (show_nat e)"
    using assms(1) digits_val_show_nat [of e] by (force simp: cursors_clear_def list_all_iff map_filter_set)
  then have "position (\<lambda>item. item_id item = Some (show_nat e)) items = None" by (simp add: position_None_iff)
  with None assms show ?thesis
    by (simp add: page_next_cursor_def cursor_offset_def cursor_id_offset_def parse_unsigned_show_nat)
next
  case (Some i)
  have "position (\<lambda>item. item_id item = Some i) items = Some (e - 1)"
    using Some assms(1-3) distinct_map_filter_nth [of item_id items "e - 1" i]
    by (simp add: position_Some_iff cursors_clear_def)
  with Some assms show ?thesis
    by (simp add: page_next_cursor_def cursor_offset_def cursor_id_offset_def)
qed

lemma read_pages_from:
  assumes "items = stored_input_items record (lp_order params)" and "cursors_clear items"
    and "length items + 100 < 2 ^ 64" and "offset \<le> length items"
    and "length items - offset < fuel * effective_limit params"
    and "(case lp_cursor params of None \<Rightarrow> Inr 0 | Some cursor \<Rightarrow> cursor_offset items cursor) = Inr offset"
  shows "read_pages fuel record params = Some (drop offset items)"
  using assms
proof (induction fuel arbitrary: params offset)
  case 0
  then show ?case by simp
next
  case (Suc fuel)
  define limit where "limit = effective_limit params"
  define e where "e = min (offset + limit) (length items)"
  define data where "data = take limit (drop offset items)"
  have page: "list_input_items record params = Inr \<lparr>page_data = data,
      page_next = page_next_cursor data e (e < length items), has_more = e < length items\<rparr>"
    using list_input_items_at [OF Suc.prems(1,3,4,6)] by (simp add: Let_def limit_def e_def data_def)
  show ?case
  proof (cases "e < length items")
    case False
    then have "data = drop offset items" by (simp add: data_def e_def)
    with False show ?thesis by (simp add: page page_next_cursor_def)
  next
    case True
    have pos: "0 < limit" by (simp add: limit_def effective_limit_def)
    from True have e: "e = offset + limit" by (simp add: e_def)
    with True pos have "data \<noteq> []" "last data = items ! (e - 1)"
      by (auto simp: data_def last_conv_nth)
    from next_cursor_offset [OF Suc.prems(2) _ True _ this] e pos Suc.prems(3)
    obtain c where c: "page_next_cursor data e True = Some c" "cursor_offset items c = Inr e" by auto
    have lim: "effective_limit (params\<lparr>lp_cursor := Some c\<rparr>) = limit"
      by (simp add: effective_limit_def limit_def)
    have "length items - e < fuel * limit"
      using Suc.prems(5) e True by (simp add: limit_def)
    with Suc.IH [of "params\<lparr>lp_cursor := Some c\<rparr>" e] Suc.prems(1-3) c(2) True lim
    have "read_pages fuel record (params\<lparr>lp_cursor := Some c\<rparr>) = Some (drop e items)" by simp
    moreover have "data @ drop e items = drop offset items"
      by (simp add: data_def e) (metis add.commute append_take_drop_id drop_drop)
    ultimately show ?thesis using True c(1) by (simp add: page)
  qed
qed

text \<open>
  C31. Following the cursors terminates and loses nothing: from the first request, a client that
  asks for the next page with the cursor it was given gets, after at most one page per
  \<open>limit\<close> items and one more, every input item of the response exactly once and in the order
  asked for, as long as the ids of the items are distinct and do not look like positions.
\<close>

theorem input_pages_complete:
  assumes "items = stored_input_items record (lp_order params)" and "cursors_clear items"
    and "length items + 100 < 2 ^ 64" and "lp_cursor params = None"
  shows "read_pages (length items div effective_limit params + 1) record params = Some items"
proof -
  have "0 < effective_limit params" by (simp add: effective_limit_def)
  then have "length items < (length items div effective_limit params + 1) * effective_limit params"
    by (metis dividend_less_div_times Suc_eq_plus1 mult.commute mult_Suc_right add.commute)
  with read_pages_from [OF assms(1-3), of 0] assms(4) show ?thesis by (simp del: read_pages.simps)
qed

definition three_items :: response_record where
  "three_items =
     \<lparr>rr_id = ''r'', rr_tenant_id = ''t'', rr_created_at = 0, rr_model = ''m'', rr_response_object = JNull,
      rr_input = JArray [jobj [(''id'', JString ''a'')], JString ''x'', jobj [(''id'', JString ''b'')]],
      rr_messages = JNull\<rparr>"

definition newest_first :: "json list" where
  "newest_first = [jobj [(''id'', JString ''b'')], JString ''x'', jobj [(''id'', JString ''a'')]]"

lemma input_pages_complete_witness:
  "read_pages 4 three_items \<lparr>lp_cursor = None, lp_limit = 1, lp_order = Descending\<rparr> = Some newest_first"
proof -
  let ?params = "\<lparr>lp_cursor = None, lp_limit = 1, lp_order = Descending\<rparr>"
  have items: "newest_first = stored_input_items three_items (lp_order ?params)"
    by (simp add: stored_input_items_def three_items_def newest_first_def)
  have "cursors_clear newest_first" by code_simp
  moreover have "length newest_first div effective_limit ?params + 1 = 4" "length newest_first + 100 < 2 ^ 64"
    by code_simp+
  ultimately show ?thesis
    using input_pages_complete [OF items] by (simp del: read_pages.simps add: newest_first_def [symmetric])
qed

end
