(* ===== verification/Response_Store.thy ===== *)
theory Response_Store
  imports Rehydrate Store_Config Input_Items
begin

text \<open>
  The filter \<open>openai_response_store\<close> (\<open>apis/src/openai/responses/store/filter.rs\<close>) and the
  registry of stores (\<open>apis/src/store/mod.rs\<close>): it stores the responses of non-streaming requests
  and serves retrieval, the list of input items and deletion from the store.
\<close>

section \<open>Opening a store\<close>

text \<open>
  Connecting and creating the tables is the driver's: from the URL (and the TLS options) and the
  statements it makes a handle or an error.
\<close>

record connector =
  open_sqlite :: "str \<Rightarrow> str list \<Rightarrow> str + nat"
  open_postgres :: "str \<Rightarrow> ssl_mode option \<Rightarrow> str option \<Rightarrow> str list \<Rightarrow> str + nat"

definition opened :: "str + nat \<Rightarrow> store_error + nat" where
  "opened r = map_sum Database id r"

definition sqlite_new :: "connector \<Rightarrow> str \<Rightarrow> table_names \<Rightarrow> store_error + nat" where
  "sqlite_new conn url tables =
     and_then (generate_ddl tables) (\<lambda>ddl. opened (open_sqlite conn url ddl))"

definition postgres_new ::
  "connector \<Rightarrow> str \<Rightarrow> table_names \<Rightarrow> ssl_mode option \<Rightarrow> str option \<Rightarrow> store_error + nat" where
  "postgres_new conn url tables mode cert =
     and_then (validate_postgres_identifiers tables) (\<lambda>_.
     and_then (generate_ddl tables) (\<lambda>ddl. opened (open_postgres conn url mode cert ddl)))"

definition config_tables :: "response_store_config \<Rightarrow> table_names" where
  "config_tables cfg =
     \<lparr>tn_responses = sc_responses_table cfg, tn_conversations = sc_conversations_table cfg, tn_items = None\<rparr>"

definition build_store :: "url_fns \<Rightarrow> connector \<Rightarrow> response_store_config \<Rightarrow> store_error + nat" where
  "build_store u conn cfg =
     (case sc_backend cfg of
        Sqlite \<Rightarrow> sqlite_new conn (sc_database_url cfg) (config_tables cfg)
      | Postgres \<Rightarrow>
          (case revalidate_postgres_host u cfg of
             Inl e \<Rightarrow> Inl (Unavailable (''postgres host validation failed before connect: '' @ e))
           | Inr _ \<Rightarrow> postgres_new conn (sc_database_url cfg) (config_tables cfg) (sc_ssl_mode cfg) (sc_ssl_root_cert cfg)))"

text \<open>
  The cell of the filter: empty, or the outcome of the initialisation. A failed one is final for
  SQLite and tried again for PostgreSQL.
\<close>

type_synonym store_cell = "nat option option"

definition get_or_init_store ::
  "url_fns \<Rightarrow> connector \<Rightarrow> response_store_config \<Rightarrow> store_cell \<Rightarrow> store_cell \<times> nat option" where
  "get_or_init_store u conn cfg cell =
     (case cell of
        Some store \<Rightarrow> (cell, store)
      | None \<Rightarrow>
          (case build_store u conn cfg of
             Inr h \<Rightarrow> (Some (Some h), Some h)
           | Inl _ \<Rightarrow> (case sc_backend cfg of Sqlite \<Rightarrow> (Some None, None) | Postgres \<Rightarrow> (None, None))))"

section \<open>The registry\<close>

definition registry_register :: "str \<Rightarrow> nat \<Rightarrow> (str \<rightharpoonup> nat) \<Rightarrow> (str \<rightharpoonup> nat) \<times> (store_error + unit)" where
  "registry_register name store stores =
     (case stores name of
        None \<Rightarrow> (stores(name \<mapsto> store), Inr ())
      | Some _ \<Rightarrow> (stores, Inl (Unavailable (''response store '' @ quoted name @ '' is already registered''))))"

definition register_store_in_context :: "nat \<Rightarrow> exchange \<Rightarrow> exchange" where
  "register_store_in_context store ex =
     (case ex_registry ex of
        None \<Rightarrow> ex
      | Some registry \<Rightarrow>
          if registry DEFAULT_STORE_NAME \<noteq> None then ex
          else ex\<lparr>ex_registry := Some (fst (registry_register DEFAULT_STORE_NAME store registry))\<rparr>)"

section \<open>What is stored\<close>

definition as_i64 :: "json \<Rightarrow> int option" where
  "as_i64 v =
     (case v of
        JNumber (PosInt n) \<Rightarrow> if unat n < 2 ^ 63 then Some (int (unat n)) else None
      | JNumber (NegInt n) \<Rightarrow> Some (sint n)
      | _ \<Rightarrow> None)"

definition extract_request_input :: "externals \<Rightarrow> bytes option \<Rightarrow> json option" where
  "extract_request_input ext body =
     (case body of
        None \<Rightarrow> None
      | Some bytes \<Rightarrow>
          if bytes = [] then None
          else (case from_slice ext bytes of Inl _ \<Rightarrow> None | Inr json \<Rightarrow> jget json ''input''))"

definition assemble_stored_messages :: "json \<Rightarrow> json \<Rightarrow> json" where
  "assemble_stored_messages input output =
     (let messages = append_stored_input_items input []
      in JArray (if is_null output then messages
                 else (case as_array output of Some items \<Rightarrow> messages @ items | None \<Rightarrow> messages @ [output])))"

text \<open>The input and the messages of the record.\<close>

definition from_response_json :: "json \<Rightarrow> json option \<Rightarrow> json list option \<Rightarrow> json \<times> json" where
  "from_response_json json request_input state_messages =
     (let input = unwrap_or JNull (case request_input of Some i \<Rightarrow> Some i | None \<Rightarrow> jget json ''input'');
          output = unwrap_or JNull (jget json ''output'');
          history_input = (case state_messages of None \<Rightarrow> input | Some ms \<Rightarrow> JArray ms)
      in (input, assemble_stored_messages history_input output))"

definition parse_response_record ::
  "externals \<Rightarrow> bytes \<Rightarrow> str \<Rightarrow> json option \<Rightarrow> json list option \<Rightarrow> response_record option" where
  "parse_response_record ext bytes tenant_id request_input state_messages =
     (case from_slice ext bytes of
        Inl _ \<Rightarrow> None
      | Inr json \<Rightarrow>
          (case (get_str json ''id'', Option.bind (jget json ''created_at'') as_i64, get_str json ''model'') of
             (Some i, Some created_at, Some model) \<Rightarrow>
               (let (input, messages) = from_response_json json request_input state_messages
                in Some \<lparr>rr_id = i, rr_tenant_id = tenant_id, rr_created_at = created_at, rr_model = model,
                         rr_response_object = json, rr_input = input, rr_messages = messages\<rparr>)
           | _ \<Rightarrow> None))"

section \<open>Whether to store\<close>

definition is_responses_format :: "filter_ctx \<Rightarrow> bool" where
  "is_responses_format ctx \<longleftrightarrow> meta_eq ctx ''openai_responses_format.format'' ''openai_responses''"
definition is_non_responses_format :: "filter_ctx \<Rightarrow> bool" where
  "is_non_responses_format ctx \<longleftrightarrow> \<not> is_responses_format ctx"
definition is_non_post_request :: "filter_ctx \<Rightarrow> bool" where
  "is_non_post_request ctx \<longleftrightarrow> req_method ctx \<noteq> ''POST''"
definition is_store_disabled :: "filter_ctx \<Rightarrow> bool" where
  "is_store_disabled ctx \<longleftrightarrow> meta_eq ctx ''openai_responses_format.store'' ''false''"
definition rs_is_streaming_request :: "filter_ctx \<Rightarrow> bool" where
  "rs_is_streaming_request ctx \<longleftrightarrow> meta_eq ctx ''openai_responses_format.stream'' ''true''"
definition meta_has_previous_response_id :: "filter_ctx \<Rightarrow> bool" where
  "meta_has_previous_response_id ctx \<longleftrightarrow>
     meta_eq ctx ''openai_responses_format.has_previous_response_id'' ''true''"

definition should_skip :: "filter_ctx \<Rightarrow> bool" where
  "should_skip ctx \<longleftrightarrow>
     is_non_post_request ctx \<or> is_non_responses_format ctx \<or> is_store_disabled ctx \<or> rs_is_streaming_request ctx"

definition request_will_persist_response :: "filter_ctx \<Rightarrow> bool" where
  "request_will_persist_response ctx \<longleftrightarrow>
     req_method ctx = ''POST'' \<and> is_responses_format ctx \<and> \<not> is_store_disabled ctx \<and> \<not> rs_is_streaming_request ctx"

definition request_needs_rehydrate_store :: "filter_ctx \<Rightarrow> bool" where
  "request_needs_rehydrate_store ctx \<longleftrightarrow>
     req_method ctx = ''POST'' \<and> is_responses_format ctx \<and> meta_has_previous_response_id ctx"

definition should_init_store_for_request :: "filter_ctx \<Rightarrow> bool" where
  "should_init_store_for_request ctx \<longleftrightarrow>
     request_will_persist_response ctx \<or> request_needs_rehydrate_store ctx"

definition should_skip_persist :: "filter_ctx \<Rightarrow> bool" where
  "should_skip_persist ctx \<longleftrightarrow> should_skip ctx \<or> meta_eq ctx ''responses.skip_persist'' ''true''"

definition is_json_content_type :: "str \<Rightarrow> bool" where
  "is_json_content_type ct =
     eq_ignore_ascii_case (trim (unwrap_or [] (first_of (split_char (CHR '';'') ct)))) ''application/json''"

definition skip_persist :: "filter_ctx \<Rightarrow> filter_ctx" where
  "skip_persist ctx = set_metadata ''responses.skip_persist'' ''true'' ctx"

definition response_is_persistable :: "externals \<Rightarrow> filter_ctx \<Rightarrow> filter_ctx \<times> bool" where
  "response_is_persistable ext ctx =
     (case response_header ctx of
        None \<Rightarrow> (ctx, True)
      | Some resp \<Rightarrow>
          if \<not> is_success ext (status resp) then (skip_persist ctx, False)
          else
            (case Option.bind (resp_headers resp ''content-type'') (header_text ext) of
               None \<Rightarrow> (skip_persist ctx, False)
             | Some ct \<Rightarrow> if is_json_content_type ct then (ctx, True) else (skip_persist ctx, False)))"

section \<open>Answers\<close>

definition json_rejection :: "nat \<Rightarrow> bytes \<Rightarrow> rejection" where
  "json_rejection st body =
     \<lparr>rej_status = st, rej_headers = [(''content-type'', ''application/json'')], rej_body = body\<rparr>"

definition delete_success_rejection :: "externals \<Rightarrow> str \<Rightarrow> filter_error + rejection" where
  "delete_success_rejection ext i =
     (case to_text ext (jobj [(''id'', JString i), (''object'', JString ''response.deleted''), (''deleted'', JBool True)]) of
        Inl e \<Rightarrow> Inl (''openai_response_store: serialize failed: '' @ e)
      | Inr body \<Rightarrow> Inr (json_rejection 200 body))"

definition delete_not_found_rejection :: "externals \<Rightarrow> str \<Rightarrow> rejection" where
  "delete_not_found_rejection ext i =
     responses_error_rejection ext 404 ''invalid_request_error''
       (''No response found with id: '' @ quoted i @ ''.'') False"

definition reject_not_found :: "externals \<Rightarrow> str \<Rightarrow> rejection" where
  "reject_not_found ext i =
     responses_error_rejection ext 404 ''invalid_request_error''
       (''No response found with id '' @ quoted i @ ''.'') False"

definition reject_invalid_input :: "externals \<Rightarrow> str \<Rightarrow> rejection" where
  "reject_invalid_input ext message = responses_error_rejection ext 400 ''invalid_request_error'' message False"

definition reject_store_error :: "externals \<Rightarrow> rejection" where
  "reject_store_error ext = responses_error_rejection ext 500 ''server_error'' ''Internal server error.'' False"

definition build_input_items_ok :: "externals \<Rightarrow> input_item_page \<Rightarrow> filter_action" where
  "build_input_items_ok ext page =
     (let or_null = (\<lambda>item. case Option.bind item item_id of None \<Rightarrow> JNull | Some i \<Rightarrow> JString i);
          body = jobj [(''object'', JString ''list''), (''data'', JArray (page_data page)),
                       (''has_more'', JBool (has_more page)),
                       (''first_id'', or_null (first_of (page_data page))),
                       (''last_id'', or_null (first_of (rev (page_data page))))]
      in Reject (json_rejection 200 (text_or_default ext body)))"

definition build_input_items_response :: "externals \<Rightarrow> response_record \<Rightarrow> list_params \<Rightarrow> filter_action" where
  "build_input_items_response ext record params =
     (case list_input_items record params of
        Inr page \<Rightarrow> build_input_items_ok ext page
      | Inl (Invalid_input msg) \<Rightarrow> Reject (reject_invalid_input ext msg)
      | Inl _ \<Rightarrow> Reject (reject_store_error ext))"

definition query_param :: "url_fns \<Rightarrow> str \<Rightarrow> list_params \<Rightarrow> list_params" where
  "query_param u pair params =
     (case split_once ''='' pair of
        None \<Rightarrow> params
      | Some (key, v) \<Rightarrow>
          if key = ''after'' then params\<lparr>lp_cursor := Some (percent_decode u v)\<rparr>
          else if key = ''limit'' then
            (case parse_uint 32 v of None \<Rightarrow> params | Some n \<Rightarrow> params\<lparr>lp_limit := n\<rparr>)
          else if key = ''order'' then
            (if v = ''asc'' then params\<lparr>lp_order := Ascending\<rparr>
             else if v = ''desc'' then params\<lparr>lp_order := Descending\<rparr> else params)
          else params)"

definition parse_query_params :: "url_fns \<Rightarrow> str option \<Rightarrow> list_params" where
  "parse_query_params u query =
     (case query of
        None \<Rightarrow> default_list_params
      | Some qs \<Rightarrow> fold (query_param u) (split_char (CHR ''&'') qs) default_list_params)"

section \<open>Handlers\<close>

text \<open>The exchange, the cell of the filter and the databases.\<close>

record store_run =
  sr_ex :: exchange
  sr_cell :: store_cell
  sr_dbs :: databases

text \<open>What does not change while the filter runs.\<close>

record store_filter =
  sf_ext :: externals
  sf_url :: url_fns
  sf_connector :: connector
  sf_config :: response_store_config

definition ensure_store :: "store_filter \<Rightarrow> store_run \<Rightarrow> store_run \<times> nat option" where
  "ensure_store f run =
     (let (cell, store) = get_or_init_store (sf_url f) (sf_connector f) (sf_config f) (sr_cell run)
      in (run\<lparr>sr_cell := cell\<rparr>, store))"

definition extract_response_id :: "str \<Rightarrow> str option" where
  "extract_response_id path =
     (let p = unwrap_or path (strip_suffix ''/'' path)
      in case split_char (CHR ''/'') p of
           [a, b, c, i] \<Rightarrow>
             if a = [] \<and> b = ''v1'' \<and> c = ''responses'' \<and> i \<noteq> [] then Some i else None
         | _ \<Rightarrow> None)"

definition handle_delete ::
  "store_filter \<Rightarrow> str \<Rightarrow> str \<Rightarrow> store_run \<Rightarrow> store_run \<times> (filter_error + filter_action)" where
  "handle_delete f tenant_id i run =
     (case ensure_store f run of
        (run1, None) \<Rightarrow> (run1, Inr Continue)
      | (run1, Some store) \<Rightarrow>
          (case delete_response tenant_id i (sr_dbs run1 store) of
             Inl e \<Rightarrow> (run1, Inl (''openai_response_store: delete failed: '' @ store_error_text e))
           | Inr (db, deleted) \<Rightarrow>
               (run1\<lparr>sr_dbs := (sr_dbs run1)(store := db)\<rparr>,
                if deleted then and_then (delete_success_rejection (sf_ext f) i) (\<lambda>r. Inr (Reject r))
                else Inr (Reject (delete_not_found_rejection (sf_ext f) i)))))"

definition handle_get_response :: "store_filter \<Rightarrow> str \<Rightarrow> store_run \<Rightarrow> store_run \<times> filter_action" where
  "handle_get_response f i run =
     (case ensure_store f run of
        (run1, None) \<Rightarrow> (run1, Reject (reject_store_error (sf_ext f)))
      | (run1, Some store) \<Rightarrow>
          (run1,
           case get_response (sf_ext f) (tenant_of (ex_ctx (sr_ex run1))) i (sr_dbs run1 store) of
             Inr (Some record) \<Rightarrow> Reject (json_rejection 200 (text_or_default (sf_ext f) (rr_response_object record)))
           | Inr None \<Rightarrow> Reject (reject_not_found (sf_ext f) i)
           | Inl _ \<Rightarrow> Reject (reject_store_error (sf_ext f))))"

definition handle_get_input_items ::
  "store_filter \<Rightarrow> str option \<Rightarrow> str \<Rightarrow> store_run \<Rightarrow> store_run \<times> filter_action" where
  "handle_get_input_items f query i run =
     (case ensure_store f run of
        (run1, None) \<Rightarrow> (run1, Reject (reject_store_error (sf_ext f)))
      | (run1, Some store) \<Rightarrow>
          (run1,
           case get_response (sf_ext f) (tenant_of (ex_ctx (sr_ex run1))) i (sr_dbs run1 store) of
             Inr (Some record) \<Rightarrow> build_input_items_response (sf_ext f) record (parse_query_params (sf_url f) query)
           | Inr None \<Rightarrow> Reject (reject_not_found (sf_ext f) i)
           | Inl _ \<Rightarrow> Reject (reject_store_error (sf_ext f))))"

definition try_get_retrieval ::
  "store_filter \<Rightarrow> str option \<Rightarrow> store_run \<Rightarrow> store_run \<times> filter_action option" where
  "try_get_retrieval f query run =
     (let path = req_path (ex_ctx (sr_ex run));
          p = (case strip_suffix ''/'' path of None \<Rightarrow> path | Some q \<Rightarrow> if q \<noteq> [] then q else path)
      in case split_char (CHR ''/'') p of
           [a, b, c, i] \<Rightarrow>
             if a = [] \<and> b = ''v1'' \<and> c = ''responses'' \<and> i \<noteq> [] then
               map_prod id Some (handle_get_response f i run)
             else (run, None)
         | [a, b, c, i, d] \<Rightarrow>
             if a = [] \<and> b = ''v1'' \<and> c = ''responses'' \<and> i \<noteq> [] \<and> d = ''input_items'' then
               map_prod id Some (handle_get_input_items f query i run)
             else (run, None)
         | _ \<Rightarrow> (run, None))"

definition init_store_for_request :: "store_filter \<Rightarrow> store_run \<Rightarrow> store_run" where
  "init_store_for_request f run =
     (let will_persist = request_will_persist_response (ex_ctx (sr_ex run))
      in case ensure_store f run of
           (run1, Some store) \<Rightarrow> run1\<lparr>sr_ex := register_store_in_context store (sr_ex run1)\<rparr>
         | (run1, None) \<Rightarrow>
             if will_persist then
               run1\<lparr>sr_ex := (sr_ex run1)\<lparr>ex_ctx := skip_persist (ex_ctx (sr_ex run1))\<rparr>\<rparr>
             else run1)"

definition store_on_request ::
  "store_filter \<Rightarrow> str option \<Rightarrow> store_run \<Rightarrow> store_run \<times> (filter_error + filter_action)" where
  "store_on_request f query run =
     (let ctx = ex_ctx (sr_ex run)
      in if req_method ctx = ''GET'' then
           (case try_get_retrieval f query run of (run1, action) \<Rightarrow> (run1, Inr (unwrap_or Continue action)))
         else if req_method ctx = ''DELETE'' then
           (case extract_response_id (req_path ctx) of
              None \<Rightarrow> (run, Inr Continue)
            | Some i \<Rightarrow> handle_delete f (tenant_of ctx) i run)
         else if \<not> should_init_store_for_request ctx then (run, Inr Continue)
         else (init_store_for_request f run, Inr Continue))"

definition store_on_request_body ::
  "store_filter \<Rightarrow> bytes option \<Rightarrow> bool \<Rightarrow> store_run \<Rightarrow> store_run \<times> filter_action" where
  "store_on_request_body f body end_of_stream run =
     (let ctx = ex_ctx (sr_ex run)
      in if \<not> end_of_stream \<or> req_method ctx \<noteq> ''POST'' then (run, Continue)
         else
           (let run1 = (if should_skip ctx then run
                        else (case extract_request_input (sf_ext f) body of
                                None \<Rightarrow> run
                              | Some input \<Rightarrow> run\<lparr>sr_ex := (sr_ex run)\<lparr>ex_request_input := Some input\<rparr>\<rparr>))
            in (if should_init_store_for_request ctx then init_store_for_request f run1 else run1, Continue)))"

definition store_on_response :: "store_filter \<Rightarrow> store_run \<Rightarrow> store_run \<times> filter_action" where
  "store_on_response f run =
     (let ctx = ex_ctx (sr_ex run)
      in if should_skip_persist ctx then (run, Continue)
         else
           (case response_is_persistable (sf_ext f) ctx of
              (ctx1, False) \<Rightarrow> (run\<lparr>sr_ex := (sr_ex run)\<lparr>ex_ctx := ctx1\<rparr>\<rparr>, Continue)
            | (ctx1, True) \<Rightarrow>
                (case ensure_store f run of
                   (run1, None) \<Rightarrow> (run1\<lparr>sr_ex := (sr_ex run1)\<lparr>ex_ctx := skip_persist ctx1\<rparr>\<rparr>, Continue)
                 | (run1, Some _) \<Rightarrow> (run1, Continue))))"

definition should_release_skipped_response_body :: "store_run \<Rightarrow> bool" where
  "should_release_skipped_response_body run \<longleftrightarrow>
     get_metadata (ex_ctx (sr_ex run)) ''responses._reformat_error'' = None \<and>
     (should_skip_persist (ex_ctx (sr_ex run)) \<or> Option.bind (sr_cell run) (\<lambda>s. s) = None)"

definition terminal_store_and_body :: "store_run \<Rightarrow> bytes option \<Rightarrow> (nat \<times> bytes) option" where
  "terminal_store_and_body run body =
     (if should_skip_persist (ex_ctx (sr_ex run)) then None
      else
        (case (Option.bind (sr_cell run) (\<lambda>s. s), body) of
           (Some store, Some bytes) \<Rightarrow> if bytes \<noteq> [] then Some (store, bytes) else None
         | _ \<Rightarrow> None))"

definition store_on_response_body ::
  "store_filter \<Rightarrow> bytes option \<Rightarrow> bool \<Rightarrow> store_run \<Rightarrow> store_run \<times> (filter_error + filter_action)" where
  "store_on_response_body f body end_of_stream run =
     (if should_release_skipped_response_body run then (run, Inr Release)
      else if \<not> end_of_stream then (run, Inr Continue)
      else
        (case terminal_store_and_body run body of
           None \<Rightarrow> (run, Inr Continue)
         | Some (store, bytes) \<Rightarrow>
             (let ex = sr_ex run;
                  run1 = run\<lparr>sr_ex := ex\<lparr>ex_request_input := None\<rparr>\<rparr>
              in case parse_response_record (sf_ext f) bytes (tenant_of (ex_ctx ex)) (ex_request_input ex)
                        (map_option st_persisted_messages (ex_state ex)) of
                   None \<Rightarrow> (run1, Inr Continue)
                 | Some record \<Rightarrow>
                     (case upsert_response (sf_ext f) record (sr_dbs run1 store) of
                        Inl e \<Rightarrow> (run1, Inl (store_error_text e))
                      | Inr db \<Rightarrow> (run1\<lparr>sr_dbs := (sr_dbs run1)(store := db)\<rparr>, Inr Continue)))))"

end
