(* ===== verification/Responses_Turns.thy ===== *)
theory Responses_Turns
  imports Response_Store
begin

text \<open>
  Conversations over several requests: the store, rehydrate and proxy filters in the order of
  \<open>examples/configs/openai/responses/full-flow.yaml\<close>, and what they promise together. The
  backend sees the history, tenants do not see each other, and a deleted response is gone.
\<close>

section \<open>One turn\<close>

text \<open>The request phase; a rejection ends it. The response phase stores the answer.\<close>

definition turn_request ::
  "store_filter \<Rightarrow> nat \<Rightarrow> bytes \<Rightarrow> store_run \<Rightarrow> (store_run \<times> bytes) option" where
  "turn_request f max_body body run =
     (let run1 = fst (store_on_request_body f (Some body) True run);
          (ex2, action) = rehydrate_on_request_body (sf_ext f) (sr_dbs run1) (sr_ex run1) (Some body) True
      in case action of
           Reject _ \<Rightarrow> None
         | _ \<Rightarrow>
             (case proxy_on_request_body (sf_ext f) max_body ex2 (Some body) True of
                Inr (ex3, Some out, Continue) \<Rightarrow> Some (run1\<lparr>sr_ex := ex3\<rparr>, out)
              | _ \<Rightarrow> None))"

definition turn_response ::
  "store_filter \<Rightarrow> response_head \<Rightarrow> bytes \<Rightarrow> store_run \<Rightarrow> store_run option" where
  "turn_response f head response run =
     (let ex = sr_ex run;
          run1 = run\<lparr>sr_ex := ex\<lparr>ex_ctx := (ex_ctx ex)\<lparr>response_header := Some head\<rparr>\<rparr>\<rparr>;
          run2 = fst (store_on_response f run1)
      in case store_on_response_body f (Some response) True run2 of
           (run3, Inr _) \<Rightarrow> Some run3
         | (_, Inl _) \<Rightarrow> None)"

text \<open>
  A turn: the context of its request, the bytes of request and response and the values they
  parse to.
\<close>

record turn =
  t_ctx :: filter_ctx
  t_body :: bytes
  t_request :: json
  t_head :: response_head
  t_response :: bytes
  t_reply :: json

definition fresh_exchange :: "filter_ctx \<Rightarrow> (str \<rightharpoonup> nat) \<Rightarrow> exchange" where
  "fresh_exchange ctx registry =
     \<lparr>ex_ctx = ctx, ex_registry = Some registry, ex_state = None, ex_request_input = None\<rparr>"

definition exchange_turn ::
  "store_filter \<Rightarrow> nat \<Rightarrow> (str \<rightharpoonup> nat) \<Rightarrow> turn \<Rightarrow> store_cell \<Rightarrow> databases
     \<Rightarrow> (bytes \<times> store_cell \<times> databases) option" where
  "exchange_turn f max_body registry t cell dbs =
     Option.bind (turn_request f max_body (t_body t)
       \<lparr>sr_ex = fresh_exchange (t_ctx t) registry, sr_cell = cell, sr_dbs = dbs\<rparr>) (\<lambda>(run, out).
     Option.bind (turn_response f (t_head t) (t_response t) run) (\<lambda>run'.
       Some (out, sr_cell run', sr_dbs run')))"

fun conversation ::
  "store_filter \<Rightarrow> nat \<Rightarrow> (str \<rightharpoonup> nat) \<Rightarrow> turn list \<Rightarrow> store_cell \<Rightarrow> databases
     \<Rightarrow> (bytes list \<times> store_cell \<times> databases) option" where
  "conversation f max_body registry [] cell dbs = Some ([], cell, dbs)"
| "conversation f max_body registry (t # ts) cell dbs =
     Option.bind (exchange_turn f max_body registry t cell dbs) (\<lambda>(out, cell', dbs').
     Option.bind (conversation f max_body registry ts cell' dbs') (\<lambda>(outs, end_state).
       Some (out # outs, end_state)))"

section \<open>What a turn adds and sends\<close>

definition new_items :: "turn \<Rightarrow> json list" where
  "new_items t = normalize_input (t_request t)"

definition reply_items :: "turn \<Rightarrow> json list" where
  "reply_items t = unwrap_or [] (get_array (t_reply t) ''output'')"

definition reply_id :: "turn \<Rightarrow> str" where
  "reply_id t = unwrap_or [] (get_str (t_reply t) ''id'')"

text \<open>The fields of a request the proxy has no business with.\<close>

definition other_fields :: "json \<Rightarrow> jmap" where
  "other_fields v =
     filter (\<lambda>kv. fst kv \<notin> set [''input'', ''previous_response_id'']) (unwrap_or [] (as_object v))"

definition body_sends :: "externals \<Rightarrow> json list \<Rightarrow> turn \<Rightarrow> bytes \<Rightarrow> bool" where
  "body_sends ext hist t out =
     (case from_slice ext out of
        Inl _ \<Rightarrow> False
      | Inr v \<Rightarrow>
          normalize_input v = replay_messages_from_stored hist @ new_items t \<and>
          get_str v ''previous_response_id'' = None \<and>
          other_fields v = other_fields (t_request t))"

fun conversation_sends :: "externals \<Rightarrow> json list \<Rightarrow> turn list \<Rightarrow> bytes list \<Rightarrow> bool" where
  "conversation_sends ext hist [] [] = True"
| "conversation_sends ext hist (t # ts) (out # outs) =
     (body_sends ext hist t out \<and> conversation_sends ext (hist @ new_items t @ reply_items t) ts outs)"
| "conversation_sends ext hist _ _ = False"

text \<open>
  A turn of a stored, not streaming conversation of one tenant: the request is classified as a
  Responses request, names the response before it (none in the first turn) and has a text or a
  list as input; the answer is a completed response as JSON; and the values that are stored or
  sent on survive as text, within the size limit.
\<close>

definition request_ok :: "externals \<Rightarrow> str \<Rightarrow> str option \<Rightarrow> turn \<Rightarrow> bool" where
  "request_ok ext tenant prev t \<longleftrightarrow>
     req_method (t_ctx t) = ''POST'' \<and> \<not> is_responses_cancel_path (req_path (t_ctx t)) \<and>
     is_responses_format (t_ctx t) \<and> \<not> is_store_disabled (t_ctx t) \<and> \<not> rs_is_streaming_request (t_ctx t) \<and>
     \<not> meta_eq (t_ctx t) ''responses.skip_persist'' ''true'' \<and>
     tenant_of (t_ctx t) = tenant \<and> t_body t \<noteq> [] \<and> from_slice ext (t_body t) = Inr (t_request t) \<and>
     is_object (t_request t) \<and>
     jget (t_request t) ''previous_response_id'' = map_option JString prev \<and>
     (case jget (t_request t) ''input'' of Some (JString _) \<Rightarrow> True | Some (JArray _) \<Rightarrow> True | _ \<Rightarrow> False)"

definition reply_ok :: "externals \<Rightarrow> turn \<Rightarrow> bool" where
  "reply_ok ext t \<longleftrightarrow>
     is_success ext (status (t_head t)) \<and>
     (case Option.bind (resp_headers (t_head t) ''content-type'') (header_text ext) of
        None \<Rightarrow> False | Some ct \<Rightarrow> is_json_content_type ct) \<and>
     t_response t \<noteq> [] \<and> from_slice ext (t_response t) = Inr (t_reply t) \<and>
     get_str (t_reply t) ''id'' \<noteq> None \<and> get_str (t_reply t) ''model'' \<noteq> None \<and>
     Option.bind (jget (t_reply t) ''created_at'') as_i64 \<noteq> None \<and>
     get_str (t_reply t) ''status'' = Some ''completed'' \<and> get_array (t_reply t) ''output'' \<noteq> None"

definition sent_body :: "json list \<Rightarrow> turn \<Rightarrow> json" where
  "sent_body hist t =
     (case t_request t of
        JObject obj \<Rightarrow> JObject (obj_remove ''previous_response_id''
          (obj_insert ''input'' (JArray (replay_messages_from_stored hist @ new_items t)) obj))
      | other \<Rightarrow> other)"

definition texts_ok :: "externals \<Rightarrow> nat \<Rightarrow> json list \<Rightarrow> turn \<Rightarrow> bool" where
  "texts_ok ext max_body hist t \<longleftrightarrow>
     json_kept ext (t_reply t) \<and> json_kept ext (unwrap_or JNull (jget (t_request t) ''input'')) \<and>
     json_kept ext (JArray (hist @ new_items t @ reply_items t)) \<and>
     json_kept ext (sent_body hist t) \<and> length (text_or_default ext (sent_body hist t)) \<le> max_body"

fun turns_ok :: "externals \<Rightarrow> nat \<Rightarrow> str \<Rightarrow> json list \<Rightarrow> str option \<Rightarrow> turn list \<Rightarrow> bool" where
  "turns_ok ext max_body tenant hist prev [] = True"
| "turns_ok ext max_body tenant hist prev (t # ts) =
     (request_ok ext tenant prev t \<and> reply_ok ext t \<and> texts_ok ext max_body hist t \<and>
      turns_ok ext max_body tenant (hist @ new_items t @ reply_items t) (Some (reply_id t)) ts)"

text \<open>The response the next turn continues from is stored with the whole history.\<close>

definition holds_history :: "externals \<Rightarrow> store_db \<Rightarrow> str \<Rightarrow> str option \<Rightarrow> json list \<Rightarrow> bool" where
  "holds_history ext db tenant prev hist =
     (case prev of
        None \<Rightarrow> hist = []
      | Some i \<Rightarrow>
          (case get_response ext tenant i db of
             Inr (Some record) \<Rightarrow>
               get_str (rr_response_object record) ''status'' = Some ''completed'' \<and>
               stored_messages_for_rehydrate record = hist
           | _ \<Rightarrow> False))"

section \<open>The phases of a turn\<close>

text \<open>What the store filter asks of a context to store the answer.\<close>

definition persisting :: "str \<Rightarrow> filter_ctx \<Rightarrow> bool" where
  "persisting tenant ctx \<longleftrightarrow> \<not> should_skip_persist ctx \<and> tenant_of ctx = tenant"

definition persist_keys :: "str list" where
  "persist_keys = [''openai_responses_format.format'', ''openai_responses_format.store'',
     ''openai_responses_format.stream'', ''responses.skip_persist'', TENANT_METADATA_KEY]"

lemma persisting_cong:
  assumes "req_method ctx' = req_method ctx" and "\<And>k. k \<in> set persist_keys \<Longrightarrow> get_metadata ctx' k = get_metadata ctx k"
  shows "persisting tenant ctx' = persisting tenant ctx"
  using assms
  by (simp add: persisting_def persist_keys_def should_skip_persist_def should_skip_def is_non_post_request_def
      is_non_responses_format_def is_responses_format_def is_store_disabled_def rs_is_streaming_request_def
      meta_eq_def tenant_of_def)

lemma request_persisting: "request_ok ext tenant prev t \<Longrightarrow> persisting tenant (t_ctx t)"
  by (simp add: request_ok_def persisting_def should_skip_persist_def should_skip_def is_non_post_request_def
      is_non_responses_format_def)

lemma ensure_store_ready: "sr_cell run = Some (Some h) \<Longrightarrow> ensure_store f run = (run, Some h)"
  by (simp add: ensure_store_def get_or_init_store_def)

lemma store_request_phase:
  assumes "request_ok (sf_ext f) tenant prev t" and "registry DEFAULT_STORE_NAME = Some h"
    and "run = \<lparr>sr_ex = fresh_exchange (t_ctx t) registry, sr_cell = Some (Some h), sr_dbs = dbs\<rparr>"
  shows "fst (store_on_request_body f (Some (t_body t)) True run) =
    run\<lparr>sr_ex := (sr_ex run)\<lparr>ex_request_input := jget (t_request t) ''input''\<rparr>\<rparr>"
proof -
  from assms(1) obtain input where input: "jget (t_request t) ''input'' = Some input"
    by (auto simp: request_ok_def split: option.splits)
  have "extract_request_input (sf_ext f) (Some (t_body t)) = Some input"
    using assms(1) input by (simp add: extract_request_input_def request_ok_def)
  moreover have "\<not> should_skip (t_ctx t)" "should_init_store_for_request (t_ctx t)" "req_method (t_ctx t) = ''POST''"
    using assms(1) by (auto simp: request_ok_def should_skip_def is_non_post_request_def is_non_responses_format_def
        should_init_store_for_request_def request_will_persist_response_def)
  ultimately show ?thesis
    using input assms(2,3)
    by (simp add: store_on_request_body_def init_store_for_request_def ensure_store_ready
        register_store_in_context_def fresh_exchange_def)
qed

lemma usage_metadata:
  "k \<in> set persist_keys \<Longrightarrow>
     get_metadata (set_metadata ''responses.previous_response_id'' p (write_previous_usage_metadata u ctx)) k =
     get_metadata ctx k"
  by (auto simp: write_previous_usage_metadata_def persist_keys_def TENANT_METADATA_KEY_def Let_def
      when_some_metadata split: option.split)

lemma usage_request_line:
  "request_line (set_metadata ''responses.previous_response_id'' p (write_previous_usage_metadata u ctx)) =
     request_line ctx"
  by (simp add: write_previous_usage_metadata_def Let_def when_some_kept split: option.split)

lemma rehydrate_first_turn:
  assumes "request_ok ext tenant None t" and "ex_ctx ex = t_ctx t"
  shows "rehydrate_on_request_body ext dbs ex (Some (t_body t)) True = (ex, Release)"
  using assms
  by (simp add: request_ok_def rehydrate_on_request_body_def is_responses_format_def validate_previous_response_def
      parse_body_and_extract_id_def)

lemma rehydrate_next_turn:
  assumes "request_ok ext tenant (Some p) t" and "ex_ctx ex = t_ctx t"
    and "ex_registry ex = Some registry" and "registry DEFAULT_STORE_NAME = Some h"
    and "holds_history ext (dbs h) tenant (Some p) hist"
  obtains ctx tools usage rec where
    "rehydrate_on_request_body ext dbs ex (Some (t_body t)) True =
      (ex\<lparr>ex_ctx := ctx, ex_state := Some (build_state (t_request t) rec tools usage)\<rparr>, Release)"
    and "stored_messages_for_rehydrate rec = hist" and "persisting tenant ctx"
proof -
  from assms(5) obtain rec where get: "get_response ext tenant p (dbs h) = Inr (Some rec)"
    and st: "get_str (rr_response_object rec) ''status'' = Some ''completed''"
    and hist: "stored_messages_for_rehydrate rec = hist"
    by (auto simp: holds_history_def split: sum.splits option.splits)
  have "fetch_previous_response ext dbs ex tenant p s = Inr rec" for s
    using assms(3,4) get by (simp add: fetch_previous_response_def)
  moreover have "validate_response_status ext rec s = Inr ()" for s
    using st by (simp add: validate_response_status_def)
  moreover have "parse_body_and_extract_id ext (t_body t) s = Inr (t_request t, Some p)" for s
    using assms(1) by (simp add: request_ok_def parse_body_and_extract_id_def)
  moreover define ctx where "ctx = set_metadata ''responses.previous_response_id'' p
      (write_previous_usage_metadata (not_null (jget (rr_response_object rec) ''usage'')) (t_ctx t))"
  ultimately have "rehydrate_on_request_body ext dbs ex (Some (t_body t)) True =
      (ex\<lparr>ex_ctx := ctx, ex_state := Some (build_state (t_request t) rec (collect_mcp_tool_listings rec)
        (not_null (jget (rr_response_object rec) ''usage'')))\<rparr>, Release)"
    using assms(1,2)
    by (simp add: request_ok_def rehydrate_on_request_body_def is_responses_format_def validate_previous_response_def
        populate_state_and_usage_metadata_def Let_def)
  moreover have "persisting tenant ctx"
  proof -
    have "req_method ctx = req_method (t_ctx t)"
      using usage_request_line [of p _ "t_ctx t"] by (simp add: ctx_def request_line_def)
    with usage_metadata [of _ p _ "t_ctx t"] request_persisting [OF assms(1)] show ?thesis
      using persisting_cong [of ctx "t_ctx t" tenant] by (simp add: ctx_def)
  qed
  ultimately show thesis using hist that by blast
qed

lemma build_state_histories:
  "st_messages (build_state body rec tools usage) =
     replay_messages_from_stored (stored_messages_for_rehydrate rec) @ normalize_input body"
  "st_persisted_messages (build_state body rec tools usage) =
     stored_messages_for_rehydrate rec @ normalize_input body"
  "st_request_body (build_state body rec tools usage) = body"
  by (simp_all add: build_state_def Let_def)

lemma proxy_next_turn:
  assumes "texts_ok ext max_body hist t" and "ex_state ex = Some st"
    and "st_request_body st = t_request t" and "st_messages st = replay_messages_from_stored hist @ new_items t"
  shows "\<exists>out. to_text ext (sent_body hist t) = Inr out \<and>
    proxy_on_request_body ext max_body ex (Some (t_body t)) True =
      Inr (ex\<lparr>ex_ctx := push_header ''content-length'' (show_nat (length out)) (ex_ctx ex)\<rparr>, Some out, Continue)"
proof -
  from assms(1) obtain out where out: "to_text ext (sent_body hist t) = Inr out" "length out \<le> max_body"
    by (auto simp: texts_ok_def json_kept_def text_or_default_def split: sum.splits)
  moreover have "outbound_body st = sent_body hist t"
    using assms(3,4) by (cases "t_request t") (simp_all add: outbound_body_def sent_body_def)
  ultimately show ?thesis
    using assms(2) by (simp add: proxy_on_request_body_def serialize_body_def)
qed

lemma other_fields_insert:
  "k \<in> set [''input'', ''previous_response_id''] \<Longrightarrow> other_fields (JObject (obj_insert k v m)) = other_fields (JObject m)"
  by (induction k v m rule: obj_insert.induct) (auto simp: other_fields_def)

lemma other_fields_remove:
  "k \<in> set [''input'', ''previous_response_id''] \<Longrightarrow> other_fields (JObject (obj_remove k m)) = other_fields (JObject m)"
  by (induction m) (auto simp: other_fields_def obj_remove_def)

lemma sent_body_sends:
  assumes "request_ok ext tenant prev t" and "texts_ok ext max_body hist t"
    and "to_text ext (sent_body hist t) = Inr out"
  shows "body_sends ext hist t out"
proof -
  from assms(1) obtain obj where obj: "t_request t = JObject obj"
    by (cases "t_request t") (auto simp: request_ok_def is_object_def)
  from assms(2,3) have "from_slice ext out = Inr (sent_body hist t)"
    by (auto simp: texts_ok_def json_kept_def)
  with obj show ?thesis
    by (simp add: body_sends_def sent_body_def normalize_input_def get_str_def other_fields_remove other_fields_insert)
qed

lemma first_body_sends:
  "request_ok ext tenant None t \<Longrightarrow> body_sends ext [] t (t_body t)"
  by (simp add: request_ok_def body_sends_def new_items_def replay_messages_from_stored_def get_str_def)

text \<open>The request phase sends the history and leaves a run that will store it.\<close>

definition ready_to_store :: "str \<Rightarrow> json list \<Rightarrow> turn \<Rightarrow> nat \<Rightarrow> databases \<Rightarrow> store_run \<Rightarrow> bool" where
  "ready_to_store tenant hist t h dbs run \<longleftrightarrow>
     persisting tenant (ex_ctx (sr_ex run)) \<and> sr_cell run = Some (Some h) \<and> sr_dbs run = dbs \<and>
     ex_request_input (sr_ex run) = jget (t_request t) ''input'' \<and>
     (case ex_state (sr_ex run) of
        None \<Rightarrow> hist = [] | Some st \<Rightarrow> st_persisted_messages st = hist @ new_items t)"

lemma push_header_persisting [simp]: "persisting tenant (push_header n v ctx) = persisting tenant ctx"
proof (rule persisting_cong)
  show "req_method (push_header n v ctx) = req_method ctx" by (simp add: push_header_def)
qed simp

lemma request_phase:
  assumes ok: "request_ok (sf_ext f) tenant prev t" and texts: "texts_ok (sf_ext f) max_body hist t"
    and registry: "registry DEFAULT_STORE_NAME = Some h"
    and holds: "holds_history (sf_ext f) (dbs h) tenant prev hist"
  shows "\<exists>run out. turn_request f max_body (t_body t)
      \<lparr>sr_ex = fresh_exchange (t_ctx t) registry, sr_cell = Some (Some h), sr_dbs = dbs\<rparr> = Some (run, out) \<and>
    body_sends (sf_ext f) hist t out \<and> ready_to_store tenant hist t h dbs run"
proof -
  let ?ex = "(fresh_exchange (t_ctx t) registry)\<lparr>ex_request_input := jget (t_request t) ''input''\<rparr>"
  let ?run = "\<lparr>sr_ex = fresh_exchange (t_ctx t) registry, sr_cell = Some (Some h), sr_dbs = dbs\<rparr>"
  have store: "fst (store_on_request_body f (Some (t_body t)) True ?run) = ?run\<lparr>sr_ex := ?ex\<rparr>"
    using store_request_phase [of f tenant prev t registry h ?run dbs] ok registry by simp
  have ex: "ex_ctx ?ex = t_ctx t" "ex_registry ?ex = Some registry" "ex_state ?ex = None"
    by (simp_all add: fresh_exchange_def)
  show ?thesis
  proof (cases prev)
    case None
    with holds have [simp]: "hist = []" by (simp add: holds_history_def)
    from ok None have "rehydrate_on_request_body (sf_ext f) dbs ?ex (Some (t_body t)) True = (?ex, Release)"
      by (intro rehydrate_first_turn) (simp_all add: ex)
    moreover have "proxy_on_request_body (sf_ext f) max_body ?ex (Some (t_body t)) True =
        Inr (?ex, Some (t_body t), Continue)"
      by (simp add: proxy_on_request_body_def ex)
    ultimately have "turn_request f max_body (t_body t) ?run = Some (?run\<lparr>sr_ex := ?ex\<rparr>, t_body t)"
      by (simp add: turn_request_def store)
    moreover have "ready_to_store tenant [] t h dbs (?run\<lparr>sr_ex := ?ex\<rparr>)"
      using request_persisting [OF ok] by (simp add: ready_to_store_def fresh_exchange_def)
    ultimately show ?thesis using first_body_sends ok None by auto
  next
    case (Some p)
    with ok have ok': "request_ok (sf_ext f) tenant (Some p) t" by simp
    obtain ctx tools usage rec where
      re: "rehydrate_on_request_body (sf_ext f) dbs ?ex (Some (t_body t)) True =
        (?ex\<lparr>ex_ctx := ctx, ex_state := Some (build_state (t_request t) rec tools usage)\<rparr>, Release)"
      and rec: "stored_messages_for_rehydrate rec = hist" and ctx: "persisting tenant ctx"
      by (rule rehydrate_next_turn [where dbs = dbs and registry = registry, OF ok' ex(1,2) registry holds [unfolded Some]])
    let ?ex2 = "?ex\<lparr>ex_ctx := ctx, ex_state := Some (build_state (t_request t) rec tools usage)\<rparr>"
    from proxy_next_turn [OF texts, of ?ex2 "build_state (t_request t) rec tools usage"]
    obtain out where out: "to_text (sf_ext f) (sent_body hist t) = Inr out"
      and px: "proxy_on_request_body (sf_ext f) max_body ?ex2 (Some (t_body t)) True =
        Inr (?ex2\<lparr>ex_ctx := push_header ''content-length'' (show_nat (length out)) (ex_ctx ?ex2)\<rparr>, Some out, Continue)"
      by (auto simp: build_state_histories rec new_items_def)
    have "turn_request f max_body (t_body t) ?run = Some (?run\<lparr>sr_ex :=
        ?ex2\<lparr>ex_ctx := push_header ''content-length'' (show_nat (length out)) ctx\<rparr>\<rparr>, out)"
      using px by (simp add: turn_request_def store re)
    moreover have "ready_to_store tenant hist t h dbs (?run\<lparr>sr_ex :=
        ?ex2\<lparr>ex_ctx := push_header ''content-length'' (show_nat (length out)) ctx\<rparr>\<rparr>)"
      using ctx by (simp add: ready_to_store_def build_state_histories rec new_items_def)
    ultimately show ?thesis using sent_body_sends [OF ok texts out] by blast
  qed
qed

text \<open>The response phase stores the history with the new items and the reply.\<close>

definition turn_record :: "str \<Rightarrow> json list \<Rightarrow> turn \<Rightarrow> response_record" where
  "turn_record tenant hist t =
     \<lparr>rr_id = reply_id t, rr_tenant_id = tenant,
      rr_created_at = unwrap_or 0 (Option.bind (jget (t_reply t) ''created_at'') as_i64),
      rr_model = unwrap_or [] (get_str (t_reply t) ''model''), rr_response_object = t_reply t,
      rr_input = unwrap_or JNull (jget (t_request t) ''input''),
      rr_messages = JArray (hist @ new_items t @ reply_items t)\<rparr>"

lemma turn_record_key [simp]: "rr_id (turn_record tenant hist t) = reply_id t" "rr_tenant_id (turn_record tenant hist t) = tenant"
  by (simp_all add: turn_record_def)

lemma stored_input_items_new:
  "request_ok ext tenant prev t \<Longrightarrow> jget (t_request t) ''input'' = Some input \<Longrightarrow>
     append_stored_input_items input [] = new_items t"
  by (cases input) (auto simp: request_ok_def append_stored_input_items_def new_items_def normalize_input_def)

lemma turn_record_history:
  assumes "request_ok ext tenant prev t" and "reply_ok ext t"
  shows "stored_messages_for_rehydrate (turn_record tenant hist t) = hist @ new_items t @ reply_items t"
proof -
  obtain input where input: "jget (t_request t) ''input'' = Some input"
    using assms(1) by (auto simp: request_ok_def split: option.splits)
  from assms(2) obtain items where items: "jget (t_reply t) ''output'' = Some (JArray items)"
    by (auto simp: reply_ok_def get_array_def bind_eq_Some_conv elim!: as_array.elims)
  show ?thesis
    using input items stored_input_items_new [OF assms(1) input]
    by (auto simp: stored_messages_for_rehydrate_def turn_record_def reconstruct_messages_from_public_response_def
        not_null_def is_null_def append_stored_output_items_def reply_items_def get_array_def)
qed

lemma parse_turn_record:
  assumes ok: "request_ok ext tenant prev t" and reply: "reply_ok ext t"
    and "case state of None \<Rightarrow> hist = [] | Some st \<Rightarrow> st_persisted_messages st = hist @ new_items t"
  shows "parse_response_record ext (t_response t) tenant (jget (t_request t) ''input'')
      (map_option st_persisted_messages state) = Some (turn_record tenant hist t)"
proof -
  obtain input where input: "jget (t_request t) ''input'' = Some input"
    using ok by (auto simp: request_ok_def split: option.splits)
  from reply obtain items where items: "jget (t_reply t) ''output'' = Some (JArray items)"
    by (auto simp: reply_ok_def get_array_def bind_eq_Some_conv elim!: as_array.elims)
  have "from_response_json (t_reply t) (Some input) (map_option st_persisted_messages state) =
      (input, JArray (hist @ new_items t @ reply_items t))"
    using assms(3) items stored_input_items_new [OF ok input]
    by (auto simp: from_response_json_def assemble_stored_messages_def is_null_def reply_items_def get_array_def
        append_stored_input_items_def split: option.splits)
  with reply input show ?thesis
    by (auto simp: parse_response_record_def reply_ok_def turn_record_def reply_id_def)
qed

lemma response_phase:
  assumes ok: "request_ok (sf_ext f) tenant prev t" and reply: "reply_ok (sf_ext f) t"
    and texts: "texts_ok (sf_ext f) max_body hist t" and ready: "ready_to_store tenant hist t h dbs run"
    and db: "db_fault (dbs h) = None"
  shows "\<exists>run' db'. turn_response f (t_head t) (t_response t) run = Some run' \<and>
    sr_cell run' = Some (Some h) \<and> sr_dbs run' = dbs(h := db') \<and> db_fault db' = None \<and>
    holds_history (sf_ext f) db' tenant (Some (reply_id t)) (hist @ new_items t @ reply_items t)"
proof -
  let ?ctx = "(ex_ctx (sr_ex run))\<lparr>response_header := Some (t_head t)\<rparr>"
  let ?run = "run\<lparr>sr_ex := (sr_ex run)\<lparr>ex_ctx := ?ctx\<rparr>\<rparr>"
  let ?r = "turn_record tenant hist t"
  have pers: "persisting tenant ?ctx"
    using ready persisting_cong [of ?ctx "ex_ctx (sr_ex run)" tenant]
    by (simp add: ready_to_store_def get_metadata_def)
  then have skip: "\<not> should_skip_persist ?ctx" and tenant: "tenant_of ?ctx = tenant"
    by (simp_all add: persisting_def)
  have "response_is_persistable (sf_ext f) ?ctx = (?ctx, True)"
    using reply by (auto simp: response_is_persistable_def reply_ok_def split: option.splits)
  with skip ready have resp: "fst (store_on_response f ?run) = ?run"
    by (simp add: store_on_response_def ensure_store_ready ready_to_store_def)
  have "response_kept (sf_ext f) ?r"
    using texts by (simp add: response_kept_def texts_ok_def turn_record_def)
  then obtain db' where up: "upsert_response (sf_ext f) ?r (dbs h) = Inr db'" "db_fault db' = None"
    and get: "get_response (sf_ext f) tenant (reply_id t) db' = Inr (Some ?r)"
    using upsert_succeeds [OF _ db] rs.get_upsert [of "sf_ext f" ?r "dbs h"] by fastforce
  have "parse_response_record (sf_ext f) (t_response t) tenant (ex_request_input (sr_ex run))
      (map_option st_persisted_messages (ex_state (sr_ex run))) = Some ?r"
    using parse_turn_record [OF ok reply, where state = "ex_state (sr_ex run)" and hist = hist] ready
    by (simp add: ready_to_store_def)
  moreover have "terminal_store_and_body ?run (Some (t_response t)) = Some (h, t_response t)"
    using skip ready reply by (simp add: terminal_store_and_body_def ready_to_store_def reply_ok_def)
  moreover have "\<not> should_release_skipped_response_body ?run"
    using skip ready by (simp add: should_release_skipped_response_body_def ready_to_store_def)
  ultimately have "turn_response f (t_head t) (t_response t) run =
      Some (?run\<lparr>sr_ex := (sr_ex ?run)\<lparr>ex_request_input := None\<rparr>, sr_dbs := dbs(h := db')\<rparr>)"
    using ready up(1) resp tenant
    by (simp add: turn_response_def Let_def store_on_response_body_def ready_to_store_def)
  moreover have "holds_history (sf_ext f) db' tenant (Some (reply_id t)) (hist @ new_items t @ reply_items t)"
    using get turn_record_history [OF ok reply] reply
    by (simp add: holds_history_def) (simp add: turn_record_def reply_ok_def)
  ultimately show ?thesis using up(2) ready by (auto simp: ready_to_store_def)
qed

section \<open>Many turns\<close>

lemma turn_step:
  assumes "request_ok (sf_ext f) tenant prev t" and "reply_ok (sf_ext f) t" and "texts_ok (sf_ext f) max_body hist t"
    and "registry DEFAULT_STORE_NAME = Some h" and "db_fault (dbs h) = None"
    and "holds_history (sf_ext f) (dbs h) tenant prev hist"
  shows "\<exists>out db'. exchange_turn f max_body registry t (Some (Some h)) dbs = Some (out, Some (Some h), dbs(h := db')) \<and>
    body_sends (sf_ext f) hist t out \<and> db_fault db' = None \<and>
    holds_history (sf_ext f) db' tenant (Some (reply_id t)) (hist @ new_items t @ reply_items t)"
proof -
  from request_phase [where dbs = dbs and registry = registry, OF assms(1,3,4,6)] obtain run out where
    req: "turn_request f max_body (t_body t)
      \<lparr>sr_ex = fresh_exchange (t_ctx t) registry, sr_cell = Some (Some h), sr_dbs = dbs\<rparr> = Some (run, out)"
    and sends: "body_sends (sf_ext f) hist t out" and ready: "ready_to_store tenant hist t h dbs run"
    by blast
  from response_phase [OF assms(1,2,3) ready assms(5)] obtain run' db' where
    "turn_response f (t_head t) (t_response t) run = Some run'" "sr_cell run' = Some (Some h)"
    "sr_dbs run' = dbs(h := db')" "db_fault db' = None"
    "holds_history (sf_ext f) db' tenant (Some (reply_id t)) (hist @ new_items t @ reply_items t)"
    by blast
  with req sends show ?thesis by (auto simp: exchange_turn_def)
qed

lemma conversation_steps:
  assumes "turns_ok (sf_ext f) max_body tenant hist prev ts"
    and "registry DEFAULT_STORE_NAME = Some h" and "db_fault (dbs h) = None"
    and "holds_history (sf_ext f) (dbs h) tenant prev hist"
  shows "\<exists>outs dbs'. conversation f max_body registry ts (Some (Some h)) dbs = Some (outs, Some (Some h), dbs') \<and>
    conversation_sends (sf_ext f) hist ts outs"
  using assms
proof (induction ts arbitrary: hist prev dbs)
  case (Cons t ts)
  then obtain out db' where
    step: "exchange_turn f max_body registry t (Some (Some h)) dbs = Some (out, Some (Some h), dbs(h := db'))"
    and sends: "body_sends (sf_ext f) hist t out" and db: "db_fault db' = None"
    and holds: "holds_history (sf_ext f) db' tenant (Some (reply_id t)) (hist @ new_items t @ reply_items t)"
    using turn_step [of f tenant prev t max_body hist registry h dbs] by auto
  have "turns_ok (sf_ext f) max_body tenant (hist @ new_items t @ reply_items t) (Some (reply_id t)) ts"
    using Cons.prems(1) by simp
  from Cons.IH [OF this, of "dbs(h := db')"] Cons.prems(2) db holds
  obtain outs dbs' where
    "conversation f max_body registry ts (Some (Some h)) (dbs(h := db')) = Some (outs, Some (Some h), dbs')"
    "conversation_sends (sf_ext f) (hist @ new_items t @ reply_items t) ts outs"
    by (metis fun_upd_same)
  with step sends show ?case by simp
qed simp

text \<open>
  C11. The backend sees the whole conversation: in a stored conversation of any number of turns
  through the store, rehydrate and proxy filters, every turn succeeds, and the body sent to the
  backend has as input all earlier inputs and outputs of the conversation in order, but for
  the tool listings, followed by the new input; it no longer names a previous response, and its
  other fields are those the client sent.
\<close>

theorem multi_turn_history:
  assumes "turns_ok (sf_ext f) max_body tenant [] None ts"
    and "registry DEFAULT_STORE_NAME = Some h" and "db_fault (dbs h) = None"
  shows "\<exists>outs dbs'. conversation f max_body registry ts (Some (Some h)) dbs = Some (outs, Some (Some h), dbs') \<and>
    conversation_sends (sf_ext f) [] ts outs"
proof -
  have "holds_history (sf_ext f) (dbs h) tenant None []" by (simp add: holds_history_def)
  from conversation_steps [where dbs = dbs and registry = registry, OF assms this] show ?thesis .
qed

text \<open>A serialiser for finitely many values: the text of a value is its position in the list.\<close>

definition table_ext :: "json list \<Rightarrow> externals" where
  "table_ext vs = null_ext
     \<lparr>to_text := (\<lambda>v. case position (\<lambda>w. w = v) vs of None \<Rightarrow> Inr [] | Some n \<Rightarrow> Inr (show_nat n)),
      from_slice := (\<lambda>s. case Option.bind (parse_uint 64 s) (get_at vs) of None \<Rightarrow> Inl [] | Some v \<Rightarrow> Inr v)\<rparr>"

definition demo_reply :: "str \<Rightarrow> str \<Rightarrow> json" where
  "demo_reply i text = jobj
     [(''id'', JString i), (''model'', JString ''m''), (''created_at'', JNumber (PosInt 1)),
      (''status'', JString ''completed''), (''output'', JArray [jobj [(''text'', JString text)]])]"

definition demo_request1 :: json where "demo_request1 = jobj [(''input'', JString ''q1'')]"
definition demo_request2 :: json where
  "demo_request2 = jobj [(''input'', JString ''q2''), (''previous_response_id'', JString ''r1'')]"
definition demo_turn1_items :: "json list" where
  "demo_turn1_items = [user_message_item ''q1'', jobj [(''text'', JString ''a1'')]]"

definition demo_values :: "json list" where
  "demo_values =
     [demo_request1, demo_reply ''r1'' ''a1'', demo_request2, demo_reply ''r2'' ''a2'', JString ''q1'', JString ''q2'',
      JArray demo_turn1_items,
      JArray (demo_turn1_items @ [user_message_item ''q2'', jobj [(''text'', JString ''a2'')]]),
      jobj [(''input'', JArray [user_message_item ''q1''])],
      jobj [(''input'', JArray (demo_turn1_items @ [user_message_item ''q2'']))]]"

definition demo_ctx :: filter_ctx where
  "demo_ctx = set_metadata ''openai_responses_format.format'' ''openai_responses'' empty_ctx"

definition demo_head :: response_head where
  "demo_head = \<lparr>status = 200, resp_headers = [''content-type'' \<mapsto> ''application/json'']\<rparr>"

definition demo_turns :: "turn list" where
  "demo_turns =
     [\<lparr>t_ctx = demo_ctx, t_body = ''0'', t_request = demo_request1, t_head = demo_head, t_response = ''1'',
       t_reply = demo_reply ''r1'' ''a1''\<rparr>,
      \<lparr>t_ctx = demo_ctx, t_body = ''2'', t_request = demo_request2, t_head = demo_head, t_response = ''3'',
       t_reply = demo_reply ''r2'' ''a2''\<rparr>]"

definition demo_config :: response_store_config where
  "demo_config =
     \<lparr>sc_backend = Sqlite, sc_database_url = ''sqlite::memory:'', sc_responses_table = ''r'',
      sc_conversations_table = ''c'', sc_ssl_mode = None, sc_ssl_root_cert = None, sc_allow_private_database_url = False\<rparr>"

definition demo_filter :: store_filter where
  "demo_filter =
     \<lparr>sf_ext = table_ext demo_values, sf_url = plain_urls,
      sf_connector = \<lparr>open_sqlite = (\<lambda>_ _. Inr 0), open_postgres = (\<lambda>_ _ _ _. Inl [])\<rparr>, sf_config = demo_config\<rparr>"

definition empty_db :: store_db where
  "empty_db =
     \<lparr>db_backend = Sqlite, db_tables = config_tables demo_config, db_fault = None, db_collation = (\<lambda>s. s), db_responses = [],
      db_conversations = [], db_items = []\<rparr>"

lemma multi_turn_history_witness:
  "\<exists>outs dbs'. conversation demo_filter 100 [DEFAULT_STORE_NAME \<mapsto> 0] demo_turns (Some (Some 0)) (\<lambda>_. empty_db) =
     Some (outs, Some (Some 0), dbs') \<and> conversation_sends (table_ext demo_values) [] demo_turns outs"
proof -
  have "turns_ok (sf_ext demo_filter) 100 ''default'' [] None demo_turns" by code_simp
  moreover have "db_fault empty_db = None" "sf_ext demo_filter = table_ext demo_values"
    by (simp_all add: empty_db_def demo_filter_def)
  ultimately show ?thesis
    using multi_turn_history [of demo_filter 100 "''default''" demo_turns "[DEFAULT_STORE_NAME \<mapsto> 0]" 0 "\<lambda>_. empty_db"]
    by simp
qed

section \<open>Tenants do not see each other\<close>

text \<open>Operations other requests perform on a database meanwhile; a failed one changes nothing.\<close>

definition run_store_ops :: "externals \<Rightarrow> response_op list \<Rightarrow> store_db \<Rightarrow> store_db" where
  "run_store_ops ext ops db = fold (\<lambda>op db.
     case op of
       Upsert r \<Rightarrow> (case upsert_response ext r db of Inl _ \<Rightarrow> db | Inr db' \<Rightarrow> db')
     | Delete t i \<Rightarrow> (case delete_response t i db of Inl _ \<Rightarrow> db | Inr (db', _) \<Rightarrow> db')) ops db"

lemma run_store_ops_steps: "run_store_ops ext ops db = fold (rs.step ext) ops db"
proof -
  have "(\<lambda>op db. case op of
       Upsert r \<Rightarrow> (case upsert_response ext r db of Inl _ \<Rightarrow> db | Inr db' \<Rightarrow> db')
     | Delete t i \<Rightarrow> (case delete_response t i db of Inl _ \<Rightarrow> db | Inr (db', _) \<Rightarrow> db')) = rs.step ext"
    by (intro ext) (simp add: rs.step_def)
  then show ?thesis by (simp add: run_store_ops_def)
qed

definition same_view :: "externals \<Rightarrow> str \<Rightarrow> databases \<Rightarrow> databases \<Rightarrow> bool" where
  "same_view ext tenant dbs dbs' \<longleftrightarrow> (\<forall>h i. get_response ext tenant i (dbs' h) = get_response ext tenant i (dbs h))"

lemma other_tenants_same_view:
  assumes "\<forall>op \<in> set ops. fst (op_key op) \<noteq> tenant"
  shows "same_view ext tenant dbs (dbs(h := run_store_ops ext ops (dbs h)))"
proof -
  have "get_response ext tenant i (run_store_ops ext ops db) = get_response ext tenant i db" for i db
    unfolding run_store_ops_steps using assms by (intro rs.steps_other) auto
  then show ?thesis by (simp add: same_view_def)
qed

lemma rehydrate_view:
  assumes "same_view ext (tenant_of (ex_ctx ex)) dbs dbs'"
  shows "rehydrate_on_request_body ext dbs' ex body eos = rehydrate_on_request_body ext dbs ex body eos"
proof -
  have fetch: "fetch_previous_response ext dbs' ex (tenant_of (ex_ctx ex)) =
      fetch_previous_response ext dbs ex (tenant_of (ex_ctx ex))"
    using assms by (intro ext) (simp add: fetch_previous_response_def same_view_def cong: option.case_cong)
  show ?thesis unfolding rehydrate_on_request_body_def validate_previous_response_def fetch ..
qed

lemma ensure_store_dbs:
  "ensure_store f (run\<lparr>sr_dbs := dbs\<rparr>) = (let (run1, h) = ensure_store f run in (run1\<lparr>sr_dbs := dbs\<rparr>, h))"
  "ensure_store f run = (run1, x) \<Longrightarrow> sr_dbs run1 = sr_dbs run \<and> sr_ex run1 = sr_ex run"
  by (auto simp: ensure_store_def split: prod.splits)

lemma retrieval_view:
  assumes "same_view (sf_ext f) (tenant_of (ex_ctx (sr_ex run))) (sr_dbs run) dbs'"
  shows "snd (try_get_retrieval f query (run\<lparr>sr_dbs := dbs'\<rparr>)) = snd (try_get_retrieval f query run)"
proof -
  obtain run1 h where e: "ensure_store f run = (run1, h)" by (cases "ensure_store f run") auto
  from e ensure_store_dbs(2) [OF e] assms have
    "snd (handle_get_response f i (run\<lparr>sr_dbs := dbs'\<rparr>)) = snd (handle_get_response f i run)"
    "snd (handle_get_input_items f query i (run\<lparr>sr_dbs := dbs'\<rparr>)) = snd (handle_get_input_items f query i run)" for i
    by (simp_all add: handle_get_response_def handle_get_input_items_def ensure_store_dbs(1) same_view_def
        split: option.split)
  then show ?thesis
    by (auto simp: try_get_retrieval_def Let_def split: list.split option.split)
qed

text \<open>
  C12. Tenants do not see each other: whatever other tenants store in or delete from the database
  meanwhile, a request of a tenant continues its conversation in exactly the same way, and a
  retrieval of a response or of its input items gets exactly the same answer.
\<close>

theorem tenant_isolation:
  assumes "\<forall>op \<in> set ops. fst (op_key op) \<noteq> tenant_of (ex_ctx (sr_ex run))"
    and "dbs' = (sr_dbs run)(h := run_store_ops (sf_ext f) ops (sr_dbs run h))"
  shows "rehydrate_on_request_body (sf_ext f) dbs' (sr_ex run) body eos =
      rehydrate_on_request_body (sf_ext f) (sr_dbs run) (sr_ex run) body eos \<and>
    snd (try_get_retrieval f query (run\<lparr>sr_dbs := dbs'\<rparr>)) = snd (try_get_retrieval f query run)"
  unfolding assms(2) by (intro conjI rehydrate_view retrieval_view other_tenants_same_view assms(1))

definition demo_record :: "str \<Rightarrow> response_record" where
  "demo_record tenant =
     \<lparr>rr_id = ''r1'', rr_tenant_id = tenant, rr_created_at = 1, rr_model = ''m'',
      rr_response_object = demo_reply ''r1'' ''a1'', rr_input = JString ''q1'', rr_messages = JArray demo_turn1_items\<rparr>"

definition demo_run :: "filter_ctx \<Rightarrow> store_db \<Rightarrow> store_run" where
  "demo_run ctx db =
     \<lparr>sr_ex = fresh_exchange ctx [DEFAULT_STORE_NAME \<mapsto> 0], sr_cell = Some (Some 0), sr_dbs = (\<lambda>_. db)\<rparr>"

definition demo_db :: store_db where
  "demo_db = run_store_ops (table_ext demo_values) [Upsert (demo_record ''default'')] empty_db"

text \<open>Another tenant stores and deletes a response of the same id; the answer stays.\<close>

lemma tenant_isolation_witness:
  "snd (try_get_retrieval demo_filter None
      ((demo_run (demo_ctx\<lparr>req_path := ''/v1/responses/r1''\<rparr>) demo_db)
        \<lparr>sr_dbs := (\<lambda>_. demo_db)(0 := run_store_ops (table_ext demo_values)
            [Upsert (demo_record ''other''), Delete ''other'' ''r1''] demo_db)\<rparr>)) =
    Some (Reject (json_rejection 200 ''1''))"
proof -
  let ?run = "demo_run (demo_ctx\<lparr>req_path := ''/v1/responses/r1''\<rparr>) demo_db"
  have "\<forall>op \<in> set [Upsert (demo_record ''other''), Delete ''other'' ''r1'']. fst (op_key op) \<noteq> tenant_of (ex_ctx (sr_ex ?run))"
    by code_simp
  note same = tenant_isolation [OF this refl, of demo_filter 0 None True None, THEN conjunct2]
  have "snd (try_get_retrieval demo_filter None ?run) = Some (Reject (json_rejection 200 ''1''))"
    by code_simp
  with same show ?thesis by (simp add: demo_run_def demo_filter_def)
qed

section \<open>Deleted is gone\<close>

text \<open>
  C13. A deleted response is gone: when a DELETE of a response is answered (200 when the tenant
  had it and 404 when not), then until the tenant stores a response of that id again,
  retrieving it answers not found and no request can continue from it.
\<close>

theorem delete_then_gone:
  assumes "store_on_request f query run = (run1, Inr (Reject r))" and "req_method (ex_ctx (sr_ex run)) = ''DELETE''"
    and "extract_response_id (req_path (ex_ctx (sr_ex run))) = Some i"
    and "tenant = tenant_of (ex_ctx (sr_ex run))" and "\<forall>op \<in> set ops. op_key op \<noteq> (tenant, i)"
    and "sr_cell run1 = Some (Some h)" and "db_fault (run_store_ops (sf_ext f) ops (sr_dbs run1 h)) = None"
    and "later = run1\<lparr>sr_ex := ex, sr_dbs := (sr_dbs run1)(h := run_store_ops (sf_ext f) ops (sr_dbs run1 h))\<rparr>"
    and "tenant_of (ex_ctx ex) = tenant" and "ex_registry ex = Some registry" and "registry DEFAULT_STORE_NAME = Some h"
  shows "(rej_status r = 200 \<longleftrightarrow> get_response (sf_ext f) tenant i (sr_dbs run h) \<noteq> Inr None) \<and>
    snd (handle_get_response f i later) = Reject (reject_not_found (sf_ext f) i) \<and>
    fetch_previous_response (sf_ext f) (sr_dbs later) ex tenant i streaming =
      Inl (rh_reject_invalid (sf_ext f) (''response '' @ quoted i @ '' not found'') streaming)"
proof -
  obtain run2 store where e: "ensure_store f run = (run2, store)" by (cases "ensure_store f run") auto
  from assms(1-4) have del: "handle_delete f tenant i run = (run1, Inr (Reject r))"
    by (simp add: store_on_request_def)
  with e obtain s where s: "store = Some s" by (cases store) (auto simp: handle_delete_def)
  with del e obtain db deleted where db: "delete_response tenant i (sr_dbs run2 s) = Inr (db, deleted)"
    and run1: "run1 = run2\<lparr>sr_dbs := (sr_dbs run2)(s := db)\<rparr>"
    and r: "(if deleted then and_then (delete_success_rejection (sf_ext f) i) (\<lambda>r. Inr (Reject r))
      else Inr (Reject (delete_not_found_rejection (sf_ext f) i))) = Inr (Reject r)"
    by (auto simp: handle_delete_def split: sum.splits)
  have cell: "sr_cell run2 = Some (Some s)"
    using e s by (auto simp: ensure_store_def get_or_init_store_def split: option.splits sum.splits storage_backend.splits)
  with run1 assms(6) have h: "s = h" by simp
  have "get_response (sf_ext f) tenant i (run_store_ops (sf_ext f) ops db) = Inr None"
    unfolding run_store_ops_steps using rs.gone_until_stored [OF db] assms(5) by blast
  then have gone: "get_response (sf_ext f) tenant i (sr_dbs later h) = Inr None"
    using assms(8) run1 h by simp
  have "rej_status r = 200 \<longleftrightarrow> deleted"
    using r by (auto simp: delete_success_rejection_def json_rejection_def delete_not_found_rejection_def
        responses_error_rejection_def and_then_eq_case split: sum.splits if_splits)
  moreover have "deleted \<longleftrightarrow> get_response (sf_ext f) tenant i (sr_dbs run h) \<noteq> Inr None"
    using rs.delete_found [OF db, of "sf_ext f"] ensure_store_dbs(2) [OF e] h by simp
  moreover have "snd (handle_get_response f i later) = Reject (reject_not_found (sf_ext f) i)"
    using gone assms(6,8,9) by (simp add: handle_get_response_def ensure_store_ready)
  moreover have "fetch_previous_response (sf_ext f) (sr_dbs later) ex tenant i streaming =
      Inl (rh_reject_invalid (sf_ext f) (''response '' @ quoted i @ '' not found'') streaming)"
    using gone assms(10,11) by (simp add: fetch_previous_response_def)
  ultimately show ?thesis by blast
qed

lemma delete_then_gone_witness:
  "\<exists>run1 r. store_on_request demo_filter None
      (demo_run (demo_ctx\<lparr>req_method := ''DELETE'', req_path := ''/v1/responses/r1''\<rparr>) demo_db) = (run1, Inr (Reject r)) \<and>
    snd (handle_get_response demo_filter ''r1'' (run1\<lparr>sr_ex := fresh_exchange demo_ctx [DEFAULT_STORE_NAME \<mapsto> 0]\<rparr>)) =
      Reject (reject_not_found (table_ext demo_values) ''r1'')"
proof -
  let ?run = "demo_run (demo_ctx\<lparr>req_method := ''DELETE'', req_path := ''/v1/responses/r1''\<rparr>) demo_db"
  let ?fin = "store_on_request demo_filter None ?run"
  let ?r = "json_rejection 200 []"
  have "snd ?fin = Inr (Reject ?r)" by code_simp
  then have r: "?fin = (fst ?fin, Inr (Reject ?r))" by (cases ?fin) simp
  have "sr_cell (fst ?fin) = Some (Some 0)" by code_simp
  moreover have "db_fault (run_store_ops (sf_ext demo_filter) [] (sr_dbs (fst ?fin) 0)) = None" by code_simp
  moreover have "req_method (ex_ctx (sr_ex ?run)) = ''DELETE''"
    "extract_response_id (req_path (ex_ctx (sr_ex ?run))) = Some ''r1''"
    "''default'' = tenant_of (ex_ctx (sr_ex ?run))"
    "tenant_of (ex_ctx (fresh_exchange demo_ctx [DEFAULT_STORE_NAME \<mapsto> 0])) = ''default''"
    by code_simp+
  ultimately have "snd (handle_get_response demo_filter ''r1''
      ((fst ?fin)\<lparr>sr_ex := fresh_exchange demo_ctx [DEFAULT_STORE_NAME \<mapsto> 0],
         sr_dbs := (sr_dbs (fst ?fin))(0 := run_store_ops (sf_ext demo_filter) [] (sr_dbs (fst ?fin) 0))\<rparr>)) =
      Reject (reject_not_found (sf_ext demo_filter) ''r1'')"
    using delete_then_gone [OF r, of "''r1''" "''default''" "[]" 0 _ "fresh_exchange demo_ctx [DEFAULT_STORE_NAME \<mapsto> 0]"
        "[DEFAULT_STORE_NAME \<mapsto> 0]"]
    by (simp add: fresh_exchange_def)
  moreover have "run_store_ops x [] db = db" for x db by (simp add: run_store_ops_def)
  ultimately show ?thesis using r by (auto simp: demo_filter_def intro!: exI)
qed

section \<open>An input that is an object\<close>

text \<open>
  The store keeps an input that is a single object as an item of the history and the Chat
  translation reads it as one, but the request state knows only texts and lists: in a turn
  that continues a response, such an input is sent to no backend.
\<close>

lemma object_input_lost:
  assumes "jget body ''input'' = Some (JObject m)"
  shows "append_stored_input_items (JObject m) [] = [JObject m]"
    and "st_messages (build_state body rec tools usage) =
      replay_messages_from_stored (stored_messages_for_rehydrate rec)"
  using assms by (simp_all add: append_stored_input_items_def build_state_histories normalize_input_def)

end
