(* ===== verification/Store_Items.thy ===== *)
theory Store_Items
  imports Store_Backends
begin

text \<open>
  The conversation and item operations of the two backends (\<open>apis/src/store/sqlite.rs\<close>,
  \<open>postgres.rs\<close>), and the part of the trait \<open>ConversationItemStore\<close> its clients rely on: what a
  listing gives from a cursor on, and what creating and deleting items does to the contents of a
  conversation. The statements of the two backends mean
  the same, so one definition stands for both here; their texts are in \<open>Store_Sql\<close>.
\<close>

section \<open>Conversations\<close>

definition conversation_to_row :: "externals \<Rightarrow> conversation_record \<Rightarrow> store_error + conversation_row" where
  "conversation_to_row ext r =
     and_then (to_column ext (cr_messages r)) (\<lambda>messages.
     and_then (to_column ext (cr_metadata r)) (\<lambda>metadata.
       Inr \<lparr>crow_conversation_id = cr_conversation_id r, crow_tenant_id = cr_tenant_id r,
            crow_created_at = cr_created_at r, crow_metadata = metadata, crow_messages = messages\<rparr>))"

definition row_to_conversation_record :: "externals \<Rightarrow> conversation_row \<Rightarrow> store_error + conversation_record" where
  "row_to_conversation_record ext row =
     and_then (from_column ext (crow_metadata row)) (\<lambda>metadata.
     and_then (from_column ext (crow_messages row)) (\<lambda>messages.
       Inr \<lparr>cr_conversation_id = crow_conversation_id row, cr_tenant_id = crow_tenant_id row,
            cr_created_at = crow_created_at row, cr_metadata = metadata, cr_messages = messages\<rparr>))"

text \<open>On conflict the messages and the metadata are replaced; the time of creation stays.\<close>

definition merge_conversation_row :: "conversation_row \<Rightarrow> conversation_row \<Rightarrow> conversation_row" where
  "merge_conversation_row old excluded =
     old\<lparr>crow_messages := crow_messages excluded, crow_metadata := crow_metadata excluded\<rparr>"

definition upsert_conversation :: "externals \<Rightarrow> conversation_record \<Rightarrow> store_db \<Rightarrow> store_error + store_db" where
  "upsert_conversation ext r db =
     and_then (conversation_to_row ext r) (\<lambda>row.
       execute db (db\<lparr>db_conversations :=
         merge_row conversation_key merge_conversation_row row (db_conversations db)\<rparr>))"

definition get_conversation ::
  "externals \<Rightarrow> str \<Rightarrow> str \<Rightarrow> store_db \<Rightarrow> store_error + conversation_record option" where
  "get_conversation ext tenant_id conversation_id db =
     and_then (execute db (row_with conversation_key (tenant_id, conversation_id) (db_conversations db)))
       (\<lambda>row. transpose_opt (map_option (row_to_conversation_record ext) row))"

definition update_conversation_messages ::
  "externals \<Rightarrow> str \<Rightarrow> str \<Rightarrow> json \<Rightarrow> store_db \<Rightarrow> store_error + store_db \<times> bool" where
  "update_conversation_messages ext tenant_id conversation_id messages db =
     and_then (to_column ext messages) (\<lambda>text.
       (let key = (tenant_id, conversation_id);
            rows_affected = length (filter (\<lambda>r. conversation_key r = key) (db_conversations db))
        in execute db
             (db\<lparr>db_conversations :=
                update_rows conversation_key key (\<lambda>r. r\<lparr>crow_messages := text\<rparr>) (db_conversations db)\<rparr>,
              rows_affected > 0)))"

definition delete_conversation :: "str \<Rightarrow> str \<Rightarrow> store_db \<Rightarrow> store_error + store_db \<times> bool" where
  "delete_conversation tenant_id conversation_id db =
     (let rest = delete_rows conversation_key (tenant_id, conversation_id) (db_conversations db);
          rows_affected = length (db_conversations db) - length rest
      in execute db (db\<lparr>db_conversations := rest\<rparr>, rows_affected > 0))"

section \<open>Items\<close>

definition item_to_row :: "externals \<Rightarrow> item_record \<Rightarrow> store_error + item_row" where
  "item_to_row ext r =
     and_then (to_column ext (ir_item_data r)) (\<lambda>item_data.
       Inr \<lparr>irow_item_id = ir_item_id r, irow_tenant_id = ir_tenant_id r,
            irow_conversation_id = ir_conversation_id r, irow_item_data = item_data,
            irow_created_at = ir_created_at r, irow_position = ir_position r\<rparr>)"

definition row_to_conversation_item_record :: "externals \<Rightarrow> item_row \<Rightarrow> store_error + item_record" where
  "row_to_conversation_item_record ext row =
     and_then (from_column ext (irow_item_data row)) (\<lambda>item_data.
       Inr \<lparr>ir_item_id = irow_item_id row, ir_tenant_id = irow_tenant_id row,
            ir_conversation_id = irow_conversation_id row, ir_item_data = item_data,
            ir_created_at = irow_created_at row, ir_position = irow_position row\<rparr>)"

text \<open>Every item operation needs the table of items.\<close>

definition with_items_table :: "store_db \<Rightarrow> (store_error + 'a) \<Rightarrow> store_error + 'a" where
  "with_items_table db r =
     (case tn_items (db_tables db) of
        None \<Rightarrow> Inl (Unavailable ''items table not configured'')
      | Some table \<Rightarrow> r)"

text \<open>The inserts of the transaction; the first that fails rolls it back.\<close>

fun insert_items :: "externals \<Rightarrow> item_record list \<Rightarrow> item_row list \<Rightarrow> store_error + item_row list" where
  "insert_items ext [] rows = Inr rows"
| "insert_items ext (item # items) rows =
     and_then (item_to_row ext item) (\<lambda>row.
     and_then (case insert_row item_key row rows of Inl e \<Rightarrow> Inl (Database e) | Inr rows' \<Rightarrow> Inr rows')
       (insert_items ext items))"

definition create_conversation_items ::
  "externals \<Rightarrow> item_record list \<Rightarrow> store_db \<Rightarrow> store_error + store_db" where
  "create_conversation_items ext items db =
     with_items_table db
       (and_then (execute db (db_items db)) (\<lambda>rows.
        and_then (insert_items ext items rows) (\<lambda>rows'.
          Inr (db\<lparr>db_items := rows'\<rparr>))))"

definition in_scope :: "str \<Rightarrow> str \<Rightarrow> item_row \<Rightarrow> bool" where
  "in_scope tenant_id conversation_id r \<longleftrightarrow>
     irow_tenant_id r = tenant_id \<and> irow_conversation_id r = conversation_id"

definition get_conversation_item ::
  "externals \<Rightarrow> str \<Rightarrow> str \<Rightarrow> str \<Rightarrow> store_db \<Rightarrow> store_error + item_record option" where
  "get_conversation_item ext tenant_id conversation_id item_id db =
     with_items_table db
       (and_then (execute db (row_with item_key (tenant_id, conversation_id, item_id) (db_items db)))
          (\<lambda>row. transpose_opt (map_option (row_to_conversation_item_record ext) row)))"

definition conversation_item_position :: "str \<Rightarrow> str \<Rightarrow> str \<Rightarrow> store_db \<Rightarrow> store_error + int option" where
  "conversation_item_position tenant_id conversation_id item_id db =
     with_items_table db
       (execute db (map_option irow_position
          (row_with item_key (tenant_id, conversation_id, item_id) (db_items db))))"

definition delete_conversation_item ::
  "str \<Rightarrow> str \<Rightarrow> str \<Rightarrow> store_db \<Rightarrow> store_error + store_db \<times> bool" where
  "delete_conversation_item tenant_id conversation_id item_id db =
     with_items_table db
       (let rest = delete_rows item_key (tenant_id, conversation_id, item_id) (db_items db);
            rows_affected = length (db_items db) - length rest
        in execute db (db\<lparr>db_items := rest\<rparr>, rows_affected > 0))"

definition get_existing_conversation_item_ids ::
  "str \<Rightarrow> str \<Rightarrow> str list \<Rightarrow> store_db \<Rightarrow> store_error + str list" where
  "get_existing_conversation_item_ids tenant_id conversation_id item_ids db =
     with_items_table db
       (if item_ids = [] then Inr []
        else execute db
          (map irow_item_id
             (filter (\<lambda>r. in_scope tenant_id conversation_id r \<and> irow_item_id r \<in> set item_ids) (db_items db))))"

definition max_item_position :: "str \<Rightarrow> str \<Rightarrow> store_db \<Rightarrow> store_error + int" where
  "max_item_position tenant_id conversation_id db =
     with_items_table db
       (execute db
          (case map irow_position (filter (in_scope tenant_id conversation_id) (db_items db)) of
             [] \<Rightarrow> 0
           | p # ps \<Rightarrow> fold max ps p))"

text \<open>
  \<open>ORDER BY position, item_id\<close> in either direction. Two items of a conversation never have both
  in common, so that the order is total.
\<close>

definition order_key :: "store_db \<Rightarrow> item_row \<Rightarrow> int \<times> str" where
  "order_key db r = (irow_position r, db_collation db (irow_item_id r))"

definition order_by :: "store_db \<Rightarrow> bool \<Rightarrow> item_row list \<Rightarrow> item_row list" where
  "order_by db ascending rows =
     (if ascending then sort_key (order_key db) rows else rev (sort_key (order_key db) rows))"

text \<open>The condition on the rows past the cursor.\<close>

definition past_cursor :: "store_db \<Rightarrow> bool \<Rightarrow> int \<Rightarrow> str \<Rightarrow> item_row \<Rightarrow> bool" where
  "past_cursor db ascending pos item_id r \<longleftrightarrow>
     (if ascending then irow_position r > pos \<or>
        (irow_position r = pos \<and> db_collation db (irow_item_id r) > db_collation db item_id)
      else irow_position r < pos \<or>
        (irow_position r = pos \<and> db_collation db (irow_item_id r) < db_collation db item_id))"

definition list_conversation_items ::
  "externals \<Rightarrow> str \<Rightarrow> str \<Rightarrow> str option \<Rightarrow> nat \<Rightarrow> bool \<Rightarrow> store_db \<Rightarrow> store_error + item_record list" where
  "list_conversation_items ext tenant_id conversation_id after_item_id limit ascending db =
     with_items_table db
       (let scope = filter (in_scope tenant_id conversation_id) (db_items db)
        in case after_item_id of
             Some item_id \<Rightarrow>
               and_then (conversation_item_position tenant_id conversation_id item_id db) (\<lambda>found.
                 case found of
                   None \<Rightarrow> Inr []
                 | Some pos \<Rightarrow>
                     and_then (execute db (take limit (order_by db ascending
                                  (filter (past_cursor db ascending pos item_id) scope))))
                       (map_result (row_to_conversation_item_record ext)))
           | None \<Rightarrow>
               and_then (execute db (take limit (order_by db ascending scope)))
                 (map_result (row_to_conversation_item_record ext)))"

section \<open>Rows in order\<close>

lemma insort_key_append:
  "\<forall>y \<in> set ys. f x \<le> f y \<Longrightarrow> insort_key f x (zs @ ys) = insort_key f x zs @ ys"
proof (induction zs)
  case Nil
  then show ?case by (cases ys) simp_all
qed simp

lemma sort_key_append:
  assumes "sorted (map f ys)" and "\<forall>x \<in> set xs. \<forall>y \<in> set ys. f x \<le> f y"
  shows "sort_key f (xs @ ys) = sort_key f xs @ ys"
  using assms
proof (induction xs)
  case Nil
  then show ?case by (induction ys) (auto simp: insort_is_Cons)
qed (simp add: insort_key_append)

lemma filter_around:
  fixes f :: "'a \<Rightarrow> 'b::linorder"
  assumes "sorted (map f (xs @ q # ys))" and "distinct (map f (xs @ q # ys))"
  shows "filter (\<lambda>r. f r > f q) (xs @ q # ys) = ys" and "filter (\<lambda>r. f r < f q) (xs @ q # ys) = xs"
proof -
  have less: "f x < f y" if "f x \<le> f y" "f x \<noteq> f y" for x y using that by (rule order.not_eq_order_implies_strict [rotated])
  have "\<forall>r \<in> set xs. f r < f q" "\<forall>r \<in> set ys. f q < f r"
    using assms by (auto simp: sorted_append intro!: less) (metis imageI)
  then show "filter (\<lambda>r. f r > f q) (xs @ q # ys) = ys" "filter (\<lambda>r. f r < f q) (xs @ q # ys) = xs"
    by (auto simp: filter_empty_conv filter_id_conv dest: less_asym)
qed

lemma row_with_distinct: "distinct (map key rows) \<Longrightarrow> r \<in> set rows \<Longrightarrow> row_with key (key r) rows = Some r"
  by (induction rows) (auto simp: rev_image_eqI)

lemma map_result_all: "(\<And>x. x \<in> set xs \<Longrightarrow> f x = Inr (g x)) \<Longrightarrow> map_result f xs = Inr (map g xs)"
  by (induction xs) auto

section \<open>The item store\<close>

definition directed :: "bool \<Rightarrow> 'a list \<Rightarrow> 'a list" where
  "directed ascending xs = (if ascending then xs else rev xs)"

definition all_in :: "str \<Rightarrow> str \<Rightarrow> item_record list \<Rightarrow> bool" where
  "all_in t c items \<longleftrightarrow> list_all (\<lambda>r. ir_tenant_id r = t \<and> ir_conversation_id r = c) items"

text \<open>Items come after others: their positions are greater, and increasing.\<close>

definition come_after :: "item_record list \<Rightarrow> item_record list \<Rightarrow> bool" where
  "come_after items old \<longleftrightarrow>
     sorted_wrt (\<lambda>a b. ir_position a < ir_position b) items \<and>
     (\<forall>r \<in> set old. \<forall>i \<in> set items. ir_position r < ir_position i)"

text \<open>
  \<open>contents t c s\<close> are the items of a conversation, oldest first. A listing is a part of them,
  from the start or past the item the cursor names; what creating and deleting does to them is
  what happens to a list.
\<close>

locale conversation_item_store =
  fixes ok :: "'s \<Rightarrow> bool"
    and contents :: "str \<Rightarrow> str \<Rightarrow> 's \<Rightarrow> item_record list"
    and kept :: "item_record \<Rightarrow> bool"
    and list_op :: "str \<Rightarrow> str \<Rightarrow> str option \<Rightarrow> nat \<Rightarrow> bool \<Rightarrow> 's \<Rightarrow> store_error + item_record list"
    and create :: "item_record list \<Rightarrow> 's \<Rightarrow> store_error + 's"
    and delete :: "str \<Rightarrow> str \<Rightarrow> str \<Rightarrow> 's \<Rightarrow> store_error + 's \<times> bool"
  assumes list_start: "ok s \<Longrightarrow> list_op t c None n asc s = Inr (take n (directed asc (contents t c s)))"
    and list_past: "ok s \<Longrightarrow> directed asc (contents t c s) = xs @ r # ys \<Longrightarrow>
      list_op t c (Some (ir_item_id r)) n asc s = Inr (take n ys)"
    and create_keeps: "ok s \<Longrightarrow> create items s = Inr s' \<Longrightarrow> list_all kept items \<Longrightarrow> ok s'"
    and create_appends: "ok s \<Longrightarrow> create items s = Inr s' \<Longrightarrow> list_all kept items \<Longrightarrow> all_in t c items \<Longrightarrow>
      come_after items (contents t c s) \<Longrightarrow> contents t c s' = contents t c s @ items"
    and create_other: "create items s = Inr s' \<Longrightarrow> all_in t c items \<Longrightarrow> (t', c') \<noteq> (t, c) \<Longrightarrow>
      contents t' c' s' = contents t' c' s"
    and delete_keeps: "ok s \<Longrightarrow> delete t c i s = Inr (s', b) \<Longrightarrow> ok s'"
    and delete_drops: "ok s \<Longrightarrow> delete t c i s = Inr (s', b) \<Longrightarrow>
      contents t c s' = filter (\<lambda>r. ir_item_id r \<noteq> i) (contents t c s)"
    and delete_other: "delete t c i s = Inr (s', b) \<Longrightarrow> (t', c') \<noteq> (t, c) \<Longrightarrow> contents t' c' s' = contents t' c' s"
    and delete_found: "ok s \<Longrightarrow> delete t c i s = Inr (s', b) \<Longrightarrow> b \<longleftrightarrow> i \<in> ir_item_id ` set (contents t c s)"

section \<open>The tables satisfy it\<close>

text \<open>The item of a row.\<close>

definition item_of :: "externals \<Rightarrow> item_row \<Rightarrow> item_record" where
  "item_of ext row =
     \<lparr>ir_item_id = irow_item_id row, ir_tenant_id = irow_tenant_id row,
      ir_conversation_id = irow_conversation_id row,
      ir_item_data = (case from_column ext (irow_item_data row) of Inr v \<Rightarrow> v | Inl _ \<Rightarrow> JNull),
      ir_created_at = irow_created_at row, ir_position = irow_position row\<rparr>"

definition scope_rows :: "str \<Rightarrow> str \<Rightarrow> store_db \<Rightarrow> item_row list" where
  "scope_rows t c db = sort_key (order_key db) (filter (in_scope t c) (db_items db))"

definition item_contents :: "externals \<Rightarrow> str \<Rightarrow> str \<Rightarrow> store_db \<Rightarrow> item_record list" where
  "item_contents ext t c db = map (item_of ext) (scope_rows t c db)"

text \<open>A working database: the keys are unique and every column of items can be read.\<close>

definition items_ok :: "externals \<Rightarrow> store_db \<Rightarrow> bool" where
  "items_ok ext db \<longleftrightarrow>
     db_fault db = None \<and> tn_items (db_tables db) \<noteq> None \<and> inj (db_collation db) \<and>
     distinct (map item_key (db_items db)) \<and>
     (\<forall>r \<in> set (db_items db). \<exists>v. from_column ext (irow_item_data r) = Inr v)"

definition item_kept :: "externals \<Rightarrow> item_record \<Rightarrow> bool" where
  "item_kept ext r \<longleftrightarrow> json_kept ext (ir_item_data r)"

lemma items_of_rows:
  "items_ok ext db \<Longrightarrow> set rows \<subseteq> set (db_items db) \<Longrightarrow>
     map_result (row_to_conversation_item_record ext) rows = Inr (map (item_of ext) rows)"
  by (rule map_result_all)
     (force simp: items_ok_def row_to_conversation_item_record_def item_of_def and_then_eq_case)

lemma item_of_id [simp]: "ir_item_id (item_of ext r) = irow_item_id r"
  by (simp add: item_of_def)

lemma set_scope_rows: "set (scope_rows t c db) = {r \<in> set (db_items db). in_scope t c r}"
  by (auto simp: scope_rows_def)

lemma order_key_inj:
  assumes "items_ok ext db" shows "inj_on (order_key db) (set (scope_rows t c db))"
proof (rule inj_onI)
  fix p q assume pq: "p \<in> set (scope_rows t c db)" "q \<in> set (scope_rows t c db)" "order_key db p = order_key db q"
  with assms have "irow_item_id p = irow_item_id q" by (simp add: items_ok_def order_key_def inj_eq)
  with pq have "item_key p = item_key q" by (simp add: set_scope_rows in_scope_def item_key_def)
  with assms pq show "p = q" by (auto simp: items_ok_def set_scope_rows distinct_map dest: inj_onD)
qed

lemma distinct_order_keys:
  assumes "items_ok ext db" shows "distinct (map (order_key db) (scope_rows t c db))"
proof -
  have "distinct (scope_rows t c db)"
    using assms by (auto simp: scope_rows_def items_ok_def distinct_map)
  with order_key_inj [OF assms] show ?thesis by (simp add: distinct_map)
qed

lemma past_cursor_key:
  "past_cursor db asc (irow_position q) (irow_item_id q) =
     (\<lambda>r. if asc then order_key db r > order_key db q else order_key db r < order_key db q)"
  by (auto simp: fun_eq_iff past_cursor_def order_key_def less_prod_def')

lemma order_by_filter:
  "order_by db asc (filter P (filter (in_scope t c) (db_items db))) = directed asc (filter P (scope_rows t c db))"
  by (simp add: order_by_def directed_def scope_rows_def filter_sort)

lemma directed_split: "directed asc zs = xs @ r # ys \<Longrightarrow> zs = (if asc then xs @ r # ys else rev ys @ r # rev xs)"
  by (auto simp: directed_def split: if_splits) (metis append.assoc append_Cons append_Nil rev_append rev_rev_ident rev_singleton_conv singleton_rev_conv)

lemma rows_past:
  assumes "items_ok ext db" and "directed asc (scope_rows t c db) = xs @ q # ys"
  shows "order_by db asc (filter (past_cursor db asc (irow_position q) (irow_item_id q))
      (filter (in_scope t c) (db_items db))) = ys"
proof -
  have s: "sorted (map (order_key db) (scope_rows t c db))" by (simp add: scope_rows_def)
  note zs = directed_split [OF assms(2)] and d = distinct_order_keys [OF assms(1), of t c]
  have "filter (past_cursor db asc (irow_position q) (irow_item_id q)) (scope_rows t c db) = directed asc ys"
  proof (cases asc)
    case True
    with zs s d filter_around(1) [of "order_key db" xs q ys] show ?thesis by (simp add: past_cursor_key directed_def)
  next
    case False
    with zs s d filter_around(2) [of "order_key db" "rev ys" q "rev xs"] show ?thesis
      by (simp add: past_cursor_key directed_def)
  qed
  then show ?thesis unfolding order_by_filter by (simp add: directed_def)
qed

lemma position_of_row:
  assumes "items_ok ext db" and "q \<in> set (scope_rows t c db)"
  shows "conversation_item_position t c (irow_item_id q) db = Inr (Some (irow_position q))"
proof -
  have "item_key q = (t, c, irow_item_id q)" using assms(2) by (simp add: set_scope_rows in_scope_def item_key_def)
  with assms row_with_distinct [of item_key "db_items db" q]
  show ?thesis
    by (auto simp: conversation_item_position_def with_items_table_def items_ok_def execute_def set_scope_rows
        split: option.split)
qed

lemma list_items_eq:
  assumes "items_ok ext db"
  shows "list_conversation_items ext t c None n asc db =
      Inr (take n (directed asc (item_contents ext t c db)))"
    and "directed asc (item_contents ext t c db) = xs @ r # ys \<Longrightarrow>
      list_conversation_items ext t c (Some (ir_item_id r)) n asc db = Inr (take n ys)"
proof -
  have ok: "db_fault db = None" "\<exists>tab. tn_items (db_tables db) = Some tab" using assms by (auto simp: items_ok_def)
  have "map_result (row_to_conversation_item_record ext) (take n (directed asc (scope_rows t c db))) =
      Inr (map (item_of ext) (take n (directed asc (scope_rows t c db))))"
    by (rule items_of_rows [OF assms]) (auto simp: directed_def set_scope_rows dest: in_set_takeD)
  with ok show "list_conversation_items ext t c None n asc db =
      Inr (take n (directed asc (item_contents ext t c db)))"
    by (auto simp: list_conversation_items_def with_items_table_def execute_def order_by_def directed_def
        item_contents_def scope_rows_def take_map rev_map)
next
  assume "directed asc (item_contents ext t c db) = xs @ r # ys"
  then have "map (item_of ext) (directed asc (scope_rows t c db)) = xs @ r # ys"
    by (simp add: directed_def item_contents_def rev_map split: if_splits)
  then obtain us q vs where split: "directed asc (scope_rows t c db) = us @ q # vs"
    and r: "r = item_of ext q" "ys = map (item_of ext) vs"
    by (auto simp: map_eq_append_conv Cons_eq_map_conv)
  have sub: "set (us @ q # vs) = set (scope_rows t c db)" by (metis split directed_def set_rev)
  then have q: "q \<in> set (scope_rows t c db)" by auto
  have "set (take n vs) \<subseteq> set (scope_rows t c db)" using sub by (auto dest: in_set_takeD)
  then have "map_result (row_to_conversation_item_record ext) (take n vs) = Inr (map (item_of ext) (take n vs))"
    by (intro items_of_rows [OF assms]) (auto simp: set_scope_rows)
  moreover obtain tab where "db_fault db = None" "tn_items (db_tables db) = Some tab"
    using assms by (auto simp: items_ok_def)
  ultimately show "list_conversation_items ext t c (Some (ir_item_id r)) n asc db = Inr (take n ys)"
    using position_of_row [OF assms q] rows_past [OF assms split] r
    by (simp add: list_conversation_items_def with_items_table_def execute_def take_map)
qed

lemma delete_item_Inr:
  "delete_conversation_item t c i db = Inr (db', b) \<longleftrightarrow>
     tn_items (db_tables db) \<noteq> None \<and> db_fault db = None \<and>
     db' = db\<lparr>db_items := delete_rows item_key (t, c, i) (db_items db)\<rparr> \<and>
     (b \<longleftrightarrow> (t, c, i) \<in> item_key ` set (db_items db))"
proof -
  have "length (delete_rows item_key k rows) < length rows \<longleftrightarrow> k \<in> item_key ` set rows" for k rows
    unfolding delete_rows_def by (auto intro: length_filter_less)
       (metis (mono_tags, lifting) filter_True imageI less_irrefl)
  then show ?thesis
    by (auto simp: delete_conversation_item_def with_items_table_def Let_def execute_Inr split: option.splits)
qed

lemma scope_delete:
  assumes "delete_conversation_item t c i db = Inr (db', b)"
  shows "scope_rows t' c' db' =
    (if (t', c') = (t, c) then filter (\<lambda>r. irow_item_id r \<noteq> i) (scope_rows t c db) else scope_rows t' c' db)"
proof -
  have "filter (in_scope t' c') (delete_rows item_key (t, c, i) rows) =
      (if (t', c') = (t, c) then filter (\<lambda>r. irow_item_id r \<noteq> i) (filter (in_scope t c) rows)
       else filter (in_scope t' c') rows)" for rows
    by (auto simp: delete_rows_def in_scope_def item_key_def intro!: filter_cong)
  moreover have "order_key db' = order_key db" using assms by (auto simp: delete_item_Inr order_key_def fun_eq_iff)
  ultimately show ?thesis using assms by (auto simp: delete_item_Inr scope_rows_def filter_sort)
qed

lemma insert_items_append:
  "insert_items ext items rows = Inr rows' \<Longrightarrow>
     \<exists>new. rows' = rows @ new \<and> map_result (item_to_row ext) items = Inr new \<and>
       (distinct (map item_key rows) \<longrightarrow> distinct (map item_key rows'))"
proof (induction ext items rows rule: insert_items.induct)
  case (2 ext item items rows)
  then obtain row where a: "item_to_row ext item = Inr row"
    and b: "and_then (case insert_row item_key row rows of Inl e \<Rightarrow> Inl (Database e) | Inr r \<Rightarrow> Inr r)
      (insert_items ext items) = Inr rows'"
    by (auto simp: and_then_Inr_iff)
  from b obtain rows1 where "insert_row item_key row rows = Inr rows1" "insert_items ext items rows1 = Inr rows'"
    by (cases "insert_row item_key row rows") auto
  with a have row: "item_to_row ext item = Inr row" "insert_row item_key row rows = Inr rows1"
    and rest: "insert_items ext items rows1 = Inr rows'"
    by simp_all
  from row(2) have rows1: "rows1 = rows @ [row]" by (simp add: insert_row_def split: if_splits)
  from "2.IH" [OF rest] row(2) obtain new where "rows' = rows1 @ new"
    "map_result (item_to_row ext) items = Inr new"
    "distinct (map item_key rows1) \<longrightarrow> distinct (map item_key rows')"
    by auto
  with row rows1 distinct_insert [OF row(2)] show ?case by simp
qed simp

lemma item_to_row_kept:
  assumes "item_to_row ext r = Inr row" and "item_kept ext r"
  shows "item_of ext row = r" and "\<exists>v. from_column ext (irow_item_data row) = Inr v"
proof -
  from assms(1) obtain s where "to_column ext (ir_item_data r) = Inr s"
    and "row = \<lparr>irow_item_id = ir_item_id r, irow_tenant_id = ir_tenant_id r, irow_conversation_id = ir_conversation_id r,
      irow_item_data = s, irow_created_at = ir_created_at r, irow_position = ir_position r\<rparr>"
    by (auto simp: item_to_row_def and_then_Inr_iff)
  moreover from this(1) assms(2) have "from_column ext s = Inr (ir_item_data r)"
    by (auto simp: item_kept_def intro: column_kept)
  ultimately show "item_of ext row = r" "\<exists>v. from_column ext (irow_item_data row) = Inr v"
    by (auto simp: item_of_def)
qed

lemma item_to_row_fields:
  assumes "item_to_row ext r = Inr row"
  shows "in_scope t c row \<longleftrightarrow> ir_tenant_id r = t \<and> ir_conversation_id r = c"
    and "irow_position row = ir_position r"
  using assms by (auto simp: item_to_row_def and_then_Inr_iff in_scope_def)

lemma items_to_rows:
  assumes "map_result (item_to_row ext) items = Inr new"
  shows "list_all (item_kept ext) items \<Longrightarrow> map (item_of ext) new = items"
    and "list_all (item_kept ext) items \<Longrightarrow> \<forall>r \<in> set new. \<exists>v. from_column ext (irow_item_data r) = Inr v"
    and "all_in t c items \<Longrightarrow> filter (in_scope t' c') new = (if (t', c') = (t, c) then new else [])"
    and "map irow_position new = map ir_position items"
  using assms
  by (induction items arbitrary: new)
     (auto simp: and_then_Inr_iff item_to_row_kept item_to_row_fields all_in_def)

lemma create_items_Inr:
  "create_conversation_items ext items db = Inr db' \<Longrightarrow>
     tn_items (db_tables db) \<noteq> None \<and> db_fault db = None \<and>
     (\<exists>new. db' = db\<lparr>db_items := db_items db @ new\<rparr> \<and> map_result (item_to_row ext) items = Inr new \<and>
        (distinct (map item_key (db_items db)) \<longrightarrow> distinct (map item_key (db_items db'))))"
  by (auto simp: create_conversation_items_def with_items_table_def and_then_Inr_iff execute_Inr
      dest!: insert_items_append split: option.splits)

lemma create_contents:
  assumes ok: "items_ok ext db" and created: "create_conversation_items ext items db = Inr db'"
    and kept: "list_all (item_kept ext) items" and scope: "all_in t c items"
    and after: "come_after items (item_contents ext t c db)"
  shows "item_contents ext t c db' = item_contents ext t c db @ items"
proof -
  from created obtain new where db': "db' = db\<lparr>db_items := db_items db @ new\<rparr>"
    and new: "map_result (item_to_row ext) items = Inr new"
    by (auto dest: create_items_Inr)
  note rows = items_to_rows [OF new]
  from after have pos: "sorted_wrt (<) (map irow_position new)"
    by (simp add: rows(4) come_after_def sorted_wrt_map)
  have old: "irow_position r < irow_position q" if "r \<in> set (filter (in_scope t c) (db_items db))" "q \<in> set new" for r q
  proof -
    from that(1) have "item_of ext r \<in> set (item_contents ext t c db)"
      by (auto simp: item_contents_def set_scope_rows)
    moreover from that(2) have "item_of ext q \<in> set items" using rows(1) [OF kept] by auto
    ultimately show ?thesis using after by (force simp: come_after_def item_of_def)
  qed
  have "sorted (map (order_key db) new)"
    using pos by (auto simp: sorted_map sorted_wrt_map order_key_def less_eq_prod_def elim!: sorted_wrt_mono_rel [rotated])
  then have "sort_key (order_key db) (filter (in_scope t c) (db_items db) @ new) =
      sort_key (order_key db) (filter (in_scope t c) (db_items db)) @ new"
    by (rule sort_key_append) (use old in \<open>force simp: order_key_def less_eq_prod_def\<close>)
  moreover have "order_key db' = order_key db" by (simp add: db' order_key_def fun_eq_iff)
  ultimately have "scope_rows t c db' = scope_rows t c db @ new"
    by (simp add: scope_rows_def db' rows(3) [OF scope])
  with rows(1) [OF kept] show ?thesis by (simp add: item_contents_def)
qed

interpretation items: conversation_item_store "items_ok ext" "item_contents ext" "item_kept ext"
  "list_conversation_items ext" "create_conversation_items ext" delete_conversation_item
  for ext
proof unfold_locales
  fix s t c n asc xs r ys
  assume "items_ok ext s"
  from list_items_eq [OF this]
  show "list_conversation_items ext t c None n asc s = Inr (take n (directed asc (item_contents ext t c s)))"
    and "directed asc (item_contents ext t c s) = xs @ r # ys \<Longrightarrow>
      list_conversation_items ext t c (Some (ir_item_id r)) n asc s = Inr (take n ys)"
    by blast+
next
  fix s items s'
  assume a: "items_ok ext s" "create_conversation_items ext items s = Inr s'" "list_all (item_kept ext) items"
  then obtain new where "s' = s\<lparr>db_items := db_items s @ new\<rparr>" "map_result (item_to_row ext) items = Inr new"
    "distinct (map item_key (db_items s'))"
    by (auto simp: items_ok_def dest!: create_items_Inr)
  with a(1) items_to_rows(2) [OF this(2) a(3)] show "items_ok ext s'" by (auto simp: items_ok_def)
next
  fix s items s' t c
  assume "items_ok ext s" "create_conversation_items ext items s = Inr s'" "list_all (item_kept ext) items"
    "all_in t c items" "come_after items (item_contents ext t c s)"
  then show "item_contents ext t c s' = item_contents ext t c s @ items" by (rule create_contents)
next
  fix items s s' t c t' c'
  assume a: "create_conversation_items ext items s = Inr s'" "all_in t c items" "(t', c') \<noteq> (t, c)"
  then obtain new where new: "s' = s\<lparr>db_items := db_items s @ new\<rparr>" "map_result (item_to_row ext) items = Inr new"
    by (auto dest!: create_items_Inr)
  moreover from new have "order_key s' = order_key s" by (simp add: order_key_def fun_eq_iff)
  ultimately show "item_contents ext t' c' s' = item_contents ext t' c' s"
    using items_to_rows(3) [OF new(2) a(2), of t' c'] a(3) by (auto simp: item_contents_def scope_rows_def)
next
  fix s t c i s' b
  assume a: "items_ok ext s" "delete_conversation_item t c i s = Inr (s', b)"
  then show "items_ok ext s'"
    by (auto simp: items_ok_def delete_item_Inr distinct_delete) (auto simp: delete_rows_def)
  from a show "item_contents ext t c s' = filter (\<lambda>r. ir_item_id r \<noteq> i) (item_contents ext t c s)"
    by (simp add: item_contents_def scope_delete filter_map comp_def)
  from a show "b \<longleftrightarrow> i \<in> ir_item_id ` set (item_contents ext t c s)"
    by (auto simp: delete_item_Inr item_contents_def set_scope_rows item_key_def in_scope_def image_iff)
next
  fix t c i s s' b t' c'
  assume "delete_conversation_item t c i s = Inr (s', b)" "(t', c') \<noteq> (t, c)"
  then show "item_contents ext t' c' s' = item_contents ext t' c' s"
    by (auto simp: item_contents_def scope_delete)
qed

end
