(* ===== verification/Conversations.thy ===== *)
theory Conversations
  imports Store_Items Store_Config Input_Items Rehydrate
begin

text \<open>
  The handlers of the endpoints under \<open>/v1/conversations\<close>
  (\<open>apis/src/openai/conversations/handlers.rs\<close>, \<open>validate.rs\<close>). A handler gets the context of the
  request and the store, and gives the changed store and the answer. The identifiers the
  generator gives during a request are a sequence, and the clock is an argument.
\<close>

section \<open>Metadata\<close>

definition MAX_METADATA_KEYS :: nat where "MAX_METADATA_KEYS = 16"
definition MAX_KEY_BYTES :: nat where "MAX_KEY_BYTES = 64"
definition MAX_VALUE_BYTES :: nat where "MAX_VALUE_BYTES = 512"

fun validate_metadata_entries :: "jmap \<Rightarrow> str + unit" where
  "validate_metadata_entries [] = Inr ()"
| "validate_metadata_entries ((key, v) # obj) =
     (if length key > MAX_KEY_BYTES then Inl (''metadata key exceeds 64 bytes: '' @ quoted key)
      else case v of
        JString s \<Rightarrow>
          if length s > MAX_VALUE_BYTES then Inl (''metadata value for key '' @ quoted key @ '' exceeds 512 bytes'')
          else validate_metadata_entries obj
      | _ \<Rightarrow> Inl (''metadata value for key '' @ quoted key @ '' must be a string''))"

definition validate_metadata :: "json \<Rightarrow> str + unit" where
  "validate_metadata metadata =
     (case metadata of
        JObject obj \<Rightarrow>
          if length obj > MAX_METADATA_KEYS then
            Inl (''metadata must have at most 16 keys, got '' @ show_nat (length obj))
          else validate_metadata_entries obj
      | JNull \<Rightarrow> Inr ()
      | _ \<Rightarrow> Inl ''metadata must be a JSON object'')"

section \<open>Requests\<close>

definition MAX_ITEMS_PER_REQUEST :: nat where "MAX_ITEMS_PER_REQUEST = 20"

record item_list_params =
  after_item_id :: "str option"
  ip_limit :: nat
  ascending :: bool

definition default_item_list_params :: item_list_params where
  "default_item_list_params = \<lparr>after_item_id = None, ip_limit = DEFAULT_PAGE_LIMIT, ascending = False\<rparr>"

definition ip_effective_limit :: "item_list_params \<Rightarrow> nat" where
  "ip_effective_limit params = max 1 (min MAX_PAGE_LIMIT (ip_limit params))"

definition decode_query_component :: "url_fns \<Rightarrow> str \<Rightarrow> str" where
  "decode_query_component u v = percent_decode u (map (\<lambda>c. if c = CHR ''+'' then CHR '' '' else c) v)"

definition item_list_param :: "url_fns \<Rightarrow> str \<Rightarrow> item_list_params \<Rightarrow> item_list_params" where
  "item_list_param u pair params =
     (case split_once ''='' pair of
        None \<Rightarrow> params
      | Some (key, v) \<Rightarrow>
          if key = ''after'' then params\<lparr>after_item_id := Some (decode_query_component u v)\<rparr>
          else if key = ''limit'' then
            (case parse_uint 32 v of None \<Rightarrow> params | Some n \<Rightarrow> params\<lparr>ip_limit := n\<rparr>)
          else if key = ''order'' then
            (if v = ''asc'' then params\<lparr>ascending := True\<rparr>
             else if v = ''desc'' then params\<lparr>ascending := False\<rparr> else params)
          else params)"

definition parse_item_list_params :: "url_fns \<Rightarrow> str option \<Rightarrow> item_list_params" where
  "parse_item_list_params u query =
     (case query of
        None \<Rightarrow> default_item_list_params
      | Some qs \<Rightarrow> fold (item_list_param u) (split_char (CHR ''&'') qs) default_item_list_params)"

definition parse_json_body :: "externals \<Rightarrow> bytes \<Rightarrow> str + json" where
  "parse_json_body ext body =
     (case from_slice ext body of Inl e \<Rightarrow> Inl (''invalid JSON body: '' @ e) | Inr v \<Rightarrow> Inr v)"

definition parse_json_object_body :: "externals \<Rightarrow> bytes \<Rightarrow> str + jmap" where
  "parse_json_object_body ext body =
     and_then (parse_json_body ext body) (\<lambda>v.
       case v of JObject m \<Rightarrow> Inr m | _ \<Rightarrow> Inl ''request body must be a JSON object'')"

definition parse_items_field :: "json option \<Rightarrow> bool \<Rightarrow> str + json list" where
  "parse_items_field field required =
     (case field of
        None \<Rightarrow> if required then Inl ([CHR 0x27] @ ''items'' @ [CHR 0x27] @ '' is required'') else Inr []
      | Some v \<Rightarrow>
          (case v of
             JArray items \<Rightarrow>
               if length items > MAX_ITEMS_PER_REQUEST then Inl ''items may contain at most 20 entries''
               else Inr items
           | _ \<Rightarrow> Inl ''items must be a JSON array''))"

section \<open>Items\<close>

definition normalize_message_content :: "str \<Rightarrow> json \<Rightarrow> str + json" where
  "normalize_message_content role content =
     (case content of
        JString text \<Rightarrow>
          Inr (JArray [if role = ''assistant'' then
                         jobj [(''type'', JString ''output_text''), (''text'', JString text), (''annotations'', JArray [])]
                       else jobj [(''type'', JString ''input_text''), (''text'', JString text)]])
      | JArray _ \<Rightarrow> Inr content
      | _ \<Rightarrow> Inl ''message content must be a string or array'')"

definition normalize_message_item :: "jmap \<Rightarrow> str + jmap" where
  "normalize_message_item m =
     (if map_of m ''type'' \<noteq> Some (JString ''message'') then Inr m
      else
        and_then (case map_of m ''role'' of
                    Some (JString role) \<Rightarrow> if role \<noteq> [] then Inr role else Inl ''message role must not be empty''
                  | Some _ \<Rightarrow> Inl ''message role must be a string''
                  | None \<Rightarrow> Inl ''message role is required'') (\<lambda>role.
        and_then (case map_of m ''content'' of
                    None \<Rightarrow> Inl ''message content is required'' | Some content \<Rightarrow> Inr content) (\<lambda>content.
        and_then (normalize_message_content role content) (\<lambda>content'.
          (let m1 = obj_insert ''content'' content' (obj_remove ''content'' m)
           in Inr (if contains_key m1 ''status'' then m1
                   else obj_insert ''status'' (JString ''completed'') m1))))))"

text \<open>The generator is called when the item has no identifier; \<open>n\<close> counts the calls.\<close>

definition generated_item_id :: "(nat \<Rightarrow> str) \<Rightarrow> nat \<Rightarrow> str" where
  "generated_item_id ids n = ''item_'' @ ids n"

definition normalize_item :: "(nat \<Rightarrow> str) \<Rightarrow> nat \<Rightarrow> json \<Rightarrow> str + nat \<times> str \<times> json" where
  "normalize_item ids n item =
     (case item of
        JObject m \<Rightarrow>
          and_then (case map_of m ''id'' of
                      Some (JString i) \<Rightarrow> if i \<noteq> [] then Inr (n, i) else Inl ''item id must not be empty''
                    | Some JNull \<Rightarrow> Inr (Suc n, generated_item_id ids n)
                    | None \<Rightarrow> Inr (Suc n, generated_item_id ids n)
                    | Some _ \<Rightarrow> Inl ''item id must be a string'') (\<lambda>(n', item_id).
          and_then (normalize_message_item (obj_insert ''id'' (JString item_id) m)) (\<lambda>m'.
            Inr (n', item_id, JObject m')))
      | _ \<Rightarrow> Inl ''each item must be a JSON object'')"

text \<open>\<open>i64::saturating_add\<close> of a non-negative offset.\<close>

definition i64_saturating_add :: "int \<Rightarrow> int \<Rightarrow> int" where
  "i64_saturating_add a b = min (a + b) (2 ^ 63 - 1)"

fun build_item_records ::
  "(nat \<Rightarrow> str) \<Rightarrow> nat \<Rightarrow> str \<Rightarrow> str \<Rightarrow> int \<Rightarrow> int \<Rightarrow> nat \<Rightarrow> json list \<Rightarrow> str + item_record list" where
  "build_item_records ids n tenant_id conversation_id created_at start_position index [] = Inr []"
| "build_item_records ids n tenant_id conversation_id created_at start_position index (item # items) =
     and_then (normalize_item ids n item) (\<lambda>(n', item_id, item_data).
     and_then (build_item_records ids n' tenant_id conversation_id created_at start_position (Suc index) items)
       (\<lambda>records.
          Inr (\<lparr>ir_item_id = item_id, ir_tenant_id = tenant_id, ir_conversation_id = conversation_id,
                ir_item_data = item_data, ir_created_at = created_at,
                ir_position = i64_saturating_add start_position (int index)\<rparr> # records)))"

fun first_repeated :: "str list \<Rightarrow> str list \<Rightarrow> str option" where
  "first_repeated seen [] = None"
| "first_repeated seen (i # is) = (if i \<in> set seen then Some i else first_repeated (i # seen) is)"

definition duplicate_item_id :: "item_record list \<Rightarrow> str option" where
  "duplicate_item_id items = first_repeated [] (map ir_item_id items)"

section \<open>Answers\<close>

definition json_i64 :: "int \<Rightarrow> json" where
  "json_i64 n = JNumber (if n \<ge> 0 then PosInt (word_of_int n) else NegInt (word_of_int n))"

definition conversation_to_json :: "conversation_record \<Rightarrow> json" where
  "conversation_to_json record =
     jobj [(''id'', JString (cr_conversation_id record)), (''object'', JString ''conversation''),
           (''created_at'', json_i64 (cr_created_at record)), (''metadata'', cr_metadata record)]"

definition conversation_items_to_json :: "item_record list \<Rightarrow> bool \<Rightarrow> json" where
  "conversation_items_to_json records more_items =
     jobj [(''object'', JString ''list''), (''data'', JArray (map ir_item_data records)),
           (''has_more'', JBool more_items),
           (''first_id'', JString (case records of [] \<Rightarrow> [] | r # _ \<Rightarrow> ir_item_id r)),
           (''last_id'', JString (if records = [] then [] else ir_item_id (last records)))]"

type_synonym answer = "filter_error + filter_action"

definition json_response :: "externals \<Rightarrow> nat \<Rightarrow> json \<Rightarrow> answer" where
  "json_response ext st body =
     (case to_text ext body of
        Inl e \<Rightarrow> Inl (''openai_conversations: serialize failed: '' @ e)
      | Inr bytes \<Rightarrow>
          Inr (Reject \<lparr>rej_status = st, rej_headers = [(''content-type'', ''application/json'')], rej_body = bytes\<rparr>))"

definition conv_error_json :: "str \<Rightarrow> str \<Rightarrow> json" where
  "conv_error_json message kind =
     jobj [(''error'', jobj [(''message'', JString message), (''type'', JString kind)])]"

definition invalid_input_response :: "externals \<Rightarrow> str \<Rightarrow> answer" where
  "invalid_input_response ext message = json_response ext 400 (conv_error_json message ''invalid_request_error'')"

definition not_found_response :: "externals \<Rightarrow> str \<Rightarrow> answer" where
  "not_found_response ext message = json_response ext 404 (conv_error_json message ''invalid_request_error'')"

definition store_error_response :: "externals \<Rightarrow> store_error \<Rightarrow> answer" where
  "store_error_response ext e =
     (case e of
        Invalid_input msg \<Rightarrow> json_response ext 400 (conv_error_json msg ''invalid_request_error'')
      | _ \<Rightarrow> json_response ext 500 (conv_error_json ''Internal server error.'' ''server_error''))"

definition conversation_not_found_message :: "str \<Rightarrow> str" where
  "conversation_not_found_message i = ''No conversation found with id: '' @ quoted i @ ''.''"
definition item_not_found_message :: "str \<Rightarrow> str" where
  "item_not_found_message i = ''No conversation item found with id: '' @ quoted i @ ''.''"
definition duplicate_item_id_message :: "str \<Rightarrow> str" where
  "duplicate_item_id_message i = ''duplicate item id in request: '' @ quoted i"
definition existing_item_id_message :: "str \<Rightarrow> str" where
  "existing_item_id_message i = ''item id already exists in conversation: '' @ quoted i"

definition current_timestamp :: "nat \<Rightarrow> int" where
  "current_timestamp secs = (if secs < 2 ^ 63 then int secs else 2 ^ 63 - 1)"

section \<open>Handlers\<close>

text \<open>The request: its context and query, the identifiers the generator will give, the time in seconds.\<close>

record conv_call =
  call_ctx :: filter_ctx
  call_query :: "str option"
  call_ids :: "nat \<Rightarrow> str"
  call_now :: nat

type_synonym outcome = "store_db \<times> answer"

text \<open>A check that answers the request when it fails, and a chain of them.\<close>

definition or_answer :: "store_db \<Rightarrow> ('e \<Rightarrow> answer) \<Rightarrow> ('e + 'a) \<Rightarrow> outcome + 'a" where
  "or_answer db respond r = (case r of Inl e \<Rightarrow> Inl (db, respond e) | Inr x \<Rightarrow> Inr x)"

definition refuse :: "store_db \<Rightarrow> ('i \<Rightarrow> answer) \<Rightarrow> 'i option \<Rightarrow> outcome + unit" where
  "refuse db respond found = (case found of Some i \<Rightarrow> Inl (db, respond i) | None \<Rightarrow> Inr ())"

definition finish :: "(outcome + outcome) \<Rightarrow> outcome" where
  "finish r = (case r of Inl out \<Rightarrow> out | Inr out \<Rightarrow> out)"

text \<open>The conversation that must exist.\<close>

definition existing_conversation ::
  "externals \<Rightarrow> str \<Rightarrow> str \<Rightarrow> store_db \<Rightarrow> outcome + conversation_record" where
  "existing_conversation ext tenant_id conversation_id db =
     and_then (or_answer db (store_error_response ext) (get_conversation ext tenant_id conversation_id db)) (\<lambda>found.
       case found of
         None \<Rightarrow> Inl (db, not_found_response ext (conversation_not_found_message conversation_id))
       | Some record \<Rightarrow> Inr record)"

definition or_empty_object :: "json \<Rightarrow> json" where
  "or_empty_object metadata = (if is_null metadata then JObject [] else metadata)"

text \<open>The conversation and the items a valid request asks for.\<close>

definition new_conversation ::
  "externals \<Rightarrow> conv_call \<Rightarrow> bytes \<Rightarrow> store_db \<Rightarrow> outcome + conversation_record \<times> item_record list" where
  "new_conversation ext call body db =
     (let tenant_id = tenant_of (call_ctx call)
      in and_then (or_answer db (invalid_input_response ext) (parse_json_object_body ext body)) (\<lambda>input.
         (let requested = unwrap_or JNull (map_of input ''metadata'')
          in and_then (or_answer db (invalid_input_response ext) (validate_metadata requested)) (\<lambda>_.
         (let metadata = or_empty_object requested;
              conversation_id = ''conv_'' @ call_ids call 0;
              created_at = current_timestamp (call_now call)
          in and_then (or_answer db (invalid_input_response ext) (parse_items_field (map_of input ''items'') False)) (\<lambda>item_values.
             and_then (or_answer db (invalid_input_response ext)
                         (build_item_records (call_ids call) 1 tenant_id conversation_id created_at 1 0 item_values)) (\<lambda>item_records.
             and_then (refuse db (\<lambda>i. invalid_input_response ext (duplicate_item_id_message i))
                         (duplicate_item_id item_records)) (\<lambda>_.
               Inr (\<lparr>cr_conversation_id = conversation_id, cr_tenant_id = tenant_id, cr_created_at = created_at,
                     cr_metadata = metadata, cr_messages = JArray (map ir_item_data item_records)\<rparr>,
                    item_records)))))))))"

definition handle_create_conversation :: "externals \<Rightarrow> conv_call \<Rightarrow> bytes \<Rightarrow> store_db \<Rightarrow> outcome" where
  "handle_create_conversation ext call body db =
     finish (
       and_then (new_conversation ext call body db) (\<lambda>(record, item_records).
       and_then (or_answer db (store_error_response ext) (upsert_conversation ext record db)) (\<lambda>db1.
       and_then (or_answer db1 (store_error_response ext)
                   (if item_records = [] then Inr db1 else create_conversation_items ext item_records db1)) (\<lambda>db2.
         Inr (db2, json_response ext 200 (conversation_to_json record))))))"

definition handle_get_conversation :: "externals \<Rightarrow> conv_call \<Rightarrow> str \<Rightarrow> store_db \<Rightarrow> outcome" where
  "handle_get_conversation ext call conversation_id db =
     finish (and_then (existing_conversation ext (tenant_of (call_ctx call)) conversation_id db) (\<lambda>record.
       Inr (db, json_response ext 200 (conversation_to_json record))))"

definition handle_update_conversation :: "externals \<Rightarrow> conv_call \<Rightarrow> str \<Rightarrow> bytes \<Rightarrow> store_db \<Rightarrow> outcome" where
  "handle_update_conversation ext call conversation_id body db =
     (let tenant_id = tenant_of (call_ctx call)
      in finish (
        and_then (or_answer db (invalid_input_response ext) (parse_json_object_body ext body)) (\<lambda>input.
        (let metadata_update = map_of input ''metadata''
         in and_then (or_answer db (invalid_input_response ext)
                        (case metadata_update of None \<Rightarrow> Inr () | Some metadata \<Rightarrow> validate_metadata metadata)) (\<lambda>_.
            and_then (existing_conversation ext tenant_id conversation_id db) (\<lambda>existing.
            (let metadata = (case metadata_update of None \<Rightarrow> cr_metadata existing
                             | Some metadata \<Rightarrow> or_empty_object metadata);
                 record = \<lparr>cr_conversation_id = conversation_id, cr_tenant_id = tenant_id,
                           cr_created_at = cr_created_at existing, cr_metadata = metadata,
                           cr_messages = cr_messages existing\<rparr>
             in and_then (or_answer db (store_error_response ext) (upsert_conversation ext record db)) (\<lambda>db1.
                  Inr (db1, json_response ext 200 (conversation_to_json record)))))))))) "

definition handle_delete_conversation :: "externals \<Rightarrow> conv_call \<Rightarrow> str \<Rightarrow> store_db \<Rightarrow> outcome" where
  "handle_delete_conversation ext call conversation_id db =
     finish (and_then (or_answer db (store_error_response ext)
                        (delete_conversation (tenant_of (call_ctx call)) conversation_id db)) (\<lambda>(db1, deleted).
       Inr (db1,
            if deleted then
              json_response ext 200
                (jobj [(''id'', JString conversation_id), (''object'', JString ''conversation.deleted''),
                       (''deleted'', JBool True)])
            else not_found_response ext (conversation_not_found_message conversation_id))))"

section \<open>The cached messages\<close>

text \<open>
  The loop over the pages of the items; \<open>list_page\<close> is the call of the store. Nothing in the code
  bounds it, so that a value is \<open>None\<close> when it does not end.
\<close>

partial_function (option) collect_loop ::
  "(str option \<Rightarrow> store_error + item_record list) \<Rightarrow> str option \<Rightarrow> json list \<Rightarrow> (store_error + json list) option"
where
  "collect_loop list_page after messages =
     (case list_page after of
        Inl e \<Rightarrow> Some (Inl e)
      | Inr rows \<Rightarrow>
          if rows = [] then Some (Inr messages)
          else
            (let messages' = messages @ map ir_item_data rows
             in if length rows < MAX_PAGE_LIMIT then Some (Inr messages')
                else collect_loop list_page (Some (ir_item_id (last rows))) messages'))"

declare collect_loop.simps [code]

definition collect_conversation_messages ::
  "externals \<Rightarrow> str \<Rightarrow> str \<Rightarrow> store_db \<Rightarrow> (store_error + json list) option" where
  "collect_conversation_messages ext tenant_id conversation_id db =
     collect_loop (\<lambda>after. list_conversation_items ext tenant_id conversation_id after MAX_PAGE_LIMIT True db) None []"

definition sync_conversation_messages ::
  "externals \<Rightarrow> conversation_record \<Rightarrow> store_db \<Rightarrow> (store_error + store_db) option" where
  "sync_conversation_messages ext record db =
     map_option (\<lambda>collected.
       and_then collected (\<lambda>messages.
       and_then (update_conversation_messages ext (cr_tenant_id record) (cr_conversation_id record) (JArray messages) db)
         (\<lambda>(db1, updated).
            if updated then Inr db1
            else Inl (Database (''conversation disappeared during message sync: '' @ cr_conversation_id record)))))
       (collect_conversation_messages ext (cr_tenant_id record) (cr_conversation_id record) db)"

section \<open>Items of a conversation\<close>

text \<open>What \<open>handle_create_items\<close> does before it refreshes the cache.\<close>

definition insert_new_items ::
  "externals \<Rightarrow> conv_call \<Rightarrow> str \<Rightarrow> bytes \<Rightarrow> store_db
     \<Rightarrow> outcome + store_db \<times> conversation_record \<times> item_record list" where
  "insert_new_items ext call conversation_id body db =
     (let tenant_id = tenant_of (call_ctx call)
      in and_then (or_answer db (invalid_input_response ext) (parse_json_object_body ext body)) (\<lambda>input.
         and_then (existing_conversation ext tenant_id conversation_id db) (\<lambda>existing.
         and_then (or_answer db (invalid_input_response ext) (parse_items_field (map_of input ''items'') True)) (\<lambda>item_values.
         and_then (or_answer db (store_error_response ext) (max_item_position tenant_id conversation_id db)) (\<lambda>pos.
         and_then (or_answer db (invalid_input_response ext)
                     (build_item_records (call_ids call) 0 tenant_id conversation_id (current_timestamp (call_now call))
                        (i64_saturating_add pos 1) 0 item_values)) (\<lambda>item_records.
         and_then (refuse db (\<lambda>i. invalid_input_response ext (duplicate_item_id_message i))
                     (duplicate_item_id item_records)) (\<lambda>_.
         and_then (or_answer db (store_error_response ext)
                     (get_existing_conversation_item_ids tenant_id conversation_id (map ir_item_id item_records) db))
           (\<lambda>already_present.
         and_then (refuse db (\<lambda>i. invalid_input_response ext (existing_item_id_message i))
                     (first_of already_present)) (\<lambda>_.
         and_then (or_answer db (store_error_response ext) (create_conversation_items ext item_records db)) (\<lambda>db1.
           Inr (db1, existing, item_records)))))))))))"

definition handle_create_items :: "externals \<Rightarrow> conv_call \<Rightarrow> str \<Rightarrow> bytes \<Rightarrow> store_db \<Rightarrow> outcome option" where
  "handle_create_items ext call conversation_id body db =
     (case insert_new_items ext call conversation_id body db of
        Inl out \<Rightarrow> Some out
      | Inr (db1, existing, item_records) \<Rightarrow>
          map_option (\<lambda>synced.
            finish (and_then (or_answer db1 (store_error_response ext) synced) (\<lambda>db2.
              Inr (db2, json_response ext 200 (conversation_items_to_json item_records False)))))
            (sync_conversation_messages ext existing db1))"

definition handle_list_items :: "externals \<Rightarrow> url_fns \<Rightarrow> conv_call \<Rightarrow> str \<Rightarrow> store_db \<Rightarrow> outcome" where
  "handle_list_items ext u call conversation_id db =
     (let tenant_id = tenant_of (call_ctx call)
      in finish (
        and_then (existing_conversation ext tenant_id conversation_id db) (\<lambda>_.
        (let params = parse_item_list_params u (call_query call); limit = ip_effective_limit params
         in and_then (or_answer db (store_error_response ext)
                        (list_conversation_items ext tenant_id conversation_id (after_item_id params) (limit + 1)
                           (ascending params) db)) (\<lambda>rows.
              Inr (db, json_response ext 200 (conversation_items_to_json (take limit rows) (length rows > limit))))))))"

definition decode_item_id_path_segment :: "url_fns \<Rightarrow> str \<Rightarrow> str + str" where
  "decode_item_id_path_segment u segment =
     (case percent_decode_utf8 u segment of
        Inl e \<Rightarrow> Inl (''item id path segment must be valid UTF-8: '' @ e)
      | Inr i \<Rightarrow> Inr i)"

definition handle_get_item :: "externals \<Rightarrow> url_fns \<Rightarrow> conv_call \<Rightarrow> str \<Rightarrow> str \<Rightarrow> store_db \<Rightarrow> outcome" where
  "handle_get_item ext u call conversation_id segment db =
     finish (
       and_then (or_answer db (invalid_input_response ext) (decode_item_id_path_segment u segment)) (\<lambda>item_id.
       and_then (or_answer db (store_error_response ext)
                   (get_conversation_item ext (tenant_of (call_ctx call)) conversation_id item_id db)) (\<lambda>found.
         Inr (db,
              case found of
                Some record \<Rightarrow> json_response ext 200 (ir_item_data record)
              | None \<Rightarrow> not_found_response ext (item_not_found_message item_id)))))"

definition remove_item ::
  "externals \<Rightarrow> url_fns \<Rightarrow> conv_call \<Rightarrow> str \<Rightarrow> str \<Rightarrow> store_db
     \<Rightarrow> outcome + store_db \<times> conversation_record" where
  "remove_item ext u call conversation_id segment db =
     (let tenant_id = tenant_of (call_ctx call)
      in and_then (or_answer db (invalid_input_response ext) (decode_item_id_path_segment u segment)) (\<lambda>item_id.
         and_then (existing_conversation ext tenant_id conversation_id db) (\<lambda>existing.
         and_then (or_answer db (store_error_response ext)
                     (delete_conversation_item tenant_id conversation_id item_id db)) (\<lambda>(db1, deleted).
           if deleted then Inr (db1, existing)
           else Inl (db1, not_found_response ext (item_not_found_message item_id))))))"

definition handle_delete_item ::
  "externals \<Rightarrow> url_fns \<Rightarrow> conv_call \<Rightarrow> str \<Rightarrow> str \<Rightarrow> store_db \<Rightarrow> outcome option" where
  "handle_delete_item ext u call conversation_id segment db =
     (case remove_item ext u call conversation_id segment db of
        Inl out \<Rightarrow> Some out
      | Inr (db1, existing) \<Rightarrow>
          map_option (\<lambda>synced.
            finish (and_then (or_answer db1 (store_error_response ext) synced) (\<lambda>db2.
                    and_then (existing_conversation ext (tenant_of (call_ctx call)) conversation_id db2) (\<lambda>record.
                      Inr (db2, json_response ext 200 (conversation_to_json record))))))
            (sync_conversation_messages ext existing db1))"

end
