(* ===== verification/Conversation_Sync.thy ===== *)
theory Conversation_Sync
  imports Conversations
begin

text \<open>
  What the endpoints of conversations promise: the items of a conversation are a list that
  creating extends and deleting shrinks, the messages cached with the conversation follow it, and
  tenants do not see each other.
\<close>

section \<open>Collecting the pages\<close>

context conversation_item_store
begin

lemma collect_loop_rest:
  assumes "ok s" and "contents t c s = xs @ ys"
    and "after = (if xs = [] then None else Some (ir_item_id (last xs)))"
  shows "collect_loop (\<lambda>a. list_op t c a MAX_PAGE_LIMIT True s) after messages =
    Some (Inr (messages @ map ir_item_data ys))"
  using assms(2,3)
proof (induction "length ys" arbitrary: xs ys after messages rule: less_induct)
  case less
  let ?page = "take MAX_PAGE_LIMIT ys"
  have page: "list_op t c after MAX_PAGE_LIMIT True s = Inr ?page"
  proof (cases xs rule: rev_cases)
    case Nil
    with less.prems list_start [OF assms(1), of t c MAX_PAGE_LIMIT True] show ?thesis by (simp add: directed_def)
  next
    case (snoc us r)
    with less.prems list_past [OF assms(1), of True t c us r ys MAX_PAGE_LIMIT] show ?thesis by (simp add: directed_def)
  qed
  show ?case
  proof (cases "length ?page < MAX_PAGE_LIMIT")
    case True
    then have "?page = ys" "length ys < MAX_PAGE_LIMIT" by auto
    with page show ?thesis by (subst collect_loop.simps) (simp add: Let_def)
  next
    case False
    then have long: "MAX_PAGE_LIMIT \<le> length ys" by simp
    then have "length (drop MAX_PAGE_LIMIT ys) < length ys" "?page \<noteq> []" by (auto simp: MAX_PAGE_LIMIT_def)
    with less.hyps [of "drop MAX_PAGE_LIMIT ys" "xs @ ?page" "Some (ir_item_id (last ?page))"
        "messages @ map ir_item_data ?page"] less.prems
    have "collect_loop (\<lambda>a. list_op t c a MAX_PAGE_LIMIT True s) (Some (ir_item_id (last ?page)))
        (messages @ map ir_item_data ?page) = Some (Inr (messages @ map ir_item_data ys))"
      by (simp flip: map_append)
    with page False \<open>?page \<noteq> []\<close> show ?thesis by (subst collect_loop.simps) (simp add: Let_def)
  qed
qed

lemma collect_all:
  "ok s \<Longrightarrow> collect_loop (\<lambda>a. list_op t c a MAX_PAGE_LIMIT True s) None [] =
     Some (Inr (map ir_item_data (contents t c s)))"
  using collect_loop_rest [of s t c "[]" "contents t c s" None "[]"] by simp

end

lemma collect_conversation_messages_eq:
  "items_ok ext db \<Longrightarrow> collect_conversation_messages ext t c db =
     Some (Inr (map ir_item_data (item_contents ext t c db)))"
  by (simp add: collect_conversation_messages_def items.collect_all)

section \<open>Rows of conversations\<close>

text \<open>Whatever is written as a column is read back from it.\<close>

definition columns_read_back :: "externals \<Rightarrow> bool" where
  "columns_read_back ext \<longleftrightarrow> (\<forall>v s. to_text ext v = Inr s \<longrightarrow> from_slice ext s = Inr v)"

lemma column_back: "columns_read_back ext \<Longrightarrow> to_column ext v = Inr s \<Longrightarrow> from_column ext s = Inr v"
  by (auto simp: columns_read_back_def to_column_def from_column_def split: sum.splits)

lemma created_kept:
  assumes "columns_read_back ext" and "create_conversation_items ext items db = Inr db'"
  shows "list_all (item_kept ext) items"
proof -
  from assms(2) obtain new where "map_result (item_to_row ext) items = Inr new" by (auto dest: create_items_Inr)
  with assms(1) show ?thesis
    by (induction items arbitrary: new)
       (auto simp: item_kept_def json_kept_def item_to_row_def to_column_def columns_read_back_def
         and_then_Inr_iff split: sum.splits)
qed

text \<open>The cached messages of a conversation, if there is one that can be read.\<close>

definition cached_messages :: "externals \<Rightarrow> str \<Rightarrow> str \<Rightarrow> store_db \<Rightarrow> json option" where
  "cached_messages ext t c db =
     (case get_conversation ext t c db of Inr (Some r) \<Rightarrow> Some (cr_messages r) | _ \<Rightarrow> None)"

definition row_messages_of :: "externals \<Rightarrow> conversation_row \<Rightarrow> json option" where
  "row_messages_of ext row =
     (case row_to_conversation_record ext row of Inr r \<Rightarrow> Some (cr_messages r) | Inl _ \<Rightarrow> None)"

lemma cached_messages_eq:
  "db_fault db = None \<Longrightarrow> cached_messages ext t c db =
     Option.bind (row_with conversation_key (t, c) (db_conversations db)) (row_messages_of ext)"
  by (cases "row_with conversation_key (t, c) (db_conversations db)")
     (auto simp: cached_messages_def get_conversation_def execute_def transpose_opt_def row_messages_of_def
       split: sum.splits)

lemma row_messages_column:
  assumes "row_messages_of ext row = Some m" and "from_column ext (crow_messages row) = Inr v"
  shows "m = v"
  using assms by (auto simp: row_messages_of_def row_to_conversation_record_def and_then_eq_case split: sum.splits)

lemma update_messages_Inr:
  "update_conversation_messages ext t c v db = Inr (db', b) \<longleftrightarrow>
     db_fault db = None \<and> (\<exists>col. to_column ext v = Inr col \<and>
       db' = db\<lparr>db_conversations := update_rows conversation_key (t, c) (\<lambda>r. r\<lparr>crow_messages := col\<rparr>) (db_conversations db)\<rparr>) \<and>
     (b \<longleftrightarrow> row_with conversation_key (t, c) (db_conversations db) \<noteq> None)"
proof -
  have "filter (\<lambda>r. conversation_key r = k) rows \<noteq> [] \<longleftrightarrow> row_with conversation_key k rows \<noteq> None" for k rows
    by (induction rows) auto
  then show ?thesis
    by (auto simp: update_conversation_messages_def and_then_Inr_iff execute_Inr Let_def)
qed

lemma key_set_messages [simp]: "conversation_key (r\<lparr>crow_messages := col\<rparr>) = conversation_key r"
  by (simp add: conversation_key_def)

lemma update_cached:
  assumes "columns_read_back ext" and "update_conversation_messages ext t c v db = Inr (db', b)"
  shows "cached_messages ext t c db' = Some m \<Longrightarrow> m = v"
    and "(t', c') \<noteq> (t, c) \<Longrightarrow> get_conversation ext t' c' db' = get_conversation ext t' c' db"
    and "items_ok ext db' = items_ok ext db" and "item_contents ext t' c' db' = item_contents ext t' c' db"
proof -
  from assms(2) obtain col where col: "to_column ext v = Inr col" and up: "db_fault db = None"
    and db': "db' = db\<lparr>db_conversations := update_rows conversation_key (t, c) (\<lambda>r. r\<lparr>crow_messages := col\<rparr>) (db_conversations db)\<rparr>"
    by (auto simp: update_messages_Inr)
  show "m = v" if "cached_messages ext t c db' = Some m"
    using that column_back [OF assms(1) col] up
    by (auto simp: cached_messages_eq db' row_with_update bind_eq_Some_conv intro: row_messages_column)
  show "(t', c') \<noteq> (t, c) \<Longrightarrow> get_conversation ext t' c' db' = get_conversation ext t' c' db"
    using up by (auto simp: db' get_conversation_def execute_def row_with_update)
  show "items_ok ext db' = items_ok ext db" by (simp add: db' items_ok_def)
  show "item_contents ext t' c' db' = item_contents ext t' c' db"
    by (simp add: db' item_contents_def scope_rows_def order_key_def [abs_def])
qed

lemma upsert_conversation_Inr:
  "upsert_conversation ext r db = Inr db' \<longleftrightarrow>
     db_fault db = None \<and> (\<exists>row. conversation_to_row ext r = Inr row \<and>
       db' = db\<lparr>db_conversations := merge_row conversation_key merge_conversation_row row (db_conversations db)\<rparr>)"
  by (auto simp: upsert_conversation_def and_then_Inr_iff execute_Inr)

lemma conversation_row_fields:
  assumes "conversation_to_row ext r = Inr row"
  shows "conversation_key row = (cr_tenant_id r, cr_conversation_id r)"
    and "to_column ext (cr_messages r) = Inr (crow_messages row)"
  using assms by (auto simp: conversation_to_row_def and_then_Inr_iff conversation_key_def)

lemma merge_conversation_row_fields [simp]:
  "conversation_key (merge_conversation_row old row) = conversation_key old"
  "crow_messages (merge_conversation_row old row) = crow_messages row"
  by (simp_all add: merge_conversation_row_def conversation_key_def)

lemma upsert_cached:
  assumes "columns_read_back ext" and "upsert_conversation ext r db = Inr db'"
  shows "cached_messages ext (cr_tenant_id r) (cr_conversation_id r) db' = Some m \<Longrightarrow> m = cr_messages r"
    and "(t', c') \<noteq> (cr_tenant_id r, cr_conversation_id r) \<Longrightarrow>
      get_conversation ext t' c' db' = get_conversation ext t' c' db"
    and "items_ok ext db' = items_ok ext db" and "item_contents ext t' c' db' = item_contents ext t' c' db"
proof -
  from assms(2) obtain row where row: "conversation_to_row ext r = Inr row" and up: "db_fault db = None"
    and db': "db' = db\<lparr>db_conversations := merge_row conversation_key merge_conversation_row row (db_conversations db)\<rparr>"
    by (auto simp: upsert_conversation_Inr)
  note fields = conversation_row_fields [OF row]
  have merged: "row_with conversation_key k (merge_row conversation_key merge_conversation_row row rows) =
      (if k = conversation_key row
       then Some (case row_with conversation_key k rows of None \<Rightarrow> row | Some old \<Rightarrow> merge_conversation_row old row)
       else row_with conversation_key k rows)" for k rows
    by (rule row_with_merge) simp
  show "m = cr_messages r" if "cached_messages ext (cr_tenant_id r) (cr_conversation_id r) db' = Some m"
    using that column_back [OF assms(1) fields(2)] up
    by (auto simp: cached_messages_eq db' merged fields(1) split: option.splits dest!: row_messages_column)
  show "(t', c') \<noteq> (cr_tenant_id r, cr_conversation_id r) \<Longrightarrow>
      get_conversation ext t' c' db' = get_conversation ext t' c' db"
    using up fields(1) by (auto simp: db' get_conversation_def execute_def merged)
  show "items_ok ext db' = items_ok ext db" by (simp add: db' items_ok_def)
  show "item_contents ext t' c' db' = item_contents ext t' c' db"
    by (simp add: db' item_contents_def scope_rows_def order_key_def [abs_def])
qed

section \<open>Refreshing the cache\<close>

definition synced :: "externals \<Rightarrow> str \<Rightarrow> str \<Rightarrow> store_db \<Rightarrow> bool" where
  "synced ext t c db \<longleftrightarrow>
     cached_messages ext t c db \<in> {None, Some (JArray (map ir_item_data (item_contents ext t c db)))}"

lemma synced_cong:
  "get_conversation ext t c db' = get_conversation ext t c db \<Longrightarrow> item_contents ext t c db' = item_contents ext t c db \<Longrightarrow>
     synced ext t c db' = synced ext t c db"
  by (simp add: synced_def cached_messages_def)

lemma sync_eq:
  assumes "items_ok ext db"
  shows "sync_conversation_messages ext record db = Some
    (and_then (update_conversation_messages ext (cr_tenant_id record) (cr_conversation_id record)
                 (JArray (map ir_item_data (item_contents ext (cr_tenant_id record) (cr_conversation_id record) db))) db)
       (\<lambda>(db1, updated). if updated then Inr db1
          else Inl (Database (''conversation disappeared during message sync: '' @ cr_conversation_id record))))"
  by (simp add: sync_conversation_messages_def collect_conversation_messages_eq [OF assms])

lemma sync_done:
  assumes "columns_read_back ext" and "items_ok ext db" and "sync_conversation_messages ext record db = Some (Inr db')"
  shows "synced ext (cr_tenant_id record) (cr_conversation_id record) db'"
    and "(t, c) \<noteq> (cr_tenant_id record, cr_conversation_id record) \<Longrightarrow>
      get_conversation ext t c db' = get_conversation ext t c db"
    and "items_ok ext db'" and "item_contents ext t c db' = item_contents ext t c db"
proof -
  from assms(3) obtain b where
    "update_conversation_messages ext (cr_tenant_id record) (cr_conversation_id record)
       (JArray (map ir_item_data (item_contents ext (cr_tenant_id record) (cr_conversation_id record) db))) db = Inr (db', b)"
    by (auto simp: sync_eq [OF assms(2)] and_then_Inr_iff split: if_splits)
  note up = update_cached [OF assms(1) this]
  show "synced ext (cr_tenant_id record) (cr_conversation_id record) db'"
    using up(1) up(4) [of "cr_tenant_id record" "cr_conversation_id record"]
    by (cases "cached_messages ext (cr_tenant_id record) (cr_conversation_id record) db'") (auto simp: synced_def)
  show "(t, c) \<noteq> (cr_tenant_id record, cr_conversation_id record) \<Longrightarrow>
      get_conversation ext t c db' = get_conversation ext t c db" by (rule up(2))
  show "items_ok ext db'" "item_contents ext t c db' = item_contents ext t c db" using assms(2) up(3,4) by simp_all
qed

section \<open>Answers and statuses\<close>

definition answer_status :: "answer \<Rightarrow> nat option" where
  "answer_status a = (case a of Inr (Reject r) \<Rightarrow> Some (rej_status r) | _ \<Rightarrow> None)"

lemma json_response_status: "answer_status (json_response ext st body) = Some st' \<Longrightarrow> st' = st"
  by (auto simp: json_response_def answer_status_def split: sum.splits)

lemma error_statuses:
  "answer_status (invalid_input_response ext msg) = Some st \<Longrightarrow> st = 400"
  "answer_status (not_found_response ext msg) = Some st \<Longrightarrow> st = 404"
  "answer_status (store_error_response ext e) = Some st \<Longrightarrow> st = 400 \<or> st = 500"
  by (auto simp: invalid_input_response_def not_found_response_def store_error_response_def
      dest!: json_response_status split: store_error.splits)

lemma not_ok:
  "answer_status (invalid_input_response ext msg) \<noteq> Some 200"
  "answer_status (not_found_response ext msg) \<noteq> Some 200"
  "answer_status (store_error_response ext e) \<noteq> Some 200"
  by (auto dest: error_statuses)

lemma or_answer_Inr: "or_answer db f r = Inr x \<longleftrightarrow> r = Inr x"
  by (simp add: or_answer_def split: sum.split)

lemma or_answer_Inl: "or_answer db f r = Inl out \<longleftrightarrow> (\<exists>e. r = Inl e \<and> out = (db, f e))"
  by (auto simp: or_answer_def split: sum.split)

lemma refuse_iff: "refuse db f x = Inr u \<longleftrightarrow> x = None" "refuse db f x = Inl out \<longleftrightarrow> (\<exists>i. x = Some i \<and> out = (db, f i))"
  by (auto simp: refuse_def split: option.split)

lemma and_then_Inl_iff: "and_then r f = Inl e \<longleftrightarrow> r = Inl e \<or> (\<exists>a. r = Inr a \<and> f a = Inl e)"
  by (cases r) auto

lemma existing_Inr: "existing_conversation ext t c db = Inr r \<longleftrightarrow> get_conversation ext t c db = Inr (Some r)"
  by (auto simp: existing_conversation_def and_then_Inr_iff or_answer_Inr split: option.splits)

lemma get_conversation_ids:
  "get_conversation ext t c db = Inr (Some r) \<Longrightarrow> cr_tenant_id r = t \<and> cr_conversation_id r = c"
  by (cases "row_with conversation_key (t, c) (db_conversations db)")
     (auto simp: get_conversation_def and_then_Inr_iff execute_Inr transpose_opt_def
       row_to_conversation_record_def conversation_key_def dest!: row_with_key map_sum_InrD)

text \<open>An early answer leaves the store as it was.\<close>

lemma existing_Inl: "existing_conversation ext t c db = Inl out \<Longrightarrow> fst out = db \<and> answer_status (snd out) \<noteq> Some 200"
  by (auto simp: existing_conversation_def and_then_Inl_iff or_answer_Inl not_ok split: option.splits)

lemma or_answer_early:
  "or_answer db (invalid_input_response ext) r = Inl out \<Longrightarrow> fst out = db \<and> answer_status (snd out) \<noteq> Some 200"
  "or_answer db (store_error_response ext) r' = Inl out \<Longrightarrow> fst out = db \<and> answer_status (snd out) \<noteq> Some 200"
  by (auto simp: or_answer_Inl not_ok)

lemma insert_new_items_Inl:
  "insert_new_items ext call c body db = Inl out \<Longrightarrow> fst out = db \<and> answer_status (snd out) \<noteq> Some 200"
  unfolding insert_new_items_def Let_def
  by (auto simp: and_then_Inl_iff refuse_iff not_ok dest!: or_answer_early existing_Inl)

lemma insert_new_items_Inr:
  assumes "insert_new_items ext call c body db = Inr (db1, existing, new)"
  obtains input item_values pos where "parse_json_object_body ext body = Inr input"
    and "get_conversation ext (tenant_of (call_ctx call)) c db = Inr (Some existing)"
    and "parse_items_field (map_of input ''items'') True = Inr item_values"
    and "max_item_position (tenant_of (call_ctx call)) c db = Inr pos"
    and "build_item_records (call_ids call) 0 (tenant_of (call_ctx call)) c (current_timestamp (call_now call))
      (i64_saturating_add pos 1) 0 item_values = Inr new"
    and "duplicate_item_id new = None"
    and "get_existing_conversation_item_ids (tenant_of (call_ctx call)) c (map ir_item_id new) db = Inr []"
    and "create_conversation_items ext new db = Inr db1"
  using assms unfolding insert_new_items_def Let_def
  by (auto simp: and_then_Inr_iff or_answer_Inr existing_Inr refuse_iff first_of_None)

text \<open>Errors of the database are the server's.\<close>

definition internal_error :: "store_error \<Rightarrow> bool" where
  "internal_error e \<longleftrightarrow> (\<forall>msg. e \<noteq> Invalid_input msg)"

lemma internal_error_status: "internal_error e \<Longrightarrow> answer_status (store_error_response ext e) \<in> {None, Some 500}"
  by (cases "answer_status (store_error_response ext e)")
     (auto simp: internal_error_def store_error_response_def dest!: json_response_status split: store_error.splits)

lemma execute_internal: "execute db x = Inl e \<Longrightarrow> internal_error e"
  by (auto simp: execute_def internal_error_def split: option.splits)

lemma to_column_internal: "to_column ext v = Inl e \<Longrightarrow> internal_error e"
  by (auto simp: to_column_def internal_error_def split: sum.splits)

lemma update_messages_internal: "update_conversation_messages ext t c v db = Inl e \<Longrightarrow> internal_error e"
  by (auto simp: update_conversation_messages_def and_then_Inl_iff Let_def dest: execute_internal to_column_internal)

lemma sync_internal:
  "items_ok ext db \<Longrightarrow> sync_conversation_messages ext record db = Some (Inl e) \<Longrightarrow> internal_error e"
  by (auto simp: sync_eq and_then_Inl_iff internal_error_def [of "Database _"] dest: update_messages_internal split: if_splits)

lemma insert_items_internal: "insert_items ext items rows = Inl e \<Longrightarrow> internal_error e"
proof (induction ext items rows rule: insert_items.induct)
  case (2 ext item items rows)
  then show ?case
    by (cases "item_to_row ext item"; cases "insert_row item_key (projr (item_to_row ext item)) rows")
       (auto simp: item_to_row_def and_then_Inl_iff internal_error_def [of "Database _"] dest: to_column_internal)
qed simp

lemma create_items_internal: "create_conversation_items ext items db = Inl e \<Longrightarrow> internal_error e"
  by (auto simp: create_conversation_items_def with_items_table_def and_then_Inl_iff internal_error_def [of "Unavailable _"]
      dest: execute_internal insert_items_internal split: option.splits)

section \<open>New items come last\<close>

lemma build_item_records_shape:
  "build_item_records ids n t c created start index items = Inr records \<Longrightarrow>
     length records = length items \<and> all_in t c records \<and>
     map ir_position records = map (\<lambda>k. i64_saturating_add start (int k)) [index..<index + length items]"
proof (induction items arbitrary: n index records)
  case Nil
  then show ?case by (simp add: all_in_def)
next
  case (Cons item items)
  from Cons.prems obtain n' i d rest where rest: "build_item_records ids n' t c created start (Suc index) items = Inr rest"
    and records: "records = \<lparr>ir_item_id = i, ir_tenant_id = t, ir_conversation_id = c, ir_item_data = d,
      ir_created_at = created, ir_position = i64_saturating_add start (int index)\<rparr> # rest"
    by (auto simp: and_then_Inr_iff)
  from Cons.IH [OF rest] records show ?case by (simp add: all_in_def upt_conv_Cons del: upt_Suc)
qed

lemma build_item_records_fields:
  assumes "build_item_records ids n t c created start index items = Inr records"
  shows "length records = length items" and "all_in t c records"
    and "map ir_position records = map (\<lambda>k. i64_saturating_add start (int k)) [index..<index + length items]"
  using build_item_records_shape [OF assms] by simp_all

lemma positions_of_contents:
  "ir_position ` set (item_contents ext t c db) = set (map irow_position (filter (in_scope t c) (db_items db)))"
  by (force simp: item_contents_def set_scope_rows item_of_def)

lemma max_item_position_eq:
  assumes "max_item_position t c db = Inr pos" and "ps = ir_position ` set (item_contents ext t c db)"
  shows "pos = (if ps = {} then 0 else Max ps)"
  using assms
  by (cases "map irow_position (filter (in_scope t c) (db_items db))")
     (auto simp: max_item_position_def with_items_table_def execute_Inr positions_of_contents Max.set_eq_fold [symmetric]
       simp del: set_map split: option.splits)

lemma max_item_position_bounds:
  assumes "max_item_position t c db = Inr pos" and "r \<in> set (item_contents ext t c db)"
  shows "ir_position r \<le> pos"
  using assms(2) max_item_position_eq [OF assms(1) refl, of ext] by (auto intro: Max_ge)

lemma max_item_position_attained:
  assumes "max_item_position t c db = Inr pos"
  shows "pos = 0 \<or> (\<exists>r \<in> set (item_contents ext t c db). ir_position r = pos)"
proof (cases "item_contents ext t c db = []")
  case True
  with max_item_position_eq [OF assms refl, of ext] show ?thesis by simp
next
  case False
  then have "Max (ir_position ` set (item_contents ext t c db)) \<in> ir_position ` set (item_contents ext t c db)"
    by (intro Max_in) simp_all
  then obtain r where "r \<in> set (item_contents ext t c db)"
    and "Max (ir_position ` set (item_contents ext t c db)) = ir_position r" by (rule imageE)
  moreover from this(2) False max_item_position_eq [OF assms refl, of ext] have "pos = ir_position r" by simp
  ultimately show ?thesis by blast
qed

text \<open>There is room for another 20 positions.\<close>

definition room_for_items :: "externals \<Rightarrow> str \<Rightarrow> str \<Rightarrow> store_db \<Rightarrow> bool" where
  "room_for_items ext t c db \<longleftrightarrow> list_all (\<lambda>r. ir_position r < 2 ^ 63 - 21) (item_contents ext t c db)"

lemma new_records_after:
  assumes "build_item_records ids n t c created start 0 items = Inr new" and "length items \<le> 20" and "start \<le> 2 ^ 63 - 21"
    and "\<forall>r \<in> set old. ir_position r < start"
  shows "come_after new old"
proof -
  note f = build_item_records_fields [OF assms(1)]
  have nth: "ir_position (new ! k) = start + int k" if "k < length new" for k
    using arg_cong [OF f(3), of "\<lambda>xs. xs ! k"] that f(1) assms(2,3) by (simp add: i64_saturating_add_def)
  then have "sorted_wrt (\<lambda>a b. ir_position a < ir_position b) new"
    by (simp add: sorted_wrt_iff_nth_less)
  moreover have "start \<le> ir_position i" if "i \<in> set new" for i
    using that nth by (auto simp: in_set_conv_nth)
  ultimately show ?thesis using assms(4) by (fastforce simp: come_after_def)
qed

lemma distinct_ids_contents: "items_ok ext db \<Longrightarrow> distinct (map ir_item_id (item_contents ext t c db))"
proof -
  assume ok: "items_ok ext db"
  have "distinct (scope_rows t c db)" using distinct_order_keys [OF ok, of t c] by (simp add: distinct_map)
  moreover have "inj_on irow_item_id (set (scope_rows t c db))"
    using ok by (auto simp: inj_on_def set_scope_rows items_ok_def in_scope_def item_key_def distinct_map)
  ultimately show ?thesis by (simp add: item_contents_def distinct_map comp_def)
qed

lemma inserted_items:
  assumes ok: "items_ok ext db" and reads: "columns_read_back ext"
    and "insert_new_items ext call c body db = Inr (db1, existing, new)" and "t = tenant_of (call_ctx call)"
    and room: "room_for_items ext t c db"
  shows "item_contents ext t c db1 = item_contents ext t c db @ new" and "items_ok ext db1"
    and "(t', c') \<noteq> (t, c) \<Longrightarrow> item_contents ext t' c' db1 = item_contents ext t' c' db"
    and "get_conversation ext t' c' db1 = get_conversation ext t' c' db"
    and "cr_tenant_id existing = t" and "cr_conversation_id existing = c"
  using assms(3)
proof (atomize (full), elim insert_new_items_Inr, goal_cases)
  case (1 input item_values pos)
  let ?start = "i64_saturating_add pos 1"
  have n: "length item_values \<le> 20"
    using 1(3) by (auto simp: parse_items_field_def MAX_ITEMS_PER_REQUEST_def split: option.splits json.splits if_splits)
  have "pos < 2 ^ 63 - 21"
    using max_item_position_attained [OF 1(4), of ext] room assms(4) by (auto simp: room_for_items_def list_all_iff)
  then have start: "?start = pos + 1" "?start \<le> 2 ^ 63 - 21" by (simp_all add: i64_saturating_add_def)
  have "\<forall>r \<in> set (item_contents ext t c db). ir_position r < ?start"
    using max_item_position_bounds [OF 1(4)] assms(4) start by fastforce
  from new_records_after [OF 1(5) n start(2) this] have after: "come_after new (item_contents ext t c db)" .
  have scope: "all_in t c new" using build_item_records_fields(2) [OF 1(5)] assms(4) by simp
  note kept = created_kept [OF reads 1(8)]
  have "get_conversation ext t' c' db1 = get_conversation ext t' c' db"
    using create_items_Inr [OF 1(8)] by (auto simp: get_conversation_def execute_def)
  with get_conversation_ids [OF 1(2)] items.create_appends [OF ok 1(8) kept scope after]
    items.create_keeps [OF ok 1(8) kept] items.create_other [OF 1(8) scope, of t' c'] assms(4)
  show ?case by simp
qed

section \<open>Creating and deleting items\<close>

lemma create_items_cases:
  assumes ok: "items_ok ext db" and reads: "columns_read_back ext"
    and room: "room_for_items ext (tenant_of (call_ctx call)) c db"
  shows "\<exists>db' ans. handle_create_items ext call c body db = Some (db', ans) \<and> items_ok ext db' \<and>
    (db' = db \<and> answer_status ans \<noteq> Some 200 \<or>
     (\<exists>db1 existing new. insert_new_items ext call c body db = Inr (db1, existing, new) \<and>
        (\<forall>t' c'. item_contents ext t' c' db' = item_contents ext t' c' db1) \<and>
        (\<forall>t' c'. (t', c') \<noteq> (tenant_of (call_ctx call), c) \<longrightarrow>
           get_conversation ext t' c' db' = get_conversation ext t' c' db) \<and>
        (synced ext (tenant_of (call_ctx call)) c db' \<and> ans = json_response ext 200 (conversation_items_to_json new False) \<or>
         answer_status ans \<in> {None, Some 500})))"
proof (cases "insert_new_items ext call c body db")
  case (Inl out)
  with insert_new_items_Inl [OF Inl] ok show ?thesis by (cases out) (auto simp: handle_create_items_def)
next
  case (Inr r)
  obtain db1 existing new where r: "r = (db1, existing, new)" by (cases r) auto
  with Inr have ins: "insert_new_items ext call c body db = Inr (db1, existing, new)" by simp
  note facts = inserted_items [OF ok reads ins refl room]
  obtain s where s: "sync_conversation_messages ext existing db1 = Some s" using sync_eq [OF facts(2)] by blast
  show ?thesis
  proof (cases s)
    case (Inl e)
    with s have "answer_status (store_error_response ext e) \<in> {None, Some 500}"
      using internal_error_status [OF sync_internal [OF facts(2)]] by blast
    moreover from Inl s ins have "handle_create_items ext call c body db = Some (db1, store_error_response ext e)"
      by (simp add: handle_create_items_def finish_def or_answer_def)
    ultimately show ?thesis using facts(2,4) ins by blast
  next
    case (Inr db2)
    with s have sync: "sync_conversation_messages ext existing db1 = Some (Inr db2)" by simp
    note done' = sync_done [OF reads facts(2) sync, unfolded facts(5,6)]
    from sync ins have "handle_create_items ext call c body db =
        Some (db2, json_response ext 200 (conversation_items_to_json new False))"
      by (simp add: handle_create_items_def finish_def or_answer_def)
    with done' facts(4) ins show ?thesis by auto
  qed
qed

lemma remove_item_Inl:
  "remove_item ext u call c segment db = Inl out \<Longrightarrow> answer_status (snd out) \<noteq> Some 200 \<and>
     (fst out = db \<or> (\<exists>i. delete_conversation_item (tenant_of (call_ctx call)) c i db = Inr (fst out, False)))"
  unfolding remove_item_def Let_def
  by (auto simp: and_then_Inl_iff or_answer_Inr not_ok dest!: or_answer_early existing_Inl split: if_splits)

lemma remove_item_Inr:
  "remove_item ext u call c segment db = Inr (db1, existing) \<longleftrightarrow>
     (\<exists>i. decode_item_id_path_segment u segment = Inr i \<and>
        get_conversation ext (tenant_of (call_ctx call)) c db = Inr (Some existing) \<and>
        delete_conversation_item (tenant_of (call_ctx call)) c i db = Inr (db1, True))"
  unfolding remove_item_def Let_def
  by (auto simp: and_then_Inr_iff or_answer_Inr existing_Inr split: if_splits)

lemma delete_item_conversations:
  "delete_conversation_item t c i db = Inr (db', b) \<Longrightarrow> get_conversation ext t' c' db' = get_conversation ext t' c' db"
  by (auto simp: delete_item_Inr get_conversation_def execute_def)

text \<open>An item that is not there: deleting it changes nothing.\<close>

lemma delete_absent:
  assumes ok: "items_ok ext db" and del: "delete_conversation_item t c i db = Inr (db', False)"
  shows "items_ok ext db'" and "item_contents ext t' c' db' = item_contents ext t' c' db"
    and "get_conversation ext t' c' db' = get_conversation ext t' c' db"
proof -
  show "items_ok ext db'" by (rule items.delete_keeps [OF ok del])
  show "get_conversation ext t' c' db' = get_conversation ext t' c' db"
    using delete_item_conversations [OF del] by blast
  have "i \<notin> ir_item_id ` set (item_contents ext t c db)" using items.delete_found [OF ok del] by simp
  then have "filter (\<lambda>r. ir_item_id r \<noteq> i) (item_contents ext t c db) = item_contents ext t c db"
    by (force simp: filter_id_conv)
  then have "item_contents ext t c db' = item_contents ext t c db" using items.delete_drops [OF ok del] by simp
  with items.delete_other [OF del] show "item_contents ext t' c' db' = item_contents ext t' c' db"
    by (cases "(t', c') = (t, c)") auto
qed

lemma delete_item_cases:
  assumes ok: "items_ok ext db" and reads: "columns_read_back ext"
  shows "\<exists>db' ans. handle_delete_item ext u call c segment db = Some (db', ans) \<and> items_ok ext db' \<and>
    (answer_status ans \<noteq> Some 200 \<and>
       (\<forall>t' c'. item_contents ext t' c' db' = item_contents ext t' c' db \<and>
          get_conversation ext t' c' db' = get_conversation ext t' c' db) \<or>
     (\<exists>i db1. decode_item_id_path_segment u segment = Inr i \<and>
        delete_conversation_item (tenant_of (call_ctx call)) c i db = Inr (db1, True) \<and>
        (\<forall>t' c'. item_contents ext t' c' db' = item_contents ext t' c' db1) \<and>
        (\<forall>t' c'. (t', c') \<noteq> (tenant_of (call_ctx call), c) \<longrightarrow>
           get_conversation ext t' c' db' = get_conversation ext t' c' db) \<and>
        (synced ext (tenant_of (call_ctx call)) c db' \<or> answer_status ans \<in> {None, Some 500})))"
proof (cases "remove_item ext u call c segment db")
  case (Inl out)
  have "items_ok ext (fst out) \<and> (\<forall>t' c'. item_contents ext t' c' (fst out) = item_contents ext t' c' db \<and>
      get_conversation ext t' c' (fst out) = get_conversation ext t' c' db)"
    using remove_item_Inl [OF Inl] ok delete_absent [OF ok] by (metis (full_types))
  with Inl remove_item_Inl [OF Inl] show ?thesis by (cases out) (auto simp: handle_delete_item_def)
next
  case (Inr r)
  obtain db1 existing where r: "r = (db1, existing)" by (cases r) auto
  from Inr r obtain i where i: "decode_item_id_path_segment u segment = Inr i"
    and ex: "get_conversation ext (tenant_of (call_ctx call)) c db = Inr (Some existing)"
    and del: "delete_conversation_item (tenant_of (call_ctx call)) c i db = Inr (db1, True)"
    by (auto simp: remove_item_Inr)
  note ok1 = items.delete_keeps [OF ok del] and convs = delete_item_conversations [OF del]
  obtain s where s: "sync_conversation_messages ext existing db1 = Some s" using sync_eq [OF ok1] by blast
  show ?thesis
  proof (cases s)
    case (Inl e)
    with Inr r s have "handle_delete_item ext u call c segment db = Some (db1, store_error_response ext e)"
      by (simp add: handle_delete_item_def finish_def or_answer_def)
    moreover from Inl s have "answer_status (store_error_response ext e) \<in> {None, Some 500}"
      using internal_error_status [OF sync_internal [OF ok1]] by blast
    ultimately show ?thesis using ok1 i del convs by blast
  next
    case (Inr db2)
    with s have sync: "sync_conversation_messages ext existing db1 = Some (Inr db2)" by simp
    note done' = sync_done [OF reads ok1 sync, unfolded get_conversation_ids [OF ex, THEN conjunct1]
        get_conversation_ids [OF ex, THEN conjunct2]]
    have "fst (finish (and_then (existing_conversation ext (tenant_of (call_ctx call)) c db2) (\<lambda>record.
        Inr (db2, json_response ext 200 (conversation_to_json record))))) = db2"
      by (cases "existing_conversation ext (tenant_of (call_ctx call)) c db2")
         (auto simp: finish_def dest: existing_Inl)
    with sync \<open>remove_item ext u call c segment db = Inr r\<close> r obtain ans where
      "handle_delete_item ext u call c segment db = Some (db2, ans)"
      by (auto simp: handle_delete_item_def or_answer_def prod_eq_iff)
    with done' i del convs show ?thesis by auto
  qed
qed

end
