(* ===== verification/Conversation_Service.thy ===== *)
theory Conversation_Service
  imports Conversation_Sync
begin

text \<open>
  The endpoints of conversations together: a store served one request after the other, and what
  holds of it in every state it can reach.
\<close>

section \<open>Requests\<close>

datatype conv_request =
    Create_conversation bytes
  | Get_conversation str
  | Update_conversation str bytes
  | Delete_conversation str
  | Create_items str bytes
  | List_items str
  | Get_item str str
  | Delete_item str str

definition serve :: "externals \<Rightarrow> url_fns \<Rightarrow> conv_call \<Rightarrow> conv_request \<Rightarrow> store_db \<Rightarrow> outcome option" where
  "serve ext u call req db =
     (case req of
        Create_conversation body \<Rightarrow> Some (handle_create_conversation ext call body db)
      | Get_conversation c \<Rightarrow> Some (handle_get_conversation ext call c db)
      | Update_conversation c body \<Rightarrow> Some (handle_update_conversation ext call c body db)
      | Delete_conversation c \<Rightarrow> Some (handle_delete_conversation ext call c db)
      | Create_items c body \<Rightarrow> handle_create_items ext call c body db
      | List_items c \<Rightarrow> Some (handle_list_items ext u call c db)
      | Get_item c i \<Rightarrow> Some (handle_get_item ext u call c i db)
      | Delete_item c i \<Rightarrow> handle_delete_item ext u call c i db)"

text \<open>
  What the requests rely on: the identifier generated for a conversation is new, and there is room
  for the positions of new items.
\<close>

definition call_admissible :: "externals \<Rightarrow> conv_call \<Rightarrow> conv_request \<Rightarrow> store_db \<Rightarrow> bool" where
  "call_admissible ext call req db \<longleftrightarrow>
     (let t = tenant_of (call_ctx call)
      in case req of
           Create_conversation _ \<Rightarrow> item_contents ext t (''conv_'' @ call_ids call 0) db = []
         | Create_items c _ \<Rightarrow> room_for_items ext t c db
         | _ \<Rightarrow> True)"

text \<open>
  The states reached by requests that are served one after another and none of which ended in a server error. Each request is
  one step here: requests whose accesses to the store overlap are not covered.
\<close>

inductive served :: "externals \<Rightarrow> url_fns \<Rightarrow> store_db \<Rightarrow> store_db \<Rightarrow> bool" for ext u where
  served_none: "served ext u db db"
| served_more: "served ext u db db1 \<Longrightarrow> call_admissible ext call req db1 \<Longrightarrow>
    serve ext u call req db1 = Some (db2, ans) \<Longrightarrow> answer_status ans \<noteq> Some 500 \<Longrightarrow> answer_status ans \<noteq> None \<Longrightarrow>
    served ext u db db2"

text \<open>The items of the store are well formed and those of one conversation are what is cached with it.\<close>

definition cache_ok :: "externals \<Rightarrow> str \<Rightarrow> str \<Rightarrow> store_db \<Rightarrow> bool" where
  "cache_ok ext t c db \<longleftrightarrow> items_ok ext db \<and> synced ext t c db"

section \<open>Each request keeps the cache in step\<close>

lemma finish_early: "finish (Inl out) = out" "finish (Inr out) = out"
  by (simp_all add: finish_def)

lemma read_only:
  "fst (handle_get_conversation ext call c db) = db"
  "fst (handle_list_items ext u call c db) = db"
  "fst (handle_get_item ext u call c i db) = db"
proof -
  have early: "fst (finish r) = db" if "\<And>out. r = Inl out \<Longrightarrow> fst out = db" "\<And>out. r = Inr out \<Longrightarrow> fst out = db" for r
    using that by (cases r) (auto simp: finish_def)
  show "fst (handle_get_conversation ext call c db) = db"
    unfolding handle_get_conversation_def
    by (rule early) (auto simp: and_then_Inl_iff and_then_Inr_iff dest: existing_Inl)
  show "fst (handle_list_items ext u call c db) = db"
    unfolding handle_list_items_def Let_def
    by (rule early) (auto simp: and_then_Inl_iff and_then_Inr_iff dest: existing_Inl or_answer_early)
  show "fst (handle_get_item ext u call c i db) = db"
    unfolding handle_get_item_def
    by (rule early) (auto simp: and_then_Inl_iff and_then_Inr_iff dest: or_answer_early)
qed

lemma update_keeps:
  assumes "columns_read_back ext" and "cache_ok ext t' c' db"
  shows "cache_ok ext t' c' (fst (handle_update_conversation ext call c body db))"
proof (cases "fst (handle_update_conversation ext call c body db) = db")
  case False
  then obtain existing metadata db1 where ex: "get_conversation ext (tenant_of (call_ctx call)) c db = Inr (Some existing)"
    and up: "upsert_conversation ext
        \<lparr>cr_conversation_id = c, cr_tenant_id = tenant_of (call_ctx call), cr_created_at = cr_created_at existing,
         cr_metadata = metadata, cr_messages = cr_messages existing\<rparr> db = Inr db1"
    and db1: "fst (handle_update_conversation ext call c body db) = db1"
    unfolding handle_update_conversation_def Let_def
    by (auto simp: finish_def and_then_eq_case or_answer_def existing_conversation_def
        split: sum.splits option.splits)
  note facts = upsert_cached [OF assms(1) up, simplified]
  have "synced ext t' c' db1"
  proof (cases "t' = tenant_of (call_ctx call) \<and> c' = c")
    case True
    then have "cr_messages existing = JArray (map ir_item_data (item_contents ext t' c' db))"
      using assms(2) ex by (auto simp: cache_ok_def synced_def cached_messages_def split: sum.splits option.splits)
    with True facts(1,4) show ?thesis
      by (cases "cached_messages ext t' c' db1") (auto simp: synced_def)
  next
    case False
    with facts(2,4) have "synced ext t' c' db1 = synced ext t' c' db" by (intro synced_cong) auto
    with assms(2) show ?thesis by (simp add: cache_ok_def)
  qed
  with facts(3) assms(2) db1 show ?thesis by (simp add: cache_ok_def)
qed (use assms in simp)

lemma delete_keeps:
  assumes "cache_ok ext t' c' db"
  shows "cache_ok ext t' c' (fst (handle_delete_conversation ext call c db))"
proof (cases "delete_conversation (tenant_of (call_ctx call)) c db")
  case (Inl e)
  with assms show ?thesis by (simp add: handle_delete_conversation_def finish_def or_answer_def)
next
  case (Inr r)
  let ?db1 = "db\<lparr>db_conversations := delete_rows conversation_key (tenant_of (call_ctx call), c) (db_conversations db)\<rparr>"
  from Inr have r: "fst r = ?db1" "db_fault db = None"
    by (auto simp: delete_conversation_def Let_def execute_def split: option.splits)
  have "synced ext t' c' ?db1"
  proof -
    have "cached_messages ext t' c' ?db1 \<in> {None, cached_messages ext t' c' db}"
      using r(2) by (auto simp: cached_messages_eq row_with_delete)
    moreover have "item_contents ext t' c' ?db1 = item_contents ext t' c' db"
      by (simp add: item_contents_def scope_rows_def order_key_def [abs_def])
    moreover have "synced ext t' c' db" using assms by (simp add: cache_ok_def)
    ultimately show ?thesis by (auto simp: synced_def)
  qed
  moreover have "items_ok ext ?db1" using assms by (simp add: cache_ok_def items_ok_def)
  ultimately show ?thesis using Inr r
    by (cases r) (simp add: handle_delete_conversation_def finish_def or_answer_def cache_ok_def)
qed

lemma new_conversation_Inr:
  assumes "new_conversation ext call body db = Inr (record', records)"
  shows "cr_tenant_id record' = tenant_of (call_ctx call)" and "cr_conversation_id record' = ''conv_'' @ call_ids call 0"
    and "cr_messages record' = JArray (map ir_item_data records)"
    and "all_in (tenant_of (call_ctx call)) (''conv_'' @ call_ids call 0) records" and "come_after records []"
proof -
  from assms obtain field item_values n where
    items: "parse_items_field field False = Inr item_values"
    and recs: "build_item_records (call_ids call) n (tenant_of (call_ctx call)) (''conv_'' @ call_ids call 0)
      (current_timestamp (call_now call)) 1 0 item_values = Inr records"
    and r: "cr_tenant_id record' = tenant_of (call_ctx call)" "cr_conversation_id record' = ''conv_'' @ call_ids call 0"
      "cr_messages record' = JArray (map ir_item_data records)"
    unfolding new_conversation_def Let_def
    by (auto simp: and_then_Inr_iff or_answer_Inr)
  from items have "length item_values \<le> 20"
    by (auto simp: parse_items_field_def MAX_ITEMS_PER_REQUEST_def split: option.splits json.splits if_splits)
  with new_records_after [OF recs, of "[]"] have "come_after records []" by simp
  with r build_item_records_fields(2) [OF recs] show "cr_tenant_id record' = tenant_of (call_ctx call)"
    "cr_conversation_id record' = ''conv_'' @ call_ids call 0" "cr_messages record' = JArray (map ir_item_data records)"
    "all_in (tenant_of (call_ctx call)) (''conv_'' @ call_ids call 0) records" "come_after records []"
    by simp_all
qed

lemma new_conversation_Inl: "new_conversation ext call body db = Inl out \<Longrightarrow> fst out = db"
  unfolding new_conversation_def Let_def
  by (auto simp: and_then_Inl_iff refuse_iff dest!: or_answer_early)

text \<open>The items of a new conversation are all it has, and the other conversations keep theirs.\<close>

lemma first_items:
  assumes reads: "columns_read_back ext" and ok: "items_ok ext db1" and empty: "item_contents ext t c db1 = []"
    and made: "(if records = [] then Inr db1 else create_conversation_items ext records db1) = Inr db2"
    and scope: "all_in t c records" and after: "come_after records []"
  shows "items_ok ext db2" and "item_contents ext t c db2 = records"
    and "(t', c') \<noteq> (t, c) \<Longrightarrow> item_contents ext t' c' db2 = item_contents ext t' c' db1"
    and "get_conversation ext t' c' db2 = get_conversation ext t' c' db1"
proof -
  have "items_ok ext db2 \<and> item_contents ext t c db2 = records \<and>
      ((t', c') \<noteq> (t, c) \<longrightarrow> item_contents ext t' c' db2 = item_contents ext t' c' db1) \<and>
      get_conversation ext t' c' db2 = get_conversation ext t' c' db1" for t' c'
  proof (cases "records = []")
    case True
    with made ok empty show ?thesis by simp
  next
    case False
    with made have cr: "create_conversation_items ext records db1 = Inr db2" by simp
    note kept = created_kept [OF reads cr]
    from create_items_Inr [OF cr] have "get_conversation ext t' c' db2 = get_conversation ext t' c' db1"
      by (auto simp: get_conversation_def execute_def)
    with items.create_keeps [OF ok cr kept] items.create_appends [OF ok cr kept scope]
      items.create_other [OF cr scope] empty after show ?thesis by simp
  qed
  then show "items_ok ext db2" "item_contents ext t c db2 = records"
    "(t', c') \<noteq> (t, c) \<Longrightarrow> item_contents ext t' c' db2 = item_contents ext t' c' db1"
    "get_conversation ext t' c' db2 = get_conversation ext t' c' db1" by blast+
qed

lemma create_keeps:
  assumes reads: "columns_read_back ext" and ok: "cache_ok ext t' c' db"
    and "call_admissible ext call (Create_conversation body) db"
    and "answer_status (snd (handle_create_conversation ext call body db)) \<notin> {None, Some 500}"
  shows "cache_ok ext t' c' (fst (handle_create_conversation ext call body db))"
proof (cases "new_conversation ext call body db")
  case (Inl out)
  with ok new_conversation_Inl [OF Inl] show ?thesis by (simp add: handle_create_conversation_def finish_def)
next
  case (Inr p)
  obtain rec' records where p: "p = (rec', records)" by (cases p)
  let ?t = "tenant_of (call_ctx call)" and ?c = "''conv_'' @ call_ids call 0"
  from Inr p have new: "new_conversation ext call body db = Inr (rec', records)" by simp
  note new_facts = new_conversation_Inr [OF new]
  show ?thesis
  proof (cases "upsert_conversation ext rec' db")
    case (Inl e)
    with new ok show ?thesis by (simp add: handle_create_conversation_def finish_def or_answer_def)
  next
    case (Inr db1)
    note up = upsert_cached [OF reads Inr, unfolded new_facts(1,2)]
    show ?thesis
    proof (cases "if records = [] then Inr db1 else create_conversation_items ext records db1")
      case (Inl e)
      with new Inr have "snd (handle_create_conversation ext call body db) = store_error_response ext e"
        by (simp add: handle_create_conversation_def finish_def or_answer_def)
      with assms(4) Inl internal_error_status [OF create_items_internal, of ext records db1 e ext] show ?thesis
        by (auto split: if_splits)
    next
      case (Inr db2)
      with new \<open>upsert_conversation ext rec' db = Inr db1\<close>
      have end': "fst (handle_create_conversation ext call body db) = db2"
        by (simp add: handle_create_conversation_def finish_def or_answer_def)
      have "items_ok ext db1" "item_contents ext ?t ?c db1 = []"
        using up(3,4) ok assms(3) by (simp_all add: cache_ok_def call_admissible_def)
      note facts = first_items [OF reads this Inr new_facts(4,5)]
      have "synced ext t' c' db2"
      proof (cases "(t', c') = (?t, ?c)")
        case True
        with facts(2,4) up(1) new_facts(3) show ?thesis
          by (cases "cached_messages ext ?t ?c db1") (auto simp: synced_def cached_messages_def)
      next
        case False
        with facts(3,4) up(2) [OF False] up(4) have "synced ext t' c' db2 = synced ext t' c' db"
          by (intro synced_cong) simp_all
        with ok show ?thesis by (simp add: cache_ok_def)
      qed
      with facts(1) end' show ?thesis by (simp add: cache_ok_def)
    qed
  qed
qed

lemma create_items_keeps:
  assumes reads: "columns_read_back ext" and ok: "cache_ok ext t' c' db" and room: "call_admissible ext call (Create_items c body) db"
    and served: "handle_create_items ext call c body db = Some (db', ans)" and st: "answer_status ans \<notin> {None, Some 500}"
  shows "cache_ok ext t' c' db'"
proof -
  let ?t = "tenant_of (call_ctx call)"
  have items: "items_ok ext db" and room': "room_for_items ext ?t c db"
    using ok room by (simp_all add: cache_ok_def call_admissible_def)
  from create_items_cases [OF items reads room', of body] served st
  have db': "items_ok ext db'" and "db' = db \<or>
      (\<exists>db1 existing new. insert_new_items ext call c body db = Inr (db1, existing, new) \<and>
        (\<forall>t' c'. item_contents ext t' c' db' = item_contents ext t' c' db1) \<and>
        (\<forall>t' c'. (t', c') \<noteq> (?t, c) \<longrightarrow> get_conversation ext t' c' db' = get_conversation ext t' c' db) \<and>
        synced ext ?t c db')"
    by auto
  from this(2) have "synced ext t' c' db'"
  proof (elim disjE exE conjE, goal_cases)
    case 1
    with ok show ?case by (simp add: cache_ok_def)
  next
    case (2 db1 existing new)
    show ?case
    proof (cases "(t', c') = (?t, c)")
      case False
      with 2 inserted_items(3) [OF items reads 2(1) refl room' False]
      have "synced ext t' c' db' = synced ext t' c' db" by (intro synced_cong) auto
      with ok show ?thesis by (simp add: cache_ok_def)
    qed (use 2 in simp)
  qed
  with db' show ?thesis by (simp add: cache_ok_def)
qed

lemma delete_item_keeps:
  assumes reads: "columns_read_back ext" and ok: "cache_ok ext t' c' db"
    and served: "handle_delete_item ext u call c segment db = Some (db', ans)" and st: "answer_status ans \<notin> {None, Some 500}"
  shows "cache_ok ext t' c' db'"
proof -
  let ?t = "tenant_of (call_ctx call)"
  have items: "items_ok ext db" using ok by (simp add: cache_ok_def)
  from delete_item_cases [OF items reads, of u call c segment] served st
  have db': "items_ok ext db'" and
    "(\<forall>t' c'. item_contents ext t' c' db' = item_contents ext t' c' db \<and>
        get_conversation ext t' c' db' = get_conversation ext t' c' db) \<or>
     (\<exists>i db1. delete_conversation_item ?t c i db = Inr (db1, True) \<and>
        (\<forall>t' c'. item_contents ext t' c' db' = item_contents ext t' c' db1) \<and>
        (\<forall>t' c'. (t', c') \<noteq> (?t, c) \<longrightarrow> get_conversation ext t' c' db' = get_conversation ext t' c' db) \<and>
        synced ext ?t c db')"
    by auto
  from this(2) have "synced ext t' c' db'"
  proof (elim disjE exE conjE, goal_cases)
    case 1
    then have "synced ext t' c' db' = synced ext t' c' db" by (intro synced_cong) blast+
    with ok show ?case by (simp add: cache_ok_def)
  next
    case (2 i db1)
    show ?case
    proof (cases "(t', c') = (?t, c)")
      case False
      with 2 items.delete_other [OF 2(1) False]
      have "synced ext t' c' db' = synced ext t' c' db" by (intro synced_cong) auto
      with ok show ?thesis by (simp add: cache_ok_def)
    qed (use 2 in simp)
  qed
  with db' show ?thesis by (simp add: cache_ok_def)
qed

lemma serve_keeps:
  assumes "columns_read_back ext" and "cache_ok ext t' c' db" and "call_admissible ext call req db"
    and "serve ext u call req db = Some (db', ans)" and "answer_status ans \<notin> {None, Some 500}"
  shows "cache_ok ext t' c' db'"
proof (cases req)
  case (Create_conversation body)
  with assms create_keeps [of ext t' c' db call body] show ?thesis by (simp add: serve_def)
next
  case (Create_items c body)
  with assms create_items_keeps show ?thesis by (simp add: serve_def)
next
  case (Delete_item c i)
  with assms delete_item_keeps show ?thesis by (simp add: serve_def)
next
  case (Update_conversation c body)
  with assms update_keeps [of ext t' c' db call c body] show ?thesis by (simp add: serve_def)
next
  case (Delete_conversation c)
  with assms delete_keeps [of ext t' c' db call c] show ?thesis by (simp add: serve_def)
next
  case (Get_conversation c)
  with assms read_only(1) [of ext call c db] show ?thesis by (simp add: serve_def)
next
  case (List_items c)
  with assms read_only(2) [of ext u call c db] show ?thesis by (simp add: serve_def)
next
  case (Get_item c i)
  with assms read_only(3) [of ext u call c i db] show ?thesis by (simp add: serve_def)
qed

section \<open>An example store\<close>

text \<open>A serialiser for finitely many values, that refuses all others: the text of a value is its position.\<close>

definition strict_ext :: "json list \<Rightarrow> externals" where
  "strict_ext vs = null_ext
     \<lparr>to_text := (\<lambda>v. case position (\<lambda>w. w = v) vs of None \<Rightarrow> Inl [] | Some n \<Rightarrow> Inr (show_nat n)),
      from_slice := (\<lambda>s. case Option.bind (parse_uint 64 s) (get_at vs) of None \<Rightarrow> Inl [] | Some v \<Rightarrow> Inr v)\<rparr>"

lemma columns_read_back_strict: "length vs < 2 ^ 64 \<Longrightarrow> columns_read_back (strict_ext vs)"
  by (auto simp: columns_read_back_def strict_ext_def position_Some_iff parse_uint_show_nat get_at_def
      split: option.splits)

definition conv_item :: "str \<Rightarrow> json" where "conv_item i = jobj [(''id'', JString i)]"
definition conv_items_body :: "str \<Rightarrow> json" where "conv_items_body i = jobj [(''items'', JArray [conv_item i])]"

definition conv_item_record :: "str \<Rightarrow> int \<Rightarrow> item_record" where
  "conv_item_record i p =
     \<lparr>ir_item_id = i, ir_tenant_id = ''default'', ir_conversation_id = ''conv_x'', ir_item_data = conv_item i,
      ir_created_at = 7, ir_position = p\<rparr>"

definition conv_record :: "json \<Rightarrow> conversation_record" where
  "conv_record messages =
     \<lparr>cr_conversation_id = ''conv_x'', cr_tenant_id = ''default'', cr_created_at = 7, cr_metadata = JObject [],
      cr_messages = messages\<rparr>"

definition conv_ext :: externals where
  "conv_ext = strict_ext
     [conv_items_body ''a'', conv_items_body ''b'', JObject [], conv_item ''a'', conv_item ''b'',
      JArray [conv_item ''a''], JArray [conv_item ''a'', conv_item ''b''], JArray [conv_item ''b''],
      conversation_to_json (conv_record JNull), conversation_items_to_json [conv_item_record ''b'' 2] False]"

definition conv_call1 :: conv_call where
  "conv_call1 = \<lparr>call_ctx = empty_ctx, call_query = None, call_ids = (\<lambda>_. ''x''), call_now = 7\<rparr>"

definition conv_db0 :: store_db where
  "conv_db0 =
     \<lparr>db_backend = Sqlite, db_tables = \<lparr>tn_responses = ''r'', tn_conversations = ''c'', tn_items = Some ''i''\<rparr>,
      db_fault = None, db_collation = (\<lambda>s. s), db_responses = [], db_conversations = [], db_items = []\<rparr>"

abbreviation conv_serve :: "conv_request \<Rightarrow> store_db \<Rightarrow> outcome option" where
  "conv_serve \<equiv> serve conv_ext plain_urls conv_call1"

text \<open>After creating a conversation with item \<open>a\<close>.\<close>

definition conv_db1 :: store_db where "conv_db1 = fst (the (conv_serve (Create_conversation ''0'') conv_db0))"

lemma conv_ext_reads_back: "columns_read_back conv_ext"
  by (simp add: conv_ext_def columns_read_back_strict)

lemma conv_db0_ok: "cache_ok conv_ext t c conv_db0"
  by (auto simp: cache_ok_def items_ok_def conv_db0_def synced_def cached_messages_eq inj_def)

lemma outcome_of: "\<not> Option.is_none x \<Longrightarrow> x = Some (fst (the x), snd (the x))"
  by (cases x) (auto simp: Option.is_none_def)

lemma conv_db1_ok: "items_ok conv_ext conv_db1"
proof -
  have "conv_serve (Create_conversation ''0'') conv_db0 =
      Some (conv_db1, snd (the (conv_serve (Create_conversation ''0'') conv_db0)))"
    unfolding conv_db1_def by (rule outcome_of) code_simp
  from serve_keeps [OF conv_ext_reads_back conv_db0_ok _ this] have "cache_ok conv_ext t c conv_db1" for t c
    by (rule meta_mp) code_simp+
  then show ?thesis by (simp add: cache_ok_def)
qed

text \<open>
  A request adds item \<open>b\<close> and lists the items; before it writes them, another one deletes item \<open>a\<close>,
  answers 200 and leaves the cache in step; then the first one writes what it has listed.
\<close>

lemma answered: "\<not> Option.is_none x \<and> \<not> isl (the x) \<Longrightarrow> x = Some (Inr (projr (the x)))"
  by (cases x; cases "the x") auto

lemma updated: "\<not> isl x \<and> snd (projr x) \<Longrightarrow> x = Inr (fst (projr x), True)"
  by (cases x) (auto simp: prod_eq_iff)

lemma overlapping_requests_leave_stale_cache:
  "\<exists>db1 existing new messages db2 ans db3.
     insert_new_items conv_ext conv_call1 ''conv_x'' ''1'' conv_db1 = Inr (db1, existing, new) \<and>
     collect_conversation_messages conv_ext ''default'' ''conv_x'' db1 = Some (Inr messages) \<and>
     conv_serve (Delete_item ''conv_x'' ''a'') db1 = Some (db2, ans) \<and> answer_status ans = Some 200 \<and>
     update_conversation_messages conv_ext ''default'' ''conv_x'' (JArray messages) db2 = Inr (db3, True) \<and>
     cached_messages conv_ext ''default'' ''conv_x'' db3 = Some (JArray [conv_item ''a'', conv_item ''b'']) \<and>
     map ir_item_data (item_contents conv_ext ''default'' ''conv_x'' db3) = [conv_item ''b'']"
proof -
  let ?insert = "insert_new_items conv_ext conv_call1 ''conv_x'' ''1'' conv_db1"
  let ?db1 = "fst (projr ?insert)"
  let ?collect = "collect_conversation_messages conv_ext ''default'' ''conv_x'' ?db1"
  let ?delete = "conv_serve (Delete_item ''conv_x'' ''a'') ?db1"
  let ?refresh = "update_conversation_messages conv_ext ''default'' ''conv_x'' (JArray (projr (the ?collect))) (fst (the ?delete))"
  have "\<not> isl ?insert" by code_simp
  then have 1: "?insert = Inr (?db1, fst (snd (projr ?insert)), snd (snd (projr ?insert)))" by (simp add: sum.collapse(2))
  have "\<not> Option.is_none ?collect \<and> \<not> isl (the ?collect)" by code_simp
  then have 2: "?collect = Some (Inr (projr (the ?collect)))" by (rule answered)
  have "\<not> Option.is_none ?delete" by code_simp
  then have 3: "?delete = Some (fst (the ?delete), snd (the ?delete))" by (rule outcome_of)
  have "\<not> isl ?refresh \<and> snd (projr ?refresh)" by code_simp
  then have 4: "?refresh = Inr (fst (projr ?refresh), True)" by (rule updated)
  have 5: "answer_status (snd (the ?delete)) = Some 200"
    and 6: "cached_messages conv_ext ''default'' ''conv_x'' (fst (projr ?refresh)) = Some (JArray [conv_item ''a'', conv_item ''b''])"
    and 7: "map ir_item_data (item_contents conv_ext ''default'' ''conv_x'' (fst (projr ?refresh))) = [conv_item ''b'']"
    by code_simp+
  show ?thesis by (intro exI conjI) (rule 1 2 3 4 5 6 7)+
qed

text \<open>A request that changes the items of a conversation, answered with status 200.\<close>

definition refreshed :: "externals \<Rightarrow> url_fns \<Rightarrow> str \<Rightarrow> str \<Rightarrow> store_db \<Rightarrow> bool" where
  "refreshed ext u t c db \<longleftrightarrow>
     (\<exists>call req db0 ans. items_ok ext db0 \<and> call_admissible ext call req db0 \<and> tenant_of (call_ctx call) = t \<and>
        ((\<exists>body. req = Create_items c body) \<or> (\<exists>i. req = Delete_item c i)) \<and>
        serve ext u call req db0 = Some (db, ans) \<and> answer_status ans = Some 200)"

lemma refreshed_cache:
  assumes "columns_read_back ext" and "refreshed ext u t c db"
  shows "cache_ok ext t c db"
proof -
  from assms(2) obtain call req db0 ans where ok: "items_ok ext db0" and adm: "call_admissible ext call req db0"
    and t: "tenant_of (call_ctx call) = t"
    and served: "serve ext u call req db0 = Some (db, ans)" and st: "answer_status ans = Some 200"
    and req: "(\<exists>body. req = Create_items c body) \<or> (\<exists>i. req = Delete_item c i)"
    by (auto simp: refreshed_def)
  from req show ?thesis
  proof (elim disjE exE)
    fix body assume r: "req = Create_items c body"
    with adm have "room_for_items ext (tenant_of (call_ctx call)) c db0" by (simp add: call_admissible_def)
    from create_items_cases [OF ok assms(1) this, of body] r served st t show ?thesis
      by (auto simp: serve_def cache_ok_def)
  next
    fix i assume r: "req = Delete_item c i"
    from delete_item_cases [OF ok assms(1), of u call c i] r served st t show ?thesis
      by (auto simp: serve_def cache_ok_def)
  qed
qed


text \<open>The witness starts from a store whose cache does not list the item it holds.\<close>

definition conv_stale :: store_db where
  "conv_stale = conv_db1\<lparr>db_conversations := map (\<lambda>r. r\<lparr>crow_messages := ''7''\<rparr>) (db_conversations conv_db1)\<rparr>"

definition conv_db2 :: store_db where "conv_db2 = fst (the (conv_serve (Create_items ''conv_x'' ''1'') conv_stale))"
definition conv_db3 :: store_db where "conv_db3 = fst (the (conv_serve (Delete_item ''conv_x'' ''a'') conv_db2))"




section \<open>Tenants\<close>

text \<open>What of the database a tenant's requests can read.\<close>

definition tenant_rows :: "str \<Rightarrow> store_db \<Rightarrow> str option \<times> table_names \<times> (str \<Rightarrow> str) \<times> conversation_row list \<times> item_row list" where
  "tenant_rows t db =
     (db_fault db, db_tables db, db_collation db,
      filter (\<lambda>r. crow_tenant_id r = t) (db_conversations db), filter (\<lambda>r. irow_tenant_id r = t) (db_items db))"

lemma row_with_filter: "(\<And>r. key r = k \<Longrightarrow> P r) \<Longrightarrow> row_with key k (filter P rows) = row_with key k rows"
  by (induction rows) auto

lemma filter_update_rows:
  "(\<And>r. key r = k \<Longrightarrow> \<not> P r \<and> \<not> P (f r)) \<Longrightarrow> filter P (update_rows key k f rows) = filter P rows"
  by (induction rows) (auto simp: update_rows_def)

lemma filter_delete_rows: "(\<And>r. key r = k \<Longrightarrow> \<not> P r) \<Longrightarrow> filter P (delete_rows key k rows) = filter P rows"
  by (induction rows) (auto simp: delete_rows_def)

lemma tenant_conversation:
  assumes "tenant_rows t db = tenant_rows t db'"
  shows "get_conversation ext t c db = get_conversation ext t c db'"
proof -
  have "row_with conversation_key (t, c) (filter (\<lambda>r. crow_tenant_id r = t) (db_conversations d)) =
      row_with conversation_key (t, c) (db_conversations d)" for d :: store_db
    by (rule row_with_filter) (simp add: conversation_key_def)
  with assms show ?thesis
    unfolding get_conversation_def execute_def tenant_rows_def by (metis (no_types, lifting) prod.inject)
qed

lemma tenant_item:
  assumes "tenant_rows t db = tenant_rows t db'"
  shows "row_with item_key (t, c, i) (db_items db) = row_with item_key (t, c, i) (db_items db')"
proof -
  have "row_with item_key (t, c, i) (filter (\<lambda>r. irow_tenant_id r = t) (db_items d)) =
      row_with item_key (t, c, i) (db_items d)" for d :: store_db
    by (rule row_with_filter) (simp add: item_key_def)
  with assms show ?thesis unfolding tenant_rows_def by (metis (no_types, lifting) prod.inject)
qed

lemma tenant_scope:
  assumes "tenant_rows t db = tenant_rows t db'"
  shows "filter (in_scope t c) (db_items db) = filter (in_scope t c) (db_items db')"
proof -
  have "filter (in_scope t c) (db_items d) =
      filter (\<lambda>r. irow_conversation_id r = c) (filter (\<lambda>r. irow_tenant_id r = t) (db_items d))" for d :: store_db
    by (auto simp: in_scope_def intro!: filter_cong)
  with assms show ?thesis unfolding tenant_rows_def by (metis (no_types, lifting) prod.inject)
qed

lemma tenant_listing:
  assumes "tenant_rows t db = tenant_rows t db'"
  shows "list_conversation_items ext t c after n asc db = list_conversation_items ext t c after n asc db'"
    and "get_conversation_item ext t c i db = get_conversation_item ext t c i db'"
proof -
  have same: "db_fault db = db_fault db'" "db_tables db = db_tables db'" "db_collation db = db_collation db'"
    using assms by (simp_all add: tenant_rows_def)
  then show "list_conversation_items ext t c after n asc db = list_conversation_items ext t c after n asc db'"
    "get_conversation_item ext t c i db = get_conversation_item ext t c i db'"
    unfolding list_conversation_items_def conversation_item_position_def get_conversation_item_def
      with_items_table_def execute_def order_by_def past_cursor_def [abs_def] order_key_def [abs_def]
      tenant_item [OF assms] tenant_scope [OF assms]
    by (simp_all only:)
qed

section \<open>Writes stay with their tenant\<close>

lemma tenant_upsert:
  "upsert_conversation ext r db = Inr db' \<Longrightarrow> cr_tenant_id r \<noteq> t \<Longrightarrow> tenant_rows t db' = tenant_rows t db"
  by (auto simp: upsert_conversation_Inr tenant_rows_def merge_row_def conversation_key_def
      dest!: conversation_row_fields(1) intro!: filter_update_rows)
     (simp_all add: merge_conversation_row_def)

lemma tenant_update:
  "update_conversation_messages ext t' c v db = Inr (db', b) \<Longrightarrow> t' \<noteq> t \<Longrightarrow> tenant_rows t db' = tenant_rows t db"
  by (auto simp: update_messages_Inr tenant_rows_def conversation_key_def intro!: filter_update_rows)

lemma tenant_delete:
  "delete_conversation t' c db = Inr (db', b) \<Longrightarrow> t' \<noteq> t \<Longrightarrow> tenant_rows t db' = tenant_rows t db"
  by (auto simp: delete_conversation_def Let_def execute_Inr tenant_rows_def conversation_key_def intro!: filter_delete_rows)

lemma tenant_delete_item:
  "delete_conversation_item t' c i db = Inr (db', b) \<Longrightarrow> t' \<noteq> t \<Longrightarrow> tenant_rows t db' = tenant_rows t db"
  by (auto simp: delete_item_Inr tenant_rows_def item_key_def intro!: filter_delete_rows)

lemma tenant_create_items:
  assumes "create_conversation_items ext items db = Inr db'" and "all_in t' c items" and "t' \<noteq> t"
  shows "tenant_rows t db' = tenant_rows t db"
proof -
  from assms(1) obtain new where db': "db' = db\<lparr>db_items := db_items db @ new\<rparr>"
    and new: "map_result (item_to_row ext) items = Inr new"
    by (auto dest: create_items_Inr)
  have "\<forall>r \<in> set new. irow_tenant_id r = t'"
    using new assms(2)
    by (induction items arbitrary: new)
       (auto simp: and_then_Inr_iff all_in_def item_to_row_def)
  with assms(3) show ?thesis by (auto simp: db' tenant_rows_def filter_empty_conv)
qed

lemma tenant_sync:
  assumes "sync_conversation_messages ext record' db = Some (Inr db')" and "cr_tenant_id record' \<noteq> t"
  shows "tenant_rows t db' = tenant_rows t db"
  using assms
  by (auto simp: sync_conversation_messages_def and_then_Inr_iff dest: tenant_update split: if_splits)

lemma create_other_tenant:
  assumes t: "tenant_of (call_ctx call) \<noteq> t"
  shows "tenant_rows t (fst (handle_create_conversation ext call body db)) = tenant_rows t db"
proof (cases "new_conversation ext call body db")
  case (Inl out)
  with new_conversation_Inl [OF Inl] show ?thesis by (simp add: handle_create_conversation_def finish_def)
next
  case (Inr p)
  obtain rec' records where p: "p = (rec', records)" by (cases p)
  note new = new_conversation_Inr [OF Inr [unfolded p]]
  show ?thesis
  proof (cases "upsert_conversation ext rec' db")
    case (Inl e)
    with \<open>new_conversation ext call body db = Inr p\<close> p show ?thesis
      by (simp add: handle_create_conversation_def finish_def or_answer_def)
  next
    case (Inr db1)
    from tenant_upsert [OF Inr] new(1) t have 1: "tenant_rows t db1 = tenant_rows t db" by simp
    have "fst (handle_create_conversation ext call body db) = db1 \<or>
        create_conversation_items ext records db1 = Inr (fst (handle_create_conversation ext call body db))"
      using \<open>new_conversation ext call body db = Inr p\<close> p Inr
      by (cases "create_conversation_items ext records db1")
         (auto simp: handle_create_conversation_def finish_def or_answer_def split: if_splits)
    with 1 tenant_create_items [OF _ new(4) t] show ?thesis by metis
  qed
qed

lemma create_items_other_tenant:
  assumes t: "tenant_of (call_ctx call) \<noteq> t" and served: "handle_create_items ext call c body db = Some (db', ans)"
  shows "tenant_rows t db' = tenant_rows t db"
proof (cases "insert_new_items ext call c body db")
  case (Inl out)
  with served insert_new_items_Inl [OF Inl] show ?thesis by (auto simp: handle_create_items_def)
next
  case (Inr r)
  obtain db1 existing new where r: "r = (db1, existing, new)" by (cases r)
  from Inr [unfolded r] have 1: "tenant_rows t db1 = tenant_rows t db" and ex: "cr_tenant_id existing \<noteq> t"
    using t
    by (auto elim!: insert_new_items_Inr dest!: build_item_records_fields(2) get_conversation_ids
        intro: tenant_create_items)
  obtain s where s: "sync_conversation_messages ext existing db1 = Some s" and
    db': "db' = fst (finish (and_then (or_answer db1 (store_error_response ext) s) (\<lambda>db2.
      Inr (db2, json_response ext 200 (conversation_items_to_json new False)))))"
    using served Inr r by (force simp: handle_create_items_def)
  with 1 tenant_sync [OF _ ex] show ?thesis by (cases s) (auto simp: finish_def or_answer_def)
qed

lemma delete_item_other_tenant:
  assumes t: "tenant_of (call_ctx call) \<noteq> t" and served: "handle_delete_item ext u call c i db = Some (db', ans)"
  shows "tenant_rows t db' = tenant_rows t db"
proof (cases "remove_item ext u call c i db")
  case (Inl out)
  with served remove_item_Inl [OF Inl] t show ?thesis
    by (auto simp: handle_delete_item_def dest: tenant_delete_item)
next
  case (Inr r)
  obtain db1 existing where r: "r = (db1, existing)" by (cases r)
  from Inr [unfolded r] t have 1: "tenant_rows t db1 = tenant_rows t db" and ex: "cr_tenant_id existing \<noteq> t"
    by (auto simp: remove_item_Inr dest: tenant_delete_item get_conversation_ids)
  obtain s where s: "sync_conversation_messages ext existing db1 = Some s" and
    db': "db' = fst (finish (and_then (or_answer db1 (store_error_response ext) s) (\<lambda>db2.
      and_then (existing_conversation ext (tenant_of (call_ctx call)) c db2) (\<lambda>record.
        Inr (db2, json_response ext 200 (conversation_to_json record))))))"
    using served Inr r by (force simp: handle_delete_item_def)
  show ?thesis
  proof (cases s)
    case (Inl e)
    with db' 1 show ?thesis by (simp add: finish_def or_answer_def)
  next
    case (Inr db2)
    with db' have "db' = db2"
      by (cases "existing_conversation ext (tenant_of (call_ctx call)) c db2")
         (auto simp: finish_def or_answer_def dest: existing_Inl)
    with 1 s Inr tenant_sync [OF _ ex] show ?thesis by simp
  qed
qed

lemma serve_other_tenant:
  assumes "serve ext u call req db = Some (db', ans)" and t: "tenant_of (call_ctx call) \<noteq> t"
  shows "tenant_rows t db' = tenant_rows t db"
proof (cases req)
  case (Create_conversation body)
  with assms(1) create_other_tenant [OF t, of ext body db] show ?thesis by (simp add: serve_def)
next
  case (Create_items c body)
  with assms(1) show ?thesis by (simp add: serve_def create_items_other_tenant [OF t])
next
  case (Delete_item c i)
  with assms(1) show ?thesis by (simp add: serve_def delete_item_other_tenant [OF t])
next
  case (Update_conversation c body)
  with assms show ?thesis
    unfolding serve_def handle_update_conversation_def Let_def
    by (auto simp: finish_def and_then_eq_case or_answer_def existing_conversation_def
        split: sum.splits option.splits) (rule tenant_upsert, assumption, simp)+
next
  case (Delete_conversation c)
  with assms show ?thesis
    by (auto simp: serve_def handle_delete_conversation_def finish_def and_then_eq_case or_answer_def
        dest: tenant_delete split: sum.splits)
qed (use assms(1) read_only in \<open>auto simp: serve_def prod_eq_iff\<close>)

text \<open>
  C17. Tenants do not see each other: whatever request of one tenant is served, what another tenant
  then reads, a conversation, a page of its items or one of them, is what it would have read before.
\<close>

theorem conversation_tenant_isolation:
  assumes "serve ext u call req db = Some (db', ans)"
    and "tenant_of (call_ctx call) \<noteq> tenant_of (call_ctx other)"
    and "look \<in> {Get_conversation c, List_items c, Get_item c i}"
  shows "map_option snd (serve ext u other look db') = map_option snd (serve ext u other look db)"
proof -
  let ?t = "tenant_of (call_ctx other)"
  have rows: "tenant_rows ?t db' = tenant_rows ?t db" by (rule serve_other_tenant [OF assms(1,2)])
  note same = tenant_conversation [OF rows] tenant_listing [OF rows]
  have conv: "map_sum snd id (existing_conversation ext ?t c db') = map_sum snd id (existing_conversation ext ?t c db)" for c
    by (auto simp: existing_conversation_def or_answer_def same and_then_eq_case split: sum.splits option.splits)
  from assms(3) show ?thesis
  proof (elim insertE emptyE, goal_cases)
    case 1
    with conv [of c] show ?case
      by (cases "existing_conversation ext ?t c db'"; cases "existing_conversation ext ?t c db")
         (auto simp: serve_def handle_get_conversation_def finish_def)
  next
    case 2
    with conv [of c] show ?case
      by (cases "existing_conversation ext ?t c db'"; cases "existing_conversation ext ?t c db")
         (auto simp: serve_def handle_list_items_def finish_def Let_def or_answer_def same split: sum.splits)
  next
    case 3
    then show ?case
      by (auto simp: serve_def handle_get_item_def finish_def or_answer_def same and_then_eq_case
          split: sum.splits)
  qed
qed

lemma conversation_tenant_isolation_witness:
  "map_option snd (serve conv_ext plain_urls
      (conv_call1\<lparr>call_ctx := set_metadata TENANT_METADATA_KEY ''other'' empty_ctx\<rparr>) (Get_conversation ''conv_x'') conv_db1) =
   map_option snd (serve conv_ext plain_urls
      (conv_call1\<lparr>call_ctx := set_metadata TENANT_METADATA_KEY ''other'' empty_ctx\<rparr>) (Get_conversation ''conv_x'') conv_db0)"
proof -
  have "conv_serve (Create_conversation ''0'') conv_db0 =
      Some (conv_db1, snd (the (conv_serve (Create_conversation ''0'') conv_db0)))"
    unfolding conv_db1_def by (rule outcome_of) code_simp
  moreover have "tenant_of (call_ctx conv_call1) \<noteq>
      tenant_of (call_ctx (conv_call1\<lparr>call_ctx := set_metadata TENANT_METADATA_KEY ''other'' empty_ctx\<rparr>))"
    by code_simp
  ultimately show ?thesis by (rule conversation_tenant_isolation) simp
qed

end
