(* ===== verification/Conversation_Config.thy ===== *)
theory Conversation_Config
  imports Store_Config Praxis
begin

text \<open>
  The configuration of the filter \<open>openai_conversations\<close>
  (\<open>apis/src/openai/conversations/config.rs\<close>). The file has its own copy of the checks of the response
  store; it is translated as it stands, and shown to accept and refuse the same URLs and options, with
  another name at the head of each message.
\<close>

section \<open>Configuration\<close>

record conversations_config =
  cc_backend :: storage_backend
  cc_database_url :: str
  cc_conversations_table :: str
  cc_items_table :: str
  cc_ssl_mode :: "ssl_mode option"
  cc_ssl_root_cert :: "str option"
  cc_allow_private_database_url :: bool

definition default_conversations_table :: str where "default_conversations_table = ''openai_conversations''"
definition default_items_table :: str where "default_items_table = ''openai_conversation_items''"

definition cc_responses_table :: "conversations_config \<Rightarrow> str" where
  "cc_responses_table cfg = cc_conversations_table cfg @ ''_unused_responses''"

abbreviation conv_err :: "str \<Rightarrow> str" where
  "conv_err msg \<equiv> ''openai_conversations: '' @ msg"

definition conv_table_check :: "str \<Rightarrow> store_error + 'a \<Rightarrow> 'a checked" where
  "conv_table_check what r = map_sum (\<lambda>e. conv_err (what @ store_error_text e)) id r"

section \<open>Text of a URL\<close>

definition conv_postgres_url_after_scheme :: "str \<Rightarrow> str option" where
  "conv_postgres_url_after_scheme url =
     (case strip_prefix ''postgres://'' url of Some r \<Rightarrow> Some r | None \<Rightarrow> strip_prefix ''postgresql://'' url)"

definition conv_postgres_authority_host :: "url_fns \<Rightarrow> str \<Rightarrow> str option" where
  "conv_postgres_authority_host u after_scheme =
     (let authority = takeWhile (\<lambda>c. c \<notin> set ''/?#'') after_scheme;
          host_port = (case rsplit_once (CHR ''@'') authority of None \<Rightarrow> authority | Some (_, host) \<Rightarrow> host)
      in if host_port = [] then None
         else
           (let host = (case strip_prefix ''['' host_port of
                          Some bracketed \<Rightarrow>
                            (case split_once '']'' bracketed of None \<Rightarrow> host_port | Some (h, _) \<Rightarrow> h)
                        | None \<Rightarrow>
                            (case rsplit_once (CHR '':'') host_port of
                               None \<Rightarrow> host_port
                             | Some (h, port) \<Rightarrow> if list_all ascii_digit port then h else host_port))
            in if host = [] then None else Some (percent_decode u host)))"

definition conv_postgres_query_params :: "url_fns \<Rightarrow> str \<Rightarrow> (str \<times> str) list" where
  "conv_postgres_query_params u url =
     (case split_once ''?'' url of
        None \<Rightarrow> []
      | Some (_, query) \<Rightarrow>
          (let q = (case split_once ''#'' query of None \<Rightarrow> query | Some (q, _) \<Rightarrow> q)
           in map (\<lambda>param.
                let (key, v) = (case split_once ''='' param of None \<Rightarrow> (param, []) | Some kv \<Rightarrow> kv)
                in (percent_decode u key, percent_decode u v))
              (filter (\<lambda>param. param \<noteq> []) (split_char (CHR ''&'') q))))"

definition conv_is_postgres_hostaddr_param :: "str \<Rightarrow> bool" where
  "conv_is_postgres_hostaddr_param key \<longleftrightarrow> key = ''hostaddr''"

definition conv_is_postgres_host_param :: "str \<Rightarrow> bool" where
  "conv_is_postgres_host_param key \<longleftrightarrow> key = ''host''"

definition conv_is_postgres_sslmode_param :: "str \<Rightarrow> bool" where
  "conv_is_postgres_sslmode_param key \<longleftrightarrow> key = ''sslmode'' \<or> key = ''ssl-mode''"

definition conv_is_postgres_ssl_root_cert_param :: "str \<Rightarrow> bool" where
  "conv_is_postgres_ssl_root_cert_param key \<longleftrightarrow> key = ''sslrootcert'' \<or> key = ''ssl-root-cert'' \<or> key = ''ssl-ca''"

definition conv_is_postgres_tls_file_param :: "str \<Rightarrow> bool" where
  "conv_is_postgres_tls_file_param key \<longleftrightarrow> conv_is_postgres_ssl_root_cert_param key \<or>
     key = ''sslcert'' \<or> key = ''ssl-cert'' \<or> key = ''sslkey'' \<or> key = ''ssl-key''"

section \<open>Hosts\<close>

definition conv_is_postgres_localhost_name :: "str \<Rightarrow> bool" where
  "conv_is_postgres_localhost_name host \<longleftrightarrow>
     eq_ignore_ascii_case (rev (dropWhile (\<lambda>c. c = CHR ''.'') (rev host))) ''localhost''"

definition conv_is_postgres_ssrf_sensitive_ip :: "ip_addr \<Rightarrow> bool" where
  "conv_is_postgres_ssrf_sensitive_ip ip =
     (case ip of
        V4 a \<Rightarrow> v4_is_loopback a \<or> v4_is_private a \<or> v4_is_link_local a \<or> a = 0
      | V6 g \<Rightarrow> v6_is_loopback g \<or> v6_is_unique_local g \<or> v6_is_unicast_link_local g \<or> v6_is_unspecified g)"

definition conv_parse_legacy_ipv4_number :: "str \<Rightarrow> u32 option" where
  "conv_parse_legacy_ipv4_number part =
     (let (digits, radix) =
            (case (case strip_prefix ''0x'' part of Some d \<Rightarrow> Some d | None \<Rightarrow> strip_prefix ''0X'' part) of
               Some digits \<Rightarrow> (digits, 16)
             | None \<Rightarrow> if length part > 1 \<and> starts_with part ''0'' then (tl part, 8) else (part, 10))
      in if digits = [] \<or> \<not> list_all (\<lambda>c. radix_digit radix c \<noteq> None) digits then None
         else if digits_value radix digits < 2 ^ 32 then Some (of_nat (digits_value radix digits)) else None)"

definition conv_parse_legacy_ipv4_host :: "str \<Rightarrow> u32 option" where
  "conv_parse_legacy_ipv4_host host =
     (let parts = split_char (CHR ''.'') (rev (dropWhile (\<lambda>c. c = CHR ''.'') (rev host)))
      in if length parts > 4 \<or> list_ex (\<lambda>part. part = []) parts then None
         else
           (let numbers = map conv_parse_legacy_ipv4_number parts
            in if list_ex (\<lambda>n. n = None) numbers then None
               else
                 (case map the numbers of
                    [a] \<Rightarrow> Some a
                  | [a, b] \<Rightarrow> if a \<le> 0xFF \<and> b \<le> 0x00FFFFFF then Some (push_bit 24 a OR b) else None
                  | [a, b, c] \<Rightarrow>
                      if a \<le> 0xFF \<and> b \<le> 0xFF \<and> c \<le> 0xFFFF then Some (push_bit 24 a OR push_bit 16 b OR c) else None
                  | [a, b, c, d] \<Rightarrow>
                      if list_all (\<lambda>n. n \<le> 0xFF) [a, b, c, d]
                      then Some (push_bit 24 a OR push_bit 16 b OR push_bit 8 c OR d) else None
                  | _ \<Rightarrow> None)))"

definition conv_validate_postgres_ip_target :: "url_fns \<Rightarrow> str \<Rightarrow> ip_addr \<Rightarrow> bool \<Rightarrow> unit checked" where
  "conv_validate_postgres_ip_target u kind ip allow_private =
     (if \<not> allow_private \<and> conv_is_postgres_ssrf_sensitive_ip (normalize_mapped_ipv4 u ip) then
        Inl (conv_err (''database_url '' @ kind @ '' targets a local-sensitive address; '' @
                  ''set allow_private_database_url: true to allow''))
      else Inr ())"

definition conv_validate_postgres_dns_target :: "str \<Rightarrow> str \<Rightarrow> bool \<Rightarrow> unit checked" where
  "conv_validate_postgres_dns_target kind host allow_private =
     (if allow_private then Inr ()
      else Inl (conv_err (''database_url '' @ kind @ '' host '' @ quoted host @ '' is a DNS name; '' @
                     ''use a literal IP address or set allow_private_database_url: true to allow DNS targets'')))"

definition conv_validate_postgres_socket_path :: "url_fns \<Rightarrow> str \<Rightarrow> str \<Rightarrow> bool \<Rightarrow> unit checked" where
  "conv_validate_postgres_socket_path u kind path allow_private =
     (if has_dot_dot_traversal u path then
        Inl (conv_err (''database_url '' @ kind @ '' must not contain '' @ quoted ''..'' @ '' path traversal''))
      else if \<not> allow_private then
        Inl (conv_err (''database_url '' @ kind @ '' targets a Unix socket; set allow_private_database_url: true to allow''))
      else Inr ())"

definition conv_validate_postgres_host_value :: "url_fns \<Rightarrow> str \<Rightarrow> str \<Rightarrow> bool \<Rightarrow> unit checked" where
  "conv_validate_postgres_host_value u kind host allow_private =
     (if host = [] then Inl (conv_err (''database_url '' @ kind @ '' must not be empty''))
      else if starts_with host ''/'' then conv_validate_postgres_socket_path u kind host allow_private
      else if \<not> allow_private \<and> conv_is_postgres_localhost_name host then
        Inl (conv_err (''database_url '' @ kind @ '' targets localhost; set allow_private_database_url: true to allow''))
      else
        (case parse_ip host of
           Some ip \<Rightarrow> conv_validate_postgres_ip_target u kind ip allow_private
         | None \<Rightarrow>
             (case conv_parse_legacy_ipv4_host host of
                Some ip \<Rightarrow> conv_validate_postgres_ip_target u kind (V4 ip) allow_private
              | None \<Rightarrow> conv_validate_postgres_dns_target kind host allow_private)))"

definition conv_validate_postgres_hostaddr :: "url_fns \<Rightarrow> str \<Rightarrow> bool \<Rightarrow> unit checked" where
  "conv_validate_postgres_hostaddr u v allow_private =
     (case parse_ip v of
        None \<Rightarrow> Inl (conv_err (''database_url parameter '' @ quoted ''hostaddr'' @
                          '' must be a valid IP address: invalid IP address syntax''))
      | Some ip \<Rightarrow> conv_validate_postgres_ip_target u ''hostaddr'' ip allow_private)"

text \<open>One query parameter; the flag tells that a host was given.\<close>

definition conv_check_host_param :: "url_fns \<Rightarrow> bool \<Rightarrow> str \<times> str \<Rightarrow> bool \<Rightarrow> bool checked" where
  "conv_check_host_param u allow_private kv has_target =
     (case kv of (key, v) \<Rightarrow>
        if conv_is_postgres_hostaddr_param key then
          and_then (conv_validate_postgres_hostaddr u v allow_private) (\<lambda>_. Inr True)
        else if conv_is_postgres_host_param key then
          and_then (conv_validate_postgres_host_value u key v allow_private) (\<lambda>_. Inr True)
        else Inr has_target)"

definition conv_validate_postgres_database_url :: "url_fns \<Rightarrow> str \<Rightarrow> bool \<Rightarrow> unit checked" where
  "conv_validate_postgres_database_url u url allow_private =
     (case conv_postgres_url_after_scheme url of
        None \<Rightarrow> Inl (conv_err (''postgres database_url must start with '' @ quoted ''postgres://'' @
                          '' or '' @ quoted ''postgresql://''))
      | Some after_scheme \<Rightarrow>
          and_then (case conv_postgres_authority_host u after_scheme of
                      None \<Rightarrow> Inr False
                    | Some host \<Rightarrow>
                        and_then (conv_validate_postgres_host_value u ''host'' host allow_private) (\<lambda>_. Inr True)) (\<lambda>has_target.
          and_then (fold_result (conv_check_host_param u allow_private) (conv_postgres_query_params u url) has_target) (\<lambda>has_target.
            if \<not> has_target then Inl (conv_err ''postgres database_url must include an explicit host'') else Inr ())))"

definition conv_revalidate_postgres_host :: "url_fns \<Rightarrow> conversations_config \<Rightarrow> unit checked" where
  "conv_revalidate_postgres_host u cfg =
     (let url = cc_database_url cfg; allow = cc_allow_private_database_url cfg
      in case conv_postgres_url_after_scheme url of
           None \<Rightarrow> Inr ()
         | Some after_scheme \<Rightarrow>
             and_then (case conv_postgres_authority_host u after_scheme of
                         None \<Rightarrow> Inr () | Some host \<Rightarrow> conv_validate_postgres_host_value u ''host'' host allow) (\<lambda>_.
             and_then (fold_result (conv_check_host_param u allow) (conv_postgres_query_params u url) False) (\<lambda>_. Inr ())))"

section \<open>Transport security\<close>

definition conv_validate_postgres_url_tls_file_params :: "url_fns \<Rightarrow> str \<Rightarrow> unit checked" where
  "conv_validate_postgres_url_tls_file_params u url =
     fold_result (\<lambda>(key, v) _.
       if conv_is_postgres_tls_file_param key \<and> has_dot_dot_traversal u v then
         Inl (conv_err (''database_url parameter '' @ quoted key @ '' must not contain '' @
                   quoted ''..'' @ '' path traversal''))
       else Inr ()) (conv_postgres_query_params u url) ()"

definition conv_postgres_url_sslmode :: "url_fns \<Rightarrow> str \<Rightarrow> str option" where
  "conv_postgres_url_sslmode u url =
     (let vs = map snd (filter (\<lambda>(key, _). conv_is_postgres_sslmode_param key) (conv_postgres_query_params u url))
      in if vs = [] then None else Some (last vs))"

definition conv_is_verified_postgres_sslmode :: "str \<Rightarrow> bool" where
  "conv_is_verified_postgres_sslmode v \<longleftrightarrow> eq_ignore_ascii_case v ''verify-ca'' \<or> eq_ignore_ascii_case v ''verify-full''"

definition conv_has_verified_postgres_ssl_mode :: "url_fns \<Rightarrow> conversations_config \<Rightarrow> str \<Rightarrow> bool" where
  "conv_has_verified_postgres_ssl_mode u cfg url =
     (case cc_ssl_mode cfg of
        Some mode \<Rightarrow> mode = VerifyCa \<or> mode = VerifyFull
      | None \<Rightarrow>
          (case conv_postgres_url_sslmode u url of None \<Rightarrow> False | Some v \<Rightarrow> conv_is_verified_postgres_sslmode v))"

definition conv_has_postgres_ssl_root_cert :: "url_fns \<Rightarrow> conversations_config \<Rightarrow> str \<Rightarrow> bool" where
  "conv_has_postgres_ssl_root_cert u cfg url \<longleftrightarrow>
     cc_ssl_root_cert cfg \<noteq> None \<or>
     list_ex (\<lambda>(key, _). conv_is_postgres_ssl_root_cert_param key) (conv_postgres_query_params u url)"

definition conv_validate_postgres_ssl_config :: "url_fns \<Rightarrow> conversations_config \<Rightarrow> str \<Rightarrow> unit checked" where
  "conv_validate_postgres_ssl_config u cfg url =
     and_then (conv_validate_postgres_url_tls_file_params u url) (\<lambda>_.
       if (case cc_ssl_root_cert cfg of None \<Rightarrow> False | Some cert \<Rightarrow> has_dot_dot_traversal u cert) then
         Inl (conv_err (''ssl_root_cert must not contain '' @ quoted ''..'' @ '' path traversal''))
       else if conv_has_postgres_ssl_root_cert u cfg url \<and> \<not> conv_has_verified_postgres_ssl_mode u cfg url then
         Inl (conv_err (quoted ''ssl_root_cert'' @ '' requires ssl_mode '' @ quoted ''verify-ca'' @ '' or '' @ quoted ''verify-full''))
       else Inr ())"

section \<open>SQLite\<close>

definition conv_is_memory_database_url :: "str \<Rightarrow> bool" where
  "conv_is_memory_database_url database_url =
     (let url = str_trim database_url
      in url = ''sqlite::memory:'' \<or> url = ''sqlite://:memory:'' \<or>
         list_ex (\<lambda>param. param = ''mode=memory'')
           (split_char (CHR ''&'') (case split_once ''?'' url of None \<Rightarrow> [] | Some (_, q) \<Rightarrow> q)))"

definition conv_sqlite_file_path :: "str \<Rightarrow> str option" where
  "conv_sqlite_file_path url =
     map_option (\<lambda>rest. case split_once ''?'' rest of None \<Rightarrow> rest | Some (path, _) \<Rightarrow> path)
       (case strip_prefix ''sqlite://'' url of Some r \<Rightarrow> Some r | None \<Rightarrow> strip_prefix ''sqlite:'' url)"

text \<open>Unlike the copy of the response store, this one decodes the path first.\<close>

definition conv_validate_sqlite_database_url :: "url_fns \<Rightarrow> str \<Rightarrow> unit checked" where
  "conv_validate_sqlite_database_url u url =
     (if conv_is_memory_database_url url then Inr ()
      else
        (case percent_decode_utf8 u (unwrap_or url (conv_sqlite_file_path url)) of
           Inl e \<Rightarrow> Inl (conv_err (''database_url path must be valid UTF-8: '' @ e))
         | Inr path \<Rightarrow>
             if has_dot_dot_traversal u path then
               Inl (conv_err (''database_url must not contain '' @ quoted ''..'' @ '' path traversal''))
             else Inr ()))"

abbreviation conv_only_postgres :: "str \<Rightarrow> str" where
  "conv_only_postgres field \<equiv> conv_err (quoted field @ '' is only valid with the '' @
     quoted ''postgres'' @ '' backend'')"

definition conv_reject_postgres_fields :: "conversations_config \<Rightarrow> unit checked" where
  "conv_reject_postgres_fields cfg =
     (if cc_ssl_mode cfg \<noteq> None then Inl (conv_only_postgres ''ssl_mode'')
      else if cc_ssl_root_cert cfg \<noteq> None then Inl (conv_only_postgres ''ssl_root_cert'')
      else if cc_allow_private_database_url cfg then Inl (conv_only_postgres ''allow_private_database_url'')
      else Inr ())"

section \<open>The check\<close>

definition validate_conversations_config :: "url_fns \<Rightarrow> conversations_config \<Rightarrow> unit checked" where
  "validate_conversations_config u cfg =
     (let url = cc_database_url cfg
      in if url = [] then Inl (conv_err (quoted ''database_url'' @ '' must not be empty''))
         else
           and_then (conv_table_check ''invalid conversations_table: '' (validate_identifier (cc_conversations_table cfg))) (\<lambda>_.
           and_then (conv_table_check ''invalid items_table: '' (validate_identifier (cc_items_table cfg))) (\<lambda>_.
             if eq_ignore_ascii_case (cc_conversations_table cfg) (cc_items_table cfg) then
               Inl (conv_err ''conversations and items table names must be distinct'')
             else
               (let responses_table = cc_responses_table cfg
                in and_then (conv_table_check ''invalid generated responses_table: '' (validate_identifier responses_table)) (\<lambda>_.
                   if eq_ignore_ascii_case responses_table (cc_items_table cfg) then
                     Inl (conv_err ''generated responses and items table names must be distinct'')
                   else
                     (case cc_backend cfg of
                        Sqlite \<Rightarrow>
                          and_then (conv_validate_sqlite_database_url u url) (\<lambda>_. conv_reject_postgres_fields cfg)
                      | Postgres \<Rightarrow>
                          and_then (conv_validate_postgres_database_url u url (cc_allow_private_database_url cfg)) (\<lambda>_.
                          and_then (conv_table_check ''invalid postgres table identifier: ''
                            (validate_postgres_table_set_identifiers responses_table (cc_conversations_table cfg)
                               (Some (cc_items_table cfg)))) (\<lambda>_.
                            conv_validate_postgres_ssl_config u cfg url))))))))"

section \<open>The copy agrees with the original\<close>

named_theorems config_copy \<open>a function of the copy is the one of the response store\<close>

lemma postgres_url_after_scheme_copy [config_copy]: "conv_postgres_url_after_scheme = postgres_url_after_scheme"
  unfolding fun_eq_iff conv_postgres_url_after_scheme_def postgres_url_after_scheme_def config_copy by simp

lemma postgres_authority_host_copy [config_copy]: "conv_postgres_authority_host = postgres_authority_host"
  unfolding fun_eq_iff conv_postgres_authority_host_def postgres_authority_host_def config_copy by simp

lemma postgres_query_params_copy [config_copy]: "conv_postgres_query_params = postgres_query_params"
  unfolding fun_eq_iff conv_postgres_query_params_def postgres_query_params_def config_copy by simp

lemma is_postgres_hostaddr_param_copy [config_copy]: "conv_is_postgres_hostaddr_param = is_postgres_hostaddr_param"
  unfolding fun_eq_iff conv_is_postgres_hostaddr_param_def is_postgres_hostaddr_param_def config_copy by simp

lemma is_postgres_host_param_copy [config_copy]: "conv_is_postgres_host_param = is_postgres_host_param"
  unfolding fun_eq_iff conv_is_postgres_host_param_def is_postgres_host_param_def config_copy by simp

lemma is_postgres_sslmode_param_copy [config_copy]: "conv_is_postgres_sslmode_param = is_postgres_sslmode_param"
  unfolding fun_eq_iff conv_is_postgres_sslmode_param_def is_postgres_sslmode_param_def config_copy by simp

lemma is_postgres_ssl_root_cert_param_copy [config_copy]: "conv_is_postgres_ssl_root_cert_param = is_postgres_ssl_root_cert_param"
  unfolding fun_eq_iff conv_is_postgres_ssl_root_cert_param_def is_postgres_ssl_root_cert_param_def config_copy by simp

lemma is_postgres_tls_file_param_copy [config_copy]: "conv_is_postgres_tls_file_param = is_postgres_tls_file_param"
  unfolding fun_eq_iff conv_is_postgres_tls_file_param_def is_postgres_tls_file_param_def config_copy by simp

lemma is_postgres_localhost_name_copy [config_copy]: "conv_is_postgres_localhost_name = is_postgres_localhost_name"
  unfolding fun_eq_iff conv_is_postgres_localhost_name_def is_postgres_localhost_name_def config_copy by simp

lemma is_postgres_ssrf_sensitive_ip_copy [config_copy]: "conv_is_postgres_ssrf_sensitive_ip = is_postgres_ssrf_sensitive_ip"
  unfolding fun_eq_iff conv_is_postgres_ssrf_sensitive_ip_def is_postgres_ssrf_sensitive_ip_def config_copy by simp

lemma parse_legacy_ipv4_number_copy [config_copy]: "conv_parse_legacy_ipv4_number = parse_legacy_ipv4_number"
  unfolding fun_eq_iff conv_parse_legacy_ipv4_number_def parse_legacy_ipv4_number_def config_copy by simp

lemma parse_legacy_ipv4_host_copy [config_copy]: "conv_parse_legacy_ipv4_host = parse_legacy_ipv4_host"
  unfolding fun_eq_iff conv_parse_legacy_ipv4_host_def parse_legacy_ipv4_host_def config_copy by simp

lemma postgres_url_sslmode_copy [config_copy]: "conv_postgres_url_sslmode = postgres_url_sslmode"
  unfolding fun_eq_iff conv_postgres_url_sslmode_def postgres_url_sslmode_def config_copy by simp

lemma is_verified_postgres_sslmode_copy [config_copy]: "conv_is_verified_postgres_sslmode = is_verified_postgres_sslmode"
  unfolding fun_eq_iff conv_is_verified_postgres_sslmode_def is_verified_postgres_sslmode_def config_copy by simp

lemma is_memory_database_url_copy [config_copy]: "conv_is_memory_database_url = is_memory_database_url"
  unfolding fun_eq_iff conv_is_memory_database_url_def is_memory_database_url_def config_copy by simp

lemma sqlite_file_path_copy [config_copy]: "conv_sqlite_file_path = sqlite_file_path"
  unfolding fun_eq_iff conv_sqlite_file_path_def sqlite_file_path_def config_copy by simp

text \<open>The configuration as one of the response store, and the message with the other name.\<close>

definition as_store_config :: "conversations_config \<Rightarrow> response_store_config" where
  "as_store_config cfg =
     \<lparr>sc_backend = cc_backend cfg, sc_database_url = cc_database_url cfg,
      sc_responses_table = cc_responses_table cfg, sc_conversations_table = cc_conversations_table cfg,
      sc_ssl_mode = cc_ssl_mode cfg, sc_ssl_root_cert = cc_ssl_root_cert cfg,
      sc_allow_private_database_url = cc_allow_private_database_url cfg\<rparr>"

definition reworded :: "'a checked \<Rightarrow> 'a checked" where
  "reworded r = map_sum (\<lambda>e. conv_err (drop (length (err [])) e)) id r"

lemma reworded_simps [simp]:
  "reworded (Inl e) = Inl (conv_err (drop (length (err [])) e))"
  "reworded (Inr x) = Inr x"
  by (simp_all add: reworded_def)

lemma reworded_Inr: "reworded r = Inr x \<longleftrightarrow> r = Inr x"
  by (cases r) (simp_all add: reworded_def)

lemma reworded_and_then: "reworded (and_then r f) = and_then (reworded r) (\<lambda>x. reworded (f x))"
  by (cases r) (simp_all add: reworded_def)

lemma reworded_fold_result:
  "reworded (fold_result f xs s) = fold_result (\<lambda>x s. reworded (f x s)) xs s"
  by (induction xs arbitrary: s) (simp_all add: reworded_and_then)

lemma validate_postgres_ip_target_copy [config_copy]:
  "conv_validate_postgres_ip_target u kind ip allow = reworded (validate_postgres_ip_target u kind ip allow)"
  by (simp add: conv_validate_postgres_ip_target_def validate_postgres_ip_target_def config_copy reworded_and_then)

lemma validate_postgres_dns_target_copy [config_copy]:
  "conv_validate_postgres_dns_target kind host allow = reworded (validate_postgres_dns_target kind host allow)"
  by (simp add: conv_validate_postgres_dns_target_def validate_postgres_dns_target_def config_copy reworded_and_then)

lemma validate_postgres_socket_path_copy [config_copy]:
  "conv_validate_postgres_socket_path u kind path allow = reworded (validate_postgres_socket_path u kind path allow)"
  by (simp add: conv_validate_postgres_socket_path_def validate_postgres_socket_path_def config_copy reworded_and_then)

lemma validate_postgres_host_value_copy [config_copy]:
  "conv_validate_postgres_host_value u kind host allow = reworded (validate_postgres_host_value u kind host allow)"
  by (simp add: conv_validate_postgres_host_value_def validate_postgres_host_value_def config_copy split: option.split)

lemma validate_postgres_hostaddr_copy [config_copy]:
  "conv_validate_postgres_hostaddr u v allow = reworded (validate_postgres_hostaddr u v allow)"
  by (simp add: conv_validate_postgres_hostaddr_def validate_postgres_hostaddr_def config_copy split: option.split)

lemma check_host_param_copy [config_copy]:
  "conv_check_host_param u allow kv b = reworded (check_host_param u allow kv b)"
  by (cases kv) (simp add: conv_check_host_param_def check_host_param_def config_copy reworded_and_then)

lemma check_host_params_copy [config_copy]:
  "fold_result (conv_check_host_param u allow) kvs b = reworded (fold_result (check_host_param u allow) kvs b)"
proof -
  have "conv_check_host_param u allow = (\<lambda>kv b. reworded (check_host_param u allow kv b))"
    by (intro ext) (rule check_host_param_copy)
  then show ?thesis by (simp only: reworded_fold_result)
qed

lemma validate_postgres_database_url_copy:
  "conv_validate_postgres_database_url u url allow = reworded (validate_postgres_database_url u url allow)"
  by (simp add: conv_validate_postgres_database_url_def validate_postgres_database_url_def config_copy
      reworded_and_then if_distrib [of reworded] cong: if_cong split: option.split)

lemma revalidate_postgres_host_copy:
  "conv_revalidate_postgres_host u cfg = reworded (revalidate_postgres_host u (as_store_config cfg))"
  by (simp add: conv_revalidate_postgres_host_def revalidate_postgres_host_def config_copy as_store_config_def Let_def
      reworded_and_then split: option.split)

lemma validate_postgres_url_tls_file_params_copy [config_copy]:
  "conv_validate_postgres_url_tls_file_params u url = reworded (validate_postgres_url_tls_file_params u url)"
  by (simp add: conv_validate_postgres_url_tls_file_params_def validate_postgres_url_tls_file_params_def config_copy
      reworded_fold_result case_prod_unfold if_distrib [of reworded] cong: if_cong)

lemma ssl_options_copy [config_copy]:
  "conv_has_postgres_ssl_root_cert u cfg url = has_postgres_ssl_root_cert u (as_store_config cfg) url"
  "conv_has_verified_postgres_ssl_mode u cfg url = has_verified_postgres_ssl_mode u (as_store_config cfg) url"
  unfolding conv_has_postgres_ssl_root_cert_def has_postgres_ssl_root_cert_def
    conv_has_verified_postgres_ssl_mode_def has_verified_postgres_ssl_mode_def config_copy
  by (simp_all add: as_store_config_def)

lemma validate_postgres_ssl_config_copy:
  "conv_validate_postgres_ssl_config u cfg url = reworded (validate_postgres_ssl_config u (as_store_config cfg) url)"
proof -
  have "sc_ssl_root_cert (as_store_config cfg) = cc_ssl_root_cert cfg" by (simp add: as_store_config_def)
  then show ?thesis
    by (simp add: conv_validate_postgres_ssl_config_def validate_postgres_ssl_config_def config_copy reworded_and_then
        if_distrib [of reworded] cong: if_cong)
qed

lemma reject_postgres_fields_copy:
  "conv_reject_postgres_fields cfg = reworded (reject_postgres_fields (as_store_config cfg))"
  by (simp add: conv_reject_postgres_fields_def reject_postgres_fields_def as_store_config_def)

section \<open>No local server\<close>

text \<open>
  So the rule for the servers of a response store holds here: an accepted strict configuration names
  servers by literal addresses that are not local.
\<close>

lemma strict_conversation_targets:
  assumes "validate_conversations_config u cfg = Inr ()" and "cc_backend cfg = Postgres"
    and "\<not> cc_allow_private_database_url cfg" and "unmaps_ipv4 u"
  shows "database_targets u (cc_database_url cfg) \<noteq> [] \<and>
    list_all public_target (database_targets u (cc_database_url cfg)) \<and>
    conv_revalidate_postgres_host u cfg = Inr ()"
proof -
  from assms have "validate_postgres_database_url u (cc_database_url cfg) False = Inr ()"
    by (auto simp: validate_conversations_config_def Let_def and_then_Inr_iff validate_postgres_database_url_copy
        reworded_Inr split: if_splits)
  from accepted_url_targets [OF assms(4) this] assms(3) show ?thesis
    by (simp add: revalidate_postgres_host_copy revalidate_by_url as_store_config_def)
qed

end
