(* ===== verification/Conversation_Filter.thy ===== *)
theory Conversation_Filter
  imports Conversation_Service Response_Store Conversation_Config
begin

text \<open>
  The hooks of the filter \<open>openai_conversations\<close> (\<open>apis/src/openai/conversations/filter.rs\<close>), which answer
  every request under \<open>/v1/conversations\<close> themselves. A POST is handled when both the request hook and the
  body have been seen, in either order.
\<close>

section \<open>The store of the filter\<close>

record conv_filter =
  cf_ext :: externals
  cf_url :: url_fns
  cf_connector :: connector
  cf_config :: conversations_config

definition conv_tables :: "conversations_config \<Rightarrow> table_names" where
  "conv_tables cfg =
     \<lparr>tn_responses = cc_responses_table cfg, tn_conversations = cc_conversations_table cfg,
      tn_items = Some (cc_items_table cfg)\<rparr>"

definition conv_build_store :: "conv_filter \<Rightarrow> store_error + nat" where
  "conv_build_store f =
     (let cfg = cf_config f
      in case cc_backend cfg of
           Sqlite \<Rightarrow> sqlite_new (cf_connector f) (cc_database_url cfg) (conv_tables cfg)
         | Postgres \<Rightarrow>
             (case conv_revalidate_postgres_host (cf_url f) cfg of
                Inl e \<Rightarrow> Inl (Unavailable (''postgres host validation failed before connect: '' @ e))
              | Inr _ \<Rightarrow>
                  postgres_new (cf_connector f) (cc_database_url cfg) (conv_tables cfg) (cc_ssl_mode cfg) (cc_ssl_root_cert cfg)))"

definition conv_get_or_init_store :: "conv_filter \<Rightarrow> store_cell \<Rightarrow> store_cell \<times> nat option" where
  "conv_get_or_init_store f cell =
     (case cell of
        Some store \<Rightarrow> (cell, store)
      | None \<Rightarrow>
          (case conv_build_store f of
             Inr h \<Rightarrow> (Some (Some h), Some h)
           | Inl _ \<Rightarrow> (case cc_backend (cf_config f) of Sqlite \<Rightarrow> (Some None, None) | Postgres \<Rightarrow> (None, None))))"

section \<open>The request\<close>

record conv_request_state =
  request_filters_ran_flag :: bool
  deferred_body :: "bytes option"

definition default_request_state :: conv_request_state where
  "default_request_state = \<lparr>request_filters_ran_flag = False, deferred_body = None\<rparr>"

record conv_run =
  cv_call :: conv_call
  cv_filter_id :: "nat option"
  cv_state :: "conv_request_state option"
  cv_request_body_mode :: body_mode
  cv_cell :: store_cell
  cv_dbs :: databases

definition ensure_conv_store :: "conv_filter \<Rightarrow> conv_run \<Rightarrow> conv_run \<times> nat option" where
  "ensure_conv_store f run =
     (case conv_get_or_init_store f (cv_cell run) of (cell, store) \<Rightarrow> (run\<lparr>cv_cell := cell\<rparr>, store))"

definition mark_request_filters_ran :: "conv_run \<Rightarrow> conv_run \<times> bytes option" where
  "mark_request_filters_ran run =
     (case cv_filter_id run of
        None \<Rightarrow> (run, None)
      | Some _ \<Rightarrow>
          (let state = unwrap_or default_request_state (cv_state run)
           in (run\<lparr>cv_state := Some (state\<lparr>request_filters_ran_flag := True, deferred_body := None\<rparr>)\<rparr>,
               deferred_body state)))"

definition request_filters_ran :: "conv_run \<Rightarrow> bool" where
  "request_filters_ran run \<longleftrightarrow>
     cv_filter_id run = None \<or> (case cv_state run of None \<Rightarrow> False | Some state \<Rightarrow> request_filters_ran_flag state)"

definition defer_body_until_request_filters :: "bytes option \<Rightarrow> conv_run \<Rightarrow> conv_run \<times> filter_action" where
  "defer_body_until_request_filters body run =
     (let state = unwrap_or default_request_state (cv_state run)
      in (run\<lparr>cv_state := Some (state\<lparr>deferred_body := Some (unwrap_or [] body)\<rparr>)\<rparr>, Release))"

datatype post_variant = Create_conversation_route | Update_conversation_route str | Create_items_route str

fun post_route :: "str list \<Rightarrow> post_variant option" where
  "post_route [a, b, c] = (if a = [] \<and> b = ''v1'' \<and> c = ''conversations'' then Some Create_conversation_route else None)"
| "post_route [a, b, c, i] =
     (if a = [] \<and> b = ''v1'' \<and> c = ''conversations'' \<and> i \<noteq> [] then Some (Update_conversation_route i) else None)"
| "post_route [a, b, c, i, d] =
     (if a = [] \<and> b = ''v1'' \<and> c = ''conversations'' \<and> d = ''items'' \<and> i \<noteq> [] then Some (Create_items_route i) else None)"
| "post_route _ = None"

text \<open>The arms for GET and DELETE.\<close>

fun local_route :: "str \<Rightarrow> str list \<Rightarrow> conv_request option" where
  "local_route verb [a, b, c, i] =
     (if a = [] \<and> b = ''v1'' \<and> c = ''conversations'' \<and> i \<noteq> [] then
        (if verb = ''GET'' then Some (Get_conversation i)
         else if verb = ''DELETE'' then Some (Delete_conversation i) else None)
      else None)"
| "local_route verb [a, b, c, i, d] =
     (if a = [] \<and> b = ''v1'' \<and> c = ''conversations'' \<and> d = ''items'' \<and> i \<noteq> [] \<and> verb = ''GET'' then Some (List_items i)
      else None)"
| "local_route verb [a, b, c, i, d, j] =
     (if a = [] \<and> b = ''v1'' \<and> c = ''conversations'' \<and> d = ''items'' \<and> i \<noteq> [] \<and> j \<noteq> [] then
        (if verb = ''GET'' then Some (Get_item i j)
         else if verb = ''DELETE'' then Some (Delete_item i j) else None)
      else None)"
| "local_route _ _ = None"

definition post_request :: "post_variant \<Rightarrow> bytes \<Rightarrow> conv_request" where
  "post_request route body =
     (case route of
        Create_conversation_route \<Rightarrow> Create_conversation body
      | Update_conversation_route i \<Rightarrow> Update_conversation i body
      | Create_items_route i \<Rightarrow> Create_items i body)"

definition conv_segments :: "conv_run \<Rightarrow> str list" where
  "conv_segments run =
     (let path = req_path (call_ctx (cv_call run))
      in split_char (CHR ''/'') (case strip_suffix ''/'' path of None \<Rightarrow> path | Some q \<Rightarrow> if q \<noteq> [] then q else path))"

definition reject_store_unavailable :: "externals \<Rightarrow> filter_action" where
  "reject_store_unavailable ext =
     Reject \<lparr>rej_status = 500, rej_headers = [(''content-type'', ''application/json'')],
             rej_body = text_or_default ext (conv_error_json ''Internal server error.'' ''server_error'')\<rparr>"

definition dispatch :: "conv_filter \<Rightarrow> conv_request \<Rightarrow> nat \<Rightarrow> conv_run \<Rightarrow> (conv_run \<times> answer) option" where
  "dispatch f req store run =
     map_option (\<lambda>(db, ans). (run\<lparr>cv_dbs := (cv_dbs run)(store := db)\<rparr>, ans))
       (serve (cf_ext f) (cf_url f) (cv_call run) req (cv_dbs run store))"

definition handle_post_route :: "conv_filter \<Rightarrow> post_variant \<Rightarrow> bytes \<Rightarrow> conv_run \<Rightarrow> (conv_run \<times> answer) option" where
  "handle_post_route f route body run =
     (case ensure_conv_store f run of
        (run1, None) \<Rightarrow> Some (run1, Inr (reject_store_unavailable (cf_ext f)))
      | (run1, Some store) \<Rightarrow> dispatch f (post_request route body) store run1)"

section \<open>The hooks\<close>

definition MAX_JSON_BODY_MODE :: "nat \<Rightarrow> body_mode" where
  "MAX_JSON_BODY_MODE max_json_body_bytes = StreamBuffer (Some max_json_body_bytes)"

definition conv_on_request :: "conv_filter \<Rightarrow> nat \<Rightarrow> conv_run \<Rightarrow> (conv_run \<times> answer) option" where
  "conv_on_request f max_json_body_bytes run =
     (let verb = req_method (call_ctx (cv_call run)); segments = conv_segments run
      in if verb = ''POST'' then
           (case post_route segments of
              None \<Rightarrow> Some (run, Inr Continue)
            | Some route \<Rightarrow>
                (case mark_request_filters_ran (run\<lparr>cv_request_body_mode := MAX_JSON_BODY_MODE max_json_body_bytes\<rparr>) of
                   (run1, None) \<Rightarrow> Some (run1, Inr Continue)
                 | (run1, Some body) \<Rightarrow> handle_post_route f route body run1))
         else
           (case local_route verb segments of
              None \<Rightarrow> Some (run, Inr Continue)
            | Some req \<Rightarrow>
                (case ensure_conv_store f run of
                   (run1, None) \<Rightarrow> Some (run1, Inl ''openai_conversations: store unavailable'')
                 | (run1, Some store) \<Rightarrow> dispatch f req store run1)))"

definition conv_on_request_body ::
  "conv_filter \<Rightarrow> bytes option \<Rightarrow> bool \<Rightarrow> conv_run \<Rightarrow> (conv_run \<times> answer) option" where
  "conv_on_request_body f body end_of_stream run =
     (if \<not> end_of_stream \<or> req_method (call_ctx (cv_call run)) \<noteq> ''POST'' then Some (run, Inr Continue)
      else
        (case post_route (conv_segments run) of
           None \<Rightarrow> Some (run, Inr Continue)
         | Some route \<Rightarrow>
             if \<not> request_filters_ran run then
               (case defer_body_until_request_filters body run of (run1, action) \<Rightarrow> Some (run1, Inr action))
             else handle_post_route f route (unwrap_or [] body) run))"

section \<open>Each POST once\<close>

lemma dispatch_view:
  "map_option (\<lambda>(r, a). (cv_dbs r, a)) (dispatch f req store run) =
     map_option (\<lambda>(db, a). ((cv_dbs run)(store := db), a)) (serve (cf_ext f) (cf_url f) (cv_call run) req (cv_dbs run store))"
  by (auto simp: dispatch_def option.map_comp comp_def split: prod.splits intro!: option.map_cong)

lemma handle_post_route_ready:
  "cv_cell run = Some (Some h) \<Longrightarrow> handle_post_route f route body run = dispatch f (post_request route body) h run"
  by (cases run) (simp add: handle_post_route_def ensure_conv_store_def conv_get_or_init_store_def)

text \<open>
  C18. A POST is handled once, whichever hook runs first: when the request hook runs first it lets
  the request pass and the last piece of the body is handled; when another filter has the body
  read first, the body hook keeps the body and the request hook handles it. The first of the two
  changes no store, and both orders give the answer and the store of the endpoint served once.
\<close>

theorem post_handled_once:
  assumes "req_method (call_ctx (cv_call run)) = ''POST''" and "post_route (conv_segments run) = Some route"
    and "cv_filter_id run = Some n" and "cv_state run = None" and "cv_cell run = Some (Some h)"
    and "served_once = map_option (\<lambda>(db, a). ((cv_dbs run)(h := db), a))
      (serve (cf_ext f) (cf_url f) (cv_call run) (post_request route body) (cv_dbs run h))"
  shows "conv_on_request_body f (Some part) False run = Some (run, Inr Continue) \<and>
    (\<exists>run1. conv_on_request f m run = Some (run1, Inr Continue) \<and> cv_dbs run1 = cv_dbs run \<and>
       map_option (\<lambda>(r, a). (cv_dbs r, a)) (conv_on_request_body f (Some body) True run1) = served_once) \<and>
    (\<exists>run2. conv_on_request_body f (Some body) True run = Some (run2, Inr Release) \<and> cv_dbs run2 = cv_dbs run \<and>
       map_option (\<lambda>(r, a). (cv_dbs r, a)) (conv_on_request f m run2) = served_once)"
proof (intro conjI)
  let ?run1 = "run\<lparr>cv_request_body_mode := MAX_JSON_BODY_MODE m,
    cv_state := Some \<lparr>request_filters_ran_flag = True, deferred_body = None\<rparr>\<rparr>"
  let ?run2 = "run\<lparr>cv_state := Some \<lparr>request_filters_ran_flag = False, deferred_body = Some body\<rparr>\<rparr>"
  have same: "conv_segments ?run1 = conv_segments run" "conv_segments ?run2 = conv_segments run"
    by (simp_all add: conv_segments_def)
  show "conv_on_request_body f (Some part) False run = Some (run, Inr Continue)"
    by (simp add: conv_on_request_body_def)
  have "conv_on_request f m run = Some (?run1, Inr Continue)"
    using assms by (simp add: conv_on_request_def mark_request_filters_ran_def default_request_state_def)
  moreover have "conv_on_request_body f (Some body) True ?run1 = dispatch f (post_request route body) h ?run1"
    using assms same by (simp add: conv_on_request_body_def request_filters_ran_def handle_post_route_ready)
  ultimately show "\<exists>run1. conv_on_request f m run = Some (run1, Inr Continue) \<and> cv_dbs run1 = cv_dbs run \<and>
      map_option (\<lambda>(r, a). (cv_dbs r, a)) (conv_on_request_body f (Some body) True run1) = served_once"
    using assms(6) by (intro exI [of _ ?run1]) (simp add: dispatch_view)
  have "conv_on_request_body f (Some body) True run = Some (?run2, Inr Release)"
    using assms by (simp add: conv_on_request_body_def request_filters_ran_def defer_body_until_request_filters_def
        default_request_state_def)
  moreover have "conv_on_request f m ?run2 = dispatch f (post_request route body) h ?run1"
    using assms same by (simp add: conv_on_request_def mark_request_filters_ran_def handle_post_route_ready)
  ultimately show "\<exists>run2. conv_on_request_body f (Some body) True run = Some (run2, Inr Release) \<and> cv_dbs run2 = cv_dbs run \<and>
      map_option (\<lambda>(r, a). (cv_dbs r, a)) (conv_on_request f m run2) = served_once"
    using assms(6) by (intro exI [of _ ?run2]) (simp add: dispatch_view)
qed

definition conv_demo_filter :: conv_filter where
  "conv_demo_filter =
     \<lparr>cf_ext = conv_ext, cf_url = plain_urls,
      cf_connector = \<lparr>open_sqlite = (\<lambda>_ _. Inr 0), open_postgres = (\<lambda>_ _ _ _. Inl [])\<rparr>,
      cf_config = \<lparr>cc_backend = Sqlite, cc_database_url = ''sqlite::memory:'', cc_conversations_table = ''c'',
        cc_items_table = ''i'', cc_ssl_mode = None, cc_ssl_root_cert = None, cc_allow_private_database_url = False\<rparr>\<rparr>"

definition conv_demo_run :: conv_run where
  "conv_demo_run =
     \<lparr>cv_call = conv_call1\<lparr>call_ctx := empty_ctx\<lparr>req_path := ''/v1/conversations''\<rparr>\<rparr>, cv_filter_id = Some 0, cv_state = None,
      cv_request_body_mode = Stream, cv_cell = Some (Some 0), cv_dbs = (\<lambda>_. conv_db0)\<rparr>"

lemma post_handled_once_witness:
  "\<exists>run1 run2. conv_on_request conv_demo_filter 100 conv_demo_run = Some (run1, Inr Continue) \<and>
     conv_on_request_body conv_demo_filter (Some ''0'') True conv_demo_run = Some (run2, Inr Release) \<and>
     map_option snd (conv_on_request conv_demo_filter 100 run2) =
       map_option snd (conv_on_request_body conv_demo_filter (Some ''0'') True run1)"
proof -
  have "req_method (call_ctx (cv_call conv_demo_run)) = ''POST''"
    "post_route (conv_segments conv_demo_run) = Some Create_conversation_route"
    "cv_filter_id conv_demo_run = Some 0" "cv_state conv_demo_run = None" "cv_cell conv_demo_run = Some (Some 0)"
    by code_simp+
  from post_handled_once [OF this refl, where f = conv_demo_filter and body = "''0''" and part = "[]" and m = 100] obtain run1 run2 where
    1: "conv_on_request conv_demo_filter 100 conv_demo_run = Some (run1, Inr Continue)"
    and 2: "conv_on_request_body conv_demo_filter (Some ''0'') True conv_demo_run = Some (run2, Inr Release)"
    and 3: "map_option (\<lambda>(r, a). (cv_dbs r, a)) (conv_on_request_body conv_demo_filter (Some ''0'') True run1) =
      map_option (\<lambda>(r, a). (cv_dbs r, a)) (conv_on_request conv_demo_filter 100 run2)"
    by auto
  from arg_cong [OF 3, of "map_option snd"] have
    "map_option snd (conv_on_request conv_demo_filter 100 run2) =
     map_option snd (conv_on_request_body conv_demo_filter (Some ''0'') True run1)"
    by (simp add: option.map_comp comp_def case_prod_unfold)
  with 1 2 show ?thesis by blast
qed

section \<open>The two copies of the configuration check\<close>

text \<open>
  An encoded path traversal in the path of a SQLite URL: this filter refuses it, the response
  store, whose copy of the check does not decode the path, accepts it.
\<close>

definition decoding_urls :: url_fns where
  "decoding_urls = plain_urls
     \<lparr>percent_decode_utf8 := (\<lambda>s. Inr (replace_all ''%2e'' ''.'' s)), has_dot_dot_traversal := (\<lambda>s. starts_with s ''..'')\<rparr>"

lemma encoded_traversal:
  "validate_sqlite_database_url decoding_urls ''sqlite:%2e%2e/x.db'' = Inr () \<and>
   conv_validate_sqlite_database_url decoding_urls ''sqlite:%2e%2e/x.db'' \<noteq> Inr ()"
  by code_simp

end
