(* ===== verification/Store_Sql.thy ===== *)
theory Store_Sql
  imports Store_Items
begin

text \<open>
  The two backends statement by statement, \<open>apis/src/store/sqlite.rs\<close> and \<open>postgres.rs\<close>: the text
  each operation sends, the values it binds in their order, and how it reads the rows that come
  back. The driver is the parameter \<open>sql_engine\<close>.
\<close>

section \<open>Sending a statement\<close>

type_synonym 'a stored = "store_error + sql_db \<times> 'a"

definition query :: "sql_engine \<Rightarrow> str \<Rightarrow> sql_value list \<Rightarrow> sql_db \<Rightarrow> sql_reply stored" where
  "query e sql binds db = (case run_sql e sql binds db of Inl msg \<Rightarrow> Inl (Database msg) | Inr r \<Rightarrow> Inr r)"

definition rows_affected :: "sql_reply \<Rightarrow> nat" where
  "rows_affected reply = (case reply of Affected n \<Rightarrow> n | Found _ \<Rightarrow> 0)"

definition found_rows :: "sql_reply \<Rightarrow> sql_row list" where
  "found_rows reply = (case reply of Affected _ \<Rightarrow> [] | Found rows \<Rightarrow> rows)"

text \<open>\<open>execute\<close> for its effect, and for the number of rows; \<open>fetch_optional\<close> and \<open>fetch_all\<close> with a reader.\<close>

definition executed :: "sql_reply stored \<Rightarrow> unit stored" where
  "executed r = and_then r (\<lambda>(db, reply). Inr (db, ()))"

definition any_affected :: "sql_reply stored \<Rightarrow> bool stored" where
  "any_affected r = and_then r (\<lambda>(db, reply). Inr (db, rows_affected reply > 0))"

definition fetch_optional :: "(sql_row \<Rightarrow> store_error + 'a) \<Rightarrow> sql_reply stored \<Rightarrow> 'a option stored" where
  "fetch_optional read r =
     and_then r (\<lambda>(db, reply).
     and_then (transpose_opt (map_option read (first_of (found_rows reply)))) (\<lambda>x. Inr (db, x)))"

definition fetch_all :: "(sql_row \<Rightarrow> store_error + 'a) \<Rightarrow> sql_reply stored \<Rightarrow> 'a list stored" where
  "fetch_all read r =
     and_then r (\<lambda>(db, reply). and_then (map_result read (found_rows reply)) (\<lambda>xs. Inr (db, xs)))"

definition fetch_one :: "sql_engine \<Rightarrow> (sql_row \<Rightarrow> store_error + 'a) \<Rightarrow> sql_reply stored \<Rightarrow> 'a stored" where
  "fetch_one e read r =
     and_then r (\<lambda>(db, reply).
       case found_rows reply of
         [] \<Rightarrow> Inl (Database (no_row_error e))
       | row # _ \<Rightarrow> and_then (read row) (\<lambda>x. Inr (db, x)))"

definition begin_transaction :: "sql_engine \<Rightarrow> sql_db \<Rightarrow> store_error + sql_db" where
  "begin_transaction e db = (case begin_tx e db of Inl msg \<Rightarrow> Inl (Database msg) | Inr tx \<Rightarrow> Inr tx)"

definition commit_transaction :: "sql_engine \<Rightarrow> sql_db \<Rightarrow> store_error + sql_db" where
  "commit_transaction e tx = (case commit_tx e tx of Inl msg \<Rightarrow> Inl (Database msg) | Inr db \<Rightarrow> Inr db)"

definition items_table :: "table_names \<Rightarrow> (str \<Rightarrow> 'a stored) \<Rightarrow> 'a stored" where
  "items_table tables f =
     (case tn_items tables of
        None \<Rightarrow> Inl (Unavailable ''items table not configured'')
      | Some table \<Rightarrow> f table)"

section \<open>Reading rows\<close>

definition text_column :: "sql_engine \<Rightarrow> sql_row \<Rightarrow> str \<Rightarrow> store_error + str" where
  "text_column e row c = (case row c of Some (Text_value s) \<Rightarrow> Inr s | _ \<Rightarrow> Inl (Database (column_error e c)))"

definition number_column :: "sql_engine \<Rightarrow> sql_row \<Rightarrow> str \<Rightarrow> store_error + int" where
  "number_column e row c = (case row c of Some (Int_value i) \<Rightarrow> Inr i | _ \<Rightarrow> Inl (Database (column_error e c)))"

section \<open>SQLite\<close>

definition sqlite_read_response :: "sql_engine \<Rightarrow> externals \<Rightarrow> sql_row \<Rightarrow> store_error + response_record" where
  "sqlite_read_response e ext row =
     and_then (text_column e row ''response_object'') (\<lambda>response_object_json.
     and_then (text_column e row ''input'') (\<lambda>input_json.
     and_then (text_column e row ''messages'') (\<lambda>messages_json.
     and_then (text_column e row ''id'') (\<lambda>i.
     and_then (text_column e row ''tenant_id'') (\<lambda>tenant_id.
     and_then (number_column e row ''created_at'') (\<lambda>created_at.
     and_then (text_column e row ''model'') (\<lambda>model.
     and_then (from_column ext response_object_json) (\<lambda>response_object.
     and_then (from_column ext input_json) (\<lambda>input.
     and_then (from_column ext messages_json) (\<lambda>messages.
       Inr \<lparr>rr_id = i, rr_tenant_id = tenant_id, rr_created_at = created_at, rr_model = model,
            rr_response_object = response_object, rr_input = input, rr_messages = messages\<rparr>))))))))))"

definition sqlite_read_item :: "sql_engine \<Rightarrow> externals \<Rightarrow> sql_row \<Rightarrow> store_error + item_record" where
  "sqlite_read_item e ext row =
     and_then (text_column e row ''item_data'') (\<lambda>item_data_json.
     and_then (text_column e row ''item_id'') (\<lambda>item_id.
     and_then (text_column e row ''tenant_id'') (\<lambda>tenant_id.
     and_then (text_column e row ''conversation_id'') (\<lambda>conversation_id.
     and_then (from_column ext item_data_json) (\<lambda>item_data.
     and_then (number_column e row ''created_at'') (\<lambda>created_at.
     and_then (number_column e row ''position'') (\<lambda>pos.
       Inr \<lparr>ir_item_id = item_id, ir_tenant_id = tenant_id, ir_conversation_id = conversation_id,
            ir_item_data = item_data, ir_created_at = created_at, ir_position = pos\<rparr>)))))))"

definition sqlite_read_conversation :: "sql_engine \<Rightarrow> externals \<Rightarrow> sql_row \<Rightarrow> store_error + conversation_record" where
  "sqlite_read_conversation e ext row =
     and_then (text_column e row ''messages'') (\<lambda>messages_json.
     and_then (text_column e row ''metadata'') (\<lambda>metadata_json.
     and_then (text_column e row ''conversation_id'') (\<lambda>conversation_id.
     and_then (text_column e row ''tenant_id'') (\<lambda>tenant_id.
     and_then (number_column e row ''created_at'') (\<lambda>created_at.
     and_then (from_column ext metadata_json) (\<lambda>metadata.
     and_then (from_column ext messages_json) (\<lambda>messages.
       Inr \<lparr>cr_conversation_id = conversation_id, cr_tenant_id = tenant_id, cr_created_at = created_at,
            cr_metadata = metadata, cr_messages = messages\<rparr>)))))))"

definition sqlite_upsert_response_sql ::
  "sql_engine \<Rightarrow> externals \<Rightarrow> table_names \<Rightarrow> response_record \<Rightarrow> sql_db \<Rightarrow> unit stored" where
  "sqlite_upsert_response_sql e ext tables record db =
     and_then (to_column ext (rr_response_object record)) (\<lambda>response_object.
     and_then (to_column ext (rr_input record)) (\<lambda>input.
     and_then (to_column ext (rr_messages record)) (\<lambda>messages.
       (let sql = ''INSERT OR REPLACE INTO '' @ tn_responses tables @
                '' (id, tenant_id, created_at, model, response_object, input, messages) '' @
                ''VALUES (?, ?, ?, ?, ?, ?, ?)''
        in executed (query e sql
             [Text_value (rr_id record), Text_value (rr_tenant_id record), Int_value (rr_created_at record),
              Text_value (rr_model record), Text_value response_object, Text_value input, Text_value messages] db)))))"

definition sqlite_get_response_sql ::
  "sql_engine \<Rightarrow> externals \<Rightarrow> table_names \<Rightarrow> str \<Rightarrow> str \<Rightarrow> sql_db \<Rightarrow> response_record option stored" where
  "sqlite_get_response_sql e ext tables tenant_id i db =
     (let sql = ''SELECT id, tenant_id, created_at, model, response_object, input, messages FROM '' @
                tn_responses tables @ '' WHERE id = ? AND tenant_id = ?''
      in fetch_optional (sqlite_read_response e ext) (query e sql [Text_value i, Text_value tenant_id] db))"

definition sqlite_delete_response_sql ::
  "sql_engine \<Rightarrow> table_names \<Rightarrow> str \<Rightarrow> str \<Rightarrow> sql_db \<Rightarrow> bool stored" where
  "sqlite_delete_response_sql e tables tenant_id i db =
     (let sql = ''DELETE FROM '' @ tn_responses tables @ '' WHERE id = ? AND tenant_id = ?''
      in any_affected (query e sql [Text_value i, Text_value tenant_id] db))"

definition sqlite_upsert_conversation_sql ::
  "sql_engine \<Rightarrow> externals \<Rightarrow> table_names \<Rightarrow> conversation_record \<Rightarrow> sql_db \<Rightarrow> unit stored" where
  "sqlite_upsert_conversation_sql e ext tables record db =
     and_then (to_column ext (cr_messages record)) (\<lambda>messages.
     and_then (to_column ext (cr_metadata record)) (\<lambda>metadata.
       (let sql = ''INSERT INTO '' @ tn_conversations tables @
                '' (conversation_id, tenant_id, created_at, metadata, messages) '' @
                ''VALUES (?, ?, ?, ?, ?) ON CONFLICT(conversation_id, tenant_id) DO UPDATE SET '' @
                ''messages = excluded.messages, metadata = excluded.metadata''
        in executed (query e sql
             [Text_value (cr_conversation_id record), Text_value (cr_tenant_id record), Int_value (cr_created_at record),
              Text_value metadata, Text_value messages] db))))"

definition sqlite_get_conversation_sql ::
  "sql_engine \<Rightarrow> externals \<Rightarrow> table_names \<Rightarrow> str \<Rightarrow> str \<Rightarrow> sql_db \<Rightarrow> conversation_record option stored" where
  "sqlite_get_conversation_sql e ext tables tenant_id conversation_id db =
     (let sql = ''SELECT conversation_id, tenant_id, created_at, metadata, messages FROM '' @
                tn_conversations tables @ '' WHERE conversation_id = ? AND tenant_id = ?''
      in fetch_optional (sqlite_read_conversation e ext)
           (query e sql [Text_value conversation_id, Text_value tenant_id] db))"

definition sqlite_update_messages_sql ::
  "sql_engine \<Rightarrow> externals \<Rightarrow> table_names \<Rightarrow> str \<Rightarrow> str \<Rightarrow> json \<Rightarrow> sql_db \<Rightarrow> bool stored" where
  "sqlite_update_messages_sql e ext tables tenant_id conversation_id messages db =
     and_then (to_column ext messages) (\<lambda>text.
       (let sql = ''UPDATE '' @ tn_conversations tables @
                '' SET messages = ? WHERE conversation_id = ? AND tenant_id = ?''
        in any_affected (query e sql [Text_value text, Text_value conversation_id, Text_value tenant_id] db)))"

definition sqlite_delete_conversation_sql ::
  "sql_engine \<Rightarrow> table_names \<Rightarrow> str \<Rightarrow> str \<Rightarrow> sql_db \<Rightarrow> bool stored" where
  "sqlite_delete_conversation_sql e tables tenant_id conversation_id db =
     (let sql = ''DELETE FROM '' @ tn_conversations tables @ '' WHERE conversation_id = ? AND tenant_id = ?''
      in any_affected (query e sql [Text_value conversation_id, Text_value tenant_id] db))"

fun sqlite_insert_each ::
  "sql_engine \<Rightarrow> externals \<Rightarrow> str \<Rightarrow> item_record list \<Rightarrow> sql_db \<Rightarrow> store_error + sql_db" where
  "sqlite_insert_each e ext sql [] tx = Inr tx"
| "sqlite_insert_each e ext sql (item # items) tx =
     and_then (to_column ext (ir_item_data item)) (\<lambda>item_data.
     and_then (query e sql
         [Text_value (ir_item_id item), Text_value (ir_tenant_id item), Text_value (ir_conversation_id item),
          Text_value item_data, Int_value (ir_created_at item), Int_value (ir_position item)] tx) (\<lambda>(tx', _).
       sqlite_insert_each e ext sql items tx'))"

definition sqlite_create_items_sql ::
  "sql_engine \<Rightarrow> externals \<Rightarrow> table_names \<Rightarrow> item_record list \<Rightarrow> sql_db \<Rightarrow> unit stored" where
  "sqlite_create_items_sql e ext tables items db =
     items_table tables (\<lambda>table.
       and_then (begin_transaction e db) (\<lambda>tx.
       (let sql = ''INSERT INTO '' @ table @ '' (item_id, tenant_id, conversation_id, item_data, created_at, position) '' @
                ''VALUES (?, ?, ?, ?, ?, ?)''
        in and_then (sqlite_insert_each e ext sql items tx) (\<lambda>tx'.
           and_then (commit_transaction e tx') (\<lambda>db'. Inr (db', ()))))))"

definition sqlite_item_position_sql ::
  "sql_engine \<Rightarrow> table_names \<Rightarrow> str \<Rightarrow> str \<Rightarrow> str \<Rightarrow> sql_db \<Rightarrow> int option stored" where
  "sqlite_item_position_sql e tables tenant_id conversation_id item_id db =
     items_table tables (\<lambda>table.
       (let sql = ''SELECT position FROM '' @ table @
                '' WHERE item_id = ? AND tenant_id = ? AND conversation_id = ?''
        in fetch_optional (\<lambda>row. number_column e row ''position'')
             (query e sql [Text_value item_id, Text_value tenant_id, Text_value conversation_id] db)))"

definition sqlite_list_items_sql ::
  "sql_engine \<Rightarrow> externals \<Rightarrow> table_names \<Rightarrow> str \<Rightarrow> str \<Rightarrow> str option \<Rightarrow> nat \<Rightarrow> bool \<Rightarrow> sql_db \<Rightarrow>
    item_record list stored" where
  "sqlite_list_items_sql e ext tables tenant_id conversation_id after_item_id limit ascending db =
     items_table tables (\<lambda>table.
       (let direction = (if ascending then ''ASC'' else ''DESC'');
            cursor_operator = (if ascending then ''>'' else ''<'')
        in fetch_all (sqlite_read_item e ext)
             (case after_item_id of
                Some item_id \<Rightarrow>
                  and_then (sqlite_item_position_sql e tables tenant_id conversation_id item_id db) (\<lambda>(db', found).
                    case found of
                      None \<Rightarrow> Inr (db', Found [])
                    | Some pos \<Rightarrow>
                        (let sql = ''SELECT item_id, tenant_id, conversation_id, item_data, created_at, position FROM '' @
                                 table @ '' WHERE tenant_id = ? AND conversation_id = ? AND (position '' @
                                 cursor_operator @ '' ? OR (position = ? AND item_id '' @ cursor_operator @
                                 '' ?)) ORDER BY position '' @ direction @ '', item_id '' @ direction @ '' LIMIT ?''
                         in query e sql
                              [Text_value tenant_id, Text_value conversation_id, Int_value pos, Int_value pos,
                               Text_value item_id, Int_value (int limit)] db'))
              | None \<Rightarrow>
                  (let sql = ''SELECT item_id, tenant_id, conversation_id, item_data, created_at, position FROM '' @
                           table @ '' WHERE tenant_id = ? AND conversation_id = ? ORDER BY position '' @
                           direction @ '', item_id '' @ direction @ '' LIMIT ?''
                   in query e sql [Text_value tenant_id, Text_value conversation_id, Int_value (int limit)] db))))"

definition sqlite_existing_ids_sql ::
  "sql_engine \<Rightarrow> table_names \<Rightarrow> str \<Rightarrow> str \<Rightarrow> str list \<Rightarrow> sql_db \<Rightarrow> str list stored" where
  "sqlite_existing_ids_sql e tables tenant_id conversation_id item_ids db =
     items_table tables (\<lambda>table.
       if item_ids = [] then Inr (db, [])
       else
          (let placeholders = str_join '', '' (replicate (length item_ids) ''?'');
               sql = ''SELECT item_id FROM '' @ table @
                   '' WHERE tenant_id = ? AND conversation_id = ? AND item_id IN ('' @ placeholders @ '')''
           in fetch_all (\<lambda>row. text_column e row ''item_id'')
                (query e sql ([Text_value tenant_id, Text_value conversation_id] @ map Text_value item_ids) db)))"

definition sqlite_get_item_sql ::
  "sql_engine \<Rightarrow> externals \<Rightarrow> table_names \<Rightarrow> str \<Rightarrow> str \<Rightarrow> str \<Rightarrow> sql_db \<Rightarrow> item_record option stored" where
  "sqlite_get_item_sql e ext tables tenant_id conversation_id item_id db =
     items_table tables (\<lambda>table.
       (let sql = ''SELECT item_id, tenant_id, conversation_id, item_data, created_at, position FROM '' @ table @
                '' WHERE item_id = ? AND tenant_id = ? AND conversation_id = ?''
        in fetch_optional (sqlite_read_item e ext)
             (query e sql [Text_value item_id, Text_value tenant_id, Text_value conversation_id] db)))"

definition sqlite_delete_item_sql ::
  "sql_engine \<Rightarrow> table_names \<Rightarrow> str \<Rightarrow> str \<Rightarrow> str \<Rightarrow> sql_db \<Rightarrow> bool stored" where
  "sqlite_delete_item_sql e tables tenant_id conversation_id item_id db =
     items_table tables (\<lambda>table.
       (let sql = ''DELETE FROM '' @ table @ '' WHERE item_id = ? AND tenant_id = ? AND conversation_id = ?''
        in any_affected (query e sql [Text_value item_id, Text_value tenant_id, Text_value conversation_id] db)))"

definition sqlite_max_position_sql ::
  "sql_engine \<Rightarrow> table_names \<Rightarrow> str \<Rightarrow> str \<Rightarrow> sql_db \<Rightarrow> int stored" where
  "sqlite_max_position_sql e tables tenant_id conversation_id db =
     items_table tables (\<lambda>table.
       (let sql = ''SELECT COALESCE(MAX(position), 0) AS max_pos FROM '' @ table @
                '' WHERE tenant_id = ? AND conversation_id = ?''
        in fetch_one e (\<lambda>row. number_column e row ''max_pos'')
             (query e sql [Text_value tenant_id, Text_value conversation_id] db)))"

section \<open>PostgreSQL\<close>

definition postgres_read_response :: "sql_engine \<Rightarrow> externals \<Rightarrow> sql_row \<Rightarrow> store_error + response_record" where
  "postgres_read_response e ext row =
     and_then (text_column e row ''response_object'') (\<lambda>response_object_json.
     and_then (text_column e row ''input'') (\<lambda>input_json.
     and_then (text_column e row ''messages'') (\<lambda>messages_json.
     and_then (text_column e row ''id'') (\<lambda>i.
     and_then (text_column e row ''tenant_id'') (\<lambda>tenant_id.
     and_then (number_column e row ''created_at'') (\<lambda>created_at.
     and_then (text_column e row ''model'') (\<lambda>model.
     and_then (from_column ext response_object_json) (\<lambda>response_object.
     and_then (from_column ext input_json) (\<lambda>input.
     and_then (from_column ext messages_json) (\<lambda>messages.
       Inr \<lparr>rr_id = i, rr_tenant_id = tenant_id, rr_created_at = created_at, rr_model = model,
            rr_response_object = response_object, rr_input = input, rr_messages = messages\<rparr>))))))))))"

definition postgres_read_item :: "sql_engine \<Rightarrow> externals \<Rightarrow> sql_row \<Rightarrow> store_error + item_record" where
  "postgres_read_item e ext row =
     and_then (text_column e row ''item_data'') (\<lambda>item_data_json.
     and_then (text_column e row ''item_id'') (\<lambda>item_id.
     and_then (text_column e row ''tenant_id'') (\<lambda>tenant_id.
     and_then (text_column e row ''conversation_id'') (\<lambda>conversation_id.
     and_then (from_column ext item_data_json) (\<lambda>item_data.
     and_then (number_column e row ''created_at'') (\<lambda>created_at.
     and_then (number_column e row ''position'') (\<lambda>pos.
       Inr \<lparr>ir_item_id = item_id, ir_tenant_id = tenant_id, ir_conversation_id = conversation_id,
            ir_item_data = item_data, ir_created_at = created_at, ir_position = pos\<rparr>)))))))"

definition postgres_read_conversation :: "sql_engine \<Rightarrow> externals \<Rightarrow> sql_row \<Rightarrow> store_error + conversation_record" where
  "postgres_read_conversation e ext row =
     and_then (text_column e row ''messages'') (\<lambda>messages_json.
     and_then (text_column e row ''metadata'') (\<lambda>metadata_json.
     and_then (text_column e row ''conversation_id'') (\<lambda>conversation_id.
     and_then (text_column e row ''tenant_id'') (\<lambda>tenant_id.
     and_then (number_column e row ''created_at'') (\<lambda>created_at.
     and_then (from_column ext metadata_json) (\<lambda>metadata.
     and_then (from_column ext messages_json) (\<lambda>messages.
       Inr \<lparr>cr_conversation_id = conversation_id, cr_tenant_id = tenant_id, cr_created_at = created_at,
            cr_metadata = metadata, cr_messages = messages\<rparr>)))))))"

definition postgres_upsert_response_sql ::
  "sql_engine \<Rightarrow> externals \<Rightarrow> table_names \<Rightarrow> response_record \<Rightarrow> sql_db \<Rightarrow> unit stored" where
  "postgres_upsert_response_sql e ext tables record db =
     and_then (to_column ext (rr_response_object record)) (\<lambda>response_object.
     and_then (to_column ext (rr_input record)) (\<lambda>input.
     and_then (to_column ext (rr_messages record)) (\<lambda>messages.
       (let sql = ''INSERT INTO '' @ tn_responses tables @
                '' (id, tenant_id, created_at, model, response_object, input, messages) '' @
                ''VALUES ($1, $2, $3, $4, $5, $6, $7) ON CONFLICT (tenant_id, id) DO UPDATE SET '' @
                ''created_at = EXCLUDED.created_at, model = EXCLUDED.model, '' @
                ''response_object = EXCLUDED.response_object, input = EXCLUDED.input, messages = EXCLUDED.messages''
        in executed (query e sql
             [Text_value (rr_id record), Text_value (rr_tenant_id record), Int_value (rr_created_at record),
              Text_value (rr_model record), Text_value response_object, Text_value input, Text_value messages] db)))))"

definition postgres_get_response_sql ::
  "sql_engine \<Rightarrow> externals \<Rightarrow> table_names \<Rightarrow> str \<Rightarrow> str \<Rightarrow> sql_db \<Rightarrow> response_record option stored" where
  "postgres_get_response_sql e ext tables tenant_id i db =
     (let sql = ''SELECT id, tenant_id, created_at, model, response_object, input, messages FROM '' @
                tn_responses tables @ '' WHERE id = $1 AND tenant_id = $2''
      in fetch_optional (postgres_read_response e ext) (query e sql [Text_value i, Text_value tenant_id] db))"

definition postgres_delete_response_sql ::
  "sql_engine \<Rightarrow> table_names \<Rightarrow> str \<Rightarrow> str \<Rightarrow> sql_db \<Rightarrow> bool stored" where
  "postgres_delete_response_sql e tables tenant_id i db =
     (let sql = ''DELETE FROM '' @ tn_responses tables @ '' WHERE id = $1 AND tenant_id = $2''
      in any_affected (query e sql [Text_value i, Text_value tenant_id] db))"

definition postgres_upsert_conversation_sql ::
  "sql_engine \<Rightarrow> externals \<Rightarrow> table_names \<Rightarrow> conversation_record \<Rightarrow> sql_db \<Rightarrow> unit stored" where
  "postgres_upsert_conversation_sql e ext tables record db =
     and_then (to_column ext (cr_messages record)) (\<lambda>messages.
     and_then (to_column ext (cr_metadata record)) (\<lambda>metadata.
       (let sql = ''INSERT INTO '' @ tn_conversations tables @
                '' (conversation_id, tenant_id, created_at, metadata, messages) '' @
                ''VALUES ($1, $2, $3, $4, $5) ON CONFLICT (conversation_id, tenant_id) DO UPDATE SET '' @
                ''messages = EXCLUDED.messages, metadata = EXCLUDED.metadata''
        in executed (query e sql
             [Text_value (cr_conversation_id record), Text_value (cr_tenant_id record), Int_value (cr_created_at record),
              Text_value metadata, Text_value messages] db))))"

definition postgres_get_conversation_sql ::
  "sql_engine \<Rightarrow> externals \<Rightarrow> table_names \<Rightarrow> str \<Rightarrow> str \<Rightarrow> sql_db \<Rightarrow> conversation_record option stored" where
  "postgres_get_conversation_sql e ext tables tenant_id conversation_id db =
     (let sql = ''SELECT conversation_id, tenant_id, created_at, metadata, messages FROM '' @
                tn_conversations tables @ '' WHERE conversation_id = $1 AND tenant_id = $2''
      in fetch_optional (postgres_read_conversation e ext)
           (query e sql [Text_value conversation_id, Text_value tenant_id] db))"

definition postgres_update_messages_sql ::
  "sql_engine \<Rightarrow> externals \<Rightarrow> table_names \<Rightarrow> str \<Rightarrow> str \<Rightarrow> json \<Rightarrow> sql_db \<Rightarrow> bool stored" where
  "postgres_update_messages_sql e ext tables tenant_id conversation_id messages db =
     and_then (to_column ext messages) (\<lambda>text.
       (let sql = ''UPDATE '' @ tn_conversations tables @
                '' SET messages = $1 WHERE conversation_id = $2 AND tenant_id = $3''
        in any_affected (query e sql [Text_value text, Text_value conversation_id, Text_value tenant_id] db)))"

definition postgres_delete_conversation_sql ::
  "sql_engine \<Rightarrow> table_names \<Rightarrow> str \<Rightarrow> str \<Rightarrow> sql_db \<Rightarrow> bool stored" where
  "postgres_delete_conversation_sql e tables tenant_id conversation_id db =
     (let sql = ''DELETE FROM '' @ tn_conversations tables @ '' WHERE conversation_id = $1 AND tenant_id = $2''
      in any_affected (query e sql [Text_value conversation_id, Text_value tenant_id] db))"

fun postgres_insert_each ::
  "sql_engine \<Rightarrow> externals \<Rightarrow> str \<Rightarrow> item_record list \<Rightarrow> sql_db \<Rightarrow> store_error + sql_db" where
  "postgres_insert_each e ext sql [] tx = Inr tx"
| "postgres_insert_each e ext sql (item # items) tx =
     and_then (to_column ext (ir_item_data item)) (\<lambda>item_data.
     and_then (query e sql
         [Text_value (ir_item_id item), Text_value (ir_tenant_id item), Text_value (ir_conversation_id item),
          Text_value item_data, Int_value (ir_created_at item), Int_value (ir_position item)] tx) (\<lambda>(tx', _).
       postgres_insert_each e ext sql items tx'))"

definition postgres_create_items_sql ::
  "sql_engine \<Rightarrow> externals \<Rightarrow> table_names \<Rightarrow> item_record list \<Rightarrow> sql_db \<Rightarrow> unit stored" where
  "postgres_create_items_sql e ext tables items db =
     items_table tables (\<lambda>table.
       and_then (begin_transaction e db) (\<lambda>tx.
       (let sql = ''INSERT INTO '' @ table @ '' (item_id, tenant_id, conversation_id, item_data, created_at, position) '' @
                ''VALUES ($1, $2, $3, $4, $5, $6)''
        in and_then (postgres_insert_each e ext sql items tx) (\<lambda>tx'.
           and_then (commit_transaction e tx') (\<lambda>db'. Inr (db', ()))))))"

definition postgres_item_position_sql ::
  "sql_engine \<Rightarrow> table_names \<Rightarrow> str \<Rightarrow> str \<Rightarrow> str \<Rightarrow> sql_db \<Rightarrow> int option stored" where
  "postgres_item_position_sql e tables tenant_id conversation_id item_id db =
     items_table tables (\<lambda>table.
       (let sql = ''SELECT position FROM '' @ table @
                '' WHERE item_id = $1 AND tenant_id = $2 AND conversation_id = $3''
        in fetch_optional (\<lambda>row. number_column e row ''position'')
             (query e sql [Text_value item_id, Text_value tenant_id, Text_value conversation_id] db)))"

definition postgres_list_items_sql ::
  "sql_engine \<Rightarrow> externals \<Rightarrow> table_names \<Rightarrow> str \<Rightarrow> str \<Rightarrow> str option \<Rightarrow> nat \<Rightarrow> bool \<Rightarrow> sql_db \<Rightarrow>
    item_record list stored" where
  "postgres_list_items_sql e ext tables tenant_id conversation_id after_item_id limit ascending db =
     items_table tables (\<lambda>table.
       (let direction = (if ascending then ''ASC'' else ''DESC'');
            cursor_operator = (if ascending then ''>'' else ''<'')
        in fetch_all (postgres_read_item e ext)
             (case after_item_id of
                Some item_id \<Rightarrow>
                  and_then (postgres_item_position_sql e tables tenant_id conversation_id item_id db) (\<lambda>(db', found).
                    case found of
                      None \<Rightarrow> Inr (db', Found [])
                    | Some pos \<Rightarrow>
                        (let sql = ''SELECT item_id, tenant_id, conversation_id, item_data, created_at, position FROM '' @
                                 table @ '' WHERE tenant_id = $1 AND conversation_id = $2 AND (position '' @
                                 cursor_operator @ '' $3 OR (position = $4 AND item_id '' @ cursor_operator @
                                 '' $5)) ORDER BY position '' @ direction @ '', item_id '' @ direction @ '' LIMIT $6''
                         in query e sql
                              [Text_value tenant_id, Text_value conversation_id, Int_value pos, Int_value pos,
                               Text_value item_id, Int_value (int limit)] db'))
              | None \<Rightarrow>
                  (let sql = ''SELECT item_id, tenant_id, conversation_id, item_data, created_at, position FROM '' @
                           table @ '' WHERE tenant_id = $1 AND conversation_id = $2 ORDER BY position '' @
                           direction @ '', item_id '' @ direction @ '' LIMIT $3''
                   in query e sql [Text_value tenant_id, Text_value conversation_id, Int_value (int limit)] db))))"

definition postgres_existing_ids_sql ::
  "sql_engine \<Rightarrow> table_names \<Rightarrow> str \<Rightarrow> str \<Rightarrow> str list \<Rightarrow> sql_db \<Rightarrow> str list stored" where
  "postgres_existing_ids_sql e tables tenant_id conversation_id item_ids db =
     items_table tables (\<lambda>table.
       if item_ids = [] then Inr (db, [])
       else
          (let sql = ''SELECT item_id FROM '' @ table @
                   '' WHERE tenant_id = $1 AND conversation_id = $2 AND item_id = ANY($3)''
           in fetch_all (\<lambda>row. text_column e row ''item_id'')
                (query e sql [Text_value tenant_id, Text_value conversation_id, Texts_value item_ids] db)))"

definition postgres_get_item_sql ::
  "sql_engine \<Rightarrow> externals \<Rightarrow> table_names \<Rightarrow> str \<Rightarrow> str \<Rightarrow> str \<Rightarrow> sql_db \<Rightarrow> item_record option stored" where
  "postgres_get_item_sql e ext tables tenant_id conversation_id item_id db =
     items_table tables (\<lambda>table.
       (let sql = ''SELECT item_id, tenant_id, conversation_id, item_data, created_at, position FROM '' @ table @
                '' WHERE item_id = $1 AND tenant_id = $2 AND conversation_id = $3''
        in fetch_optional (postgres_read_item e ext)
             (query e sql [Text_value item_id, Text_value tenant_id, Text_value conversation_id] db)))"

definition postgres_delete_item_sql ::
  "sql_engine \<Rightarrow> table_names \<Rightarrow> str \<Rightarrow> str \<Rightarrow> str \<Rightarrow> sql_db \<Rightarrow> bool stored" where
  "postgres_delete_item_sql e tables tenant_id conversation_id item_id db =
     items_table tables (\<lambda>table.
       (let sql = ''DELETE FROM '' @ table @ '' WHERE item_id = $1 AND tenant_id = $2 AND conversation_id = $3''
        in any_affected (query e sql [Text_value item_id, Text_value tenant_id, Text_value conversation_id] db)))"

definition postgres_max_position_sql ::
  "sql_engine \<Rightarrow> table_names \<Rightarrow> str \<Rightarrow> str \<Rightarrow> sql_db \<Rightarrow> int stored" where
  "postgres_max_position_sql e tables tenant_id conversation_id db =
     items_table tables (\<lambda>table.
       (let sql = ''SELECT COALESCE(MAX(position), 0) AS max_pos FROM '' @ table @
                '' WHERE tenant_id = $1 AND conversation_id = $2''
        in fetch_one e (\<lambda>row. number_column e row ''max_pos'')
             (query e sql [Text_value tenant_id, Text_value conversation_id] db)))"

end
