(* ===== verification/Store_Statements.thy ===== *)
theory Store_Statements
  imports Store_Sql
begin

text \<open>
  The statements the backends send do what the store's operations are modelled to do: the text of
  each is that of a statement whose parameters come in the order of the values bound to it, and
  running it on the tables gives the new tables and the answer of the operation. A column read
  under another name, or two values bound in another order, would break it.
\<close>

section \<open>Tables of rows\<close>

definition response_sql :: "response_row \<Rightarrow> sql_row" where
  "response_sql r =
     [''id'' \<mapsto> Text_value (row_id r), ''tenant_id'' \<mapsto> Text_value (row_tenant_id r),
      ''created_at'' \<mapsto> Int_value (row_created_at r), ''model'' \<mapsto> Text_value (row_model r),
      ''response_object'' \<mapsto> Text_value (row_response_object r), ''input'' \<mapsto> Text_value (row_input r),
      ''messages'' \<mapsto> Text_value (row_messages r)]"

definition conversation_sql :: "conversation_row \<Rightarrow> sql_row" where
  "conversation_sql r =
     [''conversation_id'' \<mapsto> Text_value (crow_conversation_id r), ''tenant_id'' \<mapsto> Text_value (crow_tenant_id r),
      ''created_at'' \<mapsto> Int_value (crow_created_at r), ''metadata'' \<mapsto> Text_value (crow_metadata r),
      ''messages'' \<mapsto> Text_value (crow_messages r)]"

definition item_sql :: "item_row \<Rightarrow> sql_row" where
  "item_sql r =
     [''item_id'' \<mapsto> Text_value (irow_item_id r), ''tenant_id'' \<mapsto> Text_value (irow_tenant_id r),
      ''conversation_id'' \<mapsto> Text_value (irow_conversation_id r), ''item_data'' \<mapsto> Text_value (irow_item_data r),
      ''created_at'' \<mapsto> Int_value (irow_created_at r), ''position'' \<mapsto> Int_value (irow_position r)]"

text \<open>The keys are those the tables are created with.\<close>

definition sql_of :: "store_db \<Rightarrow> sql_db" where
  "sql_of db =
     \<lparr>sq_fault = db_fault db, sq_collation = db_collation db,
      sq_tables =
        [(tn_responses (db_tables db), [''tenant_id'', ''id''], map response_sql (db_responses db)),
         (tn_conversations (db_tables db), [''conversation_id'', ''tenant_id''],
          map conversation_sql (db_conversations db))] @
        (case tn_items (db_tables db) of
           None \<Rightarrow> []
         | Some t \<Rightarrow> [(t, [''item_id'', ''tenant_id'', ''conversation_id''], map item_sql (db_items db))])\<rparr>"

definition tables_distinct :: "table_names \<Rightarrow> bool" where
  "tables_distinct tables \<longleftrightarrow>
     tn_responses tables \<noteq> tn_conversations tables \<and>
     tn_items tables \<noteq> Some (tn_responses tables) \<and> tn_items tables \<noteq> Some (tn_conversations tables)"

lemma created_tables_distinct:
  assumes "generate_ddl tables = Inr ddl"
  shows "tables_distinct tables"
proof -
  have same: "eq_ignore_ascii_case a a" for a by (simp add: eq_ignore_ascii_case_def)
  from assms have "validate_table_names tables = Inr (tn_responses tables, tn_conversations tables)"
    and items: "tn_items tables = Some i \<Longrightarrow>
      validate_items_table i (tn_responses tables) (tn_conversations tables) = Inr i" for i
    by (auto simp: generate_ddl_def and_then_Inr_iff validate_table_names_def validate_items_table_def Let_def
        split: if_splits option.splits)
  then have "\<not> eq_ignore_ascii_case (tn_responses tables) (tn_conversations tables)"
    by (simp add: validate_table_names_def and_then_Inr_iff Let_def split: if_splits)
  moreover have "\<not> eq_ignore_ascii_case i (tn_responses tables) \<and> \<not> eq_ignore_ascii_case i (tn_conversations tables)"
    if "tn_items tables = Some i" for i
    using items [OF that] by (simp add: validate_items_table_def and_then_Inr_iff split: if_splits)
  ultimately show ?thesis unfolding tables_distinct_def by (metis same)
qed

text \<open>What \<open>on_table\<close> does, for each of the three tables; \<open>from_rows\<close> leads the new rows back.\<close>

definition on_rows :: "store_db \<Rightarrow> ('r list \<Rightarrow> store_db) \<Rightarrow> (str + 'r list \<times> sql_reply) \<Rightarrow> store_error + sql_db \<times> sql_reply" where
  "on_rows db put r =
     (case db_fault db of
        Some e \<Rightarrow> Inl (Database e)
      | None \<Rightarrow> (case r of Inl e \<Rightarrow> Inl (Database e) | Inr (rows, reply) \<Rightarrow> Inr (sql_of (put rows), reply)))"

definition run_stmt :: "sql_stmt \<Rightarrow> sql_value list \<Rightarrow> sql_db \<Rightarrow> store_error + sql_db \<times> sql_reply" where
  "run_stmt s binds db = (case exec_stmt s binds db of Inl e \<Rightarrow> Inl (Database e) | Inr r \<Rightarrow> Inr r)"

lemma query_runs: "run_sql e sql = exec_stmt s \<Longrightarrow> query e sql binds db = run_stmt s binds db"
  by (simp add: query_def run_stmt_def)

lemma on_responses:
  assumes "tables_distinct (db_tables db)" and "f [''tenant_id'', ''id''] (map response_sql (db_responses db)) =
      map_sum id (\<lambda>(rows, reply). (map response_sql rows, reply)) r"
  shows "(case on_table (sql_of db) (tn_responses (db_tables db)) f of Inl e \<Rightarrow> Inl (Database e) | Inr r \<Rightarrow> Inr r) =
    on_rows db (\<lambda>rows. db\<lparr>db_responses := rows\<rparr>) r"
  using assms
  by (cases "db_fault db"; cases r)
     (auto simp: on_table_def on_rows_def sql_of_def set_rows_def tables_distinct_def split: option.splits)

lemma on_conversations:
  assumes "tables_distinct (db_tables db)"
    and "f [''conversation_id'', ''tenant_id''] (map conversation_sql (db_conversations db)) =
      map_sum id (\<lambda>(rows, reply). (map conversation_sql rows, reply)) r"
  shows "(case on_table (sql_of db) (tn_conversations (db_tables db)) f of Inl e \<Rightarrow> Inl (Database e) | Inr r \<Rightarrow> Inr r) =
    on_rows db (\<lambda>rows. db\<lparr>db_conversations := rows\<rparr>) r"
  using assms
  by (cases "db_fault db"; cases r)
     (auto simp: on_table_def on_rows_def sql_of_def set_rows_def tables_distinct_def split: option.splits)

lemma on_items:
  assumes "tables_distinct (db_tables db)" and "tn_items (db_tables db) = Some t"
    and "f [''item_id'', ''tenant_id'', ''conversation_id''] (map item_sql (db_items db)) =
      map_sum id (\<lambda>(rows, reply). (map item_sql rows, reply)) r"
  shows "(case on_table (sql_of db) t f of Inl e \<Rightarrow> Inl (Database e) | Inr r \<Rightarrow> Inr r) =
    on_rows db (\<lambda>rows. db\<lparr>db_items := rows\<rparr>) r"
  using assms
  by (cases "db_fault db"; cases r)
     (auto simp: on_table_def on_rows_def sql_of_def set_rows_def tables_distinct_def split: option.splits)

section \<open>Rows and keys\<close>

lemma param_simps [simp]:
  "param (v1 # vs) (Suc 0) = Some v1"
  "param (v1 # v2 # vs) (Suc (Suc 0)) = Some v2"
  "param (v1 # v2 # vs) 2 = Some v2"
  "param (v1 # v2 # v3 # vs) 3 = Some v3"
  "param (v1 # v2 # v3 # v4 # vs) 4 = Some v4"
  "param (v1 # v2 # v3 # v4 # v5 # vs) 5 = Some v5"
  "param (v1 # v2 # v3 # v4 # v5 # v6 # vs) 6 = Some v6"
  by (simp_all add: param_def get_at_def)

lemma row_with_map:
  assumes "\<And>r. key2 (f r) = k2 \<longleftrightarrow> key r = k"
  shows "row_with key2 k2 (map f rows) = map_option f (row_with key k rows)"
  by (induction rows) (simp_all add: assms)

lemma delete_rows_map:
  assumes "\<And>r. key2 (f r) = k2 \<longleftrightarrow> key r = k"
  shows "delete_rows key2 k2 (map f rows) = map f (delete_rows key k rows)"
  by (simp add: delete_rows_def filter_map comp_def assms)

lemma insert_row_map:
  assumes "\<And>r. key2 (f r) = key2 (f row) \<longleftrightarrow> key r = key row"
  shows "insert_row key2 (f row) (map f rows) = map_sum id (map f) (insert_row key row rows)"
  by (simp add: insert_row_def row_with_map [of key2 f _ key "key row", OF assms])

lemma replace_row_map:
  assumes "\<And>r. key2 (f r) = key2 (f row) \<longleftrightarrow> key r = key row"
  shows "replace_row key2 (f row) (map f rows) = map f (replace_row key row rows)"
  by (simp add: replace_row_def delete_rows_map [of key2 f _ key "key row", OF assms])

lemma merge_row_map:
  assumes "\<And>r. key2 (f r) = key2 (f row) \<longleftrightarrow> key r = key row"
    and "\<And>old. key old = key row \<Longrightarrow> merge2 (f old) (f row) = f (merge old row)"
  shows "merge_row key2 merge2 (f row) (map f rows) = map f (merge_row key merge row rows)"
  by (auto simp: merge_row_def update_rows_def assms row_with_map [of key2 f _ key "key row", OF assms(1)])

lemma key_of_rows [simp]:
  "key_of [''tenant_id'', ''id''] (response_sql r) = key_of [''tenant_id'', ''id''] (response_sql q) \<longleftrightarrow>
     response_key r = response_key q"
  "key_of [''conversation_id'', ''tenant_id''] (conversation_sql s) =
     key_of [''conversation_id'', ''tenant_id''] (conversation_sql u) \<longleftrightarrow> conversation_key s = conversation_key u"
  "key_of [''item_id'', ''tenant_id'', ''conversation_id''] (item_sql v) =
     key_of [''item_id'', ''tenant_id'', ''conversation_id''] (item_sql w) \<longleftrightarrow> item_key v = item_key w"
  by (auto simp: key_of_def response_sql_def response_key_def conversation_sql_def conversation_key_def
      item_sql_def item_key_def)

section \<open>The statements\<close>

definition response_columns :: "str list" where
  "response_columns = [''id'', ''tenant_id'', ''created_at'', ''model'', ''response_object'', ''input'', ''messages'']"

definition conversation_columns :: "str list" where
  "conversation_columns = [''conversation_id'', ''tenant_id'', ''created_at'', ''metadata'', ''messages'']"

definition item_columns :: "str list" where
  "item_columns = [''item_id'', ''tenant_id'', ''conversation_id'', ''item_data'', ''created_at'', ''position'']"

definition of_response :: sql_cond where "of_response = Both (Equals ''id'' 1) (Equals ''tenant_id'' 2)"

definition of_conversation :: "nat \<Rightarrow> sql_cond" where
  "of_conversation k = Both (Equals ''conversation_id'' k) (Equals ''tenant_id'' (k + 1))"

definition of_item :: sql_cond where
  "of_item = Both (Equals ''item_id'' 1) (Both (Equals ''tenant_id'' 2) (Equals ''conversation_id'' 3))"

definition of_scope :: sql_cond where "of_scope = Both (Equals ''tenant_id'' 1) (Equals ''conversation_id'' 2)"

definition after_cursor :: "bool \<Rightarrow> sql_cond" where
  "after_cursor up =
     Either (Beyond ''position'' up 3) (Both (Equals ''position'' 4) (Beyond ''item_id'' up 5))"

definition upsert_response_stmt :: "storage_backend \<Rightarrow> str \<Rightarrow> sql_stmt" where
  "upsert_response_stmt d t = Insert_into t response_columns
     (case d of
        Sqlite \<Rightarrow> Replace_row
      | Postgres \<Rightarrow> Update_columns [''tenant_id'', ''id'']
          [''created_at'', ''model'', ''response_object'', ''input'', ''messages''])"

definition upsert_conversation_stmt :: "str \<Rightarrow> sql_stmt" where
  "upsert_conversation_stmt t =
     Insert_into t conversation_columns (Update_columns [''conversation_id'', ''tenant_id''] [''messages'', ''metadata''])"

definition list_items_stmt :: "str \<Rightarrow> bool \<Rightarrow> bool \<Rightarrow> sql_stmt" where
  "list_items_stmt t cursor up =
     Select_from (Columns item_columns) t (if cursor then Both of_scope (after_cursor up) else of_scope)
       (Some ([''position'', ''item_id''], up)) (Some (if cursor then 6 else 3))"

definition existing_ids_stmt :: "storage_backend \<Rightarrow> str \<Rightarrow> nat \<Rightarrow> sql_stmt" where
  "existing_ids_stmt d t n =
     Select_from (Columns [''item_id'']) t
       (Both of_scope (case d of Sqlite \<Rightarrow> One_of ''item_id'' [3..<n + 3] | Postgres \<Rightarrow> Any_of ''item_id'' 3)) None None"

lemmas stmt_defs = response_columns_def conversation_columns_def item_columns_def of_response_def of_conversation_def
  of_item_def of_scope_def after_cursor_def upsert_response_stmt_def upsert_conversation_stmt_def list_items_stmt_def
  existing_ids_stmt_def

lemmas text_defs = comma_list_def where_text_def order_text_def limit_text_def

text \<open>The rows an operation is about.\<close>

lemma holds_rows [simp]:
  "holds coll [Text_value i, Text_value t] of_response (response_sql r) \<longleftrightarrow> response_key r = (t, i)"
  "holds coll [Text_value c, Text_value t] (of_conversation 1) (conversation_sql s) \<longleftrightarrow> conversation_key s = (t, c)"
  "holds coll [v, Text_value c, Text_value t] (of_conversation 2) (conversation_sql s) \<longleftrightarrow> conversation_key s = (t, c)"
  "holds coll [Text_value i, Text_value t, Text_value c] of_item (item_sql u) \<longleftrightarrow> item_key u = (t, c, i)"
  "holds coll (Text_value t # Text_value c # vs) of_scope (item_sql u) \<longleftrightarrow> in_scope t c u"
  by (auto simp: of_response_def of_conversation_def of_item_def of_scope_def response_sql_def response_key_def
      conversation_sql_def conversation_key_def item_sql_def item_key_def in_scope_def)

lemma filter_holds:
  "(\<And>r. holds coll binds c (f r) \<longleftrightarrow> P r) \<Longrightarrow> filter (holds coll binds c) (map f rows) = map f (filter P rows)"
  by (simp add: filter_map comp_def)

lemma placeholders [simp]:
  "placeholder Sqlite k = ''?''"
  "placeholder Postgres (Suc 0) = ''$1''"
  "placeholder Postgres (Suc (Suc 0)) = ''$2''"
  "placeholder Postgres (Suc (Suc (Suc 0))) = ''$3''"
  "placeholder Postgres (Suc (Suc (Suc (Suc 0)))) = ''$4''"
  "placeholder Postgres (Suc (Suc (Suc (Suc (Suc 0))))) = ''$5''"
  "placeholder Postgres (Suc (Suc (Suc (Suc (Suc (Suc 0)))))) = ''$6''"
  "placeholder Postgres (Suc (Suc (Suc (Suc (Suc (Suc (Suc 0))))))) = ''$7''"
  "placeholder Postgres 2 = ''$2''" "placeholder Postgres 3 = ''$3''" "placeholder Postgres 4 = ''$4''"
  "placeholder Postgres 5 = ''$5''" "placeholder Postgres 6 = ''$6''" "placeholder Postgres 7 = ''$7''"
  by (simp_all add: placeholder_def) code_simp+

lemma sqlite_placeholders [simp]: "map (placeholder Sqlite) ks = replicate (length ks) ''?''"
  by (induction ks) simp_all

lemma one_to_seven [simp]:
  "[Suc 0..<6] = [1, 2, 3, 4, 5]" "[Suc 0..<7] = [1, 2, 3, 4, 5, 6]" "[Suc 0..<8] = [1, 2, 3, 4, 5, 6, 7]"
  by (simp_all add: upt_rec)

lemma restrict_rows [simp]:
  "response_sql r |` set response_columns = response_sql r"
  "conversation_sql s |` set conversation_columns = conversation_sql s"
  "item_sql u |` set item_columns = item_sql u"
  by (auto simp: response_sql_def response_columns_def conversation_sql_def conversation_columns_def item_sql_def
      item_columns_def restrict_map_def fun_eq_iff)

lemma read_rows [simp]:
  "sqlite_read_response e ext (response_sql r) = row_to_response_record ext r"
  "postgres_read_response e ext (response_sql r) = row_to_response_record ext r"
  "sqlite_read_conversation e ext (conversation_sql s) = row_to_conversation_record ext s"
  "postgres_read_conversation e ext (conversation_sql s) = row_to_conversation_record ext s"
  by (simp_all add: sqlite_read_response_def postgres_read_response_def row_to_response_record_def
      sqlite_read_conversation_def postgres_read_conversation_def row_to_conversation_record_def
      text_column_def number_column_def response_sql_def conversation_sql_def)

lemma read_items [simp]:
  "sqlite_read_item e ext (item_sql u) = row_to_conversation_item_record ext u"
  "postgres_read_item e ext (item_sql u) = row_to_conversation_item_record ext u"
  by (simp_all add: sqlite_read_item_def postgres_read_item_def row_to_conversation_item_record_def
      text_column_def number_column_def item_sql_def)

lemma number_of_item: "number_column e (item_sql u |` {''position''}) ''position'' = Inr (irow_position u)"
  "text_column e (item_sql u |` {''item_id''}) ''item_id'' = Inr (irow_item_id u)"
  by (simp_all add: number_column_def text_column_def item_sql_def restrict_map_def)

text \<open>The texts.\<close>

lemma upsert_response_text:
  "''INSERT OR REPLACE INTO '' @ t @
     '' (id, tenant_id, created_at, model, response_object, input, messages) '' @
     ''VALUES (?, ?, ?, ?, ?, ?, ?)'' =
     stmt_text Sqlite (upsert_response_stmt Sqlite t)"
  "''INSERT INTO '' @ t @ '' (id, tenant_id, created_at, model, response_object, input, messages) '' @
     ''VALUES ($1, $2, $3, $4, $5, $6, $7) ON CONFLICT (tenant_id, id) DO UPDATE SET '' @
     ''created_at = EXCLUDED.created_at, model = EXCLUDED.model, '' @
     ''response_object = EXCLUDED.response_object, input = EXCLUDED.input, messages = EXCLUDED.messages'' =
     stmt_text Postgres (upsert_response_stmt Postgres t)"
  by (simp_all add: stmt_defs text_defs)

lemma get_response_text:
  "''SELECT id, tenant_id, created_at, model, response_object, input, messages FROM '' @ t @
     '' WHERE id = ? AND tenant_id = ?'' =
     stmt_text Sqlite (Select_from (Columns response_columns) t of_response None None)"
  "''SELECT id, tenant_id, created_at, model, response_object, input, messages FROM '' @ t @
     '' WHERE id = $1 AND tenant_id = $2'' =
     stmt_text Postgres (Select_from (Columns response_columns) t of_response None None)"
  by (simp_all add: stmt_defs text_defs)

lemma delete_response_text:
  "''DELETE FROM '' @ t @ '' WHERE id = ? AND tenant_id = ?'' =
     stmt_text Sqlite (Delete_from t of_response)"
  "''DELETE FROM '' @ t @ '' WHERE id = $1 AND tenant_id = $2'' =
     stmt_text Postgres (Delete_from t of_response)"
  by (simp_all add: stmt_defs text_defs)

lemma upsert_conversation_text:
  "''INSERT INTO '' @ t @ '' (conversation_id, tenant_id, created_at, metadata, messages) '' @
     ''VALUES (?, ?, ?, ?, ?) ON CONFLICT(conversation_id, tenant_id) DO UPDATE SET '' @
     ''messages = excluded.messages, metadata = excluded.metadata'' =
     stmt_text Sqlite (upsert_conversation_stmt t)"
  "''INSERT INTO '' @ t @ '' (conversation_id, tenant_id, created_at, metadata, messages) '' @
     ''VALUES ($1, $2, $3, $4, $5) ON CONFLICT (conversation_id, tenant_id) DO UPDATE SET '' @
     ''messages = EXCLUDED.messages, metadata = EXCLUDED.metadata'' =
     stmt_text Postgres (upsert_conversation_stmt t)"
  by (simp_all add: stmt_defs text_defs)

lemma get_conversation_text:
  "''SELECT conversation_id, tenant_id, created_at, metadata, messages FROM '' @ t @
     '' WHERE conversation_id = ? AND tenant_id = ?'' =
     stmt_text Sqlite (Select_from (Columns conversation_columns) t (of_conversation 1) None None)"
  "''SELECT conversation_id, tenant_id, created_at, metadata, messages FROM '' @ t @
     '' WHERE conversation_id = $1 AND tenant_id = $2'' =
     stmt_text Postgres (Select_from (Columns conversation_columns) t (of_conversation 1) None None)"
  by (simp_all add: stmt_defs text_defs)

lemma update_messages_text:
  "''UPDATE '' @ t @ '' SET messages = ? WHERE conversation_id = ? AND tenant_id = ?'' =
     stmt_text Sqlite (Update_set t ''messages'' 1 (of_conversation 2))"
  "''UPDATE '' @ t @ '' SET messages = $1 WHERE conversation_id = $2 AND tenant_id = $3'' =
     stmt_text Postgres (Update_set t ''messages'' 1 (of_conversation 2))"
  by (simp_all add: stmt_defs text_defs)

lemma delete_conversation_text:
  "''DELETE FROM '' @ t @ '' WHERE conversation_id = ? AND tenant_id = ?'' =
     stmt_text Sqlite (Delete_from t (of_conversation 1))"
  "''DELETE FROM '' @ t @ '' WHERE conversation_id = $1 AND tenant_id = $2'' =
     stmt_text Postgres (Delete_from t (of_conversation 1))"
  by (simp_all add: stmt_defs text_defs)

lemma create_items_text:
  "''INSERT INTO '' @ t @ '' (item_id, tenant_id, conversation_id, item_data, created_at, position) '' @
     ''VALUES (?, ?, ?, ?, ?, ?)'' =
     stmt_text Sqlite (Insert_into t item_columns Abort_insert)"
  "''INSERT INTO '' @ t @ '' (item_id, tenant_id, conversation_id, item_data, created_at, position) '' @
     ''VALUES ($1, $2, $3, $4, $5, $6)'' =
     stmt_text Postgres (Insert_into t item_columns Abort_insert)"
  by (simp_all add: stmt_defs text_defs)

lemma item_position_text:
  "''SELECT position FROM '' @ t @ '' WHERE item_id = ? AND tenant_id = ? AND conversation_id = ?'' =
     stmt_text Sqlite (Select_from (Columns [''position'']) t of_item None None)"
  "''SELECT position FROM '' @ t @ '' WHERE item_id = $1 AND tenant_id = $2 AND conversation_id = $3'' =
     stmt_text Postgres (Select_from (Columns [''position'']) t of_item None None)"
  by (simp_all add: stmt_defs text_defs)

lemma list_items_text:
  "''SELECT item_id, tenant_id, conversation_id, item_data, created_at, position FROM '' @ t @
     '' WHERE tenant_id = ? AND conversation_id = ? AND (position '' @ (if up then ''>'' else ''<'') @
     '' ? OR (position = ? AND item_id '' @ (if up then ''>'' else ''<'') @ '' ?)) ORDER BY position '' @
     (if up then ''ASC'' else ''DESC'') @ '', item_id '' @ (if up then ''ASC'' else ''DESC'') @ '' LIMIT ?'' =
     stmt_text Sqlite (list_items_stmt t True up)"
  "''SELECT item_id, tenant_id, conversation_id, item_data, created_at, position FROM '' @ t @
     '' WHERE tenant_id = ? AND conversation_id = ? ORDER BY position '' @
     (if up then ''ASC'' else ''DESC'') @ '', item_id '' @ (if up then ''ASC'' else ''DESC'') @ '' LIMIT ?'' =
     stmt_text Sqlite (list_items_stmt t False up)"
  "''SELECT item_id, tenant_id, conversation_id, item_data, created_at, position FROM '' @ t @
     '' WHERE tenant_id = $1 AND conversation_id = $2 AND (position '' @ (if up then ''>'' else ''<'') @
     '' $3 OR (position = $4 AND item_id '' @ (if up then ''>'' else ''<'') @ '' $5)) ORDER BY position '' @
     (if up then ''ASC'' else ''DESC'') @ '', item_id '' @ (if up then ''ASC'' else ''DESC'') @
     '' LIMIT $6'' =
     stmt_text Postgres (list_items_stmt t True up)"
  "''SELECT item_id, tenant_id, conversation_id, item_data, created_at, position FROM '' @ t @
     '' WHERE tenant_id = $1 AND conversation_id = $2 ORDER BY position '' @
     (if up then ''ASC'' else ''DESC'') @ '', item_id '' @ (if up then ''ASC'' else ''DESC'') @
     '' LIMIT $3'' =
     stmt_text Postgres (list_items_stmt t False up)"
  by (cases up; simp add: stmt_defs text_defs)+

lemma existing_ids_text:
  "''SELECT item_id FROM '' @ t @ '' WHERE tenant_id = ? AND conversation_id = ? AND item_id IN ('' @
     str_join '', '' (replicate (length item_ids) ''?'') @ '')'' =
     stmt_text Sqlite (existing_ids_stmt Sqlite t (length item_ids))"
  "''SELECT item_id FROM '' @ t @ '' WHERE tenant_id = $1 AND conversation_id = $2 AND item_id = ANY($3)'' =
     stmt_text Postgres (existing_ids_stmt Postgres t n)"
  by (simp_all add: stmt_defs text_defs map_replicate_const)

lemma get_item_text:
  "''SELECT item_id, tenant_id, conversation_id, item_data, created_at, position FROM '' @ t @
     '' WHERE item_id = ? AND tenant_id = ? AND conversation_id = ?'' =
     stmt_text Sqlite (Select_from (Columns item_columns) t of_item None None)"
  "''SELECT item_id, tenant_id, conversation_id, item_data, created_at, position FROM '' @ t @
     '' WHERE item_id = $1 AND tenant_id = $2 AND conversation_id = $3'' =
     stmt_text Postgres (Select_from (Columns item_columns) t of_item None None)"
  by (simp_all add: stmt_defs text_defs)

lemma delete_item_text:
  "''DELETE FROM '' @ t @ '' WHERE item_id = ? AND tenant_id = ? AND conversation_id = ?'' =
     stmt_text Sqlite (Delete_from t of_item)"
  "''DELETE FROM '' @ t @ '' WHERE item_id = $1 AND tenant_id = $2 AND conversation_id = $3'' =
     stmt_text Postgres (Delete_from t of_item)"
  by (simp_all add: stmt_defs text_defs)

lemma max_position_text:
  "''SELECT COALESCE(MAX(position), 0) AS max_pos FROM '' @ t @
     '' WHERE tenant_id = ? AND conversation_id = ?'' =
     stmt_text Sqlite (Select_from (Greatest_or_zero ''position'' ''max_pos'') t of_scope None None)"
  "''SELECT COALESCE(MAX(position), 0) AS max_pos FROM '' @ t @
     '' WHERE tenant_id = $1 AND conversation_id = $2'' =
     stmt_text Postgres (Select_from (Greatest_or_zero ''position'' ''max_pos'') t of_scope None None)"
  by (simp_all add: stmt_defs text_defs)

text \<open>From here on a text is known as the text of its statement.\<close>

declare stmt_text.simps [simp del]


section \<open>Answers\<close>

lemma fetch_row:
  assumes "\<And>r. read (f r) = read' r" and "put rs = db"
  shows "fetch_optional read (on_rows db put (Inr (rs, Found (map f (filter (\<lambda>r. key r = k) rows))))) =
    map_sum id (Pair (sql_of db))
      (and_then (execute db (row_with key k rows)) (\<lambda>row. transpose_opt (map_option read' row)))"
proof -
  have "map_option read (first_of (map f (filter (\<lambda>r. key r = k) rows))) = map_option read' (row_with key k rows)"
    unfolding row_with_def by (cases "filter (\<lambda>r. key r = k) rows") (simp_all add: assms)
  with assms(2) show ?thesis
    by (cases "transpose_opt (map_option read' (row_with key k rows))")
       (auto simp: fetch_optional_def on_rows_def found_rows_def execute_def split: option.split)
qed

lemma affected_rows:
  "any_affected (on_rows db put (Inr (rows, Affected n))) = map_sum id (map_prod sql_of id) (execute db (put rows, n > 0))"
  by (simp add: any_affected_def on_rows_def rows_affected_def execute_def split: option.split)

lemma executed_rows:
  "executed (on_rows db put (Inr (rows, Affected n))) = map_sum id (\<lambda>db'. (sql_of db', ())) (execute db (put rows))"
  by (simp add: executed_def on_rows_def execute_def split: option.split)

lemma and_then_refines:
  "(\<And>x. r = Inr x \<Longrightarrow> f x = map_sum id h (g x)) \<Longrightarrow> and_then r f = map_sum id h (and_then r g)"
  by (cases r) simp_all

section \<open>Responses\<close>

lemma run_upsert_response:
  assumes "tables_distinct (db_tables db)"
  shows "run_stmt (upsert_response_stmt Sqlite (tn_responses (db_tables db)))
      [Text_value (row_id row), Text_value (row_tenant_id row), Int_value (row_created_at row), Text_value (row_model row),
       Text_value (row_response_object row), Text_value (row_input row), Text_value (row_messages row)] (sql_of db) =
    on_rows db (\<lambda>rows. db\<lparr>db_responses := rows\<rparr>) (Inr (replace_row response_key row (db_responses db), Affected 1))"
    and "run_stmt (upsert_response_stmt Postgres (tn_responses (db_tables db)))
      [Text_value (row_id row), Text_value (row_tenant_id row), Int_value (row_created_at row), Text_value (row_model row),
       Text_value (row_response_object row), Text_value (row_input row), Text_value (row_messages row)] (sql_of db) =
    on_rows db (\<lambda>rows. db\<lparr>db_responses := rows\<rparr>)
      (Inr (merge_row response_key merge_response_row row (db_responses db), Affected 1))"
proof -
  have row: "map_of (zip response_columns [Text_value (row_id row), Text_value (row_tenant_id row),
      Int_value (row_created_at row), Text_value (row_model row), Text_value (row_response_object row),
      Text_value (row_input row), Text_value (row_messages row)]) = response_sql row"
    by (auto simp: response_columns_def response_sql_def fun_eq_iff)
  show "run_stmt (upsert_response_stmt Sqlite (tn_responses (db_tables db)))
      [Text_value (row_id row), Text_value (row_tenant_id row), Int_value (row_created_at row), Text_value (row_model row),
       Text_value (row_response_object row), Text_value (row_input row), Text_value (row_messages row)] (sql_of db) =
    on_rows db (\<lambda>rows. db\<lparr>db_responses := rows\<rparr>) (Inr (replace_row response_key row (db_responses db), Affected 1))"
    unfolding run_stmt_def upsert_response_stmt_def exec_stmt.simps row
    by (rule on_responses [OF assms]) (simp add: replace_row_map [where key = response_key])
  have "response_sql old ++ response_sql row |` set [''created_at'', ''model'', ''response_object'', ''input'', ''messages''] =
      response_sql (merge_response_row old row)" for old
    by (auto simp: response_sql_def merge_response_row_def restrict_map_def map_add_def fun_eq_iff)
  then show "run_stmt (upsert_response_stmt Postgres (tn_responses (db_tables db)))
      [Text_value (row_id row), Text_value (row_tenant_id row), Int_value (row_created_at row), Text_value (row_model row),
       Text_value (row_response_object row), Text_value (row_input row), Text_value (row_messages row)] (sql_of db) =
    on_rows db (\<lambda>rows. db\<lparr>db_responses := rows\<rparr>)
      (Inr (merge_row response_key merge_response_row row (db_responses db), Affected 1))"
    unfolding run_stmt_def upsert_response_stmt_def exec_stmt.simps row
    by (intro on_responses [OF assms]) (simp add: merge_row_map [where key = response_key and merge = merge_response_row])
qed

lemma run_get_response:
  assumes "tables_distinct (db_tables db)"
  shows "run_stmt (Select_from (Columns response_columns) (tn_responses (db_tables db)) of_response None None)
      [Text_value i, Text_value t] (sql_of db) =
    on_rows db (\<lambda>rows. db\<lparr>db_responses := rows\<rparr>)
      (Inr (db_responses db, Found (map response_sql (filter (\<lambda>r. response_key r = (t, i)) (db_responses db)))))"
  unfolding run_stmt_def exec_stmt.simps
  by (rule on_responses [OF assms])
     (simp add: ordered_def limited_def filter_holds [OF holds_rows(1)] comp_def)

lemma run_delete_response:
  assumes "tables_distinct (db_tables db)"
  shows "run_stmt (Delete_from (tn_responses (db_tables db)) of_response) [Text_value i, Text_value t] (sql_of db) =
    on_rows db (\<lambda>rows. db\<lparr>db_responses := rows\<rparr>)
      (Inr (delete_rows response_key (t, i) (db_responses db),
            Affected (length (db_responses db) - length (delete_rows response_key (t, i) (db_responses db)))))"
  unfolding run_stmt_def exec_stmt.simps
  by (rule on_responses [OF assms])
     (simp add: filter_map comp_def delete_rows_def Let_def)

section \<open>Conversations\<close>

lemma run_upsert_conversation:
  assumes "tables_distinct (db_tables db)"
  shows "run_stmt (upsert_conversation_stmt (tn_conversations (db_tables db)))
      [Text_value (crow_conversation_id row), Text_value (crow_tenant_id row), Int_value (crow_created_at row),
       Text_value (crow_metadata row), Text_value (crow_messages row)] (sql_of db) =
    on_rows db (\<lambda>rows. db\<lparr>db_conversations := rows\<rparr>)
      (Inr (merge_row conversation_key merge_conversation_row row (db_conversations db), Affected 1))"
proof -
  have row: "map_of (zip conversation_columns [Text_value (crow_conversation_id row), Text_value (crow_tenant_id row),
      Int_value (crow_created_at row), Text_value (crow_metadata row), Text_value (crow_messages row)]) =
      conversation_sql row"
    by (auto simp: conversation_columns_def conversation_sql_def fun_eq_iff)
  have "conversation_sql old ++ conversation_sql row |` set [''messages'', ''metadata''] =
      conversation_sql (merge_conversation_row old row)" for old
    by (auto simp: conversation_sql_def merge_conversation_row_def restrict_map_def map_add_def fun_eq_iff)
  then show ?thesis
    unfolding run_stmt_def upsert_conversation_stmt_def exec_stmt.simps row
    by (intro on_conversations [OF assms])
       (simp add: merge_row_map [where key = conversation_key and merge = merge_conversation_row])
qed

lemma run_get_conversation:
  assumes "tables_distinct (db_tables db)"
  shows "run_stmt (Select_from (Columns conversation_columns) (tn_conversations (db_tables db)) (of_conversation 1) None None)
      [Text_value c, Text_value t] (sql_of db) =
    on_rows db (\<lambda>rows. db\<lparr>db_conversations := rows\<rparr>)
      (Inr (db_conversations db,
            Found (map conversation_sql (filter (\<lambda>r. conversation_key r = (t, c)) (db_conversations db)))))"
  unfolding run_stmt_def exec_stmt.simps
  by (rule on_conversations [OF assms])
     (simp add: ordered_def limited_def filter_holds [OF holds_rows(2)] comp_def del: One_nat_def)

lemma run_update_messages:
  assumes "tables_distinct (db_tables db)"
  shows "run_stmt (Update_set (tn_conversations (db_tables db)) ''messages'' 1 (of_conversation 2))
      [Text_value text, Text_value c, Text_value t] (sql_of db) =
    on_rows db (\<lambda>rows. db\<lparr>db_conversations := rows\<rparr>)
      (Inr (update_rows conversation_key (t, c) (\<lambda>r. r\<lparr>crow_messages := text\<rparr>) (db_conversations db),
            Affected (length (filter (\<lambda>r. conversation_key r = (t, c)) (db_conversations db)))))"
proof -
  have "(conversation_sql r)(''messages'' \<mapsto> Text_value text) = conversation_sql (r\<lparr>crow_messages := text\<rparr>)" for r
    by (simp add: conversation_sql_def)
  then show ?thesis
    unfolding run_stmt_def exec_stmt.simps
    by (intro on_conversations [OF assms]) (simp add: update_rows_def Let_def filter_holds [OF holds_rows(3)] comp_def)
qed

lemma run_delete_conversation:
  assumes "tables_distinct (db_tables db)"
  shows "run_stmt (Delete_from (tn_conversations (db_tables db)) (of_conversation 1)) [Text_value c, Text_value t] (sql_of db) =
    on_rows db (\<lambda>rows. db\<lparr>db_conversations := rows\<rparr>)
      (Inr (delete_rows conversation_key (t, c) (db_conversations db),
            Affected (length (db_conversations db) - length (delete_rows conversation_key (t, c) (db_conversations db)))))"
  unfolding run_stmt_def exec_stmt.simps
  by (rule on_conversations [OF assms])
     (simp add: filter_map comp_def delete_rows_def Let_def del: One_nat_def)

section \<open>Items\<close>

lemma run_insert_item:
  assumes "tables_distinct (db_tables db)" and "tn_items (db_tables db) = Some t"
  shows "run_stmt (Insert_into t item_columns Abort_insert)
      [Text_value (irow_item_id row), Text_value (irow_tenant_id row), Text_value (irow_conversation_id row),
       Text_value (irow_item_data row), Int_value (irow_created_at row), Int_value (irow_position row)] (sql_of db) =
    on_rows db (\<lambda>rows. db\<lparr>db_items := rows\<rparr>)
      (map_sum id (\<lambda>rows. (rows, Affected 1)) (insert_row item_key row (db_items db)))"
proof -
  have row: "map_of (zip item_columns [Text_value (irow_item_id row), Text_value (irow_tenant_id row),
      Text_value (irow_conversation_id row), Text_value (irow_item_data row), Int_value (irow_created_at row),
      Int_value (irow_position row)]) = item_sql row"
    by (auto simp: item_columns_def item_sql_def fun_eq_iff)
  show ?thesis
    unfolding run_stmt_def exec_stmt.simps row
    by (rule on_items [OF assms])
       (simp add: insert_row_map [where key = item_key] sum.map_comp comp_def)
qed

lemma run_get_item:
  assumes "tables_distinct (db_tables db)" and "tn_items (db_tables db) = Some table"
  shows "run_stmt (Select_from (Columns cs) table of_item None None)
      [Text_value i, Text_value t, Text_value c] (sql_of db) =
    on_rows db (\<lambda>rows. db\<lparr>db_items := rows\<rparr>)
      (Inr (db_items db, Found (map (\<lambda>r. item_sql r |` set cs) (filter (\<lambda>r. item_key r = (t, c, i)) (db_items db)))))"
  unfolding run_stmt_def exec_stmt.simps
  by (rule on_items [OF assms]) (simp add: ordered_def limited_def filter_holds [OF holds_rows(4)] comp_def)

lemma run_delete_item:
  assumes "tables_distinct (db_tables db)" and "tn_items (db_tables db) = Some table"
  shows "run_stmt (Delete_from table of_item) [Text_value i, Text_value t, Text_value c] (sql_of db) =
    on_rows db (\<lambda>rows. db\<lparr>db_items := rows\<rparr>)
      (Inr (delete_rows item_key (t, c, i) (db_items db),
            Affected (length (db_items db) - length (delete_rows item_key (t, c, i) (db_items db)))))"
  unfolding run_stmt_def exec_stmt.simps
  by (rule on_items [OF assms]) (simp add: filter_map comp_def delete_rows_def Let_def)

lemma run_max_position:
  assumes "tables_distinct (db_tables db)" and "tn_items (db_tables db) = Some table"
  shows "run_stmt (Select_from (Greatest_or_zero ''position'' ''max_pos'') table of_scope None None)
      [Text_value t, Text_value c] (sql_of db) =
    on_rows db (\<lambda>rows. db\<lparr>db_items := rows\<rparr>)
      (Inr (db_items db, Found [[''max_pos'' \<mapsto> Int_value
         (case map irow_position (filter (in_scope t c) (db_items db)) of [] \<Rightarrow> 0 | p # ps \<Rightarrow> fold max ps p)]]))"
proof -
  have "map (int_column ''position'') (map item_sql rows) = map irow_position rows" for rows
    by (simp add: int_column_def item_sql_def)
  then show ?thesis
    unfolding run_stmt_def exec_stmt.simps
    by (intro on_items [OF assms])
       (simp add: ordered_def limited_def filter_holds [OF holds_rows(5)] del: map_map)
qed

lemma item_cells [simp]:
  "item_sql r ''item_id'' = Some (Text_value (irow_item_id r))"
  "item_sql r ''position'' = Some (Int_value (irow_position r))"
  by (simp_all add: item_sql_def)

lemma existing_ids_hold:
  "holds coll ([Text_value t, Text_value c] @ map Text_value ids)
     (Both of_scope (One_of ''item_id'' [3..<length ids + 3])) (item_sql r) \<longleftrightarrow>
     in_scope t c r \<and> irow_item_id r \<in> set ids"
  "holds coll [Text_value t, Text_value c, Texts_value ids] (Both of_scope (Any_of ''item_id'' 3)) (item_sql r) \<longleftrightarrow>
     in_scope t c r \<and> irow_item_id r \<in> set ids"
proof -
  have "param (v1 # v2 # map Text_value ids) k = Some (Text_value (ids ! (k - 3)))" if "k \<in> set [3..<length ids + 3]" for k v1 v2
    using that by (auto simp: param_def get_at_def nth_Cons' nth_append numeral_3_eq_3)
  then have "param ([Text_value t, Text_value c] @ map Text_value ids) ` set [3..<length ids + 3] =
      (\<lambda>k. Some (Text_value (ids ! (k - 3)))) ` set [3..<length ids + 3]" by (intro image_cong) simp_all
  also have "\<dots> = Some ` Text_value ` set ids"
    by (force simp: image_image set_conv_nth image_iff intro: bexI [where x = "j + 3" for j])
  finally show "holds coll ([Text_value t, Text_value c] @ map Text_value ids)
     (Both of_scope (One_of ''item_id'' [3..<length ids + 3])) (item_sql r) \<longleftrightarrow>
     in_scope t c r \<and> irow_item_id r \<in> set ids"
    by auto
  show "holds coll [Text_value t, Text_value c, Texts_value ids] (Both of_scope (Any_of ''item_id'' 3)) (item_sql r) \<longleftrightarrow>
     in_scope t c r \<and> irow_item_id r \<in> set ids"
    by simp
qed

lemma run_existing_ids:
  assumes "tables_distinct (db_tables db)" and "tn_items (db_tables db) = Some table"
    and "binds = (case d of Sqlite \<Rightarrow> [Text_value t, Text_value c] @ map Text_value ids
      | Postgres \<Rightarrow> [Text_value t, Text_value c, Texts_value ids])"
  shows "run_stmt (existing_ids_stmt d table (length ids)) binds (sql_of db) =
    on_rows db (\<lambda>rows. db\<lparr>db_items := rows\<rparr>)
      (Inr (db_items db, Found (map (\<lambda>r. item_sql r |` {''item_id''})
         (filter (\<lambda>r. in_scope t c r \<and> irow_item_id r \<in> set ids) (db_items db)))))"
proof (cases d)
  case Sqlite
  then show ?thesis
    unfolding run_stmt_def existing_ids_stmt_def exec_stmt.simps assms(3)
    by (intro on_items [OF assms(1,2)])
       (simp add: ordered_def limited_def filter_holds [OF existing_ids_hold(1)] comp_def del: append_Cons holds.simps)
next
  case Postgres
  then show ?thesis
    unfolding run_stmt_def existing_ids_stmt_def exec_stmt.simps assms(3)
    by (intro on_items [OF assms(1,2)])
       (simp add: ordered_def limited_def filter_holds [OF existing_ids_hold(2)] comp_def del: holds.simps)
qed

text \<open>The order of a listing is the order of the model, and the cursor cuts at the same place.\<close>

lemma sort_key_same:
  assumes "\<And>x y. k1 x \<le> k1 y \<longleftrightarrow> k2 x \<le> k2 y"
  shows "sort_key k1 xs = sort_key k2 xs"
proof -
  have "insort_key k1 x ys = insort_key k2 x ys" for x ys by (induction ys) (simp_all add: assms)
  then show ?thesis by (induction xs) simp_all
qed

lemma sort_key_map: "sort_key k (map f xs) = map f (sort_key (\<lambda>x. k (f x)) xs)"
proof -
  have "insort_key k (f x) (map f ys) = map f (insort_key (\<lambda>x. k (f x)) x ys)" for x ys by (induction ys) simp_all
  then show ?thesis by (induction xs) simp_all
qed

lemma ordered_items:
  "ordered (db_collation db) (Some ([''position'', ''item_id''], up)) (map item_sql rows) = map item_sql (order_by db up rows)"
proof -
  have "sort_key (\<lambda>r. map (\<lambda>c. value_rank (db_collation db) (item_sql r c)) [''position'', ''item_id'']) rows =
      sort_key (order_key db) rows"
    by (rule sort_key_same) (auto simp: value_rank_def order_key_def less_eq_prod_def less_prod_def')
  then show ?thesis
    by (simp add: ordered_def order_by_def sort_key_map rev_map)
qed

lemma cursor_holds:
  "holds (db_collation db) [Text_value t, Text_value c, Int_value p, Int_value p, Text_value i, v]
     (Both of_scope (after_cursor up)) (item_sql r) \<longleftrightarrow> in_scope t c r \<and> past_cursor db up p i r"
  by (auto simp: after_cursor_def past_cursor_def value_rank_def less_prod_def')

lemma run_list_items:
  assumes "tables_distinct (db_tables db)" and "tn_items (db_tables db) = Some table"
  shows "run_stmt (list_items_stmt table False up) [Text_value t, Text_value c, Int_value (int n)] (sql_of db) =
      on_rows db (\<lambda>rows. db\<lparr>db_items := rows\<rparr>)
        (Inr (db_items db, Found (map item_sql (take n (order_by db up (filter (in_scope t c) (db_items db)))))))"
    and "run_stmt (list_items_stmt table True up)
        [Text_value t, Text_value c, Int_value p, Int_value p, Text_value i, Int_value (int n)] (sql_of db) =
      on_rows db (\<lambda>rows. db\<lparr>db_items := rows\<rparr>)
        (Inr (db_items db, Found (map item_sql (take n (order_by db up
           (filter (past_cursor db up p i) (filter (in_scope t c) (db_items db))))))))"
proof -
  have coll: "sq_collation (sql_of db) = db_collation db" by (simp add: sql_of_def)
  show "run_stmt (list_items_stmt table False up) [Text_value t, Text_value c, Int_value (int n)] (sql_of db) =
      on_rows db (\<lambda>rows. db\<lparr>db_items := rows\<rparr>)
        (Inr (db_items db, Found (map item_sql (take n (order_by db up (filter (in_scope t c) (db_items db)))))))"
    unfolding run_stmt_def list_items_stmt_def exec_stmt.simps coll
    by (rule on_items [OF assms])
       (simp add: ordered_items limited_def filter_holds [OF holds_rows(5)] comp_def take_map)
  have cut: "filter (\<lambda>r. in_scope t c r \<and> past_cursor db up p i r) rows =
      filter (past_cursor db up p i) (filter (in_scope t c) rows)" for rows by (simp add: conj_commute)
  show "run_stmt (list_items_stmt table True up)
        [Text_value t, Text_value c, Int_value p, Int_value p, Text_value i, Int_value (int n)] (sql_of db) =
      on_rows db (\<lambda>rows. db\<lparr>db_items := rows\<rparr>)
        (Inr (db_items db, Found (map item_sql (take n (order_by db up
           (filter (past_cursor db up p i) (filter (in_scope t c) (db_items db))))))))"
    unfolding run_stmt_def list_items_stmt_def exec_stmt.simps coll
    by (rule on_items [OF assms])
       (simp add: ordered_items limited_def filter_holds [OF cursor_holds] cut comp_def take_map
         del: holds.simps filter_filter)
qed

end
