(* ===== verification/Store_Refinement.thy ===== *)
theory Store_Refinement
  imports Store_Statements
begin

text \<open>
  Each operation of the two backends refines the operation of the model: on the tables of a
  modelled store it answers the same and leaves the tables of the store the model leaves.
\<close>

section \<open>The operations\<close>

text \<open>The statements a driver has to run by their meaning.\<close>

definition runs :: "storage_backend \<Rightarrow> sql_engine \<Rightarrow> sql_stmt \<Rightarrow> bool" where
  "runs d e s \<longleftrightarrow> run_sql e (stmt_text d s) = exec_stmt s"

text \<open>The statements on the table of items, when there is one.\<close>

definition item_statements :: "table_names \<Rightarrow> (str \<Rightarrow> sql_stmt list) \<Rightarrow> sql_stmt list" where
  "item_statements tables f = (case tn_items tables of None \<Rightarrow> [] | Some t \<Rightarrow> f t)"

lemma runs_query: "runs d e s \<Longrightarrow> query e (stmt_text d s) binds db = run_stmt s binds db"
  by (simp add: runs_def query_def run_stmt_def)

lemma put_same [simp]:
  "db\<lparr>db_responses := db_responses db\<rparr> = db" "db\<lparr>db_conversations := db_conversations db\<rparr> = db"
  "db\<lparr>db_items := db_items db\<rparr> = db"
  by simp_all

lemma upsert_response_refines:
  assumes dist: "tables_distinct (db_tables db)"
  shows "runs Sqlite e (upsert_response_stmt Sqlite (tn_responses (db_tables db))) \<Longrightarrow>
      sqlite_upsert_response_sql e ext (db_tables db) r (sql_of db) =
        map_sum id (\<lambda>db'. (sql_of db', ())) (sqlite_upsert_response ext r db)"
    and "runs Postgres e (upsert_response_stmt Postgres (tn_responses (db_tables db))) \<Longrightarrow>
      postgres_upsert_response_sql e ext (db_tables db) r (sql_of db) =
        map_sum id (\<lambda>db'. (sql_of db', ())) (postgres_upsert_response ext r db)"
proof -
  let ?row = "\<lambda>object input messages. \<lparr>row_id = rr_id r, row_tenant_id = rr_tenant_id r, row_created_at = rr_created_at r,
    row_model = rr_model r, row_response_object = object, row_input = input, row_messages = messages\<rparr>"
  note row = run_upsert_response [OF dist, of "?row a b c" for a b c, simplified]
  show "runs Sqlite e (upsert_response_stmt Sqlite (tn_responses (db_tables db))) \<Longrightarrow>
      sqlite_upsert_response_sql e ext (db_tables db) r (sql_of db) =
        map_sum id (\<lambda>db'. (sql_of db', ())) (sqlite_upsert_response ext r db)"
    unfolding sqlite_upsert_response_sql_def Let_def upsert_response_text
    by (cases "to_column ext (rr_response_object r)"; cases "to_column ext (rr_input r)"; cases "to_column ext (rr_messages r)")
       (simp_all add: runs_query row(1) executed_rows sqlite_upsert_response_def response_to_row_def)
  show "runs Postgres e (upsert_response_stmt Postgres (tn_responses (db_tables db))) \<Longrightarrow>
      postgres_upsert_response_sql e ext (db_tables db) r (sql_of db) =
        map_sum id (\<lambda>db'. (sql_of db', ())) (postgres_upsert_response ext r db)"
    unfolding postgres_upsert_response_sql_def Let_def upsert_response_text
    by (cases "to_column ext (rr_response_object r)"; cases "to_column ext (rr_input r)"; cases "to_column ext (rr_messages r)")
       (simp_all add: runs_query row(2) executed_rows postgres_upsert_response_def response_to_row_def)
qed

lemma get_response_refines:
  assumes "tables_distinct (db_tables db)"
    and "runs d e (Select_from (Columns response_columns) (tn_responses (db_tables db)) of_response None None)"
  shows "d = Sqlite \<Longrightarrow> sqlite_get_response_sql e ext (db_tables db) t i (sql_of db) =
      map_sum id (Pair (sql_of db)) (get_response ext t i db)"
    and "d = Postgres \<Longrightarrow> postgres_get_response_sql e ext (db_tables db) t i (sql_of db) =
      map_sum id (Pair (sql_of db)) (get_response ext t i db)"
  using assms(2)
  unfolding sqlite_get_response_sql_def postgres_get_response_sql_def Let_def get_response_text get_response_def
  by (simp_all add: runs_query run_get_response [OF assms(1)] fetch_row [where read' = "row_to_response_record ext"])

lemma delete_response_refines:
  assumes "tables_distinct (db_tables db)" and "runs d e (Delete_from (tn_responses (db_tables db)) of_response)"
  shows "d = Sqlite \<Longrightarrow> sqlite_delete_response_sql e (db_tables db) t i (sql_of db) =
      map_sum id (map_prod sql_of id) (delete_response t i db)"
    and "d = Postgres \<Longrightarrow> postgres_delete_response_sql e (db_tables db) t i (sql_of db) =
      map_sum id (map_prod sql_of id) (delete_response t i db)"
  using assms(2)
  unfolding sqlite_delete_response_sql_def postgres_delete_response_sql_def Let_def delete_response_text delete_response_def
  by (simp_all add: runs_query run_delete_response [OF assms(1)] affected_rows)

lemma upsert_conversation_refines:
  assumes dist: "tables_distinct (db_tables db)"
    and runs: "runs d e (upsert_conversation_stmt (tn_conversations (db_tables db)))"
  shows "d = Sqlite \<Longrightarrow> sqlite_upsert_conversation_sql e ext (db_tables db) r (sql_of db) =
      map_sum id (\<lambda>db'. (sql_of db', ())) (upsert_conversation ext r db)"
    and "d = Postgres \<Longrightarrow> postgres_upsert_conversation_sql e ext (db_tables db) r (sql_of db) =
      map_sum id (\<lambda>db'. (sql_of db', ())) (upsert_conversation ext r db)"
proof -
  let ?row = "\<lambda>messages metadata. \<lparr>crow_conversation_id = cr_conversation_id r, crow_tenant_id = cr_tenant_id r,
    crow_created_at = cr_created_at r, crow_metadata = metadata, crow_messages = messages\<rparr>"
  note row = run_upsert_conversation [OF dist, of "?row a b" for a b, simplified]
  show "d = Sqlite \<Longrightarrow> sqlite_upsert_conversation_sql e ext (db_tables db) r (sql_of db) =
      map_sum id (\<lambda>db'. (sql_of db', ())) (upsert_conversation ext r db)"
    and "d = Postgres \<Longrightarrow> postgres_upsert_conversation_sql e ext (db_tables db) r (sql_of db) =
      map_sum id (\<lambda>db'. (sql_of db', ())) (upsert_conversation ext r db)"
    using runs
    unfolding sqlite_upsert_conversation_sql_def postgres_upsert_conversation_sql_def Let_def upsert_conversation_text
    by (cases "to_column ext (cr_messages r)"; cases "to_column ext (cr_metadata r)";
        simp add: runs_query row executed_rows upsert_conversation_def conversation_to_row_def)+
qed

lemma get_conversation_refines:
  assumes "tables_distinct (db_tables db)"
    and "runs d e (Select_from (Columns conversation_columns) (tn_conversations (db_tables db)) (of_conversation 1) None None)"
  shows "d = Sqlite \<Longrightarrow> sqlite_get_conversation_sql e ext (db_tables db) t c (sql_of db) =
      map_sum id (Pair (sql_of db)) (get_conversation ext t c db)"
    and "d = Postgres \<Longrightarrow> postgres_get_conversation_sql e ext (db_tables db) t c (sql_of db) =
      map_sum id (Pair (sql_of db)) (get_conversation ext t c db)"
  using assms(2)
  unfolding sqlite_get_conversation_sql_def postgres_get_conversation_sql_def Let_def get_conversation_text get_conversation_def
  by (simp_all add: runs_query run_get_conversation [OF assms(1)] fetch_row [where read' = "row_to_conversation_record ext"]
      del: One_nat_def)

lemma update_messages_refines:
  assumes "tables_distinct (db_tables db)"
    and "runs d e (Update_set (tn_conversations (db_tables db)) ''messages'' 1 (of_conversation 2))"
  shows "d = Sqlite \<Longrightarrow> sqlite_update_messages_sql e ext (db_tables db) t c v (sql_of db) =
      map_sum id (map_prod sql_of id) (update_conversation_messages ext t c v db)"
    and "d = Postgres \<Longrightarrow> postgres_update_messages_sql e ext (db_tables db) t c v (sql_of db) =
      map_sum id (map_prod sql_of id) (update_conversation_messages ext t c v db)"
  using assms(2)
  unfolding sqlite_update_messages_sql_def postgres_update_messages_sql_def Let_def update_messages_text
    update_conversation_messages_def
  by (cases "to_column ext v";
      simp add: runs_query run_update_messages [OF assms(1)] affected_rows del: One_nat_def)+

lemma delete_conversation_refines:
  assumes "tables_distinct (db_tables db)" and "runs d e (Delete_from (tn_conversations (db_tables db)) (of_conversation 1))"
  shows "d = Sqlite \<Longrightarrow> sqlite_delete_conversation_sql e (db_tables db) t c (sql_of db) =
      map_sum id (map_prod sql_of id) (delete_conversation t c db)"
    and "d = Postgres \<Longrightarrow> postgres_delete_conversation_sql e (db_tables db) t c (sql_of db) =
      map_sum id (map_prod sql_of id) (delete_conversation t c db)"
  using assms(2)
  unfolding sqlite_delete_conversation_sql_def postgres_delete_conversation_sql_def Let_def delete_conversation_text
    delete_conversation_def
  by (simp_all add: runs_query run_delete_conversation [OF assms(1)] affected_rows del: One_nat_def)

text \<open>The inserts of a transaction.\<close>

lemma insert_each_same: "postgres_insert_each e ext sql items tx = sqlite_insert_each e ext sql items tx"
  by (induction items arbitrary: tx) simp_all

lemma insert_each_refines:
  assumes "tables_distinct (db_tables db)" and "tn_items (db_tables db) = Some table" and "db_fault db = None"
    and "runs d e (Insert_into table item_columns Abort_insert)"
  shows "sqlite_insert_each e ext (stmt_text d (Insert_into table item_columns Abort_insert)) items (sql_of db) =
      map_sum id (\<lambda>rows. sql_of (db\<lparr>db_items := rows\<rparr>)) (insert_items ext items (db_items db))"
proof -
  let ?row = "\<lambda>item data. \<lparr>irow_item_id = ir_item_id item, irow_tenant_id = ir_tenant_id item,
    irow_conversation_id = ir_conversation_id item, irow_item_data = data, irow_created_at = ir_created_at item,
    irow_position = ir_position item\<rparr>"
  have one: "query e (stmt_text d (Insert_into table item_columns Abort_insert))
      [Text_value (ir_item_id item), Text_value (ir_tenant_id item), Text_value (ir_conversation_id item),
       Text_value data, Int_value (ir_created_at item), Int_value (ir_position item)] (sql_of s) =
      (case insert_row item_key (?row item data) (db_items s) of Inl e \<Rightarrow> Inl (Database e)
       | Inr rows \<Rightarrow> Inr (sql_of (s\<lparr>db_items := rows\<rparr>), Affected 1))"
    if "db_tables s = db_tables db" "db_fault s = None" for s item data
    using run_insert_item [of s table "?row item data"] that assms
    by (auto simp: runs_query on_rows_def split: sum.split)
  have "sqlite_insert_each e ext (stmt_text d (Insert_into table item_columns Abort_insert)) items (sql_of s) =
      map_sum id (\<lambda>rows. sql_of (s\<lparr>db_items := rows\<rparr>)) (insert_items ext items (db_items s))"
    if "db_tables s = db_tables db" "db_fault s = None" for s
    using that
  proof (induction items arbitrary: s)
    case (Cons item items)
    then show ?case
      using one [of s item] Cons.IH [of "s\<lparr>db_items := rows\<rparr>" for rows]
      by (auto simp: item_to_row_def and_then_eq_case split: sum.splits)
  qed simp
  with assms show ?thesis by blast
qed

lemma create_items_refines:
  assumes dist: "tables_distinct (db_tables db)" and tx: "begin_tx e = live_db" "commit_tx e = live_db"
    and runs: "list_all (runs d e) (item_statements (db_tables db) (\<lambda>t. [Insert_into t item_columns Abort_insert]))"
  shows "d = Sqlite \<Longrightarrow> sqlite_create_items_sql e ext (db_tables db) items (sql_of db) =
      map_sum id (\<lambda>db'. (sql_of db', ())) (create_conversation_items ext items db)"
    and "d = Postgres \<Longrightarrow> postgres_create_items_sql e ext (db_tables db) items (sql_of db) =
      map_sum id (\<lambda>db'. (sql_of db', ())) (create_conversation_items ext items db)"
proof -
  have fault: "sq_fault (sql_of s) = db_fault s" for s by (simp add: sql_of_def)
  have runs': "runs d e (Insert_into t item_columns Abort_insert)" if "tn_items (db_tables db) = Some t" for t
    using runs that by (simp add: item_statements_def)
  note each = insert_each_refines [OF dist _ _ runs']
  show "d = Sqlite \<Longrightarrow> sqlite_create_items_sql e ext (db_tables db) items (sql_of db) =
      map_sum id (\<lambda>db'. (sql_of db', ())) (create_conversation_items ext items db)"
    unfolding sqlite_create_items_sql_def Let_def create_items_text
    using each
    by (cases "tn_items (db_tables db)"; cases "db_fault db"; cases "insert_items ext items (db_items db)")
       (simp_all add: items_table_def create_conversation_items_def with_items_table_def execute_def
          begin_transaction_def commit_transaction_def tx live_db_def fault)
  show "d = Postgres \<Longrightarrow> postgres_create_items_sql e ext (db_tables db) items (sql_of db) =
      map_sum id (\<lambda>db'. (sql_of db', ())) (create_conversation_items ext items db)"
    unfolding postgres_create_items_sql_def Let_def create_items_text insert_each_same
    using each
    by (cases "tn_items (db_tables db)"; cases "db_fault db"; cases "insert_items ext items (db_items db)")
       (simp_all add: items_table_def create_conversation_items_def with_items_table_def execute_def
          begin_transaction_def commit_transaction_def tx live_db_def fault)
qed

lemma get_item_refines:
  assumes "tables_distinct (db_tables db)"
    and "list_all (runs d e) (item_statements (db_tables db) (\<lambda>t. [Select_from (Columns item_columns) t of_item None None]))"
  shows "d = Sqlite \<Longrightarrow> sqlite_get_item_sql e ext (db_tables db) t c i (sql_of db) =
      map_sum id (Pair (sql_of db)) (get_conversation_item ext t c i db)"
    and "d = Postgres \<Longrightarrow> postgres_get_item_sql e ext (db_tables db) t c i (sql_of db) =
      map_sum id (Pair (sql_of db)) (get_conversation_item ext t c i db)"
  using assms(2)
  unfolding sqlite_get_item_sql_def postgres_get_item_sql_def Let_def get_item_text get_conversation_item_def
  by (cases "tn_items (db_tables db)";
      simp add: items_table_def item_statements_def with_items_table_def runs_query run_get_item [OF assms(1)]
        fetch_row [where read' = "row_to_conversation_item_record ext"])+

lemma delete_item_refines:
  assumes "tables_distinct (db_tables db)"
    and "list_all (runs d e) (item_statements (db_tables db) (\<lambda>t. [Delete_from t of_item]))"
  shows "d = Sqlite \<Longrightarrow> sqlite_delete_item_sql e (db_tables db) t c i (sql_of db) =
      map_sum id (map_prod sql_of id) (delete_conversation_item t c i db)"
    and "d = Postgres \<Longrightarrow> postgres_delete_item_sql e (db_tables db) t c i (sql_of db) =
      map_sum id (map_prod sql_of id) (delete_conversation_item t c i db)"
  using assms(2)
  unfolding sqlite_delete_item_sql_def postgres_delete_item_sql_def Let_def delete_item_text delete_conversation_item_def
  by (cases "tn_items (db_tables db)";
      simp add: items_table_def item_statements_def with_items_table_def runs_query run_delete_item [OF assms(1)] affected_rows)+

lemma item_position_refines:
  assumes "tables_distinct (db_tables db)"
    and "list_all (runs d e) (item_statements (db_tables db) (\<lambda>t. [Select_from (Columns [''position'']) t of_item None None]))"
  shows "d = Sqlite \<Longrightarrow> sqlite_item_position_sql e (db_tables db) t c i (sql_of db) =
      map_sum id (Pair (sql_of db)) (conversation_item_position t c i db)"
    and "d = Postgres \<Longrightarrow> postgres_item_position_sql e (db_tables db) t c i (sql_of db) =
      map_sum id (Pair (sql_of db)) (conversation_item_position t c i db)"
proof -
  have all: "transpose_opt (map_option (\<lambda>r. Inr (irow_position r)) x) = Inr (map_option irow_position x)" for x
    by (cases x) simp_all
  show "d = Sqlite \<Longrightarrow> sqlite_item_position_sql e (db_tables db) t c i (sql_of db) =
      map_sum id (Pair (sql_of db)) (conversation_item_position t c i db)"
    and "d = Postgres \<Longrightarrow> postgres_item_position_sql e (db_tables db) t c i (sql_of db) =
      map_sum id (Pair (sql_of db)) (conversation_item_position t c i db)"
    using assms(2)
    unfolding sqlite_item_position_sql_def postgres_item_position_sql_def Let_def item_position_text
      conversation_item_position_def
    by (cases "tn_items (db_tables db)";
        simp add: items_table_def item_statements_def with_items_table_def runs_query run_get_item [OF assms(1)] number_of_item all
          fetch_row [where read' = "\<lambda>r. Inr (irow_position r)"] execute_def split: option.split)+
qed

lemma max_position_refines:
  assumes "tables_distinct (db_tables db)"
    and "list_all (runs d e) (item_statements (db_tables db) (\<lambda>t. [Select_from (Greatest_or_zero ''position'' ''max_pos'') t of_scope None None]))"
  shows "d = Sqlite \<Longrightarrow> sqlite_max_position_sql e (db_tables db) t c (sql_of db) =
      map_sum id (Pair (sql_of db)) (max_item_position t c db)"
    and "d = Postgres \<Longrightarrow> postgres_max_position_sql e (db_tables db) t c (sql_of db) =
      map_sum id (Pair (sql_of db)) (max_item_position t c db)"
  using assms(2)
  unfolding sqlite_max_position_sql_def postgres_max_position_sql_def Let_def max_position_text max_item_position_def
  by (cases "tn_items (db_tables db)";
      simp add: items_table_def item_statements_def with_items_table_def runs_query run_max_position [OF assms(1)] fetch_one_def on_rows_def
        found_rows_def number_column_def execute_def split: option.split)+

lemma fetch_items:
  assumes "\<And>r. read (f r) = read' r" and "put rs = db"
  shows "fetch_all read (on_rows db put (Inr (rs, Found (map f rows)))) =
    map_sum id (Pair (sql_of db)) (and_then (execute db rows) (map_result read'))"
proof -
  have "map_result read (map f rows) = map_result read' rows" by (induction rows) (simp_all add: assms)
  with assms(2) show ?thesis
    by (cases "map_result read' rows")
       (auto simp: fetch_all_def on_rows_def found_rows_def execute_def split: option.split)
qed

lemma existing_ids_refines:
  assumes "tables_distinct (db_tables db)"
    and "list_all (runs d e) (item_statements (db_tables db) (\<lambda>t. [existing_ids_stmt d t (length ids)]))"
  shows "d = Sqlite \<Longrightarrow> sqlite_existing_ids_sql e (db_tables db) t c ids (sql_of db) =
      map_sum id (Pair (sql_of db)) (get_existing_conversation_item_ids t c ids db)"
    and "d = Postgres \<Longrightarrow> postgres_existing_ids_sql e (db_tables db) t c ids (sql_of db) =
      map_sum id (Pair (sql_of db)) (get_existing_conversation_item_ids t c ids db)"
proof -
  have all: "map_result (\<lambda>r. Inr (irow_item_id r)) rows = Inr (map irow_item_id rows)" for rows
    by (induction rows) simp_all
  have binds: "[Text_value t, Text_value c] @ map Text_value ids = (case Sqlite of
      Sqlite \<Rightarrow> [Text_value t, Text_value c] @ map Text_value ids | Postgres \<Rightarrow> [Text_value t, Text_value c, Texts_value ids])"
    "[Text_value t, Text_value c, Texts_value ids] = (case Postgres of
      Sqlite \<Rightarrow> [Text_value t, Text_value c] @ map Text_value ids | Postgres \<Rightarrow> [Text_value t, Text_value c, Texts_value ids])"
    by simp_all
  note run = run_existing_ids [OF assms(1) _ binds(1)] run_existing_ids [OF assms(1) _ binds(2)]
  show "d = Sqlite \<Longrightarrow> sqlite_existing_ids_sql e (db_tables db) t c ids (sql_of db) =
      map_sum id (Pair (sql_of db)) (get_existing_conversation_item_ids t c ids db)"
    using assms(2) run(1)
    unfolding sqlite_existing_ids_sql_def Let_def existing_ids_text get_existing_conversation_item_ids_def
    by (cases "tn_items (db_tables db)")
       (auto simp: items_table_def item_statements_def with_items_table_def runs_query number_of_item all
          fetch_items [where read' = "\<lambda>r. Inr (irow_item_id r)"] execute_def split: option.split)
  show "d = Postgres \<Longrightarrow> postgres_existing_ids_sql e (db_tables db) t c ids (sql_of db) =
      map_sum id (Pair (sql_of db)) (get_existing_conversation_item_ids t c ids db)"
    using assms(2) run(2)
    unfolding postgres_existing_ids_sql_def Let_def existing_ids_text(2) [where n = "length ids"]
      get_existing_conversation_item_ids_def
    by (cases "tn_items (db_tables db)")
       (auto simp: items_table_def item_statements_def with_items_table_def runs_query number_of_item all
          fetch_items [where read' = "\<lambda>r. Inr (irow_item_id r)"] execute_def split: option.split)
qed

lemma list_items_refines:
  assumes dist: "tables_distinct (db_tables db)"
    and runs: "list_all (runs d e) (item_statements (db_tables db) (\<lambda>t. [Select_from (Columns [''position'']) t of_item None None,
      list_items_stmt t False asc, list_items_stmt t True asc]))"
  shows "d = Sqlite \<Longrightarrow> sqlite_list_items_sql e ext (db_tables db) t c after n asc (sql_of db) =
      map_sum id (Pair (sql_of db)) (list_conversation_items ext t c after n asc db)"
    and "d = Postgres \<Longrightarrow> postgres_list_items_sql e ext (db_tables db) t c after n asc (sql_of db) =
      map_sum id (Pair (sql_of db)) (list_conversation_items ext t c after n asc db)"
proof -
  have position: "list_all (runs d e) (item_statements (db_tables db) (\<lambda>t. [Select_from (Columns [''position'']) t of_item None None]))"
    using runs by (simp add: item_statements_def split: option.splits)
  note facts = run_list_items [OF dist] fetch_items [where read' = "row_to_conversation_item_record ext" and f = item_sql]
    fetch_all_def [of _ "Inl _"] fetch_all_def [of _ "Inr (_, Found [])"] found_rows_def
    items_table_def item_statements_def with_items_table_def runs_query conversation_item_position_def execute_def
  show "sqlite_list_items_sql e ext (db_tables db) t c after n asc (sql_of db) =
      map_sum id (Pair (sql_of db)) (list_conversation_items ext t c after n asc db)" if d: "d = Sqlite"
  proof -
    have pos: "sqlite_item_position_sql e (db_tables db) t c i (sql_of db) =
        map_sum id (Pair (sql_of db)) (conversation_item_position t c i db)" for i
      by (rule item_position_refines(1) [OF dist position d])
    show ?thesis
      using runs unfolding sqlite_list_items_sql_def Let_def list_items_text list_conversation_items_def d pos
      by (cases "tn_items (db_tables db)"; cases after) (auto simp: facts split: option.split)
  qed
  show "postgres_list_items_sql e ext (db_tables db) t c after n asc (sql_of db) =
      map_sum id (Pair (sql_of db)) (list_conversation_items ext t c after n asc db)" if d: "d = Postgres"
  proof -
    have pos: "postgres_item_position_sql e (db_tables db) t c i (sql_of db) =
        map_sum id (Pair (sql_of db)) (conversation_item_position t c i db)" for i
      by (rule item_position_refines(2) [OF dist position d])
    show ?thesis
      using runs unfolding postgres_list_items_sql_def Let_def list_items_text list_conversation_items_def d pos
      by (cases "tn_items (db_tables db)"; cases after) (auto simp: facts split: option.split)
  qed
qed

section \<open>Calls\<close>

text \<open>The operations of both traits, and what they answer.\<close>

datatype store_call =
    Upsert_response_call response_record
  | Get_response_call str str
  | Delete_response_call str str
  | Upsert_conversation_call conversation_record
  | Get_conversation_call str str
  | Update_messages_call str str json
  | Delete_conversation_call str str
  | Create_items_call "item_record list"
  | List_items_call str str "str option" nat bool
  | Existing_ids_call str str "str list"
  | Get_item_call str str str
  | Delete_item_call str str str
  | Item_position_call str str str
  | Max_position_call str str

datatype store_answer =
    No_answer
  | Flag_answer bool
  | Response_answer "response_record option"
  | Conversation_answer "conversation_record option"
  | Item_answer "item_record option"
  | Items_answer "item_record list"
  | Ids_answer "str list"
  | Position_answer "int option"
  | Greatest_answer int

definition answered :: "('a \<Rightarrow> store_answer) \<Rightarrow> 'a stored \<Rightarrow> store_answer stored" where
  "answered f r = map_sum id (map_prod id f) r"

definition sqlite_call ::
  "sql_engine \<Rightarrow> externals \<Rightarrow> table_names \<Rightarrow> store_call \<Rightarrow> sql_db \<Rightarrow> store_answer stored" where
  "sqlite_call e ext tables call db =
     (case call of
        Upsert_response_call r \<Rightarrow> answered (\<lambda>_. No_answer) (sqlite_upsert_response_sql e ext tables r db)
      | Get_response_call t i \<Rightarrow> answered Response_answer (sqlite_get_response_sql e ext tables t i db)
      | Delete_response_call t i \<Rightarrow> answered Flag_answer (sqlite_delete_response_sql e tables t i db)
      | Upsert_conversation_call r \<Rightarrow> answered (\<lambda>_. No_answer) (sqlite_upsert_conversation_sql e ext tables r db)
      | Get_conversation_call t c \<Rightarrow> answered Conversation_answer (sqlite_get_conversation_sql e ext tables t c db)
      | Update_messages_call t c v \<Rightarrow> answered Flag_answer (sqlite_update_messages_sql e ext tables t c v db)
      | Delete_conversation_call t c \<Rightarrow> answered Flag_answer (sqlite_delete_conversation_sql e tables t c db)
      | Create_items_call items \<Rightarrow> answered (\<lambda>_. No_answer) (sqlite_create_items_sql e ext tables items db)
      | List_items_call t c after n asc \<Rightarrow> answered Items_answer (sqlite_list_items_sql e ext tables t c after n asc db)
      | Existing_ids_call t c ids \<Rightarrow> answered Ids_answer (sqlite_existing_ids_sql e tables t c ids db)
      | Get_item_call t c i \<Rightarrow> answered Item_answer (sqlite_get_item_sql e ext tables t c i db)
      | Delete_item_call t c i \<Rightarrow> answered Flag_answer (sqlite_delete_item_sql e tables t c i db)
      | Item_position_call t c i \<Rightarrow> answered Position_answer (sqlite_item_position_sql e tables t c i db)
      | Max_position_call t c \<Rightarrow> answered Greatest_answer (sqlite_max_position_sql e tables t c db))"

definition postgres_call ::
  "sql_engine \<Rightarrow> externals \<Rightarrow> table_names \<Rightarrow> store_call \<Rightarrow> sql_db \<Rightarrow> store_answer stored" where
  "postgres_call e ext tables call db =
     (case call of
        Upsert_response_call r \<Rightarrow> answered (\<lambda>_. No_answer) (postgres_upsert_response_sql e ext tables r db)
      | Get_response_call t i \<Rightarrow> answered Response_answer (postgres_get_response_sql e ext tables t i db)
      | Delete_response_call t i \<Rightarrow> answered Flag_answer (postgres_delete_response_sql e tables t i db)
      | Upsert_conversation_call r \<Rightarrow> answered (\<lambda>_. No_answer) (postgres_upsert_conversation_sql e ext tables r db)
      | Get_conversation_call t c \<Rightarrow> answered Conversation_answer (postgres_get_conversation_sql e ext tables t c db)
      | Update_messages_call t c v \<Rightarrow> answered Flag_answer (postgres_update_messages_sql e ext tables t c v db)
      | Delete_conversation_call t c \<Rightarrow> answered Flag_answer (postgres_delete_conversation_sql e tables t c db)
      | Create_items_call items \<Rightarrow> answered (\<lambda>_. No_answer) (postgres_create_items_sql e ext tables items db)
      | List_items_call t c after n asc \<Rightarrow> answered Items_answer (postgres_list_items_sql e ext tables t c after n asc db)
      | Existing_ids_call t c ids \<Rightarrow> answered Ids_answer (postgres_existing_ids_sql e tables t c ids db)
      | Get_item_call t c i \<Rightarrow> answered Item_answer (postgres_get_item_sql e ext tables t c i db)
      | Delete_item_call t c i \<Rightarrow> answered Flag_answer (postgres_delete_item_sql e tables t c i db)
      | Item_position_call t c i \<Rightarrow> answered Position_answer (postgres_item_position_sql e tables t c i db)
      | Max_position_call t c \<Rightarrow> answered Greatest_answer (postgres_max_position_sql e tables t c db))"

definition backend_call ::
  "sql_engine \<Rightarrow> externals \<Rightarrow> storage_backend \<Rightarrow> table_names \<Rightarrow> store_call \<Rightarrow> sql_db \<Rightarrow> store_answer stored" where
  "backend_call e ext d = (case d of Sqlite \<Rightarrow> sqlite_call e ext | Postgres \<Rightarrow> postgres_call e ext)"

text \<open>The same calls on the model of the store: one that changes it, one that also tells, one that reads.\<close>

definition changed :: "(store_error + store_db) \<Rightarrow> store_error + store_db \<times> store_answer" where
  "changed r = map_sum id (\<lambda>db'. (db', No_answer)) r"

definition told :: "(store_error + store_db \<times> bool) \<Rightarrow> store_error + store_db \<times> store_answer" where
  "told r = map_sum id (map_prod id Flag_answer) r"

definition seen :: "store_db \<Rightarrow> ('a \<Rightarrow> store_answer) \<Rightarrow> (store_error + 'a) \<Rightarrow> store_error + store_db \<times> store_answer" where
  "seen db f r = map_sum id (\<lambda>x. (db, f x)) r"

definition model_call :: "externals \<Rightarrow> store_call \<Rightarrow> store_db \<Rightarrow> store_error + store_db \<times> store_answer" where
  "model_call ext call db =
     (case call of
        Upsert_response_call r \<Rightarrow> changed (upsert_response ext r db)
      | Get_response_call t i \<Rightarrow> seen db Response_answer (get_response ext t i db)
      | Delete_response_call t i \<Rightarrow> told (delete_response t i db)
      | Upsert_conversation_call r \<Rightarrow> changed (upsert_conversation ext r db)
      | Get_conversation_call t c \<Rightarrow> seen db Conversation_answer (get_conversation ext t c db)
      | Update_messages_call t c v \<Rightarrow> told (update_conversation_messages ext t c v db)
      | Delete_conversation_call t c \<Rightarrow> told (delete_conversation t c db)
      | Create_items_call items \<Rightarrow> changed (create_conversation_items ext items db)
      | List_items_call t c after n asc \<Rightarrow>
          seen db Items_answer (list_conversation_items ext t c after n asc db)
      | Existing_ids_call t c ids \<Rightarrow> seen db Ids_answer (get_existing_conversation_item_ids t c ids db)
      | Get_item_call t c i \<Rightarrow> seen db Item_answer (get_conversation_item ext t c i db)
      | Delete_item_call t c i \<Rightarrow> told (delete_conversation_item t c i db)
      | Item_position_call t c i \<Rightarrow> seen db Position_answer (conversation_item_position t c i db)
      | Max_position_call t c \<Rightarrow> seen db Greatest_answer (max_item_position t c db))"

text \<open>The statements a call sends.\<close>

definition call_statements :: "storage_backend \<Rightarrow> table_names \<Rightarrow> store_call \<Rightarrow> sql_stmt list" where
  "call_statements d tables call =
     (case call of
        Upsert_response_call r \<Rightarrow> [upsert_response_stmt d (tn_responses tables)]
      | Get_response_call t i \<Rightarrow> [Select_from (Columns response_columns) (tn_responses tables) of_response None None]
      | Delete_response_call t i \<Rightarrow> [Delete_from (tn_responses tables) of_response]
      | Upsert_conversation_call r \<Rightarrow> [upsert_conversation_stmt (tn_conversations tables)]
      | Get_conversation_call t c \<Rightarrow>
          [Select_from (Columns conversation_columns) (tn_conversations tables) (of_conversation 1) None None]
      | Update_messages_call t c v \<Rightarrow> [Update_set (tn_conversations tables) ''messages'' 1 (of_conversation 2)]
      | Delete_conversation_call t c \<Rightarrow> [Delete_from (tn_conversations tables) (of_conversation 1)]
      | Create_items_call items \<Rightarrow> item_statements tables (\<lambda>t. [Insert_into t item_columns Abort_insert])
      | List_items_call t c after n asc \<Rightarrow>
          item_statements tables (\<lambda>t. [Select_from (Columns [''position'']) t of_item None None,
            list_items_stmt t False asc, list_items_stmt t True asc])
      | Existing_ids_call t c ids \<Rightarrow> item_statements tables (\<lambda>t. [existing_ids_stmt d t (length ids)])
      | Get_item_call t c i \<Rightarrow> item_statements tables (\<lambda>t. [Select_from (Columns item_columns) t of_item None None])
      | Delete_item_call t c i \<Rightarrow> item_statements tables (\<lambda>t. [Delete_from t of_item])
      | Item_position_call t c i \<Rightarrow>
          item_statements tables (\<lambda>t. [Select_from (Columns [''position'']) t of_item None None])
      | Max_position_call t c \<Rightarrow>
          item_statements tables (\<lambda>t. [Select_from (Greatest_or_zero ''position'' ''max_pos'') t of_scope None None]))"

lemma existing_ids_in_order: "in_order (existing_ids_stmt d t n)"
proof (cases d)
  case Sqlite
  have "[1..<n + 3] = 1 # 2 # [3..<n + 3]" by (simp add: upt_conv_Cons numeral_3_eq_3 numeral_2_eq_2 del: upt_Suc)
  then show ?thesis
    using Sqlite by (simp add: in_order_def existing_ids_stmt_def of_scope_def numeral_3_eq_3 del: upt_Suc)
qed (simp add: in_order_def existing_ids_stmt_def of_scope_def)

lemma statements_in_order: "s \<in> set (call_statements d tables call) \<Longrightarrow> in_order s"
  by (cases call)
     (auto simp: call_statements_def item_statements_def in_order_insert existing_ids_in_order upsert_response_stmt_def
        upsert_conversation_stmt_def in_order_def [of "Select_from a b c f g" for a b c f g]
        in_order_def [of "Delete_from a b" for a b] in_order_def [of "Update_set a b c f" for a b c f]
        of_response_def of_conversation_def of_item_def of_scope_def list_items_stmt_def after_cursor_def
        split: option.splits)

section \<open>The backends refine the store\<close>

lemma sqlite_call_refines:
  assumes dist: "tables_distinct (db_tables db)" and tx: "begin_tx e = live_db" "commit_tx e = live_db"
    and runs: "list_all (runs Sqlite e) (call_statements Sqlite (db_tables db) call)"
    and backend: "db_backend db = Sqlite"
  shows "sqlite_call e ext (db_tables db) call (sql_of db) = map_sum id (map_prod sql_of id) (model_call ext call db)"
  using runs
  by (cases call)
     (simp_all add: sqlite_call_def model_call_def call_statements_def answered_def
        upsert_response_def backend upsert_response_refines(1) [OF dist] get_response_refines(1) [OF dist]
        delete_response_refines(1) [OF dist] upsert_conversation_refines(1) [OF dist]
        get_conversation_refines(1) [OF dist] update_messages_refines(1) [OF dist]
        delete_conversation_refines(1) [OF dist] create_items_refines(1) [OF dist tx] list_items_refines(1) [OF dist]
        existing_ids_refines(1) [OF dist] get_item_refines(1) [OF dist] delete_item_refines(1) [OF dist]
        item_position_refines(1) [OF dist] max_position_refines(1) [OF dist] changed_def told_def seen_def sum.map_comp comp_def prod.map_comp)

lemma postgres_call_refines:
  assumes dist: "tables_distinct (db_tables db)" and tx: "begin_tx e = live_db" "commit_tx e = live_db"
    and runs: "list_all (runs Postgres e) (call_statements Postgres (db_tables db) call)"
    and backend: "db_backend db = Postgres"
  shows "postgres_call e ext (db_tables db) call (sql_of db) = map_sum id (map_prod sql_of id) (model_call ext call db)"
  using runs
  by (cases call)
     (simp_all add: postgres_call_def model_call_def call_statements_def answered_def
        upsert_response_def backend upsert_response_refines(2) [OF dist] get_response_refines(2) [OF dist]
        delete_response_refines(2) [OF dist] upsert_conversation_refines(2) [OF dist]
        get_conversation_refines(2) [OF dist] update_messages_refines(2) [OF dist]
        delete_conversation_refines(2) [OF dist] create_items_refines(2) [OF dist tx] list_items_refines(2) [OF dist]
        existing_ids_refines(2) [OF dist] get_item_refines(2) [OF dist] delete_item_refines(2) [OF dist]
        item_position_refines(2) [OF dist] max_position_refines(2) [OF dist] changed_def told_def seen_def sum.map_comp comp_def prod.map_comp)

text \<open>
  C14. The statements of both backends do what the store promises. In a database whose tables were
  created, whichever operation of the store is called, with a driver that runs by its meaning every
  statement the call sends: the backend's texts, the values it binds and the columns it reads give
  the answer of the modelled operation, and the tables after it are those of the modelled store
  after it; when the operation fails, it fails with the same error.
\<close>

theorem backends_run_operations:
  assumes "generate_ddl (db_tables db) = Inr ddl"
    and "runs_by_meaning (db_backend db) e (call_statements (db_backend db) (db_tables db) call)"
  shows "backend_call e ext (db_backend db) (db_tables db) call (sql_of db) =
    map_sum id (map_prod sql_of id) (model_call ext call db)"
proof -
  note dist = created_tables_distinct [OF assms(1)]
  have tx: "begin_tx e = live_db" "commit_tx e = live_db" using assms(2) by (simp_all add: runs_by_meaning_def)
  have runs: "list_all (runs (db_backend db) e) (call_statements (db_backend db) (db_tables db) call)"
    using assms(2) statements_in_order by (auto simp: runs_by_meaning_def runs_def list_all_iff)
  show ?thesis
    using sqlite_call_refines [OF dist tx, of call] postgres_call_refines [OF dist tx, of call] runs
    by (cases "db_backend db") (simp_all add: backend_call_def)
qed

text \<open>Two tenants with an item of one name, and a driver for the statement that reads an item.\<close>

definition two_tenants :: store_db where
  "two_tenants =
     \<lparr>db_backend = Postgres, db_tables = \<lparr>tn_responses = ''r'', tn_conversations = ''c'', tn_items = Some ''i''\<rparr>,
      db_fault = None, db_collation = (\<lambda>s. s), db_responses = [], db_conversations = [],
      db_items = [\<lparr>irow_item_id = ''m'', irow_tenant_id = ''a'', irow_conversation_id = ''k'', irow_item_data = ''1'',
                   irow_created_at = 7, irow_position = 1\<rparr>,
                  \<lparr>irow_item_id = ''m'', irow_tenant_id = ''b'', irow_conversation_id = ''k'', irow_item_data = ''2'',
                   irow_created_at = 8, irow_position = 1\<rparr>]\<rparr>"

definition one_statement :: "storage_backend \<Rightarrow> sql_stmt \<Rightarrow> sql_engine" where
  "one_statement d s =
     \<lparr>run_sql = (\<lambda>sql. if sql = stmt_text d s then exec_stmt s else (\<lambda>binds db. Inl ''syntax error'')),
      begin_tx = live_db, commit_tx = live_db, column_error = (\<lambda>c. c), no_row_error = []\<rparr>"

definition echo_ext :: externals where
  "echo_ext = null_ext\<lparr>from_slice := (\<lambda>s. Inr (JString s))\<rparr>"

lemma backends_run_operations_witness:
  "backend_call (one_statement Postgres (Select_from (Columns item_columns) ''i'' of_item None None)) echo_ext Postgres
     (db_tables two_tenants) (Get_item_call ''b'' ''k'' ''m'') (sql_of two_tenants) =
   Inr (sql_of two_tenants, Item_answer (Some \<lparr>ir_item_id = ''m'', ir_tenant_id = ''b'', ir_conversation_id = ''k'',
     ir_item_data = JString ''2'', ir_created_at = 8, ir_position = 1\<rparr>))"
proof -
  let ?e = "one_statement Postgres (Select_from (Columns item_columns) ''i'' of_item None None)"
  have db: "db_backend two_tenants = Postgres" "tn_items (db_tables two_tenants) = Some ''i''"
    by (simp_all add: two_tenants_def)
  have "\<not> isl (generate_ddl (db_tables two_tenants))" by code_simp
  then have created: "\<exists>ddl. generate_ddl (db_tables two_tenants) = Inr ddl" by (cases "generate_ddl (db_tables two_tenants)") auto
  have runs: "runs_by_meaning (db_backend two_tenants) ?e
      (call_statements (db_backend two_tenants) (db_tables two_tenants) (Get_item_call ''b'' ''k'' ''m''))"
    by (simp add: runs_by_meaning_def one_statement_def call_statements_def item_statements_def db)
  have "model_call echo_ext (Get_item_call ''b'' ''k'' ''m'') two_tenants = Inr (two_tenants, Item_answer (Some
      \<lparr>ir_item_id = ''m'', ir_tenant_id = ''b'', ir_conversation_id = ''k'', ir_item_data = JString ''2'',
       ir_created_at = 8, ir_position = 1\<rparr>))"
    by (simp add: model_call_def seen_def get_conversation_item_def with_items_table_def two_tenants_def execute_def
        item_key_def row_to_conversation_item_record_def from_column_def echo_ext_def)
  with created backends_run_operations [OF _ runs, of _ echo_ext] show ?thesis by (auto simp: db)
qed

end
