(* ===== verification/Store_Connect.thy ===== *)
theory Store_Connect
  imports Conversation_Filter
begin

text \<open>
  How the two backends are opened, step by step (\<open>new\<close> in \<open>apis/src/store/sqlite.rs\<close> and
  \<open>postgres.rs\<close>): the options of the connection, the pool, and the statements that create the tables, in
  their order. The driver is a parameter; \<open>'o\<close> are its options and \<open>'d\<close> the databases it opens. The
  connector of the filters, which hides these steps, is an instance.
\<close>

section \<open>The driver\<close>

text \<open>What is set of a pool, over the defaults of the driver; a time of None is no limit.\<close>

record pool_options =
  max_pool :: "nat option"
  min_pool :: "nat option"
  idle_timeout :: "nat option option"
  max_lifetime :: "nat option option"

definition default_pool :: pool_options where
  "default_pool = \<lparr>max_pool = None, min_pool = None, idle_timeout = None, max_lifetime = None\<rparr>"

datatype pg_ssl_mode = PgDisable | PgPrefer | PgRequire | PgVerifyCa | PgVerifyFull

record ('o, 'd) db_driver =
  parse_options :: "str \<Rightarrow> str + 'o"
  create_if_missing :: "bool \<Rightarrow> 'o \<Rightarrow> 'o"
  set_ssl_mode :: "pg_ssl_mode \<Rightarrow> 'o \<Rightarrow> 'o"
  set_ssl_root_cert :: "str \<Rightarrow> 'o \<Rightarrow> 'o"
  connect_pool :: "pool_options \<Rightarrow> 'o \<Rightarrow> str + 'd"
  execute :: "str \<Rightarrow> 'd \<Rightarrow> str + 'd"

definition driver_result :: "str + 'a \<Rightarrow> store_error + 'a" where
  "driver_result r = map_sum Database id r"

text \<open>The statements one after the other, up to the first that fails.\<close>

definition create_tables :: "('o, 'd) db_driver \<Rightarrow> str list \<Rightarrow> 'd \<Rightarrow> store_error + 'd" where
  "create_tables drv ddl = fold_result (\<lambda>sql db. driver_result (execute drv sql db)) ddl"

section \<open>SQLite\<close>

definition pool_memory_database_url :: "str \<Rightarrow> bool" where
  "pool_memory_database_url database_url =
     (let url = str_trim database_url
      in url = ''sqlite::memory:'' \<or> url = ''sqlite://:memory:'' \<or>
         list_ex (\<lambda>param. param = ''mode=memory'' \<or> starts_with param ''mode=memory&'')
           (split_char (CHR ''&'') (case split_once ''?'' url of None \<Rightarrow> [] | Some (_, q) \<Rightarrow> q)))"

definition sqlite_pool_options :: "str \<Rightarrow> pool_options" where
  "sqlite_pool_options database_url =
     (if pool_memory_database_url database_url
      then \<lparr>max_pool = Some 1, min_pool = Some 1, idle_timeout = Some None, max_lifetime = Some None\<rparr>
      else default_pool)"

definition sqlite_store :: "('o, 'd) db_driver \<Rightarrow> str \<Rightarrow> table_names \<Rightarrow> store_error + 'd" where
  "sqlite_store drv database_url tables =
     and_then (generate_ddl tables) (\<lambda>ddl.
     and_then (driver_result (parse_options drv database_url)) (\<lambda>options.
     and_then (driver_result (connect_pool drv (sqlite_pool_options database_url) (create_if_missing drv True options)))
       (create_tables drv ddl)))"

section \<open>PostgreSQL\<close>

definition pg_ssl_mode_from :: "ssl_mode \<Rightarrow> pg_ssl_mode" where
  "pg_ssl_mode_from mode =
     (case mode of
        Disable \<Rightarrow> PgDisable | Prefer \<Rightarrow> PgPrefer | Require \<Rightarrow> PgRequire | VerifyCa \<Rightarrow> PgVerifyCa
      | VerifyFull \<Rightarrow> PgVerifyFull)"

definition pg_connect_options ::
  "('o, 'd) db_driver \<Rightarrow> str \<Rightarrow> ssl_mode option \<Rightarrow> str option \<Rightarrow> store_error + 'o" where
  "pg_connect_options drv database_url mode cert_path =
     and_then (driver_result (parse_options drv database_url)) (\<lambda>options0.
       (let options1 = (case mode of Some m \<Rightarrow> set_ssl_mode drv (pg_ssl_mode_from m) options0 | None \<Rightarrow> options0);
            options2 = (case cert_path of Some path \<Rightarrow> set_ssl_root_cert drv path options1 | None \<Rightarrow> options1)
        in Inr options2))"

definition postgres_store ::
  "('o, 'd) db_driver \<Rightarrow> str \<Rightarrow> table_names \<Rightarrow> ssl_mode option \<Rightarrow> str option \<Rightarrow> store_error + 'd" where
  "postgres_store drv database_url tables mode cert_path =
     and_then (validate_postgres_identifiers tables) (\<lambda>_.
     and_then (generate_ddl tables) (\<lambda>ddl.
     and_then (pg_connect_options drv database_url mode cert_path) (\<lambda>options.
     and_then (driver_result (connect_pool drv default_pool options)) (create_tables drv ddl))))"

section \<open>Memory databases\<close>

text \<open>
  The pool tells a memory database by one test more than the configuration does; no parameter passes
  it, since parameters hold no separator. So both agree on which database has but one connection.
\<close>

lemma memory_test_agrees: "pool_memory_database_url = is_memory_database_url"
proof -
  have "starts_with p ''mode=memory&'' = False" if "p \<in> set (split_char (CHR ''&'') s)" for p s
    using split_char_free [OF that] by (auto simp: starts_with_def strip_prefix_Some_iff)
  then show ?thesis
    by (auto simp: fun_eq_iff pool_memory_database_url_def is_memory_database_url_def Let_def list_ex_iff)
qed

text \<open>A memory database lives in one connection that is never given up.\<close>

lemma memory_pool:
  "sqlite_pool_options url =
     (if is_memory_database_url url
      then \<lparr>max_pool = Some 1, min_pool = Some 1, idle_timeout = Some None, max_lifetime = Some None\<rparr>
      else default_pool)"
  by (simp add: sqlite_pool_options_def memory_test_agrees)

text \<open>A query after the name of the memory database hides it from the test.\<close>

lemma memory_with_query_missed:
  "sqlite_pool_options ''sqlite::memory:'' \<noteq> default_pool"
  "sqlite_pool_options ''sqlite::memory:?cache=shared'' = default_pool"
  by code_simp+

section \<open>The connection of PostgreSQL\<close>

text \<open>What is configured goes before what the URL says, given a driver whose settings hold.\<close>

lemma configured_tls_wins:
  assumes "\<And>m o'. read_mode (set_ssl_mode drv m o') = m" "\<And>c o'. read_mode (set_ssl_root_cert drv c o') = read_mode o'"
    and "\<And>c o'. read_cert (set_ssl_root_cert drv c o') = c"
    and opts: "pg_connect_options drv url mode cert = Inr opts"
  shows "mode = Some m \<Longrightarrow> read_mode opts = pg_ssl_mode_from m" and "cert = Some c \<Longrightarrow> read_cert opts = c"
  using assms by (auto simp: pg_connect_options_def and_then_Inr_iff Let_def split: option.splits)

lemma url_tls_kept:
  "pg_connect_options drv url None None = driver_result (parse_options drv url)"
  by (cases "parse_options drv url") (simp_all add: pg_connect_options_def driver_result_def)

lemma ssl_modes_distinct: "inj pg_ssl_mode_from"
  by (auto simp: inj_def pg_ssl_mode_from_def split: ssl_mode.splits)

section \<open>The connector of the filters\<close>

text \<open>A connector made of two drivers; a handle names the database that was opened.\<close>

definition driver_message :: "store_error \<Rightarrow> str" where
  "driver_message e = (case e of Database msg \<Rightarrow> msg | _ \<Rightarrow> store_error_text e)"

definition connector_of :: "('o, 'd) db_driver \<Rightarrow> ('p, 'e) db_driver \<Rightarrow> ('d \<Rightarrow> nat) \<Rightarrow> ('e \<Rightarrow> nat) \<Rightarrow> connector" where
  "connector_of lite pg h k =
     \<lparr>open_sqlite = (\<lambda>url ddl. map_sum driver_message h
        (and_then (driver_result (parse_options lite url)) (\<lambda>options.
         and_then (driver_result (connect_pool lite (sqlite_pool_options url) (create_if_missing lite True options)))
           (create_tables lite ddl)))),
      open_postgres = (\<lambda>url mode cert ddl. map_sum driver_message k
        (and_then (pg_connect_options pg url mode cert) (\<lambda>options.
         and_then (driver_result (connect_pool pg default_pool options)) (create_tables pg ddl))))\<rparr>"

definition from_driver :: "store_error + 'a \<Rightarrow> bool" where
  "from_driver r = (case r of Inl e \<Rightarrow> \<exists>msg. e = Database msg | Inr _ \<Rightarrow> True)"

lemma from_driver_intros [intro]:
  "from_driver (Inr a)" "from_driver (driver_result x)"
  "from_driver y \<Longrightarrow> (\<And>a. from_driver (f a)) \<Longrightarrow> from_driver (and_then y f)"
proof -
  show "from_driver (driver_result x)" by (cases x) (simp_all add: from_driver_def driver_result_def)
  show "from_driver (and_then y f)" if "from_driver y" "\<And>a. from_driver (f a)"
    using that by (cases y) (simp_all add: from_driver_def)
qed (simp add: from_driver_def)

lemma create_tables_from_driver [intro]: "from_driver (create_tables drv ddl db)"
  unfolding create_tables_def by (induction ddl arbitrary: db) auto

lemma opened_from_driver:
  assumes "from_driver r"
  shows "opened (map_sum driver_message h r) = map_sum id h r"
  using assms by (auto simp: opened_def from_driver_def driver_message_def sum.map_comp split: sum.splits)

lemma pg_connect_options_from_driver [intro]: "from_driver (pg_connect_options drv url mode cert)"
  unfolding pg_connect_options_def Let_def by auto

lemma and_then_map: "and_then r (\<lambda>a. map_sum id h (f a)) = map_sum id h (and_then r f)"
  by (cases r) simp_all

text \<open>Opening through the connector is opening step by step.\<close>

lemma opened_step_by_step:
  shows "sqlite_new (connector_of lite pg h k) url tables = map_sum id h (sqlite_store lite url tables)"
    and "postgres_new (connector_of lite pg h k) url tables mode cert =
      map_sum id k (postgres_store pg url tables mode cert)"
proof -
  show "sqlite_new (connector_of lite pg h k) url tables = map_sum id h (sqlite_store lite url tables)"
    unfolding sqlite_new_def sqlite_store_def connector_of_def connector.simps
    by (subst opened_from_driver) (auto simp: and_then_map)
  show "postgres_new (connector_of lite pg h k) url tables mode cert =
      map_sum id k (postgres_store pg url tables mode cert)"
    unfolding postgres_new_def postgres_store_def connector_of_def connector.simps
    by (subst opened_from_driver) (auto simp: and_then_map)
qed

text \<open>A store that opened has run every statement of its tables, in their order.\<close>

lemma opened_store_has_tables:
  assumes "sqlite_store drv url tables = Inr db"
  shows "\<exists>ddl db0. generate_ddl tables = Inr ddl \<and>
    fold_result (execute drv) ddl db0 = Inr db"
proof -
  have "fold_result (execute drv) ddl d0 = Inr d1" if "create_tables drv ddl d0 = Inr d1" for ddl d0 d1
    using that unfolding create_tables_def
    by (induction ddl arbitrary: d0) (auto simp: driver_result_def and_then_eq_case split: sum.splits)
  then show ?thesis using assms by (auto simp: sqlite_store_def and_then_Inr_iff) blast
qed

end
