(* ===== verification/Server_Dump.thy ===== *)
theory Server_Dump
  imports Praxis
begin

text \<open>
  The configuration as the server reads it, and the dump of the effective configuration
  (\<open>server/src/dump.rs\<close>): secrets are redacted, and the chains of every listener are resolved to a flat
  list of filters.
\<close>

section \<open>Configuration\<close>

text \<open>
  \<open>Config\<close> is a type of \<open>praxis_core\<close>; the records have the fields that the server reads. The
  configuration of a filter is a YAML value, a mapping being the list of its entries in order.
\<close>

datatype yaml =
    YNull
  | YBool bool
  | YNumber str
  | YString str
  | YSequence "yaml list"
  | YMapping "(yaml \<times> yaml) list"
  | YTagged str yaml

datatype failure_mode = Fail_open | Fail_closed

text \<open>A branch refers to chains by name or holds one inline.\<close>

datatype 'e chain_ref = Named_chain str | Inline_chain "'e list"

datatype 'e branch = Branch "'e chain_ref list"

datatype filter_entry =
  FilterEntry (fe_name: "str option") (fe_type: str) (fe_failure_mode: failure_mode) (fe_config: yaml)
    (fe_branches: "filter_entry branch list option")

record filter_chain =
  fc_name :: str
  fc_filters :: "filter_entry list"

datatype protocol_kind = Http | Tcp

text \<open>Of the TLS settings of a listener only their presence and the key files are read.\<close>

record listener =
  l_name :: str
  l_address :: str
  l_protocol :: protocol_kind
  l_filter_chains :: "str list"
  l_tls :: "str list option"

record insecure_options =
  allow_root :: bool
  allow_unbounded_body :: bool
  allow_open_security_filters :: bool
  allow_public_admin :: bool
  allow_tls_without_sni :: bool
  allow_private_health_checks :: bool
  csrf_log_only :: bool
  skip_pipeline_validation :: bool

record 'c config =
  filter_chains :: "filter_chain list"
  listeners :: "listener list"
  insecure :: insecure_options
  max_request_bytes :: "nat option"
  max_response_bytes :: "nat option"
  max_connections :: "nat option"
  max_memory_bytes :: "nat option"
  admin_address :: "str option"
  admin_verbose :: bool
  clusters :: 'c

type_synonym server_error = str

section \<open>Redaction\<close>

definition REDACTED :: yaml where "REDACTED = YString ''[REDACTED]''"

definition SENSITIVE_FIELD_NAMES :: "str list" where
  "SENSITIVE_FIELD_NAMES = [''database_url'', ''key_path'', ''password'', ''secret'', ''token'']"

definition sensitive :: "yaml \<Rightarrow> bool" where
  "sensitive k \<longleftrightarrow> k \<in> YString ` set SENSITIVE_FIELD_NAMES"

text \<open>
  \<open>tags\<close> tells whether \<open>as_mapping_mut\<close> and \<open>as_sequence_mut\<close> look through a tag. A value that was
  just redacted is a string, which the loop over the values leaves alone.
\<close>

fun redact_sensitive_keys :: "bool \<Rightarrow> yaml \<Rightarrow> yaml" where
  "redact_sensitive_keys tags (YMapping kvs) =
     YMapping (map (\<lambda>(k, v).
       (k, if sensitive k then REDACTED
           else case v of
                  YMapping _ \<Rightarrow> redact_sensitive_keys tags v
                | YSequence items \<Rightarrow> YSequence (map (redact_sensitive_keys tags) items)
                | _ \<Rightarrow> v)) kvs)"
| "redact_sensitive_keys tags (YTagged tag v) = (if tags then YTagged tag (redact_sensitive_keys tags v) else YTagged tag v)"
| "redact_sensitive_keys tags v = v"

fun redact_cluster :: "bool \<Rightarrow> yaml \<Rightarrow> yaml" where
  "redact_cluster tags (YMapping kvs) =
     YMapping (map (\<lambda>(k, v). (k, if k \<in> {YString ''value'', YString ''env_var''} then REDACTED else v)) kvs)"
| "redact_cluster tags (YTagged tag v) = (if tags then YTagged tag (redact_cluster tags v) else YTagged tag v)"
| "redact_cluster tags v = v"

fun redact_cluster_list :: "bool \<Rightarrow> yaml \<Rightarrow> yaml" where
  "redact_cluster_list tags (YSequence items) = YSequence (map (redact_cluster tags) items)"
| "redact_cluster_list tags (YTagged tag v) =
     (if tags then YTagged tag (redact_cluster_list tags v) else YTagged tag v)"
| "redact_cluster_list tags v = v"

fun redact_credential_values :: "bool \<Rightarrow> yaml \<Rightarrow> yaml" where
  "redact_credential_values tags (YMapping kvs) =
     YMapping (map (\<lambda>(k, v). (k, if k = YString ''clusters'' then redact_cluster_list tags v else v)) kvs)"
| "redact_credential_values tags (YTagged tag v) =
     (if tags then YTagged tag (redact_credential_values tags v) else YTagged tag v)"
| "redact_credential_values tags v = v"

definition redact_config :: "bool \<Rightarrow> str \<Rightarrow> yaml \<Rightarrow> yaml" where
  "redact_config tags filter_type config =
     redact_sensitive_keys tags
       (if filter_type = ''credential_injection'' then redact_credential_values tags config else config)"

primrec redact_filter_entry :: "bool \<Rightarrow> filter_entry \<Rightarrow> filter_entry" where
  "redact_filter_entry tags (FilterEntry name ty mode config branches) =
     FilterEntry name ty mode (redact_config tags ty config)
       (map_option (map (map_branch (redact_filter_entry tags))) branches)"

definition redact_secrets :: "bool \<Rightarrow> ('c, 'z) config_scheme \<Rightarrow> ('c, 'z) config_scheme" where
  "redact_secrets tags cfg =
     cfg\<lparr>filter_chains := map (\<lambda>chain. chain\<lparr>fc_filters := map (redact_filter_entry tags) (fc_filters chain)\<rparr>)
       (filter_chains cfg)\<rparr>"

section \<open>Resolved listeners\<close>

record resolved_filter_dump =
  rf_name :: "str option"
  rf_chain :: str
  rf_chain_index :: nat
  rf_failure_mode :: failure_mode
  rf_filter :: str
  rf_pipeline_index :: nat

record resolved_listener_dump =
  rl_name :: str
  rl_chains :: "str list"
  rl_filters :: "resolved_filter_dump list"

record 'c effective_config_dump =
  config_source :: str
  configuration :: "'c config"
  resolved_listeners :: "resolved_listener_dump list"

text \<open>The map from names to chains that \<open>collect\<close> builds: a later chain replaces an earlier one.\<close>

definition chain_map :: "('c, 'z) config_scheme \<Rightarrow> str \<rightharpoonup> filter_entry list" where
  "chain_map cfg = map_of (rev (map (\<lambda>c. (fc_name c, fc_filters c)) (filter_chains cfg)))"

text \<open>The inner loop, over the filters of one chain from the \<open>i\<close>-th on.\<close>

fun resolve_chain ::
  "str \<Rightarrow> nat \<Rightarrow> filter_entry list \<Rightarrow> resolved_filter_dump list \<times> nat \<Rightarrow> resolved_filter_dump list \<times> nat" where
  "resolve_chain chain i [] acc = acc"
| "resolve_chain chain i (entry # rest) (filters, pipeline_index) =
     resolve_chain chain (Suc i) rest
       (filters @ [\<lparr>rf_name = fe_name entry, rf_chain = chain, rf_chain_index = i, rf_failure_mode = fe_failure_mode entry,
          rf_filter = fe_type entry, rf_pipeline_index = pipeline_index\<rparr>], Suc pipeline_index)"

definition build_resolved_filters ::
  "str list \<Rightarrow> (str \<rightharpoonup> filter_entry list) \<Rightarrow> server_error + resolved_filter_dump list" where
  "build_resolved_filters chain_names chain_of =
     map_sum id fst
       (fold_result (\<lambda>chain_name acc.
          case chain_of chain_name of
            None \<Rightarrow> Inl (''unknown chain '' @ quoted chain_name @ '' in validated config'')
          | Some entries \<Rightarrow> Inr (resolve_chain chain_name 0 entries acc)) chain_names ([], 0))"

definition build_resolved_listener ::
  "(str \<rightharpoonup> filter_entry list) \<Rightarrow> listener \<Rightarrow> server_error + resolved_listener_dump" where
  "build_resolved_listener chain_of listener =
     map_sum id (\<lambda>fs. \<lparr>rl_name = l_name listener, rl_chains = l_filter_chains listener, rl_filters = fs\<rparr>)
       (build_resolved_filters (l_filter_chains listener) chain_of)"

definition build_resolved_listeners ::
  "'c config \<Rightarrow> (str \<rightharpoonup> filter_entry list) \<Rightarrow> server_error + resolved_listener_dump list" where
  "build_resolved_listeners cfg chain_of = map_result (build_resolved_listener chain_of) (listeners cfg)"

definition build_dump :: "bool \<Rightarrow> 'c config \<Rightarrow> str \<Rightarrow> server_error + 'c effective_config_dump" where
  "build_dump tags cfg source =
     map_sum id (\<lambda>ls. \<lparr>config_source = source, configuration = redact_secrets tags cfg, resolved_listeners = ls\<rparr>)
       (build_resolved_listeners cfg (chain_map cfg))"

section \<open>No secret is shown\<close>

text \<open>Somewhere in the value a sensitive field has another value than the placeholder.\<close>

fun leaks :: "yaml \<Rightarrow> bool" where
  "leaks (YMapping kvs) = list_ex (\<lambda>(k, v). if sensitive k then v \<noteq> REDACTED else leaks v) kvs"
| "leaks (YSequence items) = list_ex leaks items"
| "leaks (YTagged _ v) = leaks v"
| "leaks _ = False"

text \<open>Values without tags, in which no sequence is an item of a sequence.\<close>

fun plain :: "yaml \<Rightarrow> bool" where
  "plain (YMapping kvs) = list_all (\<lambda>(k, v). plain v) kvs"
| "plain (YSequence items) = list_all (\<lambda>v. plain v \<and> (\<forall>xs. v \<noteq> YSequence xs)) items"
| "plain (YTagged _ _) = False"
| "plain _ = True"

lemma redact_no_leak: "plain v \<Longrightarrow> \<nexists>xs. v = YSequence xs \<Longrightarrow> \<not> leaks (redact_sensitive_keys tags v)"
proof (induction tags v rule: redact_sensitive_keys.induct)
  case (1 tags kvs)
  have "\<not> (if sensitive k then w \<noteq> REDACTED else leaks w)"
    if "(k, v) \<in> set kvs" and w: "w = (if sensitive k then REDACTED else case v of
        YMapping _ \<Rightarrow> redact_sensitive_keys tags v
      | YSequence items \<Rightarrow> YSequence (map (redact_sensitive_keys tags) items) | _ \<Rightarrow> v)" for k v w
  proof -
    from that 1(3) have "plain v" by (auto simp: list_all_iff)
    with 1(1,2) [OF that(1) refl] w show ?thesis
      by (cases v) (auto simp: list_ex_iff list_all_iff)
  qed
  then show ?case by (fastforce simp: list_ex_iff)
qed auto

text \<open>The clusters of a \<open>credential_injection\<close> filter show a credential.\<close>

definition credential_key :: "yaml \<Rightarrow> bool" where
  "credential_key k \<longleftrightarrow> k \<in> {YString ''value'', YString ''env_var''}"

fun entries_of :: "yaml \<Rightarrow> (yaml \<times> yaml) list" where
  "entries_of (YMapping kvs) = kvs"
| "entries_of _ = []"

fun items_of :: "yaml \<Rightarrow> yaml list" where
  "items_of (YSequence items) = items"
| "items_of _ = []"

definition shows_credential :: "yaml \<Rightarrow> bool" where
  "shows_credential v \<longleftrightarrow>
     (\<exists>clusters item x. (YString ''clusters'', clusters) \<in> set (entries_of v) \<and> item \<in> set (items_of clusters) \<and>
        x \<in> set (entries_of item) \<and> credential_key (fst x) \<and> snd x \<noteq> REDACTED)"

lemma REDACTED_simps [simp]: "plain REDACTED" "REDACTED \<noteq> YSequence xs" "redact_sensitive_keys tags REDACTED = REDACTED"
  "(case REDACTED of YMapping a \<Rightarrow> f a | YSequence b \<Rightarrow> g b | _ \<Rightarrow> REDACTED) = REDACTED"
  by (simp_all add: REDACTED_def)

lemma sensitive_clusters [simp]: "\<not> sensitive (YString ''clusters'')"
  by (simp add: sensitive_def SENSITIVE_FIELD_NAMES_def image_iff)

lemma credential_not_sensitive: "credential_key k \<Longrightarrow> \<not> sensitive k"
  by (auto simp: credential_key_def sensitive_def SENSITIVE_FIELD_NAMES_def)

lemma redact_credential_plain:
  assumes "plain v" and "\<nexists>xs. v = YSequence xs"
  shows "plain (redact_credential_values tags v) \<and> (\<nexists>xs. redact_credential_values tags v = YSequence xs)"
proof -
  have item: "plain (redact_cluster tags w) \<and> (\<forall>xs. redact_cluster tags w \<noteq> YSequence xs)"
    if "plain w" "\<forall>xs. w \<noteq> YSequence xs" for w
    using that by (cases w) (auto simp: list_all_iff)
  then have "plain (redact_cluster_list tags w)" if "plain w" for w
    using that by (cases w) (auto simp: list_all_iff)
  with assms show ?thesis by (cases v) (auto simp: list_all_iff)
qed

lemma no_credential:
  assumes "plain v"
  shows "\<not> shows_credential (redact_sensitive_keys tags (redact_credential_values tags v))"
proof (cases v)
  case (YMapping kvs)
  have entry: "snd x = REDACTED"
    if "x \<in> set (entries_of (redact_sensitive_keys tags (redact_cluster tags item)))" "credential_key (fst x)" "plain item"
    for x item
    using that
    by (cases item) (auto simp: credential_key_def dest!: credential_not_sensitive split: if_splits)
  have "snd x = REDACTED"
    if "(YString ''clusters'', w) \<in> set kvs" "c = (case redact_cluster_list tags w of
          YMapping _ \<Rightarrow> redact_sensitive_keys tags (redact_cluster_list tags w)
        | YSequence items \<Rightarrow> YSequence (map (redact_sensitive_keys tags) items)
        | _ \<Rightarrow> redact_cluster_list tags w)"
      "item \<in> set (items_of c)" "x \<in> set (entries_of item)" "credential_key (fst x)" for w c item x
  proof -
    from that(1) YMapping assms have "plain w" by (auto simp: list_all_iff)
    with that(2-5) entry show ?thesis by (cases x; cases w) (auto simp: list_all_iff)
  qed
  with YMapping show ?thesis by (auto simp: shows_credential_def split: if_splits)
qed (use assms in \<open>auto simp: shows_credential_def\<close>)

section \<open>All configurations of an entry\<close>

text \<open>Those of the entry and of the entries in its inline branches, with the types of their filters.\<close>

primrec entry_configs :: "filter_entry \<Rightarrow> (str \<times> yaml) set" where
  "entry_configs (FilterEntry name ty mode config branches) =
     insert (ty, config) (\<Union>bs \<in> set_option (map_option (map (map_branch entry_configs)) branches). \<Union>b \<in> set bs. \<Union>(set_branch b))"

lemma entry_configs_redact:
  "entry_configs (redact_filter_entry tags e) = (\<lambda>(ty, v). (ty, redact_config tags ty v)) ` entry_configs e"
proof (induction e)
  case (FilterEntry name ty mode config branches)
  have "\<Union>(set_branch (map_branch (entry_configs \<circ> redact_filter_entry tags) b)) =
      (\<lambda>(ty, v). (ty, redact_config tags ty v)) ` \<Union>(set_branch (map_branch entry_configs b))"
    if "branches = Some bs" "b \<in> set bs" for bs b
    using FilterEntry that by (auto simp: branch.set_map image_UN)
  then show ?case
    by (cases branches) (auto simp: branch.map_comp image_UN image_Un)
qed

definition chain_configs :: "filter_chain list \<Rightarrow> (str \<times> yaml) set" where
  "chain_configs cs = (\<Union>chain \<in> set cs. \<Union>e \<in> set (fc_filters chain). entry_configs e)"

lemma chain_configs_redact:
  "chain_configs (filter_chains (redact_secrets tags cfg)) =
     (\<lambda>(ty, v). (ty, redact_config tags ty v)) ` chain_configs (filter_chains cfg)"
  by (simp add: chain_configs_def redact_secrets_def entry_configs_redact image_UN)

text \<open>
  C21. The dump of the configuration shows no secret: in no filter of a chain, nor in the filters of inline
  branches at any depth, has a field called \<open>database_url\<close>, \<open>key_path\<close>, \<open>password\<close>, \<open>secret\<close> or
  \<open>token\<close> another value than the placeholder, however deep it lies in mappings and lists of
  mappings, and the clusters of a \<open>credential_injection\<close> filter show neither value nor variable;
  provided that no list is directly an item of a list and no value is tagged. The types of the
  filters are those of the configuration.
\<close>

theorem dump_shows_no_secret:
  assumes "build_dump tags cfg source = Inr d"
    and "\<forall>(ty, v) \<in> chain_configs (filter_chains cfg). plain v \<and> (\<nexists>xs. v = YSequence xs)"
  shows "(\<forall>(ty, v) \<in> chain_configs (filter_chains (configuration d)).
      \<not> leaks v \<and> (ty = ''credential_injection'' \<longrightarrow> \<not> shows_credential v)) \<and>
    fst ` chain_configs (filter_chains (configuration d)) = fst ` chain_configs (filter_chains cfg)"
proof -
  from assms(1) have d: "configuration d = redact_secrets tags cfg"
    by (auto simp: build_dump_def dest!: map_sum_InrD)
  have "\<not> leaks (redact_config tags ty v) \<and> (ty = ''credential_injection'' \<longrightarrow> \<not> shows_credential (redact_config tags ty v))"
    if "(ty, v) \<in> chain_configs (filter_chains cfg)" for ty v
    using that assms(2) redact_credential_plain [of v tags] redact_no_leak no_credential
    by (auto simp: redact_config_def)
  moreover have "fst ` (\<lambda>(ty, v). (ty, redact_config tags ty v)) ` A = fst ` A" for A
    by (simp add: image_image case_prod_beta)
  ultimately show ?thesis unfolding d chain_configs_redact by auto
qed

text \<open>A secret in an inline branch, in a list of mappings.\<close>

definition secret_config :: "unit config" where
  "secret_config =
     \<lparr>filter_chains = [\<lparr>fc_name = ''main'', fc_filters =
        [FilterEntry None ''router'' Fail_closed (YMapping []) (Some [Branch [Inline_chain
          [FilterEntry None ''guard'' Fail_closed
             (YMapping [(YString ''pools'', YSequence [YMapping [(YString ''password'', YString ''hunter2'')]])]) None]]])]\<rparr>],
      listeners = [], insecure = \<lparr>allow_root = False, allow_unbounded_body = False,
        allow_open_security_filters = False, allow_public_admin = False, allow_tls_without_sni = False,
        allow_private_health_checks = False, csrf_log_only = False, skip_pipeline_validation = False\<rparr>,
      max_request_bytes = None, max_response_bytes = None, max_connections = None, max_memory_bytes = None,
      admin_address = None, admin_verbose = False, clusters = ()\<rparr>"

lemma dump_shows_no_secret_witness:
  "\<exists>d. build_dump True secret_config ''praxis.yaml'' = Inr d \<and>
     (\<exists>v. (''guard'', v) \<in> chain_configs (filter_chains secret_config) \<and> leaks v) \<and>
     (\<exists>v. (''guard'', v) \<in> chain_configs (filter_chains (configuration d)) \<and> \<not> leaks v)"
proof -
  obtain d where d: "build_dump True secret_config ''praxis.yaml'' = Inr d"
    by (simp add: build_dump_def build_resolved_listeners_def secret_config_def)
  have configs: "chain_configs (filter_chains secret_config) = {(''router'', YMapping []),
      (''guard'', YMapping [(YString ''pools'', YSequence [YMapping [(YString ''password'', YString ''hunter2'')]])])}"
    by (auto simp: chain_configs_def secret_config_def)
  have plain: "\<forall>(ty, v) \<in> chain_configs (filter_chains secret_config). plain v \<and> (\<nexists>xs. v = YSequence xs)"
    by (simp add: configs)
  note shown = dump_shows_no_secret [OF d plain]
  then have "''guard'' \<in> fst ` chain_configs (filter_chains (configuration d))" by (simp add: configs)
  then obtain v where "(''guard'', v) \<in> chain_configs (filter_chains (configuration d))" by auto
  with shown have "\<exists>v. (''guard'', v) \<in> chain_configs (filter_chains (configuration d)) \<and> \<not> leaks v" by auto
  moreover have "\<exists>v. (''guard'', v) \<in> chain_configs (filter_chains secret_config) \<and> leaks v"
    by (simp add: configs sensitive_def SENSITIVE_FIELD_NAMES_def REDACTED_def)
  ultimately show ?thesis using d by blast
qed

text \<open>A list in a list is not searched: its secret is shown as it is.\<close>

lemma nested_list_shown:
  "redact_sensitive_keys tags
     (YMapping [(YString ''pools'', YSequence [YSequence [YMapping [(YString ''password'', YString ''hunter2'')]]])]) =
   YMapping [(YString ''pools'', YSequence [YSequence [YMapping [(YString ''password'', YString ''hunter2'')]]])]"
  by (simp add: sensitive_def SENSITIVE_FIELD_NAMES_def)

end
