(* ===== verification/Server_Pipelines.thy ===== *)
theory Server_Pipelines
  imports Server_Dump "HOL-Library.AList"
begin

text \<open>
  How the server turns its configuration into one pipeline per listener (\<open>server/src/pipelines.rs\<close>),
  and what \<open>--validate\<close> and \<open>--dump\<close> do with it (\<open>commands.rs\<close>).
\<close>

section \<open>Pipelines\<close>

text \<open>
  \<open>FilterPipeline\<close>, \<open>HealthRegistry\<close> and \<open>KvStoreRegistry\<close> are types of other crates; a record holds the
  functions the server calls on them, with the filter registry fixed. \<open>build_with_chains\<close> may change the
  entries it is given; \<open>add_response_store\<close> is \<open>add_pipeline_extension\<close> with a new response store registry.
\<close>

record ('p, 'h, 'k, 'c) pipeline_fns =
  build_with_chains :: "filter_entry list \<Rightarrow> (str \<rightharpoonup> filter_entry list) \<Rightarrow> server_error + 'p \<times> filter_entry list"
  apply_body_limits :: "nat option \<Rightarrow> nat option \<Rightarrow> bool \<Rightarrow> 'p \<Rightarrow> server_error + 'p"
  health_is_empty :: "'h \<Rightarrow> bool"
  set_health_registry :: "'h \<Rightarrow> 'p \<Rightarrow> 'p"
  kv_is_empty :: "'k \<Rightarrow> bool"
  set_kv_stores :: "'k \<Rightarrow> 'p \<Rightarrow> 'p"
  add_response_store :: "'p \<Rightarrow> 'p"
  apply_insecure_options :: "insecure_options \<Rightarrow> 'p \<Rightarrow> 'p"
  ordering_errors :: "'p \<Rightarrow> filter_entry list \<Rightarrow> bool \<Rightarrow> str list"
  build_health_registry :: "'c \<Rightarrow> 'h"
  validate_log_overrides :: "'c config \<Rightarrow> server_error + unit"

definition configure_pipeline ::
  "('p, 'h, 'k, 'c) pipeline_fns \<Rightarrow> 'p \<Rightarrow> 'c config \<Rightarrow> 'h \<Rightarrow> 'k \<Rightarrow> server_error + 'p" where
  "configure_pipeline fns pipeline cfg health kv =
     and_then (apply_body_limits fns (max_request_bytes cfg) (max_response_bytes cfg)
                 (allow_unbounded_body (insecure cfg)) pipeline) (\<lambda>p. Inr
       (apply_insecure_options fns (insecure cfg)
         (add_response_store fns
           (apply_if (\<not> kv_is_empty fns kv) (set_kv_stores fns kv)
             (apply_if (\<not> health_is_empty fns health) (set_health_registry fns health) p)))))"

definition validate_pipeline ::
  "('p, 'h, 'k, 'c) pipeline_fns \<Rightarrow> 'p \<Rightarrow> filter_entry list \<Rightarrow> str \<Rightarrow> bool \<Rightarrow> bool \<Rightarrow> server_error + unit" where
  "validate_pipeline fns pipeline entries listener_name skip allow_open_security =
     (let errors = ordering_errors fns pipeline entries allow_open_security
      in if skip then Inr ()
         else if errors \<noteq> [] then
           Inl (''pipeline validation failed for listener '' @ quoted listener_name @ '': '' @ str_join ''; '' errors)
         else Inr ())"

text \<open>The filters of the chains of a listener, in order.\<close>

definition listener_entries ::
  "(str \<rightharpoonup> filter_entry list) \<Rightarrow> listener \<Rightarrow> server_error + filter_entry list" where
  "listener_entries chain_of listener =
     fold_result (\<lambda>chain_name entries.
       case chain_of chain_name of
         None \<Rightarrow> Inl (''unknown chain '' @ quoted chain_name @ '' for listener '' @ quoted (l_name listener))
       | Some chain_filters \<Rightarrow> Inr (entries @ chain_filters)) (l_filter_chains listener) []"

definition listener_pipeline ::
  "('p, 'h, 'k, 'c) pipeline_fns \<Rightarrow> 'c config \<Rightarrow> 'h \<Rightarrow> 'k \<Rightarrow> listener \<Rightarrow> server_error + 'p" where
  "listener_pipeline fns cfg health kv listener =
     and_then (listener_entries (chain_map cfg) listener) (\<lambda>entries.
     and_then (build_with_chains fns entries (chain_map cfg)) (\<lambda>(built, entries').
     and_then (configure_pipeline fns built cfg health kv) (\<lambda>pipeline.
     and_then (validate_pipeline fns pipeline entries' (l_name listener)
                 (skip_pipeline_validation (insecure cfg)) (allow_open_security_filters (insecure cfg))) (\<lambda>_.
       Inr pipeline))))"

text \<open>\<open>HashMap::insert\<close>: the entries with distinct keys in the order of an iteration.\<close>

definition resolve_pipelines ::
  "('p, 'h, 'k, 'c) pipeline_fns \<Rightarrow> 'c config \<Rightarrow> 'h \<Rightarrow> 'k \<Rightarrow> server_error + (str \<times> 'p) list" where
  "resolve_pipelines fns cfg health kv =
     fold_result (\<lambda>listener pipelines.
       map_sum id (\<lambda>p. AList.update (l_name listener) p pipelines) (listener_pipeline fns cfg health kv listener))
       (listeners cfg) []"

section \<open>Validate and dump\<close>

definition validate_config_for_startup ::
  "('p, 'h, 'k, 'c) pipeline_fns \<Rightarrow> 'k \<Rightarrow> 'c config \<Rightarrow> server_error + unit" where
  "validate_config_for_startup fns kv cfg =
     and_then (validate_log_overrides fns cfg) (\<lambda>_.
     and_then (resolve_pipelines fns cfg (build_health_registry fns (clusters cfg)) kv) (\<lambda>_. Inr ()))"

text \<open>
  \<open>load\<close> is \<open>praxis_ai::load_config\<close>; \<open>default_exists\<close> tells whether the working directory has a
  \<open>praxis.yaml\<close>; \<open>new_kv\<close> is a new registry of stores.
\<close>

definition load_and_validate_for_cli ::
  "('p, 'h, 'k, 'c) pipeline_fns \<Rightarrow> 'k \<Rightarrow> (str option \<Rightarrow> server_error + 'c config) \<Rightarrow> str option
    \<Rightarrow> server_error + 'c config" where
  "load_and_validate_for_cli fns new_kv load explicit =
     and_then (load explicit) (\<lambda>cfg. and_then (validate_config_for_startup fns new_kv cfg) (\<lambda>_. Inr cfg))"

definition default_config_source :: "bool \<Rightarrow> str" where
  "default_config_source default_exists = (if default_exists then ''praxis.yaml'' else ''<built-in default>'')"

definition resolve_config_path :: "bool \<Rightarrow> str option \<Rightarrow> str option" where
  "resolve_config_path default_exists explicit =
     (case explicit of
        Some path \<Rightarrow> Some path
      | None \<Rightarrow> if default_exists then Some ''praxis.yaml'' else None)"

text \<open>What \<open>--dump\<close> writes.\<close>

definition run_dump ::
  "('p, 'h, 'k, 'c) pipeline_fns \<Rightarrow> 'k \<Rightarrow> (str option \<Rightarrow> server_error + 'c config) \<Rightarrow> bool \<Rightarrow> bool \<Rightarrow> str option
    \<Rightarrow> server_error + 'c effective_config_dump" where
  "run_dump fns new_kv load default_exists tags explicit =
     and_then (load_and_validate_for_cli fns new_kv load explicit) (\<lambda>cfg.
       build_dump tags cfg (case explicit of Some path \<Rightarrow> path | None \<Rightarrow> default_config_source default_exists))"

section \<open>The dump shows the pipelines\<close>

text \<open>A dumped filter shows an entry.\<close>

definition shows_entry :: "resolved_filter_dump \<Rightarrow> filter_entry \<Rightarrow> bool" where
  "shows_entry d e \<longleftrightarrow> rf_name d = fe_name e \<and> rf_filter d = fe_type e \<and> rf_failure_mode d = fe_failure_mode e"

lemma resolve_chain_shows:
  assumes "list_all2 shows_entry ds es" and "map rf_pipeline_index ds = [0..<length ds]"
    and "\<forall>d \<in> set ds. \<exists>c. chain_of (rf_chain d) = Some c \<and> rf_chain_index d < length c \<and> shows_entry d (c ! rf_chain_index d)"
    and "chain_of name = Some (pre @ rest)"
  shows "\<exists>ds'. resolve_chain name (length pre) rest (ds, length ds) = (ds', length ds') \<and>
    list_all2 shows_entry ds' (es @ rest) \<and> map rf_pipeline_index ds' = [0..<length ds'] \<and>
    (\<forall>d \<in> set ds'. \<exists>c. chain_of (rf_chain d) = Some c \<and> rf_chain_index d < length c \<and> shows_entry d (c ! rf_chain_index d))"
  using assms
proof (induction rest arbitrary: pre ds es)
  case (Cons e rest)
  let ?d = "\<lparr>rf_name = fe_name e, rf_chain = name, rf_chain_index = length pre, rf_failure_mode = fe_failure_mode e,
    rf_filter = fe_type e, rf_pipeline_index = length ds\<rparr>"
  have d: "shows_entry ?d e" by (simp add: shows_entry_def)
  have "\<exists>ds'. resolve_chain name (length (pre @ [e])) rest (ds @ [?d], length (ds @ [?d])) = (ds', length ds') \<and>
      list_all2 shows_entry ds' ((es @ [e]) @ rest) \<and> map rf_pipeline_index ds' = [0..<length ds'] \<and>
      (\<forall>d \<in> set ds'. \<exists>c. chain_of (rf_chain d) = Some c \<and> rf_chain_index d < length c \<and> shows_entry d (c ! rf_chain_index d))"
    by (rule Cons.IH) (use Cons.prems d in \<open>auto intro: list_all2_appendI\<close>)
  then show ?case by simp
qed auto

lemma resolved_filters_show:
  "case fold_result (\<lambda>chain_name entries.
       case chain_of chain_name of None \<Rightarrow> Inl (e chain_name) | Some c \<Rightarrow> Inr (entries @ c)) names [] of
     Inr es \<Rightarrow> (\<exists>ds. build_resolved_filters names chain_of = Inr ds \<and> list_all2 shows_entry ds es \<and>
       map rf_pipeline_index ds = [0..<length ds] \<and>
       (\<forall>d \<in> set ds. \<exists>c. chain_of (rf_chain d) = Some c \<and> rf_chain_index d < length c \<and> shows_entry d (c ! rf_chain_index d)))
   | Inl _ \<Rightarrow> \<exists>e. build_resolved_filters names chain_of = Inl e"
proof -
  define entries where "entries = (\<lambda>chain_name es.
      case chain_of chain_name of None \<Rightarrow> Inl (e chain_name) | Some c \<Rightarrow> Inr (es @ c))"
  define dumps where "dumps = (\<lambda>chain_name acc. case chain_of chain_name of
      None \<Rightarrow> Inl (''unknown chain '' @ quoted chain_name @ '' in validated config'')
    | Some entries \<Rightarrow> Inr (resolve_chain chain_name 0 entries acc))"
  define ok where "ok = (\<lambda>ds es. list_all2 shows_entry ds es \<and> map rf_pipeline_index ds = [0..<length ds] \<and>
    (\<forall>d \<in> set ds. \<exists>c. chain_of (rf_chain d) = Some c \<and> rf_chain_index d < length c \<and> shows_entry d (c ! rf_chain_index d)))"
  have "case fold_result entries names es of
      Inr es' \<Rightarrow> \<exists>ds'. fold_result dumps names (ds, length ds) = Inr (ds', length ds') \<and> ok ds' es'
    | Inl _ \<Rightarrow> \<exists>e. fold_result dumps names (ds, length ds) = Inl e" if "ok ds es" for ds es
    using that
  proof (induction names arbitrary: ds es)
    case (Cons name names)
    show ?case
    proof (cases "chain_of name")
      case None
      then show ?thesis by (simp add: entries_def dumps_def)
    next
      case (Some c)
      from resolve_chain_shows [of ds es chain_of name "[]" c] Some Cons.prems
      obtain ds' where "resolve_chain name 0 c (ds, length ds) = (ds', length ds')" "ok ds' (es @ c)"
        by (auto simp: ok_def)
      moreover from this Some have "entries name es = Inr (es @ c)" "dumps name (ds, length ds) = Inr (ds', length ds')"
        by (simp_all add: entries_def dumps_def)
      ultimately show ?thesis
        using Cons.IH [of ds' "es @ c"] by (cases "fold_result entries names (es @ c)") simp_all
    qed
  qed simp
  from this [of "[]" "[]"] show ?thesis
    unfolding entries_def [symmetric] build_resolved_filters_def dumps_def [symmetric]
    by (auto simp: ok_def split: sum.splits)
qed

lemma find_append: "find P (xs @ ys) = (case find P xs of None \<Rightarrow> find P ys | Some x \<Rightarrow> Some x)"
  by (induction xs) auto

lemma resolve_pipelines_listeners:
  assumes "fold_result (\<lambda>listener pipelines.
      map_sum id (\<lambda>p. AList.update (l_name listener) p pipelines) (f listener)) ls acc = Inr ps"
  shows "(\<forall>l \<in> set ls. \<exists>p. f l = Inr p) \<and>
    (\<forall>name. map_of ps name = (case find (\<lambda>l. l_name l = name) (rev ls) of
       Some l \<Rightarrow> Some (projr (f l)) | None \<Rightarrow> map_of acc name)) \<and>
    (distinct (map fst acc) \<longrightarrow> distinct (map fst ps)) \<and>
    fst ` set ps = l_name ` set ls \<union> fst ` set acc"
  using assms
proof (induction ls arbitrary: acc)
  case (Cons l ls)
  from Cons.prems obtain p where p: "f l = Inr p"
    and "fold_result (\<lambda>listener pipelines.
      map_sum id (\<lambda>p. AList.update (l_name listener) p pipelines) (f listener)) ls (AList.update (l_name l) p acc) = Inr ps"
    by (cases "f l") (simp_all add: id_def)
  from Cons.IH [OF this(2)] p show ?case
    by (auto simp: update_conv' distinct_update dom_update find_append split: option.splits)
qed simp

text \<open>Where a dumped filter says it comes from.\<close>

definition shows_place :: "(str \<rightharpoonup> filter_entry list) \<Rightarrow> resolved_filter_dump \<Rightarrow> bool" where
  "shows_place chain_of d \<longleftrightarrow>
     (\<exists>c. chain_of (rf_chain d) = Some c \<and> rf_chain_index d < length c \<and> shows_entry d (c ! rf_chain_index d))"

definition shows_listener :: "'c config \<Rightarrow> listener \<Rightarrow> resolved_listener_dump \<Rightarrow> bool" where
  "shows_listener cfg l r \<longleftrightarrow>
     rl_name r = l_name l \<and> rl_chains r = l_filter_chains l \<and>
     (\<exists>entries. listener_entries (chain_map cfg) l = Inr entries \<and> list_all2 shows_entry (rl_filters r) entries) \<and>
     map rf_pipeline_index (rl_filters r) = [0..<length (rl_filters r)] \<and>
     (\<forall>d \<in> set (rl_filters r). shows_place (chain_map cfg) d)"

lemma resolved_listener_shows:
  assumes "listener_entries (chain_map cfg) l = Inr entries"
  shows "\<exists>r. build_resolved_listener (chain_map cfg) l = Inr r \<and> shows_listener cfg l r"
  using resolved_filters_show [where chain_of = "chain_map cfg" and names = "l_filter_chains l" and
      e = "\<lambda>c. ''unknown chain '' @ quoted c @ '' for listener '' @ quoted (l_name l)"] assms
  by (auto simp: listener_entries_def build_resolved_listener_def shows_listener_def shows_place_def)

lemma map_result_all2:
  assumes "\<forall>x \<in> set xs. \<exists>y. f x = Inr y \<and> P x y"
  shows "\<exists>ys. map_result f xs = Inr ys \<and> list_all2 P xs ys"
  using assms by (induction xs) auto

lemma resolved_listeners_show:
  assumes ps: "resolve_pipelines fns cfg health kv = Inr pipelines"
  shows "\<exists>rs. build_resolved_listeners cfg (chain_map cfg) = Inr rs \<and>
    list_all2 (shows_listener cfg) (listeners cfg) rs \<and> rl_name ` set rs = fst ` set pipelines"
proof -
  note built = resolve_pipelines_listeners [OF ps [unfolded resolve_pipelines_def]]
  then have "\<forall>l \<in> set (listeners cfg). \<exists>entries. listener_entries (chain_map cfg) l = Inr entries"
    by (fastforce simp: listener_pipeline_def and_then_Inr_iff)
  then have "\<forall>l \<in> set (listeners cfg). \<exists>r. build_resolved_listener (chain_map cfg) l = Inr r \<and> shows_listener cfg l r"
    using resolved_listener_shows by blast
  then obtain rs where rs: "map_result (build_resolved_listener (chain_map cfg)) (listeners cfg) = Inr rs"
    and all: "list_all2 (shows_listener cfg) (listeners cfg) rs"
    using map_result_all2 by blast
  from all have "rl_name ` set rs = l_name ` set (listeners cfg)"
    by (induction rule: list_all2_induct) (simp_all add: shows_listener_def)
  with built rs all show ?thesis by (simp add: build_resolved_listeners_def)
qed

lemma validated_pipelines:
  "load_and_validate_for_cli fns kv load explicit = Inr cfg \<longleftrightarrow>
     load explicit = Inr cfg \<and> validate_log_overrides fns cfg = Inr () \<and>
     (\<exists>ps. resolve_pipelines fns cfg (build_health_registry fns (clusters cfg)) kv = Inr ps)"
  by (auto simp: load_and_validate_for_cli_def validate_config_for_startup_def and_then_Inr_iff)

text \<open>
  C22. The dump shows the pipelines the server runs. A configuration that passes the validation of
  the command line is always dumped, and each listener appears, in order, with its name, its
  chains, and one line for every entry its pipeline is built from: in the order of the pipeline,
  with name, type and failure mode of the entry, numbered from 0, and with a chain and an
  index at which that entry stands in the configuration.
\<close>

theorem dump_shows_pipelines:
  assumes "load_and_validate_for_cli fns new_kv load explicit = Inr cfg"
  shows "\<exists>d. run_dump fns new_kv load default_exists tags explicit = Inr d \<and>
    list_all2 (shows_listener cfg) (listeners cfg) (resolved_listeners d) \<and>
    (\<exists>pipelines. resolve_pipelines fns cfg (build_health_registry fns (clusters cfg)) new_kv = Inr pipelines \<and>
       fst ` set pipelines = rl_name ` set (resolved_listeners d))"
proof -
  from assms obtain pipelines
    where ps: "resolve_pipelines fns cfg (build_health_registry fns (clusters cfg)) new_kv = Inr pipelines"
    by (auto simp: validated_pipelines)
  with resolved_listeners_show [OF ps] assms show ?thesis
    by (auto simp: run_dump_def build_dump_def)
qed

text \<open>A listener over two chains.\<close>

definition simple_fns :: "(filter_entry list, unit, unit, unit) pipeline_fns" where
  "simple_fns =
     \<lparr>build_with_chains = (\<lambda>es _. Inr (es, es)), apply_body_limits = (\<lambda>_ _ _ p. Inr p),
      health_is_empty = (\<lambda>_. True), set_health_registry = (\<lambda>_ p. p), kv_is_empty = (\<lambda>_. True),
      set_kv_stores = (\<lambda>_ p. p), add_response_store = (\<lambda>p. p), apply_insecure_options = (\<lambda>_ p. p),
      ordering_errors = (\<lambda>_ _ _. []), build_health_registry = (\<lambda>_. ()), validate_log_overrides = (\<lambda>_. Inr ())\<rparr>"

definition two_chains :: "unit config" where
  "two_chains = secret_config\<lparr>
     filter_chains := filter_chains secret_config @
       [\<lparr>fc_name = ''ai'', fc_filters = [FilterEntry (Some ''m'') ''mcp'' Fail_open YNull None]\<rparr>],
     listeners := [\<lparr>l_name = ''web'', l_address = ''0.0.0.0:80'', l_protocol = Http,
       l_filter_chains = [''ai'', ''main''], l_tls = None\<rparr>]\<rparr>"

lemma dump_shows_pipelines_witness:
  "\<exists>d. run_dump simple_fns () (\<lambda>_. Inr two_chains) True True None = Inr d \<and>
     map (map rf_filter \<circ> rl_filters) (resolved_listeners d) = [[''mcp'', ''router'']]"
proof -
  have ok: "load_and_validate_for_cli simple_fns () (\<lambda>_. Inr two_chains) None = Inr two_chains" by code_simp
  have "listener_entries (chain_map two_chains) (hd (listeners two_chains)) =
      Inr [FilterEntry (Some ''m'') ''mcp'' Fail_open YNull None, hd (fc_filters (hd (filter_chains secret_config)))]"
    by code_simp
  moreover have "tl (listeners two_chains) = []" "listeners two_chains \<noteq> []"
    "fe_type (hd (fc_filters (hd (filter_chains secret_config)))) = ''router''"
    by (simp_all add: two_chains_def secret_config_def)
  ultimately show ?thesis
    using dump_shows_pipelines [OF ok, of True True]
    by (cases "listeners two_chains")
      (auto simp: list_all2_Cons1 list_all2_Cons2 shows_listener_def shows_entry_def)
qed

end
