(* ===== verification/Server_Reload.thy ===== *)
theory Server_Reload
  imports Server_Pipelines
begin

text \<open>
  Reloading the configuration while the server runs (\<open>server/src/reload.rs\<close>), the file watcher that
  triggers it (\<open>watcher.rs\<close>), and the state built at start (\<open>server.rs\<close>).
\<close>

section \<open>Changes that need a restart\<close>

text \<open>The warnings, one constructor for each message.\<close>

datatype restart_warning =
    Listener_added str
  | Listener_removed str
  | Address_changed str str str
  | Protocol_changed str protocol_kind protocol_kind
  | Compression_added str
  | Tls_enabled str
  | Tls_disabled str

definition find_listener :: "('c, 'z) config_scheme \<Rightarrow> str \<Rightarrow> listener option" where
  "find_listener cfg name = find (\<lambda>l. l_name l = name) (listeners cfg)"

text \<open>A warning for each listener of the new configuration that was there before.\<close>

definition compare_listeners ::
  "(listener \<Rightarrow> listener \<Rightarrow> restart_warning list) \<Rightarrow> 'c config \<Rightarrow> 'c config \<Rightarrow> restart_warning list" where
  "compare_listeners f old new =
     concat (map (\<lambda>new_l. case find_listener old (l_name new_l) of None \<Rightarrow> [] | Some old_l \<Rightarrow> f old_l new_l) (listeners new))"

definition detect_listener_topology_changes :: "'c config \<Rightarrow> 'c config \<Rightarrow> restart_warning list" where
  "detect_listener_topology_changes old new =
     (let old_names = remdups (map l_name (listeners old)); new_names = remdups (map l_name (listeners new))
      in map Listener_added (filter (\<lambda>n. n \<notin> set old_names) new_names)
         @ map Listener_removed (filter (\<lambda>n. n \<notin> set new_names) old_names)
         @ compare_listeners (\<lambda>old_l new_l.
             if l_address old_l \<noteq> l_address new_l
             then [Address_changed (l_name new_l) (l_address old_l) (l_address new_l)] else []) old new)"

definition detect_protocol_changes :: "'c config \<Rightarrow> 'c config \<Rightarrow> restart_warning list" where
  "detect_protocol_changes =
     compare_listeners (\<lambda>old_l new_l.
       if l_protocol old_l \<noteq> l_protocol new_l
       then [Protocol_changed (l_name new_l) (l_protocol old_l) (l_protocol new_l)] else [])"

definition find_chains_with_compression :: "'c config \<Rightarrow> str set" where
  "find_chains_with_compression cfg =
     fc_name ` set (filter (\<lambda>c. list_ex (\<lambda>f. fe_type f = ''compression'') (fc_filters c)) (filter_chains cfg))"

definition detect_compression_additions :: "'c config \<Rightarrow> 'c config \<Rightarrow> restart_warning list" where
  "detect_compression_additions old new =
     (let old_chains_with_compression = find_chains_with_compression old;
          new_chains_with_compression = find_chains_with_compression new
      in compare_listeners (\<lambda>old_l new_l.
           if \<not> list_ex (\<lambda>c. c \<in> old_chains_with_compression) (l_filter_chains old_l) \<and>
              list_ex (\<lambda>c. c \<in> new_chains_with_compression) (l_filter_chains new_l)
           then [Compression_added (l_name new_l)] else []) old new)"

definition detect_tls_toggles :: "'c config \<Rightarrow> 'c config \<Rightarrow> restart_warning list" where
  "detect_tls_toggles =
     compare_listeners (\<lambda>old_l new_l.
       case (l_tls old_l, l_tls new_l) of
         (None, Some _) \<Rightarrow> [Tls_enabled (l_name new_l)]
       | (Some _, None) \<Rightarrow> [Tls_disabled (l_name new_l)]
       | _ \<Rightarrow> [])"

definition log_restart_required_changes :: "'c config \<Rightarrow> 'c config \<Rightarrow> restart_warning list" where
  "log_restart_required_changes old new =
     detect_listener_topology_changes old new @ detect_protocol_changes old new @
     detect_compression_additions old new @ detect_tls_toggles old new"

definition warn_stateful_filter_reset :: "'c config \<Rightarrow> bool" where
  "warn_stateful_filter_reset cfg \<longleftrightarrow>
     list_ex (\<lambda>c. list_ex (\<lambda>f. fe_type f = ''rate_limit'' \<or> fe_type f = ''circuit_breaker'') (fc_filters c))
       (filter_chains cfg)"

section \<open>Reload\<close>

text \<open>
  The running server: the pipeline in the slot of each listener, the current token of the health checks, the tokens
  that were cancelled, and the health check tasks that were spawned, with their token and clusters. Tokens are numbered.
\<close>

record ('p, 'c) server_state =
  live :: "str \<rightharpoonup> 'p"
  token :: nat
  cancelled :: "nat set"
  health_tasks :: "(nat \<times> 'c) list"

definition spawn_health_check_tasks ::
  "('p, 'h, 'k, 'c) pipeline_fns \<Rightarrow> 'c config \<Rightarrow> 'h \<Rightarrow> ('p, 'c) server_state \<Rightarrow> ('p, 'c) server_state" where
  "spawn_health_check_tasks fns cfg health st =
     (if health_is_empty fns health then st
      else st\<lparr>health_tasks := health_tasks st @ [(token st, clusters cfg)]\<rparr>)"

definition respawn_health_checks ::
  "('p, 'h, 'k, 'c) pipeline_fns \<Rightarrow> 'c config \<Rightarrow> 'h \<Rightarrow> ('p, 'c) server_state \<Rightarrow> ('p, 'c) server_state" where
  "respawn_health_checks fns cfg health st =
     (let st1 = st\<lparr>token := Suc (token st), cancelled := insert (token st) (cancelled st)\<rparr>
      in if health_is_empty fns health then st1
         else st1\<lparr>health_tasks := health_tasks st1 @ [(token st1, clusters cfg)]\<rparr>)"

definition swap_live :: "str \<times> 'p \<Rightarrow> (str \<rightharpoonup> 'p) \<Rightarrow> str \<rightharpoonup> 'p" where
  "swap_live entry slots =
     (let (name, pipeline) = entry in if slots name \<noteq> None then slots(name \<mapsto> pipeline) else slots)"

text \<open>The new state, and an error or the warnings that were logged.\<close>

definition reload_pipelines ::
  "('p, 'h, 'k, 'c) pipeline_fns \<Rightarrow> 'k \<Rightarrow> 'c config \<Rightarrow> 'c config \<Rightarrow> ('p, 'c) server_state
    \<Rightarrow> ('p, 'c) server_state \<times> (server_error + restart_warning list)" where
  "reload_pipelines fns kv new old st =
     (case validate_log_overrides fns new of
        Inl e \<Rightarrow> (st, Inl e)
      | Inr _ \<Rightarrow>
          (let health = build_health_registry fns (clusters new)
           in case resolve_pipelines fns new health kv of
                Inl e \<Rightarrow> (st, Inl e)
              | Inr new_pipelines \<Rightarrow>
                  (let st1 = st\<lparr>live := fold swap_live new_pipelines (live st)\<rparr>
                   in (respawn_health_checks fns new health st1, Inr (log_restart_required_changes old new)))))"

text \<open>\<open>content\<close> is what \<open>read_to_string\<close> gives, nothing when it fails; \<open>from_yaml\<close> is \<open>Config::from_yaml\<close>.\<close>

definition handle_reload ::
  "('p, 'h, 'k, 'c) pipeline_fns \<Rightarrow> 'k \<Rightarrow> (str \<Rightarrow> server_error + 'c config) \<Rightarrow> str option
    \<Rightarrow> 'c config \<times> ('p, 'c) server_state \<Rightarrow> 'c config \<times> ('p, 'c) server_state" where
  "handle_reload fns kv from_yaml content current =
     (let (cfg, st) = current
      in case content of
           None \<Rightarrow> (cfg, st)
         | Some text \<Rightarrow>
             (case from_yaml text of
                Inl _ \<Rightarrow> (cfg, st)
              | Inr new \<Rightarrow>
                  (case reload_pipelines fns kv new cfg st of
                     (st', Inr _) \<Rightarrow> (new, st')
                   | (st', Inl _) \<Rightarrow> (cfg, st'))))"

text \<open>The state at start, or the error the process exits with.\<close>

definition build_server_state ::
  "('p, 'h, 'k, 'c) pipeline_fns \<Rightarrow> 'k \<Rightarrow> 'c config \<Rightarrow> server_error + ('p, 'c) server_state" where
  "build_server_state fns kv cfg =
     (let health = build_health_registry fns (clusters cfg)
      in case resolve_pipelines fns cfg health kv of
           Inl e \<Rightarrow> Inl e
         | Inr pipelines \<Rightarrow>
             Inr (spawn_health_check_tasks fns cfg health
               \<lparr>live = map_of pipelines, token = 0, cancelled = {}, health_tasks = []\<rparr>))"

section \<open>The watcher\<close>

datatype event_kind = Create_event | Modify_event | Remove_event | Other_event

definition is_relevant_event :: "event_kind \<Rightarrow> bool" where
  "is_relevant_event k \<longleftrightarrow> k \<in> {Create_event, Modify_event, Remove_event}"

text \<open>
  What the file system's watch hands to the callback, an event or an error, and what the callback does to the
  channel, which holds 16 messages.
\<close>

type_synonym notification = "str + event_kind"

definition send_event :: "notification \<Rightarrow> nat \<Rightarrow> nat" where
  "send_event res pending =
     (case res of Inr k \<Rightarrow> if is_relevant_event k \<and> pending < 16 then Suc pending else pending | Inl _ \<Rightarrow> pending)"

definition relevant :: "notification \<Rightarrow> bool" where
  "relevant res = (case res of Inr k \<Rightarrow> is_relevant_event k | Inl _ \<Rightarrow> False)"

text \<open>The directory of a path, or the current one; \<open>parent\<close> is \<open>Path::parent\<close>.\<close>

definition watch_dir_for_path :: "(str \<Rightarrow> str option) \<Rightarrow> str \<Rightarrow> str" where
  "watch_dir_for_path parent path =
     (case parent path of Some p \<Rightarrow> if p \<noteq> [] then p else ''.'' | None \<Rightarrow> ''.'')"

text \<open>
  The thread of the watcher first puts the watch in place, after the server has read the file and built its
  pipelines. Then its event loop waits for a message, sleeps, drains the channel and reloads. The events of
  the file system are on their way before the callback sees them; \<open>last_read\<close> is what the last reload read, and
  \<open>unreported\<close> that the file changed since without an event that reports it.
\<close>

datatype watcher_phase = Starting | Waiting | Debouncing | Reading | Stopped

record ('p, 'c) watcher =
  config_file :: "str option"
  undelivered :: "notification list"
  pending :: nat
  phase :: watcher_phase
  current :: "'c config"
  server :: "('p, 'c) server_state"
  last_read :: "str option"
  unreported :: bool

definition watching :: "('p, 'c) watcher \<Rightarrow> bool" where
  "watching s \<longleftrightarrow> phase s \<noteq> Starting \<and> phase s \<noteq> Stopped"

text \<open>The steps of the watcher and its callback.\<close>

inductive watch_step ::
  "('p, 'h, 'k, 'c) pipeline_fns \<Rightarrow> 'k \<Rightarrow> (str \<Rightarrow> server_error + 'c config)
    \<Rightarrow> ('p, 'c) watcher \<Rightarrow> ('p, 'c) watcher \<Rightarrow> bool"
  for fns kv from_yaml where
  deliver: "watching s \<Longrightarrow> undelivered s = k # ks \<Longrightarrow>
    watch_step fns kv from_yaml s (s\<lparr>undelivered := ks, pending := send_event k (pending s)\<rparr>)"
| receive: "phase s = Waiting \<Longrightarrow> pending s = Suc n \<Longrightarrow>
    watch_step fns kv from_yaml s (s\<lparr>pending := n, phase := Debouncing\<rparr>)"
| drain: "phase s = Debouncing \<Longrightarrow> watch_step fns kv from_yaml s (s\<lparr>pending := 0, phase := Reading\<rparr>)"
| reload: "phase s = Reading \<Longrightarrow> handle_reload fns kv from_yaml (config_file s) (current s, server s) = (cfg, st) \<Longrightarrow>
    watch_step fns kv from_yaml s (s\<lparr>phase := Waiting, current := cfg, server := st, last_read := config_file s, unreported := False\<rparr>)"

text \<open>
  What happens around it. The watch is put in place, or this fails and the thread ends. The file is written and the
  watch reports it; or it is written and nothing reports it, since there is no watch yet or the event was lost.
  Other events and errors occur, the shutdown token is cancelled.
\<close>

inductive outside_step :: "('p, 'c) watcher \<Rightarrow> ('p, 'c) watcher \<Rightarrow> bool" where
  installed: "phase s = Starting \<Longrightarrow> outside_step s (s\<lparr>phase := Waiting\<rparr>)"
| not_installed: "phase s = Starting \<Longrightarrow> outside_step s (s\<lparr>phase := Stopped\<rparr>)"
| written: "watching s \<Longrightarrow> is_relevant_event k \<Longrightarrow>
    outside_step s (s\<lparr>config_file := content, undelivered := undelivered s @ [Inr k], unreported := False\<rparr>)"
| missed: "outside_step s (s\<lparr>config_file := content, unreported := True\<rparr>)"
| noise: "watching s \<Longrightarrow> outside_step s (s\<lparr>undelivered := undelivered s @ [k]\<rparr>)"
| shutdown: "phase s = Waiting \<Longrightarrow> outside_step s (s\<lparr>phase := Stopped\<rparr>)"

inductive_cases watch_stepE: "watch_step fns kv from_yaml s s'"
inductive_cases outside_stepE: "outside_step s s'"

text \<open>The states a server can be in that was started from a file, from the moment it has read the file.\<close>

inductive running ::
  "('p, 'h, 'k, 'c) pipeline_fns \<Rightarrow> 'k \<Rightarrow> (str \<Rightarrow> server_error + 'c config) \<Rightarrow> ('p, 'c) watcher \<Rightarrow> bool"
  for fns kv from_yaml where
  start: "from_yaml text = Inr cfg \<Longrightarrow> build_server_state fns kv cfg = Inr st \<Longrightarrow>
    running fns kv from_yaml \<lparr>config_file = Some text, undelivered = [], pending = 0, phase = Starting,
      current = cfg, server = st, last_read = Some text, unreported = False\<rparr>"
| inside: "running fns kv from_yaml s \<Longrightarrow> watch_step fns kv from_yaml s s' \<Longrightarrow> running fns kv from_yaml s'"
| outside: "running fns kv from_yaml s \<Longrightarrow> outside_step s s' \<Longrightarrow> running fns kv from_yaml s'"

section \<open>A reload is all or nothing\<close>

definition accepts :: "('p, 'h, 'k, 'c) pipeline_fns \<Rightarrow> 'k \<Rightarrow> 'c config \<Rightarrow> bool" where
  "accepts fns kv cfg \<longleftrightarrow>
     validate_log_overrides fns cfg = Inr () \<and>
     (\<exists>ps. resolve_pipelines fns cfg (build_health_registry fns (clusters cfg)) kv = Inr ps)"

text \<open>
  The server runs a configuration: each live listener the configuration knows has the pipeline built from it,
  all earlier tokens are cancelled, and only the health checks of this configuration run.
\<close>

definition runs_pipelines :: "('p, 'h, 'k, 'c) pipeline_fns \<Rightarrow> 'k \<Rightarrow> 'c config \<Rightarrow> (str \<rightharpoonup> 'p) \<Rightarrow> bool" where
  "runs_pipelines fns kv cfg slots \<longleftrightarrow>
     (\<exists>ps. resolve_pipelines fns cfg (build_health_registry fns (clusters cfg)) kv = Inr ps \<and>
        (\<forall>name \<in> l_name ` set (listeners cfg). slots name \<noteq> None \<longrightarrow> slots name = map_of ps name))"

definition runs_checks :: "('p, 'h, 'k, 'c) pipeline_fns \<Rightarrow> 'c config \<Rightarrow> ('p, 'c) server_state \<Rightarrow> bool" where
  "runs_checks fns cfg st \<longleftrightarrow>
     cancelled st = {..<token st} \<and>
     filter (\<lambda>task. fst task \<notin> cancelled st) (health_tasks st) =
       (if health_is_empty fns (build_health_registry fns (clusters cfg)) then [] else [(token st, clusters cfg)]) \<and>
     (\<forall>task \<in> set (health_tasks st). fst task \<le> token st)"

lemma swap_live_at: "swap_live (a, p) slots name = (if name = a \<and> slots name \<noteq> None then Some p else slots name)"
  by (auto simp: swap_live_def)

lemma fold_swap_live:
  assumes "distinct (map fst ps)"
  shows "fold swap_live ps slots name =
    (if slots name = None then None else case map_of ps name of None \<Rightarrow> slots name | Some p \<Rightarrow> Some p)"
  using assms
proof (induction ps arbitrary: slots)
  case (Cons entry ps)
  obtain a p where e: "entry = (a, p)" by (cases entry)
  with Cons.prems have "map_of ps a = None" by (simp add: map_of_eq_None_iff)
  with Cons e show ?case by (cases "name = a"; cases "map_of ps name") (simp_all add: swap_live_at)
qed simp

lemma pipelines_of_config:
  assumes "resolve_pipelines fns cfg health kv = Inr ps"
  shows "distinct (map fst ps)" and "fst ` set ps = l_name ` set (listeners cfg)"
  using resolve_pipelines_listeners [OF assms [unfolded resolve_pipelines_def]] by simp_all

lemma swapped_runs:
  assumes "resolve_pipelines fns cfg (build_health_registry fns (clusters cfg)) kv = Inr ps"
  shows "runs_pipelines fns kv cfg (fold swap_live ps slots)"
proof -
  have "\<exists>p. map_of ps name = Some p" if "name \<in> l_name ` set (listeners cfg)" for name
    using that pipelines_of_config(2) [OF assms] by (metis map_of_eq_None_iff not_Some_eq)
  then show ?thesis
    using assms pipelines_of_config(1) [OF assms]
    by (fastforce simp: runs_pipelines_def fold_swap_live split: if_splits)
qed

lemma respawned_checks:
  assumes "cancelled st = {..<token st}" and "\<forall>task \<in> set (health_tasks st). fst task \<le> token st"
  shows "runs_checks fns cfg (respawn_health_checks fns cfg (build_health_registry fns (clusters cfg)) st)"
proof -
  have "insert (token st) {..<token st} = {..<Suc (token st)}" by auto
  moreover have "filter (\<lambda>task. fst task \<notin> {..<Suc (token st)}) (health_tasks st) = []"
    using assms(2) by (auto simp: filter_empty_conv)
  ultimately show ?thesis
    using assms by (auto simp: runs_checks_def respawn_health_checks_def Let_def)
qed

text \<open>What one event of the loop leaves: the outcome of a reload.\<close>

definition server_ok :: "('p, 'h, 'k, 'c) pipeline_fns \<Rightarrow> 'k \<Rightarrow> 'c config \<Rightarrow> ('p, 'c) server_state \<Rightarrow> bool" where
  "server_ok fns kv cfg st \<longleftrightarrow> runs_pipelines fns kv cfg (live st) \<and> runs_checks fns cfg st"

lemma reload_refused:
  "\<not> accepts fns kv new \<longleftrightarrow> (\<exists>e. reload_pipelines fns kv new old st = (st, Inl e))"
  by (auto simp: accepts_def reload_pipelines_def Let_def split: sum.splits)

lemma reload_accepted:
  assumes "accepts fns kv new" and "runs_checks fns old st"
  shows "\<exists>st'. reload_pipelines fns kv new old st = (st', Inr (log_restart_required_changes old new)) \<and>
    server_ok fns kv new st' \<and> dom (live st') = dom (live st)"
proof -
  let ?health = "build_health_registry fns (clusters new)"
  from assms(1) obtain ps where logs: "validate_log_overrides fns new = Inr ()"
    and ps: "resolve_pipelines fns new ?health kv = Inr ps" by (auto simp: accepts_def)
  let ?st1 = "st\<lparr>live := fold swap_live ps (live st)\<rparr>"
  let ?st' = "respawn_health_checks fns new ?health ?st1"
  have "live ?st' = fold swap_live ps (live st)" by (simp add: respawn_health_checks_def Let_def)
  moreover have "dom (fold swap_live ps (live st)) = dom (live st)"
    by (auto simp: fold_swap_live [OF pipelines_of_config(1) [OF ps]] dom_def split: option.splits)
  moreover have "runs_checks fns new ?st'"
    using assms(2) by (intro respawned_checks) (simp_all add: runs_checks_def)
  ultimately show ?thesis
    using logs ps swapped_runs [OF ps] by (simp add: reload_pipelines_def server_ok_def Let_def)
qed

lemma handle_reload_cases:
  assumes "server_ok fns kv cfg st"
  shows "\<exists>cfg' st'. handle_reload fns kv from_yaml content (cfg, st) = (cfg', st') \<and> server_ok fns kv cfg' st' \<and>
    dom (live st') = dom (live st) \<and>
    (if \<exists>text new. content = Some text \<and> from_yaml text = Inr new \<and> accepts fns kv new
     then from_yaml (the content) = Inr cfg' else cfg' = cfg \<and> st' = st)"
proof (cases "\<exists>text new. content = Some text \<and> from_yaml text = Inr new \<and> accepts fns kv new")
  case True
  then obtain t c where new: "content = Some t" "from_yaml t = Inr c" "accepts fns kv c" by blast
  with reload_accepted [of fns kv c cfg st] assms show ?thesis
    by (auto simp: handle_reload_def server_ok_def)
next
  case False
  have "handle_reload fns kv from_yaml content (cfg, st) = (cfg, st)"
  proof (cases content)
    case (Some t)
    show ?thesis
    proof (cases "from_yaml t")
      case (Inr c)
      with Some False have "\<not> accepts fns kv c" by blast
      with reload_refused [of fns kv c cfg st] Some Inr show ?thesis by (auto simp: handle_reload_def)
    qed (simp add: Some handle_reload_def)
  qed (simp add: handle_reload_def)
  with False assms show ?thesis by auto
qed

lemma started_ok:
  assumes "build_server_state fns kv cfg = Inr st"
  shows "server_ok fns kv cfg st"
  using assms
  by (auto simp: build_server_state_def server_ok_def runs_pipelines_def runs_checks_def spawn_health_check_tasks_def Let_def
      split: sum.splits)

section \<open>The watcher takes the changes that are reported\<close>

text \<open>What holds of every state of a running server.\<close>

definition change_noticed :: "('p, 'c) watcher \<Rightarrow> bool" where
  "change_noticed s \<longleftrightarrow>
     unreported s \<or> last_read s = config_file s \<or> list_ex relevant (undelivered s) \<or> pending s > 0 \<or>
     phase s \<notin> {Starting, Waiting}"

definition applied_last_read ::
  "('p, 'h, 'k, 'c) pipeline_fns \<Rightarrow> 'k \<Rightarrow> (str \<Rightarrow> server_error + 'c config) \<Rightarrow> ('p, 'c) watcher \<Rightarrow> bool" where
  "applied_last_read fns kv from_yaml s \<longleftrightarrow>
     (\<forall>text new. last_read s = Some text \<and> from_yaml text = Inr new \<and> accepts fns kv new \<longrightarrow> current s = new)"

definition watcher_ok ::
  "('p, 'h, 'k, 'c) pipeline_fns \<Rightarrow> 'k \<Rightarrow> (str \<Rightarrow> server_error + 'c config) \<Rightarrow> ('p, 'c) watcher \<Rightarrow> bool" where
  "watcher_ok fns kv from_yaml s \<longleftrightarrow>
     server_ok fns kv (current s) (server s) \<and> applied_last_read fns kv from_yaml s \<and> change_noticed s \<and> pending s \<le> 16"

lemma watch_step_ok:
  assumes "watch_step fns kv from_yaml s s'" and "watcher_ok fns kv from_yaml s"
  shows "watcher_ok fns kv from_yaml s'"
  using assms
proof cases
  case (deliver k ks)
  with assms(2) show ?thesis
    by (auto simp: watcher_ok_def applied_last_read_def change_noticed_def send_event_def relevant_def split: sum.splits)
next
  case (reload cfg st)
  have "applied_last_read fns kv from_yaml s'"
    using handle_reload_cases [of fns kv "current s" "server s" from_yaml "config_file s"] assms(2) reload
    by (auto simp: watcher_ok_def applied_last_read_def split: if_splits)
  moreover have "server_ok fns kv (current s') (server s')"
    using handle_reload_cases [of fns kv "current s" "server s" from_yaml "config_file s"] assms(2) reload
    by (auto simp: watcher_ok_def)
  ultimately show ?thesis using assms(2) reload by (simp add: watcher_ok_def change_noticed_def)
qed (use assms(2) in \<open>auto simp: watcher_ok_def applied_last_read_def change_noticed_def\<close>)

lemma outside_step_ok:
  assumes "outside_step s s'" and "watcher_ok fns kv from_yaml s"
  shows "watcher_ok fns kv from_yaml s'"
  using assms
  by cases (auto simp: watcher_ok_def applied_last_read_def change_noticed_def relevant_def watching_def)

lemma running_ok: "running fns kv from_yaml s \<Longrightarrow> watcher_ok fns kv from_yaml s"
proof (induction rule: running.induct)
  case (start t cfg st)
  then show ?case
    by (auto simp: watcher_ok_def applied_last_read_def change_noticed_def started_ok)
qed (auto intro: watch_step_ok outside_step_ok)

section \<open>Claims\<close>

text \<open>
  C19. A running server is never half reloaded. Whatever was written to the configuration file
  and whenever, the pipelines and health checks are those of the current configuration: every live listener
  the configuration names has the pipeline built from it, all earlier health checks are
  cancelled and exactly those of the configuration run, if there are any. And the next reload
  either takes over a whole new configuration or, when the file cannot be read, parsed or
  built, changes nothing; no listener appears or disappears.
\<close>

theorem reload_all_or_nothing:
  assumes "running fns kv from_yaml s"
  shows "runs_pipelines fns kv (current s) (live (server s)) \<and> runs_checks fns (current s) (server s) \<and>
    (\<forall>content. \<exists>cfg' st'. handle_reload fns kv from_yaml content (current s, server s) = (cfg', st') \<and>
       runs_pipelines fns kv cfg' (live st') \<and> runs_checks fns cfg' st' \<and> dom (live st') = dom (live (server s)) \<and>
       (if \<exists>text new. content = Some text \<and> from_yaml text = Inr new \<and> accepts fns kv new
        then from_yaml (the content) = Inr cfg' else cfg' = current s \<and> st' = server s))"
proof -
  from running_ok [OF assms] have ok: "server_ok fns kv (current s) (server s)" by (simp add: watcher_ok_def)
  then show ?thesis
    using handle_reload_cases [OF ok, of from_yaml] unfolding server_ok_def by blast
qed

text \<open>The steps a watcher can still make by itself.\<close>

fun phase_work :: "watcher_phase \<Rightarrow> nat" where
  "phase_work Debouncing = 2"
| "phase_work Reading = 1"
| "phase_work _ = 0"

definition work :: "('p, 'c) watcher \<Rightarrow> nat" where
  "work s = 5 * length (undelivered s) + 4 * pending s + phase_work (phase s)"

lemma watch_step_work:
  assumes "watch_step fns kv from_yaml s s'"
  shows "work s' < work s" and "config_file s' = config_file s" and "watching s \<Longrightarrow> watching s'"
    and "\<not> unreported s \<Longrightarrow> \<not> unreported s'"
  using assms by (auto simp: work_def send_event_def watching_def elim!: watch_stepE split: sum.splits)

lemma watch_steps:
  assumes "(watch_step fns kv from_yaml ^^ n) s s'" and "running fns kv from_yaml s"
  shows "running fns kv from_yaml s' \<and> work s' + n \<le> work s \<and> config_file s' = config_file s \<and>
    (watching s \<longrightarrow> watching s') \<and> (\<not> unreported s \<longrightarrow> \<not> unreported s')"
  using assms
proof (induction n arbitrary: s')
  case (Suc n)
  then obtain t where t: "(watch_step fns kv from_yaml ^^ n) s t" and one: "watch_step fns kv from_yaml t s'"
    by (auto elim: relpowp_Suc_E)
  from Suc.IH [OF t Suc.prems(2)] watch_step_work [OF one] one show ?case
    by (auto intro: running.inside)
qed simp

lemma stuck_quiet:
  assumes "\<nexists>s'. watch_step fns kv from_yaml s s'" and "watching s"
  shows "undelivered s = [] \<and> pending s = 0 \<and> phase s = Waiting"
proof -
  have "undelivered s = []"
  proof (cases "undelivered s")
    case (Cons k ks)
    with deliver [OF assms(2) Cons, of fns kv from_yaml] assms(1) show ?thesis by blast
  qed
  moreover have "phase s \<noteq> Debouncing" using assms(1) drain [of s fns kv from_yaml] by blast
  moreover have "phase s \<noteq> Reading"
    using assms(1) reload [of s fns kv from_yaml] by (cases "handle_reload fns kv from_yaml (config_file s) (current s, server s)") blast
  ultimately have waiting: "phase s = Waiting" and none: "undelivered s = []" using assms(2) by (cases "phase s"; simp add: watching_def)+
  moreover have "pending s = 0"
  proof (cases "pending s")
    case (Suc n)
    with receive [OF waiting Suc, of fns kv from_yaml] assms(1) show ?thesis by blast
  qed
  ultimately show ?thesis by simp
qed

text \<open>
  A change made after the server has read the file and before the watch is in place is lost: nothing reports it,
  and the watcher rests with what was read at the start.
\<close>

lemma change_before_watch_is_lost:
  assumes "from_yaml text = Inr cfg" and "build_server_state fns kv cfg = Inr st"
  shows "\<exists>s. running fns kv from_yaml s \<and> watching s \<and> config_file s = Some changed \<and> last_read s = Some text \<and>
    current s = cfg \<and> (\<nexists>s'. watch_step fns kv from_yaml s s')"
proof -
  note one = running.start [where from_yaml = from_yaml and fns = fns and kv = kv, OF assms]
  note two = running.outside [OF one missed [of _ "Some changed"]]
  note three = running.outside [OF two installed]
  show ?thesis by (rule exI, rule conjI, rule three) (auto simp: watching_def elim!: watch_stepE)
qed

text \<open>
  C20. No reported change of the configuration file is lost. From every state of a running server whose watch is in
  place and has not been stopped, when a relevant event was raised for the last change the file had since it was last
  read, then, once the file is left alone, the watcher comes to rest after a bounded number
  of steps, however events and messages were coalesced on the way and whatever errors and other events came between;
  at rest it has last read the file as it
  is, and when that content is a configuration the server can build, the server runs it. Nothing is said of a change
  made between the reading of the file at the start and the moment the watch is in place, nor of one whose event the
  file system loses.
\<close>

theorem watcher_takes_last_change:
  assumes "running fns kv from_yaml s" and "watching s" and "\<not> unreported s"
    and "(watch_step fns kv from_yaml ^^ n) s s'"
  shows "n \<le> work s \<and>
    ((\<nexists>s''. watch_step fns kv from_yaml s' s'') \<longrightarrow>
       phase s' = Waiting \<and> last_read s' = config_file s \<and>
       (\<forall>text new. config_file s = Some text \<and> from_yaml text = Inr new \<and> accepts fns kv new \<longrightarrow>
          current s' = new \<and> runs_pipelines fns kv new (live (server s'))))"
proof -
  from watch_steps [OF assms(4,1)] assms(2,3) have run: "running fns kv from_yaml s'"
    and bound: "n \<le> work s" and same: "config_file s' = config_file s" "watching s'" "\<not> unreported s'" by auto
  from running_ok [OF run] have ok: "watcher_ok fns kv from_yaml s'" .
  show ?thesis
  proof (intro conjI impI bound)
    assume stuck: "\<nexists>s''. watch_step fns kv from_yaml s' s''"
    from stuck_quiet [OF stuck same(2)] have quiet: "undelivered s' = []" "pending s' = 0" "phase s' = Waiting" by auto
    then show "phase s' = Waiting" by simp
    from quiet ok show read: "last_read s' = config_file s"
      by (simp add: watcher_ok_def change_noticed_def same)
    with ok show "\<forall>text new. config_file s = Some text \<and> from_yaml text = Inr new \<and> accepts fns kv new \<longrightarrow>
        current s' = new \<and> runs_pipelines fns kv new (live (server s'))"
      by (auto simp: watcher_ok_def applied_last_read_def server_ok_def)
  qed
qed

definition listener_view :: "listener \<Rightarrow> str \<times> str \<times> protocol_kind \<times> bool" where
  "listener_view l = (l_name l, l_address l, l_protocol l, l_tls l \<noteq> None)"

lemma find_listener_distinct:
  assumes "distinct (map l_name (listeners cfg))" and l: "l \<in> set (listeners cfg)"
  shows "find_listener cfg (l_name l) = Some l"
proof -
  obtain o' where "find_listener cfg (l_name l) = Some o'"
    using l by (cases "find_listener cfg (l_name l)") (auto simp: find_listener_def find_None_iff)
  then have "o' \<in> set (listeners cfg)" "l_name o' = l_name l"
    by (auto simp: find_listener_def find_Some_iff)
  with l assms(1) \<open>find_listener cfg (l_name l) = Some o'\<close> show ?thesis by (auto simp: distinct_map dest: inj_onD)
qed

lemma no_warnings_same_view:
  assumes none: "log_restart_required_changes old new = []" and dist: "distinct (map l_name (listeners old))"
    and l: "l \<in> set (listeners old)" "l' \<in> set (listeners new)" "l_name l' = l_name l"
  shows "listener_view l' = listener_view l"
proof -
  have silent: "compare_listeners f old new = [] \<Longrightarrow> f l l' = []" for f
    using l find_listener_distinct [OF dist l(1)] by (auto simp: compare_listeners_def)
  from none have quiet: "compare_listeners (\<lambda>old_l new_l. if l_address old_l \<noteq> l_address new_l
        then [Address_changed (l_name new_l) (l_address old_l) (l_address new_l)] else []) old new = []"
    "detect_protocol_changes old new = []" "detect_tls_toggles old new = []"
    by (simp_all add: log_restart_required_changes_def detect_listener_topology_changes_def Let_def)
  have "l_address l = l_address l'" using silent [OF quiet(1)] by (simp split: if_splits)
  moreover have "l_protocol l = l_protocol l'"
    using silent [OF quiet(2) [unfolded detect_protocol_changes_def]] by (simp split: if_splits)
  moreover have "(l_tls l = None) = (l_tls l' = None)"
    using silent [OF quiet(3) [unfolded detect_tls_toggles_def]] by (simp split: option.splits)
  ultimately show ?thesis using l(3) by (simp add: listener_view_def)
qed

lemma no_warnings_same_names:
  "log_restart_required_changes old new = [] \<Longrightarrow> l_name ` set (listeners new) = l_name ` set (listeners old)"
  by (auto simp: log_restart_required_changes_def detect_listener_topology_changes_def Let_def filter_empty_conv)

lemma same_image:
  assumes "f ` A = f ` B" and "\<And>a b. a \<in> A \<Longrightarrow> b \<in> B \<Longrightarrow> f a = f b \<Longrightarrow> g a = g b"
  shows "g ` A = g ` B"
proof (intro set_eqI iffI)
  fix x assume "x \<in> g ` A"
  then obtain a where "a \<in> A" "x = g a" by blast
  moreover from this(1) assms(1) obtain b where "b \<in> B" "f a = f b" by (metis image_iff)
  ultimately show "x \<in> g ` B" using assms(2) by blast
next
  fix x assume "x \<in> g ` B"
  then obtain b where "b \<in> B" "x = g b" by blast
  moreover from this(1) assms(1) obtain a where "a \<in> A" "f a = f b" by (metis image_iff)
  ultimately show "x \<in> g ` A" using assms(2) by (metis image_eqI)
qed

text \<open>
  A reload that logs no warning needs no restart: when both configurations name each listener once and
  the live slots are those of the old one, the listeners of the new configuration have the same names,
  addresses, protocols and use of TLS, and all of them run the new pipelines.
\<close>

theorem no_warning_no_restart:
  assumes "reload_pipelines fns kv new old st = (st', Inr [])"
    and "distinct (map l_name (listeners old))" and "distinct (map l_name (listeners new))"
    and "dom (live st) = l_name ` set (listeners old)"
  shows "listener_view ` set (listeners new) = listener_view ` set (listeners old) \<and>
    (\<exists>ps. resolve_pipelines fns new (build_health_registry fns (clusters new)) kv = Inr ps \<and> live st' = map_of ps)"
proof -
  from assms(1) obtain ps
    where none: "log_restart_required_changes old new = []"
      and ps: "resolve_pipelines fns new (build_health_registry fns (clusters new)) kv = Inr ps"
      and st': "live st' = fold swap_live ps (live st)"
    by (auto simp: reload_pipelines_def respawn_health_checks_def Let_def split: sum.splits if_splits)
  note names = no_warnings_same_names [OF none]
  have "live st' name = map_of ps name" for name
  proof -
    have "live st name \<noteq> None \<longleftrightarrow> map_of ps name \<noteq> None"
      using assms(4) names pipelines_of_config(2) [OF ps] by (auto simp: map_of_eq_None_iff domIff)
    then show ?thesis
      unfolding st' fold_swap_live [OF pipelines_of_config(1) [OF ps]] by (auto split: option.split)
  qed
  moreover have "listener_view ` set (listeners new) = listener_view ` set (listeners old)"
    by (rule same_image [OF names]) (rule no_warnings_same_view [OF none assms(2)])
  ultimately show ?thesis using ps by blast
qed

section \<open>Examples\<close>

definition demo_yaml :: "str \<Rightarrow> server_error + unit config" where
  "demo_yaml t = (if t = ''good'' then Inr two_chains else Inl ''bad'')"

definition demo_server :: "(filter_entry list, unit) server_state" where
  "demo_server =
     \<lparr>live = [''web'' \<mapsto> [FilterEntry (Some ''m'') ''mcp'' Fail_open YNull None] @
        fc_filters (hd (filter_chains secret_config))],
      token = 0, cancelled = {}, health_tasks = []\<rparr>"

lemma demo_resolve:
  "resolve_pipelines simple_fns two_chains (build_health_registry simple_fns (clusters two_chains)) () =
     Inr [(''web'', [FilterEntry (Some ''m'') ''mcp'' Fail_open YNull None] @
        fc_filters (hd (filter_chains secret_config)))]"
  by code_simp

lemma demo_starts: "build_server_state simple_fns () two_chains = Inr demo_server"
  unfolding build_server_state_def Let_def demo_resolve
  by (simp add: spawn_health_check_tasks_def demo_server_def simple_fns_def)

definition demo_watcher :: "(filter_entry list, unit) watcher" where
  "demo_watcher = \<lparr>config_file = Some ''good'', undelivered = [], pending = 0, phase = Starting,
     current = two_chains, server = demo_server, last_read = Some ''good'', unreported = False\<rparr>"

text \<open>The watch is in place, an error came, and the file was just overwritten with something else.\<close>

definition demo_written :: "(filter_entry list, unit) watcher" where
  "demo_written = demo_watcher\<lparr>phase := Waiting, config_file := Some ''broken'',
     undelivered := [Inl ''lost'', Inr Modify_event]\<rparr>"

lemma demo_running: "running simple_fns () demo_yaml demo_written"
proof -
  have "running simple_fns () demo_yaml demo_watcher"
    unfolding demo_watcher_def by (rule running.start [OF _ demo_starts]) (simp add: demo_yaml_def)
  then have "running simple_fns () demo_yaml (demo_watcher\<lparr>phase := Waiting\<rparr>)"
    by (rule running.outside) (rule installed, simp add: demo_watcher_def)
  then have "running simple_fns () demo_yaml (demo_watcher\<lparr>phase := Waiting, undelivered := [Inl ''lost'']\<rparr>)"
    by (rule running.outside)
       (use noise [of "demo_watcher\<lparr>phase := Waiting\<rparr>" "Inl ''lost''"] in \<open>simp add: demo_watcher_def watching_def\<close>)
  moreover have "outside_step (demo_watcher\<lparr>phase := Waiting, undelivered := [Inl ''lost'']\<rparr>) demo_written"
    using written [of "demo_watcher\<lparr>phase := Waiting, undelivered := [Inl ''lost'']\<rparr>" Modify_event "Some ''broken''"]
    by (simp add: is_relevant_event_def demo_written_def demo_watcher_def watching_def)
  ultimately show ?thesis by (rule running.outside)
qed

lemma reload_all_or_nothing_witness:
  "runs_pipelines simple_fns () two_chains (live demo_server) \<and>
   handle_reload simple_fns () demo_yaml (Some ''broken'') (two_chains, demo_server) = (two_chains, demo_server)"
proof -
  have same: "current demo_written = two_chains" "server demo_written = demo_server"
    by (simp_all add: demo_written_def demo_watcher_def)
  have bad: "\<not> (\<exists>text new. Some ''broken'' = Some text \<and> demo_yaml text = Inr new \<and> accepts simple_fns () new)"
    by (simp add: demo_yaml_def)
  from reload_all_or_nothing [OF demo_running] have "runs_pipelines simple_fns () two_chains (live demo_server)"
    and "\<exists>cfg' st'. handle_reload simple_fns () demo_yaml (Some ''broken'') (two_chains, demo_server) = (cfg', st') \<and>
      cfg' = two_chains \<and> st' = demo_server"
    unfolding same using bad by (auto dest!: spec [of _ "Some ''broken''"])
  then show ?thesis by simp
qed

lemma watcher_takes_last_change_witness:
  "\<exists>s'. (watch_step simple_fns () demo_yaml ^^ 5) demo_written s' \<and> 5 \<le> work demo_written \<and>
     phase s' = Waiting \<and> last_read s' = Some ''broken''"
proof -
  let ?step = "watch_step simple_fns () demo_yaml"
  let ?s0 = "demo_written\<lparr>undelivered := [Inr Modify_event], pending := 0\<rparr>"
  let ?s1 = "?s0\<lparr>undelivered := [], pending := Suc 0\<rparr>"
  let ?s2 = "?s1\<lparr>pending := 0, phase := Debouncing\<rparr>"
  let ?s3 = "?s2\<lparr>pending := 0, phase := Reading\<rparr>"
  let ?s4 = "?s3\<lparr>phase := Waiting, current := two_chains, server := demo_server, last_read := config_file ?s3,
     unreported := False\<rparr>"
  have fields: "undelivered demo_written = [Inl ''lost'', Inr Modify_event]" "pending demo_written = 0" "phase demo_written = Waiting"
    "config_file demo_written = Some ''broken''" "current demo_written = two_chains" "server demo_written = demo_server"
    by (simp_all add: demo_written_def demo_watcher_def)
  have "?step demo_written ?s0"
    using deliver [of demo_written "Inl ''lost''" "[Inr Modify_event]"] fields by (simp add: send_event_def watching_def)
  moreover have "?step ?s0 ?s1"
    using deliver [of ?s0 "Inr Modify_event" "[]"] fields by (simp add: send_event_def is_relevant_event_def watching_def)
  moreover have "?step ?s1 ?s2" by (rule receive) (simp_all add: fields)
  moreover have "?step ?s2 ?s3" by (rule drain) simp
  moreover have "?step ?s3 ?s4"
    by (rule reload) (simp_all add: fields handle_reload_def demo_yaml_def)
  ultimately have run: "(?step ^^ 5) demo_written ?s4"
    unfolding numeral_eq_Suc pred_numeral_simps BitM.simps One_nat_def by (meson relpowp_Suc_I relpowp_0_I)
  have stuck: "\<nexists>s''. ?step ?s4 s''" by (auto elim!: watch_stepE)
  have going: "watching demo_written" "\<not> unreported demo_written"
    by (simp_all add: watching_def demo_written_def demo_watcher_def)
  from watcher_takes_last_change [OF demo_running going run] stuck
  have "5 \<le> work demo_written \<and> phase ?s4 = Waiting \<and> last_read ?s4 = config_file demo_written" by blast
  with run fields(4) show ?thesis by metis
qed

lemma no_warning_no_restart_witness:
  "\<exists>st'. reload_pipelines simple_fns () two_chains two_chains demo_server = (st', Inr []) \<and>
     live st' = live demo_server"
proof -
  have "snd (reload_pipelines simple_fns () two_chains two_chains demo_server) = Inr []" by code_simp
  then obtain st' where run: "reload_pipelines simple_fns () two_chains two_chains demo_server = (st', Inr [])"
    by (cases "reload_pipelines simple_fns () two_chains two_chains demo_server") auto
  have names: "map l_name (listeners two_chains) = [''web'']" by code_simp
  have "dom (live demo_server) = l_name ` set (listeners two_chains)"
    using arg_cong [OF names, of set] by (simp add: demo_server_def)
  with no_warning_no_restart [OF run] names demo_resolve run show ?thesis
    by (auto simp: demo_server_def)
qed

end
