(* ===== verification/Server_Start.thy ===== *)
theory Server_Start
  imports Server_Reload "HOL-Library.Word"
begin

unbundle bit_operations_syntax

text \<open>
  From the command line to the running server: \<open>server/src/main.rs\<close>, the start in \<open>server.rs\<close> and the
  registration of the filters in \<open>lib.rs\<close>. Printing, logging and the listeners of the Pingora server are
  other crates: what is logged as a warning is returned, an exit is a value, and a serving process
  is the state it was given.
\<close>

section \<open>The filters of this repository\<close>

text \<open>The factories, named by the type whose \<open>from_config\<close> it is.\<close>

datatype ai_filter =
    A2aFilter | McpFilter | AiGuardrailsFilter | ModelToHeaderFilter | PromptEnrichFilter | TokenUsageHeadersFilter
  | AnthropicMessagesFormatFilter | AnthropicMessagesProtocolFilter | AnthropicStreamEventsFilter
  | AnthropicToOpenaiFilter | AnthropicValidateFilter | ResponsesFormatFilter | ModelRewriteFilter
  | OpenaiResponsesValidateFilter | OpenaiConversationsFilter | ResponseStoreFilter | RehydrateFilter
  | ResponsesProxyFilter

definition register_agentic_filters :: "(str \<Rightarrow> ai_filter \<Rightarrow> 'r \<Rightarrow> 'r) \<Rightarrow> 'r \<Rightarrow> 'r" where
  "register_agentic_filters register =
     register ''mcp'' McpFilter \<circ> register ''a2a'' A2aFilter"

definition register_general_ai_filters :: "(str \<Rightarrow> ai_filter \<Rightarrow> 'r \<Rightarrow> 'r) \<Rightarrow> 'r \<Rightarrow> 'r" where
  "register_general_ai_filters register =
     register ''token_usage_headers'' TokenUsageHeadersFilter \<circ> register ''prompt_enrich'' PromptEnrichFilter \<circ>
     register ''model_to_header'' ModelToHeaderFilter \<circ> register ''ai_guardrails'' AiGuardrailsFilter"

definition register_anthropic_filters :: "(str \<Rightarrow> ai_filter \<Rightarrow> 'r \<Rightarrow> 'r) \<Rightarrow> 'r \<Rightarrow> 'r" where
  "register_anthropic_filters register =
     register ''anthropic_validate'' AnthropicValidateFilter \<circ>
     register ''anthropic_to_openai'' AnthropicToOpenaiFilter \<circ>
     register ''anthropic_stream_events'' AnthropicStreamEventsFilter \<circ>
     register ''anthropic_messages_protocol'' AnthropicMessagesProtocolFilter \<circ>
     register ''anthropic_messages_format'' AnthropicMessagesFormatFilter"

definition register_openai_filters :: "(str \<Rightarrow> ai_filter \<Rightarrow> 'r \<Rightarrow> 'r) \<Rightarrow> 'r \<Rightarrow> 'r" where
  "register_openai_filters register =
     register ''responses_proxy'' ResponsesProxyFilter \<circ>
     register ''openai_responses_rehydrate'' RehydrateFilter \<circ>
     register ''openai_response_store'' ResponseStoreFilter \<circ>
     register ''openai_conversations'' OpenaiConversationsFilter \<circ>
     register ''openai_responses_validate'' OpenaiResponsesValidateFilter \<circ>
     register ''openai_responses_model_rewrite'' ModelRewriteFilter \<circ>
     register ''openai_responses_format'' ResponsesFormatFilter"

definition register_ai_filters :: "(str \<Rightarrow> ai_filter \<Rightarrow> 'r \<Rightarrow> 'r) \<Rightarrow> 'r \<Rightarrow> 'r" where
  "register_ai_filters register =
     register_openai_filters register \<circ> register_anthropic_filters register \<circ>
     register_general_ai_filters register \<circ> register_agentic_filters register"

text \<open>\<open>register_external\<close> is generated when the server is built.\<close>

definition build_full_registry :: "(str \<Rightarrow> ai_filter \<Rightarrow> 'r \<Rightarrow> 'r) \<Rightarrow> ('r \<Rightarrow> 'r) \<Rightarrow> 'r \<Rightarrow> 'r" where
  "build_full_registry register register_external builtins =
     register_external (register_ai_filters register builtins)"

section \<open>Checks and warnings\<close>

definition check_root_privilege :: "bool \<Rightarrow> nat \<Rightarrow> str option" where
  "check_root_privilege allow euid =
     (if euid \<noteq> 0 then None
      else if allow then None
      else Some (''Praxis refuses to run as root (UID 0). Running a proxy as root is a security risk.'' @ [LF] @
             ''Use one of these alternatives:'' @ [LF] @
             ''  - Run as a non-root user with CAP_NET_BIND_SERVICE for low ports'' @ [LF] @
             ''  - Use a reverse proxy or socket activation'' @ [LF] @
             ''  - Set insecure_options.allow_root: true in config to override (not recommended)''))"

definition insecure_warn :: "bool \<Rightarrow> str \<Rightarrow> str list" where
  "insecure_warn active msg = (if active then [''insecure_options.'' @ msg] else [])"

definition warn_insecure_options :: "insecure_options \<Rightarrow> str list" where
  "warn_insecure_options opts =
     insecure_warn (allow_unbounded_body opts) ''allow_unbounded_body: body size ceiling relaxed'' @
     insecure_warn (allow_open_security_filters opts)
       ''allow_open_security_filters: open failure_mode allowed'' @
     insecure_warn (allow_public_admin opts) ''allow_public_admin: admin may bind all interfaces'' @
     insecure_warn (allow_tls_without_sni opts) ''allow_tls_without_sni: TLS hostname verification weakened'' @
     insecure_warn (allow_private_health_checks opts)
       ''allow_private_health_checks: loopback health checks allowed'' @
     insecure_warn (csrf_log_only opts) ''csrf_log_only: CSRF violations logged, not rejected'' @
     insecure_warn (skip_pipeline_validation opts)
       ''skip_pipeline_validation: pipeline errors demoted to warnings''"

text \<open>Four octal digits, as \<open>{:04o}\<close> prints a number below \<open>0o10000\<close>.\<close>

definition show_mode :: "32 word \<Rightarrow> str" where
  "show_mode m = map (\<lambda>i. digit_char (unat (drop_bit (3 * i) m AND 7))) [3, 2, 1, 0]"

text \<open>\<open>file_mode\<close> is the mode of a file, when its metadata can be read.\<close>

definition warn_insecure_key_permissions ::
  "(str \<Rightarrow> 32 word option) \<Rightarrow> ('c, 'z) config_scheme \<Rightarrow> (str \<times> str \<times> str) list" where
  "warn_insecure_key_permissions file_mode cfg =
     concat (map (\<lambda>listener.
       case l_tls listener of
         None \<Rightarrow> []
       | Some key_paths \<Rightarrow>
           concat (map (\<lambda>key_path.
             case file_mode key_path of
               None \<Rightarrow> []
             | Some mode \<Rightarrow>
                 if mode AND 63 \<noteq> 0 then [(l_name listener, key_path, show_mode (mode AND 4095))] else []) key_paths))
       (listeners cfg))"

section \<open>Starting the server\<close>

text \<open>The machine and the other crates: their functions, and what they read from the process.\<close>

record ('p, 'c, 'w) host =
  h_euid :: nat
  h_env_config :: "str option"
  h_default_exists :: bool
  h_file_mode :: "str \<Rightarrow> 32 word option"
  h_load_config :: "str option \<Rightarrow> server_error + 'c config"
  h_init_tracing :: "'c config \<Rightarrow> server_error + unit"
  h_register_http :: "'c config \<Rightarrow> (str \<rightharpoonup> 'p) \<Rightarrow> server_error + 'w list"
  h_register_tcp :: "'c config \<Rightarrow> (str \<rightharpoonup> 'p) \<Rightarrow> server_error + 'w list"

definition register_protocols ::
  "('p, 'c, 'w) host \<Rightarrow> 'c config \<Rightarrow> (str \<rightharpoonup> 'p) \<Rightarrow> server_error + 'w list" where
  "register_protocols host cfg pipelines =
     and_then (if list_ex (\<lambda>l. l_protocol l = Http) (listeners cfg) then h_register_http host cfg pipelines else Inr [])
       (\<lambda>http. and_then
          (if list_ex (\<lambda>l. l_protocol l = Tcp) (listeners cfg) then h_register_tcp host cfg pipelines else Inr [])
          (\<lambda>tcp. Inr (http @ tcp)))"

text \<open>A server that runs, with what was logged and set before.\<close>

record ('p, 'c, 'w) serving =
  sv_config :: "'c config"
  sv_state :: "('p, 'c) server_state"
  sv_insecure :: "str list"
  sv_keys :: "(str \<times> str \<times> str) list"
  sv_connection_limit :: "nat option"
  sv_memory_threshold :: "nat option"
  sv_cert_watchers :: "'w list"
  sv_admin :: "(str \<times> bool) option"
  sv_watched :: "str option"

definition enforce_root_check :: "('p, 'c, 'w) host \<Rightarrow> 'c config \<Rightarrow> server_error + unit" where
  "enforce_root_check host cfg =
     (case check_root_privilege (allow_root (insecure cfg)) (h_euid host) of Some msg \<Rightarrow> Inl msg | None \<Rightarrow> Inr ())"

text \<open>The global limit on connections and the threshold of memory that are set, when they are.\<close>

definition init_runtime_limits :: "'c config \<Rightarrow> nat option \<times> nat option" where
  "init_runtime_limits cfg = (max_connections cfg, max_memory_bytes cfg)"

definition register_admin_endpoints :: "'c config \<Rightarrow> (str \<times> bool) option" where
  "register_admin_endpoints cfg = map_option (\<lambda>a. (a, admin_verbose cfg)) (admin_address cfg)"

definition run_server_with_registry ::
  "('p, 'h, 'k, 'c) pipeline_fns \<Rightarrow> 'k \<Rightarrow> ('p, 'c, 'w) host \<Rightarrow> 'c config \<Rightarrow> str option
    \<Rightarrow> server_error + ('p, 'c, 'w) serving" where
  "run_server_with_registry fns new_kv host cfg config_path =
     and_then (enforce_root_check host cfg) (\<lambda>_.
     and_then (build_server_state fns new_kv cfg) (\<lambda>state.
     and_then (register_protocols host cfg (live state)) (\<lambda>watchers.
       Inr \<lparr>sv_config = cfg, sv_state = state, sv_insecure = warn_insecure_options (insecure cfg),
            sv_keys = warn_insecure_key_permissions (h_file_mode host) cfg,
            sv_connection_limit = fst (init_runtime_limits cfg), sv_memory_threshold = snd (init_runtime_limits cfg),
            sv_cert_watchers = watchers, sv_admin = register_admin_endpoints cfg, sv_watched = config_path\<rparr>)))"

section \<open>The command line\<close>

record cli =
  cli_config :: "str option"
  cli_dump :: bool
  cli_validate :: bool

text \<open>The file named on the command line, or by the environment.\<close>

definition named_file :: "('p, 'c, 'w) host \<Rightarrow> str option \<Rightarrow> str option" where
  "named_file host path = (case path of Some p \<Rightarrow> Some p | None \<Rightarrow> h_env_config host)"

text \<open>How the process ends, or that it serves; the first three end with exit code 1.\<close>

datatype ('p, 'c, 'w) outcome =
    Invalid_configuration str
  | Dump_failed str
  | Fatal str
  | Finished "'c effective_config_dump option"
  | Serving "('p, 'c, 'w) serving"

definition main_program ::
  "('p, 'h, 'k, 'c) pipeline_fns \<Rightarrow> 'k \<Rightarrow> ('p, 'c, 'w) host \<Rightarrow> bool \<Rightarrow> cli \<Rightarrow> ('p, 'c, 'w) outcome" where
  "main_program fns new_kv host tags args =
     (let explicit = named_file host (cli_config args)
      in if cli_validate args then
           (case load_and_validate_for_cli fns new_kv (h_load_config host) explicit of
              Inl e \<Rightarrow> Invalid_configuration e | Inr _ \<Rightarrow> Finished None)
         else if cli_dump args then
           (case run_dump fns new_kv (h_load_config host) (h_default_exists host) tags explicit of
              Inl e \<Rightarrow> Dump_failed e | Inr d \<Rightarrow> Finished (Some d))
         else
           (let config_path = resolve_config_path (h_default_exists host) explicit
            in case and_then (h_load_config host explicit) (\<lambda>cfg.
                    and_then (h_init_tracing host cfg) (\<lambda>_.
                      run_server_with_registry fns new_kv host cfg config_path)) of
                 Inl e \<Rightarrow> Fatal e | Inr s \<Rightarrow> Serving s))"

section \<open>Validation predicts the start\<close>

definition registered :: "(str \<times> ai_filter) list" where
  "registered = register_ai_filters (\<lambda>name factory fs. fs @ [(name, factory)]) []"

lemma registered_factories:
  "map snd registered =
     [A2aFilter, McpFilter, AiGuardrailsFilter, ModelToHeaderFilter, PromptEnrichFilter, TokenUsageHeadersFilter,
      AnthropicMessagesFormatFilter, AnthropicMessagesProtocolFilter, AnthropicStreamEventsFilter, AnthropicToOpenaiFilter,
      AnthropicValidateFilter, ResponsesFormatFilter, ModelRewriteFilter, OpenaiResponsesValidateFilter,
      OpenaiConversationsFilter, ResponseStoreFilter, RehydrateFilter, ResponsesProxyFilter]"
  by code_simp

text \<open>No name is taken twice, and every filter is registered once.\<close>

lemma registered_names: "distinct (map fst registered)" by code_simp

lemma registered_once: "distinct (map snd registered)" "a \<in> snd ` set registered"
proof -
  have "a \<in> set (map snd registered)" unfolding registered_factories by (cases a) simp_all
  then show "a \<in> snd ` set registered" by simp
qed (simp add: registered_factories)

lemma register_protocols_total:
  assumes "\<forall>cfg slots. (\<exists>ws. h_register_http host cfg slots = Inr ws) \<and> (\<exists>ws. h_register_tcp host cfg slots = Inr ws)"
  shows "\<exists>ws. register_protocols host cfg slots = Inr ws"
proof -
  from assms obtain a b where "h_register_http host cfg slots = Inr a" "h_register_tcp host cfg slots = Inr b" by blast
  then show ?thesis by (simp add: register_protocols_def)
qed

lemma started_server:
  assumes "build_server_state fns kv cfg = Inr st"
  shows "(\<exists>ps. resolve_pipelines fns cfg (build_health_registry fns (clusters cfg)) kv = Inr ps) \<and>
    dom (live st) = l_name ` set (listeners cfg)"
proof -
  from assms obtain ps where ps: "resolve_pipelines fns cfg (build_health_registry fns (clusters cfg)) kv = Inr ps"
    and "live st = map_of ps"
    by (auto simp: build_server_state_def spawn_health_check_tasks_def Let_def split: sum.splits if_splits)
  with pipelines_of_config(2) [OF ps] show ?thesis by (simp add: dom_map_of_conv_image_fst)
qed

text \<open>What a run comes to in each of the three modes.\<close>

definition may_run :: "('p, 'c, 'w) host \<Rightarrow> 'c config \<Rightarrow> bool" where
  "may_run host cfg \<longleftrightarrow> (h_euid host = 0 \<longrightarrow> allow_root (insecure cfg))"

lemma root_check: "enforce_root_check host cfg = Inr u \<longleftrightarrow> may_run host cfg"
  by (simp add: enforce_root_check_def may_run_def check_root_privilege_def)

definition start_args :: "str option \<Rightarrow> bool \<Rightarrow> bool \<Rightarrow> cli" where
  "start_args path dump validate = \<lparr>cli_config = path, cli_dump = dump, cli_validate = validate\<rparr>"

lemma main_validates:
  "main_program fns kv host tags (start_args path dump True) = Finished None \<longleftrightarrow>
     (\<exists>cfg. load_and_validate_for_cli fns kv (h_load_config host) (named_file host path) = Inr cfg)"
  by (simp add: main_program_def start_args_def split: sum.split)

lemma main_dumps:
  "(\<exists>d. main_program fns kv host tags (start_args path True False) = Finished (Some d)) \<longleftrightarrow>
     (\<exists>cfg. load_and_validate_for_cli fns kv (h_load_config host) (named_file host path) = Inr cfg)"
proof -
  let ?e = "named_file host path"
  have "(\<exists>cfg. load_and_validate_for_cli fns kv (h_load_config host) ?e = Inr cfg) \<longleftrightarrow>
      (\<exists>d. run_dump fns kv (h_load_config host) (h_default_exists host) tags ?e = Inr d)"
    using resolved_listeners_show
    by (fastforce simp: run_dump_def build_dump_def and_then_Inr_iff validated_pipelines)
  then show ?thesis by (simp add: main_program_def start_args_def split: sum.split)
qed

lemma main_serves:
  "main_program fns kv host tags (start_args path False False) = Serving s \<longleftrightarrow>
     (\<exists>cfg. h_load_config host (named_file host path) = Inr cfg \<and> h_init_tracing host cfg = Inr () \<and>
        run_server_with_registry fns kv host cfg
          (resolve_config_path (h_default_exists host) (named_file host path)) = Inr s)"
  by (auto simp: main_program_def start_args_def and_then_eq_case Let_def split: sum.splits)

lemma run_Inr:
  "run_server_with_registry fns kv host cfg p = Inr s \<Longrightarrow>
     may_run host cfg \<and> build_server_state fns kv cfg = Inr (sv_state s) \<and> sv_config s = cfg \<and> sv_watched s = p"
  by (auto simp: run_server_with_registry_def root_check and_then_Inr_iff)

lemma run_starts:
  assumes protocols: "\<forall>cfg slots. (\<exists>ws. h_register_http host cfg slots = Inr ws) \<and> (\<exists>ws. h_register_tcp host cfg slots = Inr ws)"
    and "may_run host cfg"
    and ps: "resolve_pipelines fns cfg (build_health_registry fns (clusters cfg)) kv = Inr ps"
  shows "\<exists>s. run_server_with_registry fns kv host cfg p = Inr s"
proof -
  from ps obtain st where "build_server_state fns kv cfg = Inr st" by (simp add: build_server_state_def Let_def)
  moreover obtain ws where "register_protocols host cfg (live st) = Inr ws"
    using register_protocols_total [OF protocols] by blast
  ultimately show ?thesis
    using root_check [of host cfg "()"] assms(2) by (simp add: run_server_with_registry_def)
qed

text \<open>A server that serves validates, and a configuration that validates and may be run serves.\<close>

lemma serving_validates:
  assumes "\<forall>cfg. h_init_tracing host cfg = Inr () \<longleftrightarrow> validate_log_overrides fns cfg = Inr ()"
    and "main_program fns kv host tags (start_args path False False) = Serving s"
  shows "load_and_validate_for_cli fns kv (h_load_config host) (named_file host path) = Inr (sv_config s)"
    and "may_run host (sv_config s)"
    and "h_load_config host (named_file host path) = Inr (sv_config s)"
    and "build_server_state fns kv (sv_config s) = Inr (sv_state s)"
    and "sv_watched s = resolve_config_path (h_default_exists host) (named_file host path)"
  using assms started_server [of fns kv "sv_config s" "sv_state s"]
  by (auto simp: main_serves validated_pipelines dest!: run_Inr)

lemma validated_serves:
  assumes "\<forall>cfg. h_init_tracing host cfg = Inr () \<longleftrightarrow> validate_log_overrides fns cfg = Inr ()"
    and "\<forall>cfg slots. (\<exists>ws. h_register_http host cfg slots = Inr ws) \<and> (\<exists>ws. h_register_tcp host cfg slots = Inr ws)"
    and "load_and_validate_for_cli fns kv (h_load_config host) (named_file host path) = Inr cfg" and "may_run host cfg"
  shows "\<exists>s. main_program fns kv host tags (start_args path False False) = Serving s"
  using assms(1,3) run_starts [OF assms(2,4)] by (fastforce simp: main_serves validated_pipelines)

text \<open>
  C23. Validation predicts the start. When the protocols can be registered and the setup of logging
  refuses what the validation of its settings refuses, \<open>--validate\<close> and \<open>--dump\<close> succeed for the
  same configurations, and the server starts to serve exactly when they do and it is not run by the super user
  against the configuration. A server that serves has the configuration it was told to load, a live pipeline
  built from it for exactly its listeners, its health checks, and watches the file it was loaded from, if there
  is one.
\<close>

theorem validate_predicts_start:
  assumes "\<forall>cfg. h_init_tracing host cfg = Inr () \<longleftrightarrow> validate_log_overrides fns cfg = Inr ()"
    and "\<forall>cfg slots. (\<exists>ws. h_register_http host cfg slots = Inr ws) \<and> (\<exists>ws. h_register_tcp host cfg slots = Inr ws)"
  shows "(main_program fns kv host tags (start_args path False True) = Finished None \<longleftrightarrow>
      (\<exists>d. main_program fns kv host tags (start_args path True False) = Finished (Some d))) \<and>
    ((\<exists>s. main_program fns kv host tags (start_args path False False) = Serving s) \<longleftrightarrow>
      main_program fns kv host tags (start_args path False True) = Finished None \<and>
      (\<exists>cfg. h_load_config host (named_file host path) = Inr cfg \<and> may_run host cfg)) \<and>
    (\<forall>s. main_program fns kv host tags (start_args path False False) = Serving s \<longrightarrow>
      h_load_config host (named_file host path) = Inr (sv_config s) \<and> server_ok fns kv (sv_config s) (sv_state s) \<and>
      dom (live (sv_state s)) = l_name ` set (listeners (sv_config s)) \<and>
      sv_watched s = resolve_config_path (h_default_exists host) (named_file host path))"
proof (intro conjI allI impI)
  show "main_program fns kv host tags (start_args path False True) = Finished None \<longleftrightarrow>
      (\<exists>d. main_program fns kv host tags (start_args path True False) = Finished (Some d))"
    unfolding main_validates main_dumps ..
  show "(\<exists>s. main_program fns kv host tags (start_args path False False) = Serving s) \<longleftrightarrow>
      main_program fns kv host tags (start_args path False True) = Finished None \<and>
      (\<exists>cfg. h_load_config host (named_file host path) = Inr cfg \<and> may_run host cfg)"
    using serving_validates(1-3) [OF assms(1)] validated_serves [OF assms]
    unfolding main_validates by (fastforce simp: validated_pipelines)
next
  fix s assume "main_program fns kv host tags (start_args path False False) = Serving s"
  note st = serving_validates [OF assms(1) this]
  show "h_load_config host (named_file host path) = Inr (sv_config s)"
    "sv_watched s = resolve_config_path (h_default_exists host) (named_file host path)" by (fact st)+
  from started_ok [OF st(4)] started_server [OF st(4)]
  show "server_ok fns kv (sv_config s) (sv_state s)" "dom (live (sv_state s)) = l_name ` set (listeners (sv_config s))"
    by blast+
qed

text \<open>A server started with a file of its own.\<close>

definition demo_host :: "(filter_entry list, unit, unit) host" where
  "demo_host =
     \<lparr>h_euid = 1000, h_env_config = Some ''env.yaml'', h_default_exists = True, h_file_mode = (\<lambda>_. Some 420),
      h_load_config = (\<lambda>p. if p = Some ''my.yaml'' then Inr two_chains else Inl ''not found''),
      h_init_tracing = (\<lambda>_. Inr ()), h_register_http = (\<lambda>_ _. Inr [()]), h_register_tcp = (\<lambda>_ _. Inr [])\<rparr>"

lemma validate_predicts_start_witness:
  "\<exists>s. main_program simple_fns () demo_host True (start_args (Some ''my.yaml'') False False) =
       Serving s \<and> dom (live (sv_state s)) = {''web''} \<and> sv_watched s = Some ''my.yaml''"
proof -
  let ?path = "Some ''my.yaml''"
  have load: "h_load_config demo_host (named_file demo_host ?path) = Inr two_chains"
    by (simp add: demo_host_def named_file_def)
  have "validate_config_for_startup simple_fns () two_chains = Inr ()"
    unfolding validate_config_for_startup_def demo_resolve by (simp add: simple_fns_def)
  with load have valid: "main_program simple_fns () demo_host True (start_args ?path False True) = Finished None"
    by (simp add: main_validates load_and_validate_for_cli_def)
  have "\<forall>cfg. h_init_tracing demo_host cfg = Inr () \<longleftrightarrow> validate_log_overrides simple_fns cfg = Inr ()"
    "\<forall>cfg slots. (\<exists>ws. h_register_http demo_host cfg slots = Inr ws) \<and> (\<exists>ws. h_register_tcp demo_host cfg slots = Inr ws)"
    "may_run demo_host two_chains"
    by (simp_all add: demo_host_def simple_fns_def may_run_def)
  note start = validate_predicts_start [OF this(1,2), where kv = "()" and tags = True and path = ?path]
  from start load valid \<open>may_run demo_host two_chains\<close> obtain s where
    s: "main_program simple_fns () demo_host True (start_args ?path False False) = Serving s" by auto
  with start have "sv_config s = two_chains" "dom (live (sv_state s)) = l_name ` set (listeners (sv_config s))"
    "sv_watched s = resolve_config_path (h_default_exists demo_host) (named_file demo_host ?path)"
    using load by auto
  moreover have "l_name ` set (listeners two_chains) = {''web''}" by (simp add: two_chains_def)
  ultimately show ?thesis using s by (auto simp: resolve_config_path_def named_file_def)
qed

end
