(* ===== verification/Filter_Discovery.thy ===== *)
theory Filter_Discovery
  imports Server_Start "HOL-Library.List_Lexorder" "HOL-Library.Char_ord"
begin

text \<open>
  The build script of the server (\<open>server/build.rs\<close>): which crates bring filters of their own, and the
  function that registers them. \<open>cargo metadata\<close> is a parameter: its packages and its graph of
  resolved dependencies, with the fields the script reads.
\<close>

section \<open>Cargo's metadata\<close>

record cargo_package =
  pkg_id :: str
  pkg_name :: str
  pkg_manifest_path :: str
  pkg_metadata :: json
  pkg_features :: "str list"

datatype dependency_kind = Normal_kind | Development_kind | Build_kind | Unknown_kind

record node_dep =
  dep_name :: str
  dep_pkg :: str
  dep_kinds :: "dependency_kind list"

record cargo_node =
  node_id :: str
  node_deps :: "node_dep list"

record cargo_metadata =
  packages :: "cargo_package list"
  resolve_nodes :: "cargo_node list option"

section \<open>Discovery\<close>

text \<open>Collecting into a \<open>HashMap\<close>: a later package replaces an earlier one of the same id.\<close>

definition packages_by_id :: "cargo_package list \<Rightarrow> str \<rightharpoonup> cargo_package" where
  "packages_by_id pkgs = map_of (rev (map (\<lambda>p. (pkg_id p, p)) pkgs))"

definition collect_server_deps :: "cargo_package list \<Rightarrow> cargo_node list \<Rightarrow> node_dep list" where
  "collect_server_deps pkgs nodes =
     (case find (\<lambda>node. list_ex (\<lambda>p. pkg_id p = node_id node \<and> pkg_name p = ''praxis-proxy'') pkgs) nodes of
        Some node \<Rightarrow> node_deps node
      | None \<Rightarrow> [])"

definition is_runtime_dependency :: "node_dep \<Rightarrow> bool" where
  "is_runtime_dependency dep = list_ex (\<lambda>k. k = Normal_kind) (dep_kinds dep)"

definition has_praxis_filter_marker :: "cargo_package \<Rightarrow> bool" where
  "has_praxis_filter_marker pkg =
     (case as_object (pkg_metadata pkg) of None \<Rightarrow> False | Some obj \<Rightarrow> contains_key obj ''praxis-filters'')"

text \<open>\<open>None\<close> is the panic on metadata without a graph.\<close>

definition discover_external_filter_crates :: "cargo_metadata \<Rightarrow> str list option" where
  "discover_external_filter_crates metadata =
     map_option (\<lambda>nodes.
       remdups_adj (sort (map (\<lambda>(dep, _). dep_name dep)
         (filter (\<lambda>(_, pkg). has_praxis_filter_marker pkg)
           (List.map_filter (\<lambda>dep. map_option (Pair dep) (packages_by_id (packages metadata) (dep_pkg dep)))
             (filter is_runtime_dependency (collect_server_deps (packages metadata) nodes)))))))
       (resolve_nodes metadata)"

definition direct_runtime_dependency_manifest_paths :: "cargo_metadata \<Rightarrow> str list option" where
  "direct_runtime_dependency_manifest_paths metadata =
     map_option (\<lambda>nodes.
       remdups_adj (sort (List.map_filter
         (\<lambda>dep. map_option pkg_manifest_path (packages_by_id (packages metadata) (dep_pkg dep)))
         (filter is_runtime_dependency (collect_server_deps (packages metadata) nodes)))))
       (resolve_nodes metadata)"

text \<open>The lines printed for Cargo.\<close>

definition emit_rerun_directives :: "cargo_metadata \<Rightarrow> str list option" where
  "emit_rerun_directives metadata =
     map_option (\<lambda>paths.
       map (\<lambda>path. ''cargo:rerun-if-changed='' @ path)
         ([''Cargo.toml'', ''../Cargo.toml'', ''../Cargo.lock'', ''build.rs''] @ paths))
       (direct_runtime_dependency_manifest_paths metadata)"

section \<open>Features\<close>

record feature_selection =
  default_enabled :: bool
  feature_names :: "str list"

definition ascii_upper :: "char \<Rightarrow> char" where
  "ascii_upper c = (if 97 \<le> byte c \<and> byte c \<le> 122 then char_of (byte c - 32) else c)"

definition feature_env_name :: "str \<Rightarrow> str" where
  "feature_env_name name = map (\<lambda>c. ascii_upper (if c = CHR ''-'' then CHR ''_'' else c)) name"

text \<open>
  From the packages of the workspace and the variables of the environment; \<open>None\<close> is the panic when the
  package is not there.
\<close>

definition active_features :: "cargo_package list \<Rightarrow> (str \<times> str) list \<Rightarrow> feature_selection option" where
  "active_features pkgs env =
     map_option (\<lambda>package.
       let by_env = map_of (rev (map (\<lambda>name. (feature_env_name name, name)) (pkg_features package)))
       in \<lparr>default_enabled = list_ex (\<lambda>(key, _). key = ''CARGO_FEATURE_DEFAULT'') env,
           feature_names = remdups_adj (sort (List.map_filter by_env
             (filter (\<lambda>name. name \<noteq> ''DEFAULT'')
               (List.map_filter (\<lambda>(key, _). strip_prefix ''CARGO_FEATURE_'' key) env))))\<rparr>)
       (find (\<lambda>pkg. pkg_name pkg = ''praxis-ai-proxy'') pkgs)"

datatype cargo_opt = No_default_features | Some_features "str list"

definition apply_active_features :: "feature_selection \<Rightarrow> cargo_opt list" where
  "apply_active_features f =
     (if default_enabled f then [] else [No_default_features]) @
     (if feature_names f = [] then [] else [Some_features (feature_names f)])"

text \<open>\<open>cargo\<close> runs the command with these options; an error of it is a panic.\<close>

definition load_metadata ::
  "(cargo_opt list \<Rightarrow> str list \<Rightarrow> cargo_metadata option) \<Rightarrow> cargo_package list \<Rightarrow> (str \<times> str) list
    \<Rightarrow> cargo_metadata option" where
  "load_metadata cargo pkgs env =
     Option.bind (active_features pkgs env) (\<lambda>f.
       cargo (apply_active_features f)
         (case map_of env ''TARGET'' of Some target \<Rightarrow> [''--filter-platform'', target] | None \<Rightarrow> []))"

section \<open>The generated function\<close>

definition code_line :: "str \<Rightarrow> str" where
  "code_line l = l @ [LF]"

definition register_call :: "str \<Rightarrow> str" where
  "register_call crate = code_line (''    '' @ crate @ ''::register_filters(registry);'')"

definition generate_registration_code :: "str list \<Rightarrow> str" where
  "generate_registration_code crates =
     concat (map code_line
       [''/// Register all auto-discovered external filter crates.'',
        ''///'',
        ''/// Generated by `build.rs` from dependencies carrying'',
        ''/// `[package.metadata.praxis-filters]` in their `Cargo.toml`.'',
        ''///'',
        ''/// # Panics'',
        ''///'',
        ''/// Panics if any external filter name conflicts with a'',
        ''/// built-in or previously registered filter.'']) @
     (if crates = []
      then concat (map code_line
        [''#[expect('',
         ''    unused_variables,'',
         ''    clippy::needless_pass_by_ref_mut,'',
         ''    reason = '' @ [CHR 0x22] @ ''generated: no external filters discovered'' @ [CHR 0x22],
         '')]''])
      else []) @
     code_line ''fn register_external_filters(registry: &mut praxis_filter::FilterRegistry) {'' @
     concat (map register_call crates) @
     code_line ''}''"

text \<open>What the script writes to \<open>external_filters.rs\<close> and prints.\<close>

definition build_script ::
  "(cargo_opt list \<Rightarrow> str list \<Rightarrow> cargo_metadata option) \<Rightarrow> cargo_package list \<Rightarrow> (str \<times> str) list
    \<Rightarrow> (str \<times> str list) option" where
  "build_script cargo pkgs env =
     Option.bind (load_metadata cargo pkgs env) (\<lambda>metadata.
     Option.bind (discover_external_filter_crates metadata) (\<lambda>crates.
     map_option (Pair (generate_registration_code crates)) (emit_rerun_directives metadata)))"

section \<open>What is discovered\<close>

lemma distinct_remdups_adj: "sorted xs \<Longrightarrow> distinct (remdups_adj xs)"
  by (induction xs rule: remdups_adj.induct) (auto simp: order.antisym)

lemma remdups_adj_sort:
  "sorted (remdups_adj (sort xs))" "distinct (remdups_adj (sort xs))" "set (remdups_adj (sort xs)) = set xs"
  by (simp_all add: sorted_remdups_adj distinct_remdups_adj)

definition offers_filters :: "cargo_metadata \<Rightarrow> node_dep \<Rightarrow> bool" where
  "offers_filters metadata dep \<longleftrightarrow>
     is_runtime_dependency dep \<and>
     (case packages_by_id (packages metadata) (dep_pkg dep) of
        None \<Rightarrow> False | Some pkg \<Rightarrow> has_praxis_filter_marker pkg)"

lemma discovered:
  assumes "discover_external_filter_crates metadata = Some crates"
    and "resolve_nodes metadata = Some nodes"
  shows "sorted crates" and "distinct crates"
    and "set crates = dep_name ` {dep \<in> set (collect_server_deps (packages metadata) nodes). offers_filters metadata dep}"
proof -
  show "sorted crates" and "distinct crates"
    using assms by (auto simp: discover_external_filter_crates_def remdups_adj_sort)
  show "set crates = dep_name ` {dep \<in> set (collect_server_deps (packages metadata) nodes). offers_filters metadata dep}"
    using assms
    by (force simp: discover_external_filter_crates_def remdups_adj_sort offers_filters_def
        map_filter_def split: option.splits)
qed

text \<open>
  The dependencies are those of a package called \<open>praxis-proxy\<close>. Without one in the graph nothing is
  discovered, whatever the server depends on.
\<close>

lemma no_deps_without_praxis_proxy:
  assumes "list_all (\<lambda>p. pkg_name p \<noteq> ''praxis-proxy'') pkgs"
  shows "collect_server_deps pkgs nodes = []"
proof -
  have "list_ex (\<lambda>p. pkg_id p = i \<and> pkg_name p = ''praxis-proxy'') pkgs = False" for i
    using assms by (auto simp: list_all_iff list_ex_iff)
  then have "find (\<lambda>node. list_ex (\<lambda>p. pkg_id p = node_id node \<and> pkg_name p = ''praxis-proxy'') pkgs) nodes = None"
    by (simp add: find_None_iff)
  then show ?thesis by (simp add: collect_server_deps_def)
qed

lemma nothing_discovered:
  assumes "list_all (\<lambda>p. pkg_name p \<noteq> ''praxis-proxy'') (packages metadata)"
    and "resolve_nodes metadata \<noteq> None"
  shows "discover_external_filter_crates metadata = Some []"
  using assms by (auto simp: discover_external_filter_crates_def no_deps_without_praxis_proxy map_filter_def)

text \<open>
  The package of the server is called \<open>praxis-ai-proxy\<close>, so a crate with the marker that it depends on
  is not registered.
\<close>

definition marked_crate :: cargo_package where
  "marked_crate =
     \<lparr>pkg_id = ''quota 0.1.0'', pkg_name = ''my-token-quota'', pkg_manifest_path = ''/quota/Cargo.toml'',
      pkg_metadata = JObject [(''praxis-filters'', JObject [])], pkg_features = []\<rparr>"

definition server_crate :: cargo_package where
  "server_crate =
     \<lparr>pkg_id = ''server 0.1.0'', pkg_name = ''praxis-ai-proxy'', pkg_manifest_path = ''/server/Cargo.toml'',
      pkg_metadata = JNull, pkg_features = []\<rparr>"

definition marked_dep :: node_dep where
  "marked_dep = \<lparr>dep_name = ''my_token_quota'', dep_pkg = ''quota 0.1.0'', dep_kinds = [Normal_kind]\<rparr>"

definition server_metadata :: cargo_metadata where
  "server_metadata =
     \<lparr>packages = [server_crate, marked_crate],
      resolve_nodes = Some [\<lparr>node_id = ''server 0.1.0'', node_deps = [marked_dep]\<rparr>]\<rparr>"

lemma marked_crate_missed:
  "offers_filters server_metadata marked_dep"
  "discover_external_filter_crates server_metadata = Some []"
proof -
  show "offers_filters server_metadata marked_dep"
    by (simp add: offers_filters_def is_runtime_dependency_def packages_by_id_def server_metadata_def
        marked_dep_def marked_crate_def server_crate_def has_praxis_filter_marker_def contains_key_def)
  show "discover_external_filter_crates server_metadata = Some []"
    by (rule nothing_discovered) (simp_all add: server_metadata_def server_crate_def marked_crate_def)
qed

section \<open>The generated code calls what was discovered\<close>

definition called_crates :: "str \<Rightarrow> str list" where
  "called_crates code =
     List.map_filter (\<lambda>l. Option.bind (strip_prefix ''    '' l) (strip_suffix ''::register_filters(registry);''))
       (str_lines code)"

definition plain_line :: "str \<Rightarrow> bool" where
  "plain_line l \<longleftrightarrow> list_all (\<lambda>c. c \<noteq> LF \<and> c \<noteq> CR) l"

lemma strip_cr_plain: "plain_line l \<Longrightarrow> strip_cr l = l"
  by (cases "strip_suffix [CR] l") (simp_all add: strip_cr_def plain_line_def strip_suffix_Some_iff)

lemma str_lines_code_line: "plain_line l \<Longrightarrow> str_lines (code_line l @ r) = l # str_lines r"
proof -
  assume l: "plain_line l"
  then have "split_char LF (l @ LF # r) = l # split_char LF r"
    by (induction l) (simp_all add: plain_line_def)
  with strip_cr_plain [OF l] show ?thesis by (simp add: str_lines_def code_line_def Let_def)
qed

lemma str_lines_code:
  "list_all plain_line ls \<Longrightarrow> str_lines (concat (map code_line ls)) = ls"
  by (induction ls) (simp_all add: str_lines_code_line, simp add: str_lines_def)

lemma strip_call: "strip_suffix t (c @ t) = Some c"
  by (simp add: strip_suffix_Some_iff)

lemma map_filter_calls:
  "List.map_filter (\<lambda>l. Option.bind (strip_prefix ''    '' l) (strip_suffix ''::register_filters(registry);''))
     (map (\<lambda>c. ''    '' @ c @ ''::register_filters(registry);'') crates) = crates"
  by (induction crates) (simp_all only: list.map map_filter_simps strip_prefix_append Option.bind.simps strip_call option.case)

definition code_header :: "bool \<Rightarrow> str list" where
  "code_header none =
     [''/// Register all auto-discovered external filter crates.'',
      ''///'',
      ''/// Generated by `build.rs` from dependencies carrying'',
      ''/// `[package.metadata.praxis-filters]` in their `Cargo.toml`.'',
      ''///'',
      ''/// # Panics'',
      ''///'',
      ''/// Panics if any external filter name conflicts with a'',
      ''/// built-in or previously registered filter.''] @
     (if none
      then [''#[expect('', ''    unused_variables,'', ''    clippy::needless_pass_by_ref_mut,'',
            ''    reason = '' @ [CHR 0x22] @ ''generated: no external filters discovered'' @ [CHR 0x22], '')]'']
      else []) @
     [''fn register_external_filters(registry: &mut praxis_filter::FilterRegistry) {'']"

lemma generated_lines:
  "generate_registration_code crates =
     concat (map code_line
       (code_header (crates = []) @ map (\<lambda>c. ''    '' @ c @ ''::register_filters(registry);'') crates @ [''}'']))"
  unfolding generate_registration_code_def code_header_def register_call_def
  by (simp only: map_append concat_append list.map concat.simps if_distrib map_map comp_def append_Nil append_Nil2
      append_assoc split: if_split) simp

lemma header_plain: "list_all plain_line (code_header none)"
  by (cases none) (simp_all add: code_header_def plain_line_def)

lemma header_calls_nothing:
  "List.map_filter (\<lambda>l. Option.bind (strip_prefix ''    '' l) (strip_suffix ''::register_filters(registry);''))
     (code_header none) = []"
  by (cases none) (simp_all add: code_header_def strip_suffix_def map_filter_simps)

lemma generated_calls:
  assumes "list_all plain_line crates"
  shows "called_crates (generate_registration_code crates) = crates"
proof -
  let ?calls = "map (\<lambda>c. ''    '' @ c @ ''::register_filters(registry);'') crates"
  have "list_all plain_line ?calls"
    using assms by (simp add: list_all_iff plain_line_def)
  then have "list_all plain_line (code_header (crates = []) @ ?calls @ [''}''])"
    using header_plain [of "crates = []"] by (simp add: plain_line_def)
  then have "str_lines (generate_registration_code crates) = code_header (crates = []) @ ?calls @ [''}'']"
    unfolding generated_lines by (rule str_lines_code)
  moreover have "List.map_filter f (xs @ ys) = List.map_filter f xs @ List.map_filter f ys" for f :: "str \<Rightarrow> str option" and xs ys
    by (simp add: map_filter_def)
  ultimately show ?thesis
    by (simp only: called_crates_def header_calls_nothing map_filter_calls) (simp add: map_filter_simps)
qed

section \<open>Features are read back\<close>

lemma by_env_iff:
  assumes "inj_on feature_env_name (set names)"
  shows "map_of (rev (map (\<lambda>name. (feature_env_name name, name)) names)) e = Some n
     \<longleftrightarrow> n \<in> set names \<and> feature_env_name n = e"
proof -
  have "map_of (map (\<lambda>name. (feature_env_name name, name)) ns) e = Some n \<longleftrightarrow> n \<in> set ns \<and> feature_env_name n = e"
    if "inj_on feature_env_name (set ns)" for ns
    using that by (induction ns) (force simp: inj_on_def)+
  from this [of "rev names"] assms show ?thesis by (simp add: rev_map)
qed

lemma set_map_filter: "y \<in> set (List.map_filter g xs) \<longleftrightarrow> (\<exists>x \<in> set xs. g x = Some y)"
  by (induction xs) (auto simp: map_filter_simps split: option.split)

lemma features_read_back:
  assumes found: "find (\<lambda>pkg. pkg_name pkg = ''praxis-ai-proxy'') pkgs = Some package"
    and inj: "inj_on feature_env_name (set (pkg_features package))"
    and active: "active_features pkgs env = Some f"
  shows "sorted (feature_names f)" and "distinct (feature_names f)"
    and "set (feature_names f) =
      {n \<in> set (pkg_features package). feature_env_name n \<noteq> ''DEFAULT'' \<and> ''CARGO_FEATURE_'' @ feature_env_name n \<in> fst ` set env}"
proof -
  show "sorted (feature_names f)" and "distinct (feature_names f)"
    using found active by (auto simp: active_features_def Let_def remdups_adj_sort)
  show "set (feature_names f) =
      {n \<in> set (pkg_features package). feature_env_name n \<noteq> ''DEFAULT'' \<and> ''CARGO_FEATURE_'' @ feature_env_name n \<in> fst ` set env}"
  proof (rule set_eqI)
    fix n
    have "n \<in> set (feature_names f) \<longleftrightarrow>
        (\<exists>key \<in> fst ` set env. \<exists>e. strip_prefix ''CARGO_FEATURE_'' key = Some e \<and> e \<noteq> ''DEFAULT'' \<and>
          n \<in> set (pkg_features package) \<and> feature_env_name n = e)"
      using found active
      by (force simp: active_features_def Let_def remdups_adj_sort set_map_filter by_env_iff [OF inj])
    also have "\<dots> \<longleftrightarrow> n \<in> {n \<in> set (pkg_features package).
        feature_env_name n \<noteq> ''DEFAULT'' \<and> ''CARGO_FEATURE_'' @ feature_env_name n \<in> fst ` set env}"
      unfolding strip_prefix_Some_iff mem_Collect_eq by metis
    finally show "n \<in> set (feature_names f) \<longleftrightarrow> \<dots>" .
  qed
qed

section \<open>The registry of a build\<close>

text \<open>
  The registry a server starts with, when it was built with this metadata: the generated function
  calls \<open>register_filters\<close> of the discovered crates, one after the other.
\<close>

definition registry_of_build ::
  "cargo_metadata \<Rightarrow> (str \<Rightarrow> ai_filter \<Rightarrow> 'r \<Rightarrow> 'r) \<Rightarrow> (str \<Rightarrow> 'r \<Rightarrow> 'r) \<Rightarrow> 'r \<Rightarrow> 'r option" where
  "registry_of_build metadata register register_filters builtins =
     map_option (\<lambda>crates.
       build_full_registry register
         (fold register_filters (called_crates (generate_registration_code crates))) builtins)
       (discover_external_filter_crates metadata)"

text \<open>Without a package called \<open>praxis-proxy\<close> it holds the filters of this repository only.\<close>

lemma registry_without_external:
  assumes "list_all (\<lambda>p. pkg_name p \<noteq> ''praxis-proxy'') (packages metadata)"
    and "resolve_nodes metadata \<noteq> None"
  shows "registry_of_build metadata register register_filters builtins =
     Some (register_ai_filters register builtins)"
  using nothing_discovered [OF assms] generated_calls [of "[]"]
  by (simp add: registry_of_build_def build_full_registry_def)

text \<open>With it, the registry also has the filters of every crate discovered, in their order.\<close>

lemma registry_with_external:
  assumes "discover_external_filter_crates metadata = Some crates" and "list_all plain_line crates"
  shows "registry_of_build metadata register register_filters builtins =
     Some (fold register_filters crates (register_ai_filters register builtins))"
  using assms by (simp add: registry_of_build_def build_full_registry_def generated_calls)

end
