(* ===== verification/Classifier_Copy.thy ===== *)
theory Classifier_Copy
  imports Classifier
begin

text \<open>
  The older copy of the classifier, \<open>apis/src/openai/responses/classifier/mod.rs\<close>, which no module
  declares any more, and how far the classifier in use still answers as it did.
\<close>

section \<open>Formats\<close>

datatype ai_request_format_copy =
  Copy_responses | Copy_chat_completions | Copy_unknown_json | Copy_invalid_json | Copy_non_json

fun format_as_str_copy :: "ai_request_format_copy \<Rightarrow> str" where
  "format_as_str_copy Copy_responses = ''openai_responses''"
| "format_as_str_copy Copy_chat_completions = ''openai_chat_completions''"
| "format_as_str_copy Copy_unknown_json = ''unknown''"
| "format_as_str_copy Copy_invalid_json = ''invalid_json''"
| "format_as_str_copy Copy_non_json = ''non_json''"

record classified_request_copy =
  o_background :: "bool option"
  o_format :: ai_request_format_copy
  o_has_conversation :: bool
  o_has_previous_response_id :: bool
  o_has_prompt_id :: bool
  o_has_tools :: bool
  o_model :: "str option"
  o_store :: "bool option"
  o_stream :: "bool option"

definition empty_result_copy :: "ai_request_format_copy \<Rightarrow> classified_request_copy" where
  "empty_result_copy format =
     \<lparr>o_background = None, o_format = format, o_has_conversation = False, o_has_previous_response_id = False,
      o_has_prompt_id = False, o_has_tools = False, o_model = None, o_store = None, o_stream = None\<rparr>"

section \<open>Paths\<close>

definition is_responses_path_copy :: "str \<Rightarrow> str \<Rightarrow> bool" where
  "is_responses_path_copy method path =
     (let path = (case strip_suffix ''/'' path of None \<Rightarrow> path | Some p \<Rightarrow> if p = [] then path else p)
      in case split_char (CHR ''/'') path of
        [a, b, c, i] \<Rightarrow>
          a = [] \<and> b = ''v1'' \<and> c = ''responses'' \<and>
          (if method = ''POST'' then i = ''input_tokens'' \<or> i = ''compact''
           else (method = ''GET'' \<or> method = ''DELETE'') \<and> i \<noteq> [])
      | [a, b, c, i, e] \<Rightarrow>
          a = [] \<and> b = ''v1'' \<and> c = ''responses'' \<and> i \<noteq> [] \<and>
          (if method = ''GET'' then e = ''input_items'' else method = ''POST'' \<and> e = ''cancel'')
      | _ \<Rightarrow> False)"

section \<open>Bodies\<close>

definition classify_format_copy :: "jmap \<Rightarrow> ai_request_format_copy" where
  "classify_format_copy obj =
     (if contains_key obj ''input'' \<or> (case map_of obj ''prompt'' of None \<Rightarrow> False | Some v \<Rightarrow> is_object v)
      then Copy_responses
      else if contains_key obj ''messages'' then Copy_chat_completions else Copy_unknown_json)"

definition extract_string_copy :: "externals \<Rightarrow> jmap \<Rightarrow> str \<Rightarrow> str option" where
  "extract_string_copy ext obj key =
     (case map_of obj key of
        Some (JString s) \<Rightarrow> Some s
      | Some (JNumber n) \<Rightarrow> Some (num_text ext n)
      | Some (JBool b) \<Rightarrow> Some (bool_text b)
      | _ \<Rightarrow> None)"

definition present_copy :: "jmap \<Rightarrow> str \<Rightarrow> bool" where
  "present_copy obj key = (case map_of obj key of None \<Rightarrow> False | Some v \<Rightarrow> \<not> is_null v)"

definition classify_request_body_copy :: "externals \<Rightarrow> bytes \<Rightarrow> classified_request_copy" where
  "classify_request_body_copy ext body =
     (if body = [] then empty_result_copy Copy_non_json
      else case from_slice ext body of
        Inr (JObject obj) \<Rightarrow>
          \<lparr>o_background = Option.bind (map_of obj ''background'') as_bool,
           o_format = classify_format_copy obj,
           o_has_conversation = present_copy obj ''conversation'',
           o_has_previous_response_id = present_copy obj ''previous_response_id'',
           o_has_prompt_id =
             (case map_of obj ''prompt'' of Some (JObject prompt) \<Rightarrow> present_copy prompt ''id'' | _ \<Rightarrow> False),
           o_has_tools = (case map_of obj ''tools'' of Some (JArray a) \<Rightarrow> a \<noteq> [] | _ \<Rightarrow> False),
           o_model = extract_string_copy ext obj ''model'',
           o_store = Option.bind (map_of obj ''store'') as_bool,
           o_stream = Option.bind (map_of obj ''stream'') as_bool\<rparr>
      | _ \<Rightarrow> empty_result_copy Copy_invalid_json)"

section \<open>What has changed since\<close>

lemma responses_path_unchanged: "is_responses_path_copy method path = is_responses_path method path"
proof -
  have "(case strip_suffix ''/'' path of None \<Rightarrow> path | Some p \<Rightarrow> if p = [] then path else p) =
      normalize_trailing_slash path"
    by (simp add: normalize_trailing_slash_def split: option.split)
  then show ?thesis
    by (auto simp: is_responses_path_copy_def is_responses_path_def path_segments_def Let_def split: list.split)
qed

fun format_now :: "ai_request_format_copy \<Rightarrow> ai_request_format" where
  "format_now Copy_responses = Responses"
| "format_now Copy_chat_completions = Chat_completions"
| "format_now Copy_unknown_json = Unknown_json"
| "format_now Copy_invalid_json = Invalid_json"
| "format_now Copy_non_json = Non_json"

lemma format_name_unchanged: "format_as_str (format_now f) = format_as_str_copy f"
  by (cases f) simp_all

text \<open>
  The classifier in use also takes a reference to a stored response or conversation for a Responses
  request, and tells Anthropic requests from Chat Completions; otherwise the format is the same.
\<close>

lemma format_changes:
  "classify_format obj =
     (if contains_key obj ''previous_response_id'' \<or> contains_key obj ''conversation'' then Responses
      else if classify_format_copy obj = Copy_chat_completions \<and> contains_key obj ''max_tokens'' \<and>
              has_anthropic_signals obj then Anthropic_messages
      else format_now (classify_format_copy obj))"
  by (simp add: classify_format_def classify_format_copy_def)

lemma extract_string_unchanged: "extract_string_copy ext obj key = extract_string ext obj key"
  by (auto simp: extract_string_copy_def extract_string_def split: option.split json.split)

lemma present_unchanged: "present_copy obj key = non_null (map_of obj key)"
  by (simp add: present_copy_def non_null_def split: option.split)

definition facts_copy ::
  "classified_request_copy \<Rightarrow> (bool option \<times> bool option \<times> bool option) \<times> (bool \<times> bool \<times> bool \<times> bool) \<times> str option" where
  "facts_copy r =
     ((o_background r, o_store r, o_stream r),
      (o_has_conversation r, o_has_previous_response_id r, o_has_prompt_id r, o_has_tools r), o_model r)"

definition facts_now ::
  "classified_request \<Rightarrow> (bool option \<times> bool option \<times> bool option) \<times> (bool \<times> bool \<times> bool \<times> bool) \<times> str option" where
  "facts_now r =
     ((c_background r, c_store r, c_stream r),
      (has_conversation r, has_previous_response_id r, has_prompt_id r, has_tools r), c_model r)"

lemma facts_unchanged:
  "facts_copy (classify_request_body_copy ext body) = facts_now (classify_request_body ext body)"
proof (cases "body = []")
  case True
  then show ?thesis
    by (simp add: classify_request_body_copy_def classify_request_body_def facts_copy_def facts_now_def
        empty_result_copy_def empty_result_def)
next
  case False
  show ?thesis
  proof (cases "from_slice ext body")
    case (Inl e)
    with False show ?thesis
      by (simp add: classify_request_body_copy_def classify_request_body_def facts_copy_def facts_now_def
          empty_result_copy_def empty_result_def)
  next
    case (Inr v)
    with False show ?thesis
      by (cases v)
         (auto simp: classify_request_body_copy_def classify_request_body_def facts_copy_def facts_now_def
            empty_result_copy_def empty_result_def extract_string_unchanged present_unchanged
            non_null_def split: option.split json.split)
  qed
qed

end
