(* ===== verification/Readme_Sync.thy ===== *)
theory Readme_Sync
  imports Ip_Addr "HOL-Library.List_Lexorder" "HOL-Library.Char_ord"
begin

text \<open>
  The task that keeps the tables of \<open>examples/README.md\<close> in step with the example configurations
  (\<open>xtask/src/sync_example_readme.rs\<close>). The directory of the examples is a tree of entries in the order
  in which they are listed; a directory that cannot be read counts as one without entries, as it does in the
  code.
\<close>

section \<open>Constants\<close>

definition title_overrides :: "(str \<times> str) list" where
  "title_overrides = [(''openai'', ''OpenAI'')]"

definition skip_prefixes :: "str list" where
  "skip_prefixes =
     [''Backend endpoints '', ''Example:'', ''Flow:'', ''Pipeline:'', ''Requires '', ''Test:'', ''Try it:'',
      ''Usage:'', ''What reloads '', ''What requires '']"

definition special_entries :: "(str \<times> str \<times> str \<times> str) list" where
  "special_entries =
     [(''pipeline'', ''default.yaml'', ''../core/src/config/default.yaml'',
       ''Built-in default config (static JSON on /)'')]"

definition configs_marker :: str where
  "configs_marker = ''## Configs'' @ [LF]"

section \<open>Descriptions\<close>

definition trim_start :: "str \<Rightarrow> str" where
  "trim_start s = strip_spaces (length s) unicode_spaces s"

definition trim_end :: "str \<Rightarrow> str" where
  "trim_end s = rev (strip_spaces (length s) (map rev unicode_spaces) (rev s))"

lemma str_trim_eq: "str_trim s = trim_end (trim_start s)"
  by (simp add: str_trim_def trim_start_def trim_end_def Let_def)

text \<open>The loop over the lines, with the paragraphs so far and the one being read.\<close>

fun comment_paragraphs :: "str list \<Rightarrow> str list list \<Rightarrow> str list \<Rightarrow> str list list" where
  "comment_paragraphs [] paragraphs current = (if current = [] then paragraphs else paragraphs @ [current])"
| "comment_paragraphs (line # ls) paragraphs current =
     (case strip_prefix ''#'' line of
        None \<Rightarrow> (if current = [] then paragraphs else paragraphs @ [current])
      | Some rest \<Rightarrow>
          (let txt = unwrap_or rest (strip_prefix '' '' rest)
           in if txt = [] then
                (if current = [] then comment_paragraphs ls paragraphs []
                 else comment_paragraphs ls (paragraphs @ [current]) [])
              else if starts_with txt ''  '' then comment_paragraphs ls paragraphs current
              else comment_paragraphs ls paragraphs (current @ [txt])))"

definition parse_comment_paragraphs :: "str \<Rightarrow> str list list" where
  "parse_comment_paragraphs content = comment_paragraphs (str_lines content) [] []"

definition is_skip_paragraph :: "str list \<Rightarrow> bool" where
  "is_skip_paragraph para =
     (case first_of para of
        None \<Rightarrow> False
      | Some line \<Rightarrow> list_ex (\<lambda>p. starts_with line p) skip_prefixes \<or> ends_with line '':'')"

definition is_ascii_digit :: "char \<Rightarrow> bool" where
  "is_ascii_digit c \<longleftrightarrow> 48 \<le> byte c \<and> byte c \<le> 57"

definition is_ascii_uppercase :: "char \<Rightarrow> bool" where
  "is_ascii_uppercase c \<longleftrightarrow> 65 \<le> byte c \<and> byte c \<le> 90"

definition some_is :: "('a \<Rightarrow> bool) \<Rightarrow> 'a option \<Rightarrow> bool" where
  "some_is P x = (case x of None \<Rightarrow> False | Some v \<Rightarrow> P v)"

definition sentence_end :: "str \<Rightarrow> nat \<Rightarrow> bool" where
  "sentence_end s i \<longleftrightarrow>
     get_at s i = Some (CHR ''.'') \<and>
     \<not> (0 < i \<and> some_is is_ascii_digit (get_at s (i - 1))) \<and>
     (i + 1 = length s \<or> get_at s (i + 1) = Some SP \<and> some_is is_ascii_uppercase (get_at s (i + 2)))"

definition first_sentence :: "str \<Rightarrow> str" where
  "first_sentence s0 =
     (let s = str_trim s0
      in case find (sentence_end s) [0 ..< length s] of None \<Rightarrow> s | Some i \<Rightarrow> take i s)"

definition normalize_description :: "str \<Rightarrow> str" where
  "normalize_description s =
     trim_end (rev (dropWhile (\<lambda>c. c = CHR ''.'' \<or> c = CHR '':'') (rev (str_trim s))))"

definition description_from_header :: "str \<Rightarrow> str" where
  "description_from_header content =
     (let paragraphs = parse_comment_paragraphs content
      in case find (\<lambda>p. \<not> is_skip_paragraph p) (drop 1 paragraphs) of
           Some para \<Rightarrow> normalize_description (first_sentence (str_join '' '' para))
         | None \<Rightarrow>
             (case first_of paragraphs of
                Some title \<Rightarrow> normalize_description (first_sentence (str_join '' '' title))
              | None \<Rightarrow> []))"

section \<open>Collecting the examples\<close>

datatype fs_node = Fs_file str bytes | Fs_dir str "fs_node list"

text \<open>\<open>Path::extension\<close> of a file name.\<close>

definition file_extension :: "str \<Rightarrow> str option" where
  "file_extension name =
     (let parts = split_char (CHR ''.'') name
      in if length parts < 2 \<or> length parts = 2 \<and> hd parts = [] then None else Some (last parts))"

text \<open>
  Paths as lists of components, relative to the directory of the walk, with the contents of the
  file.
\<close>

fun node_yaml :: "fs_node \<Rightarrow> (str list \<times> bytes) list" where
  "node_yaml (Fs_file name content) =
     (if file_extension name = Some ''yaml'' then [([name], content)] else [])"
| "node_yaml (Fs_dir name es) = map (\<lambda>(p, c). (name # p, c)) (concat (map node_yaml es))"

definition walk_yaml :: "fs_node list \<Rightarrow> (str list \<times> bytes) list" where
  "walk_yaml es = concat (map node_yaml es)"

text \<open>
  \<open>char::to_uppercase\<close> of a character in UTF-8; \<open>table\<close> is the table of Unicode for characters
  outside ASCII.
\<close>

definition char_to_uppercase :: "(str \<Rightarrow> str) \<Rightarrow> str \<Rightarrow> str" where
  "char_to_uppercase table ch =
     (case ch of
        [c] \<Rightarrow> [if 97 \<le> byte c \<and> byte c \<le> 122 then char_of (byte c - 32) else c]
      | _ \<Rightarrow> table ch)"

definition category_title :: "(str \<Rightarrow> str) \<Rightarrow> str \<Rightarrow> str" where
  "category_title table dir_name =
     (case map_of title_overrides dir_name of
        Some title \<Rightarrow> title
      | None \<Rightarrow>
          str_join '' '' (map (\<lambda>word. case word of
              [] \<Rightarrow> []
            | c # _ \<Rightarrow> char_to_uppercase table (take (utf8_width c) word) @ drop (utf8_width c) word)
            (split_char (CHR ''-'') dir_name)))"

text \<open>The title is a function of the name, so sorting the pairs sorts them by name.\<close>

definition discover_categories :: "(str \<Rightarrow> str) \<Rightarrow> fs_node list \<Rightarrow> (str \<times> str) list" where
  "discover_categories table es =
     sort_key fst (map (\<lambda>name. (name, category_title table name))
       (List.map_filter (\<lambda>e. case e of Fs_dir name _ \<Rightarrow> Some name | Fs_file _ _ \<Rightarrow> None) es))"

record example_entry =
  e_description :: str
  e_filename :: str
  e_link_path :: str

text \<open>\<open>None\<close> is the panic on a file that is not text.\<close>

definition extract_description :: "bytes \<Rightarrow> str option" where
  "extract_description content = (if utf8_ok content then Some (description_from_header content) else None)"

definition example_of :: "str list \<Rightarrow> str \<Rightarrow> example_entry" where
  "example_of rel d =
     \<lparr>e_description = d, e_filename = last rel, e_link_path = ''configs/'' @ str_join ''/'' rel\<rparr>"

definition add_example ::
  "str list \<times> bytes \<Rightarrow> (str \<rightharpoonup> example_entry list) \<Rightarrow> (str \<rightharpoonup> example_entry list) option" where
  "add_example p by_category =
     (let category = hd (fst p)
      in map_option (\<lambda>d. by_category(category \<mapsto> unwrap_or [] (by_category category) @ [example_of (fst p) d]))
           (extract_description (snd p)))"

definition collect_entries :: "fs_node list \<Rightarrow> (str \<rightharpoonup> example_entry list) option" where
  "collect_entries es = fold_opt add_example (sort_key fst (walk_yaml es)) Map.empty"

section \<open>Tables\<close>

definition table_row :: "str \<Rightarrow> str \<Rightarrow> str \<Rightarrow> str" where
  "table_row filename path description =
     ''| ['' @ filename @ '']('' @ path @ '') | '' @ description @ '' |'' @ [LF]"

definition table_section :: "(str \<rightharpoonup> example_entry list) \<Rightarrow> str \<times> str \<Rightarrow> str" where
  "table_section entries = (\<lambda>(dir_name, title).
     case entries dir_name of
       None \<Rightarrow> []
     | Some items \<Rightarrow>
         [LF] @ ''### '' @ title @ [LF, LF] @ ''| File | Description |'' @ [LF] @ ''| ------ | ------------- |'' @ [LF] @
         concat (map (\<lambda>(cat, fname, path, d). if cat = dir_name then table_row fname path d else []) special_entries) @
         concat (map (\<lambda>e. table_row (e_filename e) (e_link_path e) (e_description e)) items))"

definition generate_tables :: "(str \<times> str) list \<Rightarrow> (str \<rightharpoonup> example_entry list) \<Rightarrow> str" where
  "generate_tables categories entries = concat (map (table_section entries) categories)"

definition split_at_marker :: "str \<Rightarrow> str \<times> str" where
  "split_at_marker content =
     (case split_once configs_marker content of
        Some (before, after) \<Rightarrow> (before @ configs_marker, after)
      | None \<Rightarrow> (content, []))"

text \<open>The file as it is found: a file that cannot be read counts as empty.\<close>

datatype readme_outcome = Wrote str | Up_to_date | Out_of_date

definition sync_example_readme ::
  "(str \<Rightarrow> str) \<Rightarrow> bool \<Rightarrow> bytes option \<Rightarrow> fs_node list \<Rightarrow> readme_outcome option" where
  "sync_example_readme table fix_it readme es =
     map_option (\<lambda>entries.
       let new_tables = generate_tables (discover_categories table es) entries;
           contents = (case readme of Some c \<Rightarrow> if utf8_ok c then c else [] | None \<Rightarrow> []);
           (header, current_tables) = split_at_marker contents
       in if fix_it then Wrote (header @ new_tables)
          else if current_tables = new_tables then Up_to_date else Out_of_date)
       (collect_entries es)"

section \<open>The check agrees with the repair\<close>

lemma strip_prefix_take:
  "length d \<le> length s \<Longrightarrow> strip_prefix d (s @ t) = map_option (\<lambda>r. r @ t) (strip_prefix d s)"
  by (induction d s rule: strip_prefix.induct) auto

lemma split_once_first:
  "split_once d s = Some (a, b) \<Longrightarrow> d \<noteq> [] \<Longrightarrow> split_once d (a @ d @ c) = Some (a, c)"
proof (induction d s arbitrary: a rule: split_once.induct)
  case (1 d)
  then show ?case by simp
next
  case (2 d x xs)
  show ?case
  proof (cases "strip_prefix d (x # xs)")
    case (Some r)
    with 2 have "a = []" by simp
    moreover obtain y ys where "d = y # ys" using 2 by (cases d) auto
    ultimately show ?thesis using strip_prefix_append [of d c] by simp
  next
    case None
    with 2(2) obtain a' where a: "a = x # a'" and step: "split_once d xs = Some (a', b)"
      by auto
    have "xs = a' @ d @ b" using step by (rule split_once_append)
    with None have "strip_prefix d ((x # a' @ d) @ b) = None" by simp
    then have "strip_prefix d (x # a' @ d) = None"
      by (subst (asm) strip_prefix_take) auto
    then have "strip_prefix d ((x # a' @ d) @ c) = None"
      by (subst strip_prefix_take) auto
    with 2(1) [OF None step 2(3)] show ?thesis by (simp add: a)
  qed
qed

lemma split_at_marker_whole: "split_at_marker content = (h, t) \<Longrightarrow> content = h @ t"
  by (auto simp: split_at_marker_def dest: split_once_append split: option.splits)

lemma split_at_marker_again:
  assumes "split_once configs_marker content \<noteq> None"
  shows "split_at_marker (fst (split_at_marker content) @ tables) = (fst (split_at_marker content), tables)"
proof -
  obtain a b where s: "split_once configs_marker content = Some (a, b)" using assms by auto
  have "configs_marker \<noteq> []" by (simp add: configs_marker_def)
  from split_once_first [OF s this, of tables] s show ?thesis
    by (simp add: split_at_marker_def)
qed

definition has_marker :: "bytes option \<Rightarrow> bool" where
  "has_marker readme =
     (case readme of Some c \<Rightarrow> utf8_ok c \<and> split_once configs_marker c \<noteq> None | None \<Rightarrow> False)"

text \<open>
  After a repair the check passes and a second repair changes nothing, if the file had the
  marker. What is written is a string, so it is UTF-8.
\<close>

lemma repair_settles:
  assumes marker: "has_marker readme" and repair: "sync_example_readme table True readme es = Some (Wrote out)"
    and "utf8_ok out"
  shows "sync_example_readme table False (Some out) es = Some Up_to_date"
    and "sync_example_readme table True (Some out) es = Some (Wrote out)"
proof -
  obtain c where c: "readme = Some c" "utf8_ok c" "split_once configs_marker c \<noteq> None"
    using marker by (auto simp: has_marker_def split: option.splits)
  obtain entries where e: "collect_entries es = Some entries"
    and out: "out = fst (split_at_marker c) @ generate_tables (discover_categories table es) entries"
    using repair c by (auto simp: sync_example_readme_def Let_def case_prod_beta)
  have "split_at_marker out =
      (fst (split_at_marker c), generate_tables (discover_categories table es) entries)"
    unfolding out by (rule split_at_marker_again [OF c(3)])
  with \<open>utf8_ok out\<close> show "sync_example_readme table False (Some out) es = Some Up_to_date"
    and "sync_example_readme table True (Some out) es = Some (Wrote out)"
    by (simp_all add: sync_example_readme_def e out)
qed

text \<open>Without the marker the tables are appended, and the check goes on failing.\<close>

lemma repair_without_marker:
  assumes "utf8_ok content" and "utf8_ok (content @ tables)"
    and entries: "collect_entries es = Some entries"
    and tables: "tables = generate_tables (discover_categories table es) entries" "tables \<noteq> []"
    and "split_once configs_marker (content @ tables) = None"
    and "split_once configs_marker content = None"
  shows "sync_example_readme table True (Some content) es = Some (Wrote (content @ tables))"
    and "sync_example_readme table False (Some (content @ tables)) es = Some Out_of_date"
    and "sync_example_readme table True (Some (content @ tables)) es = Some (Wrote (content @ tables @ tables))"
  using assms by (auto simp: sync_example_readme_def split_at_marker_def)

section \<open>What the tables hold\<close>

definition in_category :: "str \<Rightarrow> (str list \<times> bytes) list \<Rightarrow> (str list \<times> bytes) list" where
  "in_category cat = filter (\<lambda>(rel, _). hd rel = cat)"

definition described :: "str list \<times> bytes \<Rightarrow> example_entry" where
  "described p = example_of (fst p) (description_from_header (snd p))"

lemma add_examples:
  "fold_opt add_example ps m = Some entries \<Longrightarrow>
   entries cat =
     (if in_category cat ps = [] then m cat
      else Some (unwrap_or [] (m cat) @ map described (in_category cat ps)))"
proof (induction ps arbitrary: m)
  case Nil
  then show ?case by (simp add: in_category_def)
next
  case (Cons p ps)
  then obtain m' where m': "add_example p m = Some m'" and rest: "fold_opt add_example ps m' = Some entries"
    by (auto simp: bind_eq_Some_conv)
  have "m' cat = (if hd (fst p) = cat then Some (unwrap_or [] (m cat) @ [described p]) else m cat)"
    using m' by (auto simp: add_example_def extract_description_def described_def Let_def split: if_splits)
  with Cons.IH [OF rest] show ?case
    by (simp add: in_category_def unwrap_or_def case_prod_beta)
qed

text \<open>
  A category lists every example below its directory, by path, each with the description, the name
  and the link of its file.
\<close>

lemma entries_complete:
  assumes "collect_entries es = Some entries"
  shows "entries cat =
     (let ps = in_category cat (sort_key fst (walk_yaml es))
      in if ps = [] then None else Some (map described ps))"
  using add_examples [OF assms [unfolded collect_entries_def], of cat] by (simp add: Let_def unwrap_or_def)

lemma discovered_sorted: "sorted (map fst (discover_categories table es))"
  by (simp add: discover_categories_def)

text \<open>A description has no line end, so each example is one row of its table.\<close>

lemma strip_spaces_set: "set (strip_spaces n sps s) \<subseteq> set s"
proof (induction n sps s rule: strip_spaces.induct)
  case (2 n sps s)
  show ?case
  proof (cases "space_prefix sps s")
    case (Some rest)
    then obtain sp where "strip_prefix sp s = Some rest"
      by (auto simp: space_prefix_def first_of_def map_filter_def split: list.splits
          dest!: filter_eq_ConsD)
    then have "set rest \<subseteq> set s" by (auto simp: strip_prefix_Some_iff)
    with 2 [OF Some] Some show ?thesis by auto
  qed simp
qed simp

lemma trim_sets: "set (trim_start s) \<subseteq> set s" "set (trim_end s) \<subseteq> set s" "set (str_trim s) \<subseteq> set s"
proof -
  show start: "set (trim_start s) \<subseteq> set s" for s
    by (simp add: trim_start_def strip_spaces_set)
  show "set (trim_end s) \<subseteq> set s" for s
    using strip_spaces_set [of "length s" "map rev unicode_spaces" "rev s"] by (simp add: trim_end_def)
  with start show "set (str_trim s) \<subseteq> set s"
    by (metis str_trim_eq subset_trans)
qed

lemma str_lines_free: "l \<in> set (str_lines s) \<Longrightarrow> LF \<notin> set l"
proof -
  assume l: "l \<in> set (str_lines s)"
  have "set (strip_cr m) \<subseteq> set m" for m
    by (auto simp: strip_cr_def strip_suffix_Some_iff split: option.splits)
  with l show ?thesis
    using split_char_free [of _ LF s] last_in_set [OF split_char_nonempty [of LF s]]
    by (fastforce simp: str_lines_def Let_def dest: in_set_butlastD split: if_splits)
qed

definition one_line_paragraph :: "str list \<Rightarrow> bool" where
  "one_line_paragraph para \<longleftrightarrow> list_all (\<lambda>l. LF \<notin> set l) para"

lemma comment_paragraphs_one_line:
  "list_all (\<lambda>l. LF \<notin> set l) ls \<Longrightarrow> list_all one_line_paragraph paragraphs \<Longrightarrow> one_line_paragraph current \<Longrightarrow>
   list_all one_line_paragraph (comment_paragraphs ls paragraphs current)"
proof (induction ls paragraphs current rule: comment_paragraphs.induct)
  case (1 paragraphs current)
  then show ?case by simp
next
  case (2 line ls paragraphs current)
  show ?case
  proof (cases "strip_prefix ''#'' line")
    case None
    with 2 show ?thesis by simp
  next
    case (Some rest)
    define b where "b = unwrap_or rest (strip_prefix '' '' rest)"
    have "LF \<notin> set b"
      using "2.prems"(1) Some by (auto simp: b_def unwrap_or_def strip_prefix_Some_iff split: option.splits)
    then have "one_line_paragraph (current @ [b])" using "2.prems"(3) by (simp add: one_line_paragraph_def)
    then have "b \<noteq> [] \<Longrightarrow> \<not> starts_with b ''  '' \<Longrightarrow>
        list_all one_line_paragraph (comment_paragraphs ls paragraphs (current @ [b]))"
      using 2(4) [OF Some b_def] "2.prems" by simp
    moreover have "starts_with b ''  '' \<Longrightarrow> list_all one_line_paragraph (comment_paragraphs ls paragraphs current)"
      using 2(3) [OF Some b_def] "2.prems" by (cases "b = []") (simp_all add: starts_with_def)
    moreover have "one_line_paragraph []" by (simp add: one_line_paragraph_def)
    ultimately show ?thesis
      using 2(1) [OF Some b_def] 2(2) [OF Some b_def] "2.prems"
      by (simp add: Some Let_def b_def [symmetric])
  qed
qed

lemma str_join_set: "set (str_join sep xs) \<subseteq> set sep \<union> (\<Union>x \<in> set xs. set x)"
  by (induction sep xs rule: str_join.induct) auto

lemma normalize_set: "set (normalize_description s) \<subseteq> set s"
  using trim_sets(2) [of "rev (dropWhile (\<lambda>c. c = CHR ''.'' \<or> c = CHR '':'') (rev (str_trim s)))"] trim_sets(3) [of s]
  by (auto simp: normalize_description_def dest!: set_dropWhileD subsetD)

lemma first_sentence_set: "set (first_sentence s) \<subseteq> set s"
  using trim_sets(3) [of s]
  by (auto simp: first_sentence_def Let_def dest: in_set_takeD split: option.splits)

lemma sentence_one_line:
  assumes "one_line_paragraph para"
  shows "LF \<notin> set (normalize_description (first_sentence (str_join '' '' para)))"
  using assms normalize_set [of "first_sentence (str_join '' '' para)"]
    first_sentence_set [of "str_join '' '' para"] str_join_set [of "'' ''" para]
  by (fastforce simp: one_line_paragraph_def list_all_iff)

lemma description_one_line: "LF \<notin> set (description_from_header content)"
proof -
  have ok: "list_all one_line_paragraph (parse_comment_paragraphs content)"
    unfolding parse_comment_paragraphs_def
    by (rule comment_paragraphs_one_line) (auto simp: list_all_iff one_line_paragraph_def dest: str_lines_free)
  then show ?thesis
    by (auto simp: description_from_header_def Let_def first_of_def list_all_iff
        intro!: sentence_one_line dest!: find_Some_iff [THEN iffD1] dest: in_set_dropD
        split: option.splits list.splits)
qed

end
