(* ===== verification/Dep_Lint.thy ===== *)
theory Dep_Lint
  imports Readme_Sync
begin

text \<open>
  The two checks of the repository's files: versions of workspace dependencies
  (\<open>xtask/src/lint_deps.rs\<close>) and tests for the example configurations
  (\<open>xtask/src/lint_example_tests.rs\<close>).
\<close>

section \<open>Versions of dependencies\<close>

definition contains_text :: "str \<Rightarrow> str \<Rightarrow> bool" where
  "contains_text s t \<longleftrightarrow> split_once t s \<noteq> None"

definition has_ignore_directive :: "str \<Rightarrow> bool" where
  "has_ignore_directive line = contains_text line ''semver:ignore''"

definition extract_quoted :: "str \<Rightarrow> str option" where
  "extract_quoted s =
     Option.bind (strip_prefix [CHR 0x22] s) (\<lambda>inner. map_option fst (split_once [CHR 0x22] inner))"

definition ascii_alphanumeric :: "char \<Rightarrow> bool" where
  "ascii_alphanumeric c \<longleftrightarrow>
     48 \<le> byte c \<and> byte c \<le> 57 \<or> 65 \<le> byte c \<and> byte c \<le> 90 \<or> 97 \<le> byte c \<and> byte c \<le> 122"

definition extract_table_version :: "str \<Rightarrow> str option" where
  "extract_table_version s =
     Option.bind (split_once ''version'' s) (\<lambda>(before, after).
       if before \<noteq> [] \<and> ascii_alphanumeric (last before) then None
       else Option.bind (strip_prefix ''='' (trim_start after)) (\<lambda>after_eq. extract_quoted (trim_start after_eq)))"

definition extract_dep_version :: "str \<Rightarrow> (str \<times> str) option" where
  "extract_dep_version line =
     Option.bind (split_once ''='' line) (\<lambda>(name, rest).
       let rest = str_trim rest;
           version =
             (if starts_with rest [CHR 0x22] then extract_quoted rest
              else if starts_with rest ''{'' then extract_table_version rest else None)
       in map_option (Pair (str_trim name)) version)"

definition is_three_component :: "str \<Rightarrow> bool" where
  "is_three_component version \<longleftrightarrow>
     length (split_char (CHR ''.'') (takeWhile (\<lambda>c. c \<noteq> CHR ''-'' \<and> c \<noteq> CHR ''+'') version)) = 3"

text \<open>The loop over the lines: whether it is in the section, and whether the next line is exempt.\<close>

fun check_lines :: "bool \<Rightarrow> bool \<Rightarrow> str list \<Rightarrow> (str \<times> str) list" where
  "check_lines in_deps skip_next [] = []"
| "check_lines in_deps skip_next (line # ls) =
     (let trimmed = str_trim line
      in if starts_with trimmed ''['' then check_lines (trimmed = ''[workspace.dependencies]'') False ls
         else if \<not> in_deps \<or> trimmed = [] then check_lines in_deps skip_next ls
         else if starts_with trimmed ''#'' then check_lines in_deps (has_ignore_directive trimmed) ls
         else if skip_next \<or> has_ignore_directive trimmed then check_lines in_deps False ls
         else
           (case extract_dep_version trimmed of
              Some (name, version) \<Rightarrow> if is_three_component version then [] else [(name, version)]
            | None \<Rightarrow> []) @ check_lines in_deps False ls)"

definition check_workspace_deps :: "str \<Rightarrow> (str \<times> str) list" where
  "check_workspace_deps content = check_lines False False (str_lines content)"

text \<open>The exit code of the task, and what it prints; a file that cannot be read is an error.\<close>

definition lint_deps :: "bytes option \<Rightarrow> nat \<times> str list" where
  "lint_deps cargo_toml =
     (case cargo_toml of
        None \<Rightarrow> (1, [''failed to read''])
      | Some content \<Rightarrow>
          if \<not> utf8_ok content then (1, [''failed to read''])
          else
            (let violations = check_workspace_deps content
             in if violations = [] then (0, [''all workspace dependency versions use three-component semver''])
                else (1, ''workspace dependency version violations:'' #
                  map (\<lambda>(name, version).
                    ''  '' @ name @ '' = '' @ [CHR 0x22] @ version @ [CHR 0x22] @ '' (expected MAJOR.MINOR.PATCH)'')
                    violations)))"

subsection \<open>What is reported\<close>

lemma violation_is_one:
  "(name, version) \<in> set (check_lines in_deps skip_next ls) \<Longrightarrow>
   \<not> is_three_component version \<and> (\<exists>line \<in> set ls. extract_dep_version (str_trim line) = Some (name, version))"
  by (induction in_deps skip_next ls rule: check_lines.induct)
     (auto simp: Let_def split: if_splits option.splits prod.splits)

text \<open>Sections are checked one by one: a header ends the one before.\<close>

lemma check_sections:
  assumes "starts_with (str_trim header) ''[''"
  shows "check_lines in_deps skip_next (ls @ header # later) =
     check_lines in_deps skip_next ls @ check_lines (str_trim header = ''[workspace.dependencies]'') False later"
  using assms
  by (induction in_deps skip_next ls rule: check_lines.induct) (simp_all add: Let_def)

lemma other_section_ignored:
  "list_all (\<lambda>l. str_trim l \<noteq> ''[workspace.dependencies]'') ls \<Longrightarrow> check_lines False skip_next ls = []"
  by (induction ls arbitrary: skip_next) (simp_all add: Let_def)

text \<open>A plain dependency of the section is reported unless its version has three components.\<close>

lemma dependency_checked:
  assumes "extract_dep_version (str_trim line) = Some (name, version)"
    and "\<not> starts_with (str_trim line) ''[''" and "\<not> starts_with (str_trim line) ''#''"
    and "\<not> has_ignore_directive (str_trim line)" and "str_trim line \<noteq> []"
  shows "check_lines True False (line # ls) =
     (if is_three_component version then [] else [(name, version)]) @ check_lines True False ls"
  using assms by (simp add: Let_def)

definition plain_component :: "str \<Rightarrow> bool" where
  "plain_component s \<longleftrightarrow> list_all (\<lambda>c. c \<noteq> CHR ''.'' \<and> c \<noteq> CHR ''-'' \<and> c \<noteq> CHR ''+'') s"

lemma split_component:
  "plain_component s \<Longrightarrow> split_char (CHR ''.'') s = [s]"
  "plain_component s \<Longrightarrow> split_char (CHR ''.'') (s @ CHR ''.'' # t) = s # split_char (CHR ''.'') t"
  by (induction s) (simp_all add: plain_component_def)

lemma component_prefix:
  assumes "plain_component s"
  shows "takeWhile (\<lambda>c. c \<noteq> CHR ''-'' \<and> c \<noteq> CHR ''+'') (s @ t) =
     s @ takeWhile (\<lambda>c. c \<noteq> CHR ''-'' \<and> c \<noteq> CHR ''+'') t"
proof (rule takeWhile_append2)
  fix x
  assume "x \<in> set s"
  with assms show "x \<noteq> CHR ''-'' \<and> x \<noteq> CHR ''+''"
    unfolding plain_component_def list_all_iff by blast
qed

lemma component_alone: "plain_component s \<Longrightarrow> takeWhile (\<lambda>c. c \<noteq> CHR ''-'' \<and> c \<noteq> CHR ''+'') s = s"
  using component_prefix [of s "[]"] by (simp only: append_Nil2 takeWhile.simps)

lemma three_components:
  assumes "plain_component a" and "plain_component b" and "plain_component c"
  shows "is_three_component (a @ ''.'' @ b @ ''.'' @ c)"
  using assms by (simp add: is_three_component_def split_component component_prefix component_alone)

text \<open>
  In a table, the first occurrence of the word is taken: when it is the end of another word, the
  version after it is not seen.
\<close>

lemma version_missed:
  "extract_dep_version (''conv = { package = '' @ [CHR 0x22] @ ''conversion'' @ [CHR 0x22] @ '', version = '' @
     [CHR 0x22] @ ''1.2'' @ [CHR 0x22] @ '' }'') = None"
  "\<not> is_three_component ''1.2''"
  by code_simp+

section \<open>Tests for the examples\<close>

definition example_skip :: "str list" where
  "example_skip =
     [''a2a-classifier-routing.yaml'', ''a2a-task-routing.yaml'', ''ai-inference-body-based-routing.yaml'',
      ''anthropic/messages-protocol.yaml'', ''anthropic/messages-to-openai.yaml'', ''anthropic/request-validate.yaml'',
      ''anthropic/unified-gateway.yaml'', ''credential-injection.yaml'', ''json-rpc-routing.yaml'',
      ''mcp-classifier-routing.yaml'', ''model-to-header-routing.yaml'', ''openai/conversations/conversations.yaml'',
      ''openai/responses/format-routing.yaml'', ''openai/responses/full-flow.yaml'',
      ''openai/responses/model-rewrite.yaml'', ''openai/responses/rehydrate.yaml'',
      ''openai/responses/request-validate.yaml'', ''openai/responses/response-store.yaml'',
      ''openai/responses/responses-proxy.yaml'', ''openai/responses/responses-routing.yaml'',
      ''prompt-enrichment.yaml'', ''token-usage-headers.yaml'']"

text \<open>Paths relative to the root, as text, with the contents of the file.\<close>

fun walk_dir :: "str \<Rightarrow> fs_node list \<Rightarrow> (str \<times> bytes) list" where
  "walk_dir ext [] = []"
| "walk_dir ext (Fs_file name content # es) =
     (if file_extension name = Some ext then [(name, content)] else []) @ walk_dir ext es"
| "walk_dir ext (Fs_dir name sub # es) =
     map (\<lambda>(p, c). (name @ ''/'' @ p, c)) (walk_dir ext sub) @ walk_dir ext es"

definition collect_yaml_files :: "fs_node list \<Rightarrow> str list" where
  "collect_yaml_files es = sort (map fst (walk_dir ''yaml'' es))"

definition read_all_sources :: "fs_node list \<Rightarrow> str" where
  "read_all_sources es = concat (map snd (filter (\<lambda>(_, c). utf8_ok c) (walk_dir ''rs'' es)))"

text \<open>The examples without a test, or how many are tested and how many are exempt.\<close>

definition lint_example_tests :: "fs_node list \<Rightarrow> fs_node list \<Rightarrow> str list + nat \<times> nat" where
  "lint_example_tests configs_dir tests_dir =
     (let configs = collect_yaml_files configs_dir;
          test_sources = read_all_sources tests_dir;
          missing = filter (\<lambda>c. \<not> contains_text test_sources c) (filter (\<lambda>c. c \<notin> set example_skip) configs);
          skip = length (filter (\<lambda>s. s \<in> set configs) example_skip)
      in if missing = [] then Inr (length configs - skip, skip) else Inl missing)"

lemma contains_text_iff: "contains_text s t \<longleftrightarrow> (\<exists>a b. s = a @ t @ b)"
proof
  show "contains_text s t \<Longrightarrow> \<exists>a b. s = a @ t @ b"
    by (auto simp: contains_text_def dest: split_once_append)
  have "split_once t (a @ t @ b) \<noteq> None" for a b
  proof (induction a)
    case Nil
    show ?case using strip_prefix_append [of t b] by (cases "t @ b") (auto split: option.split)
  qed (auto split: option.split)
  then show "\<exists>a b. s = a @ t @ b \<Longrightarrow> contains_text s t"
    by (auto simp: contains_text_def)
qed

text \<open>An example that a readable test file names is not reported.\<close>

lemma named_example_passes:
  assumes "lint_example_tests configs_dir tests_dir = Inl missing"
    and "(path, content) \<in> set (walk_dir ''rs'' tests_dir)" and "utf8_ok content" and "contains_text content c"
  shows "c \<notin> set missing"
proof -
  obtain x y where "filter (\<lambda>(_, c). utf8_ok c) (walk_dir ''rs'' tests_dir) = x @ (path, content) # y"
    using assms(2,3) split_list [of "(path, content)" "filter (\<lambda>(_, c). utf8_ok c) (walk_dir ''rs'' tests_dir)"]
    by auto
  moreover obtain a b where "content = a @ c @ b" using assms(4) by (auto simp: contains_text_iff)
  ultimately have "contains_text (read_all_sources tests_dir) c"
    unfolding contains_text_iff read_all_sources_def
    by (intro exI [of _ "concat (map snd x) @ a"] exI [of _ "b @ concat (map snd y)"]) simp
  with assms(1) show ?thesis
    by (auto simp: lint_example_tests_def Let_def split: if_splits)
qed

text \<open>The count of tested examples does not underflow: the exempt ones are among them.\<close>

lemma exempt_at_most: "length (filter (\<lambda>s. s \<in> set configs) example_skip) \<le> length configs"
proof -
  have "distinct example_skip" by (simp add: example_skip_def)
  then have "length (filter (\<lambda>s. s \<in> set configs) example_skip) = card (set (filter (\<lambda>s. s \<in> set configs) example_skip))"
    by (simp only: distinct_card distinct_filter)
  also have "\<dots> \<le> card (set configs)" by (intro card_mono) auto
  also have "\<dots> \<le> length configs" by (rule card_length)
  finally show ?thesis .
qed

end
