(* ===== verification/Dev_Server.thy ===== *)
theory Dev_Server
  imports Server_Start Store_Config Dep_Lint
begin

text \<open>
  The tasks that run a server for development, \<open>xtask/src/echo.rs\<close> and \<open>debug.rs\<close>, the search for a
  free port (\<open>port.rs\<close>), and the choice of the task (\<open>main.rs\<close>). Whether an address can be bound is a
  parameter; an address is bound only to see whether it is free.
\<close>

section \<open>Ports\<close>

definition candidate :: "str \<Rightarrow> nat \<Rightarrow> str" where
  "candidate host port = host @ '':'' @ show_nat port"

text \<open>The loop; \<open>None\<close> is the panic when the port overflows 16 bits.\<close>

function next_free :: "(str \<Rightarrow> bool) \<Rightarrow> str \<Rightarrow> nat \<Rightarrow> str option" where
  "next_free can_bind host port =
     (if can_bind (candidate host port) then Some (candidate host port)
      else if port + 1 < 2 ^ 16 then next_free can_bind host (port + 1) else None)"
  by pat_completeness auto
termination by (relation "measure (\<lambda>(_, _, port). 2 ^ 16 - port)") auto

declare next_free.simps [simp del]

definition resolve_available :: "(str \<Rightarrow> bool) \<Rightarrow> str \<Rightarrow> str option" where
  "resolve_available can_bind address =
     Option.bind (rsplit_once (CHR '':'') address) (\<lambda>(host, port_str).
     Option.bind (parse_uint 16 port_str) (next_free can_bind host))"

section \<open>The echo server\<close>

text \<open>Defaults of the configuration types of \<open>praxis_core\<close>, which has no clusters.\<close>

record 'c dev_config =
  dv_config :: "'c config"
  dv_threads :: nat
  dv_shutdown_timeout_secs :: nat

record 'c core_defaults =
  df_failure_mode :: failure_mode
  df_protocol :: protocol_kind
  df_config :: "'c config"
  df_threads :: nat

record echo_args =
  echo_address :: str
  echo_status :: nat
  echo_content_type :: str
  echo_body :: str
  echo_headers :: "str list"

definition default_echo_args :: echo_args where
  "default_echo_args =
     \<lparr>echo_address = ''127.0.0.1:8080'', echo_status = 200, echo_content_type = ''application/json'',
      echo_body = ''{'' @ [CHR 0x22] @ ''status'' @ [CHR 0x22] @ '': '' @ [CHR 0x22] @ ''ok'' @ [CHR 0x22] @ ''}'',
      echo_headers = []\<rparr>"

definition parse_header :: "str \<Rightarrow> str + str \<times> str" where
  "parse_header s =
     (case split_once '':'' s of
        None \<Rightarrow> Inl (''invalid header format: '' @ s @ '' (expected '' @ [CHR 0x22] @ ''Name: value'' @ [CHR 0x22] @ '')'')
      | Some (name, value) \<Rightarrow> Inr (str_trim name, str_trim value))"

definition header_value :: "str \<Rightarrow> str \<Rightarrow> yaml" where
  "header_value name value =
     YMapping [(YString ''name'', YString name), (YString ''value'', YString value)]"

text \<open>An error ends the process with exit code 1.\<close>

definition build_static_response_entry :: "'c core_defaults \<Rightarrow> echo_args \<Rightarrow> str + filter_entry" where
  "build_static_response_entry d args =
     map_sum id (\<lambda>extra.
       FilterEntry None ''static_response'' (df_failure_mode d)
         (YMapping
           [(YString ''filter'', YString ''static_response''),
            (YString ''status'', YNumber (show_nat (echo_status args))),
            (YString ''headers'', YSequence
              (header_value ''Content-Type'' (echo_content_type args) # header_value ''Server'' ''praxis-echo'' #
               map (\<lambda>(name, value). header_value name value) extra)),
            (YString ''body'', YString (echo_body args))]) None)
       (map_result parse_header (echo_headers args))"

definition echo_listener :: "'c core_defaults \<Rightarrow> str \<Rightarrow> listener" where
  "echo_listener d address =
     \<lparr>l_name = ''echo'', l_address = address, l_protocol = df_protocol d, l_filter_chains = [''echo''], l_tls = None\<rparr>"

definition build_config :: "'c core_defaults \<Rightarrow> echo_args \<Rightarrow> str + 'c dev_config" where
  "build_config d args =
     map_sum id (\<lambda>entry.
       \<lparr>dv_config = (df_config d)
          \<lparr>filter_chains := [\<lparr>fc_name = ''echo'', fc_filters = [entry]\<rparr>],
           listeners := [echo_listener d (echo_address args)]\<rparr>,
        dv_threads = df_threads d, dv_shutdown_timeout_secs = 30\<rparr>)
       (build_static_response_entry d args)"

definition run_echo ::
  "('p, 'h, 'k, 'c) pipeline_fns \<Rightarrow> 'k \<Rightarrow> ('p, 'c, 'w) host \<Rightarrow> 'c core_defaults \<Rightarrow> (str \<Rightarrow> bool) \<Rightarrow> echo_args
    \<Rightarrow> (server_error + ('p, 'c, 'w) serving) option" where
  "run_echo fns new_kv host d can_bind args =
     map_option (\<lambda>address.
       and_then (build_config d (args\<lparr>echo_address := address\<rparr>)) (\<lambda>c.
         run_server_with_registry fns new_kv host (dv_config c) None))
       (resolve_available can_bind (echo_address args))"

section \<open>The debug server\<close>

record debug_args =
  debug_config :: "str option"
  multi_threaded :: bool

text \<open>The loop over the listeners.\<close>

definition resolve_listeners :: "(str \<Rightarrow> bool) \<Rightarrow> listener list \<Rightarrow> listener list option" where
  "resolve_listeners can_bind ls =
     fold_opt (\<lambda>l done_ls. map_option (\<lambda>a. done_ls @ [l\<lparr>l_address := a\<rparr>]) (resolve_available can_bind (l_address l))) ls []"

definition debug_settings :: "(str \<Rightarrow> bool) \<Rightarrow> debug_args \<Rightarrow> 'c dev_config \<Rightarrow> 'c dev_config option" where
  "debug_settings can_bind args c =
     map_option (\<lambda>ls.
       \<lparr>dv_config = (dv_config c)
          \<lparr>listeners := ls,
           admin_address := (case admin_address (dv_config c) of None \<Rightarrow> Some ''127.0.0.1:9090'' | Some a \<Rightarrow> Some a)\<rparr>,
        dv_threads = (if multi_threaded args then dv_threads c else 1),
        dv_shutdown_timeout_secs = 3\<rparr>)
       (resolve_listeners can_bind (listeners (dv_config c)))"

text \<open>\<open>load\<close> is \<open>praxis_ai::load_config\<close>, with the settings of the runtime.\<close>

definition run_debug ::
  "('p, 'h, 'k, 'c) pipeline_fns \<Rightarrow> 'k \<Rightarrow> ('p, 'c, 'w) host \<Rightarrow> (str option \<Rightarrow> server_error + 'c dev_config)
    \<Rightarrow> (str \<Rightarrow> bool) \<Rightarrow> debug_args \<Rightarrow> (server_error + ('p, 'c, 'w) serving) option" where
  "run_debug fns new_kv host load can_bind args =
     (case load (debug_config args) of
        Inl e \<Rightarrow> Some (Inl (''fatal: failed to load config from '' @ unwrap_or ''<default>'' (debug_config args) @ '': '' @ e))
      | Inr c \<Rightarrow>
          map_option (\<lambda>c. run_server_with_registry fns new_kv host (dv_config c) None) (debug_settings can_bind args c))"

section \<open>The task runner\<close>

datatype command =
  Echo echo_args | Debug debug_args | Lint_deps | Lint_example_tests | Sync_example_readme bool

text \<open>The files of the repository the checks read.\<close>

record repository =
  cargo_toml :: "bytes option"
  examples_readme :: "bytes option"
  example_configs :: "fs_node list"
  test_files :: "fs_node list"

datatype 's task_end = Exits nat | Serves 's | Panics

fun server_end :: "(server_error + 's) option \<Rightarrow> 's task_end" where
  "server_end None = Panics"
| "server_end (Some (Inl e)) = Exits 1"
| "server_end (Some (Inr s)) = Serves s"

fun readme_end :: "readme_outcome option \<Rightarrow> 's task_end" where
  "readme_end None = Panics"
| "readme_end (Some Out_of_date) = Exits 1"
| "readme_end (Some _) = Exits 0"

definition run_task ::
  "('p, 'h, 'k, 'c) pipeline_fns \<Rightarrow> 'k \<Rightarrow> ('p, 'c, 'w) host \<Rightarrow> 'c core_defaults
    \<Rightarrow> (str option \<Rightarrow> server_error + 'c dev_config) \<Rightarrow> (str \<Rightarrow> bool) \<Rightarrow> (str \<Rightarrow> str) \<Rightarrow> repository \<Rightarrow> command
    \<Rightarrow> ('p, 'c, 'w) serving task_end" where
  "run_task fns new_kv host d load can_bind table repo cmd =
     (case cmd of
        Echo args \<Rightarrow> server_end (run_echo fns new_kv host d can_bind args)
      | Debug args \<Rightarrow> server_end (run_debug fns new_kv host load can_bind args)
      | Lint_deps \<Rightarrow> Exits (fst (lint_deps (cargo_toml repo)))
      | Lint_example_tests \<Rightarrow>
          (case lint_example_tests (example_configs repo) (test_files repo) of Inl _ \<Rightarrow> Exits 1 | Inr _ \<Rightarrow> Exits 0)
      | Sync_example_readme fix_it \<Rightarrow>
          readme_end (sync_example_readme table fix_it (examples_readme repo) (example_configs repo)))"

section \<open>The first free port is found\<close>

lemma next_free_Some_iff:
  "port < 2 ^ 16 \<Longrightarrow>
   next_free can_bind host port = Some a \<longleftrightarrow>
     (\<exists>p. port \<le> p \<and> p < 2 ^ 16 \<and> a = candidate host p \<and> can_bind a \<and>
       (\<forall>q. port \<le> q \<and> q < p \<longrightarrow> \<not> can_bind (candidate host q)))"
proof (induction can_bind host port rule: next_free.induct)
  case (1 can_bind host port)
  show ?case
  proof (cases "can_bind (candidate host port)")
    case True
    then show ?thesis using "1.prems"
      by (subst next_free.simps) (auto intro: exI [of _ port] dest: le_neq_implies_less)
  next
    case busy: False
    show ?thesis
    proof (cases "port + 1 < 2 ^ 16")
      case True
      have step: "port \<le> p \<and> Q p \<longleftrightarrow> (port + 1 \<le> p \<or> p = port) \<and> Q p" for p and Q :: "nat \<Rightarrow> bool"
        by auto
      from "1.IH" [OF busy True True] busy True show ?thesis
        by (subst next_free.simps) (simp, metis Suc_le_eq le_neq_implies_less le_refl less_imp_le_nat)
    next
      case False
      with busy "1.prems" show ?thesis
        by (subst next_free.simps) (auto simp: less_Suc_eq_le dest: le_antisym)
    qed
  qed
qed

text \<open>It panics only when the address is malformed or every port from the given one on is taken.\<close>

lemma next_free_None_iff:
  assumes "port < 2 ^ 16"
  shows "next_free can_bind host port = None \<longleftrightarrow> (\<forall>p. port \<le> p \<and> p < 2 ^ 16 \<longrightarrow> \<not> can_bind (candidate host p))"
proof
  show "\<forall>p. port \<le> p \<and> p < 2 ^ 16 \<longrightarrow> \<not> can_bind (candidate host p) \<Longrightarrow> next_free can_bind host port = None"
    by (rule ccontr) (auto simp: next_free_Some_iff [OF assms])
next
  assume none: "next_free can_bind host port = None"
  show "\<forall>p. port \<le> p \<and> p < 2 ^ 16 \<longrightarrow> \<not> can_bind (candidate host p)"
  proof (intro allI impI notI)
    fix p
    let ?free = "\<lambda>p. port \<le> p \<and> p < 2 ^ 16 \<and> can_bind (candidate host p)"
    assume "port \<le> p \<and> p < 2 ^ 16" and "can_bind (candidate host p)"
    then have "?free (Least ?free)" by (intro LeastI [of ?free p]) simp
    moreover have "\<not> can_bind (candidate host q)" if "port \<le> q" "q < Least ?free" for q
      using not_less_Least [OF that(2)] that calculation by auto
    ultimately have "next_free can_bind host port = Some (candidate host (Least ?free))"
      unfolding next_free_Some_iff [OF assms] by blast
    with none show False by simp
  qed
qed

text \<open>A free address in canonical form is kept.\<close>

lemma show_nat_no_colon: "CHR '':'' \<notin> set (show_nat n)"
proof (induction n rule: show_nat.induct)
  case (1 n)
  have "digit_char d \<noteq> CHR '':''" if "d < 10" for d
    using digit_val_digit_char [OF that] by (auto simp: digit_val_def Let_def)
  with 1 show ?case
    by (subst show_nat.simps) (auto dest: sym)
qed

lemma free_address_kept:
  assumes "port < 2 ^ 16" and "can_bind (candidate host port)"
  shows "resolve_available can_bind (candidate host port) = Some (candidate host port)"
proof -
  have split: "CHR '':'' \<notin> set a \<Longrightarrow> split_once '':'' (a @ CHR '':'' # b) = Some (a, b)" for a b
    by (induction a) auto
  have "rsplit_once (CHR '':'') (candidate host port) = Some (host, show_nat port)"
    using show_nat_no_colon by (simp add: rsplit_once_def candidate_def split)
  with assms parse_uint_show_nat [OF assms(1)] show ?thesis
    by (simp add: resolve_available_def next_free.simps [of can_bind host port])
qed

text \<open>
  The port found is not held, so two listeners can get the same one: when the port of the first is
  taken and the next is that of the second.
\<close>

lemma neighbours_collide:
  assumes "can_bind = (\<lambda>a. a \<noteq> ''127.0.0.1:8080'')"
  shows "resolve_available can_bind ''127.0.0.1:8080'' = Some ''127.0.0.1:8081''"
    and "resolve_available can_bind ''127.0.0.1:8081'' = Some ''127.0.0.1:8081''"
  unfolding assms by code_simp+

section \<open>What the servers serve\<close>

text \<open>The echo configuration resolves to the one filter, which answers every request.\<close>

lemma echo_resolves:
  assumes "build_config d args = Inr c"
  shows "\<exists>entry. build_static_response_entry d args = Inr entry \<and>
    map (listener_entries (chain_map (dv_config c))) (listeners (dv_config c)) = [Inr [entry]]"
  using assms
  by (cases "build_static_response_entry d args")
     (auto simp: build_config_def chain_map_def echo_listener_def listener_entries_def)

lemma map_result_append:
  "map_result f (xs @ ys) = and_then (map_result f xs) (\<lambda>a. and_then (map_result f ys) (\<lambda>b. Inr (a @ b)))"
  by (induction xs) (auto simp: and_then_eq_case split: sum.split)

lemma parse_header_Inl_iff: "(\<exists>e. parse_header s = Inl e) \<longleftrightarrow> \<not> contains_text s '':''"
  by (auto simp: parse_header_def contains_text_def split: option.splits)

lemma debug_keeps_chains:
  assumes "debug_settings can_bind args c = Some c'"
  shows "filter_chains (dv_config c') = filter_chains (dv_config c)"
    and "admin_address (dv_config c') \<noteq> None"
    and "\<not> multi_threaded args \<Longrightarrow> dv_threads c' = 1"
  using assms by (auto simp: debug_settings_def split: option.split)

lemma resolve_listeners_names:
  assumes "resolve_listeners can_bind ls = Some ls'"
  shows "map l_name ls' = map l_name ls" and "map l_filter_chains ls' = map l_filter_chains ls"
proof -
  have "map l_name ls' = map l_name acc @ map l_name ls \<and>
      map l_filter_chains ls' = map l_filter_chains acc @ map l_filter_chains ls"
    if "fold_opt (\<lambda>l done_ls. map_option (\<lambda>a. done_ls @ [l\<lparr>l_address := a\<rparr>])
        (resolve_available can_bind (l_address l))) ls acc = Some ls'" for acc
    using that by (induction ls arbitrary: acc) (fastforce simp: bind_eq_Some_conv)+
  from this [OF assms [unfolded resolve_listeners_def]]
  show "map l_name ls' = map l_name ls" and "map l_filter_chains ls' = map l_filter_chains ls" by simp_all
qed

end
