(* ===== verification/Thin_Filters.thy ===== *)
theory Thin_Filters
  imports Server_Dump
begin

text \<open>
  Two filters that hold little of their own: the guardrails filter (\<open>filters/src/guardrails\<close>), which checks its
  configuration and lets everything pass until its provider is wired, and \<open>model_to_header\<close>
  (\<open>filters/src/inference\<close>), which configures a filter of \<open>praxis_filter\<close> and hands every call on to it.
\<close>

section \<open>Guardrails\<close>

datatype guard_phase = Guard_request | Guard_response

definition show_guard_phase :: "guard_phase \<Rightarrow> str" where
  "show_guard_phase p = (case p of Guard_request \<Rightarrow> ''request'' | Guard_response \<Rightarrow> ''response'')"

text \<open>\<open>Redact\<close> has the rewritten text and the reason.\<close>

datatype guard_result = Guard_pass | Guard_block str | Guard_redact str str

definition guard_status_label :: "guard_result \<Rightarrow> str" where
  "guard_status_label r =
     (case r of Guard_pass \<Rightarrow> ''passed'' | Guard_block _ \<Rightarrow> ''blocked'' | Guard_redact _ _ \<Rightarrow> ''redacted'')"

record phase_config =
  phase_request :: bool
  phase_response :: bool

definition default_phase_config :: phase_config where
  "default_phase_config = \<lparr>phase_request = True, phase_response = False\<rparr>"

datatype guard_provider_type = Nemo

text \<open>The provider's own fields stay a YAML value.\<close>

record guard_provider_config =
  provider_type :: guard_provider_type
  provider_fields :: yaml

record ai_guardrails_config =
  guard_provider :: guard_provider_config
  guard_phases :: phase_config

definition nemo_default_timeout_ms :: nat where "nemo_default_timeout_ms = 10000"

record nemo_config =
  nemo_endpoint :: str
  nemo_timeout_ms :: nat

text \<open>\<open>read_nemo\<close> and \<open>read_guardrails\<close> are the derived deserialisations.\<close>

definition nemo_from_config :: "(yaml \<Rightarrow> str + nemo_config) \<Rightarrow> yaml \<Rightarrow> filter_error + nemo_config" where
  "nemo_from_config read_nemo config =
     (case read_nemo config of
        Inl e \<Rightarrow> Inl (''ai_guardrails (nemo): '' @ e)
      | Inr cfg \<Rightarrow>
          if nemo_endpoint cfg = [] then Inl ''ai_guardrails (nemo): 'endpoint' must not be empty''
          else if nemo_timeout_ms cfg = 0 then Inl ''ai_guardrails (nemo): 'timeout_ms' must be greater than zero''
          else Inr cfg)"

definition nemo_evaluate :: "nemo_config \<Rightarrow> json list \<Rightarrow> guard_phase \<Rightarrow> filter_error + guard_result" where
  "nemo_evaluate provider messages phase = Inr Guard_pass"

definition guardrails_from_config ::
  "(yaml \<Rightarrow> filter_error + ai_guardrails_config) \<Rightarrow> (yaml \<Rightarrow> str + nemo_config) \<Rightarrow> yaml \<Rightarrow> filter_error + nemo_config" where
  "guardrails_from_config read_guardrails read_nemo config =
     and_then (read_guardrails config) (\<lambda>cfg.
       case provider_type (guard_provider cfg) of
         Nemo \<Rightarrow> nemo_from_config read_nemo (provider_fields (guard_provider cfg)))"

definition guardrails_on_request :: "filter_ctx \<Rightarrow> filter_ctx \<times> (filter_error + filter_action)" where
  "guardrails_on_request ctx = (ctx, Inr Continue)"

definition guardrails_on_request_body ::
  "filter_ctx \<Rightarrow> bytes option \<Rightarrow> bool \<Rightarrow> filter_ctx \<times> bytes option \<times> (filter_error + filter_action)" where
  "guardrails_on_request_body ctx body end_of_stream = (ctx, body, Inr Continue)"

section \<open>Model to header\<close>

text \<open>What every filter offers to the pipeline, as far as it is handed on.\<close>

datatype body_access = No_access | Read_only | Read_write

record http_filter =
  on_request_hook :: "filter_ctx \<Rightarrow> filter_ctx \<times> (filter_error + filter_action)"
  on_response_hook :: "filter_ctx \<Rightarrow> filter_ctx \<times> (filter_error + filter_action)"
  request_body_access :: body_access
  response_body_access :: body_access
  request_body_mode :: body_mode
  response_body_mode_of :: body_mode
  needs_request_context :: bool
  request_body_hook :: "filter_ctx \<Rightarrow> bytes option \<Rightarrow> bool \<Rightarrow> filter_ctx \<times> bytes option \<times> (filter_error + filter_action)"
  response_body_hook :: "filter_ctx \<Rightarrow> bytes option \<Rightarrow> bool \<Rightarrow> filter_ctx \<times> bytes option \<times> (filter_error + filter_action)"

definition default_model_header :: str where "default_model_header = ''X-Model''"

text \<open>
  \<open>read_header\<close> is the derived deserialisation, which gives the field \<open>header\<close> if there is one; \<open>json_body_field\<close> is
  \<open>JsonBodyFieldFilter::from_config\<close>.
\<close>

definition model_to_header_from_config ::
  "(yaml \<Rightarrow> filter_error + str option) \<Rightarrow> (yaml \<Rightarrow> filter_error + http_filter) \<Rightarrow> yaml \<Rightarrow> filter_error + http_filter" where
  "model_to_header_from_config read_header json_body_field config =
     and_then (read_header config) (\<lambda>header.
       json_body_field (YMapping
         [(YString ''field'', YString ''model''),
          (YString ''header'', YString (unwrap_or default_model_header header))]))"

lemma only_provider [simp]: "(t :: guard_provider_type) = Nemo"
  by (cases t) simp

lemma guardrails_configured:
  "guardrails_from_config rg rn config = Inr provider \<Longrightarrow> nemo_endpoint provider \<noteq> [] \<and> nemo_timeout_ms provider > 0"
  by (auto simp: guardrails_from_config_def nemo_from_config_def and_then_Inr_iff
      split: sum.splits if_splits guard_provider_type.splits)

end
