(* ===== verification/Mcp.thy ===== *)
theory Mcp
  imports Praxis
begin

text \<open>
  The MCP filter, \<open>filters/src/agentic/mcp\<close>: the protocol versions (\<open>protocol.rs\<close>), the envelope
  of a request (\<open>envelope.rs\<close>), the configuration (\<open>config.rs\<close>) and the handler (\<open>mod.rs\<close>) that
  compares the headers of the client with the body and promotes what the body says.
\<close>

section \<open>Protocol versions\<close>

definition PROTOCOL_VERSION_CURRENT :: str where "PROTOCOL_VERSION_CURRENT = ''2025-03-26''"

definition SUPPORTED_VERSIONS :: "str list" where "SUPPORTED_VERSIONS = [PROTOCOL_VERSION_CURRENT]"

definition DEFAULT_VERSION :: str where "DEFAULT_VERSION = PROTOCOL_VERSION_CURRENT"

datatype protocol_profile = Profile_current

fun profile_str :: "protocol_profile \<Rightarrow> str" where
  "profile_str Profile_current = ''current''"

definition is_supported_version :: "str \<Rightarrow> bool" where
  "is_supported_version version \<longleftrightarrow> version \<in> set SUPPORTED_VERSIONS"

section \<open>Methods\<close>

datatype mcp_method =
    Initialize | NotificationsInitialized | ToolsList | ToolsCall | ResourcesRead | ResourcesList
  | PromptsGet | PromptsList | Ping | LoggingSetLevel | CompletionComplete
  | NotificationsToolsListChanged | NotificationsResourcesListChanged
  | NotificationsPromptsListChanged
  | Other_method str

definition mcp_from_method_str :: "str \<Rightarrow> mcp_method" where
  "mcp_from_method_str s =
     (if s = ''initialize'' then Initialize
      else if s = ''notifications/initialized'' then NotificationsInitialized
      else if s = ''tools/list'' then ToolsList
      else if s = ''tools/call'' then ToolsCall
      else if s = ''resources/read'' then ResourcesRead
      else if s = ''resources/list'' then ResourcesList
      else if s = ''prompts/get'' then PromptsGet
      else if s = ''prompts/list'' then PromptsList
      else if s = ''ping'' then Ping
      else if s = ''logging/setLevel'' then LoggingSetLevel
      else if s = ''completion/complete'' then CompletionComplete
      else if s = ''notifications/tools/list_changed'' then NotificationsToolsListChanged
      else if s = ''notifications/resources/list_changed'' then NotificationsResourcesListChanged
      else if s = ''notifications/prompts/list_changed'' then NotificationsPromptsListChanged
      else Other_method s)"

fun mcp_method_str :: "mcp_method \<Rightarrow> str" where
  "mcp_method_str Initialize = ''initialize''"
| "mcp_method_str NotificationsInitialized = ''notifications/initialized''"
| "mcp_method_str ToolsList = ''tools/list''"
| "mcp_method_str ToolsCall = ''tools/call''"
| "mcp_method_str ResourcesRead = ''resources/read''"
| "mcp_method_str ResourcesList = ''resources/list''"
| "mcp_method_str PromptsGet = ''prompts/get''"
| "mcp_method_str PromptsList = ''prompts/list''"
| "mcp_method_str Ping = ''ping''"
| "mcp_method_str LoggingSetLevel = ''logging/setLevel''"
| "mcp_method_str CompletionComplete = ''completion/complete''"
| "mcp_method_str NotificationsToolsListChanged = ''notifications/tools/list_changed''"
| "mcp_method_str NotificationsResourcesListChanged = ''notifications/resources/list_changed''"
| "mcp_method_str NotificationsPromptsListChanged = ''notifications/prompts/list_changed''"
| "mcp_method_str (Other_method s) = s"

definition requires_name :: "mcp_method \<Rightarrow> bool" where
  "requires_name m \<longleftrightarrow> m \<in> {ToolsCall, PromptsGet}"

definition requires_uri :: "mcp_method \<Rightarrow> bool" where
  "requires_uri m \<longleftrightarrow> m = ResourcesRead"

section \<open>The envelope\<close>

record mcp_envelope =
  mcp_method_of :: mcp_method
  mcp_name :: "str option"
  mcp_protocol_version :: "str option"
  mcp_session_id :: "str option"

definition request_header_text :: "externals \<Rightarrow> (str \<rightharpoonup> bytes) \<Rightarrow> str \<Rightarrow> str option" where
  "request_header_text ext headers name = Option.bind (headers name) (header_text ext)"

definition mcp_extract_name :: "json \<Rightarrow> mcp_method \<Rightarrow> str option" where
  "mcp_extract_name v m =
     (if \<not> requires_name m \<and> \<not> requires_uri m then None
      else Option.bind (jget v ''params'') (\<lambda>params.
        if requires_uri m then get_str params ''uri'' else get_str params ''name''))"

definition requested_version :: "json \<Rightarrow> str option" where
  "requested_version v = Option.bind (jget v ''params'') (\<lambda>params. get_str params ''protocolVersion'')"

definition extract_protocol_version ::
  "externals \<Rightarrow> json \<Rightarrow> mcp_method \<Rightarrow> (str \<rightharpoonup> bytes) \<Rightarrow> str option" where
  "extract_protocol_version ext v m headers =
     (case (if m = Initialize then requested_version v else None) of
        Some version \<Rightarrow> Some version
      | None \<Rightarrow> request_header_text ext headers ''mcp-protocol-version'')"

definition extract_mcp_envelope :: "externals \<Rightarrow> json \<Rightarrow> str \<Rightarrow> (str \<rightharpoonup> bytes) \<Rightarrow> mcp_envelope" where
  "extract_mcp_envelope ext v method_str headers =
     (let m = mcp_from_method_str method_str
      in \<lparr>mcp_method_of = m, mcp_name = mcp_extract_name v m,
          mcp_protocol_version = extract_protocol_version ext v m headers,
          mcp_session_id = request_header_text ext headers ''mcp-session-id''\<rparr>)"

section \<open>Configuration\<close>

datatype mismatch_behavior = Mismatch_reject | Mismatch_ignore

datatype missing_header_behavior = Missing_ignore | Missing_synthesize | Missing_reject

record mcp_headers =
  mch_kind :: "str option"
  mch_method :: "str option"
  mch_name :: "str option"
  mch_protocol_version :: "str option"
  mch_session_present :: "str option"

definition default_mcp_headers :: mcp_headers where
  "default_mcp_headers =
     \<lparr>mch_kind = Some ''x-praxis-mcp-kind'', mch_method = Some ''x-praxis-mcp-method'',
      mch_name = Some ''x-praxis-mcp-name'',
      mch_protocol_version = Some ''x-praxis-mcp-protocol-version'',
      mch_session_present = Some ''x-praxis-mcp-session-present''\<rparr>"

text \<open>The two fields of \<open>header_validation\<close> are fields of the configuration here.\<close>

record mcp_config =
  on_mismatch :: mismatch_behavior
  on_missing :: missing_header_behavior
  mcp_headers_of :: mcp_headers
  mcp_max_body_bytes :: nat
  mcp_on_invalid :: on_invalid_behavior

definition default_mcp_config :: mcp_config where
  "default_mcp_config =
     \<lparr>on_mismatch = Mismatch_reject, on_missing = Missing_ignore, mcp_headers_of = default_mcp_headers,
      mcp_max_body_bytes = 65536, mcp_on_invalid = Invalid_reject\<rparr>"

definition mcp_build_config :: "praxis \<Rightarrow> mcp_config \<Rightarrow> filter_error + mcp_config" where
  "mcp_build_config px cfg =
     (let h = mcp_headers_of cfg; check = check_header_name px ''mcp'' in
      and_then (check_max_body_bytes px ''mcp'' (mcp_max_body_bytes cfg)) (\<lambda>_.
      and_then (check ''method'' (mch_method h)) (\<lambda>_.
      and_then (check ''name'' (mch_name h)) (\<lambda>_.
      and_then (check ''kind'' (mch_kind h)) (\<lambda>_.
      and_then (check ''protocol_version'' (mch_protocol_version h)) (\<lambda>_.
      and_then (check ''session_present'' (mch_session_present h)) (\<lambda>_. Inr cfg)))))))"

section \<open>JSON-RPC errors\<close>

definition status_only :: "nat \<Rightarrow> rejection" where
  "status_only code = \<lparr>rej_status = code, rej_headers = [], rej_body = []\<rparr>"

text \<open>A \<open>serde_json\<close> text with a fallback, and the rendering of an error code.\<close>

definition text_or :: "externals \<Rightarrow> str \<Rightarrow> json \<Rightarrow> str" where
  "text_or ext fallback v = (case to_text ext v of Inl _ \<Rightarrow> fallback | Inr s \<Rightarrow> s)"

definition show_int :: "int \<Rightarrow> str" where
  "show_int i = (if i < 0 then ''-'' @ show_nat (nat (- i)) else show_nat (nat i))"

definition rpc_error_body :: "externals \<Rightarrow> str \<Rightarrow> int \<Rightarrow> str \<Rightarrow> str" where
  "rpc_error_body ext id_json code message =
     ''{\"jsonrpc\":\"2.0\",\"error\":{\"code\":'' @ show_int code @ '',\"message\":'' @
     text_or ext ''\"internal error\"'' (JString message) @ ''},\"id\":'' @ id_json @ ''}''"

definition json_rejection :: "nat \<Rightarrow> str \<Rightarrow> rejection" where
  "json_rejection code body =
     \<lparr>rej_status = code, rej_headers = [(''content-type'', ''application/json'')], rej_body = body\<rparr>"

definition mcp_json_rpc_error_rejection :: "externals \<Rightarrow> json_rpc_envelope \<Rightarrow> int \<Rightarrow> str \<Rightarrow> filter_action" where
  "mcp_json_rpc_error_rejection ext envelope code message =
     (let id_json = (case (rpc_id envelope, rpc_id_kind envelope) of
            (Some i, Id_integer) \<Rightarrow> i
          | (Some i, Id_number) \<Rightarrow> i
          | (Some i, Id_string) \<Rightarrow> text_or ext ''null'' (JString i)
          | _ \<Rightarrow> ''null'')
      in Reject (json_rejection 200 (rpc_error_body ext id_json code message)))"

definition mcp_invalid_params_rejection :: "externals \<Rightarrow> json_rpc_envelope \<Rightarrow> filter_action" where
  "mcp_invalid_params_rejection ext envelope =
     mcp_json_rpc_error_rejection ext envelope (- 32602) ''InvalidParams''"

definition mcp_header_mismatch_rejection :: "externals \<Rightarrow> json_rpc_envelope \<Rightarrow> filter_action" where
  "mcp_header_mismatch_rejection ext envelope =
     mcp_json_rpc_error_rejection ext envelope (- 32001) ''HeaderMismatch''"

section \<open>Checks\<close>

definition reject_missing_required_selector ::
  "externals \<Rightarrow> mcp_envelope \<Rightarrow> json_rpc_envelope \<Rightarrow> mcp_config \<Rightarrow> filter_action option" where
  "reject_missing_required_selector ext mcp envelope config =
     (let requires = requires_name (mcp_method_of mcp) \<or> requires_uri (mcp_method_of mcp)
      in if requires \<and> mcp_name mcp = None then
           (case mcp_on_invalid config of
              Invalid_reject \<Rightarrow> Some (mcp_invalid_params_rejection ext envelope)
            | Invalid_error \<Rightarrow> Some (mcp_invalid_params_rejection ext envelope)
            | Invalid_continue \<Rightarrow> Some Continue)
         else None)"

definition on_header_mismatch :: "externals \<Rightarrow> json_rpc_envelope \<Rightarrow> mcp_config \<Rightarrow> filter_action + unit" where
  "on_header_mismatch ext envelope config =
     (case on_mismatch config of
        Mismatch_reject \<Rightarrow> Inl (mcp_header_mismatch_rejection ext envelope)
      | Mismatch_ignore \<Rightarrow> Inr ())"

definition mcp_safe_value :: "externals \<Rightarrow> praxis \<Rightarrow> str \<Rightarrow> bool" where
  "mcp_safe_value ext px v \<longleftrightarrow> \<not> contains_control_chars ext v \<and> length v \<le> max_dynamic_value_len px"

definition validate_single_header ::
  "externals \<Rightarrow> praxis \<Rightarrow> str \<Rightarrow> str \<Rightarrow> json_rpc_envelope \<Rightarrow> mcp_config \<Rightarrow> filter_ctx
    \<Rightarrow> filter_ctx \<times> (filter_action + unit)" where
  "validate_single_header ext px header_name body_value envelope config ctx =
     (case request_headers ctx header_name of
        Some raw_value \<Rightarrow>
          (case header_text ext raw_value of
             None \<Rightarrow> (ctx, on_header_mismatch ext envelope config)
           | Some header_value \<Rightarrow>
               (ctx, if header_value \<noteq> body_value then on_header_mismatch ext envelope config else Inr ()))
      | None \<Rightarrow>
          (case on_missing config of
             Missing_reject \<Rightarrow> (ctx, Inl (Reject (status_only 400)))
           | Missing_synthesize \<Rightarrow>
               (apply_if (mcp_safe_value ext px body_value) (push_header header_name body_value) ctx, Inr ())
           | Missing_ignore \<Rightarrow> (ctx, Inr ())))"

definition validate_mcp_headers ::
  "externals \<Rightarrow> praxis \<Rightarrow> mcp_envelope \<Rightarrow> json_rpc_envelope \<Rightarrow> mcp_config \<Rightarrow> filter_ctx
    \<Rightarrow> filter_ctx \<times> (filter_action + unit)" where
  "validate_mcp_headers ext px mcp envelope config =
     run_steps
       [validate_single_header ext px ''mcp-method'' (mcp_method_str (mcp_method_of mcp)) envelope config,
        (\<lambda>ctx. case mcp_name mcp of
           Some name \<Rightarrow> validate_single_header ext px ''mcp-name'' name envelope config ctx
         | None \<Rightarrow>
             (ctx, if request_headers ctx ''mcp-name'' \<noteq> None then on_header_mismatch ext envelope config
                   else Inr ()))]"

section \<open>Promotion\<close>

definition set_if_clean :: "externals \<Rightarrow> str \<Rightarrow> str option \<Rightarrow> filter_ctx \<Rightarrow> filter_ctx" where
  "set_if_clean ext k v =
     when_some v (\<lambda>x. apply_if (\<not> contains_control_chars ext x) (set_metadata k x))"

definition mcp_write_metadata ::
  "externals \<Rightarrow> praxis \<Rightarrow> json_rpc_envelope \<Rightarrow> mcp_envelope \<Rightarrow> filter_ctx \<Rightarrow> filter_ctx" where
  "mcp_write_metadata ext px envelope mcp ctx =
     (let method_str = mcp_method_str (mcp_method_of mcp);
          ctx1 = apply_if (mcp_safe_value ext px method_str)
                   (set_metadata ''mcp.method'' method_str \<circ> set_metadata ''json_rpc.method'' method_str) ctx;
          ctx2 = set_metadata ''json_rpc.kind'' (rpc_kind envelope) ctx1;
          ctx3 = when_some (mcp_name mcp) (\<lambda>n. apply_if (mcp_safe_value ext px n) (set_metadata ''mcp.name'' n)) ctx2;
          ctx4 = set_if_clean ext ''mcp.session_id'' (mcp_session_id mcp) ctx3
      in set_if_clean ext ''mcp.protocol_version'' (mcp_protocol_version mcp) ctx4)"

definition promote_mcp_headers ::
  "externals \<Rightarrow> praxis \<Rightarrow> mcp_envelope \<Rightarrow> json_rpc_envelope \<Rightarrow> mcp_config \<Rightarrow> filter_ctx \<Rightarrow> filter_ctx" where
  "promote_mcp_headers ext px mcp envelope config ctx =
     (let h = mcp_headers_of config;
          method_str = mcp_method_str (mcp_method_of mcp);
          ctx1 = when_some (mch_method h) (\<lambda>name.
                   apply_if (mcp_safe_value ext px method_str) (push_header name method_str)) ctx;
          ctx2 = when_some (mch_name h) (\<lambda>name. when_some (mcp_name mcp) (\<lambda>n.
                   apply_if (mcp_safe_value ext px n) (push_header name n))) ctx1;
          ctx3 = when_some (mch_protocol_version h) (\<lambda>name. when_some (mcp_protocol_version mcp) (\<lambda>pv.
                   apply_if (\<not> contains_control_chars ext pv) (push_header name pv))) ctx2;
          ctx4 = when_some (mch_kind h) (\<lambda>name. push_header name (rpc_kind envelope)) ctx3
      in when_some (mch_session_present h) (\<lambda>name. push_header name (bool_text (mcp_session_id mcp \<noteq> None))) ctx4)"

definition mcp_result_if_clean ::
  "externals \<Rightarrow> praxis \<Rightarrow> str \<Rightarrow> str option \<Rightarrow> filter_ctx \<Rightarrow> filter_ctx \<times> (filter_error + unit)" where
  "mcp_result_if_clean ext px k v =
     result_when px ''mcp'' k (Option.bind v (\<lambda>x. if contains_control_chars ext x then None else Some x))"

definition mcp_promote_filter_results ::
  "externals \<Rightarrow> praxis \<Rightarrow> json_rpc_envelope \<Rightarrow> mcp_envelope \<Rightarrow> filter_ctx \<Rightarrow> filter_ctx \<times> (filter_error + unit)" where
  "mcp_promote_filter_results ext px envelope mcp ctx =
     run_steps
       [mcp_result_if_clean ext px ''method'' (Some (mcp_method_str (mcp_method_of mcp))),
        mcp_result_if_clean ext px ''name'' (mcp_name mcp),
        mcp_result_if_clean ext px ''protocol_version'' (mcp_protocol_version mcp),
        set_result px ''mcp'' ''session_present'' (bool_text (mcp_session_id mcp \<noteq> None)),
        set_result px ''mcp'' ''kind'' (rpc_kind envelope)]
       (results_entry ''mcp'' ctx)"

section \<open>The handler\<close>

definition mcp_handle ::
  "externals \<Rightarrow> praxis \<Rightarrow> mcp_config \<Rightarrow> parsed_json_rpc \<Rightarrow> filter_ctx \<Rightarrow> filter_ctx \<times> (filter_error + filter_action)" where
  "mcp_handle ext px config parsed ctx =
     (let mcp = extract_mcp_envelope ext (parsed_value parsed) (parsed_method parsed) (request_headers ctx);
          envelope = parsed_envelope parsed
      in case reject_missing_required_selector ext mcp envelope config of
           Some action \<Rightarrow> (ctx, Inr action)
         | None \<Rightarrow>
             (case validate_mcp_headers ext px mcp envelope config ctx of
                (ctx1, Inl action) \<Rightarrow> (ctx1, Inr action)
              | (ctx1, Inr _) \<Rightarrow>
                  (let ctx2 = mcp_write_metadata ext px envelope mcp ctx1;
                       ctx3 = promote_mcp_headers ext px mcp envelope config ctx2
                   in map_prod id (map_sum id (\<lambda>_. Release)) (mcp_promote_filter_results ext px envelope mcp ctx3))))"

definition mcp_on_request_body ::
  "externals \<Rightarrow> praxis \<Rightarrow> mcp_config \<Rightarrow> filter_ctx \<Rightarrow> bytes option \<Rightarrow> bool \<Rightarrow> filter_ctx \<times> (filter_error + filter_action)" where
  "mcp_on_request_body ext px config ctx body end_of_stream =
     (case parse_json_rpc_body px body end_of_stream
             (build_json_rpc_config (mcp_max_body_bytes config)) (mcp_on_invalid config) of
        Inl action \<Rightarrow> (ctx, action)
      | Inr None \<Rightarrow> (ctx, Inr Continue)
      | Inr (Some parsed) \<Rightarrow> mcp_handle ext px config parsed ctx)"

definition mcp_on_request :: "filter_ctx \<Rightarrow> filter_ctx \<times> filter_action" where
  "mcp_on_request ctx = (ctx, Continue)"

section \<open>What a released request has passed\<close>

lemma mcp_method_roundtrip [simp]: "mcp_method_str (mcp_from_method_str s) = s"
  by (simp add: mcp_from_method_str_def)

lemma request_headers_push [simp]: "request_headers (push_header h v ctx) = request_headers ctx"
  by (simp add: push_header_def)

lemma request_headers_apply_if [simp]: "request_headers (apply_if b (push_header h v) ctx) = request_headers ctx"
  by (simp add: apply_if_def)

lemma run_steps_pair:
  "run_steps [f, g] c = (c', Inr u) \<longleftrightarrow> (\<exists>c1. f c = (c1, Inr ()) \<and> g c1 = (c', Inr ()))"
  by (auto split: prod.splits sum.splits)

text \<open>A header the client sent says what the body says.\<close>

definition header_agrees :: "externals \<Rightarrow> (str \<rightharpoonup> bytes) \<Rightarrow> str \<Rightarrow> str option \<Rightarrow> bool" where
  "header_agrees ext headers h v \<longleftrightarrow>
     headers h = None \<or> v \<noteq> None \<and> request_header_text ext headers h = v"

lemma validate_single_header_Inr:
  assumes "validate_single_header ext px h v envelope config ctx = (ctx1, Inr u)"
  shows "request_headers ctx1 = request_headers ctx"
    and "on_mismatch config = Mismatch_reject \<Longrightarrow> header_agrees ext (request_headers ctx) h (Some v)"
    and "request_headers ctx h = None \<Longrightarrow> on_missing config \<noteq> Missing_reject"
    and "ctx1 = apply_if (request_headers ctx h = None \<and> on_missing config = Missing_synthesize \<and> mcp_safe_value ext px v)
           (push_header h v) ctx"
  using assms
  by (auto simp: validate_single_header_def on_header_mismatch_def header_agrees_def request_header_text_def apply_if_def
      split: option.splits if_splits mismatch_behavior.splits missing_header_behavior.splits)

lemma on_header_mismatch_Inl: "on_header_mismatch ext envelope config = Inl a \<Longrightarrow> \<exists>r. a = Reject r"
  by (auto simp: on_header_mismatch_def mcp_header_mismatch_rejection_def mcp_json_rpc_error_rejection_def Let_def
      split: mismatch_behavior.splits)

lemma validate_single_header_Inl:
  "validate_single_header ext px h v envelope config ctx = (ctx1, Inl a) \<Longrightarrow> \<exists>r. a = Reject r"
  by (auto simp: validate_single_header_def dest: on_header_mismatch_Inl
      split: option.splits if_splits missing_header_behavior.splits)

lemma validate_mcp_headers_Inl:
  "validate_mcp_headers ext px mcp envelope config ctx = (ctx1, Inl a) \<Longrightarrow> \<exists>r. a = Reject r"
  by (auto simp: validate_mcp_headers_def dest: validate_single_header_Inl on_header_mismatch_Inl
      split: prod.splits sum.splits option.splits if_splits)

lemma extra_write_metadata [simp]:
  "extra_request_headers (mcp_write_metadata ext px envelope mcp ctx) = extra_request_headers ctx"
  by (simp add: mcp_write_metadata_def Let_def set_if_clean_def when_some_def apply_if_def set_metadata_def split: option.split)

lemma extra_set_result [simp]:
  "extra_request_headers (fst (set_result px name k v ctx)) = extra_request_headers ctx"
  "extra_request_headers (fst (result_when px name k w ctx)) = extra_request_headers ctx"
  "extra_request_headers (results_entry name ctx) = extra_request_headers ctx"
  by (simp_all add: set_result_def result_when_def results_entry_def split: sum.split option.split)

lemma extra_promote_results [simp]:
  "extra_request_headers (fst (mcp_promote_filter_results ext px envelope mcp ctx)) = extra_request_headers ctx"
proof -
  have "extra_request_headers (fst (mcp_promote_filter_results ext px envelope mcp ctx)) =
      extra_request_headers (results_entry ''mcp'' ctx)"
    unfolding mcp_promote_filter_results_def
    by (rule run_steps_keeps) (auto simp: mcp_result_if_clean_def)
  then show ?thesis by simp
qed

lemma extra_push [simp]: "set (extra_request_headers (push_header h v ctx)) = insert (h, v) (set (extra_request_headers ctx))"
  by (auto simp: push_header_def)

lemma extra_promote_headers:
  "set (extra_request_headers ctx) \<subseteq> set (extra_request_headers (promote_mcp_headers ext px mcp envelope config ctx))"
  by (auto simp: promote_mcp_headers_def Let_def when_some_def apply_if_def split: option.split)

text \<open>
  C24. What the upstream is told about an MCP request agrees with its body. When the filter
  releases a request, a method that needs a tool, prompt or resource has one; with mismatches
  refused, the headers \<open>Mcp-Method\<close> and \<open>Mcp-Name\<close> of the client, where present, say exactly
  the method and the selector of the body; with missing headers refused, \<open>Mcp-Method\<close> is
  present, and \<open>Mcp-Name\<close> when the body has a selector; and with missing headers synthesized,
  an absent one is added with the value of the body when that value is safe.
\<close>

theorem mcp_release_checked:
  assumes "parse_json_rpc_body px body end_of_stream (build_json_rpc_config (mcp_max_body_bytes config))
      (mcp_on_invalid config) = Inr (Some parsed)"
    and "mcp_on_request_body ext px config ctx body end_of_stream = (ctx', Inr Release)"
    and "m = mcp_from_method_str (parsed_method parsed)" and "name = mcp_extract_name (parsed_value parsed) m"
  shows "(requires_name m \<or> requires_uri m \<longrightarrow> name \<noteq> None) \<and>
    (on_mismatch config = Mismatch_reject \<longrightarrow>
       header_agrees ext (request_headers ctx) ''mcp-method'' (Some (parsed_method parsed)) \<and>
       header_agrees ext (request_headers ctx) ''mcp-name'' name) \<and>
    (on_missing config = Missing_reject \<longrightarrow>
       request_headers ctx ''mcp-method'' \<noteq> None \<and> (name \<noteq> None \<longrightarrow> request_headers ctx ''mcp-name'' \<noteq> None)) \<and>
    (on_missing config = Missing_synthesize \<longrightarrow>
       (\<forall>(h, v) \<in> {(''mcp-method'', Some (parsed_method parsed)), (''mcp-name'', name)}. \<forall>x.
          request_headers ctx h = None \<and> v = Some x \<and> mcp_safe_value ext px x \<longrightarrow>
          (h, x) \<in> set (extra_request_headers ctx')))"
proof -
  let ?mcp = "extract_mcp_envelope ext (parsed_value parsed) (parsed_method parsed) (request_headers ctx)"
  let ?env = "parsed_envelope parsed"
  have fields: "mcp_method_of ?mcp = m" "mcp_name ?mcp = name" "mcp_method_str m = parsed_method parsed"
    using assms(3,4) by (simp_all add: extract_mcp_envelope_def Let_def)
  from assms(1,2) have handle: "mcp_handle ext px config parsed ctx = (ctx', Inr Release)"
    by (simp add: mcp_on_request_body_def)
  then have sel: "reject_missing_required_selector ext ?mcp ?env config = None"
    by (auto simp: mcp_handle_def Let_def reject_missing_required_selector_def mcp_invalid_params_rejection_def
        mcp_json_rpc_error_rejection_def split: if_splits on_invalid_behavior.splits)
  then have named: "requires_name m \<or> requires_uri m \<longrightarrow> name \<noteq> None"
    using fields by (auto simp: reject_missing_required_selector_def Let_def split: if_splits on_invalid_behavior.splits)
  obtain ctx2 where v: "validate_mcp_headers ext px ?mcp ?env config ctx = (ctx2, Inr ())"
    and rest: "ctx' = fst (mcp_promote_filter_results ext px ?env ?mcp
        (promote_mcp_headers ext px ?mcp ?env config (mcp_write_metadata ext px ?env ?mcp ctx2)))"
    using handle sel validate_mcp_headers_Inl [of ext px ?mcp ?env config ctx]
    by (cases "validate_mcp_headers ext px ?mcp ?env config ctx")
      (auto simp: mcp_handle_def Let_def map_prod_def split: sum.splits prod.splits)
  from v fields obtain ctx1
    where one: "validate_single_header ext px ''mcp-method'' (parsed_method parsed) ?env config ctx = (ctx1, Inr ())"
      and two: "case name of
         Some n \<Rightarrow> validate_single_header ext px ''mcp-name'' n ?env config ctx1 = (ctx2, Inr ())
       | None \<Rightarrow> ctx2 = ctx1 \<and> (request_headers ctx1 ''mcp-name'' = None \<or> on_mismatch config = Mismatch_ignore)"
    unfolding validate_mcp_headers_def run_steps_pair
    by (auto simp: on_header_mismatch_def split: option.splits mismatch_behavior.splits if_splits)
  note single = validate_single_header_Inr
  have kept: "set (extra_request_headers ctx2) \<subseteq> set (extra_request_headers ctx')"
    unfolding rest using extra_promote_headers [of "mcp_write_metadata ext px ?env ?mcp ctx2"] by simp
  show ?thesis
  proof (cases name)
    case None
    with one two named kept single [OF one] show ?thesis
      by (auto simp: header_agrees_def apply_if_def)
  next
    case (Some n)
    with two have two': "validate_single_header ext px ''mcp-name'' n ?env config ctx1 = (ctx2, Inr ())" by simp
    with Some named kept single [OF one] single [OF two'] show ?thesis
      by (auto simp: apply_if_def split: if_splits)
  qed
qed

text \<open>A tool call whose client names the method and leaves out the name.\<close>

definition tool_call :: parsed_json_rpc where
  "tool_call =
     \<lparr>parsed_value = jobj [(''params'', jobj [(''name'', JString ''get_weather'')])],
      parsed_method = ''tools/call'',
      parsed_envelope = \<lparr>rpc_method = Some ''tools/call'', rpc_kind = ''request'', rpc_notification = False,
        rpc_id = Some ''1'', rpc_id_kind = Id_integer\<rparr>\<rparr>"

definition tool_call_px :: praxis where
  "tool_call_px = open_px\<lparr>parse_json_rpc_body := (\<lambda>_ _ _ _. Inr (Some tool_call))\<rparr>"

definition tool_call_ctx :: filter_ctx where
  "tool_call_ctx = empty_ctx\<lparr>request_headers := [''mcp-method'' \<mapsto> ''tools/call'']\<rparr>"

lemma mcp_release_checked_witness:
  "\<exists>ctx'. mcp_on_request_body null_ext tool_call_px (default_mcp_config\<lparr>on_missing := Missing_synthesize\<rparr>)
      tool_call_ctx (Some ''{}'') True = (ctx', Inr Release) \<and>
    (''mcp-name'', ''get_weather'') \<in> set (extra_request_headers ctx')"
proof -
  let ?cfg = "default_mcp_config\<lparr>on_missing := Missing_synthesize\<rparr>"
  let ?run = "mcp_on_request_body null_ext tool_call_px ?cfg tool_call_ctx (Some ''{}'') True"
  have "snd ?run = Inr Release" by code_simp
  then have run: "?run = (fst ?run, Inr Release)" by (metis prod.collapse)
  have parse: "parse_json_rpc_body tool_call_px (Some ''{}'') True
      (build_json_rpc_config (mcp_max_body_bytes ?cfg)) (mcp_on_invalid ?cfg) = Inr (Some tool_call)"
    by (simp add: tool_call_px_def)
  have name: "mcp_extract_name (parsed_value tool_call) (mcp_from_method_str (parsed_method tool_call)) = Some ''get_weather''"
    by code_simp
  have free: "request_headers tool_call_ctx ''mcp-name'' = None" "mcp_safe_value null_ext tool_call_px ''get_weather''"
    by code_simp+
  from mcp_release_checked [OF parse run refl refl] name free run show ?thesis by auto
qed

section \<open>No control characters are promoted\<close>

text \<open>Neither the added headers nor the metadata hold a text with control characters.\<close>

definition clean_ctx :: "externals \<Rightarrow> filter_ctx \<Rightarrow> bool" where
  "clean_ctx ext ctx \<longleftrightarrow>
     (\<forall>(_, v) \<in> set (extra_request_headers ctx). \<not> contains_control_chars ext v) \<and>
     (\<forall>k v. get_metadata ctx k = Some v \<longrightarrow> \<not> contains_control_chars ext v)"

lemma clean_push [intro]:
  "clean_ctx ext ctx \<Longrightarrow> \<not> contains_control_chars ext v \<Longrightarrow> clean_ctx ext (push_header h v ctx)"
  by (auto simp: clean_ctx_def)

lemma clean_set [intro]:
  "clean_ctx ext ctx \<Longrightarrow> \<not> contains_control_chars ext v \<Longrightarrow> clean_ctx ext (set_metadata k v ctx)"
  by (auto simp: clean_ctx_def set_metadata_def get_metadata_def)

lemma clean_apply_if [intro]: "clean_ctx ext ctx \<Longrightarrow> (b \<Longrightarrow> clean_ctx ext (f ctx)) \<Longrightarrow> clean_ctx ext (apply_if b f ctx)"
  by (simp add: apply_if_def)

lemma clean_when_some [intro]:
  "clean_ctx ext ctx \<Longrightarrow> (\<And>x. v = Some x \<Longrightarrow> clean_ctx ext (f x ctx)) \<Longrightarrow> clean_ctx ext (when_some v f ctx)"
  by (cases v) simp_all

lemma clean_results:
  "clean_ctx ext (fst (mcp_promote_filter_results ext px envelope mcp ctx)) = clean_ctx ext ctx"
proof -
  have "clean_ctx ext (fst (mcp_promote_filter_results ext px envelope mcp ctx)) =
      clean_ctx ext (results_entry ''mcp'' ctx)"
    unfolding mcp_promote_filter_results_def
    by (rule run_steps_keeps) (auto simp: mcp_result_if_clean_def clean_ctx_def)
  then show ?thesis by (simp add: clean_ctx_def)
qed

lemma run_steps_preserves:
  assumes "\<And>f c. f \<in> set fs \<Longrightarrow> P c \<Longrightarrow> P (fst (f c))" and "P ctx"
  shows "P (fst (run_steps fs ctx))"
  using assms
proof (induction fs arbitrary: ctx)
  case (Cons f fs)
  have "P (fst (f ctx))" using Cons.prems by simp
  with Cons show ?case by (cases "f ctx") (auto split: sum.split)
qed simp

lemma clean_validate:
  assumes "clean_ctx ext ctx"
  shows "clean_ctx ext (fst (validate_mcp_headers ext px mcp envelope config ctx))"
proof -
  have single: "clean_ctx ext (fst (validate_single_header ext px h v envelope config c))" if "clean_ctx ext c" for h v c
    using that by (auto simp: validate_single_header_def mcp_safe_value_def
        split: option.split missing_header_behavior.split)
  show ?thesis
    unfolding validate_mcp_headers_def
    by (rule run_steps_preserves) (use single assms in \<open>auto split: option.splits\<close>)
qed

text \<open>
  Nothing of a request reaches a header or the metadata with a control character in it: as
  long as the names of the message kinds and the words true and false have none, a context
  without control characters in added headers and metadata still has none after the filter,
  however it ends.
\<close>

theorem mcp_promotes_clean:
  assumes "clean_ctx ext ctx"
    and "\<forall>parsed. parse_json_rpc_body px body end_of_stream (build_json_rpc_config (mcp_max_body_bytes config))
        (mcp_on_invalid config) = Inr (Some parsed) \<longrightarrow>
        \<not> contains_control_chars ext (rpc_kind (parsed_envelope parsed))"
    and "\<forall>b. \<not> contains_control_chars ext (bool_text b)"
  shows "clean_ctx ext (fst (mcp_on_request_body ext px config ctx body end_of_stream))"
proof -
  have meta: "clean_ctx ext (mcp_write_metadata ext px envelope mcp c)"
    if "clean_ctx ext c" "\<not> contains_control_chars ext (rpc_kind envelope)" for envelope mcp c
    using that unfolding mcp_write_metadata_def Let_def set_if_clean_def o_def
    by (intro clean_when_some clean_apply_if clean_set) (auto simp: mcp_safe_value_def)
  have headers: "clean_ctx ext (promote_mcp_headers ext px mcp envelope config c)"
    if "clean_ctx ext c" "\<not> contains_control_chars ext (rpc_kind envelope)" for envelope mcp c
    using that assms(3) unfolding promote_mcp_headers_def Let_def
    by (intro clean_when_some clean_apply_if clean_push) (auto simp: mcp_safe_value_def)
  have "clean_ctx ext (fst (mcp_handle ext px config parsed ctx))"
    if "\<not> contains_control_chars ext (rpc_kind (parsed_envelope parsed))" for parsed
  proof -
    let ?mcp = "extract_mcp_envelope ext (parsed_value parsed) (parsed_method parsed) (request_headers ctx)"
    let ?checked = "validate_mcp_headers ext px ?mcp (parsed_envelope parsed) config ctx"
    have "clean_ctx ext (fst ?checked)" using assms(1) by (rule clean_validate)
    with assms(1) that show ?thesis
      by (cases ?checked) (auto simp: mcp_handle_def Let_def clean_results meta headers split: option.split sum.split)
  qed
  with assms(1,2) show ?thesis
    by (auto simp: mcp_on_request_body_def split: sum.splits option.splits)
qed

lemma mcp_promotes_clean_witness:
  "clean_ctx null_ext (fst (mcp_on_request_body null_ext tool_call_px default_mcp_config tool_call_ctx (Some ''{}'') True))"
proof (rule mcp_promotes_clean)
  show "clean_ctx null_ext tool_call_ctx"
    by (simp add: clean_ctx_def tool_call_ctx_def empty_ctx_def get_metadata_def)
  show "\<forall>parsed. parse_json_rpc_body tool_call_px (Some ''{}'') True
      (build_json_rpc_config (mcp_max_body_bytes default_mcp_config)) (mcp_on_invalid default_mcp_config) =
        Inr (Some parsed) \<longrightarrow> \<not> contains_control_chars null_ext (rpc_kind (parsed_envelope parsed))"
    by (simp add: tool_call_px_def tool_call_def null_ext_def byte_def)
  show "\<forall>b. \<not> contains_control_chars null_ext (bool_text b)"
    by (simp add: bool_text_def null_ext_def byte_def)
qed

end
