(* ===== verification/Mcp_Broker.thy ===== *)
theory Mcp_Broker
  imports Mcp
begin

text \<open>
  The static MCP broker, \<open>filters/src/agentic/mcp/broker\<close>: its configuration with the checks and
  the tool catalog built from it (\<open>config.rs\<close>), and the handlers that answer every request from
  that catalog (\<open>mod.rs\<close>).
\<close>

section \<open>Configuration\<close>

datatype invalid_tool_policy = RejectServer | FilterOut

record tool_config =
  tool_name :: str
  tool_description :: "str option"
  tool_input_schema :: "json option"
  tool_annotations :: "json option"

record mcp_server_config =
  server_name :: str
  server_cluster :: str
  server_path :: str
  tool_prefix :: "str option"
  server_tools :: "tool_config list"

record mcp_broker_config =
  default_version :: str
  invalid_tool_policy_of :: invalid_tool_policy
  broker_max_body_bytes :: nat
  broker_path :: str
  protocol_profile_of :: protocol_profile
  mcp_servers :: "mcp_server_config list"
  supported_versions :: "str list"

text \<open>The configuration without any field set.\<close>

definition default_broker_config :: mcp_broker_config where
  "default_broker_config =
     \<lparr>default_version = DEFAULT_VERSION, invalid_tool_policy_of = RejectServer,
      broker_max_body_bytes = 65536, broker_path = ''/mcp'', protocol_profile_of = Profile_current,
      mcp_servers = [], supported_versions = SUPPORTED_VERSIONS\<rparr>"

record catalog_tool =
  ct_annotations :: "json option"
  ct_backend_path :: str
  ct_cluster :: str
  ct_description :: "str option"
  ct_exposed_name :: str
  ct_input_schema :: json
  ct_original_name :: str
  ct_server_name :: str

text \<open>
  What the checks use of other crates: \<open>http::Uri::from_str\<close> with its four accessors, and
  \<open>praxis_filter::has_dot_dot_traversal\<close>.
\<close>

record uri_parts =
  uri_scheme :: "str option"
  uri_authority :: "str option"
  uri_query :: "str option"
  uri_path :: str

record broker_fns =
  parse_uri :: "str \<Rightarrow> str + uri_parts"
  path_traversal :: "str \<Rightarrow> bool"

abbreviation mcp_err :: "str \<Rightarrow> filter_error" where
  "mcp_err msg \<equiv> ''mcp: '' @ msg"

definition check_supported :: "str \<Rightarrow> unit \<Rightarrow> filter_error + unit" where
  "check_supported v _ =
     (if is_supported_version v then Inr ()
      else Inl (mcp_err (''supported_versions contains '' @ quoted v @ '' which is not implemented by this build'')))"

definition validate_versions :: "mcp_broker_config \<Rightarrow> filter_error + unit" where
  "validate_versions cfg =
     (if supported_versions cfg = [] then Inl (mcp_err ''supported_versions must not be empty'')
      else
        and_then (fold_result check_supported (supported_versions cfg) ()) (\<lambda>_.
          if default_version cfg \<notin> set (supported_versions cfg) then
            Inl (mcp_err (''default_version '' @ quoted (default_version cfg) @ '' must appear in supported_versions''))
          else Inr ()))"

text \<open>One turn of a loop that refuses what a set has seen.\<close>

definition insert_unseen :: "filter_error \<Rightarrow> str \<Rightarrow> str set \<Rightarrow> filter_error + str set" where
  "insert_unseen e name seen = (if name \<in> seen then Inl e else Inr (insert name seen))"

definition check_server_name :: "mcp_server_config \<Rightarrow> str set \<Rightarrow> filter_error + str set" where
  "check_server_name server seen =
     (if server_name server = [] then Inl (mcp_err ''server name must not be empty'')
      else insert_unseen (mcp_err (''duplicate server name: '' @ quoted (server_name server))) (server_name server) seen)"

definition validate_unique_server_names :: "mcp_server_config list \<Rightarrow> filter_error + unit" where
  "validate_unique_server_names servers =
     map_sum id (\<lambda>_. ()) (fold_result check_server_name servers {})"

definition check_cluster :: "mcp_server_config \<Rightarrow> unit \<Rightarrow> filter_error + unit" where
  "check_cluster server _ =
     (if server_cluster server = [] then
        Inl (mcp_err (''server '' @ quoted (server_name server) @ '' cluster must not be empty''))
      else Inr ())"

definition validate_server_clusters :: "mcp_server_config list \<Rightarrow> filter_error + unit" where
  "validate_server_clusters servers = fold_result check_cluster servers ()"

definition validate_path :: "broker_fns \<Rightarrow> str \<Rightarrow> str \<Rightarrow> filter_error + unit" where
  "validate_path u label path =
     (let fail = (\<lambda>what. Inl (mcp_err (label @ '' path '' @ what @ '': '' @ quoted path)))
      in if position (\<lambda>i. starts_with (drop i path) ''://'') [0..<length path] \<noteq> None then
           fail ''must not contain a scheme/authority''
         else if \<not> starts_with path ''/'' then fail ''must start with /''
         else if starts_with path ''//'' then fail ''must not start with //''
         else
           (case parse_uri u path of
              Inl e \<Rightarrow> Inl (mcp_err (label @ '' path is not a valid URI: '' @ quoted path @ '': '' @ e))
            | Inr uri \<Rightarrow>
                if uri_scheme uri \<noteq> None \<or> uri_authority uri \<noteq> None then fail ''must not contain a scheme/authority''
                else if uri_query uri \<noteq> None then fail ''must not contain a query string''
                else if path_traversal u (uri_path uri) then
                  fail (''contains '' @ quoted ''..'' @ '' traversal'')
                else Inr ()))"

definition validate_server_paths :: "broker_fns \<Rightarrow> mcp_server_config list \<Rightarrow> filter_error + unit" where
  "validate_server_paths u servers =
     fold_result (\<lambda>server _. validate_path u (''server '' @ quoted (server_name server)) (server_path server)) servers ()"

definition check_tool_name :: "mcp_server_config \<Rightarrow> tool_config \<Rightarrow> unit \<Rightarrow> filter_error + unit" where
  "check_tool_name server tool _ =
     (if tool_name tool = [] then
        Inl (mcp_err (''server '' @ quoted (server_name server) @ '' has a tool with an empty name''))
      else Inr ())"

definition validate_tool_names :: "mcp_server_config list \<Rightarrow> filter_error + unit" where
  "validate_tool_names servers =
     fold_result (\<lambda>server. fold_result (check_tool_name server) (server_tools server)) servers ()"

definition validate_unique_exposed_names :: "catalog_tool list \<Rightarrow> filter_error + unit" where
  "validate_unique_exposed_names catalog =
     map_sum id (\<lambda>_. ())
       (fold_result (\<lambda>tool. insert_unseen
          (mcp_err (''duplicate exposed tool name: '' @ quoted (ct_exposed_name tool))) (ct_exposed_name tool)) catalog {})"

definition validate_schema_object :: "str \<Rightarrow> json \<Rightarrow> str + unit" where
  "validate_schema_object label schema =
     (if as_object schema = None then Inl (label @ '' must be a JSON object'')
      else if get_str schema ''type'' \<noteq> Some ''object'' then Inl (label @ ''.type must be '' @ quoted ''object'')
      else if (case jget schema ''properties'' of None \<Rightarrow> False | Some properties \<Rightarrow> as_object properties = None) then
        Inl (label @ ''.properties must be a JSON object'')
      else if (case jget schema ''required'' of
                 None \<Rightarrow> False
               | Some required \<Rightarrow>
                   (case as_array required of None \<Rightarrow> True | Some values \<Rightarrow> \<not> list_all (\<lambda>x. as_str x \<noteq> None) values)) then
        Inl (label @ ''.required must be an array of strings'')
      else Inr ())"

definition validate_tool_schemas :: "tool_config \<Rightarrow> str + unit" where
  "validate_tool_schemas tool =
     (case tool_input_schema tool of None \<Rightarrow> Inr () | Some schema \<Rightarrow> validate_schema_object ''inputSchema'' schema)"

definition default_input_schema :: json where
  "default_input_schema = jobj [(''type'', JString ''object''), (''additionalProperties'', JBool False)]"

definition build_catalog_entry :: "mcp_server_config \<Rightarrow> tool_config \<Rightarrow> catalog_tool" where
  "build_catalog_entry server tool =
     \<lparr>ct_annotations = tool_annotations tool, ct_backend_path = server_path server, ct_cluster = server_cluster server,
      ct_description = tool_description tool,
      ct_exposed_name = (case tool_prefix server of Some prefix \<Rightarrow> prefix @ tool_name tool | None \<Rightarrow> tool_name tool),
      ct_input_schema = unwrap_or default_input_schema (tool_input_schema tool),
      ct_original_name = tool_name tool, ct_server_name = server_name server\<rparr>"

definition catalog_step ::
  "invalid_tool_policy \<Rightarrow> mcp_server_config \<Rightarrow> tool_config \<Rightarrow> catalog_tool list \<Rightarrow> filter_error + catalog_tool list" where
  "catalog_step policy server tool catalog =
     (case validate_tool_schemas tool of
        Inl reason \<Rightarrow>
          (case policy of
             RejectServer \<Rightarrow>
               Inl (mcp_err (''server '' @ quoted (server_name server) @ '' tool '' @ quoted (tool_name tool) @ '' '' @ reason))
           | FilterOut \<Rightarrow> Inr catalog)
      | Inr _ \<Rightarrow> Inr (catalog @ [build_catalog_entry server tool]))"

definition build_catalog :: "mcp_server_config list \<Rightarrow> invalid_tool_policy \<Rightarrow> filter_error + catalog_tool list" where
  "build_catalog servers policy =
     fold_result (\<lambda>server. fold_result (catalog_step policy server) (server_tools server)) servers []"

definition broker_build_config ::
  "praxis \<Rightarrow> broker_fns \<Rightarrow> mcp_broker_config \<Rightarrow> filter_error + mcp_broker_config \<times> catalog_tool list" where
  "broker_build_config px u cfg =
     and_then (check_max_body_bytes px ''mcp_broker'' (broker_max_body_bytes cfg)) (\<lambda>_.
     and_then (validate_versions cfg) (\<lambda>_.
     and_then (validate_path u ''mcp'' (broker_path cfg)) (\<lambda>_.
     and_then (validate_unique_server_names (mcp_servers cfg)) (\<lambda>_.
     and_then (validate_server_clusters (mcp_servers cfg)) (\<lambda>_.
     and_then (validate_server_paths u (mcp_servers cfg)) (\<lambda>_.
     and_then (validate_tool_names (mcp_servers cfg)) (\<lambda>_.
     and_then (build_catalog (mcp_servers cfg) (invalid_tool_policy_of cfg)) (\<lambda>catalog.
     and_then (validate_unique_exposed_names catalog) (\<lambda>_. Inr (cfg, catalog))))))))))"

section \<open>The filter\<close>

record broker_filter =
  catalog :: "catalog_tool list"
  bf_default_version :: str
  bf_max_body_bytes :: nat
  bf_protocol_profile :: protocol_profile
  public_path :: str
  bf_supported_versions :: "str list"

definition broker_from_config :: "praxis \<Rightarrow> broker_fns \<Rightarrow> mcp_broker_config \<Rightarrow> filter_error + broker_filter" where
  "broker_from_config px u cfg =
     and_then (broker_build_config px u cfg) (\<lambda>(validated, tools). Inr
       \<lparr>catalog = tools, bf_default_version = default_version validated,
        bf_max_body_bytes = broker_max_body_bytes validated,
        bf_protocol_profile = protocol_profile_of validated,
        public_path = broker_path validated, bf_supported_versions = supported_versions validated\<rparr>)"

section \<open>JSON-RPC helpers\<close>

definition format_id_json :: "externals \<Rightarrow> json_rpc_envelope \<Rightarrow> str" where
  "format_id_json ext envelope =
     (let i = unwrap_or ''null'' (rpc_id envelope)
      in case rpc_id_kind envelope of
           Id_string \<Rightarrow> text_or ext ''null'' (JString i)
         | Id_integer \<Rightarrow> i
         | Id_number \<Rightarrow> i
         | Id_null \<Rightarrow> ''null''
         | Id_missing \<Rightarrow> ''null'')"

definition id_value :: "externals \<Rightarrow> json_rpc_envelope \<Rightarrow> json" where
  "id_value ext envelope =
     (case rpc_id envelope of
        None \<Rightarrow> JNull
      | Some i \<Rightarrow>
          (let number = (case from_slice ext i of Inl _ \<Rightarrow> JNull | Inr v \<Rightarrow> v)
           in case rpc_id_kind envelope of
                Id_string \<Rightarrow> JString i
              | Id_integer \<Rightarrow> number
              | Id_number \<Rightarrow> number
              | Id_null \<Rightarrow> JNull
              | Id_missing \<Rightarrow> JNull))"

definition json_rpc_error_action_with_id :: "externals \<Rightarrow> str \<Rightarrow> int \<Rightarrow> str \<Rightarrow> filter_action" where
  "json_rpc_error_action_with_id ext id_json code message =
     Reject (json_rejection 200 (rpc_error_body ext id_json code message))"

definition json_rpc_error_action :: "externals \<Rightarrow> json_rpc_envelope \<Rightarrow> int \<Rightarrow> str \<Rightarrow> filter_action" where
  "json_rpc_error_action ext envelope code message =
     json_rpc_error_action_with_id ext (format_id_json ext envelope) code message"

definition has_valid_request_id :: "json_rpc_envelope \<Rightarrow> bool" where
  "has_valid_request_id envelope \<longleftrightarrow> rpc_id_kind envelope \<in> {Id_string, Id_integer}"

definition invalid_request_action :: "externals \<Rightarrow> json_rpc_envelope \<Rightarrow> filter_action" where
  "invalid_request_action ext envelope =
     (let id_json = (if has_valid_request_id envelope then format_id_json ext envelope else ''null'')
      in json_rpc_error_action_with_id ext id_json (- 32600) ''invalid request'')"

section \<open>Request handlers\<close>

definition handle_notification :: "externals \<Rightarrow> json_rpc_envelope \<Rightarrow> filter_action" where
  "handle_notification ext envelope =
     (if rpc_notification envelope \<and> rpc_id_kind envelope = Id_missing then Reject (status_only 202)
      else invalid_request_action ext envelope)"

definition broker_handle_delete :: "externals \<Rightarrow> filter_ctx \<Rightarrow> filter_action" where
  "broker_handle_delete ext ctx =
     Reject (status_only (if request_header_text ext (request_headers ctx) ''mcp-session-id'' \<noteq> None then 204 else 400))"

definition negotiate_protocol_version :: "json \<Rightarrow> str list \<Rightarrow> str \<Rightarrow> str" where
  "negotiate_protocol_version v supported dflt =
     (case requested_version v of
        None \<Rightarrow> dflt
      | Some req \<Rightarrow> (case find (\<lambda>x. x = req) supported of Some matched \<Rightarrow> matched | None \<Rightarrow> dflt))"

definition record_client_protocol_version :: "externals \<Rightarrow> json \<Rightarrow> filter_ctx \<Rightarrow> filter_ctx" where
  "record_client_protocol_version ext v = set_if_clean ext ''mcp.protocol_version'' (requested_version v)"

definition initialize_response_body :: "externals \<Rightarrow> json_rpc_envelope \<Rightarrow> str \<Rightarrow> json" where
  "initialize_response_body ext envelope version =
     jobj [(''jsonrpc'', JString ''2.0''), (''id'', id_value ext envelope),
       (''result'', jobj
         [(''protocolVersion'', JString version),
          (''capabilities'', jobj [(''tools'', jobj [(''listChanged'', JBool False)])]),
          (''serverInfo'', jobj [(''name'', JString ''praxis'')])])]"

text \<open>\<open>generated\<close> is the identifier of the generator. \<open>Value::to_string\<close> cannot fail.\<close>

definition handle_initialize ::
  "externals \<Rightarrow> str \<Rightarrow> filter_ctx \<Rightarrow> json \<Rightarrow> json_rpc_envelope \<Rightarrow> str list \<Rightarrow> str \<Rightarrow> filter_ctx \<times> filter_action" where
  "handle_initialize ext generated ctx v envelope supported dflt =
     (let ctx1 = record_client_protocol_version ext v ctx;
          response_version = negotiate_protocol_version v supported dflt;
          session_id = ''mcp-'' @ generated
      in (set_metadata ''mcp.session_id'' session_id ctx1,
          Reject \<lparr>rej_status = 200,
            rej_headers = [(''content-type'', ''application/json''), (''mcp-session-id'', session_id)],
            rej_body = text_or_default ext (initialize_response_body ext envelope response_version)\<rparr>))"

definition catalog_tool_to_json :: "catalog_tool \<Rightarrow> json" where
  "catalog_tool_to_json tool =
     jobj ([(''name'', JString (ct_exposed_name tool))]
       @ (case ct_description tool of None \<Rightarrow> [] | Some desc \<Rightarrow> [(''description'', JString desc)])
       @ [(''inputSchema'', ct_input_schema tool)]
       @ (case ct_annotations tool of None \<Rightarrow> [] | Some a \<Rightarrow> [(''annotations'', a)]))"

definition serialize_catalog :: "externals \<Rightarrow> catalog_tool list \<Rightarrow> filter_error + str" where
  "serialize_catalog ext tools =
     (case to_text ext (JArray (map catalog_tool_to_json tools)) of
        Inl e \<Rightarrow> Inl (mcp_err (''failed to serialize tool catalog: '' @ e))
      | Inr s \<Rightarrow> Inr s)"

definition result_body :: "str \<Rightarrow> str \<Rightarrow> str" where
  "result_body id_json result = ''{\"jsonrpc\":\"2.0\",\"id\":'' @ id_json @ '',\"result\":'' @ result @ ''}''"

definition handle_tools_list :: "externals \<Rightarrow> catalog_tool list \<Rightarrow> json_rpc_envelope \<Rightarrow> filter_error + filter_action" where
  "handle_tools_list ext tools envelope =
     and_then (serialize_catalog ext tools) (\<lambda>tools_json.
       Inr (Reject (json_rejection 200
         (result_body (format_id_json ext envelope) (''{\"tools\":'' @ tools_json @ ''}'')))))"

definition handle_ping :: "externals \<Rightarrow> json_rpc_envelope \<Rightarrow> filter_action" where
  "handle_ping ext envelope = Reject (json_rejection 200 (result_body (format_id_json ext envelope) ''{}''))"

definition dispatch_method ::
  "externals \<Rightarrow> str \<Rightarrow> filter_ctx \<Rightarrow> broker_filter \<Rightarrow> json \<Rightarrow> json_rpc_envelope \<Rightarrow> str
    \<Rightarrow> filter_ctx \<times> (filter_error + filter_action)" where
  "dispatch_method ext generated ctx broker v envelope method_str =
     (if starts_with method_str ''notifications/'' then (ctx, Inr (handle_notification ext envelope))
      else if \<not> has_valid_request_id envelope then (ctx, Inr (invalid_request_action ext envelope))
      else if method_str = ''initialize'' then
        map_prod id Inr (handle_initialize ext generated ctx v envelope
          (bf_supported_versions broker) (bf_default_version broker))
      else if method_str = ''tools/list'' then (ctx, handle_tools_list ext (catalog broker) envelope)
      else if method_str = ''tools/call'' then
        (ctx, Inr (json_rpc_error_action ext envelope (- 32601) ''method not yet supported''))
      else if method_str = ''ping'' then (ctx, Inr (handle_ping ext envelope))
      else (ctx, Inr (json_rpc_error_action ext envelope (- 32601) ''method not found'')))"

section \<open>The hooks\<close>

definition request_path_matches :: "filter_ctx \<Rightarrow> str \<Rightarrow> bool" where
  "request_path_matches ctx path \<longleftrightarrow> req_path ctx = path"

definition broker_on_request :: "externals \<Rightarrow> broker_filter \<Rightarrow> filter_ctx \<Rightarrow> filter_action" where
  "broker_on_request ext broker ctx =
     (if \<not> request_path_matches ctx (public_path broker) then Reject (status_only 404)
      else if req_method ctx = ''POST'' then Continue
      else if req_method ctx = ''DELETE'' then broker_handle_delete ext ctx
      else Reject (status_only 405))"

definition broker_on_request_body ::
  "externals \<Rightarrow> praxis \<Rightarrow> str \<Rightarrow> broker_filter \<Rightarrow> filter_ctx \<Rightarrow> bytes option \<Rightarrow> bool
    \<Rightarrow> filter_ctx \<times> (filter_error + filter_action)" where
  "broker_on_request_body ext px generated broker ctx body end_of_stream =
     (let bad_request = (ctx, Inr (Reject (status_only 400)))
      in if req_method ctx \<noteq> ''POST'' then (ctx, Inr Continue)
         else if \<not> request_path_matches ctx (public_path broker) then (ctx, Inr (Reject (status_only 404)))
         else if \<not> end_of_stream then (ctx, Inr Continue)
         else
           (case body of
              None \<Rightarrow> (ctx, Inr Continue)
            | Some chunk \<Rightarrow>
                (case from_slice ext chunk of
                   Inl _ \<Rightarrow> bad_request
                 | Inr v \<Rightarrow>
                     (case parse_json_rpc_value px v (build_json_rpc_config (bf_max_body_bytes broker)) of
                        Inl _ \<Rightarrow> bad_request
                      | Inr None \<Rightarrow> bad_request
                      | Inr (Some envelope) \<Rightarrow>
                          (case rpc_method envelope of
                             None \<Rightarrow> bad_request
                           | Some method_str \<Rightarrow>
                               (let ctx1 = apply_if (\<not> contains_control_chars ext method_str)
                                      (set_metadata ''mcp.method'' method_str \<circ> set_metadata ''json_rpc.method'' method_str) ctx
                                in dispatch_method ext generated ctx1 broker v envelope method_str))))))"

section \<open>The catalog\<close>

text \<open>A loop that only checks passes exactly when every turn does.\<close>

lemma fold_check_Inr:
  fixes f :: "'x \<Rightarrow> unit \<Rightarrow> 'e + unit"
  shows "fold_result f xs () = Inr u \<longleftrightarrow> (\<forall>x \<in> set xs. f x () = Inr ())"
  by (induction xs) (auto simp: and_then_Inr_iff)

lemma fold_unseen_Inr:
  "fold_result (\<lambda>x. insert_unseen (e x) (f x)) xs seen = Inr seen' \<longleftrightarrow>
     distinct (map f xs) \<and> f ` set xs \<inter> seen = {} \<and> seen' = f ` set xs \<union> seen"
  by (induction xs arbitrary: seen) (auto simp: and_then_Inr_iff insert_unseen_def)

text \<open>The tools a catalog should offer: those of every server, in order, whose schema is usable.\<close>

definition usable :: "tool_config \<Rightarrow> bool" where
  "usable tool \<longleftrightarrow> validate_tool_schemas tool = Inr ()"

definition offered :: "mcp_server_config list \<Rightarrow> catalog_tool list" where
  "offered servers =
     concat (map (\<lambda>server. map (build_catalog_entry server) (filter usable (server_tools server))) servers)"

lemma catalog_server:
  "fold_result (catalog_step policy server) tools acc = Inr res \<longleftrightarrow>
     (policy = RejectServer \<longrightarrow> list_all usable tools) \<and>
     res = acc @ map (build_catalog_entry server) (filter usable tools)"
  by (induction tools arbitrary: acc)
    (auto simp: and_then_Inr_iff catalog_step_def usable_def split: sum.splits invalid_tool_policy.splits)

lemma catalog_all:
  "fold_result (\<lambda>server. fold_result (catalog_step policy server) (server_tools server)) servers acc = Inr res \<longleftrightarrow>
     (policy = RejectServer \<longrightarrow> (\<forall>server \<in> set servers. list_all usable (server_tools server))) \<and>
     res = acc @ offered servers"
  by (induction servers arbitrary: acc) (auto simp: and_then_Inr_iff catalog_server offered_def)

lemma build_catalog_Inr:
  "build_catalog servers policy = Inr tools \<longleftrightarrow>
     (policy = RejectServer \<longrightarrow> (\<forall>server \<in> set servers. list_all usable (server_tools server))) \<and>
     tools = offered servers"
  by (simp add: build_catalog_def catalog_all)

lemma validate_tool_names_Inr:
  "validate_tool_names servers = Inr u \<longleftrightarrow> (\<forall>server \<in> set servers. \<forall>tool \<in> set (server_tools server). tool_name tool \<noteq> [])"
proof -
  have "fold_result (\<lambda>server. fold_result (check_tool_name server) (server_tools server)) servers () = Inr u \<longleftrightarrow>
      (\<forall>server \<in> set servers. fold_result (check_tool_name server) (server_tools server) () = Inr ())"
    by (rule fold_check_Inr)
  then show ?thesis by (auto simp: validate_tool_names_def fold_check_Inr check_tool_name_def)
qed

lemma validate_unique_exposed_names_Inr:
  "validate_unique_exposed_names tools = Inr u \<longleftrightarrow> distinct (map ct_exposed_name tools)"
proof -
  have unit: "map_sum id (\<lambda>_. ()) r = Inr u \<longleftrightarrow> (\<exists>x. r = Inr x)" for r :: "filter_error + str set"
    by (cases r) simp_all
  show ?thesis unfolding validate_unique_exposed_names_def unit fold_unseen_Inr by simp
qed

lemma validate_versions_Inr:
  "validate_versions cfg = Inr u \<longleftrightarrow>
     default_version cfg \<in> set (supported_versions cfg) \<and> set (supported_versions cfg) \<subseteq> set SUPPORTED_VERSIONS"
  by (auto simp: validate_versions_def and_then_Inr_iff fold_check_Inr check_supported_def is_supported_version_def
      split: if_splits)

lemma broker_from_config_Inr:
  assumes "broker_from_config px u cfg = Inr broker"
  shows "validate_versions cfg = Inr ()" and "validate_tool_names (mcp_servers cfg) = Inr ()"
    and "build_catalog (mcp_servers cfg) (invalid_tool_policy_of cfg) = Inr (catalog broker)"
    and "validate_unique_exposed_names (catalog broker) = Inr ()"
    and "bf_supported_versions broker = supported_versions cfg" and "bf_default_version broker = default_version cfg"
    and "public_path broker = broker_path cfg"
  using assms by (auto simp: broker_from_config_def broker_build_config_def and_then_Inr_iff)

text \<open>
  C26. The catalog of a broker that starts lists, server by server and in the order of the
  configuration, exactly the tools whose input schema is usable, each under its server's prefix;
  unusable tools are only left out, never the reason to start, when the policy says so. Names are not
  empty and no two entries share one, so the name a client sends back identifies one server and
  one tool on it.
\<close>

theorem broker_catalog_offers:
  assumes "broker_from_config px u cfg = Inr broker"
  shows "catalog broker = offered (mcp_servers cfg) \<and>
    (invalid_tool_policy_of cfg = RejectServer \<longrightarrow>
       length (catalog broker) = sum_list (map (\<lambda>s. length (server_tools s)) (mcp_servers cfg))) \<and>
    [] \<notin> ct_exposed_name ` set (catalog broker) \<and>
    inj_on ct_exposed_name (set (catalog broker)) \<and> distinct (catalog broker)"
proof -
  note parts = broker_from_config_Inr [OF assms]
  from parts(3) have tools: "catalog broker = offered (mcp_servers cfg)"
    and policy: "invalid_tool_policy_of cfg = RejectServer \<longrightarrow>
        (\<forall>server \<in> set (mcp_servers cfg). list_all usable (server_tools server))"
    by (simp_all add: build_catalog_Inr)
  have "length (offered servers) = sum_list (map (\<lambda>s. length (server_tools s)) servers)"
    if "\<forall>server \<in> set servers. list_all usable (server_tools server)" for servers
    using that by (induction servers) (simp_all add: offered_def list_all_iff)
  moreover have "[] \<notin> ct_exposed_name ` set (catalog broker)"
    using parts(2) tools
    by (auto simp: validate_tool_names_Inr offered_def build_catalog_entry_def eq_commute [of "[]"] split: option.splits)
  moreover have "distinct (map ct_exposed_name (catalog broker))"
    using parts(4) by (simp add: validate_unique_exposed_names_Inr)
  ultimately show ?thesis using tools policy by (auto simp: distinct_map)
qed

text \<open>Two servers with one tool name, told apart by a prefix; the second has a tool without a usable schema.\<close>

definition weather_config :: mcp_broker_config where
  "weather_config = default_broker_config\<lparr>invalid_tool_policy_of := FilterOut, mcp_servers :=
     [\<lparr>server_name = ''a'', server_cluster = ''a'', server_path = ''/mcp'', tool_prefix = None,
       server_tools = [\<lparr>tool_name = ''get'', tool_description = None, tool_input_schema = None, tool_annotations = None\<rparr>]\<rparr>,
      \<lparr>server_name = ''b'', server_cluster = ''b'', server_path = ''/mcp'', tool_prefix = Some ''b_'',
       server_tools = [\<lparr>tool_name = ''get'', tool_description = None, tool_input_schema = None, tool_annotations = None\<rparr>,
                       \<lparr>tool_name = ''bad'', tool_description = None, tool_input_schema = Some JNull,
                        tool_annotations = None\<rparr>]\<rparr>]\<rparr>"

definition plain_uris :: broker_fns where
  "plain_uris =
     \<lparr>parse_uri = (\<lambda>s. Inr \<lparr>uri_scheme = None, uri_authority = None, uri_query = None, uri_path = s\<rparr>),
      path_traversal = (\<lambda>_. False)\<rparr>"

definition weather_broker :: broker_filter where
  "weather_broker =
     \<lparr>catalog = offered (mcp_servers weather_config), bf_default_version = DEFAULT_VERSION, bf_max_body_bytes = 65536,
      bf_protocol_profile = Profile_current, public_path = ''/mcp'', bf_supported_versions = SUPPORTED_VERSIONS\<rparr>"

lemma weather_starts: "broker_from_config open_px plain_uris weather_config = Inr weather_broker"
  by code_simp

lemma broker_catalog_offers_witness:
  "catalog weather_broker = offered (mcp_servers weather_config) \<and>
   map ct_exposed_name (catalog weather_broker) = [''get'', ''b_get'']"
  using broker_catalog_offers [OF weather_starts] by (simp add: weather_config_def) code_simp

section \<open>Answers\<close>

text \<open>
  A broker negotiates only versions this build implements: whatever the client asks for, a
  valid \<open>initialize\<close> request is answered with a result that carries the caller's id and a protocol
  version of \<open>SUPPORTED_VERSIONS\<close>, the requested one when the configuration supports it, and with a
  session id that is also left in the metadata.
\<close>

theorem broker_negotiates_supported:
  assumes "broker_from_config px u cfg = Inr broker"
    and "req_method ctx = ''POST''" and "req_path ctx = public_path broker"
    and "from_slice ext chunk = Inr v"
    and "parse_json_rpc_value px v (build_json_rpc_config (bf_max_body_bytes broker)) = Inr (Some envelope)"
    and "rpc_method envelope = Some ''initialize''" and "has_valid_request_id envelope"
  shows "\<exists>ctx' version session.
    broker_on_request_body ext px generated broker ctx (Some chunk) True =
      (ctx', Inr (Reject \<lparr>rej_status = 200,
         rej_headers = [(''content-type'', ''application/json''), (''mcp-session-id'', session)],
         rej_body = text_or_default ext (initialize_response_body ext envelope version)\<rparr>)) \<and>
    version \<in> set SUPPORTED_VERSIONS \<and>
    (\<forall>req. requested_version v = Some req \<and> req \<in> set (supported_versions cfg) \<longrightarrow> version = req) \<and>
    get_metadata ctx' ''mcp.session_id'' = Some session"
proof -
  note parts = broker_from_config_Inr [OF assms(1)]
  let ?version = "negotiate_protocol_version v (bf_supported_versions broker) (bf_default_version broker)"
  have cases: "?version = (case requested_version v of
      Some req \<Rightarrow> if req \<in> set (supported_versions cfg) then req else default_version cfg
    | None \<Rightarrow> default_version cfg)"
    by (auto simp: negotiate_protocol_version_def parts find_None_iff find_Some_iff split: option.splits)
  with parts(1) have supported: "?version \<in> set SUPPORTED_VERSIONS"
    by (auto simp: validate_versions_Inr split: option.splits)
  moreover have "?version = req" if "requested_version v = Some req" "req \<in> set (supported_versions cfg)" for req
    using that cases by simp
  moreover have "\<not> starts_with ''initialize'' ''notifications/''" by code_simp
  then have "\<exists>ctx'. broker_on_request_body ext px generated broker ctx (Some chunk) True =
      (ctx', Inr (Reject \<lparr>rej_status = 200,
         rej_headers = [(''content-type'', ''application/json''), (''mcp-session-id'', ''mcp-'' @ generated)],
         rej_body = text_or_default ext (initialize_response_body ext envelope ?version)\<rparr>)) \<and>
      get_metadata ctx' ''mcp.session_id'' = Some (''mcp-'' @ generated)"
    using assms(2-7)
    by (simp add: broker_on_request_body_def request_path_matches_def dispatch_method_def handle_initialize_def Let_def)
  ultimately show ?thesis by blast
qed

text \<open>An \<open>initialize\<close> request for a version of the future.\<close>

definition future_request :: json where
  "future_request = jobj [(''params'', jobj [(''protocolVersion'', JString ''2099-01-01'')])]"

definition future_envelope :: json_rpc_envelope where
  "future_envelope = \<lparr>rpc_method = Some ''initialize'', rpc_kind = ''request'', rpc_notification = False,
     rpc_id = Some ''1'', rpc_id_kind = Id_integer\<rparr>"

definition future_ext :: externals where
  "future_ext = null_ext\<lparr>from_slice := (\<lambda>_. Inr future_request)\<rparr>"

definition future_px :: praxis where
  "future_px = open_px\<lparr>parse_json_rpc_value := (\<lambda>_ _. Inr (Some future_envelope))\<rparr>"

definition mcp_post :: filter_ctx where
  "mcp_post = empty_ctx\<lparr>req_path := ''/mcp''\<rparr>"

lemma future_starts: "broker_from_config future_px plain_uris weather_config = Inr weather_broker"
  by code_simp

lemma future_parts:
  "req_method mcp_post = ''POST''" "req_path mcp_post = public_path weather_broker"
  "from_slice future_ext ''{}'' = Inr future_request"
  "parse_json_rpc_value future_px future_request (build_json_rpc_config (bf_max_body_bytes weather_broker)) =
     Inr (Some future_envelope)"
  "rpc_method future_envelope = Some ''initialize''" "has_valid_request_id future_envelope"
  by (simp_all add: mcp_post_def empty_ctx_def weather_broker_def future_ext_def future_px_def future_envelope_def
      has_valid_request_id_def)

lemma broker_negotiates_supported_witness:
  "requested_version future_request = Some ''2099-01-01'' \<and>
   (\<exists>ctx' version session r.
      broker_on_request_body future_ext future_px ''7'' weather_broker mcp_post (Some ''{}'') True =
        (ctx', Inr (Reject r)) \<and>
      rej_body r = text_or_default future_ext (initialize_response_body future_ext future_envelope version) \<and>
      version \<in> set SUPPORTED_VERSIONS \<and> get_metadata ctx' ''mcp.session_id'' = Some session)"
proof -
  have "requested_version future_request = Some ''2099-01-01''" by code_simp
  then show ?thesis
    using broker_negotiates_supported [OF future_starts future_parts, where generated = "''7''"] by fastforce
qed

text \<open>The answer to a complete body: refused, accepted as a notification, or a JSON document.\<close>

definition broker_answer :: "externals \<Rightarrow> praxis \<Rightarrow> broker_filter \<Rightarrow> bytes \<Rightarrow> rejection \<Rightarrow> bool" where
  "broker_answer ext px broker chunk r \<longleftrightarrow>
     (rej_status r = 400 \<longleftrightarrow>
        (\<nexists>v envelope m. from_slice ext chunk = Inr v \<and>
           parse_json_rpc_value px v (build_json_rpc_config (bf_max_body_bytes broker)) = Inr (Some envelope) \<and>
           rpc_method envelope = Some m)) \<and>
     (rej_status r = 202 \<longrightarrow>
        (\<exists>v envelope m. from_slice ext chunk = Inr v \<and>
           parse_json_rpc_value px v (build_json_rpc_config (bf_max_body_bytes broker)) = Inr (Some envelope) \<and>
           rpc_method envelope = Some m \<and> starts_with m ''notifications/'' \<and> rpc_id_kind envelope = Id_missing)) \<and>
     (rej_status r \<notin> {202, 400} \<longrightarrow>
        rej_status r = 200 \<and> (''content-type'', ''application/json'') \<in> set (rej_headers r))"

text \<open>
  C25. The broker answers by itself every request that has a body: its request hook lets pass only a \<open>POST\<close> to
  the public path, and then the complete body ends in an answer or in a failure to write
  the catalog, never in a request that goes on to an upstream. When the body is not valid JSON-RPC the
  answer is 400; an answer is 202 only for a notification without an id; every other answer
  is 200 with a JSON body. Only a request that ends without any body goes on, as does the part of a body that is not
  yet complete, and both leave the context as it was.
\<close>

theorem broker_answers_itself:
  assumes "broker_on_request_body ext px generated broker ctx body end_of_stream = (ctx', res)"
    and "broker_on_request ext broker ctx = Continue"
  shows "req_method ctx = ''POST'' \<and> request_path_matches ctx (public_path broker) \<and>
    (case (end_of_stream, body) of
       (True, Some chunk) \<Rightarrow>
         (case res of
            Inl _ \<Rightarrow> \<exists>e. to_text ext (JArray (map catalog_tool_to_json (catalog broker))) = Inl e
          | Inr action \<Rightarrow> \<exists>r. action = Reject r \<and> broker_answer ext px broker chunk r)
     | _ \<Rightarrow> ctx' = ctx \<and> res = Inr Continue)"
proof -
  from assms(2) have post: "req_method ctx = ''POST''" "request_path_matches ctx (public_path broker)"
    by (auto simp: broker_on_request_def broker_handle_delete_def split: if_splits)
  show ?thesis
  proof (cases "end_of_stream \<and> body \<noteq> None")
    case False
    with assms(1) post show ?thesis
      by (auto simp: broker_on_request_body_def Let_def split: bool.splits option.splits)
  next
    case True
    then obtain chunk where body: "body = Some chunk" "end_of_stream" by auto
    let ?parsed = "\<lambda>v envelope m. from_slice ext chunk = Inr v \<and>
        parse_json_rpc_value px v (build_json_rpc_config (bf_max_body_bytes broker)) = Inr (Some envelope) \<and>
        rpc_method envelope = Some m"
    show ?thesis
    proof (cases "\<exists>v envelope m. ?parsed v envelope m")
      case False
      with assms(1) post body show ?thesis
        by (auto simp: broker_on_request_body_def broker_answer_def Let_def status_only_def split: sum.splits option.splits)
    next
      case True
      then obtain v envelope m where p: "?parsed v envelope m" by blast
      with assms(1) post body obtain c where "dispatch_method ext generated c broker v envelope m = (ctx', res)"
        by (auto simp: broker_on_request_body_def Let_def)
      then have answer: "(case res of
          Inl _ \<Rightarrow> \<exists>e. to_text ext (JArray (map catalog_tool_to_json (catalog broker))) = Inl e
        | Inr action \<Rightarrow> \<exists>r. action = Reject r \<and>
            (rej_status r = 202 \<and> starts_with m ''notifications/'' \<and> rpc_id_kind envelope = Id_missing \<or>
             rej_status r = 200 \<and> (''content-type'', ''application/json'') \<in> set (rej_headers r)))"
        by (auto simp: dispatch_method_def handle_notification_def invalid_request_action_def Let_def status_only_def
            json_rpc_error_action_with_id_def json_rpc_error_action_def json_rejection_def handle_initialize_def handle_ping_def
            handle_tools_list_def serialize_catalog_def and_then_eq_case
            split: if_splits sum.splits)
      with p post body show ?thesis by (cases res) (fastforce simp: broker_answer_def)+
    qed
  qed
qed

lemma broker_answers_itself_witness:
  "\<exists>ctx' r. broker_on_request_body future_ext future_px ''7'' weather_broker mcp_post (Some ''{}'') True =
     (ctx', Inr (Reject r)) \<and> rej_status r = 200"
proof -
  let ?run = "broker_on_request_body future_ext future_px ''7'' weather_broker mcp_post (Some ''{}'') True"
  have hook: "broker_on_request future_ext weather_broker mcp_post = Continue" by code_simp
  have status: "\<exists>r. snd ?run = Inr (Reject r) \<and> rej_status r \<notin> {202, 400}"
    by (rule exI [of _ "case snd ?run of Inr (Reject r) \<Rightarrow> r | _ \<Rightarrow> undefined"]) code_simp
  then show ?thesis
    using broker_answers_itself [OF surjective_pairing hook,
        where px = future_px and generated = "''7''" and body = "Some ''{}''" and end_of_stream = True]
    by (cases "?run") (auto simp: broker_answer_def)
qed

end
