(* ===== verification/Model_Rewrite.thy ===== *)
theory Model_Rewrite
  imports Responses_Format Ip_Addr
begin

text \<open>
  The filter \<open>openai_responses_model_rewrite\<close> (\<open>apis/src/openai/responses/model_rewrite/mod.rs\<close>,
  \<open>config.rs\<close>): it replaces the model of a request by its alias, or fills in a default one.
\<close>

section \<open>Configuration\<close>

datatype mr_on_invalid = Mr_continue | Mr_reject

record model_rewrite_headers =
  mh_effective_model :: "str option"
  mh_original_model :: "str option"

definition default_model_rewrite_headers :: model_rewrite_headers where
  "default_model_rewrite_headers =
     \<lparr>mh_effective_model = Some ''x-praxis-ai-effective-model'', mh_original_model = Some ''x-praxis-ai-original-model''\<rparr>"

text \<open>A \<open>HashMap\<close> is the list of its entries in the order of an iteration, with distinct keys.\<close>

record model_rewrite_config =
  mr_default_model :: "str option"
  mr_headers :: model_rewrite_headers
  mr_max_body_bytes :: nat
  mr_model_aliases :: "(str \<times> str) list"
  mr_on_invalid_of :: mr_on_invalid

abbreviation mr_err :: "str \<Rightarrow> filter_error" where
  "mr_err msg \<equiv> ''openai_responses_model_rewrite: '' @ msg"

definition mr_check_alias :: "str \<times> str \<Rightarrow> unit \<Rightarrow> filter_error + unit" where
  "mr_check_alias alias _ =
     (let (source, target) = alias
      in if source = [] then Inl (mr_err ''alias source name must not be empty'')
         else if length (filter (\<lambda>c. c = CHR ''*'') source) > 1 then
           Inl (mr_err (''alias source pattern '' @ quoted source @ '' must contain at most one '' @ quoted ''*''))
         else if target = [] then Inl (mr_err (''alias target for '' @ quoted source @ '' must not be empty''))
         else Inr ())"

definition mr_validate_aliases :: "(str \<times> str) list \<Rightarrow> filter_error + unit" where
  "mr_validate_aliases aliases = fold_result mr_check_alias aliases ()"

text \<open>\<open>header_name_ok\<close> tells whether \<open>http::HeaderName::from_bytes\<close> accepts a name.\<close>

definition mr_validate_header_name :: "(str \<Rightarrow> bool) \<Rightarrow> str \<Rightarrow> str option \<Rightarrow> filter_error + unit" where
  "mr_validate_header_name header_name_ok field name =
     (case name of
        None \<Rightarrow> Inr ()
      | Some n \<Rightarrow>
          if n = [] then Inl (mr_err (quoted field @ '' header name must not be empty''))
          else if \<not> header_name_ok n then Inl (mr_err (quoted field @ '' header name is not a valid HTTP header name''))
          else Inr ())"

definition mr_validate_config :: "praxis \<Rightarrow> (str \<Rightarrow> bool) \<Rightarrow> model_rewrite_config \<Rightarrow> filter_error + unit" where
  "mr_validate_config px header_name_ok cfg =
     (if mr_default_model cfg = None \<and> mr_model_aliases cfg = [] then
        Inl (mr_err (''at least one of '' @ quoted ''default_model'' @ '' or '' @ quoted ''model_aliases'' @
                     '' must be configured''))
      else if (case mr_default_model cfg of None \<Rightarrow> False | Some dm \<Rightarrow> str_trim dm = []) then
        Inl (mr_err (quoted ''default_model'' @ '' must not be empty''))
      else
        and_then (mr_validate_aliases (mr_model_aliases cfg)) (\<lambda>_.
        and_then (check_max_body_bytes px ''openai_responses_model_rewrite'' (mr_max_body_bytes cfg)) (\<lambda>_.
        and_then (mr_validate_header_name header_name_ok ''effective_model'' (mh_effective_model (mr_headers cfg))) (\<lambda>_.
          mr_validate_header_name header_name_ok ''original_model'' (mh_original_model (mr_headers cfg))))))"

section \<open>Aliases\<close>

definition pattern_matches :: "str \<Rightarrow> str \<Rightarrow> bool" where
  "pattern_matches pattern v =
     (case position (\<lambda>c. c = CHR ''*'') pattern of
        Some pos \<Rightarrow>
          (let prefix = take pos pattern; suffix = drop 1 (drop pos pattern)
           in starts_with v prefix \<and> ends_with v suffix \<and> length v \<ge> length prefix + length suffix)
      | None \<Rightarrow> pattern = v)"

definition u32_max :: nat where "u32_max = 2 ^ 32 - 1"

definition pattern_specificity :: "str \<Rightarrow> nat" where
  "pattern_specificity pattern =
     (if CHR ''*'' \<in> set pattern then
        (let literal_len = length pattern - 1 in if literal_len \<le> u32_max then literal_len else u32_max - 1)
      else u32_max)"

definition wildcard_for :: "str \<Rightarrow> str \<Rightarrow> bool" where
  "wildcard_for model pattern \<longleftrightarrow> CHR ''*'' \<in> set pattern \<and> pattern_matches pattern model"

text \<open>One turn of the loop over the aliases.\<close>

definition better_alias ::
  "str \<Rightarrow> str \<times> str \<Rightarrow> (str \<times> str \<times> nat) option \<Rightarrow> (str \<times> str \<times> nat) option" where
  "better_alias model alias best =
     (let (pattern, target) = alias
      in if \<not> wildcard_for model pattern then best
         else
           (let specificity = pattern_specificity pattern;
                should_replace = (case best of
                    None \<Rightarrow> True
                  | Some (best_pattern, _, best_specificity) \<Rightarrow>
                      specificity > best_specificity \<or> (specificity = best_specificity \<and> str_lt pattern best_pattern))
            in if should_replace then Some (pattern, target, specificity) else best))"

definition resolve_alias :: "(str \<times> str) list \<Rightarrow> str \<Rightarrow> str option" where
  "resolve_alias aliases model =
     (case map_of aliases model of
        Some target \<Rightarrow> Some target
      | None \<Rightarrow> map_option (\<lambda>(_, target, _). target) (fold (better_alias model) aliases None))"

section \<open>Rewriting\<close>

record rewrite_result =
  default_injected :: bool
  effective_model :: str
  mutated :: bool
  original_model :: "str option"
  rewritten :: bool

definition noop_result :: rewrite_result where
  "noop_result =
     \<lparr>default_injected = False, effective_model = [], mutated = False, original_model = None, rewritten = False\<rparr>"

definition apply_alias :: "(str \<times> str) list \<Rightarrow> str \<Rightarrow> jmap \<Rightarrow> jmap \<times> rewrite_result" where
  "apply_alias aliases model obj =
     (case resolve_alias aliases model of
        Some target \<Rightarrow>
          (obj_insert ''model'' (JString target) obj,
           \<lparr>default_injected = False, effective_model = target, mutated = True, original_model = Some model,
            rewritten = True\<rparr>)
      | None \<Rightarrow>
          (obj,
           \<lparr>default_injected = False, effective_model = model, mutated = False, original_model = Some model,
            rewritten = False\<rparr>))"

definition apply_default :: "str option \<Rightarrow> jmap \<Rightarrow> jmap \<times> rewrite_result" where
  "apply_default default_model obj =
     (case default_model of
        Some dm \<Rightarrow>
          (obj_insert ''model'' (JString dm) obj,
           \<lparr>default_injected = True, effective_model = dm, mutated = True, original_model = None, rewritten = False\<rparr>)
      | None \<Rightarrow>
          (obj,
           \<lparr>default_injected = False, effective_model = [], mutated = False, original_model = None,
            rewritten = False\<rparr>))"

definition apply_rewrite :: "(str \<times> str) list \<Rightarrow> str option \<Rightarrow> jmap \<Rightarrow> jmap \<times> rewrite_result" where
  "apply_rewrite aliases default_model obj =
     (case map_of obj ''model'' of
        Some (JString model) \<Rightarrow> apply_alias aliases model obj
      | Some JNull \<Rightarrow> apply_default default_model obj
      | None \<Rightarrow> apply_default default_model obj
      | Some _ \<Rightarrow> (obj, noop_result))"

section \<open>Promotion\<close>

definition MR_MAX_PROMOTED_VALUE_LEN :: nat where "MR_MAX_PROMOTED_VALUE_LEN = 256"

definition promotable :: "praxis \<Rightarrow> str \<Rightarrow> bool" where
  "promotable px v \<longleftrightarrow> is_safe_promoted_value px v \<and> length v \<le> MR_MAX_PROMOTED_VALUE_LEN"

definition promotable_effective :: "praxis \<Rightarrow> rewrite_result \<Rightarrow> bool" where
  "promotable_effective px result \<longleftrightarrow> effective_model result \<noteq> [] \<and> promotable px (effective_model result)"

definition mr_write_metadata :: "praxis \<Rightarrow> rewrite_result \<Rightarrow> filter_ctx \<Rightarrow> filter_ctx" where
  "mr_write_metadata px result ctx =
     apply_if (default_injected result) (set_metadata ''openai_responses_model_rewrite.default_injected'' ''true'')
    (apply_if (rewritten result) (set_metadata ''openai_responses_model_rewrite.rewritten'' ''true'')
    (apply_if (promotable_effective px result)
       (set_metadata ''openai_responses_model_rewrite.effective_model'' (effective_model result))
    (when_some (original_model result)
       (\<lambda>orig. apply_if (promotable px orig) (set_metadata ''openai_responses_model_rewrite.original_model'' orig)) ctx)))"

definition mr_promote_headers :: "praxis \<Rightarrow> model_rewrite_headers \<Rightarrow> rewrite_result \<Rightarrow> filter_ctx \<Rightarrow> filter_ctx" where
  "mr_promote_headers px headers result ctx =
     when_some (mh_original_model headers)
       (\<lambda>header. when_some (original_model result) (\<lambda>orig. apply_if (promotable px orig) (push_header header orig)))
    (when_some (mh_effective_model headers)
       (\<lambda>header. apply_if (promotable_effective px result) (push_header header (effective_model result))) ctx)"

text \<open>A result that cannot be set is only logged.\<close>

definition mr_set_result :: "praxis \<Rightarrow> str \<Rightarrow> str \<Rightarrow> filter_ctx \<Rightarrow> filter_ctx" where
  "mr_set_result px key v ctx = fst (set_result px ''openai_responses_model_rewrite'' key v ctx)"

definition set_filter_results_from_result :: "praxis \<Rightarrow> rewrite_result \<Rightarrow> filter_ctx \<Rightarrow> filter_ctx" where
  "set_filter_results_from_result px result ctx =
     apply_if (default_injected result) (mr_set_result px ''default_injected'' ''true'')
    (apply_if (rewritten result) (mr_set_result px ''rewritten'' ''true'')
    (apply_if (promotable_effective px result) (mr_set_result px ''effective_model'' (effective_model result))
    (results_entry ''openai_responses_model_rewrite'' ctx)))"

definition promote_facts :: "praxis \<Rightarrow> model_rewrite_headers \<Rightarrow> rewrite_result \<Rightarrow> filter_ctx \<Rightarrow> filter_ctx" where
  "promote_facts px headers result ctx =
     set_filter_results_from_result px result (mr_promote_headers px headers result (mr_write_metadata px result ctx))"

definition repopulate_filter_results :: "praxis \<Rightarrow> filter_ctx \<Rightarrow> filter_ctx" where
  "repopulate_filter_results px ctx =
     (let effective = get_metadata ctx ''openai_responses_model_rewrite.effective_model'';
          was_rewritten = get_metadata ctx ''openai_responses_model_rewrite.rewritten'' = Some ''true'';
          was_injected = get_metadata ctx ''openai_responses_model_rewrite.default_injected'' = Some ''true''
      in if effective = None \<and> \<not> was_rewritten \<and> \<not> was_injected then ctx
         else
           apply_if was_injected (mr_set_result px ''default_injected'' ''true'')
          (apply_if was_rewritten (mr_set_result px ''rewritten'' ''true'')
          (when_some effective (mr_set_result px ''effective_model'')
          (results_entry ''openai_responses_model_rewrite'' ctx))))"

section \<open>The hooks\<close>

definition mr_invalid_body_action :: "externals \<Rightarrow> mr_on_invalid \<Rightarrow> bool \<Rightarrow> filter_action" where
  "mr_invalid_body_action ext behavior streaming =
     (case behavior of
        Mr_continue \<Rightarrow> Continue
      | Mr_reject \<Rightarrow>
          Reject (responses_error_rejection ext 400 ''invalid_request_error'' ''invalid JSON body'' streaming))"

definition serialize_and_update ::
  "externals \<Rightarrow> json \<Rightarrow> filter_ctx \<Rightarrow> bytes option \<Rightarrow> filter_ctx \<times> bytes option \<times> (filter_error + filter_action)" where
  "serialize_and_update ext v ctx body =
     (case to_text ext v of
        Inl e \<Rightarrow> (ctx, body, Inl (mr_err (''failed to re-serialize rewritten request body: '' @ e)))
      | Inr serialized \<Rightarrow>
          (push_header ''content-length'' (show_nat (length serialized)) ctx, Some serialized, Inr Continue))"

definition rewrite_body ::
  "externals \<Rightarrow> praxis \<Rightarrow> model_rewrite_config \<Rightarrow> filter_ctx \<Rightarrow> bytes option
     \<Rightarrow> filter_ctx \<times> bytes option \<times> (filter_error + filter_action)" where
  "rewrite_body ext px cfg ctx body =
     (case body of
        None \<Rightarrow> (ctx, body, Inr Continue)
      | Some raw \<Rightarrow>
          (let streaming = get_metadata ctx ''openai_responses_format.stream'' = Some ''true'';
               invalid = (ctx, body, Inr (mr_invalid_body_action ext (mr_on_invalid_of cfg) streaming))
           in case from_slice ext raw of
                Inl _ \<Rightarrow> invalid
              | Inr v \<Rightarrow>
                  (case as_object v of
                     None \<Rightarrow> invalid
                   | Some obj \<Rightarrow>
                       (let (obj', result) = apply_rewrite (mr_model_aliases cfg) (mr_default_model cfg) obj;
                            ctx1 = promote_facts px (mr_headers cfg) result ctx
                        in if \<not> mutated result then (ctx1, body, Inr Continue)
                           else serialize_and_update ext (JObject obj') ctx1 body))))"

definition mr_on_request :: "praxis \<Rightarrow> filter_ctx \<Rightarrow> filter_ctx \<times> filter_action" where
  "mr_on_request px ctx = (repopulate_filter_results px ctx, Continue)"

definition mr_on_request_body ::
  "externals \<Rightarrow> praxis \<Rightarrow> model_rewrite_config \<Rightarrow> filter_ctx \<Rightarrow> bytes option \<Rightarrow> bool
     \<Rightarrow> filter_ctx \<times> bytes option \<times> (filter_error + filter_action)" where
  "mr_on_request_body ext px cfg ctx body end_of_stream =
     (if \<not> end_of_stream \<or> \<not> is_responses_create (req_method ctx) (req_path ctx) then (ctx, body, Inr Continue)
      else rewrite_body ext px cfg ctx body)"

section \<open>What a pattern matches\<close>

text \<open>The reference: some text stands for the star.\<close>

definition glob_matches :: "str \<Rightarrow> str \<Rightarrow> bool" where
  "glob_matches pattern v \<longleftrightarrow>
     (\<exists>prefix suffix middle. pattern = prefix @ CHR ''*'' # suffix \<and> CHR ''*'' \<notin> set prefix \<and>
        v = prefix @ middle @ suffix)"

lemma starts_with_iff: "starts_with s p \<longleftrightarrow> (\<exists>r. s = p @ r)"
  by (auto simp: starts_with_def strip_prefix_Some_iff)

lemma ends_with_suffix: "ends_with s p \<longleftrightarrow> (\<exists>r. s = r @ p)"
  by (auto simp: ends_with_def strip_suffix_Some_iff)

lemma overlap_split:
  "starts_with v p \<and> ends_with v q \<and> length p + length q \<le> length v \<longleftrightarrow> (\<exists>m. v = p @ m @ q)"
proof
  assume "starts_with v p \<and> ends_with v q \<and> length p + length q \<le> length v"
  then obtain r r' where v: "v = p @ r" "v = r' @ q" and "length p + length q \<le> length v"
    unfolding starts_with_iff ends_with_suffix by blast
  from this(3) have "length p \<le> length r'" unfolding v(2) by simp
  moreover from v have "p @ r = r' @ q" by simp
  ultimately have "r' = p @ drop (length p) r'"
    by (metis append_eq_append_conv_if append_take_drop_id)
  with v show "\<exists>m. v = p @ m @ q" by (metis append_assoc)
qed (auto simp: starts_with_iff ends_with_suffix)

lemma wildcard_for_glob: "wildcard_for model pattern \<longleftrightarrow> glob_matches pattern model"
proof (cases "position (\<lambda>c. c = CHR ''*'') pattern")
  case None
  then have "CHR ''*'' \<notin> set pattern" by (auto simp: position_None_iff)
  then show ?thesis by (auto simp: wildcard_for_def glob_matches_def)
next
  case (Some pos)
  then have pos: "pos < length pattern" "pattern ! pos = CHR ''*''" "\<forall>j < pos. pattern ! j \<noteq> CHR ''*''"
    by (auto simp: position_Some_iff)
  define pre suf where "pre = take pos pattern" and "suf = drop (Suc pos) pattern"
  have split: "pattern = pre @ CHR ''*'' # suf"
    using pos id_take_nth_drop [of pos pattern] by (simp add: pre_def suf_def)
  have clean: "CHR ''*'' \<notin> set pre" using pos by (auto simp: pre_def in_set_conv_nth)
  have stop: "takeWhile (\<lambda>c. c \<noteq> CHR ''*'') (p @ CHR ''*'' # q) = p" if "CHR ''*'' \<notin> set p" for p q
    using that by (induction p) auto
  have uniq: "p = pre \<and> q = suf" if "pattern = p @ CHR ''*'' # q" "CHR ''*'' \<notin> set p" for p q
    using stop [OF that(2), of q] stop [OF clean, of suf] that(1) split by auto
  have star: "CHR ''*'' \<in> set pattern" using split by simp
  have "wildcard_for model pattern \<longleftrightarrow>
      starts_with model pre \<and> ends_with model suf \<and> length pre + length suf \<le> length model"
    using Some pos star by (auto simp: wildcard_for_def pattern_matches_def pre_def suf_def Let_def)
  also have "\<dots> \<longleftrightarrow> (\<exists>m. model = pre @ m @ suf)"
    by (rule overlap_split)
  also have "\<dots> \<longleftrightarrow> glob_matches pattern model"
    unfolding glob_matches_def using split clean uniq by blast
  finally show ?thesis .
qed

section \<open>The most specific alias\<close>

text \<open>The order of the wildcard patterns: more literal characters, then first in byte order.\<close>

definition beats :: "str \<Rightarrow> str \<Rightarrow> bool" where
  "beats p q \<longleftrightarrow>
     pattern_specificity p > pattern_specificity q \<or>
     (pattern_specificity p = pattern_specificity q \<and> str_lt p q)"

lemma beats_trans: "beats p q \<Longrightarrow> beats q r \<Longrightarrow> beats p r"
  by (auto simp: beats_def dest: str_lt_trans)

lemma beats_linear: "p = q \<or> beats p q \<or> beats q p"
  using str_lt_linear [of p q] by (auto simp: beats_def)

lemma beats_irrefl: "\<not> beats p p"
  by (simp add: beats_def)

text \<open>An entry that matches and beats all others that do.\<close>

definition best_alias :: "(str \<times> str) set \<Rightarrow> str \<Rightarrow> str \<Rightarrow> str \<Rightarrow> bool" where
  "best_alias entries model p t \<longleftrightarrow>
     (p, t) \<in> entries \<and> glob_matches p model \<and>
     (\<forall>(q, _) \<in> entries. glob_matches q model \<longrightarrow> q = p \<or> beats p q)"

lemma best_alias_insert:
  assumes "best = None \<Longrightarrow> \<forall>(q, _) \<in> E. \<not> glob_matches q model"
    and "\<And>p t s. best = Some (p, t, s) \<Longrightarrow> best_alias E model p t \<and> s = pattern_specificity p"
    and "better_alias model (p', t') best = best'"
  shows "best' = None \<Longrightarrow> \<forall>(q, _) \<in> insert (p', t') E. \<not> glob_matches q model"
    and "best' = Some (p, t, s) \<Longrightarrow> best_alias (insert (p', t') E) model p t \<and> s = pattern_specificity p"
proof -
  show "\<forall>(q, _) \<in> insert (p', t') E. \<not> glob_matches q model" if "best' = None"
    using that assms by (auto simp: better_alias_def wildcard_for_glob Let_def split: if_splits option.splits)
next
  assume b': "best' = Some (p, t, s)"
  show "best_alias (insert (p', t') E) model p t \<and> s = pattern_specificity p"
  proof (cases "glob_matches p' model")
    case False
    with b' assms show ?thesis by (auto simp: better_alias_def wildcard_for_glob best_alias_def)
  next
    case True
    show ?thesis
    proof (cases best)
      case None
      with True b' assms show ?thesis
        by (auto simp: better_alias_def wildcard_for_glob best_alias_def Let_def)
    next
      case (Some b)
      obtain p0 t0 s0 where b: "b = (p0, t0, s0)" by (cases b)
      with assms(2) Some have old: "best_alias E model p0 t0" "s0 = pattern_specificity p0" by auto
      show ?thesis
      proof (cases "beats p' p0")
        case True
        with b Some old b' \<open>glob_matches p' model\<close> assms(3) have new: "p = p'" "t = t'" "s = pattern_specificity p'"
          by (auto simp: better_alias_def wildcard_for_glob Let_def beats_def)
        have "q = p' \<or> beats p' q" if "(q, u) \<in> insert (p', t') E" "glob_matches q model" for q u
          using that old(1) True by (auto simp: best_alias_def dest: beats_trans)
        with new \<open>glob_matches p' model\<close> show ?thesis by (auto simp: best_alias_def)
      next
        case False
        with b Some old b' \<open>glob_matches p' model\<close> assms(3) have "p = p0" "t = t0" "s = s0"
          by (auto simp: better_alias_def wildcard_for_glob Let_def beats_def)
        with old False beats_linear [of p' p0] show ?thesis by (auto simp: best_alias_def)
      qed
    qed
  qed
qed

lemma fold_better_alias_cases:
  "case fold (better_alias model) aliases None of
     None \<Rightarrow> \<forall>(q, _) \<in> set aliases. \<not> glob_matches q model
   | Some (p, t, s) \<Rightarrow> best_alias (set aliases) model p t \<and> s = pattern_specificity p"
proof (induction aliases rule: rev_induct)
  case (snoc entry aliases)
  obtain p' t' where a: "entry = (p', t')" by (cases entry)
  let ?best = "fold (better_alias model) aliases None"
  have 1: "?best = None \<Longrightarrow> \<forall>(q, _) \<in> set aliases. \<not> glob_matches q model"
    and 2: "?best = Some (p, t, s) \<Longrightarrow> best_alias (set aliases) model p t \<and> s = pattern_specificity p" for p t s
    using snoc.IH by auto
  note ins = best_alias_insert [OF 1 2 refl, where p' = p' and t' = t']
  show ?case
  proof (cases "better_alias model (p', t') ?best")
    case None
    with ins(1) show ?thesis by (simp add: a)
  next
    case (Some b)
    with ins(2) show ?thesis by (cases b) (simp add: a)
  qed
qed simp

lemma fold_better_alias:
  "fold (better_alias model) aliases None = None \<Longrightarrow> \<forall>(q, _) \<in> set aliases. \<not> glob_matches q model"
  "fold (better_alias model) aliases None = Some (p, t, s) \<Longrightarrow>
     best_alias (set aliases) model p t \<and> s = pattern_specificity p"
  using fold_better_alias_cases [where model = model and aliases = aliases] by simp_all

lemma resolve_alias_iff:
  assumes "distinct (map fst aliases)"
  shows "resolve_alias aliases model = Some target \<longleftrightarrow>
    (model, target) \<in> set aliases \<or>
    model \<notin> fst ` set aliases \<and> (\<exists>p. best_alias (set aliases) model p target)"
proof (cases "map_of aliases model")
  case (Some t)
  then have here: "(model, t) \<in> set aliases" by (rule map_of_SomeD)
  then have "(model, target) \<in> set aliases \<longleftrightarrow> target = t" using assms by (auto dest: eq_key_imp_eq_value)
  moreover have "model \<in> fst ` set aliases" using here by force
  ultimately show ?thesis using Some by (auto simp: resolve_alias_def)
next
  case None
  then have new: "model \<notin> fst ` set aliases" by (simp add: map_of_eq_None_iff)
  then have no: "(model, target) \<notin> set aliases" by force
  have uniq: "p = q \<and> t = u" if "best_alias (set aliases) model p t" "best_alias (set aliases) model q u" for p q t u
  proof -
    from that have "p = q \<or> beats p q" "q = p \<or> beats q p" by (auto simp: best_alias_def)
    then have "p = q" using beats_trans beats_irrefl by blast
    with that assms show ?thesis by (auto simp: best_alias_def dest: eq_key_imp_eq_value)
  qed
  show ?thesis
  proof (cases "fold (better_alias model) aliases None")
    case None
    with fold_better_alias(1) [OF None] \<open>map_of aliases model = None\<close> no show ?thesis
      by (auto simp: resolve_alias_def best_alias_def)
  next
    case (Some b)
    then obtain p t s where b: "fold (better_alias model) aliases None = Some (p, t, s)" by (cases b) auto
    from fold_better_alias(2) [OF b] uniq \<open>map_of aliases model = None\<close> no new b show ?thesis
      by (auto simp: resolve_alias_def)
  qed
qed

text \<open>
  C29. An alias is resolved the same way whatever the order of the map: the entry of the very name
  of the model wins; without one, among the wildcard patterns that stand for the model, the one
  with the most literal characters, and of those the first in byte order. So two maps with the
  same entries rewrite every model alike.
\<close>

theorem alias_most_specific:
  assumes "distinct (map fst aliases)" and "distinct (map fst aliases')" and "set aliases' = set aliases"
  shows "resolve_alias aliases' model = resolve_alias aliases model \<and>
    (resolve_alias aliases model = Some target \<longleftrightarrow>
       (model, target) \<in> set aliases \<or>
       model \<notin> fst ` set aliases \<and> (\<exists>p. best_alias (set aliases) model p target))"
proof -
  have "resolve_alias aliases' model = Some t \<longleftrightarrow> resolve_alias aliases model = Some t" for t
    using resolve_alias_iff [OF assms(1)] resolve_alias_iff [OF assms(2)] assms(3) by simp
  then have "resolve_alias aliases' model = resolve_alias aliases model"
    by (cases "resolve_alias aliases model"; cases "resolve_alias aliases' model") auto
  with resolve_alias_iff [OF assms(1)] show ?thesis by simp
qed

lemma alias_most_specific_witness:
  "resolve_alias [(''gpt-4*'', ''b''), (''gpt-*'', ''a''), (''gpt-4o'', ''c'')] ''gpt-4.1'' = Some ''b'' \<and>
   resolve_alias [(''gpt-*'', ''a''), (''gpt-4o'', ''c''), (''gpt-4*'', ''b'')] ''gpt-4.1'' = Some ''b''"
proof -
  have "resolve_alias [(''gpt-4*'', ''b''), (''gpt-*'', ''a''), (''gpt-4o'', ''c'')] ''gpt-4.1'' = Some ''b''"
    by code_simp
  moreover have "distinct (map fst [(''gpt-4*'', ''b''), (''gpt-*'', ''a''), (''gpt-4o'', ''c'')])"
    "distinct (map fst [(''gpt-*'', ''a''), (''gpt-4o'', ''c''), (''gpt-4*'', ''b'')])"
    "set [(''gpt-*'', ''a''), (''gpt-4o'', ''c''), (''gpt-4*'', ''b'')] =
      set [(''gpt-4*'', ''b''), (''gpt-*'', ''a''), (''gpt-4o'', ''c'')]"
    by auto
  ultimately show ?thesis
    using alias_most_specific [where aliases = "[(''gpt-4*'', ''b''), (''gpt-*'', ''a''), (''gpt-4o'', ''c'')]"
        and aliases' = "[(''gpt-*'', ''a''), (''gpt-4o'', ''c''), (''gpt-4*'', ''b'')]" and model = "''gpt-4.1''"]
    by simp
qed

end
