(* ===== verification/Prompt_Enrich.thy ===== *)
theory Prompt_Enrich
  imports Praxis
begin

text \<open>
  The filter \<open>prompt_enrich\<close> (\<open>filters/src/prompt_enrich/mod.rs\<close>, \<open>config.rs\<close>): it puts configured
  messages before and after those of a chat request.
\<close>

section \<open>Configuration\<close>

datatype message_role = System_role | User_role

record message_config =
  msg_role :: message_role
  msg_content :: str

datatype invalid_body_behavior = Body_continue | Body_reject

record prompt_enrich_config =
  pe_max_body_bytes :: nat
  pe_on_invalid :: invalid_body_behavior
  pe_prepend :: "message_config list"
  pe_append :: "message_config list"

abbreviation pe_err :: "str \<Rightarrow> filter_error" where
  "pe_err msg \<equiv> ''prompt_enrich: '' @ msg"

definition check_prepended :: "message_config \<Rightarrow> unit \<Rightarrow> filter_error + unit" where
  "check_prepended msg _ =
     (if msg_content msg = [] then Inl (pe_err (''message '' @ quoted ''content'' @ '' must not be empty''))
      else if msg_role msg \<noteq> System_role then
        Inl (pe_err (quoted ''prepend'' @ '' messages must use role '' @ quoted ''system''))
      else Inr ())"

definition check_appended :: "message_config \<Rightarrow> unit \<Rightarrow> filter_error + unit" where
  "check_appended msg _ =
     (if msg_content msg = [] then Inl (pe_err (''message '' @ quoted ''content'' @ '' must not be empty'')) else Inr ())"

definition pe_validate_config :: "praxis \<Rightarrow> prompt_enrich_config \<Rightarrow> filter_error + unit" where
  "pe_validate_config px cfg =
     (if pe_prepend cfg = [] \<and> pe_append cfg = [] then
        Inl (pe_err (''at least one of '' @ quoted ''prepend'' @ '' or '' @ quoted ''append'' @ '' must be non-empty''))
      else
        and_then (check_max_body_bytes px ''prompt_enrich'' (pe_max_body_bytes cfg)) (\<lambda>_.
        and_then (fold_result check_prepended (pe_prepend cfg) ()) (\<lambda>_.
          fold_result check_appended (pe_append cfg) ())))"

definition message_to_value :: "message_config \<Rightarrow> json" where
  "message_to_value msg =
     jobj [(''role'', JString (case msg_role msg of System_role \<Rightarrow> ''system'' | User_role \<Rightarrow> ''user'')),
           (''content'', JString (msg_content msg))]"

record prompt_enrich =
  pf_append :: "json list"
  pf_max_body_bytes :: nat
  pf_on_invalid :: invalid_body_behavior
  pf_prepend :: "json list"

definition pe_from_config :: "praxis \<Rightarrow> prompt_enrich_config \<Rightarrow> filter_error + prompt_enrich" where
  "pe_from_config px cfg =
     and_then (pe_validate_config px cfg) (\<lambda>_. Inr
       \<lparr>pf_append = map message_to_value (pe_append cfg), pf_max_body_bytes = pe_max_body_bytes cfg,
        pf_on_invalid = pe_on_invalid cfg, pf_prepend = map message_to_value (pe_prepend cfg)\<rparr>)"

section \<open>The handler\<close>

definition pe_invalid_body_action :: "invalid_body_behavior \<Rightarrow> str \<Rightarrow> filter_action" where
  "pe_invalid_body_action behavior message =
     (case behavior of
        Body_continue \<Rightarrow> Continue
      | Body_reject \<Rightarrow> Reject \<lparr>rej_status = 400, rej_headers = [(''content-type'', ''text/plain'')], rej_body = message\<rparr>)"

definition pe_on_request_body ::
  "externals \<Rightarrow> prompt_enrich \<Rightarrow> filter_ctx \<Rightarrow> bytes option \<Rightarrow> bool
    \<Rightarrow> filter_ctx \<times> bytes option \<times> (filter_error + filter_action)" where
  "pe_on_request_body ext pf ctx body end_of_stream =
     (if \<not> end_of_stream then (ctx, body, Inr Continue)
      else
        (case body of
           None \<Rightarrow> (ctx, body, Inr Continue)
         | Some raw \<Rightarrow>
             (case from_slice ext raw of
                Inl _ \<Rightarrow> (ctx, body, Inr (pe_invalid_body_action (pf_on_invalid pf) ''invalid JSON body''))
              | Inr v \<Rightarrow>
                  (case (as_object v, get_array v ''messages'') of
                     (Some obj, Some messages) \<Rightarrow>
                       (let v' = JObject (obj_insert ''messages''
                              (JArray (pf_prepend pf @ messages @ pf_append pf)) obj)
                        in case to_text ext v' of
                             Inl e \<Rightarrow> (ctx, body, Inl (pe_err e))
                           | Inr serialized \<Rightarrow>
                               (push_header ''content-length'' (show_nat (length serialized)) ctx, Some serialized,
                                Inr Continue))
                   | _ \<Rightarrow> (ctx, body,
                        Inr (pe_invalid_body_action (pf_on_invalid pf) ''missing or invalid messages array''))))))"

section \<open>Enriched requests\<close>

definition is_system :: "json \<Rightarrow> bool" where
  "is_system m \<longleftrightarrow> get_str m ''role'' = Some ''system''"

lemma message_role [simp]: "is_system (message_to_value msg) \<longleftrightarrow> msg_role msg = System_role"
  by (simp add: is_system_def message_to_value_def get_str_def jget_jobj split: message_role.split)

lemma checks_pass:
  fixes f :: "'x \<Rightarrow> unit \<Rightarrow> 'e + unit"
  shows "fold_result f xs () = Inr u \<longleftrightarrow> (\<forall>x \<in> set xs. f x () = Inr ())"
  by (induction xs) (auto simp: and_then_Inr_iff)

text \<open>
  A value with the configured messages around those of another: the prefix consists of system messages only, the other
  fields are the same.
\<close>

definition enriched :: "prompt_enrich_config \<Rightarrow> json list \<Rightarrow> json \<Rightarrow> json \<Rightarrow> bool" where
  "enriched cfg messages v v' \<longleftrightarrow>
     (\<exists>prefix suffix. get_array v' ''messages'' = Some (prefix @ messages @ suffix) \<and>
        prefix = map message_to_value (pe_prepend cfg) \<and> suffix = map message_to_value (pe_append cfg) \<and>
        list_all is_system prefix \<and> prefix @ suffix \<noteq> []) \<and>
     (\<forall>k. k \<noteq> ''messages'' \<longrightarrow> jget v' k = jget v k)"

text \<open>What becomes of a body without a list of messages: it goes on or is answered with status 400.\<close>

definition turned_down :: "prompt_enrich_config \<Rightarrow> filter_action \<Rightarrow> bool" where
  "turned_down cfg action \<longleftrightarrow>
     (if pe_on_invalid cfg = Body_continue then action = Continue else \<exists>r. action = Reject r \<and> rej_status r = 400)"

text \<open>
  C28. An enriched request is the client's request with the configured messages around its own: when the filter
  was configured and a complete body is a JSON object with a list of messages, the new body is the text of a value
  whose list is the configured
  prefix, which are system messages only, the messages of the client in order, and the configured
  suffix; every other field is kept and the length announced is that of the new body. A body
  that is not valid JSON or has no list of messages goes on or is answered with status 400, as configured, and in both
  cases, as when the new value cannot be written or the body is missing or incomplete, body and context are left as they
  were.
\<close>

theorem enriched_messages:
  assumes "pe_from_config px cfg = Inr pf"
    and "pe_on_request_body ext pf ctx body end_of_stream = (ctx', body', res)"
  shows "case (end_of_stream, body) of
      (True, Some raw) \<Rightarrow>
        (case from_slice ext raw of
           Inl _ \<Rightarrow> ctx' = ctx \<and> body' = Some raw \<and> (\<exists>action. res = Inr action \<and> turned_down cfg action)
         | Inr v \<Rightarrow>
             (case get_array v ''messages'' of
                None \<Rightarrow> ctx' = ctx \<and> body' = Some raw \<and> (\<exists>action. res = Inr action \<and> turned_down cfg action)
              | Some messages \<Rightarrow> \<exists>v'. enriched cfg messages v v' \<and>
                  (case to_text ext v' of
                     Inl _ \<Rightarrow> ctx' = ctx \<and> body' = Some raw \<and> isl res
                   | Inr t \<Rightarrow> body' = Some t \<and> res = Inr Continue \<and> ctx' = ctx\<lparr>extra_request_headers :=
                       extra_request_headers ctx @ [(''content-length'', show_nat (length t))]\<rparr>)))
    | _ \<Rightarrow> ctx' = ctx \<and> body' = body \<and> res = Inr Continue"
proof (cases "end_of_stream \<and> body \<noteq> None")
  case False
  with assms(2) show ?thesis by (auto simp: pe_on_request_body_def split: bool.splits option.splits)
next
  case True
  then obtain raw where body: "body = Some raw" "end_of_stream" by auto
  from assms(1) have checked: "\<forall>msg \<in> set (pe_prepend cfg). check_prepended msg () = Inr ()"
      "pe_prepend cfg \<noteq> [] \<or> pe_append cfg \<noteq> []"
    and parts: "pf_prepend pf = map message_to_value (pe_prepend cfg)" "pf_append pf = map message_to_value (pe_append cfg)"
      "pf_on_invalid pf = pe_on_invalid cfg"
    by (auto simp: pe_from_config_def pe_validate_config_def and_then_Inr_iff checks_pass split: if_splits)
  then have system: "list_all is_system (pf_prepend pf)"
    by (auto simp: list_all_iff check_prepended_def split: if_splits)
  have down: "turned_down cfg (pe_invalid_body_action (pf_on_invalid pf) message)" for message
    by (simp add: turned_down_def parts pe_invalid_body_action_def split: invalid_body_behavior.split)
  from assms(2) body have run: "pe_on_request_body ext pf ctx (Some raw) True = (ctx', body', res)" by simp
  show ?thesis
  proof (cases "from_slice ext raw")
    case (Inl e)
    with run down show ?thesis by (auto simp: pe_on_request_body_def body)
  next
    case v: (Inr v)
    show ?thesis
    proof (cases "get_array v ''messages''")
      case None
      with run v down show ?thesis by (auto simp: pe_on_request_body_def body split: option.splits)
    next
      case (Some messages)
      then obtain obj where o: "v = JObject obj" by (cases v) (auto simp: get_array_def)
      let ?new = "JObject (obj_insert ''messages'' (JArray (pf_prepend pf @ messages @ pf_append pf)) obj)"
      have "enriched cfg messages v ?new"
        using system checked(2) by (auto simp: enriched_def parts o get_array_def map_of_obj_insert)
      moreover have "case to_text ext ?new of
          Inl _ \<Rightarrow> ctx' = ctx \<and> body' = Some raw \<and> isl res
        | Inr t \<Rightarrow> body' = Some t \<and> res = Inr Continue \<and> ctx' = ctx\<lparr>extra_request_headers :=
            extra_request_headers ctx @ [(''content-length'', show_nat (length t))]\<rparr>"
        using run v Some o by (auto simp: pe_on_request_body_def push_header_def split: sum.splits)
      ultimately show ?thesis using v Some by (auto simp: body)
    qed
  qed
qed

text \<open>A request with one message, and the same request with a system message before it.\<close>

definition user_message :: json where
  "user_message = jobj [(''role'', JString ''user''), (''content'', JString ''hi'')]"

definition guide_config :: prompt_enrich_config where
  "guide_config =
     \<lparr>pe_max_body_bytes = 1024, pe_on_invalid = Body_reject, pe_prepend = [\<lparr>msg_role = System_role, msg_content = ''be brief''\<rparr>],
      pe_append = []\<rparr>"

definition plain_request :: json where
  "plain_request = jobj [(''messages'', JArray [user_message]), (''model'', JString ''m'')]"

definition guided_request :: json where
  "guided_request = jobj
     [(''messages'', JArray (map message_to_value (pe_prepend guide_config) @ [user_message])), (''model'', JString ''m'')]"

definition guide_ext :: externals where
  "guide_ext = null_ext
     \<lparr>to_text := (\<lambda>v. if v = guided_request then Inr ''guided'' else Inl []),
      from_slice := (\<lambda>t. if t = ''plain'' then Inr plain_request else Inl [])\<rparr>"

lemma enriched_messages_witness:
  "\<exists>ctx' pf. pe_from_config open_px guide_config = Inr pf \<and>
     pe_on_request_body guide_ext pf empty_ctx (Some ''plain'') True = (ctx', Some ''guided'', Inr Continue) \<and>
     extra_request_headers ctx' = [(''content-length'', ''6'')]"
proof -
  let ?pf = "\<lparr>pf_append = [], pf_max_body_bytes = 1024, pf_on_invalid = Body_reject,
    pf_prepend = map message_to_value (pe_prepend guide_config)\<rparr>"
  have cfg: "pe_from_config open_px guide_config = Inr ?pf" by code_simp
  let ?run = "pe_on_request_body guide_ext ?pf empty_ctx (Some ''plain'') True"
  have "snd ?run = (Some ''guided'', Inr Continue)" by code_simp
  then obtain ctx' where run: "?run = (ctx', Some ''guided'', Inr Continue)" by (cases ?run) auto
  have read: "from_slice guide_ext ''plain'' = Inr plain_request" by (simp add: guide_ext_def)
  have messages: "get_array plain_request ''messages'' = Some [user_message]" by code_simp
  from enriched_messages [OF cfg run] obtain v' where new: "case to_text guide_ext v' of
      Inl _ \<Rightarrow> ctx' = empty_ctx \<and> Some ''guided'' = Some ''plain'' \<and> isl (Inr Continue :: filter_error + filter_action)
    | Inr t \<Rightarrow> Some ''guided'' = Some t \<and> (Inr Continue :: filter_error + filter_action) = Inr Continue \<and>
        ctx' = empty_ctx\<lparr>extra_request_headers :=
          extra_request_headers empty_ctx @ [(''content-length'', show_nat (length t))]\<rparr>"
    by (simp only: read messages sum.case option.case prod.case bool.case) blast
  have "show_nat (length ''guided'') = ''6''" by code_simp
  with new have "extra_request_headers ctx' = [(''content-length'', ''6'')]"
    by (cases "to_text guide_ext v'") (auto simp: empty_ctx_def)
  with cfg run show ?thesis by blast
qed

end
