(* ===== verification/Token_Usage.thy ===== *)
theory Token_Usage
  imports Praxis
begin

text \<open>
  Token counts: their extraction from the responses of the providers (\<open>apis/src/token_usage/mod.rs\<close>,
  \<open>providers.rs\<close>), the metadata that holds them, and the filter that shows them as response headers
  (\<open>filters/src/token_usage_headers.rs\<close>).
\<close>

section \<open>Usage\<close>

definition u64_saturating_add :: "u64 \<Rightarrow> u64 \<Rightarrow> u64" where
  "u64_saturating_add a b = (if unat a + unat b < 2 ^ 64 then a + b else - 1)"

record token_usage =
  input_tokens :: u64
  output_tokens :: u64
  total_tokens :: u64

definition new_token_usage :: "u64 \<Rightarrow> u64 \<Rightarrow> u64 option \<Rightarrow> token_usage" where
  "new_token_usage input output total' =
     \<lparr>input_tokens = input, output_tokens = output, total_tokens = unwrap_or (u64_saturating_add input output) total'\<rparr>"

datatype token_usage_provider = OpenAi | Anthropic | Google | Bedrock | Azure

section \<open>Providers\<close>

text \<open>The usage objects of the providers. OpenAI, Google and the Converse API have the same three counts.\<close>

record counted_usage =
  u_input :: u64
  u_output :: u64
  u_total :: "u64 option"

record anthropic_usage =
  au_input :: u64
  au_output :: u64
  au_cache_creation :: "u64 option"
  au_cache_read :: "u64 option"

text \<open>
  The derived deserialisation of the response structs: no result for a body that cannot be read, and otherwise
  the usage object if there is one.
\<close>

record usage_readers =
  read_openai :: "bytes \<Rightarrow> counted_usage option option"
  read_anthropic :: "bytes \<Rightarrow> anthropic_usage option option"
  read_google :: "bytes \<Rightarrow> counted_usage option option"
  read_converse :: "bytes \<Rightarrow> counted_usage option option"

definition counted :: "counted_usage \<Rightarrow> token_usage" where
  "counted usage = new_token_usage (u_input usage) (u_output usage) (u_total usage)"

definition parse_openai :: "usage_readers \<Rightarrow> bytes \<Rightarrow> token_usage option" where
  "parse_openai rd body = Option.bind (read_openai rd body) (map_option counted)"

definition parse_anthropic :: "usage_readers \<Rightarrow> bytes \<Rightarrow> token_usage option" where
  "parse_anthropic rd body =
     Option.bind (read_anthropic rd body) (map_option (\<lambda>usage.
       let actual_input = u64_saturating_add
             (u64_saturating_add (au_input usage) (unwrap_or 0 (au_cache_creation usage)))
             (unwrap_or 0 (au_cache_read usage))
       in new_token_usage actual_input (au_output usage) None))"

definition parse_google :: "usage_readers \<Rightarrow> bytes \<Rightarrow> token_usage option" where
  "parse_google rd body = Option.bind (read_google rd body) (map_option counted)"

definition parse_bedrock :: "usage_readers \<Rightarrow> bytes \<Rightarrow> token_usage option" where
  "parse_bedrock rd body =
     (case read_converse rd body of
        Some (Some usage) \<Rightarrow> Some (counted usage)
      | _ \<Rightarrow> parse_anthropic rd body)"

definition extract_token_usage :: "usage_readers \<Rightarrow> token_usage_provider \<Rightarrow> bytes \<Rightarrow> token_usage option" where
  "extract_token_usage rd provider body =
     (case provider of
        OpenAi \<Rightarrow> parse_openai rd body
      | Azure \<Rightarrow> parse_openai rd body
      | Anthropic \<Rightarrow> parse_anthropic rd body
      | Google \<Rightarrow> parse_google rd body
      | Bedrock \<Rightarrow> parse_bedrock rd body)"

section \<open>Metadata and headers\<close>

definition set_token_usage :: "u64 \<Rightarrow> u64 \<Rightarrow> u64 option \<Rightarrow> filter_ctx \<Rightarrow> filter_ctx" where
  "set_token_usage input output total' ctx =
     (let t = unwrap_or (u64_saturating_add input output) total'
      in set_metadata ''token.total'' (show_nat (unat t))
        (set_metadata ''token.output'' (show_nat (unat output))
          (set_metadata ''token.input'' (show_nat (unat input)) ctx)))"

text \<open>\<open>header_value\<close> is \<open>HeaderValue::from_str\<close>.\<close>

definition insert_token_header :: "(str \<Rightarrow> bytes option) \<Rightarrow> str \<Rightarrow> str \<Rightarrow> (str \<rightharpoonup> bytes) \<Rightarrow> str \<rightharpoonup> bytes" where
  "insert_token_header header_value name v headers =
     (case header_value v of Some hv \<Rightarrow> headers(name \<mapsto> hv) | None \<Rightarrow> headers)"

definition inject_usage_headers :: "(str \<Rightarrow> bytes option) \<Rightarrow> filter_ctx \<Rightarrow> filter_ctx" where
  "inject_usage_headers header_value ctx =
     (case (get_metadata ctx ''token.input'', get_metadata ctx ''token.output'', get_metadata ctx ''token.total'') of
        (Some input, Some output, Some total') \<Rightarrow>
          (case response_header ctx of
             None \<Rightarrow> ctx
           | Some resp \<Rightarrow> ctx\<lparr>response_headers_modified := True,
               response_header := Some (resp\<lparr>resp_headers :=
                 insert_token_header header_value ''praxis-token-total'' total'
                  (insert_token_header header_value ''praxis-token-output'' output
                    (insert_token_header header_value ''praxis-token-input'' input (resp_headers resp)))\<rparr>)\<rparr>)
      | _ \<Rightarrow> ctx)"

definition token_headers_on_response :: "(str \<Rightarrow> bytes option) \<Rightarrow> filter_ctx \<Rightarrow> filter_ctx \<times> filter_action" where
  "token_headers_on_response header_value ctx = (inject_usage_headers header_value ctx, Continue)"

section \<open>Counts arrive as they were extracted\<close>

lemma unat_u64_max: "unat (- 1 :: u64) = 2 ^ 64 - 1"
  by (simp add: unsigned_minus_1_eq_mask mask_eq_exp_minus_1)

lemma unat_saturating_add: "unat (u64_saturating_add a b) = min (2 ^ 64 - 1) (unat a + unat b)"
proof (cases "unat a + unat b < 2 ^ 64")
  case True
  then have "unat (a + b) = unat a + unat b" by (simp add: unat_word_ariths)
  with True show ?thesis by (simp add: u64_saturating_add_def)
next
  case False
  then show ?thesis unfolding u64_saturating_add_def by (simp add: unat_u64_max)
qed

lemma saturating_add_max [simp]: "u64_saturating_add (- 1) b = - 1"
  by (rule word_unat_eq_iff [THEN iffD2]) (simp only: unat_saturating_add unat_u64_max min_def, simp)

lemma parse_u64: "parse_uint 64 (show_nat (unat (n :: u64))) = Some (unat n)"
  using unsigned_less [of n] by (intro parse_uint_show_nat) simp

text \<open>What a header of the response says, read as a number of 64 bits.\<close>

definition header_count :: "filter_ctx \<Rightarrow> str \<Rightarrow> nat option" where
  "header_count ctx name =
     Option.bind (response_header ctx) (\<lambda>r. Option.bind (resp_headers r name) (parse_uint 64))"

text \<open>What the responses of the providers report: the counts of input, of output and in total.\<close>

definition capped :: "nat \<Rightarrow> nat" where "capped n = min (2 ^ 64 - 1) n"

definition three_counts :: "counted_usage \<Rightarrow> nat \<times> nat \<times> nat" where
  "three_counts u =
     (unat (u_input u), unat (u_output u),
      case u_total u of Some t \<Rightarrow> unat t | None \<Rightarrow> capped (unat (u_input u) + unat (u_output u)))"

definition cached_counts :: "anthropic_usage \<Rightarrow> nat \<times> nat \<times> nat" where
  "cached_counts u =
     (let cached = (\<lambda>c. case c of Some n \<Rightarrow> unat n | None \<Rightarrow> 0);
          input = capped (unat (au_input u) + cached (au_cache_creation u) + cached (au_cache_read u))
      in (input, unat (au_output u), capped (input + unat (au_output u))))"

fun reported_counts :: "usage_readers \<Rightarrow> token_usage_provider \<Rightarrow> bytes \<Rightarrow> (nat \<times> nat \<times> nat) option" where
  "reported_counts rd OpenAi body = (case read_openai rd body of Some (Some u) \<Rightarrow> Some (three_counts u) | _ \<Rightarrow> None)"
| "reported_counts rd Azure body = (case read_openai rd body of Some (Some u) \<Rightarrow> Some (three_counts u) | _ \<Rightarrow> None)"
| "reported_counts rd Google body = (case read_google rd body of Some (Some u) \<Rightarrow> Some (three_counts u) | _ \<Rightarrow> None)"
| "reported_counts rd Anthropic body =
     (case read_anthropic rd body of Some (Some u) \<Rightarrow> Some (cached_counts u) | _ \<Rightarrow> None)"
| "reported_counts rd Bedrock body =
     (case read_converse rd body of
        Some (Some u) \<Rightarrow> Some (three_counts u)
      | _ \<Rightarrow> (case read_anthropic rd body of Some (Some u) \<Rightarrow> Some (cached_counts u) | _ \<Rightarrow> None))"

definition counts_of :: "token_usage \<Rightarrow> nat \<times> nat \<times> nat" where
  "counts_of usage = (unat (input_tokens usage), unat (output_tokens usage), unat (total_tokens usage))"

lemma counts_of_counted: "counts_of (counted u) = three_counts u"
  by (simp add: counts_of_def counted_def new_token_usage_def three_counts_def unat_saturating_add capped_def
      split: option.split)

lemma counts_of_anthropic:
  "map_option counts_of (parse_anthropic rd body) =
     (case read_anthropic rd body of Some (Some u) \<Rightarrow> Some (cached_counts u) | _ \<Rightarrow> None)"
proof -
  have "unat (unwrap_or 0 c) = (case c of Some n \<Rightarrow> unat n | None \<Rightarrow> 0)" for c :: "u64 option" by (cases c) simp_all
  moreover have "min m (min m a + b) = min m (a + b)" for m a b :: nat by (simp add: min_def)
  ultimately show ?thesis
    by (simp add: parse_anthropic_def counts_of_def new_token_usage_def cached_counts_def Let_def unat_saturating_add
        capped_def split: option.split)
qed

lemma extracted_counts:
  "map_option counts_of (extract_token_usage rd provider body) = reported_counts rd provider body"
  by (cases provider)
     (auto simp: extract_token_usage_def parse_openai_def parse_google_def parse_bedrock_def counts_of_counted
       counts_of_anthropic split: option.split)

text \<open>
  C27. Token counts are read and shown as they are. For every provider and every response body the usage extracted from
  it is what the body reports, none when it reports none: input, output, and a total that is the provider's
  own or else the sum, capped at \<open>u64::MAX\<close> instead of wrapping; for Anthropic the
  input is the capped sum of fresh and cached tokens, and Bedrock is read as Anthropic only without counts of its own.
  And whatever counts a caller records in the metadata, the response headers read back as these numbers up to
  \<open>u64::MAX\<close>, with the total recorded or else the capped sum, and no other header changes, given a response and that digits make a
  header value. The repository
  offers the extraction and the recording to other filters and has no filter of its own that joins them.
\<close>

theorem token_counts_arrive:
  assumes "\<And>n. header_value (show_nat n) = Some (show_nat n)"
    and "response_header ctx = Some resp"
    and "ctx' = fst (token_headers_on_response header_value (set_token_usage input output total' ctx))"
  shows "map_option counts_of (extract_token_usage rd provider body) = reported_counts rd provider body \<and>
    header_count ctx' ''praxis-token-input'' = Some (unat input) \<and>
    header_count ctx' ''praxis-token-output'' = Some (unat output) \<and>
    header_count ctx' ''praxis-token-total'' =
      Some (case total' of Some t \<Rightarrow> unat t | None \<Rightarrow> capped (unat input + unat output)) \<and>
    (\<forall>name. name \<notin> {''praxis-token-input'', ''praxis-token-output'', ''praxis-token-total''} \<longrightarrow>
       Option.bind (response_header ctx') (\<lambda>r. resp_headers r name) = resp_headers resp name)"
proof -
  have resp: "response_header (set_metadata k v c) = response_header c" for k v c
    by (simp add: set_metadata_def)
  have "ctx' = inject_usage_headers header_value (set_token_usage input output total' ctx)"
    using assms(3) by (simp add: token_headers_on_response_def)
  then have "response_header ctx' = Some (resp\<lparr>resp_headers := (resp_headers resp)
      (''praxis-token-input'' \<mapsto> show_nat (unat input),
       ''praxis-token-output'' \<mapsto> show_nat (unat output),
       ''praxis-token-total'' \<mapsto> show_nat (unat (unwrap_or (u64_saturating_add input output) total')))\<rparr>)"
    using assms(1,2)
    by (simp add: inject_usage_headers_def set_token_usage_def Let_def resp insert_token_header_def)
  then show ?thesis
    by (auto simp: header_count_def parse_u64 extracted_counts unat_saturating_add capped_def split: option.split)
qed

lemma token_counts_arrive_witness:
  "\<exists>ctx'. header_count ctx' ''praxis-token-input'' = Some (2 ^ 64 - 1) \<and>
     header_count ctx' ''praxis-token-total'' = Some (2 ^ 64 - 1)"
proof -
  let ?rd = "\<lparr>read_openai = (\<lambda>_. None),
      read_anthropic = (\<lambda>_. Some (Some \<lparr>au_input = - 1, au_output = 7, au_cache_creation = None, au_cache_read = Some 1\<rparr>)),
      read_google = (\<lambda>_. None), read_converse = (\<lambda>_. None)\<rparr>"
  from unat_u64_max token_counts_arrive [of Some "empty_ctx\<lparr>response_header := Some \<lparr>status = 200, resp_headers = Map.empty\<rparr>\<rparr>"
      _ _ "- 1" 7 None ?rd Bedrock "''{}''"]
  show ?thesis by (auto simp: capped_def)
qed

end
