(* ===== verification/Filter_Metadata.thy ===== *)
theory Filter_Metadata
  imports A2a_Capture Mcp_Broker Model_Rewrite Anthropic_Translation Anthropic_Body Messages_Format Responses_Pipeline Responses_Turns Prompt_Enrich Token_Usage Thin_Filters Conversation_Filter
begin

text \<open>
  The durable metadata of a request is the channel between the filters: each writes facts under keys of its own,
  others read them. The contract is that a filter leaves the keys of the others alone.
\<close>

text \<open>Keys of one name space belong together: the part of a key before its first dot.\<close>

definition namespace :: "str \<Rightarrow> str" where
  "namespace k = takeWhile (\<lambda>c. c \<noteq> CHR ''.'') k"

definition writes_only :: "(str \<Rightarrow> bool) \<Rightarrow> filter_ctx \<Rightarrow> filter_ctx \<Rightarrow> bool" where
  "writes_only owns ctx ctx' \<longleftrightarrow> (\<forall>k. \<not> owns k \<longrightarrow> get_metadata ctx' k = get_metadata ctx k)"

named_theorems writes_intros

lemma writes_refl [writes_intros]: "writes_only owns ctx ctx"
  by (simp add: writes_only_def)

lemma writes_trans: "writes_only owns a b \<Longrightarrow> writes_only owns b c \<Longrightarrow> writes_only owns a c"
  by (simp add: writes_only_def)

lemma writes_same: "writes_only owns a b \<Longrightarrow> (\<And>k. get_metadata c k = get_metadata b k) \<Longrightarrow> writes_only owns a c"
  by (simp add: writes_only_def)

lemma writes_fst: "writes_only owns c (fst p) \<Longrightarrow> p = (c', r) \<Longrightarrow> writes_only owns c c'"
  by simp

lemma writes_metadata [writes_intros]:
  "owns k \<Longrightarrow> writes_only owns c c' \<Longrightarrow> writes_only owns c (set_metadata k v c')"
  "owns k \<Longrightarrow> writes_only owns c c' \<Longrightarrow> writes_only owns c (remove_metadata k c')"
  "list_all owns ks \<Longrightarrow> writes_only owns c c' \<Longrightarrow> writes_only owns c (remove_all_metadata ks c')"
  by (auto simp: writes_only_def list_all_iff)

lemma writes_other [writes_intros]:
  assumes "writes_only owns c c'"
  shows "writes_only owns c (push_header h v c')" "writes_only owns c (results_entry name c')"
    "writes_only owns c (fst (set_result px name k v c'))" "writes_only owns c (fst (result_when px name k w c'))"
  by (rule writes_same [OF assms], simp)+

lemma writes_fields [writes_intros]:
  assumes "writes_only owns c c'"
  shows "writes_only owns c (response_header_update r c')" "writes_only owns c (response_headers_modified_update b c')"
    "writes_only owns c (response_body_mode_update m c')" "writes_only owns c (request_headers_to_remove_update hs c')"
  by (rule writes_same [OF assms], simp add: get_metadata_def)+

lemma writes_when_some [writes_intros]:
  "(\<And>x d. writes_only owns d (f x d)) \<Longrightarrow> writes_only owns c c' \<Longrightarrow> writes_only owns c (when_some v f c')"
  by (cases v) (auto intro: writes_trans)

lemma writes_apply_if [writes_intros]:
  "(\<And>d. writes_only owns d (f d)) \<Longrightarrow> writes_only owns c c' \<Longrightarrow> writes_only owns c (apply_if b f c')"
  by (auto simp: apply_if_def intro: writes_trans)

lemma writes_if [writes_intros]:
  "(b \<Longrightarrow> writes_only owns c x) \<Longrightarrow> (\<not> b \<Longrightarrow> writes_only owns c y) \<Longrightarrow> writes_only owns c (if b then x else y)"
  by simp

lemma writes_run_steps [writes_intros]:
  assumes "\<And>f c'. f \<in> set fs \<Longrightarrow> writes_only owns c' (fst (f c'))" and "writes_only owns c ctx"
  shows "writes_only owns c (fst (run_steps fs ctx))"
  using assms
proof (induction fs arbitrary: ctx)
  case (Cons f fs)
  have "writes_only owns ctx (fst (f ctx))" using Cons.prems(1) by simp
  with Cons.prems(2) have "writes_only owns c (fst (f ctx))" by (rule writes_trans)
  with Cons.IH [of "fst (f ctx)"] Cons.prems(1) show ?case
    by (cases "f ctx") (auto split: sum.split)
qed simp

section \<open>A2A\<close>

definition a2a_keys :: "str \<Rightarrow> bool" where
  "a2a_keys k \<longleftrightarrow> namespace k = ''a2a'' \<or> k = ''json_rpc.method'' \<or> k = ''json_rpc.kind''"

lemma writes_a2a_request:
  "writes_only a2a_keys ctx (fst (a2a_on_request_body ext px now now' config ctx store body eos))"
proof -
  have metadata: "writes_only a2a_keys ctx (a2a_write_metadata ext px envelope a2a ctx)" for envelope a2a
    unfolding a2a_write_metadata_def Let_def set_safe_metadata_def
    by (intro writes_intros) (simp_all add: a2a_keys_def namespace_def)
  have headers: "writes_only a2a_keys c (promote_a2a_headers ext px a2a envelope config c)" for envelope a2a c
    unfolding promote_a2a_headers_def Let_def promote_optional_header_def by (intro writes_intros)
  have results: "writes_only a2a_keys c (fst (a2a_promote_filter_results ext px c envelope a2a))" for envelope a2a c
    unfolding a2a_promote_filter_results_def Let_def
    by (rule writes_run_steps)
      (auto simp: set_optional_result_def intro!: writes_intros split: option.split)
  have route: "writes_only a2a_keys c (fst (lookup_task_route now now' c a2a st config))" for c a2a st
    by (auto simp: lookup_task_route_def a2a_keys_def namespace_def intro!: writes_intros split: option.split prod.split)
  have results: "writes_only a2a_keys ctx c"
    if "a2a_promote_filter_results ext px (promote_a2a_headers ext px a2a envelope config
        (a2a_write_metadata ext px envelope a2a ctx)) envelope a2a = (c, r)" for envelope a2a c r
    using metadata headers results that by (metis fst_conv writes_trans)
  have route: "writes_only a2a_keys ctx c'"
    if "lookup_task_route now now' c a2a st config = (c', st')" and "writes_only a2a_keys ctx c" for c a2a st c' st'
    using route that by (metis fst_conv writes_trans)
  show ?thesis
    by (auto simp: a2a_on_request_body_def Let_def writes_refl split: sum.split option.split prod.split
        dest: results intro: route results)
qed

lemma a2a_capture_keys [simp]: "list_all a2a_keys capture_keys" "list_all a2a_keys sse_capture_keys"
  by (simp_all add: capture_keys_def sse_capture_keys_def a2a_keys_def namespace_def)

lemma writes_a2a_response: "writes_only a2a_keys ctx (fst (a2a_on_response ext store ctx))"
  by (auto simp: a2a_on_response_def Let_def a2a_keys_def namespace_def intro!: writes_intros split: option.split)

lemma writes_a2a_capture:
  assumes "writes_only a2a_keys ctx ctx1"
    and "try_capture_from_buffer ext now lf config ctx1 st eos = Some (c, st')"
  shows "writes_only a2a_keys ctx c"
  using assms by (auto simp: try_capture_from_buffer_def clear_capture_metadata_def intro!: writes_intros split: option.splits if_splits)

lemma writes_a2a_scan:
  assumes "process_sse_response_chunk ext now lf config ctx chunk st = Some (c, st')"
  shows "writes_only a2a_keys ctx c"
proof -
  have "writes_only a2a_keys ctx (save_sse_scan_state ctx scan)" for scan
    unfolding save_sse_scan_state_def set_hex_metadata_def
    by (intro writes_intros) (simp_all add: a2a_keys_def namespace_def)
  with assms show ?thesis
    by (auto simp: process_sse_response_chunk_def clear_sse_capture_metadata_def intro: writes_intros split: prod.splits if_splits)
qed

lemma writes_a2a_response_body:
  assumes "a2a_on_response_body ext now lf config ctx store body eos = Some (c, store')"
  shows "writes_only a2a_keys ctx c"
proof (cases "get_metadata ctx ''a2a.response.capture_enabled'' = Some ''true''")
  case True
  have "writes_only a2a_keys ctx (fst (accumulate_response_hex ctx chunk mx))" for chunk mx
    by (auto simp: accumulate_response_hex_def Let_def a2a_keys_def namespace_def intro: writes_intros
        intro!: writes_metadata(1))
  then have "writes_only a2a_keys ctx c1" if "accumulate_response_hex ctx chunk mx = (c1, fits)" for chunk mx c1 fits
    using that by (metis fst_conv)
  with assms True show ?thesis
    by (auto simp: a2a_on_response_body_def writes_refl split: option.splits prod.splits if_splits
        intro: writes_a2a_capture [rotated])
next
  case False
  with assms show ?thesis
    by (auto simp: a2a_on_response_body_def clear_sse_capture_metadata_def split: option.splits if_splits
        intro: writes_intros dest: writes_a2a_scan)
qed

section \<open>MCP\<close>

definition mcp_keys :: "str \<Rightarrow> bool" where
  "mcp_keys k \<longleftrightarrow> namespace k = ''mcp'' \<or> k = ''json_rpc.method'' \<or> k = ''json_rpc.kind''"

lemma mcp_keys_simps [simp]:
  "mcp_keys ''mcp.method''" "mcp_keys ''mcp.name''" "mcp_keys ''mcp.session_id''" "mcp_keys ''mcp.protocol_version''"
  "mcp_keys ''json_rpc.method''" "mcp_keys ''json_rpc.kind''"
  by (simp_all add: mcp_keys_def namespace_def)

lemma writes_set_if_clean [writes_intros]:
  "mcp_keys k \<Longrightarrow> writes_only mcp_keys c c' \<Longrightarrow> writes_only mcp_keys c (set_if_clean ext k v c')"
  unfolding set_if_clean_def by (intro writes_intros)

lemma writes_mcp_request: "writes_only mcp_keys ctx (fst (mcp_on_request_body ext px config ctx body eos))"
proof -
  have single: "writes_only mcp_keys c (fst (validate_single_header ext px h v envelope config c))" for h v envelope c
    by (auto simp: validate_single_header_def intro!: writes_intros split: option.split missing_header_behavior.split)
  have checks: "writes_only mcp_keys c (fst (validate_mcp_headers ext px mcp envelope config c))" for mcp envelope c
    unfolding validate_mcp_headers_def
    by (rule writes_run_steps) (auto intro: single writes_refl split: option.split)
  have metadata: "writes_only mcp_keys c (mcp_write_metadata ext px envelope mcp c)" for envelope mcp c
    unfolding mcp_write_metadata_def Let_def comp_def by (intro writes_intros) simp_all
  have headers: "writes_only mcp_keys c (promote_mcp_headers ext px mcp envelope config c)" for envelope mcp c
    unfolding promote_mcp_headers_def Let_def by (intro writes_intros)
  have results: "writes_only mcp_keys c (fst (mcp_promote_filter_results ext px envelope mcp c))" for envelope mcp c
    unfolding mcp_promote_filter_results_def mcp_result_if_clean_def
    by (rule writes_run_steps) (auto intro!: writes_intros)
  have promoted: "writes_only mcp_keys c (fst (mcp_promote_filter_results ext px envelope mcp
      (promote_mcp_headers ext px mcp envelope config (mcp_write_metadata ext px envelope mcp c'))))"
    if "writes_only mcp_keys c c'" for envelope mcp c c'
    using that metadata headers results by (meson writes_trans)
  show ?thesis
    by (auto simp: mcp_on_request_body_def mcp_handle_def Let_def writes_refl promoted split: sum.split option.split prod.split
        dest: checks [THEN writes_fst, rotated])
qed

lemma writes_broker_request: "writes_only mcp_keys ctx (fst (broker_on_request_body ext px generated broker ctx body eos))"
proof -
  have start: "writes_only mcp_keys c (fst (handle_initialize ext generated c' v envelope vs dv))"
    if "writes_only mcp_keys c c'" for c c' v envelope vs dv
    unfolding handle_initialize_def record_client_protocol_version_def Let_def fst_conv
    by (intro writes_intros that) simp_all
  have "fst (dispatch_method ext generated c' broker v envelope m) = c' \<or>
      fst (dispatch_method ext generated c' broker v envelope m) =
        fst (handle_initialize ext generated c' v envelope (bf_supported_versions broker) (bf_default_version broker))"
    for c' v envelope m
    unfolding dispatch_method_def by (simp only: if_distrib [of fst] fst_map_prod fst_conv id_apply split: if_split) simp
  with start have dispatched: "writes_only mcp_keys c (fst (dispatch_method ext generated c' broker v envelope m))"
    if "writes_only mcp_keys c c'" for c c' v envelope m
    using that by metis
  then show ?thesis
    by (auto simp: broker_on_request_body_def Let_def comp_def intro!: writes_intros dispatched split: option.split sum.split)
qed

section \<open>Classifiers and model names\<close>

definition messages_format_keys :: "str \<Rightarrow> bool" where
  "messages_format_keys k \<longleftrightarrow> namespace k = ''anthropic_messages_format''"

lemma writes_messages_format:
  "writes_only messages_format_keys ctx (fst (mf_on_request_body ext px config ctx body eos))"
proof -
  have metadata: "writes_only messages_format_keys c (mf_write_metadata px req c)" for req c
    unfolding mf_write_metadata_def Let_def
    by (intro writes_intros) (simp_all add: messages_format_keys_def namespace_def)
  have "get_metadata (fst (mf_promote_filter_results px req (mf_promote_headers px req config (mf_write_metadata px req c)))) k =
      get_metadata (mf_write_metadata px req c) k" for req c k
    by simp
  from metadata this have promoted: "writes_only messages_format_keys c
      (fst (mf_promote_filter_results px req (mf_promote_headers px req config (mf_write_metadata px req c))))" for req c
    by (rule writes_same)
  show ?thesis
    by (auto simp: mf_on_request_body_def Let_def writes_refl split: option.split sum.split prod.split
        intro: writes_fst [OF promoted])
qed

definition responses_format_keys :: "str \<Rightarrow> bool" where
  "responses_format_keys k \<longleftrightarrow> namespace k = ''openai_responses_format''"

lemma writes_responses_format:
  "writes_only responses_format_keys ctx (fst (rf_on_request_body ext px config ctx body eos))"
proof -
  have metadata: "writes_only responses_format_keys c (rf_write_metadata px req mode c)" for req mode c
    unfolding rf_write_metadata_def write_optional_metadata_def write_boolean_metadata_def Let_def
    by (intro writes_intros) (simp_all add: responses_format_keys_def namespace_def)
  have "get_metadata (fst (rf_promote_filter_results px req mode (rf_promote_headers px req config mode
      (rf_write_metadata px req mode c)))) k = get_metadata (rf_write_metadata px req mode c) k" for req mode c k
    by simp
  from metadata this have promoted: "writes_only responses_format_keys c (fst (rf_promote_filter_results px req mode
      (rf_promote_headers px req config mode (rf_write_metadata px req mode c))))" for req mode c
    by (rule writes_same)
  show ?thesis
    by (auto simp: rf_on_request_body_def Let_def writes_refl split: option.split sum.split prod.split
        intro: writes_fst [OF promoted])
qed

definition model_rewrite_keys :: "str \<Rightarrow> bool" where
  "model_rewrite_keys k \<longleftrightarrow> namespace k = ''openai_responses_model_rewrite''"

lemma writes_model_rewrite_body:
  "writes_only model_rewrite_keys ctx (fst (mr_on_request_body ext px cfg ctx body eos))"
proof -
  have facts: "writes_only model_rewrite_keys c (promote_facts px headers result c)" for headers result c
    unfolding promote_facts_def set_filter_results_from_result_def mr_set_result_def mr_promote_headers_def mr_write_metadata_def
    by (intro writes_intros) (simp_all add: model_rewrite_keys_def namespace_def)
  then show ?thesis
    by (auto simp: mr_on_request_body_def rewrite_body_def serialize_and_update_def Let_def intro!: writes_intros
        split: option.split sum.split prod.split)
qed

lemma writes_model_rewrite_request: "writes_only model_rewrite_keys ctx (fst (mr_on_request px ctx))"
  unfolding mr_on_request_def repopulate_filter_results_def mr_set_result_def Let_def fst_conv by (intro writes_intros)

section \<open>The Responses filters\<close>

definition validate_keys :: "str \<Rightarrow> bool" where
  "validate_keys k \<longleftrightarrow> k \<in> {''responses.response_id'', ''responses.conversation_id'', ''responses.store'',
     ''responses.background'', ''responses.stream'', ''responses._reformat_error''}"

lemma writes_validate_body: "writes_only validate_keys ctx (fst (rv_on_request_body ext r c ctx body eos))"
proof -
  have "writes_only validate_keys ctx (enrich_context i j ctx)" for i j
    unfolding enrich_context_def Let_def by (intro writes_intros) (simp_all add: validate_keys_def)
  then show ?thesis by (simp add: rv_on_request_body_def writes_refl split: sum.split)
qed

lemma writes_validate_response: "writes_only validate_keys ctx (fst (rv_on_response ext mx ctx))"
  by (auto simp: rv_on_response_def detect_and_prepare_error_reformat_def apply_error_response_headers_def Let_def
      validate_keys_def intro!: writes_intros split: option.split)

definition rehydrate_keys :: "str \<Rightarrow> bool" where
  "rehydrate_keys k \<longleftrightarrow> k \<in> {''responses.previous_response_id'', ''responses.previous_usage_total_tokens'',
     ''responses.previous_usage_output_tokens'', ''responses.previous_usage_input_tokens''}"

lemma writes_rehydrate:
  "writes_only rehydrate_keys (ex_ctx ex) (ex_ctx (fst (rehydrate_on_request_body ext dbs ex body eos)))"
proof -
  have "writes_only rehydrate_keys c (write_previous_usage_metadata u c)" for u c
    unfolding write_previous_usage_metadata_def Let_def
    by (cases u) (simp_all add: writes_refl, intro writes_intros, simp_all add: rehydrate_keys_def)
  then show ?thesis
    by (auto simp: rehydrate_on_request_body_def validate_previous_response_def populate_state_and_usage_metadata_def
        Let_def rehydrate_keys_def intro!: writes_intros split: option.split sum.split prod.split)
qed

lemma writes_proxy:
  assumes "proxy_on_request_body ext mx ex body eos = Inr (ex', body', action)"
  shows "writes_only (\<lambda>_. False) (ex_ctx ex) (ex_ctx ex')"
proof -
  have "ex' = ex \<or> (\<exists>n. ex' = ex\<lparr>ex_ctx := push_header ''content-length'' n (ex_ctx ex)\<rparr>)"
    using assms by (auto simp: proxy_on_request_body_def and_then_eq_case split: option.splits sum.splits if_splits)
  then show ?thesis by (auto intro!: writes_intros)
qed

definition store_keys :: "str \<Rightarrow> bool" where "store_keys k \<longleftrightarrow> k = ''responses.skip_persist''"

abbreviation run_ctx :: "store_run \<Rightarrow> filter_ctx" where "run_ctx run \<equiv> ex_ctx (sr_ex run)"

lemma ensure_store_ctx: "ensure_store f run = (run1, store) \<Longrightarrow> sr_ex run1 = sr_ex run"
  by (auto simp: ensure_store_def split: prod.splits)

lemma writes_skip_persist [writes_intros]:
  "writes_only store_keys c c' \<Longrightarrow> writes_only store_keys c (skip_persist c')"
  unfolding skip_persist_def by (intro writes_intros) (simp add: store_keys_def)

lemma writes_init_store: "writes_only store_keys (run_ctx run) (run_ctx (init_store_for_request f run))"
  by (auto simp: init_store_for_request_def register_store_in_context_def Let_def ensure_store_ctx intro!: writes_intros
      split: prod.split option.split)

lemma writes_store_request: "writes_only store_keys (run_ctx run) (run_ctx (fst (store_on_request f query run)))"
proof -
  obtain run1 h where e: "ensure_store f run = (run1, h)" by (cases "ensure_store f run") auto
  then have "run_ctx (fst (handle_get_response f i run)) = run_ctx run"
    "run_ctx (fst (handle_get_input_items f query i run)) = run_ctx run" for i
    using ensure_store_ctx [OF e] by (simp_all add: handle_get_response_def handle_get_input_items_def split: option.split)
  then have gets: "run_ctx (fst (try_get_retrieval f query run)) = run_ctx run"
    by (auto simp: try_get_retrieval_def Let_def split: list.split option.split)
  have deletes: "run_ctx (fst (handle_delete f tenant i run)) = run_ctx run" for tenant i
    by (auto simp: handle_delete_def ensure_store_ctx split: prod.split option.split sum.split)
  show ?thesis
    using gets by (auto simp: store_on_request_def Let_def deletes writes_refl writes_init_store split: option.split prod.split)
qed

lemma writes_store_body: "writes_only store_keys (run_ctx run) (run_ctx (fst (store_on_request_body f body eos run)))"
  using writes_init_store [of "run\<lparr>sr_ex := (sr_ex run)\<lparr>ex_request_input := i\<rparr>\<rparr>" f for i]
  by (auto simp: store_on_request_body_def Let_def writes_refl writes_init_store split: option.split)

lemma writes_store_response: "writes_only store_keys (run_ctx run) (run_ctx (fst (store_on_response f run)))"
  by (auto simp: store_on_response_def response_is_persistable_def Let_def ensure_store_ctx intro!: writes_intros
      split: option.split prod.splits if_splits)

lemma writes_store_response_body:
  "writes_only store_keys (run_ctx run) (run_ctx (fst (store_on_response_body f body eos run)))"
  by (auto simp: store_on_response_body_def Let_def writes_refl split: option.split prod.split sum.split)

section \<open>Streams, translation, prompts and tokens\<close>

lemma writes_kept: "kept ctx' = kept ctx \<Longrightarrow> writes_only stream_key ctx ctx'"
  by (auto simp: kept_def writes_only_def dest: fun_cong split: if_splits)

lemma writes_stream_response: "writes_only stream_key ctx (fst (on_response ext ctx))"
  by (auto simp: on_response_def Let_def intro!: writes_intros split: option.split)

lemma writes_stream_chunk:
  assumes "decode_and_process_chunk ext nanos ctx bs eos mx = Some (ctx', r)"
  shows "writes_only stream_key ctx ctx'"
proof -
  obtain ctx1 combined ctx2 pre where c: "combine_pending_utf8 ctx bs = (ctx1, combined)"
    "valid_utf8_prefix_len ctx1 combined eos = (ctx2, pre)"
    by (metis surj_pair)
  have "writes_only stream_key ctx ctx1"
    using c(1) by (auto simp: combine_pending_utf8_def intro!: writes_intros split: option.splits)
  moreover have "writes_only stream_key ctx1 ctx2"
    using c(2) by (auto simp: valid_utf8_prefix_len_def Let_def intro!: writes_intros
        split: utf8_result.splits option.splits if_splits)
  moreover have "writes_only stream_key ctx2 ctx'"
  proof (cases pre)
    case None
    with assms c show ?thesis
      by (auto simp: decode_and_process_chunk_def passthrough_with_line_buffer_def intro!: writes_intros
          split: option.splits)
  next
    case (Some n)
    with assms c show ?thesis
      by (auto simp: decode_and_process_chunk_def writes_refl split: if_splits dest: kept_sse_chunk intro: writes_kept)
  qed
  ultimately show ?thesis by (metis writes_trans)
qed

lemma writes_stream_body:
  assumes "on_response_body ext nanos mx ctx body eos = Some (ctx', body', r)"
  shows "writes_only stream_key ctx ctx'"
  using body_context [OF assms] writes_stream_chunk writes_refl by blast

definition translation_keys :: "str \<Rightarrow> bool" where
  "translation_keys k \<longleftrightarrow> namespace k = ''anthropic_to_openai'' \<or> k = ''openai.finish_reason''"

lemma writes_to_openai:
  "writes_only translation_keys ctx (fst (to_openai_on_request ctx))"
  "writes_only translation_keys ctx (fst (to_openai_on_request_body ext ctx body eos))"
  "writes_only translation_keys ctx (fst (to_openai_on_response ext mx ctx))"
  "writes_only translation_keys ctx (fst (to_openai_on_response_body ext nanos ctx body eos))"
proof -
  have metadata: "writes_only translation_keys c (extract_request_metadata ext c bs)" for c bs
    by (auto simp: extract_request_metadata_def Let_def translation_keys_def namespace_def intro!: writes_intros split: sum.split)
  show "writes_only translation_keys ctx (fst (to_openai_on_request ctx))"
    by (auto simp: to_openai_on_request_def intro!: writes_intros)
  show "writes_only translation_keys ctx (fst (to_openai_on_request_body ext ctx body eos))"
    by (auto simp: to_openai_on_request_body_def Let_def metadata writes_refl split: option.split prod.split)
  show "writes_only translation_keys ctx (fst (to_openai_on_response ext mx ctx))"
    by (auto simp: to_openai_on_response_def Let_def intro!: writes_intros split: option.split)
  show "writes_only translation_keys ctx (fst (to_openai_on_response_body ext nanos ctx body eos))"
    by (auto simp: to_openai_on_response_body_def transform_non_streaming_body_def Let_def translation_keys_def
        intro!: writes_intros split: option.split sum.split prod.split)
qed

lemma writes_prompt: "writes_only (\<lambda>_. False) ctx (fst (pe_on_request_body ext pf ctx body eos))"
  by (auto simp: pe_on_request_body_def Let_def intro!: writes_intros split: option.split sum.split)

lemma writes_protocol: "writes_only (\<lambda>_. False) ctx (fst (protocol_on_request dv ctx))"
  by (auto simp: protocol_on_request_def Let_def intro!: writes_intros)

definition token_keys :: "str \<Rightarrow> bool" where "token_keys k \<longleftrightarrow> namespace k = ''token''"

lemma writes_tokens:
  "writes_only token_keys ctx (set_token_usage i out t ctx)"
  "writes_only token_keys ctx (fst (token_headers_on_response hv ctx))"
  by (auto simp: set_token_usage_def token_headers_on_response_def inject_usage_headers_def Let_def token_keys_def namespace_def
      intro!: writes_intros split: option.split)

section \<open>Filters that write no metadata\<close>

lemma writes_guardrails:
  "writes_only (\<lambda>_. False) ctx (fst (guardrails_on_request ctx))"
  "writes_only (\<lambda>_. False) ctx (fst (guardrails_on_request_body ctx body eos))"
  by (simp_all add: guardrails_on_request_def guardrails_on_request_body_def writes_refl)

text \<open>
  The filter \<open>model_to_header\<close> hands every call to a filter of another crate; that one writes headers and no
  metadata.
\<close>

definition leaves_metadata :: "http_filter \<Rightarrow> bool" where
  "leaves_metadata inner \<longleftrightarrow>
     (\<forall>ctx body eos. list_all (writes_only (\<lambda>_. False) ctx)
        [fst (on_request_hook inner ctx), fst (on_response_hook inner ctx),
         fst (request_body_hook inner ctx body eos), fst (response_body_hook inner ctx body eos)])"

lemma writes_model_header:
  assumes "leaves_metadata inner"
  shows "writes_only (\<lambda>_. False) ctx (fst (on_request_hook inner ctx))"
    and "writes_only (\<lambda>_. False) ctx (fst (on_response_hook inner ctx))"
    and "writes_only (\<lambda>_. False) ctx (fst (request_body_hook inner ctx body eos))"
    and "writes_only (\<lambda>_. False) ctx (fst (response_body_hook inner ctx body eos))"
  using assms by (simp_all add: leaves_metadata_def)

abbreviation conv_ctx :: "conv_run \<Rightarrow> filter_ctx" where "conv_ctx run \<equiv> call_ctx (cv_call run)"

lemma conversations_call:
  shows "conv_on_request cf mx run = Some (run', ans) \<Longrightarrow> cv_call run' = cv_call run"
    and "conv_on_request_body cf body eos run = Some (run', ans) \<Longrightarrow> cv_call run' = cv_call run"
proof -
  have ensure: "cv_call r' = cv_call r" if "ensure_conv_store cf r = (r', store)" for r r' store
    using that by (auto simp: ensure_conv_store_def split: prod.splits)
  have mark: "cv_call r' = cv_call r" if "mark_request_filters_ran r = (r', b)" for r r' b
    using that by (auto simp: mark_request_filters_ran_def Let_def split: option.splits)
  have deferred: "cv_call r' = cv_call r" if "defer_body_until_request_filters b r = (r', act)" for b r r' act
    using that by (auto simp: defer_body_until_request_filters_def Let_def)
  have dispatch: "cv_call r' = cv_call r" if "dispatch cf req store r = Some (r', a)" for req store r r' a
    using that by (auto simp: dispatch_def)
  have post: "cv_call r' = cv_call r" if "handle_post_route cf route b r = Some (r', a)" for route b r r' a
    using that by (auto simp: handle_post_route_def split: prod.splits option.splits dest!: ensure dispatch)
  show "conv_on_request cf mx run = Some (run', ans) \<Longrightarrow> cv_call run' = cv_call run"
    by (auto simp: conv_on_request_def Let_def split: if_splits option.splits prod.splits
        dest!: ensure mark dispatch post)
  show "conv_on_request_body cf body eos run = Some (run', ans) \<Longrightarrow> cv_call run' = cv_call run"
    by (auto simp: conv_on_request_body_def split: if_splits option.splits prod.splits dest!: deferred post)
qed

lemma writes_conversations:
  "conv_on_request cf mx run = Some (run', ans) \<Longrightarrow> writes_only (\<lambda>_. False) (conv_ctx run) (conv_ctx run')"
  "conv_on_request_body cf body eos run = Some (run', ans) \<Longrightarrow> writes_only (\<lambda>_. False) (conv_ctx run) (conv_ctx run')"
  by (simp_all add: conversations_call writes_refl)

section \<open>Every filter keeps the contract\<close>

datatype proxy_filter =
    A2a_filter | Mcp_filter | Broker_filter | Messages_format_filter | Protocol_filter | To_openai_filter
  | Stream_events_filter | Responses_format_filter | Responses_validate_filter | Rehydrate_filter
  | Responses_proxy_filter | Response_store_filter | Model_rewrite_filter | Prompt_enrich_filter | Token_headers_filter
  | Guardrails_filter | Model_header_filter | Anthropic_validate_filter | Conversations_filter

fun owned :: "proxy_filter \<Rightarrow> str \<Rightarrow> bool" where
  "owned A2a_filter = a2a_keys"
| "owned Mcp_filter = mcp_keys"
| "owned Broker_filter = mcp_keys"
| "owned Messages_format_filter = messages_format_keys"
| "owned To_openai_filter = translation_keys"
| "owned Stream_events_filter = stream_key"
| "owned Responses_format_filter = responses_format_keys"
| "owned Responses_validate_filter = validate_keys"
| "owned Rehydrate_filter = rehydrate_keys"
| "owned Response_store_filter = store_keys"
| "owned Model_rewrite_filter = model_rewrite_keys"
| "owned Token_headers_filter = token_keys"
| "owned _ = (\<lambda>_. False)"

text \<open>
  One call of a hook, whatever the configuration, the body and the functions of other crates are. The
  recorder of token counts is listed with the filter that shows them.
\<close>

inductive filter_call :: "proxy_filter \<Rightarrow> filter_ctx \<Rightarrow> filter_ctx \<Rightarrow> bool" where
  "filter_call A2a_filter ctx (fst (a2a_on_request_body ext px now now' config ctx store body eos))"
| "filter_call A2a_filter ctx (fst (a2a_on_response ext store ctx))"
| "a2a_on_response_body ext now lf tr ctx store body eos = Some (ctx', store') \<Longrightarrow> filter_call A2a_filter ctx ctx'"
| "filter_call Mcp_filter ctx (fst (mcp_on_request_body ext px mcp ctx body eos))"
| "filter_call Broker_filter ctx (fst (broker_on_request_body ext px generated broker ctx body eos))"
| "filter_call Messages_format_filter ctx (fst (mf_on_request_body ext px mf ctx body eos))"
| "filter_call Protocol_filter ctx (fst (protocol_on_request version ctx))"
| "filter_call To_openai_filter ctx (fst (to_openai_on_request ctx))"
| "filter_call To_openai_filter ctx (fst (to_openai_on_request_body ext ctx body eos))"
| "filter_call To_openai_filter ctx (fst (to_openai_on_response ext mx ctx))"
| "filter_call To_openai_filter ctx (fst (to_openai_on_response_body ext nanos ctx body eos))"
| "filter_call Stream_events_filter ctx (fst (on_response ext ctx))"
| "on_response_body ext nanos mx ctx body eos = Some (ctx', body', res) \<Longrightarrow> filter_call Stream_events_filter ctx ctx'"
| "filter_call Responses_format_filter ctx (fst (rf_on_request_body ext px rf ctx body eos))"
| "filter_call Responses_validate_filter ctx (fst (rv_on_request_body ext r c ctx body eos))"
| "filter_call Responses_validate_filter ctx (fst (rv_on_response ext mx ctx))"
| "filter_call Rehydrate_filter (ex_ctx ex) (ex_ctx (fst (rehydrate_on_request_body ext dbs ex body eos)))"
| "proxy_on_request_body ext mx ex body eos = Inr (ex', body', act) \<Longrightarrow>
     filter_call Responses_proxy_filter (ex_ctx ex) (ex_ctx ex')"
| "filter_call Response_store_filter (run_ctx run) (run_ctx (fst (store_on_request f query run)))"
| "filter_call Response_store_filter (run_ctx run) (run_ctx (fst (store_on_request_body f body eos run)))"
| "filter_call Response_store_filter (run_ctx run) (run_ctx (fst (store_on_response f run)))"
| "filter_call Response_store_filter (run_ctx run) (run_ctx (fst (store_on_response_body f body eos run)))"
| "filter_call Model_rewrite_filter ctx (fst (mr_on_request px ctx))"
| "filter_call Model_rewrite_filter ctx (fst (mr_on_request_body ext px mr ctx body eos))"
| "filter_call Prompt_enrich_filter ctx (fst (pe_on_request_body ext pf ctx body eos))"
| "filter_call Token_headers_filter ctx (set_token_usage input output total' ctx)"
| "filter_call Token_headers_filter ctx (fst (token_headers_on_response header_value ctx))"
| "filter_call Guardrails_filter ctx (fst (guardrails_on_request ctx))"
| "filter_call Guardrails_filter ctx (fst (guardrails_on_request_body ctx body eos))"
| "leaves_metadata inner \<Longrightarrow> filter_call Model_header_filter ctx (fst (on_request_hook inner ctx))"
| "leaves_metadata inner \<Longrightarrow> filter_call Model_header_filter ctx (fst (on_response_hook inner ctx))"
| "leaves_metadata inner \<Longrightarrow> filter_call Model_header_filter ctx (fst (request_body_hook inner ctx body eos))"
| "leaves_metadata inner \<Longrightarrow> filter_call Model_header_filter ctx (fst (response_body_hook inner ctx body eos))"
| "anthropic_validate_on_request_body ext body eos = act \<Longrightarrow> filter_call Anthropic_validate_filter ctx ctx"
| "conv_on_request cf mx cv = Some (cv', ans) \<Longrightarrow> filter_call Conversations_filter (conv_ctx cv) (conv_ctx cv')"
| "conv_on_request_body cf body eos cv = Some (cv', ans) \<Longrightarrow> filter_call Conversations_filter (conv_ctx cv) (conv_ctx cv')"

text \<open>The contract of a filter and what follows for any number of its calls.\<close>

locale metadata_owner =
  fixes call :: "filter_ctx \<Rightarrow> filter_ctx \<Rightarrow> bool"
    and owns :: "str \<Rightarrow> bool"
  assumes call_writes: "call ctx ctx' \<Longrightarrow> writes_only owns ctx ctx'"
begin

lemma repeated_writes: "call\<^sup>*\<^sup>* ctx ctx' \<Longrightarrow> writes_only owns ctx ctx'"
  by (induction rule: rtranclp_induct) (auto intro: writes_refl writes_trans call_writes)

lemma repeated_keeps: "call\<^sup>*\<^sup>* ctx ctx' \<Longrightarrow> \<not> owns k \<Longrightarrow> get_metadata ctx' k = get_metadata ctx k"
  using repeated_writes by (simp add: writes_only_def)

end

lemmas writes_hooks = writes_a2a_request writes_a2a_response writes_a2a_response_body writes_mcp_request
  writes_broker_request writes_messages_format writes_protocol writes_to_openai writes_stream_response
  writes_stream_body writes_responses_format writes_validate_body writes_validate_response writes_rehydrate
  writes_proxy writes_store_request writes_store_body writes_store_response writes_store_response_body
  writes_model_rewrite_request writes_model_rewrite_body writes_prompt writes_tokens writes_guardrails
  writes_model_header writes_conversations writes_refl

interpretation filters: metadata_owner "filter_call f" "owned f" for f
proof unfold_locales
  fix ctx ctx' assume "filter_call f ctx ctx'"
  then show "writes_only (owned f) ctx ctx'" by cases (simp_all add: writes_hooks)
qed

fun namespaces :: "proxy_filter \<Rightarrow> str set" where
  "namespaces A2a_filter = {''a2a'', ''json_rpc''}"
| "namespaces Mcp_filter = {''mcp'', ''json_rpc''}"
| "namespaces Broker_filter = {''mcp'', ''json_rpc''}"
| "namespaces Messages_format_filter = {''anthropic_messages_format''}"
| "namespaces To_openai_filter = {''anthropic_to_openai'', ''openai''}"
| "namespaces Stream_events_filter = {''anthropic_stream''}"
| "namespaces Responses_format_filter = {''openai_responses_format''}"
| "namespaces Responses_validate_filter = {''responses''}"
| "namespaces Rehydrate_filter = {''responses''}"
| "namespaces Response_store_filter = {''responses''}"
| "namespaces Model_rewrite_filter = {''openai_responses_model_rewrite''}"
| "namespaces Token_headers_filter = {''token''}"
| "namespaces _ = {}"

lemma stream_key_namespace: "stream_key k \<Longrightarrow> namespace k = ''anthropic_stream''"
  by (auto simp: stream_key_def starts_with_iff namespace_def)

lemma owned_namespace: "owned f k \<Longrightarrow> namespace k \<in> namespaces f"
  by (cases f) (auto simp: a2a_keys_def mcp_keys_def messages_format_keys_def translation_keys_def
    responses_format_keys_def validate_keys_def rehydrate_keys_def store_keys_def model_rewrite_keys_def token_keys_def
    namespace_def dest: stream_key_namespace)

lemma owned_once:
  assumes "owned f k" and "owned g k"
  shows "f = g \<or> {f, g} \<subseteq> {A2a_filter, Mcp_filter, Broker_filter}"
proof -
  from assms have "namespace k \<in> namespaces f \<inter> namespaces g" by (simp add: owned_namespace)
  then have "f = g \<or> {f, g} \<subseteq> {A2a_filter, Mcp_filter, Broker_filter} \<or>
      {f, g} \<subseteq> {Responses_validate_filter, Rehydrate_filter, Response_store_filter}"
    by (cases f; cases g) auto
  with assms show ?thesis by (auto simp: validate_keys_def rehydrate_keys_def store_keys_def)
qed

text \<open>Any calls of these filters, one after another.\<close>

inductive calls :: "proxy_filter set \<Rightarrow> filter_ctx \<Rightarrow> filter_ctx \<Rightarrow> bool" for fs where
  no_call: "calls fs ctx ctx"
| one_more: "calls fs ctx ctx1 \<Longrightarrow> f \<in> fs \<Longrightarrow> filter_call f ctx1 ctx2 \<Longrightarrow> calls fs ctx ctx2"

lemma calls_write: "calls fs ctx ctx' \<Longrightarrow> writes_only (\<lambda>k. \<exists>f \<in> fs. owned f k) ctx ctx'"
proof (induction rule: calls.induct)
  case (one_more ctx ctx1 f ctx2)
  from filters.call_writes [OF one_more(3)] one_more(2) have "writes_only (\<lambda>k. \<exists>f \<in> fs. owned f k) ctx1 ctx2"
    by (auto simp: writes_only_def)
  with one_more.IH show ?case by (rule writes_trans)
qed (rule writes_refl)



end
