(* ===== verification/Filter_Factory.thy ===== *)
theory Filter_Factory
  imports Filter_Metadata Server_Start Thin_Filters Conversation_Filter
begin

text \<open>
  How the server makes its filters: the \<open>from_config\<close> of every filter, and what the filter then tells the
  pipeline of itself, its name and its access to bodies. The derived deserialisations of the configuration
  types (\<open>parse_filter_config\<close>) and the defaults of the trait \<open>HttpFilter\<close> are parameters.
\<close>

section \<open>Parameters\<close>

text \<open>What a filter tells the pipeline; the modes are those before a hook changes them.\<close>

record filter_traits =
  ft_name :: str
  ft_request_access :: body_access
  ft_request_mode :: body_mode
  ft_response_access :: body_access
  ft_response_mode :: body_mode

record config_readers =
  read_a2a :: "yaml \<Rightarrow> filter_error + a2a_config"
  read_mcp :: "yaml \<Rightarrow> filter_error + mcp_config"
  read_mcp_broker :: "yaml \<Rightarrow> filter_error + mcp_broker_config"
  read_guardrails :: "yaml \<Rightarrow> filter_error + ai_guardrails_config"
  read_nemo :: "yaml \<Rightarrow> str + nemo_config"
  read_model_header :: "yaml \<Rightarrow> filter_error + str option"
  read_prompt_enrich :: "yaml \<Rightarrow> filter_error + prompt_enrich_config"
  read_messages_format :: "yaml \<Rightarrow> filter_error + messages_format_config"
  read_protocol :: "yaml \<Rightarrow> filter_error + str"
  read_stream_events :: "yaml \<Rightarrow> filter_error + nat"
  read_to_openai :: "yaml \<Rightarrow> filter_error + nat"
  read_anthropic_validate :: "yaml \<Rightarrow> filter_error + nat"
  read_responses_format :: "yaml \<Rightarrow> filter_error + responses_format_config"
  read_model_rewrite :: "yaml \<Rightarrow> filter_error + model_rewrite_config"
  read_conversations :: "yaml \<Rightarrow> filter_error + conversations_config"
  read_response_store :: "yaml \<Rightarrow> filter_error + response_store_config"
  read_rehydrate :: "yaml \<Rightarrow> filter_error + unit"
  read_proxy :: "yaml \<Rightarrow> filter_error + nat"

text \<open>The other crates: checks, defaults of the trait, \<open>JsonBodyFieldFilter\<close>, constants.\<close>

record filter_env =
  fe_px :: praxis
  fe_broker :: broker_fns
  fe_urls :: url_fns
  fe_header_name_ok :: "str \<Rightarrow> bool"
  fe_header_value :: "str \<Rightarrow> str + unit"
  fe_json_body_field :: "yaml \<Rightarrow> filter_error + http_filter"
  fe_defaults :: filter_traits
  fe_max_json_body_bytes :: nat
  fe_tags :: bool

section \<open>Traits\<close>

abbreviation buffered :: "nat \<Rightarrow> body_mode" where
  "buffered n \<equiv> StreamBuffer (Some n)"

definition a2a_traits :: "filter_traits \<Rightarrow> a2a_config \<times> route_store option \<Rightarrow> filter_traits" where
  "a2a_traits d f = d
     \<lparr>ft_name := ''a2a'', ft_request_access := Read_only, ft_request_mode := buffered (a2a_max_body_bytes (fst f)),
      ft_response_access := (if snd f \<noteq> None then Read_only else No_access), ft_response_mode := Stream\<rparr>"

definition mcp_traits :: "filter_traits \<Rightarrow> mcp_config \<Rightarrow> filter_traits" where
  "mcp_traits d cfg = d
     \<lparr>ft_name := ''mcp'', ft_request_access := Read_only, ft_request_mode := buffered (mcp_max_body_bytes cfg)\<rparr>"

definition mcp_broker_traits :: "filter_traits \<Rightarrow> broker_filter \<Rightarrow> filter_traits" where
  "mcp_broker_traits d f = d
     \<lparr>ft_name := ''mcp'', ft_request_access := Read_write, ft_request_mode := buffered (bf_max_body_bytes f)\<rparr>"

definition guardrails_max_body_bytes :: nat where "guardrails_max_body_bytes = 1048576"

definition guardrails_traits :: "filter_traits \<Rightarrow> filter_traits" where
  "guardrails_traits d = d
     \<lparr>ft_name := ''ai_guardrails'', ft_request_access := Read_write,
      ft_request_mode := buffered guardrails_max_body_bytes\<rparr>"

text \<open>This filter asks the filter it wraps.\<close>

definition model_to_header_traits :: "http_filter \<Rightarrow> filter_traits" where
  "model_to_header_traits inner =
     \<lparr>ft_name = ''model_to_header'', ft_request_access = request_body_access inner,
      ft_request_mode = request_body_mode inner, ft_response_access = response_body_access inner,
      ft_response_mode = response_body_mode_of inner\<rparr>"

definition prompt_enrich_traits :: "filter_traits \<Rightarrow> prompt_enrich \<Rightarrow> filter_traits" where
  "prompt_enrich_traits d f = d
     \<lparr>ft_name := ''prompt_enrich'', ft_request_access := Read_write, ft_request_mode := buffered (pf_max_body_bytes f)\<rparr>"

definition token_usage_traits :: "filter_traits \<Rightarrow> filter_traits" where
  "token_usage_traits d = d\<lparr>ft_name := ''token_usage_headers''\<rparr>"

definition messages_format_traits :: "filter_traits \<Rightarrow> messages_format_config \<Rightarrow> filter_traits" where
  "messages_format_traits d cfg = d
     \<lparr>ft_name := ''anthropic_messages_format'', ft_request_access := Read_only,
      ft_request_mode := buffered (mf_max_body_bytes cfg)\<rparr>"

definition protocol_traits :: "filter_traits \<Rightarrow> filter_traits" where
  "protocol_traits d = d
     \<lparr>ft_name := ''anthropic_messages_protocol'', ft_request_access := No_access, ft_request_mode := Stream\<rparr>"

definition stream_events_traits :: "filter_traits \<Rightarrow> filter_traits" where
  "stream_events_traits d = d
     \<lparr>ft_name := ''anthropic_stream_events'', ft_request_access := No_access, ft_request_mode := Stream,
      ft_response_access := Read_write, ft_response_mode := Stream\<rparr>"

definition to_openai_traits :: "filter_traits \<Rightarrow> nat \<Rightarrow> filter_traits" where
  "to_openai_traits d max_body_bytes = d
     \<lparr>ft_name := ''anthropic_to_openai'', ft_request_access := Read_write, ft_request_mode := buffered max_body_bytes,
      ft_response_access := Read_write, ft_response_mode := Stream\<rparr>"

definition anthropic_validate_traits :: "filter_traits \<Rightarrow> nat \<Rightarrow> filter_traits" where
  "anthropic_validate_traits d max_body_bytes = d
     \<lparr>ft_name := ''anthropic_validate'', ft_request_access := Read_only, ft_request_mode := buffered max_body_bytes\<rparr>"

definition responses_format_traits :: "filter_traits \<Rightarrow> responses_format_config \<Rightarrow> filter_traits" where
  "responses_format_traits d cfg = d
     \<lparr>ft_name := ''openai_responses_format'', ft_request_access := Read_only,
      ft_request_mode := buffered (rf_max_body_bytes cfg)\<rparr>"

definition model_rewrite_traits :: "filter_traits \<Rightarrow> model_rewrite_config \<Rightarrow> filter_traits" where
  "model_rewrite_traits d cfg = d
     \<lparr>ft_name := ''openai_responses_model_rewrite'', ft_request_access := Read_write,
      ft_request_mode := buffered (mr_max_body_bytes cfg)\<rparr>"

definition responses_validate_traits :: "filter_traits \<Rightarrow> nat \<Rightarrow> filter_traits" where
  "responses_validate_traits d max_json = d
     \<lparr>ft_name := ''openai_responses_validate'', ft_request_access := Read_only, ft_request_mode := buffered max_json,
      ft_response_access := Read_write\<rparr>"

definition conversations_traits :: "filter_traits \<Rightarrow> nat \<Rightarrow> filter_traits" where
  "conversations_traits d max_json = d
     \<lparr>ft_name := ''openai_conversations'', ft_request_access := Read_only, ft_request_mode := buffered max_json\<rparr>"

definition response_store_traits :: "filter_traits \<Rightarrow> nat \<Rightarrow> filter_traits" where
  "response_store_traits d max_json = d
     \<lparr>ft_name := ''openai_response_store'', ft_request_access := Read_only, ft_response_access := Read_only,
      ft_response_mode := buffered max_json\<rparr>"

definition rehydrate_traits :: "filter_traits \<Rightarrow> nat \<Rightarrow> filter_traits" where
  "rehydrate_traits d max_json = d
     \<lparr>ft_name := ''openai_responses_rehydrate'', ft_request_access := Read_only, ft_request_mode := buffered max_json\<rparr>"

definition proxy_traits :: "filter_traits \<Rightarrow> nat \<Rightarrow> filter_traits" where
  "proxy_traits d max_body_bytes = d
     \<lparr>ft_name := ''responses_proxy'', ft_request_access := Read_write, ft_request_mode := buffered max_body_bytes\<rparr>"

section \<open>Factories\<close>

text \<open>\<open>Value::get\<close> with a string; \<open>tags\<close> tells whether it looks through a tag.\<close>

fun yaml_get :: "bool \<Rightarrow> yaml \<Rightarrow> str \<Rightarrow> yaml option" where
  "yaml_get tags (YMapping kvs) key = map_of kvs (YString key)"
| "yaml_get tags (YTagged _ v) key = (if tags then yaml_get tags v key else None)"
| "yaml_get tags _ key = None"

definition broker_matches_config :: "bool \<Rightarrow> yaml \<Rightarrow> bool" where
  "broker_matches_config tags config = (yaml_get tags config ''servers'' \<noteq> None)"

text \<open>The clock is read for the route store of the A2A filter.\<close>

definition a2a_factory :: "filter_env \<Rightarrow> config_readers \<Rightarrow> nat \<Rightarrow> yaml \<Rightarrow> filter_error + a2a_config \<times> route_store option" where
  "a2a_factory env rd now config = and_then (read_a2a rd config) (a2a_from_config (fe_px env) now)"

definition broker_factory :: "filter_env \<Rightarrow> config_readers \<Rightarrow> yaml \<Rightarrow> filter_error + broker_filter" where
  "broker_factory env rd config = and_then (read_mcp_broker rd config) (broker_from_config (fe_px env) (fe_broker env))"

text \<open>The classifier of MCP requests, or the broker when servers are configured.\<close>

definition mcp_factory :: "filter_env \<Rightarrow> config_readers \<Rightarrow> yaml \<Rightarrow> filter_error + mcp_config + broker_filter" where
  "mcp_factory env rd config =
     (if broker_matches_config (fe_tags env) config then map_sum id Inr (broker_factory env rd config)
      else map_sum id Inl (and_then (read_mcp rd config) (mcp_build_config (fe_px env))))"

definition prompt_enrich_factory :: "filter_env \<Rightarrow> config_readers \<Rightarrow> yaml \<Rightarrow> filter_error + prompt_enrich" where
  "prompt_enrich_factory env rd config = and_then (read_prompt_enrich rd config) (pe_from_config (fe_px env))"

definition messages_format_factory :: "filter_env \<Rightarrow> config_readers \<Rightarrow> yaml \<Rightarrow> filter_error + messages_format_config" where
  "messages_format_factory env rd config = and_then (read_messages_format rd config) (messages_format_build_config (fe_px env))"

definition protocol_factory :: "filter_env \<Rightarrow> config_readers \<Rightarrow> yaml \<Rightarrow> filter_error + str" where
  "protocol_factory env rd config = and_then (read_protocol rd config) (protocol_build_config (fe_header_value env))"

definition stream_events_factory :: "filter_env \<Rightarrow> config_readers \<Rightarrow> yaml \<Rightarrow> filter_error + nat" where
  "stream_events_factory env rd config =
     and_then (read_stream_events rd config) (stream_events_build_config (fe_max_json_body_bytes env))"

definition to_openai_factory :: "filter_env \<Rightarrow> config_readers \<Rightarrow> yaml \<Rightarrow> filter_error + nat" where
  "to_openai_factory env rd config = and_then (read_to_openai rd config) (to_openai_build_config (fe_px env))"

definition anthropic_validate_factory :: "filter_env \<Rightarrow> config_readers \<Rightarrow> yaml \<Rightarrow> filter_error + nat" where
  "anthropic_validate_factory env rd config =
     and_then (read_anthropic_validate rd config) (anthropic_validate_build_config (fe_px env))"

definition responses_format_factory :: "filter_env \<Rightarrow> config_readers \<Rightarrow> yaml \<Rightarrow> filter_error + responses_format_config" where
  "responses_format_factory env rd config =
     and_then (read_responses_format rd config) (responses_format_build_config (fe_px env))"

definition model_rewrite_factory :: "filter_env \<Rightarrow> config_readers \<Rightarrow> yaml \<Rightarrow> filter_error + model_rewrite_config" where
  "model_rewrite_factory env rd config =
     and_then (read_model_rewrite rd config) (\<lambda>cfg.
       and_then (mr_validate_config (fe_px env) (fe_header_name_ok env) cfg) (\<lambda>_. Inr cfg))"

definition conversations_factory :: "filter_env \<Rightarrow> config_readers \<Rightarrow> yaml \<Rightarrow> filter_error + conversations_config" where
  "conversations_factory env rd config =
     and_then (read_conversations rd config) (\<lambda>cfg.
       and_then (validate_conversations_config (fe_urls env) cfg) (\<lambda>_. Inr cfg))"

definition response_store_factory :: "filter_env \<Rightarrow> config_readers \<Rightarrow> yaml \<Rightarrow> filter_error + response_store_config" where
  "response_store_factory env rd config =
     and_then (read_response_store rd config) (\<lambda>cfg. and_then (validate_config (fe_urls env) cfg) (\<lambda>_. Inr cfg))"

definition rehydrate_factory :: "config_readers \<Rightarrow> yaml \<Rightarrow> filter_error + unit" where
  "rehydrate_factory rd config = read_rehydrate rd (if config = YNull then YMapping [] else config)"

definition proxy_factory :: "filter_env \<Rightarrow> config_readers \<Rightarrow> yaml \<Rightarrow> filter_error + nat" where
  "proxy_factory env rd config =
     and_then (if config = YNull then Inr (fe_max_json_body_bytes env) else read_proxy rd config)
       (proxy_build_config (fe_px env))"

text \<open>The factory of a filter, as far as the pipeline sees the filter it makes.\<close>

definition make_filter :: "filter_env \<Rightarrow> config_readers \<Rightarrow> nat \<Rightarrow> ai_filter \<Rightarrow> yaml \<Rightarrow> filter_error + filter_traits" where
  "make_filter env rd now f config =
     (let d = fe_defaults env; max_json = fe_max_json_body_bytes env
      in case f of
        A2aFilter \<Rightarrow> map_sum id (a2a_traits d) (a2a_factory env rd now config)
      | McpFilter \<Rightarrow> map_sum id (case_sum (mcp_traits d) (mcp_broker_traits d)) (mcp_factory env rd config)
      | AiGuardrailsFilter \<Rightarrow>
          map_sum id (\<lambda>_. guardrails_traits d) (guardrails_from_config (read_guardrails rd) (read_nemo rd) config)
      | ModelToHeaderFilter \<Rightarrow>
          map_sum id model_to_header_traits (model_to_header_from_config (read_model_header rd) (fe_json_body_field env) config)
      | PromptEnrichFilter \<Rightarrow> map_sum id (prompt_enrich_traits d) (prompt_enrich_factory env rd config)
      | TokenUsageHeadersFilter \<Rightarrow> Inr (token_usage_traits d)
      | AnthropicMessagesFormatFilter \<Rightarrow> map_sum id (messages_format_traits d) (messages_format_factory env rd config)
      | AnthropicMessagesProtocolFilter \<Rightarrow> map_sum id (\<lambda>_. protocol_traits d) (protocol_factory env rd config)
      | AnthropicStreamEventsFilter \<Rightarrow> map_sum id (\<lambda>_. stream_events_traits d) (stream_events_factory env rd config)
      | AnthropicToOpenaiFilter \<Rightarrow> map_sum id (to_openai_traits d) (to_openai_factory env rd config)
      | AnthropicValidateFilter \<Rightarrow> map_sum id (anthropic_validate_traits d) (anthropic_validate_factory env rd config)
      | ResponsesFormatFilter \<Rightarrow> map_sum id (responses_format_traits d) (responses_format_factory env rd config)
      | ModelRewriteFilter \<Rightarrow> map_sum id (model_rewrite_traits d) (model_rewrite_factory env rd config)
      | OpenaiResponsesValidateFilter \<Rightarrow> Inr (responses_validate_traits d max_json)
      | OpenaiConversationsFilter \<Rightarrow> map_sum id (\<lambda>_. conversations_traits d max_json) (conversations_factory env rd config)
      | ResponseStoreFilter \<Rightarrow> map_sum id (\<lambda>_. response_store_traits d max_json) (response_store_factory env rd config)
      | RehydrateFilter \<Rightarrow> map_sum id (\<lambda>_. rehydrate_traits d max_json) (rehydrate_factory rd config)
      | ResponsesProxyFilter \<Rightarrow> map_sum id (proxy_traits d) (proxy_factory env rd config))"

section \<open>Every filter bears its name and bounds its buffers\<close>

text \<open>
  What is relied on: the check of a body limit accepts no limit above the largest one, and neither the
  defaults of the trait nor the wrapped filter of \<open>model_to_header\<close> buffer without one.
\<close>

definition bounded_mode :: "nat \<Rightarrow> body_mode \<Rightarrow> bool" where
  "bounded_mode n m = (case m of Stream \<Rightarrow> True | StreamBuffer None \<Rightarrow> False | StreamBuffer (Some k) \<Rightarrow> k \<le> n)"

definition bounded_traits :: "nat \<Rightarrow> filter_traits \<Rightarrow> bool" where
  "bounded_traits n t \<longleftrightarrow> bounded_mode n (ft_request_mode t) \<and> bounded_mode n (ft_response_mode t)"

lemma bounded_modes [simp]:
  "bounded_mode n Stream" "bounded_mode n (buffered k) \<longleftrightarrow> k \<le> n"
  by (simp_all add: bounded_mode_def)

definition checks_limits :: "filter_env \<Rightarrow> bool" where
  "checks_limits env \<longleftrightarrow>
     (\<forall>filter k. check_max_body_bytes (fe_px env) filter k = Inr () \<longrightarrow> k \<le> fe_max_json_body_bytes env) \<and>
     (\<forall>config inner. fe_json_body_field env config = Inr inner \<longrightarrow>
        bounded_traits (fe_max_json_body_bytes env) (model_to_header_traits inner)) \<and>
     bounded_traits (fe_max_json_body_bytes env) (fe_defaults env) \<and>
     guardrails_max_body_bytes \<le> fe_max_json_body_bytes env"

text \<open>The name under which a filter is registered.\<close>

lemma registered_under:
  "(name, f) \<in> set registered \<longleftrightarrow>
     (name, f) \<in> set
      [(''a2a'', A2aFilter), (''mcp'', McpFilter), (''ai_guardrails'', AiGuardrailsFilter),
       (''model_to_header'', ModelToHeaderFilter), (''prompt_enrich'', PromptEnrichFilter),
       (''token_usage_headers'', TokenUsageHeadersFilter),
       (''anthropic_messages_format'', AnthropicMessagesFormatFilter),
       (''anthropic_messages_protocol'', AnthropicMessagesProtocolFilter),
       (''anthropic_stream_events'', AnthropicStreamEventsFilter), (''anthropic_to_openai'', AnthropicToOpenaiFilter),
       (''anthropic_validate'', AnthropicValidateFilter), (''openai_responses_format'', ResponsesFormatFilter),
       (''openai_responses_model_rewrite'', ModelRewriteFilter),
       (''openai_responses_validate'', OpenaiResponsesValidateFilter),
       (''openai_conversations'', OpenaiConversationsFilter), (''openai_response_store'', ResponseStoreFilter),
       (''openai_responses_rehydrate'', RehydrateFilter), (''responses_proxy'', ResponsesProxyFilter)]"
proof -
  have "registered =
      [(''a2a'', A2aFilter), (''mcp'', McpFilter), (''ai_guardrails'', AiGuardrailsFilter),
       (''model_to_header'', ModelToHeaderFilter), (''prompt_enrich'', PromptEnrichFilter),
       (''token_usage_headers'', TokenUsageHeadersFilter),
       (''anthropic_messages_format'', AnthropicMessagesFormatFilter),
       (''anthropic_messages_protocol'', AnthropicMessagesProtocolFilter),
       (''anthropic_stream_events'', AnthropicStreamEventsFilter), (''anthropic_to_openai'', AnthropicToOpenaiFilter),
       (''anthropic_validate'', AnthropicValidateFilter), (''openai_responses_format'', ResponsesFormatFilter),
       (''openai_responses_model_rewrite'', ModelRewriteFilter),
       (''openai_responses_validate'', OpenaiResponsesValidateFilter),
       (''openai_conversations'', OpenaiConversationsFilter), (''openai_response_store'', ResponseStoreFilter),
       (''openai_responses_rehydrate'', RehydrateFilter), (''responses_proxy'', ResponsesProxyFilter)]"
    by code_simp
  then show ?thesis by (simp only:)
qed

text \<open>The filters of the metadata contract are those that are registered; the broker is made by the factory of MCP.\<close>

fun contract_of :: "ai_filter \<Rightarrow> proxy_filter set" where
  "contract_of A2aFilter = {A2a_filter}"
| "contract_of McpFilter = {Mcp_filter, Broker_filter}"
| "contract_of AiGuardrailsFilter = {Guardrails_filter}"
| "contract_of ModelToHeaderFilter = {Model_header_filter}"
| "contract_of PromptEnrichFilter = {Prompt_enrich_filter}"
| "contract_of TokenUsageHeadersFilter = {Token_headers_filter}"
| "contract_of AnthropicMessagesFormatFilter = {Messages_format_filter}"
| "contract_of AnthropicMessagesProtocolFilter = {Protocol_filter}"
| "contract_of AnthropicStreamEventsFilter = {Stream_events_filter}"
| "contract_of AnthropicToOpenaiFilter = {To_openai_filter}"
| "contract_of AnthropicValidateFilter = {Anthropic_validate_filter}"
| "contract_of ResponsesFormatFilter = {Responses_format_filter}"
| "contract_of ModelRewriteFilter = {Model_rewrite_filter}"
| "contract_of OpenaiResponsesValidateFilter = {Responses_validate_filter}"
| "contract_of OpenaiConversationsFilter = {Conversations_filter}"
| "contract_of ResponseStoreFilter = {Response_store_filter}"
| "contract_of RehydrateFilter = {Rehydrate_filter}"
| "contract_of ResponsesProxyFilter = {Responses_proxy_filter}"

lemma contract_covers_registered: "f \<in> (\<Union>(_, r) \<in> set registered. contract_of r)"
proof -
  have "\<exists>r. f \<in> contract_of r" by (cases f) (metis contract_of.simps insertCI)+
  then show ?thesis using registered_once(2) by fastforce
qed

lemmas traits_defs =
  a2a_traits_def mcp_traits_def mcp_broker_traits_def guardrails_traits_def model_to_header_traits_def
  prompt_enrich_traits_def token_usage_traits_def messages_format_traits_def protocol_traits_def stream_events_traits_def
  to_openai_traits_def anthropic_validate_traits_def responses_format_traits_def model_rewrite_traits_def
  responses_validate_traits_def conversations_traits_def response_store_traits_def rehydrate_traits_def proxy_traits_def

lemma made_under_its_name:
  assumes "(name, f) \<in> set registered" and "make_filter env rd now f config = Inr t"
  shows "ft_name t = name"
  using assms(1) unfolding registered_under
  using assms(2) by (auto simp: make_filter_def Let_def traits_defs dest!: map_sum_InrD split: sum.splits)

text \<open>Each factory checks the limit with which its filter buffers.\<close>

lemma a2a_limit_checked:
  assumes "a2a_from_config px now cfg = Inr f"
  shows "\<exists>name. check_max_body_bytes px name (a2a_max_body_bytes (fst f)) = Inr ()"
  using assms by (auto simp: a2a_from_config_def a2a_build_config_def Let_def and_then_Inr_iff dest!: map_sum_InrD)

lemma mcp_limit_checked:
  assumes "mcp_build_config px cfg = Inr cfg'"
  shows "\<exists>name. check_max_body_bytes px name (mcp_max_body_bytes cfg') = Inr ()"
  using assms by (auto simp: mcp_build_config_def Let_def and_then_Inr_iff)

lemma broker_limit_checked:
  assumes "broker_from_config px u cfg = Inr f"
  shows "\<exists>name. check_max_body_bytes px name (bf_max_body_bytes f) = Inr ()"
  using assms by (auto simp: broker_from_config_def broker_build_config_def and_then_Inr_iff)

lemma prompt_enrich_limit_checked:
  assumes "pe_from_config px cfg = Inr f"
  shows "\<exists>name. check_max_body_bytes px name (pf_max_body_bytes f) = Inr ()"
  using assms by (auto simp: pe_from_config_def pe_validate_config_def and_then_Inr_iff split: if_splits)

lemma format_limits_checked:
  shows "messages_format_build_config px cfg = Inr cfg' \<Longrightarrow>
           \<exists>name. check_max_body_bytes px name (mf_max_body_bytes cfg') = Inr ()"
    and "responses_format_build_config px rcfg = Inr rcfg' \<Longrightarrow>
           \<exists>name. check_max_body_bytes px name (rf_max_body_bytes rcfg') = Inr ()"
  by (auto simp: messages_format_build_config_def responses_format_build_config_def and_then_Inr_iff)

lemma model_rewrite_limit_checked:
  assumes "mr_validate_config px ok cfg = Inr u"
  shows "\<exists>name. check_max_body_bytes px name (mr_max_body_bytes cfg) = Inr ()"
  using assms by (auto simp: mr_validate_config_def and_then_Inr_iff split: if_splits)

lemma plain_limits_checked:
  shows "to_openai_build_config px k = Inr n \<Longrightarrow> \<exists>name. check_max_body_bytes px name n = Inr ()"
    and "anthropic_validate_build_config px k = Inr n \<Longrightarrow> \<exists>name. check_max_body_bytes px name n = Inr ()"
    and "proxy_build_config px k = Inr n \<Longrightarrow> \<exists>name. check_max_body_bytes px name n = Inr ()"
  by (auto simp: to_openai_build_config_def anthropic_validate_build_config_def proxy_build_config_def and_then_Inr_iff)

lemmas limits_checked =
  a2a_limit_checked mcp_limit_checked broker_limit_checked prompt_enrich_limit_checked format_limits_checked
  model_rewrite_limit_checked plain_limits_checked

lemmas factory_defs =
  a2a_factory_def broker_factory_def mcp_factory_def prompt_enrich_factory_def messages_format_factory_def
  protocol_factory_def stream_events_factory_def to_openai_factory_def anthropic_validate_factory_def
  responses_format_factory_def model_rewrite_factory_def conversations_factory_def response_store_factory_def
  rehydrate_factory_def proxy_factory_def

lemma made_buffers_are_bounded:
  assumes env: "checks_limits env" and made: "make_filter env rd now f config = Inr t"
  shows "bounded_traits (fe_max_json_body_bytes env) t"
proof -
  let ?n = "fe_max_json_body_bytes env"
  have limit: "k \<le> ?n" if "\<exists>name. check_max_body_bytes (fe_px env) name k = Inr ()" for k
    using env that by (auto simp: checks_limits_def)
  have rest: "bounded_mode ?n (ft_response_mode (fe_defaults env))" "bounded_mode ?n (ft_request_mode (fe_defaults env))"
      "guardrails_max_body_bytes \<le> ?n"
    using env by (simp_all add: checks_limits_def bounded_traits_def)
  note [simp] = make_filter_def Let_def bounded_traits_def traits_defs and_then_Inr_iff
  show ?thesis
  proof (cases f)
    case ModelToHeaderFilter
    with assms show ?thesis
      by (auto simp del: bounded_traits_def model_to_header_traits_def
            simp: checks_limits_def model_to_header_from_config_def dest!: map_sum_InrD)
  qed (use made rest in \<open>auto simp: factory_defs split: if_splits sum.splits
          dest!: map_sum_InrD limits_checked limit\<close>)
qed

text \<open>The condition can hold: no filter is given more than the largest body, and nothing else buffers.\<close>

lemma checks_limits_example:
  "checks_limits env"
  if "check_max_body_bytes (fe_px env) = (\<lambda>_ k. if k \<le> 1048576 then Inr () else Inl ''too large'')"
    "fe_json_body_field env = (\<lambda>_. Inl ''no filter'')" "fe_max_json_body_bytes env = 1048576"
    "ft_request_mode (fe_defaults env) = Stream" "ft_response_mode (fe_defaults env) = Stream"
  using that by (simp add: checks_limits_def bounded_traits_def guardrails_max_body_bytes_def split: if_splits)

end
