(* ===== verification/Spec2Isabelle.thy ===== *)
theory Spec2Isabelle
  imports Responses_Pipeline Messages_Format Anthropic_Body Anthropic_Protocol A2a_Capture Anthropic_Translation Chat_Translation Responses_Turns Conversation_Filter Store_Refinement Store_Connect Server_Start Filter_Discovery Classifier_Copy Dev_Server Thin_Filters Filter_Metadata Filter_Factory
begin

text \<open>
  A model of the AI proxy: its filters for the OpenAI Responses and Conversations APIs, for Anthropic
  Messages, for A2A and MCP, the stores behind them, and the server around them, translated from the Rust
  sources, with what makes them correct. Paths are below \<open>src/\<close>.

  \<^bold>\<open>The program.\<close> A request passes a chain of filters. Each is a set of hooks (request, request
  body, response, response body) over a shared context: the request line, headers to add or remove, the
  response header, and a map of durable metadata that is the only channel between most filters. The
  Responses API filters classify a request (\<open>openai_responses_format\<close>), check and enrich it
  (\<open>openai_responses_validate\<close>), rewrite its model (\<open>openai_responses_model_rewrite\<close>), fetch the
  conversation it continues (\<open>openai_responses_rehydrate\<close>) and write it out with its history
  (\<open>responses_proxy\<close>), while \<open>openai_response_store\<close> keeps and serves responses and
  \<open>openai_conversations\<close> serves conversations, both over SQLite or PostgreSQL. The Anthropic filters
  recognise a Messages request, translate it to Chat Completions and translate the answer back, as one body
  or as an event stream. The A2A and MCP filters read JSON-RPC, promote what they find and, for A2A, route
  later requests of a task to the cluster that knows it; the MCP broker answers from a static catalog of
  tools. The server builds a pipeline for each listener, shows its configuration, and reloads it while it
  runs.

  \<^bold>\<open>Theories and sources.\<close>

    \<^item> Shared: \<open>Prelude\<close> (results, strings, numbers as text, loops that may fail), \<open>Utf8\<close>, \<open>Hex\<close>,
      \<open>Json\<close> (\<open>serde_json::Value\<close>), \<open>Filter_Ctx\<close> and \<open>Praxis\<close> (the context and the parts of the
      crate \<open>praxis_filter\<close> the filters call), \<open>Chunked\<close> (the contract of an incremental scanner).
    \<^item> Event streams: \<open>Sse_Frame\<close> is \<open>apis/src/openai/sse/frame.rs\<close>; \<open>Responses_Event\<close> and
      \<open>Responses_Parser\<close> are \<open>sse/responses\<close>; \<open>Sse_Lines\<close> is the specification by lines that the parser
      refines, \<open>Sse_Render\<close> the writers and their inverse, \<open>Responses_Accept\<close> what is accepted.
    \<^item> Requests: \<open>Classifier\<close> is \<open>apis/src/classifier\<close>; \<open>Responses_Format\<close>, \<open>Responses_Validate\<close>,
      \<open>Model_Rewrite\<close>, \<open>Rehydrate\<close> and \<open>Responses_State\<close> are the filters under
      \<open>apis/src/openai/responses\<close>; \<open>Responses_Pipeline\<close> joins classification and validation.
    \<^item> Storage: \<open>Store\<close>, \<open>Store_Schema\<close>, \<open>Store_Backends\<close> and \<open>Store_Items\<close> are \<open>apis/src/store\<close> as
      operations on lists of rows. \<open>Store_Sql\<close> has the same operations as \<open>sqlite.rs\<close> and \<open>postgres.rs\<close>
      send them: the text of each statement, the values bound in their order, the columns read. \<open>Sql\<close> is
      what is taken of SQL, \<open>Store_Statements\<close> relates texts and meanings, and \<open>Store_Refinement\<close> shows
      that the statements of both backends do what the operations say; \<open>Store_Connect\<close> is how a backend
      is opened. \<open>Ip_Addr\<close> and \<open>Store_Config\<close> are the configuration checks, \<open>Response_Store\<close> and
      \<open>Input_Items\<close> the filter; \<open>Responses_Turns\<close> joins store, rehydrate and proxy over several requests.
    \<^item> Conversations: \<open>Conversations\<close> (\<open>handlers.rs\<close>), \<open>Conversation_Config\<close> (\<open>config.rs\<close>, a copy of the
      checks of the store with some differences), \<open>Conversation_Filter\<close> (\<open>filter.rs\<close>), \<open>Conversation_Sync\<close> and \<open>Conversation_Service\<close> (a store served request after request).
    \<^item> Anthropic: \<open>Anthropic_Request\<close>, \<open>Anthropic_Response\<close> (\<open>to_openai\<close>), \<open>Anthropic_Stream\<close>
      (\<open>stream_events\<close>), \<open>Messages_Format\<close> (the three front filters); \<open>Anthropic_Translation\<close>,
      \<open>Anthropic_Protocol\<close>, \<open>Anthropic_Chunking\<close> and \<open>Anthropic_Body\<close> hold what they promise.
    \<^item> Chat Completions: \<open>Chat_Request\<close>, \<open>Chat_Response\<close>, \<open>Chat_Translation\<close>
      (\<open>apis/src/openai/translation/chat_completions.rs\<close>).
    \<^item> Agents: \<open>A2a\<close>, \<open>A2a_Sse\<close>, \<open>A2a_Routes\<close>, \<open>A2a_Capture\<close> (\<open>filters/src/agentic/a2a\<close>); \<open>Mcp\<close>
      and \<open>Mcp_Broker\<close> (\<open>filters/src/agentic/mcp\<close>).
    \<^item> Other filters: \<open>Prompt_Enrich\<close>, \<open>Token_Usage\<close> and \<open>Thin_Filters\<close> (\<open>filters/src\<close>,
      \<open>apis/src/token_usage\<close>). \<open>Filter_Metadata\<close> has all filters together, \<open>Filter_Factory\<close> their
      \<open>from_config\<close> and what they tell the pipeline of themselves.
    \<^item> Server: \<open>Server_Dump\<close>, \<open>Server_Pipelines\<close>, \<open>Server_Reload\<close>, \<open>Server_Start\<close>
      (\<open>server/src\<close>); \<open>Filter_Discovery\<close> is its build script \<open>server/build.rs\<close>.
    \<^item> Around the program: \<open>Classifier_Copy\<close> is \<open>apis/src/openai/responses/classifier\<close>, an older copy of
      the classifier that no module declares; \<open>Readme_Sync\<close>, \<open>Dep_Lint\<close> and \<open>Dev_Server\<close> are the tasks
      of \<open>xtask\<close>.

  \<^bold>\<open>How code is read.\<close> A struct is a record, an enum a datatype, a function a definition with every
  branch and early return; a \<open>Result\<close> is a sum with the error on the left, a panic is \<open>None\<close>. Bytes and
  strings are lists of characters with code points below 256, a string holding the bytes of its UTF-8 form.
  A \<open>HashMap\<close> is a map, or the list of its entries in the order of an iteration where that order can be
  seen. Counters are natural numbers with the saturation and the overflow of their width written out;
  numbers of JSON and token counts are machine words. What is only logged is left out, or returned where
  the warning is the purpose. State that outlives a call is passed and returned: metadata in the context, the
  route store, the database as lists of rows with an error while it is broken. Steps that other threads or
  clients may come between are step relations: the two sections of a route lookup under its lock, the
  requests served by a store, the event loop of the file watcher. A request to a store is one step there; where two
  requests to one conversation that overlap can spoil its cache, a lemma shows how.

  \<^bold>\<open>Parameters.\<close> Code that is not in the repository is an argument: \<open>externals\<close> (JSON text,
  header text, status classes), \<open>praxis\<close> (JSON-RPC parsing, result sets, checks of names and sizes),
  \<open>url_fns\<close>, \<open>connector\<close> and \<open>sql_engine\<close> (percent decoding, database drivers), \<open>broker_fns\<close>, \<open>usage_readers\<close> (derived
  deserialisation), \<open>pipeline_fns\<close> and \<open>host\<close> (pipelines, registries, logging, protocols), \<open>config_readers\<close> and \<open>filter_env\<close>
  (what the factories of filters use). Clocks and
  identifier generators are arguments of each call. Properties that need more than their types state it as
  a hypothesis (what is written to a column is read back, for instance) and are applied to a concrete instance
  in the lemma that follows them.

  \<^bold>\<open>Interfaces.\<close> \<open>chunked_scanner\<close> is the contract of every incremental scanner: the cuts
  between chunks do not matter. The frame parser, with and without its event budget, and the A2A scanner
  provide it; the stream properties of the Responses parser and of the A2A capture are proved from it.
  \<open>response_store\<close> and \<open>conversation_item_store\<close> are the laws of the store the handlers rely on; both
  backends provide them. \<open>metadata_owner\<close> is what a filter owes the others; every filter provides it.

  \<^bold>\<open>What is shown.\<close>

    \<^item> Streams: the parser gives the frames of the whole stream however it is cut, accepts every
      well formed stream within its budgets, and bounds what it retains; the Anthropic stream is a legal
      sequence of Messages events when the upstream sends no text after a tool call and no arguments before the delta that
      names the call, and does not depend on the cuts either.
    \<^item> Translations: order and content of conversations survive, up to what \<open>Anthropic_Translation\<close> lists, and an
      assistant's turn survives the way there and back unless it is a refusal; the resource made of an answer
      repeats every setting of the request; exactly one of the two response translators acts.
    \<^item> Storage: the statements of both backends do what the store promises; a conversation over several requests
      sends the whole history; what is deleted is gone;
      tenants do not see each other; cached messages are those of the items when requests are served one after another;
      pages of input items show each item once and end; a strict database URL names no local server.
    \<^item> Requests: the rules for creating a response hold for what is released; a POST is handled
      once whichever hook runs first; errors come back to the client as a stream its parser reads; token counts are read and shown
      as they are.
    \<^item> Agents: routes are learned from streams however they are cut, used by the next request and live
      exactly until their deadline; an MCP request that is released has passed its header checks; the broker
      answers every request that has a body itself, and offers the tools of its catalog.
    \<^item> Server: a dump shows the pipelines and no secrets; validation predicts the start; a reload is all
      or nothing and the last change of the file that is reported to the watcher is taken over.
    \<^item> All filters: none overwrites a fact another one owns, and none changes the tenant; each bears the name
      it is registered under and buffers no more than the largest body.
    \<^item> Build and tasks: what is discovered and registered; a repaired table of examples passes its own check
      when the marker is there; where these tools miss what they look for.

  \<^bold>\<open>Bounds and termination.\<close> There is no fuel. Loops over input are structural or have a measure; the
  loop that collects the items of a conversation page by page is a \<open>partial_function\<close> and shown to return
  for every store the service can reach; the watcher has a measure on its pending work. Block indices
  panic beyond 32 bits, positions and token sums saturate at 64 bits, and the properties hold across these
  limits or name the room they need.

  \<^bold>\<open>Not modelled.\<close> \<open>apis/src/openai/translation/mod.rs\<close> and \<open>store/trait_def.rs\<close> declare modules and
  signatures and hold tests; the traits of the second are the two store locales. Derived deserialisation,
  YAML parsing, threads, sockets, the pool of database connections and logging are left to the crates that
  do them, and so is the meaning of SQL: that a driver runs a statement by its meaning is a hypothesis.
\<close>

section \<open>Properties across filters\<close>

lemma classified_stream:
  assumes "from_slice ext body = Inr v" and "body \<noteq> []"
  shows "c_stream (classify_request_body ext body) = get_bool v ''stream''"
  using assms by (cases v) (auto simp: classify_request_body_def get_bool_def empty_result_def)


definition stream_ext :: externals where
  "stream_ext = null_ext\<lparr>from_slice := (\<lambda>_. Inr (jobj [(''stream'', JBool True)]))\<rparr>"


end
